(* ===== verification/Prelude.thy ===== *)
theory Prelude
  imports Main "HOL-Library.Char_ord" "HOL-Library.List_Lexorder" "HOL-Library.Word"
begin

section \<open>Shared vocabulary of the development\<close>

text \<open>
  This theory holds what every component uses: Go errors as values, early returns, calls to
  the Kubernetes API, and a few lemmas on lists and maps.

  A Go function that returns early is a chain of steps of type \<open>'r + 'a\<close>: \<open>Inl r\<close> says that
  the function has returned \<open>r\<close>, \<open>Inr a\<close> that it goes on with \<open>a\<close>. The chain is built with
  \<open>seqf\<close>, an \<open>if c { return r }\<close> is \<open>guardf c r\<close>, and \<open>resultf\<close> reads the returned value off
  the end of the chain.

  A call to the API server (the client-go interfaces, which are not part of the repository) is
  a parameter of the model: a function \<open>'w \<Rightarrow> (go_error + 'a) \<times> 'w\<close> on a world \<open>'w\<close> that the
  model never looks into, so that it may hold the cluster, other writers and the network.
\<close>

named_theorems flow_simps \<open>decomposition of early-return chains\<close>
named_theorems call_simps \<open>decomposition of API calls\<close>
named_theorems within_intros \<open>the steps that a run may take\<close>

subsection \<open>Go errors\<close>

text \<open>
  The reasons are those the code asks for with \<open>apierrors.IsNotFound\<close>, \<open>IsAlreadyExists\<close>,
  \<open>IsConflict\<close> and \<open>IsForbidden\<close>. \<open>ErrNew\<close> is \<open>errors.New\<close> and \<open>Errorf\<close> is \<open>fmt.Errorf\<close> with
  a wrapped error, through which the reason tests look.
\<close>

datatype api_reason = ReasonNotFound | ReasonAlreadyExists | ReasonConflict | ReasonForbidden
  | ReasonOther string

datatype go_error = ApiStatus api_reason | ErrNew string | Errorf string go_error

fun reasonForError :: "go_error \<Rightarrow> api_reason option" where
  "reasonForError (ApiStatus r) = Some r"
| "reasonForError (ErrNew _) = None"
| "reasonForError (Errorf _ e) = reasonForError e"

definition isNotFound :: "go_error \<Rightarrow> bool" where
  "isNotFound e \<longleftrightarrow> reasonForError e = Some ReasonNotFound"

definition isAlreadyExists :: "go_error \<Rightarrow> bool" where
  "isAlreadyExists e \<longleftrightarrow> reasonForError e = Some ReasonAlreadyExists"

definition isConflict :: "go_error \<Rightarrow> bool" where
  "isConflict e \<longleftrightarrow> reasonForError e = Some ReasonConflict"

definition isForbidden :: "go_error \<Rightarrow> bool" where
  "isForbidden e \<longleftrightarrow> reasonForError e = Some ReasonForbidden"

fun rootError :: "go_error \<Rightarrow> go_error" where
  "rootError (Errorf _ e) = rootError e"
| "rootError e = e"

lemma isNotFound_simps [simp]:
  "isNotFound (ApiStatus r) \<longleftrightarrow> r = ReasonNotFound"
  "\<not> isNotFound (ErrNew m)"
  "isNotFound (Errorf m e) \<longleftrightarrow> isNotFound e"
  by (simp_all add: isNotFound_def)

lemma isAlreadyExists_simps [simp]:
  "isAlreadyExists (ApiStatus r) \<longleftrightarrow> r = ReasonAlreadyExists"
  "\<not> isAlreadyExists (ErrNew m)"
  "isAlreadyExists (Errorf m e) \<longleftrightarrow> isAlreadyExists e"
  by (simp_all add: isAlreadyExists_def)

lemma isConflict_simps [simp]:
  "isConflict (ApiStatus r) \<longleftrightarrow> r = ReasonConflict"
  "\<not> isConflict (ErrNew m)"
  "isConflict (Errorf m e) \<longleftrightarrow> isConflict e"
  by (simp_all add: isConflict_def)

lemma isForbidden_simps [simp]:
  "isForbidden (ApiStatus r) \<longleftrightarrow> r = ReasonForbidden"
  "\<not> isForbidden (ErrNew m)"
  "isForbidden (Errorf m e) \<longleftrightarrow> isForbidden e"
  by (simp_all add: isForbidden_def)

lemma api_reasons_exclusive:
  "isNotFound e \<Longrightarrow> \<not> isAlreadyExists e"
  "isNotFound e \<Longrightarrow> \<not> isConflict e"
  "isAlreadyExists e \<Longrightarrow> \<not> isConflict e"
  by (auto simp: isNotFound_def isAlreadyExists_def isConflict_def)

subsection \<open>Early returns\<close>

definition seqf :: "'r + 'a \<Rightarrow> ('a \<Rightarrow> 'r + 'b) \<Rightarrow> 'r + 'b" where
  "seqf m f = (case m of Inl r \<Rightarrow> Inl r | Inr a \<Rightarrow> f a)"

definition guardf :: "bool \<Rightarrow> 'r \<Rightarrow> 'r + unit" where
  "guardf c r = (if c then Inl r else Inr ())"

definition resultf :: "'r + 'r \<Rightarrow> 'r" where
  "resultf m = (case m of Inl r \<Rightarrow> r | Inr r \<Rightarrow> r)"

lemma seqf_simps [simp]:
  "seqf (Inl r) f = Inl r"
  "seqf (Inr a) f = f a"
  by (simp_all add: seqf_def)

lemma guardf_simps [simp]:
  "c \<Longrightarrow> guardf c r = Inl r"
  "\<not> c \<Longrightarrow> guardf c r = Inr ()"
  by (simp_all add: guardf_def)

lemma resultf_simps [simp]:
  "resultf (Inl r) = r"
  "resultf (Inr s) = s"
  by (simp_all add: resultf_def)

lemma seqf_Inr_iff [flow_simps]:
  "seqf m f = Inr b \<longleftrightarrow> (\<exists>a. m = Inr a \<and> f a = Inr b)"
  by (cases m) auto

lemma seqf_Inl_iff [flow_simps]:
  "seqf m f = Inl r \<longleftrightarrow> m = Inl r \<or> (\<exists>a. m = Inr a \<and> f a = Inl r)"
  by (cases m) auto

lemma guardf_Inr_iff [flow_simps]: "guardf c r = Inr u \<longleftrightarrow> \<not> c"
  by (simp add: guardf_def)

lemma guardf_Inl_iff [flow_simps]: "guardf c r = Inl s \<longleftrightarrow> c \<and> s = r"
  by (auto simp: guardf_def)

lemma case_sum_eq [flow_simps]:
  "(case r of Inl e \<Rightarrow> f e | Inr a \<Rightarrow> g a) = v \<longleftrightarrow> (\<exists>e. r = Inl e \<and> f e = v) \<or> (\<exists>a. r = Inr a \<and> g a = v)"
  by (cases r) auto

lemma case_option_eq [flow_simps]:
  "(case r of None \<Rightarrow> f | Some a \<Rightarrow> g a) = v \<longleftrightarrow> (r = None \<and> f = v) \<or> (\<exists>a. r = Some a \<and> g a = v)"
  by (cases r) auto

subsection \<open>Calls\<close>

type_synonym ('w, 'a) call = "'w \<Rightarrow> (go_error + 'a) \<times> 'w"

text \<open>
  \<open>callw c h k\<close> makes the call \<open>c\<close>, goes on with \<open>h\<close> when it returned an error and with \<open>k\<close>
  otherwise: \<open>x, err := c(); if err != nil { h } ; k\<close>.
\<close>

definition callw :: "('w, 'a) call \<Rightarrow> (go_error \<Rightarrow> 'w \<Rightarrow> 'b) \<Rightarrow> ('a \<Rightarrow> 'w \<Rightarrow> 'b) \<Rightarrow> 'w \<Rightarrow> 'b" where
  "callw c h k w = (case c w of (Inl e, w') \<Rightarrow> h e w' | (Inr a, w') \<Rightarrow> k a w')"

definition okw :: "'a \<Rightarrow> ('w, 'a) call" where
  "okw a w = (Inr a, w)"

definition failw :: "go_error \<Rightarrow> ('w, 'a) call" where
  "failw e w = (Inl e, w)"

lemma okw_simp [simp]: "okw a w = (Inr a, w)"
  by (simp add: okw_def)

lemma failw_simp [simp]: "failw e w = (Inl e, w)"
  by (simp add: failw_def)

lemma callw_Inl [simp]: "c w = (Inl e, w') \<Longrightarrow> callw c h k w = h e w'"
  by (simp add: callw_def)

lemma callw_Inr [simp]: "c w = (Inr a, w') \<Longrightarrow> callw c h k w = k a w'"
  by (simp add: callw_def)

lemma callw_cases [call_simps]:
  "callw c h k w = r \<longleftrightarrow>
     (\<exists>e w'. c w = (Inl e, w') \<and> h e w' = r) \<or> (\<exists>a w'. c w = (Inr a, w') \<and> k a w' = r)"
  by (cases "c w"; cases "fst (c w)") (auto simp: callw_def split: sum.splits)

lemma callw_split:
  "P (callw c h k w) \<longleftrightarrow>
     (\<forall>e w'. c w = (Inl e, w') \<longrightarrow> P (h e w')) \<and> (\<forall>a w'. c w = (Inr a, w') \<longrightarrow> P (k a w'))"
  by (cases "c w"; cases "fst (c w)") (auto simp: callw_def split: sum.splits)

text \<open>
  A function that makes several calls and may return early is a chain of steps
  \<open>'w \<Rightarrow> ('r + 'a) \<times> 'w\<close>: \<open>Inl r\<close> says that it has returned \<open>r\<close>. \<open>bindw\<close> goes on with the value,
  \<open>exitw\<close> returns, \<open>guardw c r\<close> is \<open>if c { return r }\<close>, \<open>tryw c h\<close> makes a call and returns
  \<open>h err\<close> when it fails, \<open>attempt c\<close> makes a call and goes on with its error or its value, and
  \<open>finishw\<close> reads off what was returned.
\<close>

type_synonym ('r, 'w, 'a) step = "'w \<Rightarrow> ('r + 'a) \<times> 'w"

definition bindw :: "('r, 'w, 'a) step \<Rightarrow> ('a \<Rightarrow> ('r, 'w, 'b) step) \<Rightarrow> ('r, 'w, 'b) step" where
  "bindw m f w = (case m w of (Inl r, w') \<Rightarrow> (Inl r, w') | (Inr a, w') \<Rightarrow> f a w')"

definition retw :: "'a \<Rightarrow> ('r, 'w, 'a) step" where
  "retw a w = (Inr a, w)"

definition exitw :: "'r \<Rightarrow> ('r, 'w, 'a) step" where
  "exitw r w = (Inl r, w)"

definition guardw :: "bool \<Rightarrow> 'r \<Rightarrow> ('r, 'w, unit) step" where
  "guardw c r w = (if c then Inl r else Inr (), w)"

definition tryw :: "('w, 'a) call \<Rightarrow> (go_error \<Rightarrow> 'r) \<Rightarrow> ('r, 'w, 'a) step" where
  "tryw c h w = (case c w of (Inl e, w') \<Rightarrow> (Inl (h e), w') | (Inr a, w') \<Rightarrow> (Inr a, w'))"

definition attempt :: "('w, 'a) call \<Rightarrow> ('r, 'w, go_error + 'a) step" where
  "attempt c w = (case c w of (r, w') \<Rightarrow> (Inr r, w'))"

definition liftf :: "'r + 'a \<Rightarrow> ('r, 'w, 'a) step" where
  "liftf r w = (r, w)"

definition finishw :: "('r, 'w, 'r) step \<Rightarrow> 'w \<Rightarrow> 'r \<times> 'w" where
  "finishw m w = (case m w of (Inl r, w') \<Rightarrow> (r, w') | (Inr r, w') \<Rightarrow> (r, w'))"

lemma stepw_simps [simp]:
  "retw a w = (Inr a, w)" "exitw r w = (Inl r, w)" "liftf s w = (s, w)"
  "guardw True r w = (Inl r, w)" "guardw False r w = (Inr (), w)"
  "bindw (retw a) f w = f a w" "bindw (exitw r) f w = (Inl r, w)"
  by (simp_all add: retw_def exitw_def liftf_def guardw_def bindw_def)

lemma bindw_Inr [flow_simps]:
  "bindw m f w = (Inr b, w2) \<longleftrightarrow> (\<exists>a w1. m w = (Inr a, w1) \<and> f a w1 = (Inr b, w2))"
  by (cases "m w"; cases "fst (m w)") (auto simp: bindw_def)

lemma bindw_Inl [flow_simps]:
  "bindw m f w = (Inl r, w2) \<longleftrightarrow> m w = (Inl r, w2) \<or> (\<exists>a w1. m w = (Inr a, w1) \<and> f a w1 = (Inl r, w2))"
  by (cases "m w"; cases "fst (m w)") (auto simp: bindw_def)

lemma bindw_step [simp]:
  "m w = (Inr a, w1) \<Longrightarrow> bindw m f w = f a w1" "m w = (Inl r, w1) \<Longrightarrow> bindw m f w = (Inl r, w1)"
  by (simp_all add: bindw_def)

lemma guardw_Inr [flow_simps]: "guardw c r w = (Inr u, w2) \<longleftrightarrow> \<not> c \<and> w2 = w"
  by (auto simp: guardw_def)

lemma guardw_Inl [flow_simps]: "guardw c r w = (Inl s, w2) \<longleftrightarrow> c \<and> s = r \<and> w2 = w"
  by (auto simp: guardw_def)

lemma tryw_Inr [flow_simps]: "tryw c h w = (Inr a, w2) \<longleftrightarrow> c w = (Inr a, w2)"
  by (cases "c w"; cases "fst (c w)") (auto simp: tryw_def)

lemma tryw_Inl [flow_simps]: "tryw c h w = (Inl r, w2) \<longleftrightarrow> (\<exists>e. c w = (Inl e, w2) \<and> r = h e)"
  by (cases "c w"; cases "fst (c w)") (auto simp: tryw_def)

lemma attempt_eq [flow_simps]: "attempt c w = (s, w2) \<longleftrightarrow> (\<exists>r. c w = (r, w2) \<and> s = Inr r)"
  by (cases "c w") (auto simp: attempt_def)

lemma retw_eq [flow_simps]: "retw a w = (s, w2) \<longleftrightarrow> s = Inr a \<and> w2 = w"
  by auto

lemma exitw_eq [flow_simps]: "exitw r w = (s, w2) \<longleftrightarrow> s = Inl r \<and> w2 = w"
  by auto

lemma liftf_eq [flow_simps]: "liftf t w = (s, w2) \<longleftrightarrow> s = t \<and> w2 = w"
  by auto

lemma case_sum_app [flow_simps]:
  "(case r of Inl e \<Rightarrow> f e | Inr a \<Rightarrow> g a) w = v \<longleftrightarrow> (\<exists>e. r = Inl e \<and> f e w = v) \<or> (\<exists>a. r = Inr a \<and> g a w = v)"
  by (cases r) auto

lemma case_option_app [flow_simps]:
  "(case r of None \<Rightarrow> f | Some a \<Rightarrow> g a) w = v \<longleftrightarrow> (r = None \<and> f w = v) \<or> (\<exists>a. r = Some a \<and> g a w = v)"
  by (cases r) auto

lemma if_app [flow_simps]: "(if c then f else g) w = v \<longleftrightarrow> (c \<and> f w = v) \<or> (\<not> c \<and> g w = v)"
  by simp

lemma finishw_eq [flow_simps]: "finishw m w = (r, w2) \<longleftrightarrow> m w = (Inl r, w2) \<or> m w = (Inr r, w2)"
  by (cases "m w"; cases "fst (m w)") (auto simp: finishw_def)

subsection \<open>The worlds of a run\<close>

text \<open>
  \<open>within R m\<close>: running \<open>m\<close> takes the world along steps of \<open>R\<close>, the steps of the calls of a client.
  \<open>observes R w c r\<close>: the call \<open>c\<close>, made in some world that \<open>R\<close> reaches from \<open>w\<close>, has the result \<open>r\<close>.
\<close>

definition within :: "('w \<times> 'w) set \<Rightarrow> ('r, 'w, 'a) step \<Rightarrow> bool" where
  "within R m \<longleftrightarrow> (\<forall>w. (w, snd (m w)) \<in> R\<^sup>*)"

definition observes :: "('w \<times> 'w) set \<Rightarrow> 'w \<Rightarrow> ('w, 'a) call \<Rightarrow> go_error + 'a \<Rightarrow> bool" where
  "observes R w c r \<longleftrightarrow> (\<exists>w1 w2. (w, w1) \<in> R\<^sup>* \<and> c w1 = (r, w2))"

definition observesGone :: "('w \<times> 'w) set \<Rightarrow> 'w \<Rightarrow> ('w, 'a) call \<Rightarrow> bool" where
  "observesGone R w c \<longleftrightarrow> (\<exists>e. observes R w c (Inl e) \<and> isNotFound e)"

lemma withinD:
  assumes "within R m" "(w0, w) \<in> R\<^sup>*" "m w = (r, w')"
  shows "(w0, w') \<in> R\<^sup>*"
proof -
  have "(w, w') \<in> R\<^sup>*" using assms(1,3) unfolding within_def by (metis snd_conv)
  with assms(2) show ?thesis by (rule rtrancl_trans)
qed

lemma observesI: "c w1 = (r, w2) \<Longrightarrow> (w, w1) \<in> R\<^sup>* \<Longrightarrow> observes R w c r"
  unfolding observes_def by blast

lemma observesI0: "c w = (r, w2) \<Longrightarrow> observes R w c r"
  unfolding observes_def by blast

lemma observes_later: "observes R w1 c r \<Longrightarrow> (w, w1) \<in> R\<^sup>* \<Longrightarrow> observes R w c r"
  unfolding observes_def by (meson rtrancl_trans)

lemma within_call: "(\<And>w. (w, snd (c w)) \<in> R) \<Longrightarrow> within R c"
  by (simp add: within_def r_into_rtrancl)

lemma within_bindw [within_intros]:
  assumes "within R m" "\<And>a. within R (f a)"
  shows "within R (bindw m f)"
  unfolding within_def
proof
  fix w
  obtain r w1 where run: "m w = (r, w1)" by (cases "m w")
  have first: "(w, w1) \<in> R\<^sup>*" using withinD [OF assms(1) _ run] by blast
  show "(w, snd (bindw m f w)) \<in> R\<^sup>*"
  proof (cases r)
    case (Inl x) with run first show ?thesis by simp
  next
    case (Inr a)
    have "(w1, snd (f a w1)) \<in> R\<^sup>*" using assms(2) by (simp add: within_def)
    with Inr run first show ?thesis by (simp add: rtrancl_trans [OF first])
  qed
qed

lemma within_pure [within_intros]:
  "within R (retw a)" "within R (exitw x)" "within R (liftf s)" "within R (guardw c x)"
  by (simp_all add: within_def guardw_def)

lemma within_tryw [within_intros]: "within R c \<Longrightarrow> within R (tryw c h)"
  by (auto simp: within_def tryw_def split: prod.split sum.split) (metis snd_conv)+

lemma within_attempt [within_intros]: "within R c \<Longrightarrow> within R (attempt c)"
  by (simp add: within_def attempt_def split_beta)

lemma within_branches [within_intros]:
  "(P \<Longrightarrow> within R a) \<Longrightarrow> (\<not> P \<Longrightarrow> within R b) \<Longrightarrow> within R (if P then a else b)"
  "(\<And>x. within R (f x)) \<Longrightarrow> (\<And>y. within R (g y)) \<Longrightarrow> within R (case s of Inl x \<Rightarrow> f x | Inr y \<Rightarrow> g y)"
  "within R a \<Longrightarrow> (\<And>x. within R (f x)) \<Longrightarrow> within R (case t of None \<Rightarrow> a | Some x \<Rightarrow> f x)"
  "(\<And>x y. within R (h x y)) \<Longrightarrow> within R (case q of (x, y) \<Rightarrow> h x y)"
  by (auto split: sum.split option.split prod.split)

subsection \<open>Go maps, slices and strings of the code\<close>

text \<open>
  A \<open>map[string]string\<close> that is nil reads like an empty one, so both are the empty map.
  \<open>getS m k\<close> is \<open>m[k]\<close>: the zero value, the empty string, for a missing key.
\<close>

type_synonym strmap = "string \<Rightarrow> string option"

definition getS :: "strmap \<Rightarrow> string \<Rightarrow> string" where
  "getS m k = (case m k of None \<Rightarrow> [] | Some v \<Rightarrow> v)"

lemma getS_upd [simp]: "getS (m(k \<mapsto> v)) k' = (if k' = k then v else getS m k')"
  by (simp add: getS_def)

lemma getS_del [simp]: "getS (m(k := None)) k' = (if k' = k then [] else getS m k')"
  by (simp add: getS_def)

lemma getS_empty [simp]: "getS Map.empty k = []"
  by (simp add: getS_def)

definition optS :: "string option \<Rightarrow> string" where
  "optS x = (case x of None \<Rightarrow> [] | Some v \<Rightarrow> v)"

lemma optS_simps [simp]: "optS None = []" "optS (Some v) = v"
  by (simp_all add: optS_def)

text \<open>The one element of a list that holds exactly one.\<close>

lemma length_1_iff: "length xs = 1 \<longleftrightarrow> (\<exists>x. xs = [x])"
  by (cases xs) auto

lemma filter_singleD:
  assumes "filter P xs = [x]"
  shows "x \<in> set xs" and "P x" and "\<And>y. y \<in> set xs \<Longrightarrow> P y \<Longrightarrow> y = x"
proof -
  have "set (filter P xs) = {x}" using assms by simp
  then have eq: "{y \<in> set xs. P y} = {x}" by simp
  then show "x \<in> set xs" and "P x" by blast+
  fix y assume "y \<in> set xs" "P y"
  then have "y \<in> {y \<in> set xs. P y}" by simp
  then show "y = x" unfolding eq by simp
qed

end
