(* ===== verification/GoStrings.thy ===== *)
theory GoStrings
  imports Prelude
begin

section \<open>The parts of Go's string library the code uses\<close>

text \<open>
  A Go string is a sequence of bytes, here a \<open>string\<close>, whose characters are bytes; \<open>len\<close> is
  \<open>length\<close>. Functions that Go defines on runes are given by the UTF-8 byte patterns of the
  runes concerned:
  \<^item> \<open>trimSpace\<close> (\<open>strings.TrimSpace\<close>) removes every Unicode white-space rune, of one, two or
    three bytes, at both ends;
  \<^item> \<open>containsControl\<close> (\<open>unicode.IsControl\<close>) sees the ASCII control characters and the C1
    controls U+0080 to U+009F, which are the byte C2 followed by a byte 80 to 9F;
  \<^item> \<open>toUpper\<close>, \<open>toLower\<close> and \<open>equalFold\<close> map the ASCII letters and the four runes outside
    ASCII whose mapping is an ASCII letter (dotless i, long s, Kelvin sign, capital I with
    dot). Other runes outside ASCII are kept; Go maps them to runes outside ASCII, which every
    pattern that the code applies to the result rejects as well.
  The regular expressions of the code are written as predicates.
\<close>

named_theorems go_simps \<open>evaluation of Go string functions\<close>

subsection \<open>Characters\<close>

definition isLower :: "char \<Rightarrow> bool" where
  "isLower c \<longleftrightarrow> CHR ''a'' \<le> c \<and> c \<le> CHR ''z''"

definition isUpper :: "char \<Rightarrow> bool" where
  "isUpper c \<longleftrightarrow> CHR ''A'' \<le> c \<and> c \<le> CHR ''Z''"

definition isDigit :: "char \<Rightarrow> bool" where
  "isDigit c \<longleftrightarrow> CHR ''0'' \<le> c \<and> c \<le> CHR ''9''"

definition isHex :: "char \<Rightarrow> bool" where
  "isHex c \<longleftrightarrow> isDigit c \<or> (CHR ''a'' \<le> c \<and> c \<le> CHR ''f'') \<or> (CHR ''A'' \<le> c \<and> c \<le> CHR ''F'')"

definition byteIn :: "nat \<Rightarrow> nat \<Rightarrow> char \<Rightarrow> bool" where
  "byteIn lo hi c \<longleftrightarrow> lo \<le> of_char c \<and> of_char c \<le> hi"

definition asciiSpace :: "char \<Rightarrow> bool" where
  "asciiSpace c \<longleftrightarrow> byteIn 9 13 c \<or> c = CHR '' ''"

definition space2 :: "char \<Rightarrow> char \<Rightarrow> bool" where
  "space2 a b \<longleftrightarrow> a = CHR 0xC2 \<and> (b = CHR 0x85 \<or> b = CHR 0xA0)"

definition space3 :: "char \<Rightarrow> char \<Rightarrow> char \<Rightarrow> bool" where
  "space3 a b c \<longleftrightarrow>
     (a = CHR 0xE1 \<and> b = CHR 0x9A \<and> c = CHR 0x80) \<or>
     (a = CHR 0xE2 \<and> b = CHR 0x80 \<and> (byteIn 128 138 c \<or> c = CHR 0xA8 \<or> c = CHR 0xA9 \<or> c = CHR 0xAF)) \<or>
     (a = CHR 0xE2 \<and> b = CHR 0x81 \<and> c = CHR 0x9F) \<or>
     (a = CHR 0xE3 \<and> b = CHR 0x80 \<and> c = CHR 0x80)"

subsection \<open>TrimSpace\<close>

fun trimLeft :: "string \<Rightarrow> string" where
  "trimLeft (a # b # c # s) =
     (if asciiSpace a then trimLeft (b # c # s)
      else if space2 a b then trimLeft (c # s)
      else if space3 a b c then trimLeft s
      else a # b # c # s)"
| "trimLeft [a, b] =
     (if asciiSpace a then trimLeft [b] else if space2 a b then [] else [a, b])"
| "trimLeft [a] = (if asciiSpace a then [] else [a])"
| "trimLeft [] = []"

fun trimRightRev :: "string \<Rightarrow> string" where
  "trimRightRev (c # b # a # s) =
     (if asciiSpace c then trimRightRev (b # a # s)
      else if space2 b c then trimRightRev (a # s)
      else if space3 a b c then trimRightRev s
      else c # b # a # s)"
| "trimRightRev [c, b] =
     (if asciiSpace c then trimRightRev [b] else if space2 b c then [] else [c, b])"
| "trimRightRev [c] = (if asciiSpace c then [] else [c])"
| "trimRightRev [] = []"

definition trimRight :: "string \<Rightarrow> string" where
  "trimRight s = rev (trimRightRev (rev s))"

definition trimSpace :: "string \<Rightarrow> string" where
  "trimSpace s = trimRight (trimLeft s)"

subsection \<open>Case mapping and control characters\<close>

definition lowerChar :: "char \<Rightarrow> char" where
  "lowerChar c = (if isUpper c then char_of (of_char c + 32 :: nat) else c)"

definition upperChar :: "char \<Rightarrow> char" where
  "upperChar c = (if isLower c then char_of (of_char c - 32 :: nat) else c)"

fun toLower :: "string \<Rightarrow> string" where
  "toLower (a # b # c # s) =
     (if a = CHR 0xC4 \<and> b = CHR 0xB0 then CHR ''i'' # toLower (c # s)
      else if a = CHR 0xE2 \<and> b = CHR 0x84 \<and> c = CHR 0xAA then CHR ''k'' # toLower s
      else lowerChar a # toLower (b # c # s))"
| "toLower [a, b] =
     (if a = CHR 0xC4 \<and> b = CHR 0xB0 then [CHR ''i''] else lowerChar a # toLower [b])"
| "toLower [a] = [lowerChar a]"
| "toLower [] = []"

fun toUpper :: "string \<Rightarrow> string" where
  "toUpper (a # b # s) =
     (if a = CHR 0xC4 \<and> b = CHR 0xB1 then CHR ''I'' # toUpper s
      else if a = CHR 0xC5 \<and> b = CHR 0xBF then CHR ''S'' # toUpper s
      else upperChar a # toUpper (b # s))"
| "toUpper [a] = [upperChar a]"
| "toUpper [] = []"

fun foldCase :: "string \<Rightarrow> string" where
  "foldCase (a # b # c # s) =
     (if a = CHR 0xC5 \<and> b = CHR 0xBF then CHR ''s'' # foldCase (c # s)
      else if a = CHR 0xE2 \<and> b = CHR 0x84 \<and> c = CHR 0xAA then CHR ''k'' # foldCase s
      else lowerChar a # foldCase (b # c # s))"
| "foldCase [a, b] =
     (if a = CHR 0xC5 \<and> b = CHR 0xBF then [CHR ''s''] else lowerChar a # foldCase [b])"
| "foldCase [a] = [lowerChar a]"
| "foldCase [] = []"

definition equalFold :: "string \<Rightarrow> string \<Rightarrow> bool" where
  "equalFold s t \<longleftrightarrow> foldCase s = foldCase t"

definition asciiControl :: "char \<Rightarrow> bool" where
  "asciiControl c \<longleftrightarrow> byteIn 0 31 c \<or> byteIn 127 127 c"

definition c1Control :: "char \<Rightarrow> char \<Rightarrow> bool" where
  "c1Control a b \<longleftrightarrow> a = CHR 0xC2 \<and> byteIn 128 159 b"

fun containsControl :: "string \<Rightarrow> bool" where
  "containsControl (a # b # s) =
     (asciiControl a \<or> c1Control a b \<or> containsControl (b # s))"
| "containsControl [a] = asciiControl a"
| "containsControl [] = False"

subsection \<open>Searching, prefixes, splitting\<close>

definition containsAny :: "string \<Rightarrow> string \<Rightarrow> bool" where
  "containsAny s cs \<longleftrightarrow> list_ex (\<lambda>c. c \<in> set cs) s"

definition containsChar :: "string \<Rightarrow> char \<Rightarrow> bool" where
  "containsChar s c \<longleftrightarrow> c \<in> set s"

definition hasPrefix :: "string \<Rightarrow> string \<Rightarrow> bool" where
  "hasPrefix s p \<longleftrightarrow> take (length p) s = p"

definition hasSuffix :: "string \<Rightarrow> string \<Rightarrow> bool" where
  "hasSuffix s p \<longleftrightarrow> length p \<le> length s \<and> drop (length s - length p) s = p"

definition trimPrefix :: "string \<Rightarrow> string \<Rightarrow> string" where
  "trimPrefix s p = (if hasPrefix s p then drop (length p) s else s)"

definition trimSuffix :: "string \<Rightarrow> string \<Rightarrow> string" where
  "trimSuffix s p = (if hasSuffix s p then take (length s - length p) s else s)"

definition cutPrefix :: "string \<Rightarrow> string \<Rightarrow> string option" where
  "cutPrefix s p = (if hasPrefix s p then Some (drop (length p) s) else None)"

fun splitOn :: "char \<Rightarrow> string \<Rightarrow> string list" where
  "splitOn d [] = [[]]"
| "splitOn d (c # s) =
     (if c = d then [] # splitOn d s
      else case splitOn d s of [] \<Rightarrow> [[c]] | f # fs \<Rightarrow> (c # f) # fs)"

definition cutAt :: "char \<Rightarrow> string \<Rightarrow> string \<times> string \<times> bool" where
  "cutAt d s =
     (if d \<in> set s then (takeWhile (\<lambda>c. c \<noteq> d) s, tl (dropWhile (\<lambda>c. c \<noteq> d) s), True)
      else (s, [], False))"

fun joinWith :: "string \<Rightarrow> string list \<Rightarrow> string" where
  "joinWith sep [] = []"
| "joinWith sep [s] = s"
| "joinWith sep (s # t # ss) = s @ sep @ joinWith sep (t # ss)"

subsection \<open>Numbers in decimal and hexadecimal\<close>

definition digitChar :: "nat \<Rightarrow> char" where
  "digitChar n = char_of (if n < 10 then 48 + n else 87 + n)"

definition digitVal :: "char \<Rightarrow> nat" where
  "digitVal c =
     (if isDigit c then of_char c - 48
      else if CHR ''a'' \<le> c \<and> c \<le> CHR ''f'' then of_char c - 87
      else of_char c - 55)"

fun showDec :: "nat \<Rightarrow> string" where
  "showDec n = (if n < 10 then [digitChar n] else showDec (n div 10) @ [digitChar (n mod 10)])"

fun showHex :: "nat \<Rightarrow> string" where
  "showHex n = (if n < 16 then [digitChar n] else showHex (n div 16) @ [digitChar (n mod 16)])"

declare showDec.simps [simp del] showHex.simps [simp del]

definition readBase :: "nat \<Rightarrow> string \<Rightarrow> nat" where
  "readBase b s = foldl (\<lambda>acc c. acc * b + digitVal c) 0 s"

subsection \<open>Lemmas\<close>

lemma trimLeft_idem [simp]: "trimLeft (trimLeft s) = trimLeft s"
  by (induction s rule: trimLeft.induct) auto

lemma trimRightRev_idem [simp]: "trimRightRev (trimRightRev s) = trimRightRev s"
  by (induction s rule: trimRightRev.induct) auto

lemma length_trimLeft: "length (trimLeft s) \<le> length s"
  by (induction s rule: trimLeft.induct) auto

lemma length_trimRightRev: "length (trimRightRev s) \<le> length s"
  by (induction s rule: trimRightRev.induct) auto

lemma length_trimSpace: "length (trimSpace s) \<le> length s"
  unfolding trimSpace_def trimRight_def
  using length_trimLeft length_trimRightRev
  by (metis le_trans length_rev)

text \<open>A string whose bytes are ASCII and not spaces is not changed by \<open>trimSpace\<close>.\<close>

definition plainChar :: "char \<Rightarrow> bool" where
  "plainChar c \<longleftrightarrow> byteIn 33 126 c"

lemma plainChar_not_space [simp]:
  assumes "plainChar c"
  shows "\<not> asciiSpace c" "\<not> space2 c b" "\<not> space2 b c" "\<not> space3 c b d" "\<not> space3 b d c" "\<not> space3 b c d"
  using assms by (auto simp: plainChar_def byteIn_def asciiSpace_def space2_def space3_def)

lemma trimLeft_plain: "list_all plainChar s \<Longrightarrow> trimLeft s = s"
  by (cases s rule: trimLeft.cases) auto

lemma trimRightRev_plain: "list_all plainChar s \<Longrightarrow> trimRightRev s = s"
  by (cases s rule: trimRightRev.cases) auto

lemma trimSpace_plain: "list_all plainChar s \<Longrightarrow> trimSpace s = s"
  by (simp add: trimSpace_def trimRight_def trimLeft_plain trimRightRev_plain list_all_rev)

lemma containsControl_plain: "list_all plainChar s \<Longrightarrow> \<not> containsControl s"
  by (induction s rule: containsControl.induct)
    (auto simp: plainChar_def byteIn_def asciiControl_def c1Control_def)

lemma lowerChar_not_upper [simp]: "\<not> isUpper c \<Longrightarrow> lowerChar c = c"
  by (simp add: lowerChar_def)

lemma upperChar_not_lower [simp]: "\<not> isLower c \<Longrightarrow> upperChar c = c"
  by (simp add: upperChar_def)

lemma toLower_plain:
  "list_all (\<lambda>c. plainChar c \<and> \<not> isUpper c) s \<Longrightarrow> toLower s = s"
  by (induction s rule: toLower.induct) (auto simp: plainChar_def byteIn_def)

lemma toUpper_plain:
  "list_all (\<lambda>c. plainChar c \<and> \<not> isLower c) s \<Longrightarrow> toUpper s = s"
  by (induction s rule: toUpper.induct) (auto simp: plainChar_def byteIn_def)

lemma splitOn_nonempty [simp]: "splitOn d s \<noteq> []"
  by (induction s) (auto split: list.splits)

lemma splitOn_no_sep: "d \<notin> set s \<Longrightarrow> splitOn d s = [s]"
  by (induction s) auto

lemma splitOn_append_sep:
  "d \<notin> set s \<Longrightarrow> splitOn d (s @ d # t) = s # splitOn d t"
  by (induction s) (auto split: list.splits)

lemma splitOn_set: "f \<in> set (splitOn d s) \<Longrightarrow> set f \<subseteq> set s - {d}"
proof (induction s arbitrary: f)
  case Nil
  then show ?case by simp
next
  case (Cons c s)
  then show ?case
    by (cases "splitOn d s") (auto split: if_splits, blast+)
qed

lemma splitOn_join: "concat (map (\<lambda>f. f @ [d]) (splitOn d s)) = s @ [d]"
proof (induction s)
  case Nil
  then show ?case by simp
next
  case (Cons c s)
  then show ?case by (cases "splitOn d s") auto
qed

lemma cutPrefix_Some_iff: "cutPrefix s p = Some r \<longleftrightarrow> s = p @ r"
proof
  assume "cutPrefix s p = Some r"
  then show "s = p @ r"
    by (metis append_take_drop_id cutPrefix_def hasPrefix_def option.distinct(1) option.inject)
next
  assume "s = p @ r"
  then show "cutPrefix s p = Some r" by (simp add: cutPrefix_def hasPrefix_def)
qed

lemma hasPrefix_append [simp]: "hasPrefix (p @ s) p"
  by (simp add: hasPrefix_def)

lemma trimPrefix_append [simp]: "trimPrefix (p @ s) p = s"
  by (simp add: trimPrefix_def)

lemma hasSuffix_append [simp]: "hasSuffix (s @ p) p"
  by (simp add: hasSuffix_def)

lemma showDec_nonempty [simp]: "showDec n \<noteq> []"
  by (subst showDec.simps) simp

lemma showHex_nonempty [simp]: "showHex n \<noteq> []"
  by (subst showHex.simps) simp

end
