(* ===== verification/GoNet.thy ===== *)
theory GoNet
  imports GoStrings
begin

section \<open>Host and address parsing of Go's standard library\<close>

text \<open>
  \<open>net.SplitHostPort\<close> and the parts of \<open>net/netip\<close> that the code calls: \<open>ParseAddr\<close>, \<open>Unmap\<close>
  and \<open>String\<close>. An IPv4 address is a list of four octets, an IPv6 address a list of eight
  16-bit groups with a zone, the empty string for none.
\<close>

subsection \<open>SplitHostPort\<close>

definition lastIndexByte :: "char \<Rightarrow> string \<Rightarrow> nat option" where
  "lastIndexByte c s =
     (if c \<in> set s then Some (length s - 1 - length (takeWhile (\<lambda>x. x \<noteq> c) (rev s))) else None)"

definition indexByte :: "char \<Rightarrow> string \<Rightarrow> nat option" where
  "indexByte c s = (if c \<in> set s then Some (length (takeWhile (\<lambda>x. x \<noteq> c) s)) else None)"

definition splitHostPort :: "string \<Rightarrow> (string \<times> string) option" where
  "splitHostPort hp =
     (case lastIndexByte (CHR '':'') hp of
        None \<Rightarrow> None
      | Some i \<Rightarrow>
          if hd hp = CHR ''['' then
            (case indexByte (CHR '']'') hp of
               None \<Rightarrow> None
             | Some e \<Rightarrow>
                 if e + 1 = length hp \<or> e + 1 \<noteq> i then None
                 else if CHR ''['' \<in> set (drop 1 hp) \<or> CHR '']'' \<in> set (drop (e + 1) hp) then None
                 else Some (take (e - 1) (drop 1 hp), drop (i + 1) hp))
          else if CHR '':'' \<in> set (take i hp) then None
          else if CHR ''['' \<in> set hp \<or> CHR '']'' \<in> set hp then None
          else Some (take i hp, drop (i + 1) hp))"

lemma splitHostPort_no_colon: "CHR '':'' \<notin> set hp \<Longrightarrow> splitHostPort hp = None"
  by (simp add: splitHostPort_def lastIndexByte_def)

subsection \<open>Addresses\<close>

datatype addr = AddrV4 "nat list" | AddrV6 "nat list" string

definition octetOk :: "string \<Rightarrow> bool" where
  "octetOk f \<longleftrightarrow> f \<noteq> [] \<and> list_all isDigit f \<and> (length f = 1 \<or> hd f \<noteq> CHR ''0'') \<and> readBase 10 f \<le> 255"

definition parseIPv4Fields :: "string \<Rightarrow> nat list option" where
  "parseIPv4Fields s =
     (let fs = splitOn (CHR ''.'') s
      in if length fs = 4 \<and> list_all octetOk fs then Some (map (readBase 10) fs) else None)"

fun parseIPv6Loop :: "nat \<Rightarrow> string \<Rightarrow> nat list \<Rightarrow> nat option \<Rightarrow> (nat list \<times> nat option \<times> string) option" where
  "parseIPv6Loop 0 s gs ell = Some (gs, ell, s)"
| "parseIPv6Loop (Suc n) s gs ell =
     (let ds = takeWhile isHex s; rest = drop (length ds) s
      in if ds = [] \<or> 4 < length ds then None
         else if rest \<noteq> [] \<and> hd rest = CHR ''.'' then
           (if ell = None \<and> length gs \<noteq> 6 then None
            else if 8 < length gs + 2 then None
            else case parseIPv4Fields s of
                   None \<Rightarrow> None
                 | Some v \<Rightarrow> Some (gs @ [v ! 0 * 256 + v ! 1, v ! 2 * 256 + v ! 3], ell, []))
         else
           let gs' = gs @ [readBase 16 ds]
           in if rest = [] then Some (gs', ell, [])
              else if hd rest \<noteq> CHR '':'' \<or> length rest = 1 then None
              else let s1 = tl rest
                   in if hd s1 = CHR '':'' then
                        (if ell \<noteq> None then None
                         else if tl s1 = [] then Some (gs', Some (length gs'), [])
                         else parseIPv6Loop n (tl s1) gs' (Some (length gs')))
                      else parseIPv6Loop n s1 gs' ell)"

definition parseIPv6 :: "string \<Rightarrow> addr option" where
  "parseIPv6 input =
     (let (s0, zone, hasZone) = cutAt (CHR ''%'') input
      in if hasZone \<and> zone = [] then None
         else
           let lead = hasPrefix s0 ''::''; s = (if lead then drop 2 s0 else s0)
           in if lead \<and> s = [] then Some (AddrV6 (replicate 8 0) zone)
              else case parseIPv6Loop 8 s [] (if lead then Some 0 else None) of
                     None \<Rightarrow> None
                   | Some (gs, ell, rest) \<Rightarrow>
                       if rest \<noteq> [] then None
                       else if length gs < 8 then
                         (case ell of
                            None \<Rightarrow> None
                          | Some e \<Rightarrow> Some (AddrV6 (take e gs @ replicate (8 - length gs) 0 @ drop e gs) zone))
                       else if ell \<noteq> None then None
                       else Some (AddrV6 gs zone))"

fun firstOf :: "string \<Rightarrow> string \<Rightarrow> char option" where
  "firstOf cs [] = None"
| "firstOf cs (c # s) = (if c \<in> set cs then Some c else firstOf cs s)"

definition parseAddr :: "string \<Rightarrow> addr option" where
  "parseAddr s =
     (case firstOf ''.:%'' s of
        None \<Rightarrow> None
      | Some c \<Rightarrow>
          if c = CHR ''.'' then map_option AddrV4 (parseIPv4Fields s)
          else if c = CHR '':'' then parseIPv6 s
          else None)"

fun unmap :: "addr \<Rightarrow> addr" where
  "unmap (AddrV4 v) = AddrV4 v"
| "unmap (AddrV6 gs z) =
     (if take 6 gs = [0, 0, 0, 0, 0, 65535] \<and> length gs = 8
      then AddrV4 [gs ! 6 div 256, gs ! 6 mod 256, gs ! 7 div 256, gs ! 7 mod 256]
      else AddrV6 gs z)"

text \<open>The longest run of at least two zero groups, the first one among the longest.\<close>

definition zeroRun :: "nat list \<Rightarrow> nat \<Rightarrow> nat" where
  "zeroRun gs i = length (takeWhile (\<lambda>g. g = 0) (drop i gs))"

definition longestZeros :: "nat list \<Rightarrow> (nat \<times> nat) option" where
  "longestZeros gs =
     foldl (\<lambda>best i.
        let l = zeroRun gs i
        in case best of
             None \<Rightarrow> if 2 \<le> l then Some (i, i + l) else None
           | Some (s, e) \<Rightarrow> if 2 \<le> l \<and> e - s < l then Some (i, i + l) else best)
       None [0..<8]"

fun addrString :: "addr \<Rightarrow> string" where
  "addrString (AddrV4 v) = joinWith ''.'' (map showDec v)"
| "addrString (AddrV6 gs z) =
     (let body =
        (case longestZeros gs of
           None \<Rightarrow> joinWith '':'' (map showHex gs)
         | Some (s, e) \<Rightarrow>
             joinWith '':'' (map showHex (take s gs)) @ ''::'' @
             joinWith '':'' (map showHex (drop e gs)))
      in if z = [] then body else body @ ''%'' @ z)"

subsection \<open>Facts about addresses\<close>

text \<open>Printing a number in decimal and reading it back.\<close>

lemma digitChar_less10:
  assumes "n < 10"
  shows "of_char (digitChar n) = 48 + n"
  using assms by (simp add: digitChar_def)

lemma digitChar_props:
  assumes "n < 10"
  shows "isDigit (digitChar n)" "digitVal (digitChar n) = n" "digitChar n = CHR ''0'' \<longleftrightarrow> n = 0"
proof -
  show dig: "isDigit (digitChar n)"
    using assms by (simp add: isDigit_def less_eq_char_def digitChar_less10)
  then show "digitVal (digitChar n) = n"
    using assms by (simp add: digitVal_def digitChar_less10)
  have "digitChar n = CHR ''0'' \<longleftrightarrow> (of_char (digitChar n) :: nat) = of_char (CHR ''0'')"
    by (metis char_of_char)
  then show "digitChar n = CHR ''0'' \<longleftrightarrow> n = 0"
    using assms by (simp add: digitChar_less10)
qed

lemma readBase_snoc: "readBase b (s @ [c]) = readBase b s * b + digitVal c"
  by (simp add: readBase_def)

lemma readBase_showDec: "readBase 10 (showDec n) = n"
proof (induction n rule: showDec.induct)
  case (1 n)
  show ?case
    using "1" by (subst showDec.simps) (auto simp: readBase_snoc digitChar_props readBase_def)
qed

lemma showDec_digits: "list_all isDigit (showDec n)"
proof (induction n rule: showDec.induct)
  case (1 n)
  show ?case
    using "1" by (subst showDec.simps) (auto simp: digitChar_props)
qed

lemma hd_showDec: "0 < n \<Longrightarrow> hd (showDec n) \<noteq> CHR ''0''"
proof (induction n rule: showDec.induct)
  case (1 n)
  show ?case
    using "1" by (subst showDec.simps) (auto simp: digitChar_props)
qed

lemma length_showDec_0: "showDec 0 = ''0''"
  using digitChar_props(3) [of 0] by (subst showDec.simps) simp

lemma isDigit_punct [simp]:
  "\<not> isDigit (CHR ''.'')" "\<not> isDigit (CHR '':'')" "\<not> isDigit (CHR ''%'')" "\<not> isDigit (CHR ''['')"
  by (simp_all add: isDigit_def)

lemma octetOk_showDec:
  assumes "n < 256"
  shows "octetOk (showDec n)"
proof (cases "n = 0")
  case True
  then show ?thesis
    by (simp add: length_showDec_0 octetOk_def isDigit_def readBase_def digitVal_def)
next
  case False
  then show ?thesis
    using assms by (simp add: octetOk_def showDec_digits readBase_showDec hd_showDec)
qed

lemma showDec_no_dot: "CHR ''.'' \<notin> set (showDec n)"
  using showDec_digits [of n] by (auto simp: list_all_iff)

lemma parseIPv4Fields_octets:
  assumes "parseIPv4Fields s = Some v"
  shows "length v = 4" "\<And>n. n \<in> set v \<Longrightarrow> n < 256"
  using assms
  by (fastforce simp: parseIPv4Fields_def Let_def octetOk_def list_all_iff split: if_splits)+

lemma length_4_cases:
  assumes "length v = 4"
  obtains a b c d where "v = [a, b, c, d]"
proof -
  from assms obtain a v1 where 1: "v = a # v1" "length v1 = 3" by (cases v) auto
  then obtain b v2 where 2: "v1 = b # v2" "length v2 = 2" by (cases v1) auto
  then obtain c v3 where 3: "v2 = c # v3" "length v3 = 1" by (cases v2) auto
  then obtain d where "v3 = [d]" by (cases v3) auto
  with 1 2 3 that show thesis by simp
qed

text \<open>An address in dotted form parses to itself.\<close>

lemma parseIPv4Fields_show:
  assumes "length v = 4" "\<And>n. n \<in> set v \<Longrightarrow> n < 256"
  shows "parseIPv4Fields (joinWith ''.'' (map showDec v)) = Some v"
proof -
  obtain a b c d where v: "v = [a, b, c, d]" using assms(1) by (rule length_4_cases)
  have "splitOn (CHR ''.'') (joinWith ''.'' (map showDec v)) = [showDec a, showDec b, showDec c, showDec d]"
    by (simp add: v splitOn_append_sep showDec_no_dot splitOn_no_sep)
  then show ?thesis
    using assms(2) by (simp add: parseIPv4Fields_def v octetOk_showDec readBase_showDec)
qed

lemma firstOf_append:
  "set s \<inter> set cs = {} \<Longrightarrow> firstOf cs (s @ t) = firstOf cs t"
  by (induction s) auto

lemma parseAddr_showV4:
  assumes "length v = 4" "\<And>n. n \<in> set v \<Longrightarrow> n < 256"
  shows "parseAddr (addrString (AddrV4 v)) = Some (AddrV4 v)"
proof -
  obtain a b c d where v: "v = [a, b, c, d]" using assms(1) by (rule length_4_cases)
  have "set (showDec a) \<inter> set ''.:%'' = {}"
    using showDec_digits [of a] by (auto simp: list_all_iff)
  then have "firstOf ''.:%'' (addrString (AddrV4 v)) = Some (CHR ''.'')"
    by (simp add: v firstOf_append)
  then show ?thesis
    using parseIPv4Fields_show [OF assms] by (simp add: parseAddr_def)
qed

text \<open>The characters of a dotted address.\<close>

definition hostChar :: "char \<Rightarrow> bool" where
  "hostChar c \<longleftrightarrow> isLower c \<or> isDigit c \<or> c = CHR ''-'' \<or> c = CHR ''.''"

lemma joinWith_set: "set (joinWith sep ss) \<subseteq> set sep \<union> \<Union> (set ` set ss)"
  by (induction sep ss rule: joinWith.induct) auto

lemma addrString_V4_chars: "list_all hostChar (addrString (AddrV4 v))"
proof -
  have "set (addrString (AddrV4 v)) \<subseteq> set ''.'' \<union> \<Union> (set ` set (map showDec v))"
    by (simp only: addrString.simps joinWith_set)
  then show ?thesis
    using showDec_digits by (fastforce simp: list_all_iff hostChar_def)
qed

text \<open>The text of an IPv6 address always holds a colon.\<close>

lemma joinWith_colon:
  "2 \<le> length ss \<Longrightarrow> CHR '':'' \<in> set (joinWith '':'' ss)"
  by (induction "'':''" ss rule: joinWith.induct) auto

lemma addrString_V6_colon:
  assumes "length gs = 8"
  shows "CHR '':'' \<in> set (addrString (AddrV6 gs z))"
  using assms by (auto simp: Let_def joinWith_colon split: option.splits prod.splits)

text \<open>What a parse returns is well formed.\<close>

fun addrOk :: "addr \<Rightarrow> bool" where
  "addrOk (AddrV4 v) = (length v = 4 \<and> list_all (\<lambda>n. n < 256) v)"
| "addrOk (AddrV6 gs z) = (length gs = 8 \<and> list_all (\<lambda>g. g < 65536) gs)"

lemma digitVal_hex: "isHex c \<Longrightarrow> digitVal c < 16"
  by (auto simp: isHex_def isDigit_def digitVal_def less_eq_char_def)

lemma readBase_bound:
  "list_all isHex ds \<Longrightarrow> readBase 16 ds < 16 ^ length ds"
proof (induction ds rule: rev_induct)
  case Nil
  then show ?case by (simp add: readBase_def)
next
  case (snoc c ds)
  then have "readBase 16 ds < 16 ^ length ds" and "digitVal c < 16"
    by (auto simp: digitVal_hex)
  then have "readBase 16 ds * 16 + digitVal c < (readBase 16 ds + 1) * 16"
    and "(readBase 16 ds + 1) * 16 \<le> 16 ^ length ds * 16"
    by simp_all
  then show ?case by (simp add: readBase_snoc mult.commute)
qed

lemma readBase_group:
  assumes "length (takeWhile isHex s) \<le> 4"
  shows "readBase 16 (takeWhile isHex s) < 65536"
proof -
  have "list_all isHex (takeWhile isHex s)"
    by (auto simp: list_all_iff dest: set_takeWhileD)
  then have "readBase 16 (takeWhile isHex s) < 16 ^ length (takeWhile isHex s)"
    by (rule readBase_bound)
  also have "\<dots> \<le> 16 ^ 4" using assms by (intro power_increasing) auto
  finally show ?thesis by simp
qed

lemma parseIPv4_groups:
  assumes "parseIPv4Fields s = Some v"
  shows "v ! 0 * 256 + v ! 1 < 65536" "v ! 2 * 256 + v ! 3 < 65536"
proof -
  from parseIPv4Fields_octets(1) [OF assms] obtain a b c d where v: "v = [a, b, c, d]"
    by (rule length_4_cases)
  have "a < 256" "b < 256" "c < 256" "d < 256"
    using parseIPv4Fields_octets(2) [OF assms] by (simp_all add: v)
  then show "v ! 0 * 256 + v ! 1 < 65536" "v ! 2 * 256 + v ! 3 < 65536"
    by (simp_all add: v)
qed

lemma parseIPv6Loop_groups:
  assumes "parseIPv6Loop n s gs ell = Some (gs', ell', rest)"
    and "list_all (\<lambda>g. g < 65536) gs" and "length gs + n = 8"
    and "\<forall>e. ell = Some e \<longrightarrow> e \<le> length gs"
  shows "list_all (\<lambda>g. g < 65536) gs' \<and> length gs' \<le> 8 \<and> (\<forall>e. ell' = Some e \<longrightarrow> e \<le> length gs')"
  using assms
proof (induction n s gs ell rule: parseIPv6Loop.induct)
  case (1 s gs ell)
  then show ?case by simp
next
  case (2 n s gs ell)
  define ds where "ds = takeWhile isHex s"
  define rest' where "rest' = drop (length ds) s"
  define gs1 where "gs1 = gs @ [readBase 16 ds]"
  note fold = ds_def [symmetric] rest'_def [symmetric] gs1_def [symmetric]
  have loop: "parseIPv6Loop (Suc n) s gs ell = Some (gs', ell', rest)" by (rule "2.prems"(1))
  have ok: "\<not> (ds = [] \<or> 4 < length ds)"
    using loop by (auto simp: Let_def fold split: if_splits)
  then have gs1: "list_all (\<lambda>g. g < 65536) gs1" "length gs1 + n = 8"
    using "2.prems"(2,3) readBase_group [of s] by (simp_all add: gs1_def ds_def)
  show ?case
  proof (cases "rest' \<noteq> [] \<and> hd rest' = CHR ''.''")
    case True
    with loop ok obtain v where "parseIPv4Fields s = Some v" "ell' = ell" "length gs + 2 \<le> 8"
      and "gs' = gs @ [v ! 0 * 256 + v ! 1, v ! 2 * 256 + v ! 3]"
      by (auto simp: Let_def fold split: if_splits option.splits)
    then show ?thesis
      using "2.prems"(2,4) parseIPv4_groups [of s v] by auto
  next
    case nodot: False
    show ?thesis
    proof (cases "rest' = []")
      case True
      with loop ok have "gs' = gs1" "ell' = ell" by (simp_all add: Let_def fold)
      then show ?thesis using gs1 "2.prems"(4) by (auto simp: gs1_def)
    next
      case False
      define s1 where "s1 = tl rest'"
      have colon: "\<not> (hd rest' \<noteq> CHR '':'' \<or> length rest' = 1)"
        using loop ok nodot False by (auto simp: Let_def fold split: if_splits)
      note IH = "2.IH" [OF ds_def rest'_def ok nodot gs1_def False colon s1_def]
      show ?thesis
      proof (cases "hd s1 = CHR '':''")
        case True
        have nell: "\<not> ell \<noteq> None"
          using loop ok nodot False colon True by (auto simp: Let_def fold s1_def split: if_splits)
        show ?thesis
        proof (cases "tl s1 = []")
          case stop: True
          with loop ok nodot False colon True nell have "gs' = gs1" "ell' = Some (length gs1)"
            by (auto simp: Let_def fold s1_def split: if_splits)
          then show ?thesis using gs1 by simp
        next
          case more: False
          with loop ok nodot False colon True nell
          have "parseIPv6Loop n (tl s1) gs1 (Some (length gs1)) = Some (gs', ell', rest)"
            by (auto simp: Let_def fold s1_def split: if_splits)
          then show ?thesis using IH(1) [OF True nell more] gs1 by simp
        qed
      next
        case nc: False
        with loop ok nodot False colon
        have "parseIPv6Loop n s1 gs1 ell = Some (gs', ell', rest)"
          by (auto simp: Let_def fold s1_def split: if_splits)
        moreover have "\<forall>e. ell = Some e \<longrightarrow> e \<le> length gs1"
          using "2.prems"(4) by (auto simp: gs1_def)
        ultimately show ?thesis using IH(2) [OF nc] gs1 by blast
      qed
    qed
  qed
qed

lemma expand_ellipsis_ok:
  assumes "list_all (\<lambda>g. g < (65536::nat)) gs" "length gs \<le> 8" "e \<le> length gs"
  shows "addrOk (AddrV6 (take e gs @ replicate (8 - length gs) 0 @ drop e gs) z)"
  using assms by (auto simp: list_all_iff dest: in_set_takeD in_set_dropD)

lemma parseIPv6_ok:
  assumes "parseIPv6 s = Some a"
  shows "addrOk a"
proof -
  obtain s0 zone hasZone where cut: "cutAt (CHR ''%'') s = (s0, zone, hasZone)"
    by (cases "cutAt (CHR ''%'') s") auto
  define lead where "lead \<longleftrightarrow> hasPrefix s0 ''::''"
  define s1 where "s1 = (if lead then drop 2 s0 else s0)"
  define ell0 where "ell0 = (if lead then Some 0 else None :: nat option)"
  show ?thesis
  proof (cases "lead \<and> s1 = []")
    case True
    then show ?thesis
      using assms by (auto simp: parseIPv6_def cut lead_def s1_def list_all_iff split: if_splits)
  next
    case False
    then obtain gs ell rest where loop: "parseIPv6Loop 8 s1 [] ell0 = Some (gs, ell, rest)"
      using assms
      by (auto simp: parseIPv6_def cut lead_def s1_def ell0_def Let_def split: if_splits option.splits)
    then have "list_all (\<lambda>g. g < 65536) gs \<and> length gs \<le> 8 \<and> (\<forall>e. ell = Some e \<longrightarrow> e \<le> length gs)"
      using parseIPv6Loop_groups [OF loop] by (simp add: ell0_def)
    then show ?thesis
      using assms False loop expand_ellipsis_ok
      by (auto simp: parseIPv6_def cut lead_def [symmetric] s1_def [symmetric] ell0_def [symmetric] Let_def
          split: if_splits option.splits)
  qed
qed

lemma parseAddr_ok: "parseAddr s = Some a \<Longrightarrow> addrOk a"
  using parseIPv4Fields_octets
  by (fastforce simp: parseAddr_def list_all_iff parseIPv6_ok split: if_splits option.splits)

lemma unmap_ok: "addrOk a \<Longrightarrow> addrOk (unmap a)"
proof (cases a)
  case (AddrV6 gs z)
  assume "addrOk a"
  with AddrV6 have len: "length gs = 8" and small: "list_all (\<lambda>g. g < 65536) gs" by simp_all
  then have "gs ! 6 < 65536" "gs ! 7 < 65536" by (simp_all add: list_all_length)
  then have "gs ! 6 div 256 < 256" "gs ! 7 div 256 < 256"
    by (simp_all add: div_less_iff_less_mult)
  then show ?thesis using AddrV6 len small by simp
qed simp

end
