(* ===== verification/GoEncoding.thy ===== *)
theory GoEncoding
  imports GoStrings
begin

section \<open>JSON and SHA-256 as the code uses them\<close>

text \<open>
  Two packages of Go's standard library: \<open>encoding/json\<close>, as far as the code encodes values of
  type \<open>map[string]any\<close> and structs with it, and \<open>crypto/sha256\<close> with \<open>encoding/hex\<close>. The hash
  is defined in full on 32-bit words and never unfolded in a proof: no theorem assumes that it
  has no collisions.

  A JSON number is the integer it stands for, or the text that the encoder prints for a
  floating-point value. The keys of an object are sorted when a Go map is encoded.
\<close>

subsection \<open>Values\<close>

datatype json =
    JNull
  | JBool bool
  | JInt int
  | JFloat string
  | JStr string
  | JArr "json list"
  | JObj "(string \<times> json) list"

definition jsonGet :: "json \<Rightarrow> string \<Rightarrow> json option" where
  "jsonGet j k = (case j of JObj kvs \<Rightarrow> map_of kvs k | _ \<Rightarrow> None)"

subsection \<open>UTF-8\<close>

definition cont :: "char \<Rightarrow> bool" where
  "cont c \<longleftrightarrow> byteIn 128 191 c"

text \<open>The length in bytes of the rune at the head of a string; 0 when it is not valid UTF-8.\<close>

definition rune2 :: "char \<Rightarrow> char \<Rightarrow> bool" where
  "rune2 a b \<longleftrightarrow> byteIn 194 223 a \<and> cont b"

definition rune3 :: "char \<Rightarrow> char \<Rightarrow> char \<Rightarrow> bool" where
  "rune3 a b c \<longleftrightarrow>
     byteIn 224 239 a \<and> cont c \<and>
     (if a = CHR 0xE0 then byteIn 160 191 b else if a = CHR 0xED then byteIn 128 159 b else cont b)"

definition rune4 :: "char \<Rightarrow> char \<Rightarrow> char \<Rightarrow> char \<Rightarrow> bool" where
  "rune4 a b c d \<longleftrightarrow>
     byteIn 240 244 a \<and> cont c \<and> cont d \<and>
     (if a = CHR 0xF0 then byteIn 144 191 b else if a = CHR 0xF4 then byteIn 128 143 b else cont b)"

fun runeLen :: "string \<Rightarrow> nat" where
  "runeLen (a # b # c # d # s) =
     (if byteIn 0 127 a then 1 else if rune2 a b then 2 else if rune3 a b c then 3
      else if rune4 a b c d then 4 else 0)"
| "runeLen [a, b, c] = (if byteIn 0 127 a then 1 else if rune2 a b then 2 else if rune3 a b c then 3 else 0)"
| "runeLen [a, b] = (if byteIn 0 127 a then 1 else if rune2 a b then 2 else 0)"
| "runeLen [a] = (if byteIn 0 127 a then 1 else 0)"
| "runeLen [] = 0"

lemma runeLen_le: "runeLen s \<le> length s"
  by (cases s rule: runeLen.cases) auto

text \<open>
  The runes of a string, each as its UTF-8 bytes: what \<open>range\<close> and \<open>[]rune\<close> see. A byte that is
  not part of a valid encoding becomes the replacement character.
\<close>

definition replacementRune :: string where
  "replacementRune = [CHR 0xEF, CHR 0xBF, CHR 0xBD]"

function runes :: "string \<Rightarrow> string list" where
  "runes [] = []"
| "runes (c # s) =
     (if runeLen (c # s) = 0 then replacementRune # runes s
      else take (runeLen (c # s)) (c # s) # runes (drop (runeLen (c # s)) (c # s)))"
  by pat_completeness auto
termination
  by (relation "measure length") auto

definition validRune :: "string \<Rightarrow> bool" where
  "validRune r \<longleftrightarrow> r \<noteq> [] \<and> runeLen r = length r"

lemma runeLen_take: "0 < runeLen s \<Longrightarrow> runeLen (take (runeLen s) s) = runeLen s"
  by (cases s rule: runeLen.cases) (auto simp: eval_nat_numeral)

lemma runeLen_append: "0 < runeLen r \<Longrightarrow> runeLen (r @ t) = runeLen r"
  by (cases r rule: runeLen.cases; cases t rule: runeLen.cases) (auto split: if_splits)

lemma validRune_take:
  assumes "0 < runeLen s"
  shows "validRune (take (runeLen s) s)"
proof -
  have "s \<noteq> []" using assms by auto
  then show ?thesis using assms runeLen_le [of s] by (simp add: validRune_def runeLen_take)
qed

lemma validRune_replacement: "validRune replacementRune"
  by (simp add: validRune_def replacementRune_def byteIn_def cont_def rune2_def rune3_def)

lemma runes_valid: "r \<in> set (runes s) \<Longrightarrow> validRune r"
  by (induction s rule: runes.induct) (auto simp: validRune_replacement validRune_take split: if_splits)

lemma runes_append_valid:
  assumes "validRune r"
  shows "runes (r @ t) = r # runes t"
proof -
  obtain c s where r: "r = c # s" using assms by (cases r) (auto simp: validRune_def)
  have "runeLen (r @ t) = length r" "0 < length r"
    using assms runeLen_append [of r t] by (auto simp: validRune_def)
  then show ?thesis by (simp add: r)
qed

lemma runes_concat: "list_all validRune rs \<Longrightarrow> runes (concat rs) = rs"
  by (induction rs) (simp_all add: runes_append_valid)

text \<open>The last byte of an encoding is below 0xC0, so no encoding ends in a leading byte.\<close>

lemma validRune_last: "validRune r \<Longrightarrow> last r \<noteq> CHR 0xC2"
  by (cases r rule: runeLen.cases)
    (auto simp: validRune_def cont_def byteIn_def rune2_def rune3_def rune4_def split: if_splits)

subsection \<open>Encoding\<close>

definition hex2 :: "char \<Rightarrow> string" where
  "hex2 c = [digitChar (of_char c div 16), digitChar (of_char c mod 16)]"

definition escapeByte :: "bool \<Rightarrow> char \<Rightarrow> string" where
  "escapeByte html c =
     (if c = CHR 0x22 then [CHR 0x5C, CHR 0x22]
      else if c = CHR 0x5C then [CHR 0x5C, CHR 0x5C]
      else if c = CHR 0x08 then [CHR 0x5C, CHR ''b'']
      else if c = CHR 0x0C then [CHR 0x5C, CHR ''f'']
      else if c = CHR 0x0A then [CHR 0x5C, CHR ''n'']
      else if c = CHR 0x0D then [CHR 0x5C, CHR ''r'']
      else if c = CHR 0x09 then [CHR 0x5C, CHR ''t'']
      else if byteIn 0 31 c \<or> (html \<and> c \<in> set ''<>&'') then CHR 0x5C # ''u00'' @ hex2 c
      else [c])"

fun encodeChars :: "nat \<Rightarrow> bool \<Rightarrow> string \<Rightarrow> string" where
  "encodeChars 0 html s = []"
| "encodeChars (Suc n) html s =
     (case s of
        [] \<Rightarrow> []
      | c # rest \<Rightarrow>
          (case runeLen s of
             0 \<Rightarrow> CHR 0x5C # ''ufffd'' @ encodeChars n html rest
           | Suc 0 \<Rightarrow> escapeByte html c @ encodeChars n html rest
           | l \<Rightarrow>
               (if take 3 s = [CHR 0xE2, CHR 0x80, CHR 0xA8] then CHR 0x5C # ''u2028''
                else if take 3 s = [CHR 0xE2, CHR 0x80, CHR 0xA9] then CHR 0x5C # ''u2029''
                else take l s)
               @ encodeChars n html (drop l s)))"

definition encodeString :: "bool \<Rightarrow> string \<Rightarrow> string" where
  "encodeString html s = CHR 0x22 # encodeChars (length s) html s @ [CHR 0x22]"

definition showInt :: "int \<Rightarrow> string" where
  "showInt i = (if i < 0 then CHR ''-'' # showDec (nat (- i)) else showDec (nat i))"

text \<open>Object fields are written in the order given: sorted first for a Go map, the order of
  declaration for a struct.\<close>

fun encodeJson :: "bool \<Rightarrow> json \<Rightarrow> string" where
  "encodeJson html JNull = ''null''"
| "encodeJson html (JBool b) = (if b then ''true'' else ''false'')"
| "encodeJson html (JInt i) = showInt i"
| "encodeJson html (JFloat t) = t"
| "encodeJson html (JStr s) = encodeString html s"
| "encodeJson html (JArr xs) = ''['' @ joinWith '','' (map (encodeJson html) xs) @ '']''"
| "encodeJson html (JObj kvs) =
     ''{'' @ joinWith '','' (map (\<lambda>(k, v). encodeString html k @ '':'' @ encodeJson html v) kvs) @ ''}''"

text \<open>A Go map of decoded JSON: at every level the keys are printed in byte order.\<close>

fun sortKeys :: "json \<Rightarrow> json" where
  "sortKeys (JArr xs) = JArr (map sortKeys xs)"
| "sortKeys (JObj kvs) = JObj (sort_key fst (map (\<lambda>(k, v). (k, sortKeys v)) kvs))"
| "sortKeys j = j"

subsection \<open>SHA-256\<close>

unbundle bit_operations_syntax

type_synonym w32 = "32 word"

definition rotr :: "nat \<Rightarrow> w32 \<Rightarrow> w32" where
  "rotr n x = drop_bit n x OR push_bit (32 - n) x"

text \<open>
  The constants of the standard are the first 32 bits of the fractional parts of the cube roots
  of the first 64 primes, and of the square roots of the first eight; they are computed here as
  integer roots, bit by bit.
\<close>

fun integerRoot :: "nat \<Rightarrow> nat \<Rightarrow> nat \<Rightarrow> nat \<Rightarrow> nat" where
  "integerRoot k n 0 r = r"
| "integerRoot k n (Suc b) r = integerRoot k n b (if (r + 2 ^ b) ^ k \<le> n then r + 2 ^ b else r)"

definition smallPrimes :: "nat list" where
  "smallPrimes = filter (\<lambda>p. list_all (\<lambda>d. p mod d \<noteq> 0) [2..<p]) [2..<312]"

definition rootFraction :: "nat \<Rightarrow> nat \<Rightarrow> w32" where
  "rootFraction k p = word_of_nat (integerRoot k (p * 2 ^ (32 * k)) 40 0)"

definition sha256K :: "w32 list" where
  "sha256K = map (rootFraction 3) smallPrimes"

definition sha256Init :: "w32 list" where
  "sha256Init = map (rootFraction 2) [2, 3, 5, 7, 11, 13, 17, 19]"

fun schedule :: "nat \<Rightarrow> w32 list \<Rightarrow> w32 list" where
  "schedule 0 ws = ws"
| "schedule (Suc n) ws =
     (let i = length ws; w15 = ws ! (i - 15); w2 = ws ! (i - 2);
          s0 = rotr 7 w15 XOR rotr 18 w15 XOR drop_bit 3 w15;
          s1 = rotr 17 w2 XOR rotr 19 w2 XOR drop_bit 10 w2
      in schedule n (ws @ [ws ! (i - 16) + s0 + ws ! (i - 7) + s1]))"

definition sha256Round :: "w32 list \<Rightarrow> w32 \<times> w32 \<Rightarrow> w32 list" where
  "sha256Round st kw =
     (let a = st ! 0; b = st ! 1; c = st ! 2; d = st ! 3; e = st ! 4; f = st ! 5; g = st ! 6; h = st ! 7;
          s1 = rotr 6 e XOR rotr 11 e XOR rotr 25 e;
          ch = (e AND f) XOR (NOT e AND g);
          t1 = h + s1 + ch + fst kw + snd kw;
          s0 = rotr 2 a XOR rotr 13 a XOR rotr 22 a;
          maj = (a AND b) XOR (a AND c) XOR (b AND c);
          t2 = s0 + maj
      in [t1 + t2, a, b, c, d + t1, e, f, g])"

fun wordsOf :: "string \<Rightarrow> w32 list" where
  "wordsOf (a # b # c # d # s) =
     word_of_nat (((of_char a * 256 + of_char b) * 256 + of_char c) * 256 + of_char d) # wordsOf s"
| "wordsOf _ = []"

definition sha256Block :: "w32 list \<Rightarrow> string \<Rightarrow> w32 list" where
  "sha256Block h blk = map2 (+) h (foldl sha256Round h (zip sha256K (schedule 48 (wordsOf blk))))"

definition beBytes :: "nat \<Rightarrow> nat \<Rightarrow> string" where
  "beBytes k n = map (\<lambda>i. char_of (n div 256 ^ (k - 1 - i) mod 256)) [0..<k]"

definition sha256Pad :: "string \<Rightarrow> string" where
  "sha256Pad s =
     s @ [CHR 0x80] @ replicate ((119 - length s mod 64) mod 64) (CHR 0x00) @ beBytes 8 (8 * length s)"

definition sha256Blocks :: "string \<Rightarrow> string list" where
  "sha256Blocks s = map (\<lambda>i. take 64 (drop (64 * i) s)) [0..<length s div 64]"

definition sha256Sum :: "string \<Rightarrow> string" where
  "sha256Sum s = concat (map (\<lambda>w. beBytes 4 (unat w)) (foldl sha256Block sha256Init (sha256Blocks (sha256Pad s))))"

definition hexEncode :: "string \<Rightarrow> string" where
  "hexEncode s = concat (map hex2 s)"

lemma length_beBytes [simp]: "length (beBytes k n) = k"
  by (simp add: beBytes_def)

lemma length_sha256Round: "length (sha256Round st kw) = 8"
  by (simp add: sha256Round_def Let_def)

lemma length_foldl_round: "length h = 8 \<Longrightarrow> length (foldl sha256Round h kws) = 8"
  by (induction kws arbitrary: h) (simp_all add: length_sha256Round)

lemma length_foldl_block: "length h = 8 \<Longrightarrow> length (foldl sha256Block h bs) = 8"
  by (induction bs arbitrary: h) (simp_all add: sha256Block_def length_foldl_round)

lemma length_concat_const: "(\<And>x. x \<in> set xs \<Longrightarrow> length (f x) = k) \<Longrightarrow> length (concat (map f xs)) = k * length xs"
  by (induction xs) auto

lemma length_sha256Sum: "length (sha256Sum s) = 32"
  by (simp add: sha256Sum_def length_concat_const length_foldl_block sha256Init_def)

lemma length_hexEncode: "length (hexEncode s) = 2 * length s"
  by (simp add: hexEncode_def length_concat_const hex2_def)

lemma digitChar_lt16:
  assumes "n < 16"
  shows "isDigit (digitChar n) \<or> isLower (digitChar n)"
  using assms by (auto simp: digitChar_def isDigit_def isLower_def less_eq_char_def)

lemma hexEncode_chars:
  assumes "c \<in> set (hexEncode s)"
  shows "isDigit c \<or> isLower c"
proof -
  from assms obtain d where c: "c = digitChar (of_char d div 16) \<or> c = digitChar (of_char d mod 16)"
    by (auto simp: hexEncode_def hex2_def)
  have "of_char d div 16 < (16::nat)" "of_char d mod 16 < (16::nat)"
    by (simp_all add: div_less_iff_less_mult)
  with c digitChar_lt16 show ?thesis by blast
qed

end
