(* ===== verification/Objects.thy ===== *)
theory Objects
  imports GoEncoding
begin

section \<open>API objects\<close>

text \<open>
  The data the components exchange. Every Kubernetes object extends the record
  \<open>object_meta\<close> (the part of \<open>metav1.ObjectMeta\<close> that the code reads or writes). An object of
  the dynamic client, \<open>unstructured\<close>, keeps its spec and status as JSON trees, \<open>JNull\<close> when
  the field is missing, and is read with the \<open>Nested*\<close> functions, which return the value, its
  absence, or an error when a value on the path has another type. The structs of
  \<open>api/assignment/v1alpha1/types.go\<close> are records with the fields in the order of the source;
  a pointer field is an option. Instants and durations are nanoseconds, as in Go.
\<close>

subsection \<open>Time\<close>

type_synonym time = int

definition second :: int where
  "second = 1000000000"

text \<open>\<open>Time.Sub\<close> saturates at the range of a \<open>time.Duration\<close>.\<close>

definition timeSub :: "time \<Rightarrow> time \<Rightarrow> int" where
  "timeSub t u = max (- (2 ^ 63)) (min (2 ^ 63 - 1) (t - u))"

lemma timeSub_le_iff:
  assumes "d < 2 ^ 63 - 1" "- (2 ^ 63) \<le> d"
  shows "timeSub t u \<le> d \<longleftrightarrow> t - u \<le> d"
  using assms by (auto simp: timeSub_def)

subsection \<open>Metadata\<close>

record owner_reference =
  ownerKind :: string
  ownerUID :: string
  ownerController :: "bool option"

record object_meta =
  metaNamespace :: string
  metaName :: string
  metaGenerateName :: string
  metaUID :: string
  metaResourceVersion :: string
  metaGeneration :: int
  metaCreationTimestamp :: time
  metaDeletionTimestamp :: "time option"
  metaLabels :: strmap
  metaAnnotations :: strmap
  metaFinalizers :: "string list"
  metaOwnerReferences :: "owner_reference list"

definition emptyMeta :: object_meta where
  "emptyMeta = \<lparr>metaNamespace = [], metaName = [], metaGenerateName = [], metaUID = [],
     metaResourceVersion = [], metaGeneration = 0, metaCreationTimestamp = 0,
     metaDeletionTimestamp = None, metaLabels = Map.empty, metaAnnotations = Map.empty,
     metaFinalizers = [], metaOwnerReferences = []\<rparr>"

subsection \<open>Objects of the dynamic client\<close>

record unstructured = object_meta +
  uAPIVersion :: string
  uKind :: string
  uSpec :: json
  uStatus :: json

definition wrongType :: go_error where
  "wrongType = ErrNew ''accessor error''"

fun nestedField :: "json \<Rightarrow> string list \<Rightarrow> go_error + json option" where
  "nestedField j [] = Inr (Some j)"
| "nestedField j (f # fs) =
     (case j of
        JNull \<Rightarrow> Inr None
      | JObj kvs \<Rightarrow> (case map_of kvs f of None \<Rightarrow> Inr None | Some v \<Rightarrow> nestedField v fs)
      | _ \<Rightarrow> Inl wrongType)"

definition nestedString :: "json \<Rightarrow> string list \<Rightarrow> go_error + string option" where
  "nestedString j fs =
     (case nestedField j fs of
        Inl e \<Rightarrow> Inl e
      | Inr None \<Rightarrow> Inr None
      | Inr (Some (JStr s)) \<Rightarrow> Inr (Some s)
      | Inr (Some _) \<Rightarrow> Inl wrongType)"

definition nestedInt64 :: "json \<Rightarrow> string list \<Rightarrow> go_error + int option" where
  "nestedInt64 j fs =
     (case nestedField j fs of
        Inl e \<Rightarrow> Inl e
      | Inr None \<Rightarrow> Inr None
      | Inr (Some (JInt i)) \<Rightarrow> Inr (Some i)
      | Inr (Some _) \<Rightarrow> Inl wrongType)"

definition nestedMap :: "json \<Rightarrow> string list \<Rightarrow> go_error + json option" where
  "nestedMap j fs =
     (case nestedField j fs of
        Inl e \<Rightarrow> Inl e
      | Inr None \<Rightarrow> Inr None
      | Inr (Some (JObj kvs)) \<Rightarrow> Inr (Some (JObj kvs))
      | Inr (Some _) \<Rightarrow> Inl wrongType)"

definition nestedSlice :: "json \<Rightarrow> string list \<Rightarrow> go_error + json list option" where
  "nestedSlice j fs =
     (case nestedField j fs of
        Inl e \<Rightarrow> Inl e
      | Inr None \<Rightarrow> Inr None
      | Inr (Some (JArr xs)) \<Rightarrow> Inr (Some xs)
      | Inr (Some _) \<Rightarrow> Inl wrongType)"

text \<open>\<open>v, _, _ := Nested...\<close>: the zero value when the field is missing or of another type.\<close>

definition valueOr :: "'a \<Rightarrow> go_error + 'a option \<Rightarrow> 'a" where
  "valueOr d r = (case r of Inr (Some v) \<Rightarrow> v | _ \<Rightarrow> d)"

definition strAt :: "json \<Rightarrow> string list \<Rightarrow> string" where
  "strAt j fs = valueOr [] (nestedString j fs)"

definition sliceAt :: "json \<Rightarrow> string list \<Rightarrow> json list" where
  "sliceAt j fs = valueOr [] (nestedSlice j fs)"

lemma nestedField_simps [simp]:
  "nestedField JNull (f # fs) = Inr None"
  "nestedField (JObj kvs) (f # fs) = (case map_of kvs f of None \<Rightarrow> Inr None | Some v \<Rightarrow> nestedField v fs)"
  by simp_all

lemma strAt_eq:
  "strAt j fs = (case nestedField j fs of Inr (Some (JStr s)) \<Rightarrow> s | _ \<Rightarrow> [])"
  by (simp add: strAt_def valueOr_def nestedString_def split: sum.splits option.splits json.splits)

lemma sliceAt_eq:
  "sliceAt j fs = (case nestedField j fs of Inr (Some (JArr xs)) \<Rightarrow> xs | _ \<Rightarrow> [])"
  by (simp add: sliceAt_def valueOr_def nestedSlice_def split: sum.splits option.splits json.splits)

text \<open>The spec as a Go map: nil, which encodes as \<open>null\<close>, when it is missing or not an object.\<close>

definition specMap :: "json \<Rightarrow> json" where
  "specMap j = (case j of JObj kvs \<Rightarrow> JObj kvs | _ \<Rightarrow> JNull)"

subsection \<open>Core objects\<close>

record sa_token_projection =
  tokPath :: string
  tokAudience :: string
  tokExpirationSeconds :: "int option"

record volume =
  volName :: string
  volProjected :: "sa_token_projection option list option"

record volume_mount =
  mntName :: string
  mntReadOnly :: bool
  mntPath :: string
  mntSubPath :: string
  mntSubPathExpr :: string

record container =
  ctrName :: string
  ctrMounts :: "volume_mount list"

record pod_condition =
  pcType :: string
  pcStatus :: string

record pod = object_meta +
  podServiceAccountName :: string
  podAutomount :: "bool option"
  podRuntimeClassName :: "string option"
  podVolumes :: "volume list"
  podContainers :: "container list"
  podIP :: string
  podIPs :: "string list"
  podConditions :: "pod_condition list"

record service_account = object_meta +
  saAutomount :: "bool option"

record token_review_status =
  trAuthenticated :: bool
  trError :: string
  trAudiences :: "string list"
  trUsername :: string
  trExtra :: "string \<Rightarrow> string list"

record lease = object_meta +
  lsHolderIdentity :: "string option"
  lsLeaseDurationSeconds :: "int option"
  lsAcquireTime :: "time option"
  lsRenewTime :: "time option"

subsection \<open>Custom resources\<close>

record GovernanceBoundary =
  gbLogicalTenant :: string
  gbTeam :: string
  gbPermissionLevel :: string
  gbDisplayName :: string

text \<open>The map of backends to allow expressions as an association list; a backend occurs once.\<close>

record EgressPolicy =
  epAgentgateway :: "(string \<times> string) list"

record CommandPolicyRule =
  cpPattern :: string
  cpDecision :: string
  cpReason :: string

record ValidationRule =
  vrPathPrefix :: string
  vrCommand :: string

record HarnessPolicy =
  hpCommandPolicy :: "CommandPolicyRule list"
  hpValidationRules :: "ValidationRule list"

record CapabilityBundleSpec =
  cbsEgress :: "EgressPolicy option"
  cbsHarness :: "HarnessPolicy option"
  cbsGovernance :: "GovernanceBoundary option"

record CapabilityBundle = object_meta +
  cbSpec :: CapabilityBundleSpec

record CapabilityBundleReference =
  cbrName :: string
  cbrPolicyRevision :: string

record SandboxTemplateSpec =
  tsDisplayName :: string
  tsDescription :: string
  tsImage :: string
  tsEntrypoint :: "string list"
  tsCapabilityBundleRef :: CapabilityBundleReference
  tsCPU :: string
  tsMemory :: string
  tsTimeoutSeconds :: int
  tsEnabled :: bool

record SandboxTemplate = object_meta +
  stSpec :: SandboxTemplateSpec

record SandboxTenantPolicySpec =
  tpLogicalTenant :: string
  tpWorkloadNamespace :: string
  tpAllowedCapabilityBundles :: "string list"
  tpAllowedCapabilityBundlePrefixes :: "string list"
  tpMaxConcurrentSandboxes :: int
  tpMaxLifetimeSeconds :: int
  tpMaxAccessRequestDurationSeconds :: int
  tpMaxCPU :: string
  tpMaxMemory :: string
  tpEnabled :: bool

record SandboxTenantPolicy = object_meta +
  stpSpec :: SandboxTenantPolicySpec

record SandboxPrincipalBindingSpec =
  pbTenantID :: string
  pbObjectID :: string
  pbServiceAccountNamespace :: string
  pbServiceAccountName :: string
  pbRequesterTenants :: "string list"
  pbAdminTenants :: "string list"

record SandboxPrincipalBinding = object_meta +
  spbSpec :: SandboxPrincipalBindingSpec

record SandboxTemplateReference =
  trName :: string
  trUID :: string
  trSpecRevision :: string

record SandboxAssignmentSpec =
  saTemplateRef :: SandboxTemplateReference
  saLogicalTenant :: string
  saCapabilityBundleRef :: CapabilityBundleReference

record ObjectReference =
  orAPIVersion :: string
  orKind :: string
  orNamespace :: string
  orName :: string
  orUID :: string

record Condition =
  cdType :: string
  cdStatus :: string
  cdReason :: string
  cdMessage :: string

record ResolvedCapabilityBundle =
  rbName :: string
  rbUID :: string
  rbPolicyRevision :: string

record SandboxAssignmentStatus =
  stWorkloadRef :: "ObjectReference option"
  stPodRef :: "ObjectReference option"
  stResolvedCapabilityBundle :: "ResolvedCapabilityBundle option"
  stConditions :: "Condition list"

definition emptyAssignmentStatus :: SandboxAssignmentStatus where
  "emptyAssignmentStatus = \<lparr>stWorkloadRef = None, stPodRef = None, stResolvedCapabilityBundle = None, stConditions = []\<rparr>"

record SandboxAssignment = object_meta +
  sasSpec :: SandboxAssignmentSpec
  sasStatus :: SandboxAssignmentStatus

record AssignmentReference =
  arName :: string
  arUID :: string

record GovernanceIdentity =
  giTenantID :: string
  giObjectID :: string
  giDisplayName :: string
  giLogicalTenant :: string
  giTeam :: string

record SandboxAccessRequestSpec =
  rsAssignmentRef :: AssignmentReference
  rsPodUID :: string
  rsBasePolicyRevision :: string
  rsBackend :: string
  rsMethod :: string
  rsHost :: string
  rsPath :: string
  rsReason :: string
  rsRequester :: GovernanceIdentity
  rsRequestedDurationSeconds :: int

record SandboxAccessRequestStatus =
  rtState :: string
  rtApprover :: "GovernanceIdentity option"
  rtDecisionReason :: string
  rtApprovedAt :: "time option"
  rtExpiresAt :: "time option"

record SandboxAccessRequest = object_meta +
  sarSpec :: SandboxAccessRequestSpec
  sarStatus :: SandboxAccessRequestStatus

definition SandboxAccessRequestPending :: string where "SandboxAccessRequestPending = ''Pending''"
definition SandboxAccessRequestApproved :: string where "SandboxAccessRequestApproved = ''Approved''"
definition SandboxAccessRequestDenied :: string where "SandboxAccessRequestDenied = ''Denied''"
definition SandboxAccessRequestExpired :: string where "SandboxAccessRequestExpired = ''Expired''"

text \<open>\<open>SandboxEgressDecisionSource\<close>, with the zero value of the string type as \<open>SourceNone\<close>.\<close>

datatype SandboxEgressDecisionSource =
  SourceNone | DecisionSourceBundle | DecisionSourceAccessRequest | DecisionSourceDeny

record SandboxEgressEventSpec =
  esTimestamp :: time
  esAssignmentRef :: AssignmentReference
  esSandboxID :: string
  esPodUID :: string
  esCapabilityBundleName :: string
  esCapabilityBundleRevision :: string
  esLogicalTenant :: string
  esTeam :: string
  esPermissionLevel :: string
  esBoundaryDisplayName :: string
  esBackend :: string
  esMethod :: string
  esHost :: string
  esPath :: string
  esAllowed :: bool
  esReason :: string
  esDecisionSource :: SandboxEgressDecisionSource
  esAccessRequestName :: string

record SandboxEgressEvent = object_meta +
  seeSpec :: SandboxEgressEventSpec

record SandboxValidationRunSpec =
  vsTaskID :: string
  vsRepository :: string
  vsSourceRevision :: string
  vsChangedPaths :: "string list"
  vsSelectedCommands :: "string list"
  vsTemplateName :: string
  vsAssignmentRef :: AssignmentReference
  vsPodUID :: string
  vsSandboxID :: string
  vsCapabilityBundleName :: string
  vsCapabilityBundleRevision :: string
  vsStartedAt :: time

record SandboxValidationCommandResult =
  vcCommand :: string
  vcExitCode :: int
  vcStdoutSHA256 :: string
  vcStderrSHA256 :: string

record SandboxValidationRunStatus =
  vtState :: string
  vtCompletedAt :: "time option"
  vtResults :: "SandboxValidationCommandResult list"
  vtCleanedUp :: bool
  vtMessage :: string

record SandboxValidationRun = object_meta +
  svrSpec :: SandboxValidationRunSpec
  svrStatus :: SandboxValidationRunStatus

subsection \<open>Names shared by the components (internal/assignment/types.go)\<close>

definition EligibleServiceAccountLabel :: string where
  "EligibleServiceAccountLabel = ''aks-sandbox.azure.com/eligible''"
definition AssignmentLabel :: string where
  "AssignmentLabel = ''aks-sandbox.azure.com/assignment''"
definition AssignmentUIDAnnotation :: string where
  "AssignmentUIDAnnotation = ''aks-sandbox.azure.com/assignment-uid''"
definition OpenSandboxAssignmentUIDAnnotation :: string where
  "OpenSandboxAssignmentUIDAnnotation = ''opensandbox.io/extensions.aks-sandbox-assignment-uid''"
definition SandboxIDAnnotation :: string where
  "SandboxIDAnnotation = ''aks-sandbox.azure.com/opensandbox-id''"
definition SandboxIDLabel :: string where
  "SandboxIDLabel = ''aks-sandbox.azure.com/opensandbox-id''"
definition PausedAnnotation :: string where
  "PausedAnnotation = ''aks-sandbox.azure.com/paused''"
definition ResumeAfterPodUIDAnnotation :: string where
  "ResumeAfterPodUIDAnnotation = ''aks-sandbox.azure.com/resume-after-pod-uid''"
definition IdempotencyKeyAnnotation :: string where
  "IdempotencyKeyAnnotation = ''aks-sandbox.azure.com/idempotency-key''"
definition RequestHashAnnotation :: string where
  "RequestHashAnnotation = ''aks-sandbox.azure.com/request-hash''"

lemmas annotation_defs =
  AssignmentUIDAnnotation_def OpenSandboxAssignmentUIDAnnotation_def SandboxIDAnnotation_def
  PausedAnnotation_def ResumeAfterPodUIDAnnotation_def IdempotencyKeyAnnotation_def
  RequestHashAnnotation_def

lemma annotations_distinct [simp]:
  "SandboxIDAnnotation \<noteq> PausedAnnotation" "PausedAnnotation \<noteq> SandboxIDAnnotation"
  "SandboxIDAnnotation \<noteq> ResumeAfterPodUIDAnnotation" "ResumeAfterPodUIDAnnotation \<noteq> SandboxIDAnnotation"
  "PausedAnnotation \<noteq> ResumeAfterPodUIDAnnotation" "ResumeAfterPodUIDAnnotation \<noteq> PausedAnnotation"
  "IdempotencyKeyAnnotation \<noteq> RequestHashAnnotation" "RequestHashAnnotation \<noteq> IdempotencyKeyAnnotation"
  "SandboxIDAnnotation \<noteq> IdempotencyKeyAnnotation" "SandboxIDAnnotation \<noteq> RequestHashAnnotation"
  "PausedAnnotation \<noteq> IdempotencyKeyAnnotation" "PausedAnnotation \<noteq> RequestHashAnnotation"
  "ResumeAfterPodUIDAnnotation \<noteq> IdempotencyKeyAnnotation" "ResumeAfterPodUIDAnnotation \<noteq> RequestHashAnnotation"
  by (simp_all add: annotation_defs)

record Assignment =
  aNamespace :: string
  aName :: string
  aUID :: string
  aResourceVersion :: string
  aTemplateName :: string
  aTemplateUID :: string
  aTemplateRevision :: string
  aLogicalTenant :: string
  aCapabilityBundleName :: string
  aSandboxID :: string
  aIdempotencyKey :: string
  aRequestHash :: string
  aCreatedAt :: time
  aExisting :: bool
  aDeleting :: bool
  aReady :: bool
  aWorkloadRef :: "ObjectReference option"
  aPodRef :: "ObjectReference option"
  aConditions :: "Condition list"

record CreateRequest =
  crNamespace :: string
  crName :: string
  crGenerateName :: string
  crTemplateName :: string
  crTemplateUID :: string
  crTemplateRevision :: string
  crLogicalTenant :: string
  crCapabilityBundleName :: string
  crIdempotencyKey :: string
  crRequestHash :: string

end
