(* ===== verification/Governance.thy ===== *)
theory Governance
  imports GoNet Objects "HOL-Library.Multiset"
begin

section \<open>Governance: targets, access request validation, revisions, impact\<close>

text \<open>
  \<open>internal/assignment/governance\<close>: \<open>validation.go\<close> (the canonical form of an egress target
  and the validation of an access request), \<open>revision.go\<close> (the hash of a policy) and
  \<open>simulation.go\<close> (which past denials a candidate policy would have allowed). The parsers that
  live outside the repository, \<open>uuid.Parse\<close> and \<open>validation.IsDNS1123Subdomain\<close>, are the
  arguments \<open>uuidOk\<close> and \<open>dnsErrors\<close> of the functions that call them.
\<close>

subsection \<open>Targets (validation.go)\<close>

definition MinimumRequestedDuration :: int where
  "MinimumRequestedDuration = 60 * second"

definition MaximumRequestedDuration :: int where
  "MaximumRequestedDuration = 8 * 3600 * second"

record Target =
  tgBackend :: string
  tgMethod :: string
  tgHost :: string
  tgPath :: string

definition alnumLower :: "char \<Rightarrow> bool" where
  "alnumLower c \<longleftrightarrow> isLower c \<or> isDigit c"

definition labelPattern :: "string \<Rightarrow> bool" where
  "labelPattern s \<longleftrightarrow>
     s \<noteq> [] \<and> length s \<le> 63 \<and> alnumLower (hd s) \<and> alnumLower (last s) \<and>
     list_all (\<lambda>c. alnumLower c \<or> c = CHR ''-'') s"

definition methodPattern :: "string \<Rightarrow> bool" where
  "methodPattern s \<longleftrightarrow>
     s \<noteq> [] \<and> length s \<le> 32 \<and> isUpper (hd s) \<and>
     list_all (\<lambda>c. isUpper c \<or> isDigit c \<or> c = CHR ''_'' \<or> c = CHR ''-'') s"

definition hostInvalid :: go_error where
  "hostInvalid = ErrNew ''host is invalid''"

definition hostForbidden :: string where
  "hostForbidden = ''/?#@'' @ [CHR 0x5C, CHR 0x0D, CHR 0x0A, CHR 0x09, CHR '' '']"

definition NormalizeHost :: "string \<Rightarrow> go_error + string" where
  "NormalizeHost raw =
     (let authority = trimSpace raw
      in if authority = [] \<or> 512 < length authority \<or> containsAny authority hostForbidden then Inl hostInvalid
         else if splitHostPort authority \<noteq> None then Inl (ErrNew ''explicit host ports are not supported'')
         else if \<not> (hasPrefix authority ''['' \<and> hasSuffix authority '']'') \<and> containsChar authority (CHR '':'')
         then Inl hostInvalid
         else
           let inner = (if hasPrefix authority ''['' \<and> hasSuffix authority '']''
                        then trimSuffix (trimPrefix authority ''['') '']'' else authority);
               host = trimSuffix (toLower inner) ''.''
           in if host = [] \<or> 253 < length host then Inl hostInvalid
              else case parseAddr host of
                     Some a \<Rightarrow> Inr (addrString (unmap a))
                   | None \<Rightarrow>
                       if list_all labelPattern (splitOn (CHR ''.'') host) then Inr host else Inl hostInvalid)"

definition NormalizePath :: "string \<Rightarrow> go_error + string" where
  "NormalizePath value =
     (if containsAny value ''?#'' then Inl (ErrNew ''path must not contain query or fragment'')
      else
        let p = (if value = [] then ''/'' else value)
        in if p \<noteq> trimSpace p \<or> \<not> hasPrefix p ''/'' \<or> 2048 < length p \<or> containsAny p [CHR 0x0D, CHR 0x0A, CHR 0x00]
           then Inl (ErrNew ''path is invalid'') else Inr p)"

definition NormalizeTarget :: "string \<Rightarrow> string \<Rightarrow> string \<Rightarrow> string \<Rightarrow> go_error + Target" where
  "NormalizeTarget backend0 method0 host0 path0 =
     (let b = trimSpace backend0; m = toUpper (trimSpace method0)
      in seqf (guardf (\<not> labelPattern b) (ErrNew ''backend must be a lowercase DNS label'')) (\<lambda>_.
         seqf (guardf (\<not> methodPattern m) (ErrNew ''method is invalid'')) (\<lambda>_.
         seqf (NormalizeHost host0) (\<lambda>h.
         seqf (NormalizePath path0) (\<lambda>p.
           Inr \<lparr>tgBackend = b, tgMethod = m, tgHost = h, tgPath = p\<rparr>)))))"

subsection \<open>Access requests (validation.go)\<close>

definition validateHumanText :: "string \<Rightarrow> string \<Rightarrow> nat \<Rightarrow> nat \<Rightarrow> go_error option" where
  "validateHumanText name value minimum maximum =
     (if value \<noteq> trimSpace value \<or> length value < minimum \<or> maximum < length value \<or> containsControl value
      then Some (ErrNew (name @ '' is invalid'')) else None)"

definition ValidateIdentity :: "(string \<Rightarrow> bool) \<Rightarrow> GovernanceIdentity \<Rightarrow> go_error option" where
  "ValidateIdentity uuidOk i =
     (if \<not> uuidOk (giTenantID i) then Some (ErrNew ''tenant ID must be a UUID'')
      else if \<not> uuidOk (giObjectID i) then Some (ErrNew ''object ID must be a UUID'')
      else case validateHumanText ''display name'' (giDisplayName i) 1 256 of
             Some e \<Rightarrow> Some e
           | None \<Rightarrow>
               case (if giLogicalTenant i \<noteq> [] then validateHumanText ''logical tenant'' (giLogicalTenant i) 1 128 else None) of
                 Some e \<Rightarrow> Some e
               | None \<Rightarrow> if giTeam i \<noteq> [] then validateHumanText ''team'' (giTeam i) 1 128 else None)"

definition ValidateAccessRequestSpec ::
  "(string \<Rightarrow> bool) \<Rightarrow> (string \<Rightarrow> string list) \<Rightarrow> SandboxAccessRequestSpec \<Rightarrow> go_error option" where
  "ValidateAccessRequestSpec uuidOk dnsErrors spec =
     (if dnsErrors (arName (rsAssignmentRef spec)) \<noteq> []
      then Some (ErrNew (''assignment name is invalid: '' @ joinWith '', '' (dnsErrors (arName (rsAssignmentRef spec)))))
      else if arUID (rsAssignmentRef spec) = [] then Some (ErrNew ''assignment UID is required'')
      else if rsPodUID spec = [] then Some (ErrNew ''Pod UID is required'')
      else if length (rsBasePolicyRevision spec) < 8 \<or> 128 < length (rsBasePolicyRevision spec)
              \<or> containsControl (rsBasePolicyRevision spec)
      then Some (ErrNew ''base policy revision is invalid'')
      else case NormalizeTarget (rsBackend spec) (rsMethod spec) (rsHost spec) (rsPath spec) of
             Inl e \<Rightarrow> Some e
           | Inr t \<Rightarrow>
               if tgBackend t \<noteq> rsBackend spec \<or> tgMethod t \<noteq> rsMethod spec
                  \<or> tgHost t \<noteq> rsHost spec \<or> tgPath t \<noteq> rsPath spec
               then Some (ErrNew ''access request target is not canonical'')
               else case validateHumanText ''reason'' (rsReason spec) 3 512 of
                      Some e \<Rightarrow> Some e
                    | None \<Rightarrow>
                        case ValidateIdentity uuidOk (rsRequester spec) of
                          Some e \<Rightarrow> Some (Errorf ''requester'' e)
                        | None \<Rightarrow>
                            let duration = rsRequestedDurationSeconds spec * second
                            in if duration < MinimumRequestedDuration \<or> MaximumRequestedDuration < duration
                               then Some (ErrNew ''requested duration must be between 1m0s and 8h0m0s'')
                               else None)"

subsection \<open>Policy revisions (revision.go)\<close>

text \<open>
  Encoding decoded JSON cannot fail, so the error of the Go function never occurs; the caller's
  branch on it is dead. The newline that \<open>Encode\<close> appends is trimmed again.
\<close>

definition PolicyRevision :: "json \<Rightarrow> string" where
  "PolicyRevision spec = ''sha256:'' @ hexEncode (sha256Sum (encodeJson False (sortKeys spec)))"

subsection \<open>Policy impact (simulation.go)\<close>

record PolicyImpactMatch =
  pmEventName :: string
  pmAssignment :: string
  pmSandboxID :: string
  pmLogicalTenant :: string
  pmTeam :: string
  pmTarget :: Target

record PolicyImpact =
  piDeniedEvents :: nat
  piNewlyAllowed :: nat
  piAffectedTenants :: "string list"
  piAffectedTeams :: "string list"
  piMatches :: "PolicyImpactMatch list"

definition eventTarget :: "SandboxEgressEventSpec \<Rightarrow> Target" where
  "eventTarget s = \<lparr>tgBackend = esBackend s, tgMethod = esMethod s, tgHost = esHost s, tgPath = esPath s\<rparr>"

definition impactMatch :: "SandboxEgressEvent \<Rightarrow> PolicyImpactMatch" where
  "impactMatch ev =
     (let s = seeSpec ev
      in \<lparr>pmEventName = metaName ev, pmAssignment = arName (esAssignmentRef s), pmSandboxID = esSandboxID s,
         pmLogicalTenant = esLogicalTenant s, pmTeam = esTeam s, pmTarget = eventTarget s\<rparr>)"

definition impactStep :: "Target list \<Rightarrow> PolicyImpact \<Rightarrow> SandboxEgressEvent \<Rightarrow> PolicyImpact" where
  "impactStep targets impact ev =
     (let s = seeSpec ev
      in if esAllowed s \<or> esDecisionSource s \<noteq> DecisionSourceDeny then impact
         else
           let impact1 = impact\<lparr>piDeniedEvents := piDeniedEvents impact + 1\<rparr>
           in if eventTarget s \<notin> set targets then impact1
              else impact1\<lparr>
                piNewlyAllowed := piNewlyAllowed impact1 + 1,
                piMatches := piMatches impact1 @ [impactMatch ev],
                piAffectedTenants :=
                  (if esLogicalTenant s \<noteq> [] then List.insert (esLogicalTenant s) (piAffectedTenants impact1)
                   else piAffectedTenants impact1),
                piAffectedTeams :=
                  (if esTeam s \<noteq> [] then List.insert (esTeam s) (piAffectedTeams impact1)
                   else piAffectedTeams impact1)\<rparr>)"

definition emptyImpact :: PolicyImpact where
  "emptyImpact = \<lparr>piDeniedEvents = 0, piNewlyAllowed = 0, piAffectedTenants = [], piAffectedTeams = [], piMatches = []\<rparr>"

definition SimulatePolicyImpact :: "SandboxEgressEvent list \<Rightarrow> Target list \<Rightarrow> PolicyImpact" where
  "SimulatePolicyImpact events targets =
     (let impact = foldl (impactStep targets) emptyImpact events
      in impact\<lparr>piAffectedTenants := sort (piAffectedTenants impact),
                piAffectedTeams := sort (piAffectedTeams impact),
                piMatches := sort_key pmEventName (piMatches impact)\<rparr>)"

subsection \<open>Canonical hosts\<close>

lemma hostChar_code:
  assumes "hostChar c"
  shows "((97 :: nat) \<le> of_char c \<and> of_char c \<le> (122 :: nat)) \<or> ((48 :: nat) \<le> of_char c \<and> of_char c \<le> (57 :: nat))
    \<or> of_char c = (45 :: nat) \<or> of_char c = (46 :: nat)"
  using assms by (auto simp: hostChar_def isLower_def isDigit_def less_eq_char_def)

lemma hostChar_plain:
  assumes "hostChar c"
  shows "plainChar c \<and> \<not> isUpper c" "c \<noteq> CHR '':''" "c \<noteq> CHR ''[''" "c \<notin> set hostForbidden"
proof -
  note code = hostChar_code [OF assms]
  show "plainChar c \<and> \<not> isUpper c"
    using code by (auto simp: plainChar_def byteIn_def isUpper_def less_eq_char_def)
  show "c \<noteq> CHR '':''" using code by auto
  show "c \<noteq> CHR ''[''" using code by auto
  show "c \<notin> set hostForbidden" using code by (auto simp: hostForbidden_def)
qed

text \<open>A host of lower-case letters, digits, hyphens and dots passes the lexical checks unchanged.\<close>

lemma NormalizeHost_plain:
  assumes chars: "list_all hostChar h" and "h \<noteq> []" "length h \<le> 253" "last h \<noteq> CHR ''.''"
  shows "NormalizeHost h =
    (case parseAddr h of
       Some a \<Rightarrow> Inr (addrString (unmap a))
     | None \<Rightarrow> if list_all labelPattern (splitOn (CHR ''.'') h) then Inr h else Inl hostInvalid)"
proof -
  have plain: "list_all plainChar h" "list_all (\<lambda>c. plainChar c \<and> \<not> isUpper c) h"
    using chars hostChar_plain(1) by (auto simp: list_all_iff)
  have nocolon: "CHR '':'' \<notin> set h"
    using chars hostChar_plain(2) by (auto simp: list_all_iff)
  have "\<not> containsAny h hostForbidden"
    using chars hostChar_plain(4) by (auto simp: list_all_iff list_ex_iff containsAny_def)
  moreover have "\<not> hasPrefix h ''[''"
    using chars hostChar_plain(3) assms(2) by (cases h) (auto simp: hasPrefix_def)
  moreover have "\<not> hasSuffix h ''.''"
    using assms(2,4) by (cases h rule: rev_cases) (auto simp: hasSuffix_def)
  ultimately show ?thesis
    using assms(2,3) nocolon plain
    by (simp add: NormalizeHost_def Let_def trimSpace_plain splitHostPort_no_colon containsChar_def
        trimSuffix_def toLower_plain [OF plain(2)] split: option.split)
qed

lemma splitOn_snoc_sep: "splitOn d (s @ [d]) = splitOn d s @ [[]]"
proof (induction s)
  case Nil
  then show ?case by simp
next
  case (Cons c s)
  then show ?case by (cases "splitOn d s") auto
qed

lemma splitOn_chars: "c \<in> set s \<Longrightarrow> c = d \<or> (\<exists>f \<in> set (splitOn d s). c \<in> set f)"
proof (induction s)
  case Nil
  then show ?case by simp
next
  case (Cons a s)
  then show ?case by (cases "splitOn d s") auto
qed

lemma labels_hostChar:
  assumes "list_all labelPattern (splitOn (CHR ''.'') h)"
  shows "list_all hostChar h" and "h = [] \<or> last h \<noteq> CHR ''.''"
proof -
  show "list_all hostChar h"
    unfolding list_all_iff
  proof
    fix c assume "c \<in> set h"
    then consider "c = CHR ''.''" | f where "f \<in> set (splitOn (CHR ''.'') h)" "c \<in> set f"
      using splitOn_chars by blast
    then show "hostChar c"
      using assms by cases (auto simp: list_all_iff labelPattern_def alnumLower_def hostChar_def)
  qed
  show "h = [] \<or> last h \<noteq> CHR ''.''"
  proof (cases h rule: rev_cases)
    case (snoc s c)
    have "c \<noteq> CHR ''.''"
      using assms by (auto simp: snoc splitOn_snoc_sep labelPattern_def)
    then show ?thesis by (simp add: snoc)
  qed simp
qed

lemma length_showDec_octet: "n < 256 \<Longrightarrow> length (showDec n) \<le> 3"
  by (subst showDec.simps, subst showDec.simps, subst showDec.simps) auto

lemma addrString_V4_shape:
  assumes "addrOk (AddrV4 v)"
  shows "addrString (AddrV4 v) \<noteq> []" "length (addrString (AddrV4 v)) \<le> 15" "last (addrString (AddrV4 v)) \<noteq> CHR ''.''"
proof -
  from assms have "length v = 4" by simp
  then obtain a b c d where v: "v = [a, b, c, d]" by (rule length_4_cases)
  have "length (showDec a) \<le> 3" "length (showDec b) \<le> 3" "length (showDec c) \<le> 3" "length (showDec d) \<le> 3"
    using assms by (simp_all add: v length_showDec_octet)
  then show "length (addrString (AddrV4 v)) \<le> 15" by (simp add: v)
  show "addrString (AddrV4 v) \<noteq> []" by (simp add: v)
  have "last (showDec d) \<noteq> CHR ''.''"
    using showDec_no_dot [of d] last_in_set [of "showDec d"] by (metis showDec_nonempty)
  then show "last (addrString (AddrV4 v)) \<noteq> CHR ''.''" by (simp add: v)
qed

text \<open>What a host is after normalization: an address in its printed form, or a list of labels.\<close>

lemma NormalizeHost_cases:
  assumes "NormalizeHost raw = Inr r"
  obtains (addr) a where "addrOk a" "r = addrString a"
  | (labels) "parseAddr r = None" "list_all labelPattern (splitOn (CHR ''.'') r)" "r \<noteq> []" "length r \<le> 253"
proof -
  obtain h where h: "h \<noteq> []" "length h \<le> 253"
    and r: "(case parseAddr h of
        Some a \<Rightarrow> Inr (addrString (unmap a))
      | None \<Rightarrow> if list_all labelPattern (splitOn (CHR ''.'') h) then Inr h else Inl hostInvalid) = Inr r"
    using assms unfolding NormalizeHost_def Let_def
    by (simp only: split: if_splits) (auto simp del: split_paired_All)
  show thesis
  proof (cases "parseAddr h")
    case None
    then show thesis using r h labels by (auto split: if_splits)
  next
    case (Some a)
    then show thesis
      using r addr [of "unmap a"] unmap_ok [OF parseAddr_ok [OF Some]] by simp
  qed
qed

lemma NormalizeHost_nonempty: "NormalizeHost raw = Inr r \<Longrightarrow> r \<noteq> []"
proof (erule NormalizeHost_cases)
  fix a assume a: "addrOk a" "r = addrString a"
  show "r \<noteq> []"
  proof (cases a)
    case (AddrV4 v)
    then show ?thesis using a addrString_V4_shape(1) [of v] by (simp del: addrString.simps addrOk.simps)
  next
    case (AddrV6 gs z)
    then have "CHR '':'' \<in> set (addrString (AddrV6 gs z))" using a(1) by (intro addrString_V6_colon) simp
    then show ?thesis using a(2) AddrV6 by (metis empty_iff empty_set)
  qed
qed simp

lemma NormalizeHost_stable:
  assumes "NormalizeHost raw = Inr r" and nocolon: "CHR '':'' \<notin> set r"
  shows "NormalizeHost r = Inr r"
  using assms(1)
proof (cases rule: NormalizeHost_cases)
  case (addr a)
  then obtain v where a: "a = AddrV4 v"
    using nocolon addrString_V6_colon by (cases a) (auto simp del: addrString.simps)
  then have v: "length v = 4" "\<And>n. n \<in> set v \<Longrightarrow> n < 256"
    using addr(1) by (auto simp: list_all_iff)
  have "addrString (AddrV4 v) \<noteq> []" "length (addrString (AddrV4 v)) \<le> 253"
    using addrString_V4_shape(1,2) [of v] addr(1) a by auto
  then have "NormalizeHost (addrString (AddrV4 v)) = Inr (addrString (AddrV4 v))"
    using NormalizeHost_plain [OF addrString_V4_chars [of v]] addrString_V4_shape(3) [of v] addr(1) a
      parseAddr_showV4 [OF v] by simp
  then show ?thesis using addr(2) a by simp
next
  case labels
  then show ?thesis
    using NormalizeHost_plain [of r] labels_hostChar [of r] by simp
qed

lemma NormalizeHost_colon:
  assumes "NormalizeHost raw = Inr r" and colon: "CHR '':'' \<in> set r"
  shows "\<exists>gs z. r = addrString (AddrV6 gs z)"
  using assms(1)
proof (cases rule: NormalizeHost_cases)
  case (addr a)
  then show ?thesis
    using colon addrString_V4_chars hostChar_plain(2)
    by (cases a) (force simp: list_all_iff simp del: addrString.simps)+
next
  case labels
  then show ?thesis
    using colon labels_hostChar(1) [of r] hostChar_plain(2) [of "CHR '':''"] by (simp add: list_all_iff)
qed

subsection \<open>Targets are canonical\<close>

lemmas normalize_flow = NormalizeTarget_def Let_def seqf_Inr_iff guardf_Inr_iff

lemma labelPattern_plain: "labelPattern s \<Longrightarrow> list_all plainChar s"
  using hostChar_plain(1) by (auto simp: labelPattern_def list_all_iff alnumLower_def hostChar_def)

lemma methodPattern_plain:
  assumes "methodPattern m"
  shows "list_all (\<lambda>c. plainChar c \<and> \<not> isLower c) m"
  using assms
  by (auto simp: methodPattern_def list_all_iff plainChar_def byteIn_def isUpper_def isDigit_def isLower_def
      less_eq_char_def)

lemma methodPattern_fixed:
  assumes "methodPattern m"
  shows "toUpper (trimSpace m) = m"
proof -
  have "list_all plainChar m" using methodPattern_plain [OF assms] by (simp add: list_all_iff)
  then show ?thesis using toUpper_plain [OF methodPattern_plain [OF assms]] by (simp add: trimSpace_plain)
qed

lemma NormalizePath_stable: "NormalizePath p = Inr q \<Longrightarrow> NormalizePath q = Inr q"
  by (auto simp: NormalizePath_def Let_def containsAny_def split: if_splits)

lemma NormalizeTarget_fixed:
  assumes "NormalizeTarget b m h p = Inr t" and "CHR '':'' \<notin> set (tgHost t)"
  shows "NormalizeTarget (tgBackend t) (tgMethod t) (tgHost t) (tgPath t) = Inr t"
proof -
  from assms(1) have "labelPattern (tgBackend t)" "methodPattern (tgMethod t)"
    and host: "NormalizeHost h = Inr (tgHost t)" and path: "NormalizePath p = Inr (tgPath t)"
    by (auto simp: normalize_flow)
  then show ?thesis
    using NormalizeHost_stable [OF host assms(2)] NormalizePath_stable [OF path]
    by (simp add: NormalizeTarget_def Let_def trimSpace_plain labelPattern_plain methodPattern_fixed)
qed

text \<open>
  the canonical form is a fixed point. A target that \<open>NormalizeTarget\<close> returned, with a host
  that is not an IPv6 address, is returned unchanged when it is normalized again, so a stored
  grant and a request for the same target compare equal.
\<close>

theorem NormalizeTarget_stable:
  assumes "NormalizeTarget b m h p = Inr t" and "CHR '':'' \<notin> set (tgHost t)"
  shows "NormalizeTarget (tgBackend t) (tgMethod t) (tgHost t) (tgPath t) = Inr t"
  using assms by (rule NormalizeTarget_fixed)

theorem NormalizeTarget_stable_witness:
  "NormalizeTarget '' github '' ''get'' ''API.Example.com.'' '''' =
     Inr \<lparr>tgBackend = ''github'', tgMethod = ''GET'', tgHost = ''api.example.com'', tgPath = ''/''\<rparr>
   \<and> NormalizeTarget ''github'' ''GET'' ''api.example.com'' ''/'' =
     Inr \<lparr>tgBackend = ''github'', tgMethod = ''GET'', tgHost = ''api.example.com'', tgPath = ''/''\<rparr>"
proof -
  have first: "NormalizeTarget '' github '' ''get'' ''API.Example.com.'' '''' =
     Inr \<lparr>tgBackend = ''github'', tgMethod = ''GET'', tgHost = ''api.example.com'', tgPath = ''/''\<rparr>"
    by code_simp
  show ?thesis using first NormalizeTarget_stable [OF first] by simp
qed

subsection \<open>IPv6 targets\<close>

lemma trimLeft_keeps: "plainChar c \<Longrightarrow> c \<in> set s \<Longrightarrow> c \<in> set (trimLeft s)"
  by (induction s rule: trimLeft.induct) auto

lemma trimRightRev_keeps: "plainChar c \<Longrightarrow> c \<in> set s \<Longrightarrow> c \<in> set (trimRightRev s)"
  by (induction s rule: trimRightRev.induct) auto

lemma trimSpace_keeps: "plainChar c \<Longrightarrow> c \<in> set s \<Longrightarrow> c \<in> set (trimSpace s)"
  by (simp add: trimSpace_def trimRight_def trimLeft_keeps trimRightRev_keeps)

lemma trimLeft_hd: "plainChar (hd s) \<Longrightarrow> s \<noteq> [] \<Longrightarrow> trimLeft s = s"
  by (cases s rule: trimLeft.cases) auto

lemma trimRightRev_last:
  "s \<noteq> [] \<Longrightarrow> plainChar (last s) \<Longrightarrow> trimRightRev s \<noteq> [] \<and> last (trimRightRev s) = last s"
  by (induction s rule: trimRightRev.induct) auto

lemma hd_trimSpace:
  assumes "plainChar (hd s)" "s \<noteq> []"
  shows "hd (trimSpace s) = hd s"
  using assms trimRightRev_last [of "rev s"]
  by (simp add: trimSpace_def trimRight_def trimLeft_hd last_rev hd_rev)

lemma hd_showHex: "isHex (hd (showHex n)) "
proof (induction n rule: showHex.induct)
  case (1 n)
  have "isHex (digitChar n)" if "n < 16"
    using that by (auto simp: isHex_def isDigit_def digitChar_def less_eq_char_def)
  then show ?case using "1" by (subst showHex.simps) auto
qed

lemma hd_joinWith: "ss \<noteq> [] \<Longrightarrow> hd ss \<noteq> [] \<Longrightarrow> hd (joinWith sep ss) = hd (hd ss)"
  by (cases "(sep, ss)" rule: joinWith.cases) auto

lemma hd_joinHex:
  assumes "gs \<noteq> []"
  shows "isHex (hd (joinWith '':'' (map showHex gs)))"
  using assms hd_showHex by (simp add: hd_joinWith hd_map)

lemma joinHex_nonempty: "gs \<noteq> [] \<Longrightarrow> joinWith '':'' (map showHex gs) \<noteq> []"
  by (cases "('':'', map showHex gs)" rule: joinWith.cases) auto

lemma hd_addrString_V6:
  assumes "length gs = 8"
  shows "isHex (hd (addrString (AddrV6 gs z))) \<or> hd (addrString (AddrV6 gs z)) = CHR '':''"
proof (cases "longestZeros gs")
  case None
  have "gs \<noteq> []" using assms by auto
  then show ?thesis using None hd_joinHex [of gs] joinHex_nonempty [of gs] by (simp add: Let_def)
next
  case (Some se)
  then show ?thesis
    using hd_joinHex [of "take (fst se) gs"] joinHex_nonempty [of "take (fst se) gs"]
    by (cases "take (fst se) gs = []") (auto simp: Let_def split: prod.splits)
qed

lemma isHex_plain: "isHex c \<Longrightarrow> plainChar c \<and> c \<noteq> CHR ''[''"
  by (auto simp: isHex_def isDigit_def plainChar_def byteIn_def less_eq_char_def)

lemma NormalizeHost_bare_colon:
  assumes "CHR '':'' \<in> set r" "plainChar (hd r)" "hd r \<noteq> CHR ''[''"
  shows "\<exists>e. NormalizeHost r = Inl e"
proof -
  have ne: "r \<noteq> []" using assms(1) by auto
  have colon: "CHR '':'' \<in> set (trimSpace r)"
    by (rule trimSpace_keeps) (simp_all add: assms(1) plainChar_def byteIn_def)
  then have "trimSpace r \<noteq> []" by auto
  then have "\<not> hasPrefix (trimSpace r) ''[''"
    using hd_trimSpace [OF assms(2) ne] assms(3) by (cases "trimSpace r") (auto simp: hasPrefix_def)
  then show ?thesis using colon by (simp add: NormalizeHost_def Let_def containsChar_def)
qed

lemma NormalizeHost_ipv6_unstable:
  assumes "NormalizeHost raw = Inr r" and "CHR '':'' \<in> set r"
  shows "\<exists>e. NormalizeHost r = Inl e"
  using assms(1)
proof (cases rule: NormalizeHost_cases)
  case (addr a)
  show ?thesis
  proof (cases a)
    case (AddrV4 v)
    have "hostChar (CHR '':'')"
      using assms(2) addr(2) AddrV4 addrString_V4_chars [of v]
      by (simp add: list_all_iff del: addrString.simps)
    then show ?thesis using hostChar_plain(2) by blast
  next
    case (AddrV6 gs z)
    then have "isHex (hd r) \<or> hd r = CHR '':''"
      using addr hd_addrString_V6 by (simp del: addrString.simps)
    then have "plainChar (hd r)" "hd r \<noteq> CHR ''[''"
      using isHex_plain by (auto simp: plainChar_def byteIn_def)
    then show ?thesis using NormalizeHost_bare_colon [OF assms(2)] by blast
  qed
next
  case labels
  then have "hostChar (CHR '':'')" using assms(2) labels_hostChar(1) [of r] by (simp add: list_all_iff)
  then show ?thesis using hostChar_plain(2) by blast
qed

lemma ValidateAccessRequestSpec_target:
  assumes "ValidateAccessRequestSpec uuidOk dnsErrors spec = None"
  shows "NormalizeTarget (rsBackend spec) (rsMethod spec) (rsHost spec) (rsPath spec) =
    Inr \<lparr>tgBackend = rsBackend spec, tgMethod = rsMethod spec, tgHost = rsHost spec, tgPath = rsPath spec\<rparr>"
  using assms
  by (auto simp: ValidateAccessRequestSpec_def split: if_splits sum.splits intro: Target.equality)

lemma NormalizeHost_loopback: "NormalizeHost ''[::1]'' = Inr ''::1''"
proof -
  have "trimSpace ''[::1]'' = ''[::1]''" "\<not> containsAny ''[::1]'' hostForbidden" "splitHostPort ''[::1]'' = None"
    "hasPrefix ''[::1]'' ''[''" "hasSuffix ''[::1]'' '']''"
    "trimSuffix (toLower (trimSuffix (trimPrefix ''[::1]'' ''['') '']'')) ''.'' = ''::1''"
    by code_simp+
  moreover have "parseAddr ''::1'' = Some (AddrV6 [0, 0, 0, 0, 0, 0, 0, 1] [])"
    and "addrString (AddrV6 [0, 0, 0, 0, 0, 0, 0, 1] []) = ''::1''"
    by code_simp+
  ultimately show ?thesis by (simp add: NormalizeHost_def del: addrString.simps)
qed

text \<open>
  an IPv6 host has no canonical form that the validation accepts. The bracketed authority
  normalizes to the address without brackets, which \<open>NormalizeHost\<close> rejects because it holds a
  colon; so every access request for an IPv6 host is refused.
\<close>

theorem ipv6_target_never_valid:
  "NormalizeHost ''[::1]'' = Inr ''::1'' \<and>
   (\<forall>spec. CHR '':'' \<in> set (rsHost spec) \<longrightarrow> ValidateAccessRequestSpec uuidOk dnsErrors spec \<noteq> None)"
proof (intro conjI allI impI notI)
  show "NormalizeHost ''[::1]'' = Inr ''::1''" by (rule NormalizeHost_loopback)
  fix spec
  assume colon: "CHR '':'' \<in> set (rsHost spec)"
    and "ValidateAccessRequestSpec uuidOk dnsErrors spec = None"
  then have "NormalizeHost (rsHost spec) = Inr (rsHost spec)"
    using ValidateAccessRequestSpec_target [of uuidOk dnsErrors spec] by (auto simp: normalize_flow)
  then show False using NormalizeHost_ipv6_unstable [of "rsHost spec" "rsHost spec"] colon by auto
qed

theorem ipv6_target_never_valid_witness:
  "ValidateAccessRequestSpec (\<lambda>_. True) (\<lambda>_. [])
     \<lparr>rsAssignmentRef = \<lparr>arName = ''task'', arUID = ''u1''\<rparr>, rsPodUID = ''p1'', rsBasePolicyRevision = ''sha256:0'',
      rsBackend = ''web'', rsMethod = ''GET'', rsHost = ''::1'', rsPath = ''/'', rsReason = ''debugging'',
      rsRequester = \<lparr>giTenantID = ''t'', giObjectID = ''o'', giDisplayName = ''Ann'', giLogicalTenant = '''', giTeam = ''''\<rparr>,
      rsRequestedDurationSeconds = 600\<rparr> \<noteq> None"
  using ipv6_target_never_valid [of "\<lambda>_. True" "\<lambda>_. []"] by auto

subsection \<open>Revisions do not depend on the order of keys\<close>

text \<open>Two decoded values that differ only in the order in which objects hold their keys.\<close>

inductive sameValue :: "json \<Rightarrow> json \<Rightarrow> bool" where
  same_refl: "sameValue j j"
| same_arr: "list_all2 sameValue xs ys \<Longrightarrow> sameValue (JArr xs) (JArr ys)"
| same_obj: "list_all2 (rel_prod (=) sameValue) kvs lvs \<Longrightarrow> mset lvs = mset mvs \<Longrightarrow> distinct (map fst kvs)
    \<Longrightarrow> sameValue (JObj kvs) (JObj mvs)"

lemma sort_key_fst_mset:
  assumes "mset xs = mset ys" "distinct (map fst xs)"
  shows "sort_key fst xs = sort_key fst ys"
  using assms by (intro sort_key_inj_key_eq) (simp_all add: distinct_map)

lemma sortKeys_sameValue: "sameValue j j' \<Longrightarrow> sortKeys j = sortKeys j'"
proof (induction rule: sameValue.induct)
  case (same_refl j)
  then show ?case ..
next
  case (same_arr xs ys)
  then have "map sortKeys xs = map sortKeys ys" by (induction) auto
  then show ?case by simp
next
  case (same_obj kvs lvs mvs)
  define f where "f = (\<lambda>(k :: string, v). (k, sortKeys v))"
  have "map f kvs = map f lvs"
    using same_obj(1) by induction (auto simp: f_def)
  moreover have "mset (map f lvs) = mset (map f mvs)"
    using same_obj(2) by simp
  moreover have "map fst (map f kvs) = map fst kvs" by (simp add: f_def split_def comp_def)
  ultimately have "sort_key fst (map f kvs) = sort_key fst (map f mvs)"
    using sort_key_fst_mset [of "map f kvs" "map f mvs"] same_obj(3) by simp
  then show ?case by (simp add: f_def)
qed

lemma hexEncode_plain: "list_all plainChar (hexEncode s)"
  using hexEncode_chars [of _ s] hostChar_plain(1) by (force simp: list_all_iff hostChar_def)

lemma PolicyRevision_shape: "length (PolicyRevision spec) = 71" "\<not> containsControl (PolicyRevision spec)"
proof -
  show "length (PolicyRevision spec) = 71"
    by (simp add: PolicyRevision_def length_hexEncode length_sha256Sum)
  have "list_all plainChar ''sha256:''" by code_simp
  then show "\<not> containsControl (PolicyRevision spec)"
    by (intro containsControl_plain) (simp add: PolicyRevision_def hexEncode_plain)
qed

text \<open>
  the revision of a policy does not depend on the order in which the API server or the
  decoder hands over the keys, at any depth of the spec, and every revision has the length and
  the characters that the validation of an access request demands of a base policy revision.
\<close>

theorem PolicyRevision_canonical:
  assumes "sameValue spec spec'"
  shows "PolicyRevision spec = PolicyRevision spec' \<and>
    8 \<le> length (PolicyRevision spec) \<and> length (PolicyRevision spec) \<le> 128 \<and>
    \<not> containsControl (PolicyRevision spec)"
  using sortKeys_sameValue [OF assms] PolicyRevision_shape [of spec] by (simp add: PolicyRevision_def)

theorem PolicyRevision_canonical_witness:
  "PolicyRevision (JObj [(''a'', JInt 1), (''b'', JStr ''x'')]) = PolicyRevision (JObj [(''b'', JStr ''x''), (''a'', JInt 1)])"
proof -
  have "list_all2 (rel_prod (=) sameValue) [(''a'', JInt 1), (''b'', JStr ''x'')] [(''a'', JInt 1), (''b'', JStr ''x'')]"
    by (simp add: same_refl)
  then have "sameValue (JObj [(''a'', JInt 1), (''b'', JStr ''x'')]) (JObj [(''b'', JStr ''x''), (''a'', JInt 1)])"
    by (rule same_obj) simp_all
  from PolicyRevision_canonical [OF this] show ?thesis by simp
qed

subsection \<open>Policy impact is exact\<close>

definition deniedEvent :: "SandboxEgressEvent \<Rightarrow> bool" where
  "deniedEvent ev \<longleftrightarrow> \<not> esAllowed (seeSpec ev) \<and> esDecisionSource (seeSpec ev) = DecisionSourceDeny"

definition impactedEvent :: "Target list \<Rightarrow> SandboxEgressEvent \<Rightarrow> bool" where
  "impactedEvent targets ev \<longleftrightarrow> deniedEvent ev \<and> eventTarget (seeSpec ev) \<in> set targets"

definition affected :: "(SandboxEgressEventSpec \<Rightarrow> string) \<Rightarrow> Target list \<Rightarrow> SandboxEgressEvent list \<Rightarrow> string set" where
  "affected f targets events = {f (seeSpec ev) | ev. ev \<in> set events \<and> impactedEvent targets ev \<and> f (seeSpec ev) \<noteq> []}"

lemma impact_fold:
  "piDeniedEvents (foldl (impactStep ts) i evs) = piDeniedEvents i + length (filter deniedEvent evs)"
  "piNewlyAllowed (foldl (impactStep ts) i evs) = piNewlyAllowed i + length (filter (impactedEvent ts) evs)"
  "piMatches (foldl (impactStep ts) i evs) = piMatches i @ map impactMatch (filter (impactedEvent ts) evs)"
  by (induction evs arbitrary: i)
    (auto simp: impactStep_def Let_def deniedEvent_def impactedEvent_def)

lemma impact_fold_sets:
  "set (piAffectedTenants (foldl (impactStep ts) i evs)) = set (piAffectedTenants i) \<union> affected esLogicalTenant ts evs"
  "set (piAffectedTeams (foldl (impactStep ts) i evs)) = set (piAffectedTeams i) \<union> affected esTeam ts evs"
  by (induction evs arbitrary: i)
    (auto simp: impactStep_def Let_def deniedEvent_def impactedEvent_def affected_def)

lemma impact_fold_distinct:
  "distinct (piAffectedTenants i) \<Longrightarrow> distinct (piAffectedTenants (foldl (impactStep ts) i evs))"
  "distinct (piAffectedTeams i) \<Longrightarrow> distinct (piAffectedTeams (foldl (impactStep ts) i evs))"
  by (induction evs arbitrary: i) (auto simp: impactStep_def Let_def)

text \<open>
  the simulation counts exactly the past denials, counts and lists exactly those whose
  target is one of the candidates, in the order of their names, and reports every affected
  tenant and team once, in order.
\<close>

theorem SimulatePolicyImpact_exact:
  "let impact = SimulatePolicyImpact events targets; hits = filter (impactedEvent targets) events in
     piDeniedEvents impact = length (filter deniedEvent events) \<and>
     piNewlyAllowed impact = length hits \<and>
     mset (piMatches impact) = mset (map impactMatch hits) \<and>
     sorted (map pmEventName (piMatches impact)) \<and>
     piAffectedTenants impact = sorted_list_of_set (affected esLogicalTenant targets events) \<and>
     piAffectedTeams impact = sorted_list_of_set (affected esTeam targets events)"
proof -
  have sorted_set: "sort xs = sorted_list_of_set (set xs)" if "distinct xs" for xs :: "string list"
    using that by (simp add: sorted_list_of_set_sort_remdups distinct_remdups_id)
  show ?thesis
    by (simp add: Let_def SimulatePolicyImpact_def impact_fold impact_fold_sets sorted_set
        impact_fold_distinct emptyImpact_def)
qed

end
