(* ===== verification/GoTime.thy ===== *)
theory GoTime
  imports Objects
begin

section \<open>Timestamps in RFC 3339\<close>

text \<open>
  \<open>time.Parse(time.RFC3339Nano, s)\<close> and \<open>Format(time.RFC3339)\<close> of Go's \<open>time\<close> package. Parsing
  follows the general parser: a four-digit year, two-digit month, day, minute and second, an hour
  of one or two digits, an optional fraction after a period or comma, of which nine digits count,
  and a zone \<open>Z\<close> or \<open>+hh:mm\<close>. The result is in nanoseconds since 1970.
\<close>

definition leapYear :: "int \<Rightarrow> bool" where
  "leapYear y \<longleftrightarrow> y mod 4 = 0 \<and> (y mod 100 \<noteq> 0 \<or> y mod 400 = 0)"

definition daysIn :: "int \<Rightarrow> int \<Rightarrow> int" where
  "daysIn y m = (if m = 2 then (if leapYear y then 29 else 28) else if m \<in> {4, 6, 9, 11} then 30 else 31)"

definition daysBeforeMonth :: "int \<Rightarrow> int \<Rightarrow> int" where
  "daysBeforeMonth y m = sum_list (map (daysIn y) [1..m - 1])"

definition daysSinceEpoch :: "int \<Rightarrow> int \<Rightarrow> int \<Rightarrow> int" where
  "daysSinceEpoch y m d =
     (let p = y - 1 in 365 * p + p div 4 - p div 100 + p div 400 - 719162 + daysBeforeMonth y m + d - 1)"

definition getnum2 :: "string \<Rightarrow> (int \<times> string) option" where
  "getnum2 s = (case s of a # b # r \<Rightarrow> if isDigit a \<and> isDigit b then Some (int (readBase 10 [a, b]), r) else None | _ \<Rightarrow> None)"

definition getnum1or2 :: "string \<Rightarrow> (int \<times> string) option" where
  "getnum1or2 s =
     (case s of
        [] \<Rightarrow> None
      | a # r \<Rightarrow>
          if \<not> isDigit a then None
          else case r of
                 b # r' \<Rightarrow> if isDigit b then Some (int (readBase 10 [a, b]), r') else Some (int (readBase 10 [a]), r)
               | [] \<Rightarrow> Some (int (readBase 10 [a]), []))"

definition expectChar :: "char \<Rightarrow> string \<Rightarrow> string option" where
  "expectChar c s = (case s of a # r \<Rightarrow> if a = c then Some r else None | [] \<Rightarrow> None)"

definition parseYear :: "string \<Rightarrow> (int \<times> string) option" where
  "parseYear s =
     (let y = take 4 s in if length y = 4 \<and> list_all isDigit y then Some (int (readBase 10 y), drop 4 s) else None)"

definition parseFraction :: "string \<Rightarrow> int \<times> string" where
  "parseFraction s =
     (case s of
        c # r \<Rightarrow>
          (let ds = takeWhile isDigit r
           in if (c = CHR ''.'' \<or> c = CHR '','') \<and> ds \<noteq> []
              then (int (readBase 10 (take 9 ds)) * 10 ^ (9 - length (take 9 ds)), drop (length ds) r)
              else (0, s))
      | [] \<Rightarrow> (0, []))"

definition parseZone :: "string \<Rightarrow> int option" where
  "parseZone s =
     (if s = ''Z'' then Some 0
      else if length s \<noteq> 6 \<or> s ! 3 \<noteq> CHR '':'' \<or> s ! 0 \<notin> {CHR ''+'', CHR ''-''} then None
      else case (getnum2 (take 2 (drop 1 s)), getnum2 (drop 4 s)) of
             (Some (h, _), Some (m, _)) \<Rightarrow>
               if 24 < h \<or> 60 < m then None
               else Some ((if s ! 0 = CHR ''-'' then -1 else 1) * (h * 60 + m) * 60)
           | _ \<Rightarrow> None)"

definition obind :: "'a option \<Rightarrow> ('a \<Rightarrow> 'b option) \<Rightarrow> 'b option" where
  "obind m f = (case m of None \<Rightarrow> None | Some a \<Rightarrow> f a)"

definition oguard :: "bool \<Rightarrow> unit option" where
  "oguard b = (if b then Some () else None)"

definition parseRFC3339 :: "string \<Rightarrow> time option" where
  "parseRFC3339 s =
     obind (parseYear s) (\<lambda>(y, s). obind (expectChar (CHR ''-'') s) (\<lambda>s.
     obind (getnum2 s) (\<lambda>(mo, s). obind (oguard (1 \<le> mo \<and> mo \<le> 12)) (\<lambda>_. obind (expectChar (CHR ''-'') s) (\<lambda>s.
     obind (getnum2 s) (\<lambda>(d, s). obind (expectChar (CHR ''T'') s) (\<lambda>s.
     obind (getnum1or2 s) (\<lambda>(h, s). obind (oguard (h < 24)) (\<lambda>_. obind (expectChar (CHR '':'') s) (\<lambda>s.
     obind (getnum2 s) (\<lambda>(mi, s). obind (oguard (mi < 60)) (\<lambda>_. obind (expectChar (CHR '':'') s) (\<lambda>s.
     obind (getnum2 s) (\<lambda>(sec, s). obind (oguard (sec < 60)) (\<lambda>_.
     (let (nanos, s) = parseFraction s in
      obind (parseZone s) (\<lambda>zone. obind (oguard (1 \<le> d \<and> d \<le> daysIn y mo)) (\<lambda>_.
        Some (((daysSinceEpoch y mo d * 86400 + h * 3600 + mi * 60 + sec) - zone) * second + nanos)))))))))))))))))))"

subsection \<open>Formatting\<close>

text \<open>The civil date of a day number, with eras of 400 years that start on the first of March.\<close>

definition civilFromDays :: "int \<Rightarrow> int \<times> int \<times> int" where
  "civilFromDays z0 =
     (let z = z0 + 719468; era = z div 146097; doe = z mod 146097;
          yoe = (doe - doe div 1460 + doe div 36524 - doe div 146096) div 365;
          doy = doe - (365 * yoe + yoe div 4 - yoe div 100);
          mp = (5 * doy + 2) div 153;
          d = doy - (153 * mp + 2) div 5 + 1;
          m = (if mp < 10 then mp + 3 else mp - 9)
      in (yoe + era * 400 + (if m \<le> 2 then 1 else 0), m, d))"

definition padDec :: "nat \<Rightarrow> int \<Rightarrow> string" where
  "padDec n i = (let s = showDec (nat i) in replicate (n - length s) (CHR ''0'') @ s)"

definition formatRFC3339 :: "time \<Rightarrow> string" where
  "formatRFC3339 t =
     (let secs = t div second; (y, m, d) = civilFromDays (secs div 86400); r = secs mod 86400
      in padDec 4 y @ ''-'' @ padDec 2 m @ ''-'' @ padDec 2 d @ ''T'' @
         padDec 2 (r div 3600) @ '':'' @ padDec 2 (r div 60 mod 60) @ '':'' @ padDec 2 (r mod 60) @ ''Z'')"

text \<open>The zero \<open>time.Time\<close>, the first instant of the year 1.\<close>

definition zeroTime :: time where
  "zeroTime = - 62135596800 * second"

end
