(* ===== verification/AuthzTypes.thy ===== *)
theory AuthzTypes
  imports Governance GoTime
begin

section \<open>Authorization inputs, decisions and policy expressions\<close>

text \<open>
  The records that the checker, the gRPC server, the audit sink and the credential broker
  exchange (\<open>internal/assignment/authz/server.go\<close>), and the interface of the CEL library. A CEL
  environment is a parameter: its compiler, the type test on a compiled expression, the program
  constructor with the cost limit built in, and evaluation.
\<close>

record CheckInput =
  ciBackend :: string
  ciIdentityToken :: string
  ciMethod :: string
  ciHost :: string
  ciPath :: string
  ciHeaders :: strmap
  ciSourceAddress :: string
  ciDeriveSourceFromIdentity :: bool

record Decision =
  dAllow :: bool
  dReason :: string
  dSource :: SandboxEgressDecisionSource
  dAccessRequestName :: string
  dAssignmentName :: string
  dAssignmentUID :: string
  dSandboxID :: string
  dPodUID :: string
  dCapabilityBundleName :: string
  dCapabilityBundleRevision :: string
  dLogicalTenant :: string
  dTeam :: string
  dPermissionLevel :: string
  dBoundaryDisplayName :: string
  dBackend :: string
  dMethod :: string
  dHost :: string
  dPath :: string

definition emptyDecision :: Decision where
  "emptyDecision = \<lparr>dAllow = False, dReason = [], dSource = SourceNone, dAccessRequestName = [],
     dAssignmentName = [], dAssignmentUID = [], dSandboxID = [], dPodUID = [], dCapabilityBundleName = [],
     dCapabilityBundleRevision = [], dLogicalTenant = [], dTeam = [], dPermissionLevel = [],
     dBoundaryDisplayName = [], dBackend = [], dMethod = [], dHost = [], dPath = []\<rparr>"

definition denied :: "string \<Rightarrow> Decision" where
  "denied reason = emptyDecision\<lparr>dReason := reason\<rparr>"

lemma denied_simps [simp]:
  "\<not> dAllow (denied r)" "dAssignmentUID (denied r) = []" "\<not> dAllow emptyDecision" "dAssignmentUID emptyDecision = []"
  by (simp_all add: denied_def emptyDecision_def)

subsection \<open>CEL\<close>

datatype celValue = CelBool bool | CelOther string

record celActivation =
  caBackend :: string
  caMethod :: string
  caHost :: string
  caPath :: string
  caHeaders :: strmap
  caSource :: string

record ('ast, 'prg) celEnv =
  celCompile :: "string \<Rightarrow> go_error + 'ast"
  celIsBool :: "'ast \<Rightarrow> bool"
  celProgram :: "'ast \<Rightarrow> go_error + 'prg"
  celEval :: "'prg \<Rightarrow> celActivation \<Rightarrow> go_error + celValue"

definition ValidateAllowExpression :: "('ast, 'prg) celEnv \<Rightarrow> string \<Rightarrow> go_error option" where
  "ValidateAllowExpression cel expression =
     (case celCompile cel expression of
        Inl e \<Rightarrow> Some e
      | Inr ast \<Rightarrow> if celIsBool cel ast then None else Some (ErrNew ''allow expression must return bool''))"

text \<open>Compilation without the cache: what a policy expression means.\<close>

definition compileProgram :: "('ast, 'prg) celEnv \<Rightarrow> string \<Rightarrow> go_error + 'prg" where
  "compileProgram cel expression =
     (case celCompile cel expression of
        Inl e \<Rightarrow> Inl e
      | Inr ast \<Rightarrow> if celIsBool cel ast then celProgram cel ast
                   else Inl (ErrNew ''allow expression must return bool''))"

subsection \<open>The checker as an interface\<close>

text \<open>
  The Go interface \<open>Checker\<close>, as its callers rely on it: an error never comes with an allow, and
  an allow is justified and is about the target that was asked. \<open>Justified s input d\<close> is what the
  provider establishes about the decision \<open>d\<close> on the input in the state \<open>s\<close>.
\<close>

locale authorization_checker =
  fixes Check :: "CheckInput \<Rightarrow> 's \<Rightarrow> (Decision \<times> go_error option) \<times> 's"
    and Justified :: "'s \<Rightarrow> CheckInput \<Rightarrow> Decision \<Rightarrow> bool"
  assumes fail_closed: "Check input s = ((d, Some e), s') \<Longrightarrow> \<not> dAllow d"
    and justified: "Check input s = ((d, None), s') \<Longrightarrow> dAllow d \<Longrightarrow> Justified s input d"
    and target: "Justified s input d \<Longrightarrow>
      dBackend d = ciBackend input \<and> dMethod d = ciMethod input \<and> dHost d = ciHost input \<and> dPath d = ciPath input"
begin

lemma allow_cases:
  assumes "Check input s = ((d, err), s')" "dAllow d"
  shows "err = None" "Justified s input d"
proof -
  show "err = None" using assms fail_closed by (cases err) auto
  then show "Justified s input d" using assms justified by simp
qed

end

end
