(* ===== verification/Checker.thy ===== *)
theory Checker
  imports AuthzTypes "HOL-Library.AList"
begin

section \<open>The authorization checker\<close>

text \<open>
  \<open>internal/assignment/authz/checker.go\<close>. The record \<open>checkerEnv\<close> holds what a
  \<open>KubernetesChecker\<close> is built from and reads: its three configuration strings, the informer
  caches (each index or key lookup returns an error or what is stored), the CEL environment, the
  TokenReview call, the unverified JWT parser, the converter of unstructured objects, the two
  validators outside the repository, and the audit sink, which may be missing. The record
  \<open>checkerState\<close> holds what it writes: the compiled programs, the reviewed tokens, the last time
  the caches were known to be fresh, and the counters, which are 64-bit words.

  \<open>check\<close> is \<open>Check\<close> with its deferred function; its body is \<open>checkBody\<close>, cut at the places
  where the source goes from one object to the next (\<open>livePod\<close>, \<open>podIsolation\<close>,
  \<open>readyAssignment\<close>, \<open>resolvedBundle\<close>, \<open>decisionFor\<close>, \<open>evaluatePolicy\<close>). The three clock
  readings of one check (for freshness, for the token cache and for the grants) are the record
  \<open>clocks\<close>, with no assumption on their order.
\<close>

subsection \<open>State and parameters\<close>

definition maxCompiledPrograms :: nat where "maxCompiledPrograms = 1024"
definition maxTokenCacheEntries :: nat where "maxTokenCacheEntries = 4096"
definition tokenCacheTTL :: int where "tokenCacheTTL = 30 * second"
definition freshnessLimit :: int where "freshnessLimit = 10 * second"
definition podNameExtra :: string where "podNameExtra = ''authentication.kubernetes.io/pod-name''"
definition podUIDExtra :: string where "podUIDExtra = ''authentication.kubernetes.io/pod-uid''"
definition serviceAccountPrefix :: string where "serviceAccountPrefix = ''system:serviceaccount:''"

record reviewedIdentity =
  riNamespace :: string
  riServiceAccount :: string
  riPodName :: string
  riPodUID :: string

record cachedIdentity =
  chIdentity :: reviewedIdentity
  chExpiresAt :: time

record checkerMetrics =
  cmAllows :: "64 word"
  cmDenies :: "64 word"
  cmErrors :: "64 word"
  cmTokenReviews :: "64 word"
  cmTokenCacheHits :: "64 word"
  cmCelErrors :: "64 word"
  cmFreshnessDenies :: "64 word"
  cmGrantsUsed :: "64 word"

record 'prg checkerState =
  csPrograms :: "(string \<times> 'prg) list"
  csTokens :: "(string \<times> cachedIdentity) list"
  csLastFresh :: int
  csMetrics :: checkerMetrics

datatype raw_object = RawUnstructured unstructured | RawOther string

record ('ast, 'prg, 'w) checkerEnv =
  ceAssignmentNamespace :: string
  ceWorkloadNamespace :: string
  ceAudience :: string
  cePodsByIndex :: "string \<Rightarrow> go_error + pod list"
  ceServiceAccountByKey :: "string \<Rightarrow> go_error + service_account option"
  ceAssignmentsByIndex :: "string \<Rightarrow> go_error + unstructured list"
  ceBundleByKey :: "string \<Rightarrow> go_error + unstructured option"
  ceAccessRequestsByIndex :: "string \<Rightarrow> go_error + raw_object list"
  ceCel :: "('ast, 'prg) celEnv"
  ceTokenReview :: "string \<Rightarrow> string list \<Rightarrow> ('w, token_review_status) call"
  ceParseUnverified :: "string \<Rightarrow> go_error + time option"
  ceFromUnstructured :: "unstructured \<Rightarrow> go_error + SandboxAccessRequest"
  ceUuidOk :: "string \<Rightarrow> bool"
  ceDnsErrors :: "string \<Rightarrow> string list"
  ceAudit :: "(Decision \<Rightarrow> ('w, unit) call) option"

record clocks =
  clkFresh :: time
  clkToken :: time
  clkGrant :: time

definition bump :: "((64 word \<Rightarrow> 64 word) \<Rightarrow> checkerMetrics \<Rightarrow> checkerMetrics) \<Rightarrow> 'prg checkerState \<Rightarrow> 'prg checkerState" where
  "bump field st = st\<lparr>csMetrics := field (\<lambda>n. n + 1) (csMetrics st)\<rparr>"

subsection \<open>Freshness\<close>

definition fresh :: "time \<Rightarrow> 'prg checkerState \<Rightarrow> bool" where
  "fresh now st \<longleftrightarrow> csLastFresh st \<noteq> 0 \<and> timeSub now (csLastFresh st) \<le> freshnessLimit"

text \<open>The five list calls with limit 1, in order; the first error ends the probe.\<close>

fun probeFreshness :: "('w, unit) call list \<Rightarrow> ('w, unit) call" where
  "probeFreshness [] w = (Inr (), w)"
| "probeFreshness (c # cs) w = callw c failw (\<lambda>_. probeFreshness cs) w"

definition freshnessTick :: "('w, unit) call list \<Rightarrow> time \<Rightarrow> 'prg checkerState \<Rightarrow> 'w \<Rightarrow> 'prg checkerState \<times> 'w" where
  "freshnessTick probes now st w =
     callw (probeFreshness probes) (\<lambda>_ w'. (st, w')) (\<lambda>_ w'. (st\<lparr>csLastFresh := now\<rparr>, w')) w"

subsection \<open>Token review\<close>

definition jwtExpiration :: "('ast, 'prg, 'w) checkerEnv \<Rightarrow> string \<Rightarrow> time option" where
  "jwtExpiration env token =
     (case ceParseUnverified env token of
        Inr (Some t) \<Rightarrow> if t = zeroTime then None else Some t
      | _ \<Rightarrow> None)"

definition reviewedIdentityOf :: "string \<Rightarrow> token_review_status \<Rightarrow> Decision + reviewedIdentity" where
  "reviewedIdentityOf audience status =
     (let username = trimPrefix (trUsername status) serviceAccountPrefix;
          parts = splitOn (CHR '':'') username;
          podNames = trExtra status podNameExtra;
          podUIDs = trExtra status podUIDExtra
      in seqf (guardf (\<not> trAuthenticated status \<or> trError status \<noteq> [] \<or> audience \<notin> set (trAudiences status))
                 (denied ''TokenReview rejected identity'')) (\<lambda>_.
         seqf (guardf (length parts \<noteq> 2 \<or> username = trUsername status)
                 (denied ''token is not a ServiceAccount identity'')) (\<lambda>_.
         seqf (guardf (length podNames \<noteq> 1 \<or> length podUIDs \<noteq> 1 \<or> podNames ! 0 = [] \<or> podUIDs ! 0 = [])
                 (denied ''token is not Pod-bound'')) (\<lambda>_.
           Inr \<lparr>riNamespace = parts ! 0, riServiceAccount = parts ! 1,
                riPodName = podNames ! 0, riPodUID = podUIDs ! 0\<rparr>))))"

definition cacheIdentity ::
  "('ast, 'prg, 'w) checkerEnv \<Rightarrow> time \<Rightarrow> string \<Rightarrow> reviewedIdentity \<Rightarrow> (string \<times> cachedIdentity) list \<Rightarrow>
   (string \<times> cachedIdentity) list" where
  "cacheIdentity env now token identity tokens =
     (let expiresAt =
        (case jwtExpiration env token of
           Some tokenExpiry \<Rightarrow> if tokenExpiry < now + tokenCacheTTL then tokenExpiry else now + tokenCacheTTL
         | None \<Rightarrow> now + tokenCacheTTL)
      in if now < expiresAt then
           AList.update (sha256Sum token) \<lparr>chIdentity = identity, chExpiresAt = expiresAt\<rparr>
             (if maxTokenCacheEntries \<le> length tokens then [] else tokens)
         else tokens)"

definition reviewToken ::
  "('ast, 'prg, 'w) checkerEnv \<Rightarrow> time \<Rightarrow> string \<Rightarrow> 'prg checkerState \<Rightarrow> 'w \<Rightarrow>
   ((Decision \<times> go_error option) + reviewedIdentity) \<times> 'prg checkerState \<times> 'w" where
  "reviewToken env now token st w =
     (let tokenHash = sha256Sum token;
          review =
            (let st1 = bump cmTokenReviews_update (st\<lparr>csTokens := AList.delete tokenHash (csTokens st)\<rparr>)
             in callw (ceTokenReview env token [ceAudience env])
                  (\<lambda>e w'. (Inl (emptyDecision, Some e), st1, w'))
                  (\<lambda>status w'.
                     case reviewedIdentityOf (ceAudience env) status of
                       Inl d \<Rightarrow> (Inl (d, None), st1, w')
                     | Inr identity \<Rightarrow>
                         (Inr identity, st1\<lparr>csTokens := cacheIdentity env now token identity (csTokens st1)\<rparr>, w')) w)
      in case map_of (csTokens st) tokenHash of
           Some cached \<Rightarrow>
             if now < chExpiresAt cached then (Inr (chIdentity cached), bump cmTokenCacheHits_update st, w)
             else review
         | None \<Rightarrow> review)"

subsection \<open>The objects a request is bound to\<close>

definition sourceMatchesPod :: "addr \<Rightarrow> pod \<Rightarrow> bool" where
  "sourceMatchesPod source p \<longleftrightarrow>
     list_ex (\<lambda>ip. case parseAddr ip of Some a \<Rightarrow> unmap a = source | None \<Rightarrow> False) (podIPs p) \<or>
     (case parseAddr (podIP p) of Some a \<Rightarrow> unmap a = source | None \<Rightarrow> False)"

definition effectiveSource :: "CheckInput \<Rightarrow> pod \<Rightarrow> string" where
  "effectiveSource input p = (if ciDeriveSourceFromIdentity input then podIP p else ciSourceAddress input)"

type_synonym 'a stage = "(Decision \<times> go_error option) + 'a"

definition deny :: "string \<Rightarrow> Decision \<times> go_error option" where
  "deny reason = (denied reason, None)"

definition failed :: "go_error \<Rightarrow> Decision \<times> go_error option" where
  "failed e = (emptyDecision, Some e)"

definition liftErr :: "go_error + 'a \<Rightarrow> 'a stage" where
  "liftErr r = (case r of Inl e \<Rightarrow> Inl (failed e) | Inr a \<Rightarrow> Inr a)"

definition livePod :: "('ast, 'prg, 'w) checkerEnv \<Rightarrow> CheckInput \<Rightarrow> reviewedIdentity \<Rightarrow> pod stage" where
  "livePod env input identity =
     seqf (liftErr (cePodsByIndex env (riPodUID identity))) (\<lambda>pods.
     seqf (guardf (length pods \<noteq> 1) (deny ''live Pod UID is not unique'')) (\<lambda>_.
     let p = hd pods in
     seqf (guardf (metaDeletionTimestamp p \<noteq> None \<or> metaNamespace p \<noteq> ceWorkloadNamespace env
                   \<or> metaNamespace p \<noteq> riNamespace identity \<or> metaName p \<noteq> riPodName identity
                   \<or> metaUID p \<noteq> riPodUID identity \<or> podServiceAccountName p \<noteq> riServiceAccount identity)
             (deny ''token does not match live Pod'')) (\<lambda>_.
     seqf (guardf (case parseAddr (effectiveSource input p) of
                     None \<Rightarrow> True | Some a \<Rightarrow> \<not> sourceMatchesPod (unmap a) p)
             (deny ''request source does not match token Pod'')) (\<lambda>_.
       Inr p))))"

definition podIsolation :: "('ast, 'prg, 'w) checkerEnv \<Rightarrow> pod \<Rightarrow> service_account stage" where
  "podIsolation env p =
     seqf (guardf (podAutomount p \<noteq> Some False) (deny ''sandbox Pod permits token automount'')) (\<lambda>_.
     seqf (liftErr (ceServiceAccountByKey env (metaNamespace p @ ''/'' @ podServiceAccountName p))) (\<lambda>found.
     case found of
       None \<Rightarrow> Inl (deny ''sandbox ServiceAccount is unavailable'')
     | Some sa \<Rightarrow>
         seqf (guardf (getS (metaLabels sa) EligibleServiceAccountLabel \<noteq> ''true'' \<or> saAutomount sa \<noteq> Some False)
                 (deny ''sandbox ServiceAccount is not eligible'')) (\<lambda>_. Inr sa)))"

definition conditionTrue :: "unstructured \<Rightarrow> string \<Rightarrow> bool" where
  "conditionTrue object kind \<longleftrightarrow>
     list_ex (\<lambda>raw. jsonGet raw ''type'' = Some (JStr kind) \<and> jsonGet raw ''status'' = Some (JStr ''True''))
       (sliceAt (uStatus object) [''conditions''])"

definition readyAssignment :: "('ast, 'prg, 'w) checkerEnv \<Rightarrow> string \<Rightarrow> unstructured stage" where
  "readyAssignment env podUID =
     seqf (liftErr (ceAssignmentsByIndex env podUID)) (\<lambda>objects.
     seqf (guardf (length objects \<noteq> 1) (deny ''ready assignment for Pod UID is not unique'')) (\<lambda>_.
     let object = hd objects in
     seqf (guardf (metaDeletionTimestamp object \<noteq> None \<or> getS (metaAnnotations object) PausedAnnotation = ''true''
                   \<or> \<not> conditionTrue object ''Ready'')
             (deny ''assignment is not ready'')) (\<lambda>_.
     seqf (guardf (strAt (uStatus object) [''podRef'', ''uid''] \<noteq> podUID) (deny ''assignment Pod UID mismatch'')) (\<lambda>_.
       Inr object))))"

definition checkerPolicyRevision :: "unstructured \<Rightarrow> string" where
  "checkerPolicyRevision bundle = PolicyRevision (specMap (uSpec bundle))"

definition resolvedName :: "unstructured \<Rightarrow> string" where
  "resolvedName object = strAt (uStatus object) [''resolvedCapabilityBundle'', ''name'']"
definition resolvedUID :: "unstructured \<Rightarrow> string" where
  "resolvedUID object = strAt (uStatus object) [''resolvedCapabilityBundle'', ''uid'']"
definition resolvedRevision :: "unstructured \<Rightarrow> string" where
  "resolvedRevision object = strAt (uStatus object) [''resolvedCapabilityBundle'', ''policyRevision'']"

definition resolvedBundle :: "('ast, 'prg, 'w) checkerEnv \<Rightarrow> unstructured \<Rightarrow> unstructured stage" where
  "resolvedBundle env object =
     (let bundleName = resolvedName object;
          specBundleName = strAt (uSpec object) [''capabilityBundleRef'', ''name''] in
     seqf (guardf (bundleName = [] \<or> specBundleName \<noteq> bundleName)
             (deny ''assignment bundle reference mismatch'')) (\<lambda>_.
     seqf (liftErr (ceBundleByKey env (ceAssignmentNamespace env @ ''/'' @ bundleName))) (\<lambda>found.
     case found of
       None \<Rightarrow> Inl (deny ''capability bundle is unavailable'')
     | Some bundle \<Rightarrow>
         seqf (guardf (metaDeletionTimestamp bundle \<noteq> None \<or> metaUID bundle \<noteq> resolvedUID object)
                 (deny ''capability bundle UID mismatch'')) (\<lambda>_.
         seqf (guardf (checkerPolicyRevision bundle \<noteq> resolvedRevision object)
                 (deny ''capability bundle revision mismatch'')) (\<lambda>_.
           Inr bundle)))))"

definition decisionFor :: "CheckInput \<Rightarrow> string \<Rightarrow> unstructured \<Rightarrow> unstructured \<Rightarrow> Decision" where
  "decisionFor input podUID object bundle =
     \<lparr>dAllow = False, dReason = [], dSource = DecisionSourceDeny, dAccessRequestName = [],
      dAssignmentName = metaName object, dAssignmentUID = metaUID object,
      dSandboxID = getS (metaAnnotations object) SandboxIDAnnotation, dPodUID = podUID,
      dCapabilityBundleName = resolvedName object, dCapabilityBundleRevision = resolvedRevision object,
      dLogicalTenant = strAt (uSpec bundle) [''governance'', ''logicalTenant''],
      dTeam = strAt (uSpec bundle) [''governance'', ''team''],
      dPermissionLevel = strAt (uSpec bundle) [''governance'', ''permissionLevel''],
      dBoundaryDisplayName = strAt (uSpec bundle) [''governance'', ''displayName''],
      dBackend = ciBackend input, dMethod = ciMethod input, dHost = ciHost input, dPath = ciPath input\<rparr>"

subsection \<open>Access grants\<close>

definition validApproval :: "(string \<Rightarrow> bool) \<Rightarrow> SandboxAccessRequest \<Rightarrow> time \<Rightarrow> bool" where
  "validApproval uuidOk request now \<longleftrightarrow>
     (let status = sarStatus request in
      case (rtApprover status, rtApprovedAt status, rtExpiresAt status) of
        (Some approver, Some approvedAt, Some expiresAt) \<Rightarrow>
          ValidateIdentity uuidOk approver = None \<and> trimSpace (rtDecisionReason status) \<noteq> [] \<and>
          \<not> now < approvedAt \<and> now < expiresAt \<and> approvedAt < expiresAt \<and>
          timeSub expiresAt approvedAt \<le> rsRequestedDurationSeconds (sarSpec request) * second \<and>
          timeSub expiresAt approvedAt \<le> MaximumRequestedDuration
      | _ \<Rightarrow> False)"

text \<open>What one access request contributes: nothing, a match by its name, or an invalid one.\<close>

datatype grantOutcome = GrantSkip | GrantInvalid | GrantMatch string

definition grantBound :: "SandboxAccessRequest \<Rightarrow> Decision \<Rightarrow> bool" where
  "grantBound request d \<longleftrightarrow>
     rtState (sarStatus request) = SandboxAccessRequestApproved \<and>
     arUID (rsAssignmentRef (sarSpec request)) = dAssignmentUID d \<and>
     arName (rsAssignmentRef (sarSpec request)) = dAssignmentName d \<and>
     rsPodUID (sarSpec request) = dPodUID d \<and>
     rsBasePolicyRevision (sarSpec request) = dCapabilityBundleRevision d"

definition grantTarget :: "SandboxAccessRequest \<Rightarrow> Decision \<Rightarrow> bool" where
  "grantTarget request d \<longleftrightarrow>
     rsBackend (sarSpec request) = dBackend d \<and> rsMethod (sarSpec request) = dMethod d \<and>
     rsHost (sarSpec request) = dHost d \<and> rsPath (sarSpec request) = dPath d"

definition grantVerdict ::
  "(string \<Rightarrow> bool) \<Rightarrow> (string \<Rightarrow> string list) \<Rightarrow> Decision \<Rightarrow> time \<Rightarrow> SandboxAccessRequest \<Rightarrow> grantOutcome" where
  "grantVerdict uuidOk dnsErrors d now request =
     (if \<not> grantBound request d then GrantSkip
      else if ValidateAccessRequestSpec uuidOk dnsErrors (sarSpec request) \<noteq> None then GrantInvalid
      else if \<not> grantTarget request d then GrantSkip
      else if \<not> validApproval uuidOk request now then GrantInvalid
      else GrantMatch (metaName request))"

fun grantLoop ::
  "(unstructured \<Rightarrow> go_error + SandboxAccessRequest) \<Rightarrow> (SandboxAccessRequest \<Rightarrow> grantOutcome) \<Rightarrow>
   raw_object list \<Rightarrow> string list \<Rightarrow> bool \<Rightarrow> go_error + (string list \<times> bool)" where
  "grantLoop convert verdict [] matches invalidExact = Inr (matches, invalidExact)"
| "grantLoop convert verdict (raw # rest) matches invalidExact =
     (case raw of
        RawOther t \<Rightarrow> Inl (ErrNew (''unexpected access request object '' @ t))
      | RawUnstructured object \<Rightarrow>
          if metaDeletionTimestamp object \<noteq> None then grantLoop convert verdict rest matches invalidExact
          else case convert object of
                 Inl e \<Rightarrow> Inl (Errorf (''convert SandboxAccessRequest '' @ metaName object) e)
               | Inr request \<Rightarrow>
                   (case verdict request of
                      GrantSkip \<Rightarrow> grantLoop convert verdict rest matches invalidExact
                    | GrantInvalid \<Rightarrow> grantLoop convert verdict rest matches True
                    | GrantMatch name \<Rightarrow> grantLoop convert verdict rest (matches @ [name]) invalidExact))"

definition matchAccessGrantObjects ::
  "('ast, 'prg, 'w) checkerEnv \<Rightarrow> raw_object list \<Rightarrow> Decision \<Rightarrow> time \<Rightarrow> go_error + (string + string)" where
  "matchAccessGrantObjects env objects d now =
     (case grantLoop (ceFromUnstructured env) (grantVerdict (ceUuidOk env) (ceDnsErrors env) d now) objects [] False of
        Inl e \<Rightarrow> Inl e
      | Inr (matches, invalidExact) \<Rightarrow>
          Inr (case matches of
                 [] \<Rightarrow> if invalidExact then Inl ''matching access request is malformed, stale, or expired''
                       else Inl ''no matching approved access request''
               | [name] \<Rightarrow> Inr name
               | _ \<Rightarrow> Inl ''multiple approved access requests match exact target''))"

definition matchAccessGrant ::
  "('ast, 'prg, 'w) checkerEnv \<Rightarrow> Decision \<Rightarrow> time \<Rightarrow> go_error + (string + string)" where
  "matchAccessGrant env d now =
     (case ceAccessRequestsByIndex env (dAssignmentUID d) of
        Inl e \<Rightarrow> Inl e
      | Inr objects \<Rightarrow> matchAccessGrantObjects env objects d now)"

subsection \<open>Policy evaluation\<close>

definition programKey :: "string \<Rightarrow> string \<Rightarrow> string \<Rightarrow> string" where
  "programKey bundleUID revision backend = bundleUID @ [CHR 0x00] @ revision @ [CHR 0x00] @ backend"

definition program ::
  "('ast, 'prg) celEnv \<Rightarrow> string \<Rightarrow> string \<Rightarrow> string \<Rightarrow> string \<Rightarrow> 'prg checkerState \<Rightarrow>
   (go_error + 'prg) \<times> 'prg checkerState" where
  "program cel bundleUID revision backend expression st =
     (let key = programKey bundleUID revision backend
      in case map_of (csPrograms st) key of
           Some p \<Rightarrow> (Inr p, st)
         | None \<Rightarrow>
             (case celCompile cel expression of
                Inl e \<Rightarrow> (Inl e, st)
              | Inr ast \<Rightarrow>
                  if \<not> celIsBool cel ast then (Inl (ErrNew ''allow expression must return bool''), st)
                  else case celProgram cel ast of
                         Inl e \<Rightarrow> (Inl e, st)
                       | Inr p \<Rightarrow>
                           (Inr p, st\<lparr>csPrograms := AList.update key p
                              (if maxCompiledPrograms \<le> length (csPrograms st) then [] else csPrograms st)\<rparr>)))"

definition activation :: "CheckInput \<Rightarrow> string \<Rightarrow> celActivation" where
  "activation input source =
     \<lparr>caBackend = ciBackend input, caMethod = ciMethod input, caHost = ciHost input, caPath = ciPath input,
      caHeaders = ciHeaders input, caSource = source\<rparr>"

definition decideGrant ::
  "('ast, 'prg, 'w) checkerEnv \<Rightarrow> Decision \<Rightarrow> time \<Rightarrow> string \<Rightarrow> 'prg checkerState \<Rightarrow>
   (Decision \<times> go_error option) \<times> 'prg checkerState" where
  "decideGrant env d now bundleReason st =
     (case matchAccessGrant env d now of
        Inl e \<Rightarrow> ((d, Some e), st)
      | Inr (Inr requestName) \<Rightarrow>
          ((d\<lparr>dAllow := True, dSource := DecisionSourceAccessRequest, dAccessRequestName := requestName,
              dReason := ''approved access request matched exact target''\<rparr>, None), bump cmGrantsUsed_update st)
      | Inr (Inl grantReason) \<Rightarrow> ((d\<lparr>dReason := bundleReason @ ''; '' @ grantReason\<rparr>, None), st))"

definition allowExpression :: "unstructured \<Rightarrow> string \<Rightarrow> go_error + string option" where
  "allowExpression bundle backend = nestedString (uSpec bundle) [''egress'', ''agentgateway'', backend, ''allow'']"

definition evaluatePolicy ::
  "('ast, 'prg, 'w) checkerEnv \<Rightarrow> CheckInput \<Rightarrow> string \<Rightarrow> unstructured \<Rightarrow> unstructured \<Rightarrow> Decision \<Rightarrow> time \<Rightarrow>
   'prg checkerState \<Rightarrow> (Decision \<times> go_error option) \<times> 'prg checkerState" where
  "evaluatePolicy env input source object bundle d now st =
     (case allowExpression bundle (ciBackend input) of
        Inl e \<Rightarrow> ((d, Some e), st)
      | Inr None \<Rightarrow> decideGrant env d now ''backend is not granted'' st
      | Inr (Some expression) \<Rightarrow>
          if expression = [] then ((d\<lparr>dReason := ''backend policy is invalid''\<rparr>, None), st)
          else
            (case program (ceCel env) (resolvedUID object) (resolvedRevision object) (ciBackend input) expression st of
               (Inl e, st1) \<Rightarrow>
                 ((d\<lparr>dReason := ''backend policy is invalid''\<rparr>, None), bump cmCelErrors_update st1)
             | (Inr p, st1) \<Rightarrow>
                 (case celEval (ceCel env) p (activation input source) of
                    Inl e \<Rightarrow>
                      ((d\<lparr>dReason := ''backend policy evaluation failed''\<rparr>, None), bump cmCelErrors_update st1)
                  | Inr v \<Rightarrow>
                      if v = CelBool True then
                        ((d\<lparr>dAllow := True, dSource := DecisionSourceBundle,
                            dReason := ''backend allow expression returned true''\<rparr>, None), st1)
                      else decideGrant env d now ''backend allow expression returned false'' st1)))"

subsection \<open>Check\<close>

definition bindObjects ::
  "('ast, 'prg, 'w) checkerEnv \<Rightarrow> CheckInput \<Rightarrow> reviewedIdentity \<Rightarrow> (pod \<times> unstructured \<times> unstructured) stage" where
  "bindObjects env input identity =
     seqf (livePod env input identity) (\<lambda>p.
     seqf (podIsolation env p) (\<lambda>_.
     seqf (readyAssignment env (riPodUID identity)) (\<lambda>object.
     seqf (resolvedBundle env object) (\<lambda>bundle.
       Inr (p, object, bundle)))))"

definition checkBody ::
  "('ast, 'prg, 'w) checkerEnv \<Rightarrow> clocks \<Rightarrow> CheckInput \<Rightarrow> 'prg checkerState \<Rightarrow> 'w \<Rightarrow>
   (Decision \<times> go_error option) \<times> 'prg checkerState \<times> 'w" where
  "checkBody env clk input st w =
     (if \<not> fresh (clkFresh clk) st
      then (deny ''authorization cache is stale'', bump cmFreshnessDenies_update st, w)
      else
        case reviewToken env (clkToken clk) (ciIdentityToken input) st w of
          (Inl r, st1, w1) \<Rightarrow> (r, st1, w1)
        | (Inr identity, st1, w1) \<Rightarrow>
            (case bindObjects env input identity of
               Inl r \<Rightarrow> (r, st1, w1)
             | Inr (p, object, bundle) \<Rightarrow>
                 (let (r, st2) = evaluatePolicy env input (effectiveSource input p) object bundle
                                   (decisionFor input (riPodUID identity) object bundle) (clkGrant clk) st1
                  in (r, st2, w1))))"

definition recordDecision ::
  "('ast, 'prg, 'w) checkerEnv \<Rightarrow> Decision \<times> go_error option \<Rightarrow> 'w \<Rightarrow> (Decision \<times> go_error option) \<times> 'w" where
  "recordDecision env r w =
     (case ceAudit env of
        None \<Rightarrow> (r, w)
      | Some audit \<Rightarrow>
          if dAssignmentUID (fst r) = [] then (r, w)
          else callw (audit (fst r))
                 (\<lambda>e w'. (if dAllow (fst r)
                          then ((fst r)\<lparr>dAllow := False, dReason := ''authorization audit is unavailable''\<rparr>,
                                Some (Errorf ''record authorization decision'' e))
                          else r, w'))
                 (\<lambda>_ w'. (r, w')) w)"

definition countDecision :: "Decision \<times> go_error option \<Rightarrow> 'prg checkerState \<Rightarrow> 'prg checkerState" where
  "countDecision r st =
     (if snd r \<noteq> None then bump cmDenies_update (bump cmErrors_update st)
      else if dAllow (fst r) then bump cmAllows_update st
      else bump cmDenies_update st)"

definition check ::
  "('ast, 'prg, 'w) checkerEnv \<Rightarrow> clocks \<Rightarrow> CheckInput \<Rightarrow> 'prg checkerState \<Rightarrow> 'w \<Rightarrow>
   (Decision \<times> go_error option) \<times> 'prg checkerState \<times> 'w" where
  "check env clk input st w =
     (let (r, st1, w1) = checkBody env clk input st w;
          (r', w2) = recordDecision env r w1
      in (r', countDecision r' st1, w2))"

subsection \<open>What each stage establishes\<close>



lemma liftErr_Inr [flow_simps]: "liftErr r = Inr a \<longleftrightarrow> r = Inr a"
  by (cases r) (auto simp: liftErr_def)

lemma liftErr_Inl [flow_simps]: "liftErr r = Inl x \<longleftrightarrow> (\<exists>e. r = Inl e \<and> x = failed e)"
  by (cases r) (auto simp: liftErr_def)

definition podMatches :: "('ast, 'prg, 'w) checkerEnv \<Rightarrow> CheckInput \<Rightarrow> reviewedIdentity \<Rightarrow> pod \<Rightarrow> bool" where
  "podMatches env input identity p \<longleftrightarrow>
     cePodsByIndex env (riPodUID identity) = Inr [p] \<and> metaDeletionTimestamp p = None \<and>
     metaNamespace p = ceWorkloadNamespace env \<and> metaNamespace p = riNamespace identity \<and>
     metaName p = riPodName identity \<and> metaUID p = riPodUID identity \<and>
     podServiceAccountName p = riServiceAccount identity \<and>
     (\<exists>a. parseAddr (effectiveSource input p) = Some a \<and> sourceMatchesPod (unmap a) p)"

definition podIsolated :: "('ast, 'prg, 'w) checkerEnv \<Rightarrow> pod \<Rightarrow> bool" where
  "podIsolated env p \<longleftrightarrow>
     podAutomount p = Some False \<and>
     (\<exists>sa. ceServiceAccountByKey env (metaNamespace p @ ''/'' @ podServiceAccountName p) = Inr (Some sa) \<and>
           getS (metaLabels sa) EligibleServiceAccountLabel = ''true'' \<and> saAutomount sa = Some False)"

definition assignmentReady :: "('ast, 'prg, 'w) checkerEnv \<Rightarrow> string \<Rightarrow> unstructured \<Rightarrow> bool" where
  "assignmentReady env podUID object \<longleftrightarrow>
     ceAssignmentsByIndex env podUID = Inr [object] \<and> metaDeletionTimestamp object = None \<and>
     getS (metaAnnotations object) PausedAnnotation \<noteq> ''true'' \<and> conditionTrue object ''Ready'' \<and>
     strAt (uStatus object) [''podRef'', ''uid''] = podUID"

definition bundleResolved :: "('ast, 'prg, 'w) checkerEnv \<Rightarrow> unstructured \<Rightarrow> unstructured \<Rightarrow> bool" where
  "bundleResolved env object bundle \<longleftrightarrow>
     resolvedName object \<noteq> [] \<and> strAt (uSpec object) [''capabilityBundleRef'', ''name''] = resolvedName object \<and>
     ceBundleByKey env (ceAssignmentNamespace env @ ''/'' @ resolvedName object) = Inr (Some bundle) \<and>
     metaDeletionTimestamp bundle = None \<and> metaUID bundle = resolvedUID object \<and>
     checkerPolicyRevision bundle = resolvedRevision object"

lemma livePod_Inr: "livePod env input identity = Inr p \<longleftrightarrow> podMatches env input identity p"
  by (auto simp: livePod_def podMatches_def flow_simps length_1_iff length_Suc_conv Let_def split: option.split_asm)

lemma podIsolation_Inr: "(\<exists>sa. podIsolation env p = Inr sa) \<longleftrightarrow> podIsolated env p"
  by (auto simp: podIsolation_def podIsolated_def flow_simps)

lemma readyAssignment_Inr:
  "readyAssignment env podUID = Inr object \<longleftrightarrow> assignmentReady env podUID object"
  by (auto simp: readyAssignment_def assignmentReady_def flow_simps length_Suc_conv Let_def)

lemma resolvedBundle_Inr:
  "resolvedBundle env object = Inr bundle \<longleftrightarrow> bundleResolved env object bundle"
  by (auto simp: resolvedBundle_def bundleResolved_def flow_simps Let_def)

lemma bindObjects_Inr:
  "bindObjects env input identity = Inr (p, object, bundle) \<longleftrightarrow>
     podMatches env input identity p \<and> podIsolated env p \<and>
     assignmentReady env (riPodUID identity) object \<and> bundleResolved env object bundle"
  unfolding podIsolation_Inr [symmetric]
  by (auto simp: bindObjects_def flow_simps livePod_Inr readyAssignment_Inr resolvedBundle_Inr)

lemma deny_failed_closed [simp]:
  "\<not> dAllow (fst (deny r))" "\<not> dAllow (fst (failed e))" "dAssignmentUID (fst (deny r)) = []"
  "snd (deny r) = None" "snd (failed e) = Some e"
  by (simp_all add: deny_def failed_def)

lemma stages_closed:
  "livePod env input identity = Inl r \<Longrightarrow> \<not> dAllow (fst r)"
  "podIsolation env p = Inl r \<Longrightarrow> \<not> dAllow (fst r)"
  "readyAssignment env podUID = Inl r \<Longrightarrow> \<not> dAllow (fst r)"
  "resolvedBundle env object = Inl r \<Longrightarrow> \<not> dAllow (fst r)"
  by (auto simp: livePod_def podIsolation_def readyAssignment_def resolvedBundle_def flow_simps Let_def)

lemma bindObjects_closed: "bindObjects env input identity = Inl r \<Longrightarrow> \<not> dAllow (fst r)"
  by (auto simp: bindObjects_def flow_simps dest: stages_closed)

lemma decisionFor_simps [simp]:
  "\<not> dAllow (decisionFor input u object bundle)"
  "dAssignmentUID (decisionFor input u object bundle) = metaUID object"
  "dAssignmentName (decisionFor input u object bundle) = metaName object"
  "dPodUID (decisionFor input u object bundle) = u"
  "dCapabilityBundleRevision (decisionFor input u object bundle) = resolvedRevision object"
  "dCapabilityBundleName (decisionFor input u object bundle) = resolvedName object"
  "dSource (decisionFor input u object bundle) = DecisionSourceDeny"
  by (simp_all add: decisionFor_def)

subsection \<open>Token review\<close>

lemma bump_simps [simp]:
  "csPrograms (bump f st) = csPrograms st" "csTokens (bump f st) = csTokens st"
  "csLastFresh (bump f st) = csLastFresh st" "csMetrics (bump f st) = f (\<lambda>n. n + 1) (csMetrics st)"
  by (simp_all add: bump_def)

text \<open>An identity comes from an unexpired entry of the cache or from a review that accepted it.\<close>

definition identityCached :: "time \<Rightarrow> string \<Rightarrow> 'prg checkerState \<Rightarrow> reviewedIdentity \<Rightarrow> bool" where
  "identityCached now token st identity \<longleftrightarrow>
     (\<exists>cached. map_of (csTokens st) (sha256Sum token) = Some cached \<and> now < chExpiresAt cached \<and>
               chIdentity cached = identity)"

definition identityReviewed :: "('ast, 'prg, 'w) checkerEnv \<Rightarrow> string \<Rightarrow> 'w \<Rightarrow> reviewedIdentity \<Rightarrow> bool" where
  "identityReviewed env token w identity \<longleftrightarrow>
     (\<exists>status w'. ceTokenReview env token [ceAudience env] w = (Inr status, w') \<and>
        trAuthenticated status \<and> trError status = [] \<and> ceAudience env \<in> set (trAudiences status) \<and>
        trUsername status = serviceAccountPrefix @ riNamespace identity @ '':'' @ riServiceAccount identity \<and>
        trExtra status podNameExtra = [riPodName identity] \<and> trExtra status podUIDExtra = [riPodUID identity] \<and>
        riPodName identity \<noteq> [] \<and> riPodUID identity \<noteq> [])"

lemma splitOn_pair:
  assumes "length (splitOn d s) = 2"
  shows "s = splitOn d s ! 0 @ d # splitOn d s ! 1"
proof -
  obtain a b where "splitOn d s = [a, b]"
    using assms by (auto simp: length_Suc_conv numeral_2_eq_2)
  then show ?thesis using splitOn_join [of d s] by simp
qed

lemma reviewedIdentityOf_Inr:
  assumes "reviewedIdentityOf audience status = Inr identity"
  shows "trAuthenticated status" "trError status = []" "audience \<in> set (trAudiences status)"
    "trUsername status = serviceAccountPrefix @ riNamespace identity @ '':'' @ riServiceAccount identity"
    "trExtra status podNameExtra = [riPodName identity]" "trExtra status podUIDExtra = [riPodUID identity]"
    "riPodName identity \<noteq> []" "riPodUID identity \<noteq> []"
proof -
  define username where "username = trimPrefix (trUsername status) serviceAccountPrefix"
  from assms have len: "length (splitOn (CHR '':'') username) = 2" and pre: "username \<noteq> trUsername status"
    and ns: "riNamespace identity = splitOn (CHR '':'') username ! 0"
    and sa: "riServiceAccount identity = splitOn (CHR '':'') username ! 1"
    by (auto simp: reviewedIdentityOf_def Let_def flow_simps username_def)
  have "trUsername status = serviceAccountPrefix @ username"
    using pre by (auto simp: username_def trimPrefix_def hasPrefix_def split: if_splits)
      (metis append_take_drop_id)
  then show "trUsername status = serviceAccountPrefix @ riNamespace identity @ '':'' @ riServiceAccount identity"
    using splitOn_pair [OF len] ns sa by simp
  show "trAuthenticated status" "trError status = []" "audience \<in> set (trAudiences status)"
    "trExtra status podNameExtra = [riPodName identity]" "trExtra status podUIDExtra = [riPodUID identity]"
    "riPodName identity \<noteq> []" "riPodUID identity \<noteq> []"
    using assms by (auto simp: reviewedIdentityOf_def Let_def flow_simps length_Suc_conv)
qed

lemma reviewToken_identity:
  assumes "reviewToken env now token st w = (Inr identity, st', w')"
  shows "identityCached now token st identity \<or> identityReviewed env token w identity"
proof (cases "\<exists>cached. map_of (csTokens st) (sha256Sum token) = Some cached \<and> now < chExpiresAt cached")
  case True
  then show ?thesis using assms by (auto simp: reviewToken_def Let_def identityCached_def)
next
  case False
  then obtain status where "ceTokenReview env token [ceAudience env] w = (Inr status, w')"
    and "reviewedIdentityOf (ceAudience env) status = Inr identity"
    using assms by (auto simp: reviewToken_def Let_def call_simps flow_simps split: if_splits)
  then show ?thesis
    unfolding identityReviewed_def using reviewedIdentityOf_Inr [of "ceAudience env" status identity] by blast
qed

lemma reviewedIdentityOf_closed: "reviewedIdentityOf audience status = Inl d \<Longrightarrow> \<not> dAllow d"
  by (auto simp: reviewedIdentityOf_def Let_def flow_simps)

lemma reviewToken_closed:
  assumes "reviewToken env now token st w = (Inl r, st', w')"
  shows "\<not> dAllow (fst r)"
  using assms
  by (auto simp: reviewToken_def Let_def call_simps flow_simps dest: reviewedIdentityOf_closed split: if_splits)

subsection \<open>Grants\<close>

text \<open>The requests that match, in the order in which the index lists them.\<close>

definition matchOne ::
  "('ast, 'prg, 'w) checkerEnv \<Rightarrow> Decision \<Rightarrow> time \<Rightarrow> raw_object \<Rightarrow> SandboxAccessRequest list" where
  "matchOne env d now raw =
     (case raw of
        RawOther _ \<Rightarrow> []
      | RawUnstructured object \<Rightarrow>
          if metaDeletionTimestamp object \<noteq> None then []
          else case ceFromUnstructured env object of
                 Inl _ \<Rightarrow> []
               | Inr request \<Rightarrow>
                   if grantVerdict (ceUuidOk env) (ceDnsErrors env) d now request = GrantMatch (metaName request)
                   then [request] else [])"

definition matchingRequests ::
  "('ast, 'prg, 'w) checkerEnv \<Rightarrow> Decision \<Rightarrow> time \<Rightarrow> raw_object list \<Rightarrow> SandboxAccessRequest list" where
  "matchingRequests env d now objects = concat (map (matchOne env d now) objects)"

lemma matchingRequests_simps [simp]:
  "matchingRequests env d now [] = []"
  "matchingRequests env d now (raw # objects) = matchOne env d now raw @ matchingRequests env d now objects"
  by (simp_all add: matchingRequests_def)

definition readable :: "('ast, 'prg, 'w) checkerEnv \<Rightarrow> raw_object \<Rightarrow> bool" where
  "readable env raw \<longleftrightarrow>
     (case raw of RawOther _ \<Rightarrow> False
      | RawUnstructured object \<Rightarrow> metaDeletionTimestamp object \<noteq> None \<or> (\<exists>r. ceFromUnstructured env object = Inr r))"

lemma readable_simps [simp]:
  "\<not> readable env (RawOther t)"
  "readable env (RawUnstructured object) \<longleftrightarrow>
     metaDeletionTimestamp object \<noteq> None \<or> (\<exists>r. ceFromUnstructured env object = Inr r)"
  by (simp_all add: readable_def)

lemma grantVerdict_name: "grantVerdict u n d now r = GrantMatch name \<Longrightarrow> name = metaName r"
  by (auto simp: grantVerdict_def split: if_splits)

lemma grantVerdict_match:
  "grantVerdict u n d now r = GrantMatch name \<longleftrightarrow>
     grantBound r d \<and> grantTarget r d \<and> ValidateAccessRequestSpec u n (sarSpec r) = None \<and>
     validApproval u r now \<and> name = metaName r"
  by (auto simp: grantVerdict_def)

lemma grantLoop_result:
  "grantLoop (ceFromUnstructured env) (grantVerdict (ceUuidOk env) (ceDnsErrors env) d now) objects ms bad =
     Inr (ms', bad') \<Longrightarrow>
   list_all (readable env) objects \<and> ms' = ms @ map metaName (matchingRequests env d now objects)"
proof (induction objects arbitrary: ms bad)
  case Nil
  then show ?case by simp
next
  case (Cons raw objects)
  show ?case
    using Cons.prems
    by (cases raw)
      (auto simp: matchOne_def dest!: Cons.IH dest: grantVerdict_name
        split: if_splits sum.splits grantOutcome.splits)
qed

lemma grantLoop_returns:
  "list_all (readable env) objects \<Longrightarrow>
   \<exists>ms' bad'. grantLoop (ceFromUnstructured env) verdict objects ms bad = Inr (ms', bad')"
proof (induction objects arbitrary: ms bad)
  case Nil
  then show ?case by simp
next
  case (Cons raw objects)
  then show ?case
    by (cases raw) (auto split: grantOutcome.splits)
qed

lemma matchAccessGrantObjects_iff:
  "matchAccessGrantObjects env objects d now = Inr (Inr name) \<longleftrightarrow>
     list_all (readable env) objects \<and> (\<exists>r. matchingRequests env d now objects = [r] \<and> name = metaName r)"
proof
  assume L: "matchAccessGrantObjects env objects d now = Inr (Inr name)"
  then obtain ms bad where
    loop: "grantLoop (ceFromUnstructured env) (grantVerdict (ceUuidOk env) (ceDnsErrors env) d now) objects [] False = Inr (ms, bad)"
    and "ms = [name]"
    by (auto simp: matchAccessGrantObjects_def split: sum.splits list.splits if_splits)
  then show "list_all (readable env) objects \<and> (\<exists>r. matchingRequests env d now objects = [r] \<and> name = metaName r)"
    using grantLoop_result [OF loop] by auto
next
  assume R: "list_all (readable env) objects \<and> (\<exists>r. matchingRequests env d now objects = [r] \<and> name = metaName r)"
  then obtain ms bad where
    loop: "grantLoop (ceFromUnstructured env) (grantVerdict (ceUuidOk env) (ceDnsErrors env) d now) objects [] False = Inr (ms, bad)"
    using grantLoop_returns by blast
  then show "matchAccessGrantObjects env objects d now = Inr (Inr name)"
    using grantLoop_result [OF loop] R by (auto simp: matchAccessGrantObjects_def)
qed

lemma matchingRequests_props:
  assumes "r \<in> set (matchingRequests env d now objects)"
  shows "grantBound r d" "grantTarget r d" "validApproval (ceUuidOk env) r now"
    "ValidateAccessRequestSpec (ceUuidOk env) (ceDnsErrors env) (sarSpec r) = None"
    "\<exists>object. RawUnstructured object \<in> set objects \<and> metaDeletionTimestamp object = None \<and>
              ceFromUnstructured env object = Inr r"
  using assms
  by (auto simp: matchingRequests_def matchOne_def grantVerdict_match
      split: raw_object.splits if_splits sum.splits)

lemma matchingRequests_mset:
  assumes "mset objects = mset objects'"
  shows "mset (matchingRequests env d now objects) = mset (matchingRequests env d now objects')"
proof -
  have "mset (matchingRequests env d now xs) = (\<Sum>raw\<in>#mset xs. mset (matchOne env d now raw))" for xs
    by (induction xs) auto
  then show ?thesis using assms by simp
qed

lemma singleton_mset_eq: "mset xs = mset ys \<Longrightarrow> (xs = [x]) = (ys = [x])"
  by (metis mset_single_iff_right)

text \<open>
  an access request grants a request exactly when it is the only one that matches. A grant is
  returned just when every live object in the index converts and exactly one of them is an
  approved, valid, unexpired request bound to the decision's assignment, Pod and policy revision
  with the decision's exact target; the order in which the index lists the objects is irrelevant.
\<close>

theorem access_grant_exact:
  assumes "mset objects' = mset objects"
  shows "matchAccessGrantObjects env objects' d now = Inr (Inr name) \<longleftrightarrow>
    (\<forall>raw. raw \<in> set objects \<longrightarrow> readable env raw) \<and>
    (\<exists>r. matchingRequests env d now objects = [r] \<and> name = metaName r \<and> grantBound r d \<and> grantTarget r d \<and>
         ValidateAccessRequestSpec (ceUuidOk env) (ceDnsErrors env) (sarSpec r) = None \<and>
         validApproval (ceUuidOk env) r now)"
proof -
  have set_eq: "set objects' = set objects"
    using assms by (rule mset_eq_setD)
  have "(matchingRequests env d now objects' = [r]) = (matchingRequests env d now objects = [r])" for r
    using matchingRequests_mset [OF assms] by (rule singleton_mset_eq)
  moreover have "grantBound r d \<and> grantTarget r d \<and>
      ValidateAccessRequestSpec (ceUuidOk env) (ceDnsErrors env) (sarSpec r) = None \<and> validApproval (ceUuidOk env) r now"
    if "matchingRequests env d now objects = [r]" for r
    using matchingRequests_props [of r env d now objects] that by simp
  ultimately show ?thesis
    unfolding matchAccessGrantObjects_iff list_all_iff set_eq by blast
qed

text \<open>
  an approval is bounded in time. When an approval is valid at an instant, that instant lies
  in its window, and the window is no longer than the requester asked for and than eight hours.
\<close>

theorem validApproval_window:
  assumes "validApproval uuidOk request now"
  shows "\<exists>approvedAt expiresAt. rtApprovedAt (sarStatus request) = Some approvedAt \<and>
    rtExpiresAt (sarStatus request) = Some expiresAt \<and> approvedAt \<le> now \<and> now < expiresAt \<and>
    expiresAt \<le> approvedAt + MaximumRequestedDuration \<and>
    (rsRequestedDurationSeconds (sarSpec request) < 2 ^ 31 \<longrightarrow>
     expiresAt \<le> approvedAt + rsRequestedDurationSeconds (sarSpec request) * second)"
proof -
  obtain approvedAt expiresAt where at: "rtApprovedAt (sarStatus request) = Some approvedAt"
      "rtExpiresAt (sarStatus request) = Some expiresAt" "approvedAt \<le> now" "now < expiresAt"
    and max: "timeSub expiresAt approvedAt \<le> MaximumRequestedDuration"
    and req: "timeSub expiresAt approvedAt \<le> rsRequestedDurationSeconds (sarSpec request) * second"
    using assms by (auto simp: validApproval_def Let_def split: option.splits)
  have "expiresAt - approvedAt \<le> MaximumRequestedDuration"
    using max by (simp add: timeSub_le_iff MaximumRequestedDuration_def second_def)
  moreover have "expiresAt - approvedAt \<le> rsRequestedDurationSeconds (sarSpec request) * second"
    if "rsRequestedDurationSeconds (sarSpec request) < 2 ^ 31"
    using req that at(3,4) by (auto simp: timeSub_def second_def split: if_splits)
  ultimately show ?thesis using at by force
qed

subsection \<open>Policy evaluation\<close>

text \<open>The program that decides: the cached one when there is one, the freshly compiled one otherwise.\<close>

definition programFor :: "('ast, 'prg) celEnv \<Rightarrow> (string \<times> 'prg) list \<Rightarrow> string \<Rightarrow> string \<Rightarrow> go_error + 'prg" where
  "programFor cel programs key expression =
     (case map_of programs key of Some p \<Rightarrow> Inr p | None \<Rightarrow> compileProgram cel expression)"

lemma program_fst:
  "fst (program cel u v b expression st) = programFor cel (csPrograms st) (programKey u v b) expression"
  by (simp add: program_def programFor_def compileProgram_def Let_def split: option.splits sum.splits)

definition policyAllows ::
  "('ast, 'prg, 'w) checkerEnv \<Rightarrow> CheckInput \<Rightarrow> string \<Rightarrow> unstructured \<Rightarrow> unstructured \<Rightarrow> (string \<times> 'prg) list \<Rightarrow> bool" where
  "policyAllows env input source object bundle programs \<longleftrightarrow>
     (\<exists>expression p. allowExpression bundle (ciBackend input) = Inr (Some expression) \<and> expression \<noteq> [] \<and>
        programFor (ceCel env) programs (programKey (resolvedUID object) (resolvedRevision object) (ciBackend input))
          expression = Inr p \<and>
        celEval (ceCel env) p (activation input source) = Inr (CelBool True))"

definition grantAllows :: "('ast, 'prg, 'w) checkerEnv \<Rightarrow> Decision \<Rightarrow> time \<Rightarrow> string \<Rightarrow> bool" where
  "grantAllows env d now name \<longleftrightarrow> matchAccessGrant env d now = Inr (Inr name)"

definition allowedByBundle :: "Decision \<Rightarrow> Decision" where
  "allowedByBundle d = d\<lparr>dAllow := True, dSource := DecisionSourceBundle,
     dReason := ''backend allow expression returned true''\<rparr>"

definition grantAllowed :: "Decision \<Rightarrow> string \<Rightarrow> Decision" where
  "grantAllowed d name = d\<lparr>dAllow := True, dSource := DecisionSourceAccessRequest, dAccessRequestName := name,
     dReason := ''approved access request matched exact target''\<rparr>"

lemma decideGrant_allow:
  assumes "decideGrant env d now reason st = ((d', err), st')" "dAllow d'" "\<not> dAllow d"
  shows "err = None \<and> (\<exists>name. grantAllows env d now name \<and> d' = grantAllowed d name)"
  using assms by (auto simp: decideGrant_def grantAllows_def grantAllowed_def split: sum.splits)

lemma evaluatePolicy_cases:
  assumes "evaluatePolicy env input source object b d now st = (r, st')"
  obtains (policyError) e where "r = (d, Some e)"
  | (rejected) reason where "r = (d\<lparr>dReason := reason\<rparr>, None)"
  | (allowed) "policyAllows env input source object b (csPrograms st)" "r = (allowedByBundle d, None)"
  | (grant) reason st1 where "decideGrant env d now reason st1 = (r, st')"
proof (cases "allowExpression b (ciBackend input)")
  case (Inl e)
  then show thesis using assms policyError by (auto simp: evaluatePolicy_def)
next
  case (Inr found)
  show thesis
  proof (cases "found = None \<or> found = Some []")
    case True
    then show thesis using assms Inr grant rejected by (auto simp: evaluatePolicy_def)
  next
    case False
    then obtain expression where ex: "found = Some expression" "expression \<noteq> []" by auto
    obtain pr st1 where prog: "program (ceCel env) (resolvedUID object) (resolvedRevision object) (ciBackend input)
        expression st = (pr, st1)" by (meson surj_pair)
    have pr: "pr = programFor (ceCel env) (csPrograms st)
        (programKey (resolvedUID object) (resolvedRevision object) (ciBackend input)) expression"
      using program_fst [of "ceCel env" "resolvedUID object" "resolvedRevision object" "ciBackend input" expression st]
      by (simp add: prog)
    show thesis
    proof (cases pr)
      case (Inl e)
      then show thesis using assms \<open>allowExpression _ _ = Inr found\<close> ex prog rejected by (auto simp: evaluatePolicy_def)
    next
      case prg: (Inr p)
      show thesis
      proof (cases "celEval (ceCel env) p (activation input source) = Inr (CelBool True)")
        case True
        moreover from True have "policyAllows env input source object b (csPrograms st)"
          unfolding policyAllows_def using Inr ex pr prg by metis
        ultimately show thesis
          using assms Inr ex prog prg allowed by (auto simp: evaluatePolicy_def allowedByBundle_def)
      next
        case False
        then show thesis
          using assms Inr ex prog prg rejected grant by (auto simp: evaluatePolicy_def split: sum.splits)
      qed
    qed
  qed
qed

lemma evaluatePolicy_allow:
  assumes "evaluatePolicy env input source object b d now st = ((d', err), st')" "dAllow d'" "\<not> dAllow d"
  shows "err = None \<and>
    (policyAllows env input source object b (csPrograms st) \<and> d' = allowedByBundle d \<or>
     (\<exists>name. grantAllows env d now name \<and> d' = grantAllowed d name))"
  using assms(1)
proof (cases rule: evaluatePolicy_cases)
  case (grant reason st1)
  then show ?thesis using decideGrant_allow assms(2,3) by blast
qed (use assms(2,3) in auto)

lemma reviewToken_programs:
  "reviewToken env now token st w = (r, st', w') \<Longrightarrow> csPrograms st' = csPrograms st"
  by (auto simp: reviewToken_def Let_def call_simps flow_simps split: if_splits)

subsection \<open>What an allow means\<close>

text \<open>The checks behind an allow: the identity, the Pod, the assignment, the bundle and the rule.\<close>

definition authorised ::
  "('ast, 'prg, 'w) checkerEnv \<Rightarrow> clocks \<Rightarrow> CheckInput \<Rightarrow> 'prg checkerState \<Rightarrow> 'w \<Rightarrow> Decision \<Rightarrow> bool" where
  "authorised env clk input st w d \<longleftrightarrow>
     fresh (clkFresh clk) st \<and>
     (\<exists>identity p object bundle.
        (identityCached (clkToken clk) (ciIdentityToken input) st identity \<or>
         identityReviewed env (ciIdentityToken input) w identity) \<and>
        podMatches env input identity p \<and> podIsolated env p \<and>
        assignmentReady env (riPodUID identity) object \<and> bundleResolved env object bundle \<and>
        (policyAllows env input (effectiveSource input p) object bundle (csPrograms st) \<and>
         d = allowedByBundle (decisionFor input (riPodUID identity) object bundle) \<or>
         (\<exists>name. grantAllows env (decisionFor input (riPodUID identity) object bundle) (clkGrant clk) name \<and>
                 d = grantAllowed (decisionFor input (riPodUID identity) object bundle) name)))"

lemma checkBody_allow:
  assumes "checkBody env clk input st w = ((d, err), st', w')" "dAllow d"
  shows "err = None \<and> authorised env clk input st w d"
proof -
  have fr: "fresh (clkFresh clk) st"
    using assms by (auto simp: checkBody_def deny_def split: if_splits)
  obtain identity st1 w1 where rv: "reviewToken env (clkToken clk) (ciIdentityToken input) st w = (Inr identity, st1, w1)"
    using assms fr reviewToken_closed
    by (fastforce simp: checkBody_def split: prod.splits sum.splits)
  obtain p object "bundle" where objs: "bindObjects env input identity = Inr (p, object, bundle)"
    using assms fr rv bindObjects_closed
    by (fastforce simp: checkBody_def split: prod.splits sum.splits)
  define d0 where "d0 = decisionFor input (riPodUID identity) object bundle"
  obtain st2 where ev: "evaluatePolicy env input (effectiveSource input p) object bundle d0 (clkGrant clk) st1 = ((d, err), st2)"
    using assms fr rv objs by (auto simp: checkBody_def d0_def Let_def split: prod.splits)
  have "\<not> dAllow d0" by (simp add: d0_def)
  from evaluatePolicy_allow [OF ev assms(2) this] reviewToken_programs [OF rv]
  have "err = None \<and> (policyAllows env input (effectiveSource input p) object bundle (csPrograms st) \<and> d = allowedByBundle d0 \<or>
     (\<exists>name. grantAllows env d0 (clkGrant clk) name \<and> d = grantAllowed d0 name))"
    by simp
  then show ?thesis
    using fr reviewToken_identity [OF rv] objs [unfolded bindObjects_Inr]
    unfolding authorised_def d0_def by blast
qed

lemma checkBody_error:
  assumes "checkBody env clk input st w = ((d, Some e), st', w')"
  shows "\<not> dAllow d"
  using checkBody_allow [OF assms] by auto

lemma recordDecision_allow:
  assumes "recordDecision env r w = (r', w')" "dAllow (fst r')"
  shows "r' = r \<and> (\<forall>audit. ceAudit env = Some audit \<and> dAssignmentUID (fst r) \<noteq> [] \<longrightarrow> audit (fst r) w = (Inr (), w'))"
proof (cases "ceAudit env = None \<or> dAssignmentUID (fst r) = []")
  case True
  then show ?thesis using assms by (auto simp: recordDecision_def split: option.splits if_splits)
next
  case False
  then obtain audit where audit: "ceAudit env = Some audit" by auto
  show ?thesis
  proof (cases "audit (fst r) w")
    case (Pair res w1)
    then show ?thesis
      using assms False audit by (cases res) (auto simp: recordDecision_def split: if_splits)
  qed
qed

lemma recordDecision_error:
  assumes "recordDecision env r w = (r', w')" "snd r' \<noteq> None"
  shows "r' = r \<or> \<not> dAllow (fst r')"
  using assms by (auto simp: recordDecision_def call_simps split: option.splits if_splits)

text \<open>
  C1: an allow is justified. When \<open>Check\<close> allows a request, it returned no error; the caches were
  fresh; the token was reviewed for the configured audience (or is an unexpired cached review) and
  is bound to a Pod; exactly one live Pod, in the workload namespace, carries that identity and
  the source address, with token automount disabled and an eligible service account; exactly one
  assignment is Ready for it, neither deleting nor paused; its capability bundle is the one the
  controller resolved, with the same UID and the same hash of its spec; the request was granted by
  that bundle's expression or by the single matching access request; and the decision was recorded
  by the audit sink before it was returned.
\<close>

theorem check_allow_sound:
  assumes "check env clk input st w = ((d, err), st', w')" and "dAllow d"
  shows "err = None \<and> authorised env clk input st w d \<and>
    (\<forall>audit. ceAudit env = Some audit \<and> dAssignmentUID d \<noteq> [] \<longrightarrow> (\<exists>w1. audit d w1 = (Inr (), w')))"
proof -
  obtain r st1 w1 where body: "checkBody env clk input st w = (r, st1, w1)" by (metis prod_cases3)
  obtain r' w2 where rec: "recordDecision env r w1 = (r', w2)" by (meson surj_pair)
  have eq: "r' = (d, err)" "w2 = w'"
    using assms(1) by (simp_all add: check_def body rec)
  from recordDecision_allow [OF rec] assms(2) eq
  have "r = (d, err)" and audit: "\<forall>audit. ceAudit env = Some audit \<and> dAssignmentUID d \<noteq> [] \<longrightarrow> audit d w1 = (Inr (), w')"
    by auto
  from checkBody_allow [of env clk input st w d err st1 w1] body \<open>r = (d, err)\<close> assms(2)
  have "err = None \<and> authorised env clk input st w d" by simp
  with audit show ?thesis by auto
qed

subsection \<open>A concrete cluster\<close>

text \<open>
  One sandbox Pod with one Ready assignment and a bundle that allows its backend, used to show
  that the hypotheses of the theorems can hold. CEL is instantiated by an evaluator that knows
  the two literals.
\<close>

definition exPod :: pod where
  "exPod = \<lparr>metaNamespace = ''sandboxes'', metaName = ''sandbox-0'', metaGenerateName = [], metaUID = ''pod-1'',
     metaResourceVersion = ''5'', metaGeneration = 1, metaCreationTimestamp = 10 * second,
     metaDeletionTimestamp = None, metaLabels = Map.empty, metaAnnotations = Map.empty, metaFinalizers = [],
     metaOwnerReferences = [], podServiceAccountName = ''sandbox'', podAutomount = Some False,
     podRuntimeClassName = Some ''kata-clh'', podVolumes = [], podContainers = [], podIP = ''10.0.0.7'',
     podIPs = [''10.0.0.7''], podConditions = []\<rparr>"

definition exServiceAccount :: service_account where
  "exServiceAccount = \<lparr>metaNamespace = ''sandboxes'', metaName = ''sandbox'', metaGenerateName = [],
     metaUID = ''sa-1'', metaResourceVersion = ''2'', metaGeneration = 1, metaCreationTimestamp = 0,
     metaDeletionTimestamp = None, metaLabels = [EligibleServiceAccountLabel \<mapsto> ''true''],
     metaAnnotations = Map.empty, metaFinalizers = [], metaOwnerReferences = [], saAutomount = Some False\<rparr>"

definition exBundleSpec :: json where
  "exBundleSpec = JObj [
     (''egress'', JObj [(''agentgateway'', JObj [(''web'', JObj [(''allow'', JStr ''true'')])])]),
     (''governance'', JObj [(''logicalTenant'', JStr ''blue'')])]"

definition exBundle :: unstructured where
  "exBundle = \<lparr>metaNamespace = ''assignments'', metaName = ''tools'', metaGenerateName = [], metaUID = ''bundle-1'',
     metaResourceVersion = ''3'', metaGeneration = 1, metaCreationTimestamp = 0, metaDeletionTimestamp = None,
     metaLabels = Map.empty, metaAnnotations = Map.empty, metaFinalizers = [], metaOwnerReferences = [],
     uAPIVersion = ''aks-sandbox.azure.com/v1alpha1'', uKind = ''CapabilityBundle'', uSpec = exBundleSpec,
     uStatus = JNull\<rparr>"

definition exAssignment :: unstructured where
  "exAssignment = \<lparr>metaNamespace = ''assignments'', metaName = ''task-1'', metaGenerateName = [],
     metaUID = ''assignment-1'', metaResourceVersion = ''9'', metaGeneration = 1, metaCreationTimestamp = 0,
     metaDeletionTimestamp = None, metaLabels = Map.empty,
     metaAnnotations = [SandboxIDAnnotation \<mapsto> ''sandbox''], metaFinalizers = [],
     metaOwnerReferences = [], uAPIVersion = ''aks-sandbox.azure.com/v1alpha1'', uKind = ''SandboxAssignment'',
     uSpec = JObj [(''capabilityBundleRef'', JObj [(''name'', JStr ''tools'')])],
     uStatus = JObj [
       (''podRef'', JObj [(''uid'', JStr ''pod-1'')]),
       (''resolvedCapabilityBundle'', JObj [(''name'', JStr ''tools''), (''uid'', JStr ''bundle-1''),
          (''policyRevision'', JStr (PolicyRevision exBundleSpec))]),
       (''conditions'', JArr [JObj [(''type'', JStr ''Ready''), (''status'', JStr ''True'')]])]\<rparr>"

definition exCel :: "(string, string) celEnv" where
  "exCel = \<lparr>celCompile = Inr, celIsBool = (\<lambda>_. True), celProgram = Inr,
     celEval = (\<lambda>p _. Inr (CelBool (p = ''true'')))\<rparr>"

definition exReview :: token_review_status where
  "exReview = \<lparr>trAuthenticated = True, trError = [], trAudiences = [''egress''],
     trUsername = ''system:serviceaccount:sandboxes:sandbox'',
     trExtra = (\<lambda>k. if k = podNameExtra then [''sandbox-0''] else if k = podUIDExtra then [''pod-1''] else [])\<rparr>"

definition exEnv :: "(string, string, unit) checkerEnv" where
  "exEnv = \<lparr>ceAssignmentNamespace = ''assignments'', ceWorkloadNamespace = ''sandboxes'', ceAudience = ''egress'',
     cePodsByIndex = (\<lambda>uid. Inr (filter (\<lambda>p. metaUID p = uid) [exPod])),
     ceServiceAccountByKey = (\<lambda>key. Inr (if key = ''sandboxes/sandbox'' then Some exServiceAccount else None)),
     ceAssignmentsByIndex = (\<lambda>uid. Inr (if uid = ''pod-1'' then [exAssignment] else [])),
     ceBundleByKey = (\<lambda>key. Inr (if key = ''assignments/tools'' then Some exBundle else None)),
     ceAccessRequestsByIndex = (\<lambda>_. Inr []), ceCel = exCel,
     ceTokenReview = (\<lambda>_ _ w. (Inr exReview, w)), ceParseUnverified = (\<lambda>_. Inr None),
     ceFromUnstructured = (\<lambda>_. Inl wrongType), ceUuidOk = (\<lambda>_. True), ceDnsErrors = (\<lambda>_. []),
     ceAudit = Some (\<lambda>_ w. (Inr (), w))\<rparr>"

definition exInput :: CheckInput where
  "exInput = \<lparr>ciBackend = ''web'', ciIdentityToken = ''token'', ciMethod = ''GET'', ciHost = ''example.com'',
     ciPath = ''/'', ciHeaders = Map.empty, ciSourceAddress = ''10.0.0.7'', ciDeriveSourceFromIdentity = False\<rparr>"

definition zeroMetrics :: checkerMetrics where
  "zeroMetrics = \<lparr>cmAllows = 0, cmDenies = 0, cmErrors = 0, cmTokenReviews = 0, cmTokenCacheHits = 0,
     cmCelErrors = 0, cmFreshnessDenies = 0, cmGrantsUsed = 0\<rparr>"

definition exState :: "string checkerState" where
  "exState = \<lparr>csPrograms = [], csTokens = [], csLastFresh = 100 * second, csMetrics = zeroMetrics\<rparr>"

definition exClocks :: clocks where
  "exClocks = \<lparr>clkFresh = 101 * second, clkToken = 101 * second, clkGrant = 101 * second\<rparr>"

definition exIdentity :: reviewedIdentity where
  "exIdentity = \<lparr>riNamespace = ''sandboxes'', riServiceAccount = ''sandbox'', riPodName = ''sandbox-0'', riPodUID = ''pod-1''\<rparr>"

lemmas ex_env_defs = exEnv_def exPod_def exServiceAccount_def exBundle_def exAssignment_def exInput_def exIdentity_def

lemma exReview_identity: "reviewedIdentityOf ''egress'' exReview = Inr exIdentity"
  by (simp add: reviewedIdentityOf_def exReview_def exIdentity_def serviceAccountPrefix_def podNameExtra_def
      podUIDExtra_def trimPrefix_def hasPrefix_def Let_def)

lemma exPod_source: "parseAddr ''10.0.0.7'' = Some (AddrV4 [10, 0, 0, 7])"
  by code_simp

lemma exObjects: "bindObjects exEnv exInput exIdentity = Inr (exPod, exAssignment, exBundle)"
proof -
  have "podMatches exEnv exInput exIdentity exPod"
    by (simp add: podMatches_def ex_env_defs effectiveSource_def exPod_source sourceMatchesPod_def)
  moreover have "podIsolated exEnv exPod"
    by (simp add: podIsolated_def ex_env_defs)
  moreover have "assignmentReady exEnv (riPodUID exIdentity) exAssignment"
    by (simp add: assignmentReady_def ex_env_defs strAt_eq sliceAt_eq conditionTrue_def jsonGet_def
        getS_def PausedAnnotation_def SandboxIDAnnotation_def)
  moreover have "bundleResolved exEnv exAssignment exBundle"
    by (simp add: bundleResolved_def ex_env_defs strAt_eq resolvedName_def resolvedUID_def resolvedRevision_def
        checkerPolicyRevision_def specMap_def exBundleSpec_def)
  ultimately show ?thesis by (simp add: bindObjects_Inr)
qed

definition exDecision :: Decision where
  "exDecision = allowedByBundle (decisionFor exInput ''pod-1'' exAssignment exBundle)"

lemma exPolicy:
  "\<exists>st'. evaluatePolicy exEnv exInput s exAssignment exBundle (decisionFor exInput ''pod-1'' exAssignment exBundle) t st =
     ((exDecision, None), st')" if "csPrograms st = []"
  using that
  by (simp add: evaluatePolicy_def allowExpression_def nestedString_def exBundle_def exBundleSpec_def exInput_def
      program_def exEnv_def exCel_def exDecision_def allowedByBundle_def Let_def)

lemma exCheck: "\<exists>st'. check exEnv exClocks exInput exState () = ((exDecision, None), st', ())"
proof -
  obtain st1 where rv: "reviewToken exEnv (clkToken exClocks) (ciIdentityToken exInput) exState () = (Inr exIdentity, st1, ())"
    using exReview_identity by (simp add: reviewToken_def Let_def exState_def exEnv_def callw_def)
  have "csPrograms st1 = []"
    using reviewToken_programs [OF rv] by (simp add: exState_def)
  then obtain st2 where ev: "evaluatePolicy exEnv exInput (effectiveSource exInput exPod) exAssignment exBundle
      (decisionFor exInput (riPodUID exIdentity) exAssignment exBundle) (clkGrant exClocks) st1 = ((exDecision, None), st2)"
    using exPolicy by (fastforce simp: exIdentity_def)
  have "fresh (clkFresh exClocks) exState"
    by (simp add: fresh_def exState_def exClocks_def timeSub_def second_def freshnessLimit_def)
  then have "checkBody exEnv exClocks exInput exState () = ((exDecision, None), st2, ())"
    by (simp add: checkBody_def rv exObjects ev)
  then show ?thesis
    by (simp add: check_def recordDecision_def exEnv_def callw_def)
qed

theorem check_allow_sound_witness:
  "\<exists>st'. check exEnv exClocks exInput exState () = ((exDecision, None), st', ()) \<and>
     authorised exEnv exClocks exInput exState () exDecision"
proof -
  obtain st' where run: "check exEnv exClocks exInput exState () = ((exDecision, None), st', ())"
    using exCheck by blast
  have "dAllow exDecision" by (simp add: exDecision_def allowedByBundle_def)
  from check_allow_sound [OF run this] run show ?thesis by blast
qed

subsection \<open>Completeness\<close>

lemma evaluatePolicy_complete:
  assumes "policyAllows env input source object b (csPrograms st)"
  shows "fst (evaluatePolicy env input source object b d now st) = (allowedByBundle d, None)"
proof -
  obtain expression p where ex: "allowExpression b (ciBackend input) = Inr (Some expression)" "expression \<noteq> []"
    and p: "programFor (ceCel env) (csPrograms st)
        (programKey (resolvedUID object) (resolvedRevision object) (ciBackend input)) expression = Inr p"
    and eval: "celEval (ceCel env) p (activation input source) = Inr (CelBool True)"
    using assms by (auto simp: policyAllows_def)
  obtain st1 where "program (ceCel env) (resolvedUID object) (resolvedRevision object) (ciBackend input) expression st = (Inr p, st1)"
    using p program_fst by (metis prod.collapse)
  then show ?thesis by (simp add: evaluatePolicy_def ex eval allowedByBundle_def)
qed

lemma check_complete:
  assumes "fresh (clkFresh clk) st"
    and "reviewToken env (clkToken clk) (ciIdentityToken input) st w = (Inr identity, st1, w1)"
    and "podMatches env input identity p" and "podIsolated env p"
    and "assignmentReady env (riPodUID identity) object" and "bundleResolved env object b"
    and "policyAllows env input (effectiveSource input p) object b (csPrograms st)"
    and "ceAudit env = Some audit" and "metaUID object \<noteq> []"
    and "audit (allowedByBundle (decisionFor input (riPodUID identity) object b)) w1 = (Inr (), w2)"
  shows "\<exists>st'. check env clk input st w =
    ((allowedByBundle (decisionFor input (riPodUID identity) object b), None), st', w2)"
proof -
  have objs: "bindObjects env input identity = Inr (p, object, b)"
    using assms by (simp add: bindObjects_Inr)
  define d where "d = decisionFor input (riPodUID identity) object b"
  obtain st2 where ev: "evaluatePolicy env input (effectiveSource input p) object b d (clkGrant clk) st1
      = ((allowedByBundle d, None), st2)"
    using evaluatePolicy_complete [of env input "effectiveSource input p" object b st1 d] assms(7)
      reviewToken_programs [OF assms(2)] by (metis prod.collapse)
  have body: "checkBody env clk input st w = ((allowedByBundle d, None), st2, w1)"
    using assms(1,2) objs ev by (simp add: checkBody_def d_def)
  have "recordDecision env (allowedByBundle d, None) w1 = ((allowedByBundle d, None), w2)"
    using assms(8,9,10) by (simp add: recordDecision_def d_def allowedByBundle_def)
  then show ?thesis by (simp add: check_def body d_def)
qed

text \<open>
  C37: a bundle rule that holds is honoured. When the caches are fresh, the token yields an identity,
  the Pod, its service account, the assignment and the bundle pass their checks, the bundle's
  expression evaluates to true, and the audit sink accepts the record, \<open>Check\<close> allows the request
  with no error and names the assignment, Pod and bundle revision it used.
\<close>

theorem check_allow_complete:
  assumes "fresh (clkFresh clk) st"
    and "reviewToken env (clkToken clk) (ciIdentityToken input) st w = (Inr identity, st1, w1)"
    and "podMatches env input identity p" and "podIsolated env p"
    and "assignmentReady env (riPodUID identity) object" and "bundleResolved env object b"
    and "policyAllows env input (effectiveSource input p) object b (csPrograms st)"
    and "ceAudit env = Some audit" and "metaUID object \<noteq> []"
    and "audit (allowedByBundle (decisionFor input (riPodUID identity) object b)) w1 = (Inr (), w2)"
  shows "\<exists>st'. check env clk input st w =
    ((allowedByBundle (decisionFor input (riPodUID identity) object b), None), st', w2)"
  using assms by (rule check_complete)

theorem check_allow_complete_witness:
  "\<exists>st'. check exEnv exClocks exInput exState () =
     ((allowedByBundle (decisionFor exInput (riPodUID exIdentity) exAssignment exBundle), None), st', ())"
proof -
  obtain st1 where rv: "reviewToken exEnv (clkToken exClocks) (ciIdentityToken exInput) exState () = (Inr exIdentity, st1, ())"
    using exReview_identity by (simp add: reviewToken_def Let_def exState_def exEnv_def callw_def)
  have fr: "fresh (clkFresh exClocks) exState"
    by (simp add: fresh_def exState_def exClocks_def timeSub_def second_def freshnessLimit_def)
  have pol: "policyAllows exEnv exInput (effectiveSource exInput exPod) exAssignment exBundle (csPrograms exState)"
    by (simp add: policyAllows_def allowExpression_def nestedString_def exBundle_def exBundleSpec_def exInput_def
        programFor_def compileProgram_def exEnv_def exCel_def exState_def)
  have audit: "ceAudit exEnv = Some (\<lambda>_ w. (Inr (), w))" by (simp add: exEnv_def)
  note objs = exObjects [unfolded bindObjects_Inr]
  show ?thesis
    by (rule check_allow_complete [OF fr rv _ _ _ _ pol audit]) (use objs in \<open>auto simp: exAssignment_def\<close>)
qed

subsection \<open>Counters\<close>

text \<open>The three counters of outcomes are touched by the deferred function only.\<close>

definition outcomes :: "'prg checkerState \<Rightarrow> 64 word \<times> 64 word \<times> 64 word" where
  "outcomes st = (cmAllows (csMetrics st), cmDenies (csMetrics st), cmErrors (csMetrics st))"

lemma outcomes_bump [simp]:
  "outcomes (bump cmTokenReviews_update st) = outcomes st" "outcomes (bump cmTokenCacheHits_update st) = outcomes st"
  "outcomes (bump cmCelErrors_update st) = outcomes st" "outcomes (bump cmFreshnessDenies_update st) = outcomes st"
  "outcomes (bump cmGrantsUsed_update st) = outcomes st"
  by (simp_all add: outcomes_def)

lemma outcomes_caches [simp]:
  "outcomes (st\<lparr>csTokens := t\<rparr>) = outcomes st" "outcomes (st\<lparr>csPrograms := q\<rparr>) = outcomes st"
  by (simp_all add: outcomes_def)

lemma outcomes_reviewToken: "reviewToken env now token st w = (r, st', w') \<Longrightarrow> outcomes st' = outcomes st"
  by (auto simp: reviewToken_def Let_def call_simps flow_simps split: if_splits)

lemma outcomes_program: "program cel u v b e st = (r, st') \<Longrightarrow> outcomes st' = outcomes st"
  by (auto simp: program_def Let_def flow_simps split: if_splits)

lemma outcomes_decideGrant: "decideGrant env d now reason st = (r, st') \<Longrightarrow> outcomes st' = outcomes st"
  by (auto simp: decideGrant_def split: sum.splits)

lemma outcomes_evaluatePolicy:
  "evaluatePolicy env input s object b d now st = (r, st') \<Longrightarrow> outcomes st' = outcomes st"
  by (auto simp: evaluatePolicy_def dest!: outcomes_program outcomes_decideGrant
      split: sum.splits option.splits if_splits prod.splits)

lemma outcomes_checkBody: "checkBody env clk input st w = (r, st', w') \<Longrightarrow> outcomes st' = outcomes st"
  by (auto simp: checkBody_def Let_def dest!: outcomes_reviewToken outcomes_evaluatePolicy
      split: sum.splits if_splits prod.splits)

text \<open>
  every check is counted once. One call adds one to the allows when it allowed and one to the
  denies otherwise, and one to the errors exactly when it returned an error, as 64-bit counters
  that wrap around.
\<close>

theorem check_counted:
  assumes "check env clk input st w = ((d, err), st', w')"
  shows "cmAllows (csMetrics st') = cmAllows (csMetrics st) + of_bool (dAllow d) \<and>
    cmDenies (csMetrics st') = cmDenies (csMetrics st) + of_bool (\<not> dAllow d) \<and>
    cmErrors (csMetrics st') = cmErrors (csMetrics st) + of_bool (err \<noteq> None)"
proof -
  obtain r st1 w1 where body: "checkBody env clk input st w = (r, st1, w1)" by (metis prod_cases3)
  obtain r' w2 where rec: "recordDecision env r w1 = (r', w2)" by (meson surj_pair)
  have r': "r' = (d, err)" "st' = countDecision (d, err) st1"
    using assms by (auto simp: check_def body rec)
  have closed: "err \<noteq> None \<Longrightarrow> \<not> dAllow d"
    using checkBody_allow [of env clk input st w "fst r" "snd r"] body recordDecision_allow [OF rec] r'(1) by auto
  show ?thesis
    using outcomes_checkBody [OF body] closed
    by (auto simp: r'(2) countDecision_def outcomes_def)
qed

theorem check_counted_witness:
  "\<exists>st'. check exEnv exClocks exInput exState () = ((exDecision, None), st', ()) \<and> cmAllows (csMetrics st') = 1 \<and>
     cmDenies (csMetrics st') = 0"
proof -
  obtain st' where run: "check exEnv exClocks exInput exState () = ((exDecision, None), st', ())"
    using exCheck by blast
  from check_counted [OF run] run show ?thesis
    by (auto simp: exDecision_def allowedByBundle_def exState_def zeroMetrics_def)
qed

subsection \<open>Caches\<close>

lemma length_alist_update: "length (AList.update k v al) \<le> Suc (length al)"
  by (induction al) auto

lemma set_alist_update: "set (AList.update k v al) \<subseteq> insert (k, v) (set al)"
  by (induction al) auto

lemma set_alist_delete: "set (AList.delete k al) \<subseteq> set al"
  by (auto simp: AList.delete_eq)

lemma length_alist_delete: "length (AList.delete k al) \<le> length al"
  by (simp add: AList.delete_eq)

definition cachesOk :: "'prg checkerState \<Rightarrow> bool" where
  "cachesOk st \<longleftrightarrow>
     distinct (map fst (csTokens st)) \<and> length (csTokens st) \<le> maxTokenCacheEntries \<and>
     distinct (map fst (csPrograms st)) \<and> length (csPrograms st) \<le> maxCompiledPrograms"

lemma cacheIdentity_ok:
  assumes "distinct (map fst tokens)" "length tokens \<le> maxTokenCacheEntries"
  shows "distinct (map fst (cacheIdentity env now token identity tokens))"
    "length (cacheIdentity env now token identity tokens) \<le> maxTokenCacheEntries"
proof -
  have "length (AList.update k v tokens) \<le> maxTokenCacheEntries" if "\<not> maxTokenCacheEntries \<le> length tokens" for k v
    using length_alist_update [of k v tokens] that by simp
  moreover have "0 < maxTokenCacheEntries" by (simp add: maxTokenCacheEntries_def)
  ultimately show "distinct (map fst (cacheIdentity env now token identity tokens))"
    "length (cacheIdentity env now token identity tokens) \<le> maxTokenCacheEntries"
    using assms by (auto simp: cacheIdentity_def Let_def distinct_update)
qed

lemma reviewToken_caches:
  assumes "reviewToken env now token st w = (r, st', w')" "cachesOk st"
  shows "cachesOk st'"
proof -
  define del where "del = AList.delete (sha256Sum token) (csTokens st)"
  have del: "distinct (map fst del)" "length del \<le> maxTokenCacheEntries"
    using assms(2) length_alist_delete [of "sha256Sum token" "csTokens st"]
    by (auto simp: del_def cachesOk_def distinct_delete)
  from assms(1) have "csTokens st' = csTokens st \<or> csTokens st' = del \<or> (\<exists>identity. csTokens st' = cacheIdentity env now token identity del)"
    by (auto simp: reviewToken_def Let_def call_simps flow_simps del_def split: if_splits)
  then show ?thesis
    using assms(2) del cacheIdentity_ok [OF del] reviewToken_programs [OF assms(1)]
    by (auto simp: cachesOk_def)
qed

lemma program_tokens: "program cel u v b e st = (r, st') \<Longrightarrow> csTokens st' = csTokens st"
  by (auto simp: program_def Let_def flow_simps split: if_splits)

lemma program_caches:
  assumes "program cel u v b e st = (r, st')" "cachesOk st"
  shows "cachesOk st'"
proof -
  let ?k = "programKey u v b"
  from assms(1) consider "csPrograms st' = csPrograms st"
    | p where "csPrograms st' = AList.update ?k p (if maxCompiledPrograms \<le> length (csPrograms st) then [] else csPrograms st)"
    by (auto simp: program_def Let_def flow_simps split: if_splits)
  then show ?thesis
  proof cases
    case 1
    then show ?thesis using assms(2) program_tokens [OF assms(1)] by (simp add: cachesOk_def)
  next
    case (2 p)
    have "length (csPrograms st') \<le> maxCompiledPrograms"
      using length_alist_update [of ?k p "csPrograms st"] by (auto simp: 2 maxCompiledPrograms_def)
    then show ?thesis
      using assms(2) program_tokens [OF assms(1)] by (auto simp: cachesOk_def 2 distinct_update)
  qed
qed

lemma cachesOk_bump [simp]: "cachesOk (bump f st) \<longleftrightarrow> cachesOk st"
  by (simp add: cachesOk_def)

lemma evaluatePolicy_caches:
  assumes "evaluatePolicy env input s object b d now st = (r, st')" "cachesOk st"
  shows "cachesOk st'"
proof -
  have grant: "decideGrant env d now reason st1 = (r, st') \<Longrightarrow> cachesOk st1 \<Longrightarrow> cachesOk st'" for reason st1
    by (auto simp: decideGrant_def split: sum.splits)
  show ?thesis
    using assms
    by (auto simp: evaluatePolicy_def dest: grant program_caches split: sum.splits option.splits if_splits prod.splits)
qed

text \<open>
  the caches stay bounded. Whatever a check does, the token cache never holds more than 4096
  reviews and the program cache never more than 1024 programs, each key once.
\<close>

theorem check_caches_bounded:
  assumes "check env clk input st w = (r, st', w')" and "cachesOk st"
  shows "cachesOk st'"
proof -
  obtain r0 st1 w1 where body: "checkBody env clk input st w = (r0, st1, w1)" by (metis prod_cases3)
  obtain r' w2 where rec: "recordDecision env r0 w1 = (r', w2)" by (meson surj_pair)
  have "cachesOk st1"
    using body assms(2)
    by (auto simp: checkBody_def Let_def dest: reviewToken_caches evaluatePolicy_caches
        split: sum.splits if_splits prod.splits)
  moreover have "st' = countDecision r' st1" using assms(1) by (auto simp: check_def body rec)
  ultimately show ?thesis by (simp add: countDecision_def)
qed

theorem check_caches_bounded_witness:
  "\<exists>st'. check exEnv exClocks exInput exState () = ((exDecision, None), st', ()) \<and> cachesOk st'"
proof -
  obtain st' where run: "check exEnv exClocks exInput exState () = ((exDecision, None), st', ())"
    using exCheck by blast
  have "cachesOk exState" by (simp add: cachesOk_def exState_def)
  from check_caches_bounded [OF run this] run show ?thesis by blast
qed

text \<open>
  a cached review does not outlive its token. Every entry of the token cache after a review was
  there before, or is the entry of this token, still valid now, for at most 30 seconds and never
  beyond the expiry that the token itself declares.
\<close>

theorem token_cache_expiry:
  assumes "reviewToken env now token st w = (r, st', w')" and "(key, cached) \<in> set (csTokens st')"
  shows "(key, cached) \<in> set (csTokens st) \<or>
    key = sha256Sum token \<and> now < chExpiresAt cached \<and> chExpiresAt cached \<le> now + tokenCacheTTL \<and>
    (\<forall>t. jwtExpiration env token = Some t \<longrightarrow> chExpiresAt cached \<le> t)"
proof -
  define del where "del = AList.delete (sha256Sum token) (csTokens st)"
  have del: "set del \<subseteq> set (csTokens st)" unfolding del_def by (rule set_alist_delete)
  from assms(1) consider "csTokens st' = csTokens st" | "csTokens st' = del"
    | identity where "csTokens st' = cacheIdentity env now token identity del"
    by (auto simp: reviewToken_def Let_def call_simps flow_simps del_def split: if_splits)
  then show ?thesis
  proof cases
    case (3 identity)
    define ex where "ex = (case jwtExpiration env token of
        Some t \<Rightarrow> if t < now + tokenCacheTTL then t else now + tokenCacheTTL | None \<Rightarrow> now + tokenCacheTTL)"
    have bound: "ex \<le> now + tokenCacheTTL" "\<forall>t. jwtExpiration env token = Some t \<longrightarrow> ex \<le> t"
      by (auto simp: ex_def split: option.splits)
    from 3 assms(2) have "(key, cached) \<in> set del \<or>
        (now < ex \<and> (key, cached) = (sha256Sum token, \<lparr>chIdentity = identity, chExpiresAt = ex\<rparr>))"
      using set_alist_update [of "sha256Sum token" "\<lparr>chIdentity = identity, chExpiresAt = ex\<rparr>" del]
      by (auto simp: cacheIdentity_def ex_def [symmetric] Let_def split: if_splits)
    then show ?thesis using del bound by auto
  qed (use assms(2) del in auto)
qed

theorem token_cache_expiry_witness:
  "\<exists>cached st'. reviewToken exEnv (101 * second) ''token'' exState () = (Inr exIdentity, st', ()) \<and>
     (sha256Sum ''token'', cached) \<in> set (csTokens st') \<and> chExpiresAt cached \<le> 131 * second"
proof -
  obtain st' where rv: "reviewToken exEnv (101 * second) ''token'' exState () = (Inr exIdentity, st', ())"
    and tok: "csTokens st' = [(sha256Sum ''token'', \<lparr>chIdentity = exIdentity, chExpiresAt = 131 * second\<rparr>)]"
    using exReview_identity
    by (simp add: reviewToken_def Let_def exState_def exEnv_def callw_def cacheIdentity_def jwtExpiration_def
        tokenCacheTTL_def second_def)
  have "(sha256Sum ''token'', \<lparr>chIdentity = exIdentity, chExpiresAt = 131 * second\<rparr>) \<in> set (csTokens st')"
    by (simp add: tok)
  from token_cache_expiry [OF rv this] rv this show ?thesis
    by (auto simp: exState_def)
qed

subsection \<open>The program cache is transparent\<close>

text \<open>
  \<open>exprOf u v b\<close> is the expression of backend \<open>b\<close> in the bundle with UID \<open>u\<close> at revision \<open>v\<close>. A
  cache is coherent when each program in it is the compiled expression of its key.
\<close>

definition noNul :: "string \<Rightarrow> bool" where
  "noNul s \<longleftrightarrow> CHR 0x00 \<notin> set s"

definition programsCoherent ::
  "('ast, 'prg) celEnv \<Rightarrow> (string \<Rightarrow> string \<Rightarrow> string \<Rightarrow> string) \<Rightarrow> (string \<times> 'prg) list \<Rightarrow> bool" where
  "programsCoherent cel exprOf programs \<longleftrightarrow>
     (\<forall>(k, p) \<in> set programs. \<exists>u v b. k = programKey u v b \<and> noNul u \<and> noNul v \<and>
        compileProgram cel (exprOf u v b) = Inr p)"

lemma append_sep_inject:
  "c \<notin> set x \<Longrightarrow> c \<notin> set x' \<Longrightarrow> x @ c # y = x' @ c # y' \<longleftrightarrow> x = x' \<and> y = y'"
proof (induction x arbitrary: x')
  case Nil
  then show ?case by (cases x') auto
next
  case (Cons a x)
  then show ?case by (cases x') auto
qed

lemma programKey_inject:
  assumes "noNul u" "noNul u'" "noNul v" "noNul v'"
  shows "programKey u v b = programKey u' v' b' \<longleftrightarrow> u = u' \<and> v = v' \<and> b = b'"
  using assms by (auto simp: programKey_def noNul_def append_sep_inject)

text \<open>
  caching compiled programs changes nothing. On a coherent cache, the program returned for a
  bundle, revision and backend is the one that compiling the current expression gives, errors
  included, and the cache stays coherent.
\<close>

theorem program_cache_transparent:
  assumes "programsCoherent cel exprOf (csPrograms st)" and "noNul u" and "noNul v"
    and "exprOf u v b = expression" and "program cel u v b expression st = (res, st')"
  shows "res = compileProgram cel expression \<and> programsCoherent cel exprOf (csPrograms st')"
proof -
  let ?k = "programKey u v b"
  have res: "res = programFor cel (csPrograms st) ?k expression"
    using program_fst [of cel u v b expression st] assms(5) by simp
  have hit: "compileProgram cel expression = Inr p" if "map_of (csPrograms st) ?k = Some p" for p
  proof -
    from map_of_SomeD [OF that] assms(1) obtain u' v' b' where
      "?k = programKey u' v' b'" "noNul u'" "noNul v'" "compileProgram cel (exprOf u' v' b') = Inr p"
      unfolding programsCoherent_def by fastforce
    then show ?thesis using assms(2-4) by (simp add: programKey_inject)
  qed
  have ok: "res = compileProgram cel expression"
    using hit by (simp add: res programFor_def split: option.splits)
  have "set (csPrograms st') \<subseteq> set (csPrograms st) \<union> {(?k, p) | p. compileProgram cel expression = Inr p}"
    using assms(5) set_alist_update [of ?k _ "csPrograms st"]
    by (fastforce simp: program_def compileProgram_def Let_def flow_simps split: if_splits)
  then have "programsCoherent cel exprOf (csPrograms st')"
    using assms(1-4) unfolding programsCoherent_def by fastforce
  with ok show ?thesis ..
qed

theorem program_cache_transparent_witness:
  "fst (program exCel ''u'' ''v'' ''web'' ''true'' exState) = compileProgram exCel ''true''"
proof -
  obtain res st' where run: "program exCel ''u'' ''v'' ''web'' ''true'' exState = (res, st')" by (meson surj_pair)
  have "programsCoherent exCel (\<lambda>_ _ _. ''true'') (csPrograms exState)"
    by (simp add: programsCoherent_def exState_def)
  from program_cache_transparent [OF this _ _ _ run] run show ?thesis by (simp add: noNul_def)
qed

subsection \<open>Stale caches\<close>

text \<open>
  without a recent successful probe nothing is allowed. When the freshness probe fails and more
  than ten seconds have passed since the last success, a check is denied without contacting the
  API server, reviewing the token or recording a decision; only the counters change.
\<close>

theorem stale_check_denied:
  assumes "probeFreshness probes w = (Inl e, w1)" and "freshnessTick probes now st w = (st1, w2)"
    and "csLastFresh st + freshnessLimit < clkFresh clk" and "clkFresh clk - csLastFresh st < 2 ^ 63"
  shows "check env clk input st1 w2 =
    ((denied ''authorization cache is stale'', None),
     bump cmDenies_update (bump cmFreshnessDenies_update st), w1)"
proof -
  have "st1 = st" "w2 = w1"
    using assms(1,2) by (auto simp: freshnessTick_def)
  moreover have "\<not> fresh (clkFresh clk) st"
    using assms(3,4) by (auto simp: fresh_def timeSub_def freshnessLimit_def second_def)
  ultimately show ?thesis
    by (simp add: check_def checkBody_def recordDecision_def countDecision_def deny_def split: option.splits)
qed

theorem stale_check_denied_witness:
  "fst (check exEnv (exClocks\<lparr>clkFresh := 111 * second\<rparr>) exInput exState ()) =
     (denied ''authorization cache is stale'', None)"
proof -
  have probe: "probeFreshness [failw wrongType] () = (Inl wrongType, ())" by (simp add: callw_def)
  have tick: "freshnessTick [failw wrongType] 0 exState () = (exState, ())" by (simp add: freshnessTick_def callw_def)
  show ?thesis
    using stale_check_denied [OF probe tick, of "exClocks\<lparr>clkFresh := 111 * second\<rparr>" exEnv exInput]
    by (simp add: exState_def freshnessLimit_def second_def)
qed

subsection \<open>A concrete grant\<close>

definition exRequest :: SandboxAccessRequest where
  "exRequest = \<lparr>metaNamespace = ''assignments'', metaName = ''grant-1'', metaGenerateName = [], metaUID = ''g1'',
     metaResourceVersion = ''1'', metaGeneration = 1, metaCreationTimestamp = 0, metaDeletionTimestamp = None,
     metaLabels = Map.empty, metaAnnotations = Map.empty, metaFinalizers = [], metaOwnerReferences = [],
     sarSpec = \<lparr>rsAssignmentRef = \<lparr>arName = ''task-1'', arUID = ''assignment-1''\<rparr>, rsPodUID = ''pod-1'',
       rsBasePolicyRevision = ''sha256:00'', rsBackend = ''web'', rsMethod = ''GET'', rsHost = ''example.com'',
       rsPath = ''/'', rsReason = ''debugging'',
       rsRequester = \<lparr>giTenantID = ''t'', giObjectID = ''o'', giDisplayName = ''Ann'', giLogicalTenant = [], giTeam = []\<rparr>,
       rsRequestedDurationSeconds = 600\<rparr>,
     sarStatus = \<lparr>rtState = SandboxAccessRequestApproved,
       rtApprover = Some \<lparr>giTenantID = ''t'', giObjectID = ''p'', giDisplayName = ''Bob'', giLogicalTenant = [], giTeam = []\<rparr>,
       rtDecisionReason = ''ok'', rtApprovedAt = Some (100 * second), rtExpiresAt = Some (700 * second)\<rparr>\<rparr>"

definition exGrantDecision :: Decision where
  "exGrantDecision = emptyDecision\<lparr>dAssignmentName := ''task-1'', dAssignmentUID := ''assignment-1'', dPodUID := ''pod-1'',
     dCapabilityBundleRevision := ''sha256:00'', dBackend := ''web'', dMethod := ''GET'', dHost := ''example.com'', dPath := ''/''\<rparr>"

definition exGrantEnv :: "(string, string, unit) checkerEnv" where
  "exGrantEnv = exEnv\<lparr>ceFromUnstructured := (\<lambda>_. Inr exRequest)\<rparr>"

lemma exRequest_spec: "ValidateAccessRequestSpec (\<lambda>_. True) (\<lambda>_. []) (sarSpec exRequest) = None"
proof -
  have t: "NormalizeTarget ''web'' ''GET'' ''example.com'' ''/'' =
      Inr \<lparr>tgBackend = ''web'', tgMethod = ''GET'', tgHost = ''example.com'', tgPath = ''/''\<rparr>"
    and texts: "validateHumanText ''reason'' ''debugging'' 3 512 = None" "validateHumanText ''display name'' ''Ann'' 1 256 = None"
    "\<not> containsControl ''sha256:00''"
    by code_simp+
  show ?thesis
    by (simp add: ValidateAccessRequestSpec_def exRequest_def t texts ValidateIdentity_def
        MinimumRequestedDuration_def MaximumRequestedDuration_def second_def
        del: One_nat_def containsControl.simps)
qed

lemma exRequest_approved:
  assumes "100 * second \<le> now" "now < 700 * second"
  shows "validApproval (\<lambda>_. True) exRequest now"
proof -
  have texts: "validateHumanText ''display name'' ''Bob'' 1 256 = None" "trimSpace ''ok'' = ''ok''" by code_simp+
  show ?thesis
    using assms
    by (simp add: validApproval_def exRequest_def ValidateIdentity_def texts timeSub_def second_def
        MaximumRequestedDuration_def del: One_nat_def)
qed

theorem access_grant_exact_witness:
  "matchAccessGrantObjects exGrantEnv [RawUnstructured exAssignment] exGrantDecision (200 * second) = Inr (Inr ''grant-1'')"
proof -
  have env: "ceUuidOk exGrantEnv = (\<lambda>_. True)" "ceDnsErrors exGrantEnv = (\<lambda>_. [])"
    "ceFromUnstructured exGrantEnv = (\<lambda>_. Inr exRequest)"
    by (simp_all add: exGrantEnv_def exEnv_def)
  have bound: "grantBound exRequest exGrantDecision" "grantTarget exRequest exGrantDecision" "metaName exRequest = ''grant-1''"
    by (simp_all add: grantBound_def grantTarget_def exRequest_def exGrantDecision_def)
  have valid: "validApproval (\<lambda>_. True) exRequest (200 * second)"
    by (rule exRequest_approved) (simp_all add: second_def)
  have "metaDeletionTimestamp exAssignment = None" by (simp add: exAssignment_def)
  then have "matchingRequests exGrantEnv exGrantDecision (200 * second) [RawUnstructured exAssignment] = [exRequest]"
    using bound valid exRequest_spec by (simp add: matchOne_def env grantVerdict_def)
  then show ?thesis
    using access_grant_exact [of "[RawUnstructured exAssignment]" "[RawUnstructured exAssignment]" exGrantEnv
        exGrantDecision "200 * second" "''grant-1''"] bound valid exRequest_spec
    by (simp add: env)
qed

theorem validApproval_window_witness:
  "validApproval (\<lambda>_. True) exRequest (200 * second) \<and> 700 * second \<le> 100 * second + MaximumRequestedDuration"
proof -
  have ok: "validApproval (\<lambda>_. True) exRequest (200 * second)"
    by (rule exRequest_approved) (simp_all add: second_def)
  from validApproval_window [OF ok] ok show ?thesis by (simp add: exRequest_def)
qed

subsection \<open>The Kubernetes checker implements the interface\<close>

definition checkOp ::
  "('ast, 'prg, 'w) checkerEnv \<Rightarrow> clocks \<Rightarrow> CheckInput \<Rightarrow> 'prg checkerState \<times> 'w \<Rightarrow>
   (Decision \<times> go_error option) \<times> 'prg checkerState \<times> 'w" where
  "checkOp env clk input s = check env clk input (fst s) (snd s)"

definition authorisedIn ::
  "('ast, 'prg, 'w) checkerEnv \<Rightarrow> clocks \<Rightarrow> 'prg checkerState \<times> 'w \<Rightarrow> CheckInput \<Rightarrow> Decision \<Rightarrow> bool" where
  "authorisedIn env clk s input d = authorised env clk input (fst s) (snd s) d"

lemma check_authorised:
  assumes "check env clk input st w = ((d, err), st', w')" "dAllow d"
  shows "err = None \<and> authorised env clk input st w d"
proof -
  obtain r st1 w1 where body: "checkBody env clk input st w = (r, st1, w1)" by (metis prod_cases3)
  obtain r' w2 where rec: "recordDecision env r w1 = (r', w2)" by (meson surj_pair)
  have "r' = (d, err)" using assms(1) by (simp add: check_def body rec)
  then have "r = (d, err)" using recordDecision_allow [OF rec] assms(2) by auto
  then show ?thesis using checkBody_allow [of env clk input st w d err st1 w1] body assms(2) by simp
qed

lemma authorised_target:
  "authorised env clk input st w d \<Longrightarrow>
     dBackend d = ciBackend input \<and> dMethod d = ciMethod input \<and> dHost d = ciHost input \<and> dPath d = ciPath input"
  by (auto simp: authorised_def allowedByBundle_def grantAllowed_def decisionFor_def)

interpretation kubernetes_checker: authorization_checker "checkOp env clk" "authorisedIn env clk"
  for env :: "('ast, 'prg, 'w) checkerEnv" and clk :: clocks
proof
  show "\<not> dAllow d" if "checkOp env clk input s = ((d, Some e), s')" for input s d e s'
    using that check_authorised [of env clk input "fst s" "snd s" d "Some e" "fst s'" "snd s'"]
    by (auto simp: checkOp_def)
  show "authorisedIn env clk s input d" if "checkOp env clk input s = ((d, None), s')" "dAllow d" for input s d s'
    using that check_authorised [of env clk input "fst s" "snd s" d None "fst s'" "snd s'"]
    by (auto simp: checkOp_def authorisedIn_def)
  show "dBackend d = ciBackend input \<and> dMethod d = ciMethod input \<and> dHost d = ciHost input \<and> dPath d = ciPath input"
    if "authorisedIn env clk s input d" for s input d
    using that by (intro authorised_target) (simp add: authorisedIn_def)
qed

end
