(* ===== verification/AuditSink.thy ===== *)
theory AuditSink
  imports AuthzTypes "HOL-Library.Sublist"
begin

section \<open>The audit sink\<close>

text \<open>
  \<open>internal/assignment/authz/audit.go\<close>. The record \<open>auditSink\<close> is a \<open>KubernetesAuditSink\<close> with
  its configuration, its four 64-bit counters and the flag that says whether it accepts records;
  \<open>auditClient\<close> holds the calls to the API server and the converter that turns a typed event into
  an unstructured object. The clock is an argument. The cleanup loops take the listed objects one
  by one and stop at the first error that is not one of those the code tolerates.
\<close>

subsection \<open>State\<close>

record AuditMetricsSnapshot =
  amEnqueued :: "64 word"
  amWritten :: "64 word"
  amDropped :: "64 word"
  amErrors :: "64 word"

record auditSink =
  asNamespace :: string
  asRetention :: int
  asCleanupInterval :: int
  asMetrics :: AuditMetricsSnapshot
  asAccepting :: bool

record 'w auditClient =
  acToUnstructured :: "SandboxEgressEvent \<Rightarrow> go_error + unstructured"
  acCreateEvent :: "unstructured \<Rightarrow> ('w, unit) call"
  acListEvents :: "('w, unstructured list) call"
  acDeleteEvent :: "string \<Rightarrow> ('w, unit) call"
  acListRequests :: "('w, unstructured list) call"
  acPatchExpired :: "string \<Rightarrow> ('w, unit) call"

definition NewKubernetesAuditSink :: "bool \<Rightarrow> string \<Rightarrow> int \<Rightarrow> int \<Rightarrow> go_error + auditSink" where
  "NewKubernetesAuditSink clientNil namespace queueSize retention =
     seqf (guardf clientNil (ErrNew ''audit sink Kubernetes client is required'')) (\<lambda>_.
     seqf (guardf (namespace = []) (ErrNew ''audit sink namespace is required'')) (\<lambda>_.
     seqf (guardf (queueSize \<le> 0) (ErrNew ''audit queue size must be greater than zero'')) (\<lambda>_.
     seqf (guardf (retention \<le> 0) (ErrNew ''audit retention must be greater than zero'')) (\<lambda>_.
       let quarter = retention div 4;
           atLeast = (if quarter < 60 * second then 60 * second else quarter);
           interval = (if 15 * 60 * second < atLeast then 15 * 60 * second else atLeast)
       in Inr \<lparr>asNamespace = namespace, asRetention = retention, asCleanupInterval = interval,
               asMetrics = \<lparr>amEnqueued = 0, amWritten = 0, amDropped = 0, amErrors = 0\<rparr>, asAccepting = True\<rparr>))))"

definition Shutdown :: "auditSink \<Rightarrow> auditSink" where
  "Shutdown s = s\<lparr>asAccepting := False\<rparr>"

definition Metrics :: "auditSink \<Rightarrow> AuditMetricsSnapshot" where
  "Metrics s = asMetrics s"

subsection \<open>Sanitizing\<close>

definition controlRune :: "string \<Rightarrow> bool" where
  "controlRune r \<longleftrightarrow> (case r of [c] \<Rightarrow> asciiControl c | [a, b] \<Rightarrow> c1Control a b | _ \<Rightarrow> False)"

definition sanitizeAuditValue :: "string \<Rightarrow> nat \<Rightarrow> string" where
  "sanitizeAuditValue value maximum =
     (let value1 = concat (filter (\<lambda>r. \<not> controlRune r) (runes value));
          value2 = trimSpace value1
      in if maximum < length (runes value2) then concat (take maximum (runes value2)) else value2)"

definition sanitizeDecision :: "Decision \<Rightarrow> Decision" where
  "sanitizeDecision d = d\<lparr>
     dAssignmentName := sanitizeAuditValue (dAssignmentName d) 253,
     dAssignmentUID := sanitizeAuditValue (dAssignmentUID d) 128,
     dSandboxID := sanitizeAuditValue (dSandboxID d) 253,
     dPodUID := sanitizeAuditValue (dPodUID d) 128,
     dCapabilityBundleName := sanitizeAuditValue (dCapabilityBundleName d) 253,
     dCapabilityBundleRevision := sanitizeAuditValue (dCapabilityBundleRevision d) 128,
     dLogicalTenant := sanitizeAuditValue (dLogicalTenant d) 128,
     dTeam := sanitizeAuditValue (dTeam d) 128,
     dPermissionLevel := sanitizeAuditValue (dPermissionLevel d) 64,
     dBoundaryDisplayName := sanitizeAuditValue (dBoundaryDisplayName d) 128,
     dBackend := sanitizeAuditValue (dBackend d) 63,
     dMethod := sanitizeAuditValue (dMethod d) 32,
     dHost := sanitizeAuditValue (dHost d) 253,
     dPath := sanitizeAuditValue (dPath d) 2048,
     dReason := sanitizeAuditValue (dReason d) 512,
     dAccessRequestName := sanitizeAuditValue (dAccessRequestName d) 253\<rparr>"

subsection \<open>Recording\<close>

definition egressEventForDecision :: "string \<Rightarrow> time \<Rightarrow> Decision \<Rightarrow> SandboxEgressEvent" where
  "egressEventForDecision namespace timestamp d =
     object_meta.extend (emptyMeta\<lparr>metaNamespace := namespace, metaGenerateName := ''egress-''\<rparr>)
       \<lparr>seeSpec = \<lparr>esTimestamp = timestamp,
          esAssignmentRef = \<lparr>arName = dAssignmentName d, arUID = dAssignmentUID d\<rparr>,
          esSandboxID = dSandboxID d, esPodUID = dPodUID d,
          esCapabilityBundleName = dCapabilityBundleName d,
          esCapabilityBundleRevision = dCapabilityBundleRevision d,
          esLogicalTenant = dLogicalTenant d, esTeam = dTeam d, esPermissionLevel = dPermissionLevel d,
          esBoundaryDisplayName = dBoundaryDisplayName d, esBackend = dBackend d, esMethod = dMethod d,
          esHost = dHost d, esPath = dPath d, esAllowed = dAllow d, esReason = dReason d,
          esDecisionSource = dSource d, esAccessRequestName = dAccessRequestName d\<rparr>\<rparr>"

definition auditWrite :: "'w auditClient \<Rightarrow> string \<Rightarrow> Decision \<Rightarrow> time \<Rightarrow> ('w, unit) call" where
  "auditWrite client namespace d timestamp =
     (case acToUnstructured client (egressEventForDecision namespace timestamp d) of
        Inl e \<Rightarrow> failw e
      | Inr event \<Rightarrow> acCreateEvent client event)"

definition incompleteDecision :: "Decision \<Rightarrow> bool" where
  "incompleteDecision d \<longleftrightarrow>
     dAssignmentName d = [] \<or> dAssignmentUID d = [] \<or> dPodUID d = [] \<or> dCapabilityBundleName d = [] \<or>
     dCapabilityBundleRevision d = [] \<or> dBackend d = [] \<or> dMethod d = [] \<or> dHost d = [] \<or> dPath d = [] \<or>
     dReason d = [] \<or> dSource d = SourceNone"

definition auditBump ::
  "((64 word \<Rightarrow> 64 word) \<Rightarrow> AuditMetricsSnapshot \<Rightarrow> AuditMetricsSnapshot) \<Rightarrow> auditSink \<Rightarrow> auditSink" where
  "auditBump field s = s\<lparr>asMetrics := field (\<lambda>n. n + 1) (asMetrics s)\<rparr>"

definition Record ::
  "'w auditClient \<Rightarrow> time \<Rightarrow> Decision \<Rightarrow> auditSink \<Rightarrow> 'w \<Rightarrow> go_error option \<times> auditSink \<times> 'w" where
  "Record client now decision s w =
     (let d = sanitizeDecision decision
      in if incompleteDecision d then
           (Some (ErrNew ''authorization audit record is incomplete''),
            auditBump amDropped_update (auditBump amErrors_update s), w)
         else if \<not> asAccepting s then
           (Some (ErrNew ''authorization audit sink is shutting down''), auditBump amDropped_update s, w)
         else
           callw (auditWrite client (asNamespace s) d now)
             (\<lambda>e w'. (Some e, auditBump amErrors_update (auditBump amEnqueued_update s), w'))
             (\<lambda>_ w'. (None, auditBump amWritten_update (auditBump amEnqueued_update s), w')) w)"

subsection \<open>Cleanup\<close>

definition eventTime :: "unstructured \<Rightarrow> time" where
  "eventTime event =
     (case parseRFC3339 (strAt (uSpec event) [''timestamp'']) of
        Some t \<Rightarrow> t
      | None \<Rightarrow> metaCreationTimestamp event)"

definition eventExpired :: "time \<Rightarrow> unstructured \<Rightarrow> bool" where
  "eventExpired cutoff event \<longleftrightarrow> eventTime event \<noteq> zeroTime \<and> eventTime event < cutoff"

text \<open>
  The two loops have the same shape: objects that are not due are skipped, the others are handed to
  a call one by one, and the first error that is not tolerated ends the loop.
\<close>

fun forEachDue ::
  "('a \<Rightarrow> bool) \<Rightarrow> (go_error \<Rightarrow> bool) \<Rightarrow> ('a \<Rightarrow> ('w, unit) call) \<Rightarrow> 'a list \<Rightarrow> 'w \<Rightarrow> go_error option \<times> 'w" where
  "forEachDue due tolerated act [] w = (None, w)"
| "forEachDue due tolerated act (x # xs) w =
     (if \<not> due x then forEachDue due tolerated act xs w
      else callw (act x)
             (\<lambda>e w'. if tolerated e then forEachDue due tolerated act xs w' else (Some e, w'))
             (\<lambda>_ w'. forEachDue due tolerated act xs w') w)"

definition deleteEvents :: "'w auditClient \<Rightarrow> time \<Rightarrow> unstructured list \<Rightarrow> 'w \<Rightarrow> go_error option \<times> 'w" where
  "deleteEvents client cutoff =
     forEachDue (eventExpired cutoff) isNotFound (\<lambda>event. acDeleteEvent client (metaName event))"

definition cleanupEvents :: "'w auditClient \<Rightarrow> time \<Rightarrow> auditSink \<Rightarrow> 'w \<Rightarrow> go_error option \<times> 'w" where
  "cleanupEvents client now s w =
     callw (acListEvents client) (\<lambda>e w'. (Some e, w'))
       (\<lambda>events w'. deleteEvents client (now - asRetention s) events w') w"

definition requestExpired :: "time \<Rightarrow> unstructured \<Rightarrow> bool" where
  "requestExpired now request \<longleftrightarrow>
     strAt (uStatus request) [''state''] = SandboxAccessRequestApproved \<and>
     (case parseRFC3339 (strAt (uStatus request) [''expiresAt'']) of None \<Rightarrow> False | Some expiry \<Rightarrow> \<not> now < expiry)"

definition patchRequests :: "'w auditClient \<Rightarrow> time \<Rightarrow> unstructured list \<Rightarrow> 'w \<Rightarrow> go_error option \<times> 'w" where
  "patchRequests client now =
     forEachDue (requestExpired now) (\<lambda>e. isNotFound e \<or> isConflict e)
       (\<lambda>request. acPatchExpired client (metaName request))"

definition expireAccessRequests :: "'w auditClient \<Rightarrow> time \<Rightarrow> 'w \<Rightarrow> go_error option \<times> 'w" where
  "expireAccessRequests client now w =
     callw (acListRequests client) (\<lambda>e w'. (Some e, w')) (\<lambda>requests w'. patchRequests client now requests w') w"

text \<open>The two clock readings of one cleanup are \<open>t1\<close> and \<open>t2\<close>.\<close>

definition cleanup :: "'w auditClient \<Rightarrow> time \<Rightarrow> time \<Rightarrow> auditSink \<Rightarrow> 'w \<Rightarrow> go_error option \<times> 'w" where
  "cleanup client t1 t2 s w =
     (case cleanupEvents client t1 s w of
        (Some e, w') \<Rightarrow> (Some e, w')
      | (None, w') \<Rightarrow> expireAccessRequests client t2 w')"

subsection \<open>Sanitized values\<close>

lemma containsControl_append:
  assumes "\<not> containsControl s" "\<not> containsControl t" "s = [] \<or> last s \<noteq> CHR 0xC2"
  shows "\<not> containsControl (s @ t)"
  using assms
proof (induction s rule: containsControl.induct)
  case (1 a b s)
  then show ?case by auto
next
  case (2 a)
  then show ?case by (cases t) (auto simp: c1Control_def)
next
  case 3
  then show ?case by simp
qed

lemma containsControl_drop: "containsControl (drop n s) \<Longrightarrow> containsControl s"
proof (induction n arbitrary: s)
  case (Suc n)
  then show ?case by (cases s rule: containsControl.cases) auto
qed simp

lemma containsControl_take: "containsControl (take n s) \<Longrightarrow> containsControl s"
proof (induction s arbitrary: n rule: containsControl.induct)
  case (1 a b s)
  show ?case
  proof (cases n)
    case (Suc k)
    then show ?thesis using "1.prems" "1.IH" [of k] by (cases k) auto
  qed (use "1.prems" in simp)
next
  case (2 a)
  then show ?case by (cases n) auto
qed simp

lemma trimLeft_drop: "\<exists>n. trimLeft s = drop n s"
proof (induction s rule: trimLeft.induct)
  case (1 a b c s)
  then show ?case by (auto intro: exI [of _ 0] exI [of _ "Suc _"] exI [of _ "Suc (Suc _)"])
      (metis drop0 drop_Suc_Cons)+
next
  case (2 a b)
  then show ?case by (auto, (metis drop0 drop_Suc_Cons drop_Nil)+)
next
  case (3 a)
  then show ?case by (auto, (metis drop0 drop_Suc_Cons drop_Nil)+)
qed simp

lemma trimRightRev_drop: "\<exists>n. trimRightRev s = drop n s"
proof (induction s rule: trimRightRev.induct)
  case (1 c b a s)
  then show ?case by (auto, (metis drop0 drop_Suc_Cons)+)
next
  case (2 c b)
  then show ?case by (auto, (metis drop0 drop_Suc_Cons drop_Nil)+)
next
  case (3 c)
  then show ?case by (auto, (metis drop0 drop_Suc_Cons drop_Nil)+)
qed simp

lemma containsControl_trimSpace:
  assumes "\<not> containsControl s"
  shows "\<not> containsControl (trimSpace s)"
proof -
  obtain n where n: "trimLeft s = drop n s" using trimLeft_drop by blast
  obtain m where m: "trimRightRev (rev (trimLeft s)) = drop m (rev (trimLeft s))" using trimRightRev_drop by blast
  have "trimSpace s = rev (drop m (rev (trimLeft s)))"
    by (simp only: trimSpace_def trimRight_def m)
  also have "\<dots> = take (length (drop n s) - m) (drop n s)" unfolding n by (subst rev_drop) simp
  finally have "trimSpace s = take (length (drop n s) - m) (drop n s)" .
  then show ?thesis using assms containsControl_take containsControl_drop by metis
qed

lemma validRune_control:
  assumes "validRune r" "\<not> controlRune r"
  shows "\<not> containsControl r"
proof -
  have lead: "\<not> asciiControl c" if "byteIn 128 255 c" for c
    using that by (auto simp: asciiControl_def byteIn_def)
  show ?thesis
    using assms
    by (cases r rule: runeLen.cases)
      (auto simp: validRune_def controlRune_def rune2_def rune3_def rune4_def cont_def byteIn_def
        asciiControl_def c1Control_def split: if_splits)
qed

lemma concat_no_control:
  "\<forall>r \<in> set rs. validRune r \<and> \<not> controlRune r \<Longrightarrow> \<not> containsControl (concat rs)"
proof (induction rs)
  case (Cons r rs)
  then show ?case
    using containsControl_append [of r "concat rs"] validRune_control [of r] validRune_last [of r] by auto
qed simp

lemma controlRune_contains: "controlRune r \<Longrightarrow> containsControl r"
  by (auto simp: controlRune_def split: list.splits)

lemma runes_no_control:
  assumes "\<not> containsControl s"
  shows "\<forall>r \<in> set (runes s). validRune r \<and> \<not> controlRune r"
  using assms
proof (induction s rule: runes.induct)
  case (2 c s)
  define l where "l = runeLen (c # s)"
  have repl: "\<not> controlRune replacementRune" by (simp add: controlRune_def replacementRune_def)
  have tail: "\<not> containsControl s" using "2.prems" containsControl_drop [of 1 "c # s"] by auto
  show ?case
  proof (cases "l = 0")
    case True
    then show ?thesis using "2.IH"(1) tail repl validRune_replacement by (simp add: l_def)
  next
    case False
    have "\<not> containsControl (take l (c # s))" using "2.prems" containsControl_take by blast
    moreover have "\<not> containsControl (drop l (c # s))" using "2.prems" containsControl_drop by blast
    ultimately show ?thesis
      using False "2.IH"(2) validRune_take [of "c # s"] controlRune_contains by (auto simp: l_def)
  qed
qed simp

lemma sanitize_no_control: "\<not> containsControl (sanitizeAuditValue value maximum)"
proof -
  define v where "v = concat (filter (\<lambda>r. \<not> controlRune r) (runes value))"
  have "\<not> containsControl v"
    unfolding v_def using runes_valid by (intro concat_no_control) auto
  then have v: "\<not> containsControl (trimSpace v)" by (rule containsControl_trimSpace)
  then have "\<not> containsControl (concat (take maximum (runes (trimSpace v))))"
    using runes_no_control by (intro concat_no_control) (auto dest: in_set_takeD)
  with v show ?thesis by (simp add: sanitizeAuditValue_def v_def Let_def)
qed

lemma sanitize_length: "length (runes (sanitizeAuditValue value maximum)) \<le> maximum"
proof -
  have "runes (concat (take n (runes s))) = take n (runes s)" for n s
    using runes_valid by (intro runes_concat) (auto simp: list_all_iff dest: in_set_takeD)
  then show ?thesis by (simp add: sanitizeAuditValue_def Let_def)
qed

text \<open>
  audit values are bounded and free of control characters, whatever bytes the request carried:
  at most the given number of runes, and no control character, not even one that would appear
  where two fragments meet.
\<close>

theorem sanitizeAuditValue_safe:
  "length (runes (sanitizeAuditValue value maximum)) \<le> maximum \<and> \<not> containsControl (sanitizeAuditValue value maximum)"
  using sanitize_length sanitize_no_control by blast

subsection \<open>Recording\<close>

lemma auditBump_simps [simp]:
  "asMetrics (auditBump f s) = f (\<lambda>n. n + 1) (asMetrics s)" "asAccepting (auditBump f s) = asAccepting s"
  "asNamespace (auditBump f s) = asNamespace s" "asRetention (auditBump f s) = asRetention s"
  by (simp_all add: auditBump_def)

text \<open>
  a record is durable before it counts. \<open>Record\<close> returns no error exactly when the sanitized
  decision is complete, the sink still accepts records, the event converts and the API server
  accepted the event; that event carries the sanitized decision.
\<close>

theorem Record_success_iff:
  assumes "Record client now decision s w = (err, s', w')"
  shows "err = None \<longleftrightarrow>
    \<not> incompleteDecision (sanitizeDecision decision) \<and> asAccepting s \<and>
    (\<exists>event. acToUnstructured client (egressEventForDecision (asNamespace s) now (sanitizeDecision decision)) = Inr event \<and>
             acCreateEvent client event w = (Inr (), w'))"
  using assms
  by (auto simp: Record_def auditWrite_def Let_def call_simps flow_simps split: if_splits sum.splits)

lemma Record_counters:
  assumes "Record client now decision s w = (err, s', w')"
  shows "amEnqueued (asMetrics s') - amWritten (asMetrics s') =
      amEnqueued (asMetrics s) - amWritten (asMetrics s) +
      of_bool (err \<noteq> None \<and> \<not> incompleteDecision (sanitizeDecision decision) \<and> asAccepting s)"
    "amWritten (asMetrics s') = amWritten (asMetrics s) + of_bool (err = None)"
    "amDropped (asMetrics s') = amDropped (asMetrics s) +
      of_bool (incompleteDecision (sanitizeDecision decision) \<or> \<not> asAccepting s)"
  using assms by (auto simp: Record_def Let_def call_simps split: if_splits)

text \<open>
  every record is accounted for. Each call adds one to exactly one of: the written events, the
  dropped decisions, and the accepted but failed writes, where accepted means enqueued; as 64-bit
  counters.
\<close>

theorem Record_accounted:
  assumes "Record client now decision s w = (err, s', w')"
  shows "(amEnqueued (asMetrics s') + amDropped (asMetrics s')) = (amEnqueued (asMetrics s) + amDropped (asMetrics s)) + 1 \<and>
    amWritten (asMetrics s') = amWritten (asMetrics s) + of_bool (err = None) \<and>
    asAccepting s' = asAccepting s"
  using assms by (auto simp: Record_def Let_def call_simps split: if_splits)

subsection \<open>Cleanup\<close>

text \<open>A client that keeps a log of the names it was asked to delete or to expire.\<close>

definition logged :: "(string \<Rightarrow> ('w, unit) call) \<Rightarrow> string \<Rightarrow> (string list \<times> 'w, unit) call" where
  "logged c name lw = (case c name (snd lw) of (r, w') \<Rightarrow> (r, (fst lw @ [name], w')))"

lemma logged_simps [simp]:
  "logged c name (ns, w) = (r, lw') \<longleftrightarrow> (\<exists>w'. c name w = (r, w') \<and> lw' = (ns @ [name], w'))"
  by (auto simp: logged_def split: prod.splits)

lemma forEachDue_log:
  "forEachDue due tolerated (\<lambda>x. logged act (name x)) xs (ns, w) = (err, (ns', w')) \<Longrightarrow>
    \<exists>done. ns' = ns @ done \<and> prefix done (map name (filter due xs)) \<and>
      (err = None \<longrightarrow> done = map name (filter due xs))"
proof (induction xs arbitrary: ns w)
  case Nil
  then show ?case by simp
next
  case (Cons x xs)
  show ?case
  proof (cases "due x")
    case False
    then show ?thesis using Cons by simp
  next
    case True
    from Cons.prems True obtain w1 where
      "(err \<noteq> None \<and> ns' = ns @ [name x]) \<or>
       forEachDue due tolerated (\<lambda>x. logged act (name x)) xs (ns @ [name x], w1) = (err, (ns', w'))"
      by (auto simp: call_simps split: if_splits)
    then show ?thesis
    proof
      assume "err \<noteq> None \<and> ns' = ns @ [name x]"
      then show ?thesis using True by (intro exI [of _ "[name x]"]) auto
    next
      assume "forEachDue due tolerated (\<lambda>x. logged act (name x)) xs (ns @ [name x], w1) = (err, (ns', w'))"
      from Cons.IH [OF this] True show ?thesis by force
    qed
  qed
qed

text \<open>
  retention removes exactly what has expired. The names the cleanup asks the API server to
  delete are, in order, those of the listed events whose timestamp lies before the cutoff, and none
  of a younger event; all of them when the cleanup reports no error, a prefix of them otherwise.
\<close>

theorem cleanupEvents_exact:
  assumes "acDeleteEvent client = logged del"
    and "acListEvents client (ns, w) = (Inr events, (ns, w1))"
    and "cleanupEvents client now s (ns, w) = (err, (ns', w'))"
  shows "\<exists>done. ns' = ns @ done \<and>
    prefix done (map metaName (filter (eventExpired (now - asRetention s)) events)) \<and>
    (err = None \<longrightarrow> done = map metaName (filter (eventExpired (now - asRetention s)) events))"
  using assms(2,3)
  by (auto simp: cleanupEvents_def deleteEvents_def assms(1) dest: forEachDue_log)

text \<open>
  expiry touches only expired grants. The names the cleanup marks Expired are those of the
  listed requests that are Approved and whose expiry time has passed, in order; a request that is
  still valid, or was never approved, is left alone.
\<close>

theorem expireAccessRequests_exact:
  assumes "acPatchExpired client = logged patch"
    and "acListRequests client (ns, w) = (Inr requests, (ns, w1))"
    and "expireAccessRequests client now (ns, w) = (err, (ns', w'))"
  shows "\<exists>done. ns' = ns @ done \<and> prefix done (map metaName (filter (requestExpired now) requests)) \<and>
    (err = None \<longrightarrow> done = map metaName (filter (requestExpired now) requests))"
  using assms(2,3)
  by (auto simp: expireAccessRequests_def patchRequests_def assms(1) dest: forEachDue_log)

subsection \<open>A concrete sink\<close>

definition exSink :: auditSink where
  "exSink = \<lparr>asNamespace = ''assignments'', asRetention = 3600 * second, asCleanupInterval = 900 * second,
     asMetrics = \<lparr>amEnqueued = 0, amWritten = 0, amDropped = 0, amErrors = 0\<rparr>, asAccepting = True\<rparr>"

definition exObject :: "string \<Rightarrow> json \<Rightarrow> json \<Rightarrow> unstructured" where
  "exObject name spec status = object_meta.extend (emptyMeta\<lparr>metaName := name\<rparr>)
     \<lparr>uAPIVersion = ''aks-sandbox.azure.com/v1alpha1'', uKind = [], uSpec = spec, uStatus = status\<rparr>"

definition exOldEvent :: unstructured where
  "exOldEvent = exObject ''egress-1'' (JObj [(''timestamp'', JStr ''2024-01-01T00:00:00Z'')]) JNull"

definition exOldRequest :: unstructured where
  "exOldRequest = exObject ''grant-1'' JNull
     (JObj [(''state'', JStr ''Approved''), (''expiresAt'', JStr ''2024-01-01T00:00:00Z'')])"

definition exAuditClient :: "(string list \<times> unit) auditClient" where
  "exAuditClient = \<lparr>acToUnstructured = (\<lambda>_. Inr exOldEvent), acCreateEvent = (\<lambda>_ w. (Inr (), w)),
     acListEvents = (\<lambda>w. (Inr [exOldEvent], w)), acDeleteEvent = logged (\<lambda>_ w. (Inr (), w)),
     acListRequests = (\<lambda>w. (Inr [exOldRequest], w)), acPatchExpired = logged (\<lambda>_ w. (Inr (), w))\<rparr>"

definition exAuditDecision :: Decision where
  "exAuditDecision = \<lparr>dAllow = True, dReason = ''ok'', dSource = DecisionSourceBundle, dAccessRequestName = [],
     dAssignmentName = ''task-1'', dAssignmentUID = ''a1'', dSandboxID = [], dPodUID = ''p1'',
     dCapabilityBundleName = ''tools'', dCapabilityBundleRevision = ''r1'', dLogicalTenant = [], dTeam = [],
     dPermissionLevel = [], dBoundaryDisplayName = [], dBackend = ''web'', dMethod = ''GET'', dHost = ''h'', dPath = ''/''\<rparr>"

lemma exAudit_values:
  "sanitizeAuditValue ''task-1'' 253 = ''task-1''" "sanitizeAuditValue ''a1'' 128 = ''a1''"
  "sanitizeAuditValue ''p1'' 128 = ''p1''" "sanitizeAuditValue ''tools'' 253 = ''tools''"
  "sanitizeAuditValue ''r1'' 128 = ''r1''" "sanitizeAuditValue ''web'' 63 = ''web''"
  "sanitizeAuditValue ''GET'' 32 = ''GET''" "sanitizeAuditValue ''h'' 253 = ''h''"
  "sanitizeAuditValue ''ok'' 512 = ''ok''"
  by code_simp+

lemma exAudit_path: "sanitizeAuditValue ''/'' 2048 = ''/''"
proof -
  have "concat (filter (\<lambda>r. \<not> controlRune r) (runes ''/'')) = ''/''" "trimSpace ''/'' = ''/''" "length (runes ''/'') = 1"
    by code_simp+
  then show ?thesis by (simp add: sanitizeAuditValue_def)
qed

lemma exAudit_complete: "\<not> incompleteDecision (sanitizeDecision exAuditDecision)"
  by (simp add: incompleteDecision_def sanitizeDecision_def exAuditDecision_def exAudit_values exAudit_path)

lemma exRecord:
  "Record exAuditClient 0 exAuditDecision exSink ([], ()) =
     (None, auditBump amWritten_update (auditBump amEnqueued_update exSink), ([], ()))"
  using exAudit_complete
  by (simp add: Record_def exSink_def auditWrite_def exAuditClient_def callw_def Let_def)

theorem Record_success_iff_witness:
  "\<exists>event. acToUnstructured exAuditClient (egressEventForDecision ''assignments'' 0 (sanitizeDecision exAuditDecision)) = Inr event \<and>
     acCreateEvent exAuditClient event ([], ()) = (Inr (), ([], ()))"
  using Record_success_iff [OF exRecord] by (auto simp: exSink_def)

theorem Record_accounted_witness:
  "amWritten (asMetrics (fst (snd (Record exAuditClient 0 exAuditDecision exSink ([], ()))))) = 1"
  using Record_accounted [OF exRecord] exRecord by (auto simp: exSink_def)

lemma ex_2024: "parseRFC3339 ''2024-01-01T00:00:00Z'' = Some (1704067200 * second)"
  by (simp add: parseRFC3339_def obind_def parseYear_def isDigit_def readBase_def digitVal_def expectChar_def getnum2_def
      getnum1or2_def oguard_def parseFraction_def parseZone_def daysIn_def daysSinceEpoch_def daysBeforeMonth_def
      second_def Let_def)

lemma ex_due:
  "eventExpired (1704070800 * second) exOldEvent" "requestExpired (1704067200 * second) exOldRequest"
  "metaName exOldEvent = ''egress-1''" "metaName exOldRequest = ''grant-1''"
  by (simp_all add: eventExpired_def eventTime_def requestExpired_def exOldEvent_def exOldRequest_def exObject_def
      object_meta.defs emptyMeta_def strAt_eq ex_2024 zeroTime_def second_def SandboxAccessRequestApproved_def)

theorem cleanupEvents_exact_witness:
  "\<exists>done. cleanupEvents exAuditClient (1704074400 * second) exSink ([], ()) = (None, (done, ())) \<and> done = [''egress-1'']"
proof -
  have del: "acDeleteEvent exAuditClient = logged (\<lambda>_ w. (Inr (), w))"
    and ls: "acListEvents exAuditClient ([], ()) = (Inr [exOldEvent], ([], ()))"
    by (simp_all add: exAuditClient_def)
  have cut: "1704074400 * second - asRetention exSink = 1704070800 * second" by (simp add: exSink_def second_def)
  have run: "cleanupEvents exAuditClient (1704074400 * second) exSink ([], ()) = (None, ([''egress-1''], ()))"
    using ex_due by (simp add: cleanupEvents_def ls del deleteEvents_def cut callw_def logged_def)
  from cleanupEvents_exact [OF del ls run] run show ?thesis by auto
qed

theorem expireAccessRequests_exact_witness:
  "\<exists>done. expireAccessRequests exAuditClient (1704067200 * second) ([], ()) = (None, (done, ())) \<and> done = [''grant-1'']"
proof -
  have patch: "acPatchExpired exAuditClient = logged (\<lambda>_ w. (Inr (), w))"
    and ls: "acListRequests exAuditClient ([], ()) = (Inr [exOldRequest], ([], ()))"
    by (simp_all add: exAuditClient_def)
  have run: "expireAccessRequests exAuditClient (1704067200 * second) ([], ()) = (None, ([''grant-1''], ()))"
    using ex_due by (simp add: expireAccessRequests_def ls patch patchRequests_def callw_def logged_def)
  from expireAccessRequests_exact [OF patch ls run] run show ?thesis by auto
qed

end
