(* ===== verification/GoHttp.thy ===== *)
theory GoHttp
  imports GoTime
begin

section \<open>HTTP requests and responses\<close>

text \<open>
  The part of \<open>net/http\<close> that the handlers use. Headers are the map \<open>http.Header\<close> as a list of
  canonical names with their values, each name once. \<open>rqPath\<close> is the decoded \<open>URL.Path\<close>. \<open>rqBody\<close>
  is what reading the body gives: an error, or its bytes. \<open>rqScopes\<close> is the one context value the
  program uses, the tenants that the authentication found.
\<close>

type_synonym header = "(string \<times> string list) list"

record request =
  rqMethod :: string
  rqPath :: string
  rqHeaders :: header
  rqBody :: "go_error + string"
  rqScopes :: "string list option"

record response =
  rspStatus :: nat
  rspHeaders :: header
  rspBody :: string

subsection \<open>Headers\<close>

text \<open>\<open>textproto.CanonicalMIMEHeaderKey\<close>: a name with a byte that is not a token byte is left alone.\<close>

definition tokenByte :: "char \<Rightarrow> bool" where
  "tokenByte c \<longleftrightarrow> isLower c \<or> isUpper c \<or> isDigit c \<or> c \<in> set ''!#$%&*+-.^_`|~'' \<or> c = CHR 0x27"

fun canonicalBytes :: "bool \<Rightarrow> string \<Rightarrow> string" where
  "canonicalBytes up [] = []"
| "canonicalBytes up (c # cs) = (if up then upperChar c else lowerChar c) # canonicalBytes (c = CHR ''-'') cs"

definition CanonicalHeaderKey :: "string \<Rightarrow> string" where
  "CanonicalHeaderKey name = (if list_all tokenByte name then canonicalBytes True name else name)"

definition headerGet :: "header \<Rightarrow> string \<Rightarrow> string" where
  "headerGet h name =
     (case map_of h (CanonicalHeaderKey name) of Some (v # _) \<Rightarrow> v | _ \<Rightarrow> [])"

definition headerDel :: "header \<Rightarrow> string \<Rightarrow> header" where
  "headerDel h name = filter (\<lambda>kv. fst kv \<noteq> CanonicalHeaderKey name) h"

definition headerSet :: "header \<Rightarrow> string \<Rightarrow> string \<Rightarrow> header" where
  "headerSet h name value = headerDel h name @ [(CanonicalHeaderKey name, [value])]"

definition headerAdd :: "header \<Rightarrow> string \<Rightarrow> string \<Rightarrow> header" where
  "headerAdd h name value =
     (case map_of h (CanonicalHeaderKey name) of
        None \<Rightarrow> h @ [(CanonicalHeaderKey name, [value])]
      | Some vs \<Rightarrow> map (\<lambda>(k, v). if k = CanonicalHeaderKey name then (k, v @ [value]) else (k, v)) h)"

lemma map_of_headerDel [simp]:
  "map_of (headerDel h name) k = (if k = CanonicalHeaderKey name then None else map_of h k)"
  by (induction h) (auto simp: headerDel_def)

lemma headerGet_del [simp]: "headerGet (headerDel h name) name = []"
  by (simp add: headerGet_def)

lemma headerGet_set [simp]: "headerGet (headerSet h name value) name = value"
  by (simp add: headerSet_def headerGet_def map_add_def)

subsection \<open>Responses\<close>

definition StatusText :: "nat \<Rightarrow> string" where
  "StatusText status =
     (if status = 200 then ''OK'' else if status = 204 then ''No Content'' else if status = 400 then ''Bad Request''
      else if status = 401 then ''Unauthorized'' else if status = 403 then ''Forbidden''
      else if status = 404 then ''Not Found'' else if status = 409 then ''Conflict''
      else if status = 500 then ''Internal Server Error'' else if status = 502 then ''Bad Gateway''
      else if status = 503 then ''Service Unavailable'' else [])"

text \<open>\<open>http.Error\<close>.\<close>

definition httpError :: "string \<Rightarrow> nat \<Rightarrow> response" where
  "httpError message status = \<lparr>rspStatus = status,
     rspHeaders = [(''Content-Type'', [''text/plain; charset=utf-8'']), (''X-Content-Type-Options'', [''nosniff''])],
     rspBody = message @ [CHR 0x0A]\<rparr>"

lemma httpError_status [simp]: "rspStatus (httpError m s) = s"
  by (simp add: httpError_def)

text \<open>\<open>io.ReadAll(http.MaxBytesReader(w, r.Body, limit))\<close>.\<close>

definition readBody :: "'a request_scheme \<Rightarrow> nat \<Rightarrow> go_error + string" where
  "readBody r limit =
     (case rqBody r of
        Inl e \<Rightarrow> Inl e
      | Inr body \<Rightarrow> if limit < length body then Inl (ErrNew ''http: request body too large'') else Inr body)"

end
