(* ===== verification/GoCalendar.thy ===== *)
theory GoCalendar
  imports GoTime GoNet
begin

section \<open>The calendar behind timestamps\<close>

text \<open>
  A timestamp that a component writes with \<open>formatRFC3339\<close> is read back by \<open>parseRFC3339\<close> as the same
  second. The proof goes through the civil calendar: an era of 400 years has 146097 days, and the
  year within the era is found by the usual correction of the day number by its leap days.
\<close>

subsection \<open>Years of an era\<close>

text \<open>The first day of a year that starts in March, within its era, and the corrected day number.\<close>

definition yearStart :: "int \<Rightarrow> int" where
  "yearStart y = 365 * y + y div 4 - y div 100"

definition corrected :: "int \<Rightarrow> int" where
  "corrected doe = doe - doe div 1460 + doe div 36524 - doe div 146096"

lemma div_Suc_bounds:
  fixes n k :: int
  assumes "0 < k"
  shows "n div k \<le> (n + 1) div k" "(n + 1) div k \<le> n div k + 1"
proof -
  show "n div k \<le> (n + 1) div k" using assms by (simp add: zdiv_mono1)
  have "(n + 1) div k \<le> (n + k) div k" using assms by (simp add: zdiv_mono1)
  also have "(n + k) div k = n div k + 1" using assms by (intro div_add_self2) simp
  finally show "(n + 1) div k \<le> n div k + 1" .
qed

lemma corrected_Suc:
  assumes "0 \<le> n" "n < 146096"
  shows "corrected n \<le> corrected (n + 1)"
proof (cases "n = 146095")
  case True
  then show ?thesis by (simp add: corrected_def)
next
  case False
  then have "n div 146096 = 0" "(n + 1) div 146096 = 0" using assms by simp_all
  moreover have step: "n - a + b - 0 \<le> n + 1 - a' + b' - 0" if "a' \<le> a + 1" "b \<le> b'" for a a' b b' :: int
    using that by simp
  have "n - n div 1460 + n div 36524 - 0 \<le> n + 1 - (n + 1) div 1460 + (n + 1) div 36524 - 0"
    by (rule step) (simp_all only: div_Suc_bounds zero_less_numeral)
  ultimately show ?thesis by (simp only: corrected_def)
qed

lemma corrected_mono:
  assumes "0 \<le> m" "m \<le> n" "n \<le> 146096"
  shows "corrected m \<le> corrected n"
  using assms(2,3)
proof (induction n rule: int_ge_induct)
  case (step i)
  then show ?case using corrected_Suc [of i] assms(1) by simp
qed simp

lemma year_bounds_table:
  "list_all (\<lambda>y. 365 * y \<le> corrected (yearStart y) \<and>
     corrected (if y = 399 then 146096 else yearStart (y + 1) - 1) < 365 * (y + 1)) [0..399]"
  by code_simp

lemma year_bounds:
  assumes "0 \<le> y" "y \<le> 399"
  shows "365 * y \<le> corrected (yearStart y)"
    "corrected (if y = 399 then 146096 else yearStart (y + 1) - 1) < 365 * (y + 1)"
  using year_bounds_table assms by (auto simp: list_all_iff)

lemma year_of_day:
  assumes "0 \<le> doe" "doe \<le> 146096"
  defines "y \<equiv> corrected doe div 365"
  shows "0 \<le> y" "y \<le> 399" "yearStart y \<le> doe" "doe < (if y = 399 then 146097 else yearStart (y + 1))"
proof -
  have "corrected 0 \<le> corrected doe" "corrected doe \<le> corrected 146096"
    using assms by (simp_all add: corrected_mono)
  then have range: "0 \<le> corrected doe" "corrected doe < 146000"
    by (simp_all add: corrected_def)
  have here: "365 * y \<le> corrected doe" "corrected doe < 365 * (y + 1)"
    unfolding y_def by simp_all
  show lo: "0 \<le> y" and hi: "y \<le> 399" using range here by simp_all
  show "yearStart y \<le> doe"
  proof (rule ccontr)
    assume "\<not> yearStart y \<le> doe"
    then have low: "doe \<le> yearStart y - 1" by simp
    have "y \<noteq> 0" using low assms(1) by (auto simp: yearStart_def)
    then have y: "0 \<le> y - 1" "y - 1 \<le> 399" "y - 1 \<noteq> 399" using lo hi by simp_all
    have "yearStart y \<le> 146097" using lo hi by (simp add: yearStart_def)
    then have "corrected doe \<le> corrected (yearStart y - 1)" using low assms(1) by (simp add: corrected_mono)
    also have "\<dots> < 365 * y" using year_bounds(2) [OF y(1,2)] y(3) by simp
    finally show False using here by simp
  qed
  show "doe < (if y = 399 then 146097 else yearStart (y + 1))"
  proof (cases "y = 399")
    case False
    have "doe < yearStart (y + 1)"
    proof (rule ccontr)
      assume "\<not> doe < yearStart (y + 1)"
      then have high: "yearStart (y + 1) \<le> doe" by simp
      have "365 * (y + 1) \<le> corrected (yearStart (y + 1))" using year_bounds(1) [of "y + 1"] lo hi False by simp
      also have "\<dots> \<le> corrected doe" using high assms(2) lo by (intro corrected_mono) (simp_all add: yearStart_def)
      finally show False using here by simp
    qed
    with False show ?thesis by simp
  qed (use assms(2) in simp)
qed

subsection \<open>Leap years\<close>

lemma div_pred:
  fixes y k :: int
  assumes "0 < k"
  shows "(y - 1) div k = y div k - of_bool (y mod k = 0)"
proof -
  define q r where "q = y div k" and "r = y mod k"
  have split: "y = k * q + r" "0 \<le> r" "r < k" using assms by (simp_all add: q_def r_def)
  have "(y - 1) div k = q - of_bool (r = 0)"
  proof (cases "r = 0")
    case True
    then have "y - 1 = k * (q - 1) + (k - 1)" using split by (simp add: algebra_simps)
    then show ?thesis using True assms by (simp add: int_div_pos_eq)
  next
    case False
    then have "y - 1 = k * q + (r - 1)" using split by simp
    then show ?thesis using False split by (simp add: int_div_pos_eq)
  qed
  then show ?thesis by (simp add: q_def r_def)
qed

lemma mod_multiple:
  fixes y :: int
  shows "y mod 400 = 0 \<Longrightarrow> y mod 100 = 0" "y mod 100 = 0 \<Longrightarrow> y mod 4 = 0"
  using mod_mod_cancel [of 100 400 y] mod_mod_cancel [of 4 100 y] by simp_all

lemma leap_days_pred:
  "(y - 1) div 4 - (y - 1) div 100 + (y - 1) div 400 =
     y div 4 - y div 100 + y div 400 - of_bool (leapYear y)"
proof -
  have count: "(a - of_bool p) - (b - of_bool q) + (c - of_bool r) = a - b + c - of_bool (p \<and> (\<not> q \<or> r))"
    if "r \<Longrightarrow> q" "q \<Longrightarrow> p" for a b c :: int and p q r
    using that by (cases p; cases q; cases r) simp_all
  show ?thesis
    unfolding div_pred [OF zero_less_numeral] leapYear_def by (rule count) (rule mod_multiple; assumption)+
qed

lemma leapYear_era: "leapYear (y + era * 400) = leapYear y"
proof -
  have "(y + era * 400) mod k = y mod k" if dvd: "k dvd 400" for k
  proof -
    obtain c where "400 = k * c" using dvd by (rule dvdE)
    then have "y + era * 400 = y + k * (c * era)" by simp
    then show ?thesis by (simp only: mod_mult_self2)
  qed
  note this [of 4] this [of 100] this [of 400]
  then show ?thesis unfolding leapYear_def by simp
qed

lemma year_length_table:
  "list_all (\<lambda>y. (if y = 399 then 146097 else yearStart (y + 1)) - yearStart y = 365 + of_bool (leapYear (y + 1))) [0..399]"
  by code_simp

lemma year_length:
  "0 \<le> y \<Longrightarrow> y \<le> 399 \<Longrightarrow>
     (if y = 399 then 146097 else yearStart (y + 1)) - yearStart y = 365 + of_bool (leapYear (y + 1))"
  using year_length_table by (auto simp: list_all_iff)

subsection \<open>Months\<close>

definition monthDays :: "bool \<Rightarrow> int \<Rightarrow> int" where
  "monthDays leap m = (if m = 2 then (if leap then 29 else 28) else if m \<in> {4, 6, 9, 11} then 30 else 31)"

definition monthOf :: "int \<Rightarrow> int" where
  "monthOf doy = (let mp = (5 * doy + 2) div 153 in if mp < 10 then mp + 3 else mp - 9)"

definition dayOf :: "int \<Rightarrow> int" where
  "dayOf doy = doy - (153 * ((5 * doy + 2) div 153) + 2) div 5 + 1"

definition monthRow :: "bool \<Rightarrow> int \<Rightarrow> bool" where
  "monthRow leap doy \<longleftrightarrow>
     1 \<le> monthOf doy \<and> monthOf doy \<le> 12 \<and> 1 \<le> dayOf doy \<and>
     (doy < 365 \<or> leap \<longrightarrow> dayOf doy \<le> monthDays leap (monthOf doy)) \<and> (doy = 365 \<longrightarrow> monthOf doy = 2) \<and>
     sum_list (map (monthDays leap) [1..monthOf doy - 1]) + dayOf doy - 1 =
       (if monthOf doy \<le> 2 then doy - 306 else 59 + of_bool leap + doy)"

lemma month_table: "list_all (\<lambda>doy. monthRow True doy \<and> monthRow False doy) [0..365]"
  by code_simp

lemma month_rows:
  assumes "0 \<le> doy" "doy \<le> 365"
  shows "monthRow leap doy"
proof -
  have "monthRow True doy \<and> monthRow False doy" using month_table assms by (auto simp: list_all_iff)
  then show ?thesis by (cases leap) simp_all
qed

lemma daysIn_month: "daysIn y m = monthDays (leapYear y) m"
  by (simp add: daysIn_def monthDays_def)

lemma daysBefore_month: "daysBeforeMonth y m = sum_list (map (monthDays (leapYear y)) [1..m - 1])"
  by (simp add: daysBeforeMonth_def daysIn_month [abs_def] cong: map_cong)

subsection \<open>Days and dates\<close>

lemma civilFromDays_eq:
  "civilFromDays z0 =
     (let z = z0 + 719468; era = z div 146097; doe = z mod 146097; yoe = corrected doe div 365;
          doy = doe - yearStart yoe
      in (yoe + era * 400 + (if monthOf doy \<le> 2 then 1 else 0), monthOf doy, dayOf doy))"
  by (simp only: civilFromDays_def corrected_def yearStart_def monthOf_def dayOf_def Let_def)

lemma civil_roundtrip:
  assumes "civilFromDays z = (y, m, d)"
  shows "1 \<le> m" "m \<le> 12" "1 \<le> d" "d \<le> daysIn y m" "daysSinceEpoch y m d = z"
proof -
  define era doe where "era = (z + 719468) div 146097" and "doe = (z + 719468) mod 146097"
  define yoe where "yoe = corrected doe div 365"
  define doy where "doy = doe - yearStart yoe"
  define Y where "Y = yoe + era * 400"
  have date: "m = monthOf doy" "d = dayOf doy" "y = Y + (if monthOf doy \<le> 2 then 1 else 0)"
    using assms unfolding civilFromDays_eq Let_def doe_def [symmetric] era_def [symmetric] yoe_def [symmetric]
      doy_def [symmetric] Y_def [symmetric] by (simp_all only: prod.inject) auto
  have doe: "0 \<le> doe" "doe \<le> 146096" "z = era * 146097 + doe - 719468"
    by (simp_all add: doe_def era_def)
  note year = year_of_day [OF doe(1,2), folded yoe_def]
  have bound: "doy < 365 + of_bool (leapYear (yoe + 1))"
    using year(4) year_length [OF year(1,2)] by (simp add: doy_def)
  have doy: "0 \<le> doy" "doy \<le> 365" using year(3) bound by (cases "leapYear (yoe + 1)"; simp add: doy_def)+
  have row: "monthRow (leapYear y) doy" by (rule month_rows [OF doy])
  then show "1 \<le> m" "m \<le> 12" "1 \<le> d" by (simp_all add: monthRow_def date)
  have "leapYear y" if "doy = 365"
  proof -
    have "y = yoe + 1 + era * 400" using row that by (simp add: date monthRow_def Y_def)
    moreover have "leapYear (yoe + 1)" using bound that by (auto split: if_splits)
    ultimately show ?thesis using leapYear_era [of "yoe + 1" era] by simp
  qed
  then have "doy < 365 \<or> leapYear y" using doy by linarith
  then show "d \<le> daysIn y m" using row by (simp add: monthRow_def date daysIn_month)
  have days: "Y div 4 = yoe div 4 + era * 100" "Y div 100 = yoe div 100 + era * 4" "Y div 400 = era"
    using div_mult_self1 [of 4 yoe "era * 100"] div_mult_self1 [of 100 yoe "era * 4"] div_mult_self1 [of 400 yoe era]
      div_pos_pos_trivial [of yoe 400] year(1,2)
    by (simp_all add: Y_def mult.assoc)
  have "daysBeforeMonth y m + d - 1 = (if m \<le> 2 then doy - 306 else 59 + of_bool (leapYear y) + doy)"
    using row by (simp add: monthRow_def date daysBefore_month)
  moreover have "(y - 1) div 4 - (y - 1) div 100 + (y - 1) div 400 =
      yoe div 4 - yoe div 100 + era * 97 - (if m \<le> 2 then 0 else of_bool (leapYear y))"
    using leap_days_pred [of Y] days by (simp add: date)
  moreover have "z = era * 146097 + (365 * yoe + yoe div 4 - yoe div 100) + doy - 719468"
    using doe(3) by (simp only: doy_def yearStart_def)
  moreover have "365 * (y - 1) + a - b + c - 719162 + k + d - 1 = v"
    if "k + d - 1 = (if m \<le> 2 then doy - 306 else 59 + l + doy)"
      "a - b + c = e - f + era * 97 - (if m \<le> 2 then 0 else l)"
      "v = era * 146097 + (365 * yoe + e - f) + doy - 719468" for a b c e f k l v :: int
    using that date(3) date(1) [symmetric] by (cases "m \<le> 2") (simp_all add: Y_def)
  ultimately show "daysSinceEpoch y m d = z"
    unfolding daysSinceEpoch_def Let_def by blast
qed

subsection \<open>Text\<close>

lemma length_showDec: "k < 10 ^ Suc n \<Longrightarrow> length (showDec k) \<le> Suc n"
proof (induction n arbitrary: k)
  case (Suc n)
  then have "k div 10 < 10 ^ Suc n" by (simp add: div_less_iff_less_mult)
  from Suc.IH [OF this] show ?case by (subst showDec.simps) simp
qed (subst showDec.simps, simp)

lemma readBase_zeros: "readBase b (replicate n (CHR ''0'') @ s) = readBase b s"
proof -
  have "foldl (\<lambda>acc c. acc * b + digitVal c) 0 (replicate n (CHR ''0'')) = 0"
    by (induction n) (simp_all add: digitVal_def isDigit_def)
  then show ?thesis by (simp add: readBase_def)
qed

lemma padDec:
  assumes "0 \<le> i" "nat i < 10 ^ Suc n"
  shows "length (padDec (Suc n) i) = Suc n" "list_all isDigit (padDec (Suc n) i)"
    "int (readBase 10 (padDec (Suc n) i)) = i"
proof -
  have "list_all isDigit (replicate k (CHR ''0''))" for k by (induction k) (simp_all add: isDigit_def)
  then show "list_all isDigit (padDec (Suc n) i)" using showDec_digits [of "nat i"] by (simp add: padDec_def Let_def)
  show "length (padDec (Suc n) i) = Suc n" "int (readBase 10 (padDec (Suc n) i)) = i"
    using length_showDec [OF assms(2)] assms(1) by (simp_all add: padDec_def Let_def readBase_zeros readBase_showDec)
qed

lemma padDec2:
  assumes "0 \<le> i" "i < 100"
  obtains a b where "padDec 2 i = [a, b]" "isDigit a" "isDigit b" "int (readBase 10 [a, b]) = i"
proof -
  have facts: "length (padDec 2 i) = 2" "list_all isDigit (padDec 2 i)" "int (readBase 10 (padDec 2 i)) = i"
    using padDec [of i 1] assms by (simp_all add: numeral_2_eq_2 nat_less_iff)
  then obtain a b where "padDec 2 i = [a, b]" by (auto simp: length_Suc_conv numeral_2_eq_2)
  with facts that show ?thesis by simp
qed

lemma getnum_padDec [simp]:
  assumes "0 \<le> i" "i < 100"
  shows "getnum2 (padDec 2 i @ s) = Some (i, s)" "getnum1or2 (padDec 2 i @ s) = Some (i, s)"
  by (rule padDec2 [OF assms]; simp add: getnum2_def getnum1or2_def)+

lemma parseYear_padDec [simp]:
  assumes "0 \<le> y" "y \<le> 9999"
  shows "parseYear (padDec 4 y @ s) = Some (y, s)"
proof -
  have "Suc 3 = (4 :: nat)" by simp
  then have "length (padDec 4 y) = 4" "list_all isDigit (padDec 4 y)" "int (readBase 10 (padDec 4 y)) = y"
    using padDec [of y 3] assms by (simp_all only: nat_less_iff) simp_all
  then show ?thesis by (simp add: parseYear_def Let_def)
qed

definition yearOf :: "time \<Rightarrow> int" where
  "yearOf t = fst (civilFromDays (t div second div 86400))"

text \<open>
  A timestamp survives the API server. An instant of the years 0 to 9999 that is written as RFC 3339
  is read back as the same instant, cut down to the second.
\<close>

lemma timestamp_roundtrip:
  assumes "0 \<le> yearOf t" "yearOf t \<le> 9999"
  shows "parseRFC3339 (formatRFC3339 t) = Some (t div second * second)"
proof -
  define secs where "secs = t div second"
  define r where "r = secs mod 86400"
  obtain y m d where date: "civilFromDays (secs div 86400) = (y, m, d)" by (cases "civilFromDays (secs div 86400)")
  note civil = civil_roundtrip [OF date]
  have y: "0 \<le> y" "y \<le> 9999" using assms date by (simp_all add: yearOf_def secs_def)
  have "d \<le> 31" using civil(4) by (simp add: daysIn_def split: if_splits)
  have r: "0 \<le> r" "r < 86400" by (simp_all add: r_def)
  define h mi sec where "h = r div 3600" and "mi = r div 60 mod 60" and "sec = r mod 60"
  have clock: "0 \<le> h" "h < 24" "0 \<le> mi" "mi < 60" "0 \<le> sec" "sec < 60"
    using r by (simp_all add: h_def mi_def sec_def)
  have total: "h * 3600 + mi * 60 + sec = r"
  proof -
    have "r div 3600 = r div 60 div 60" using zdiv_zmult2_eq [of 60 r 60] by simp
    then show ?thesis
      using mult_div_mod_eq [of 60 r] mult_div_mod_eq [of 60 "r div 60"] by (simp only: h_def mi_def sec_def)
  qed
  have shape: "formatRFC3339 t = padDec 4 y @ ''-'' @ padDec 2 m @ ''-'' @ padDec 2 d @ ''T'' @
      padDec 2 h @ '':'' @ padDec 2 mi @ '':'' @ padDec 2 sec @ ''Z''"
    using date by (simp add: formatRFC3339_def secs_def [symmetric] r_def [symmetric] h_def mi_def sec_def)
  have "parseRFC3339 (formatRFC3339 t) =
      Some ((daysSinceEpoch y m d * 86400 + h * 3600 + mi * 60 + sec) * second)"
    unfolding shape parseRFC3339_def using y civil(1-4) clock \<open>d \<le> 31\<close>
    by (simp add: obind_def oguard_def expectChar_def parseFraction_def parseZone_def)
  also have "daysSinceEpoch y m d * 86400 + h * 3600 + mi * 60 + sec = secs"
    using civil(5) total div_mult_mod_eq [of secs 86400] by (simp only: r_def)
  finally show ?thesis by (simp add: secs_def)
qed

subsection \<open>Fractions of a second\<close>

text \<open>\<open>Format(time.RFC3339Nano)\<close> in UTC, and \<open>Time.MarshalJSON\<close>, which refuses years beyond four digits.\<close>

definition formatRFC3339Nano :: "time \<Rightarrow> string" where
  "formatRFC3339Nano t =
     (let nanos = t mod second;
          fraction = rev (dropWhile (\<lambda>c. c = CHR ''0'') (rev (padDec 9 nanos)))
      in butlast (formatRFC3339 t) @ (if nanos = 0 then [] else CHR ''.'' # fraction) @ ''Z'')"

definition marshalTime :: "time \<Rightarrow> string option" where
  "marshalTime t = (if 0 \<le> yearOf t \<and> yearOf t \<le> 9999 then Some (formatRFC3339Nano t) else None)"

end
