(* ===== verification/Caches.thy ===== *)
theory Caches
  imports Checker AuditSink GoHttp GoCalendar
begin

section \<open>The caches and the counters of the checker\<close>

text \<open>
  The rest of \<open>internal/assignment/authz/checker.go\<close>: the index functions that the informers run on every cached object, the
  start of the checker, and the page of its counters. What an indexer of \<open>client-go\<close> promises is the hypothesis
  \<open>servesIndexes\<close>; with it the uniqueness that \<open>Checker\<close> demands of an index is uniqueness in the cache.
\<close>

subsection \<open>Index functions\<close>

definition podUIDs :: "pod \<Rightarrow> string list" where
  "podUIDs p = (if metaUID p = [] then [] else [metaUID p])"

definition assignmentPodUIDs :: "unstructured \<Rightarrow> string list" where
  "assignmentPodUIDs object = (let uid = strAt (uStatus object) [''podRef'', ''uid''] in if uid = [] then [] else [uid])"

definition accessRequestAssignmentUIDs :: "unstructured \<Rightarrow> string list" where
  "accessRequestAssignmentUIDs object = (let uid = strAt (uSpec object) [''assignmentRef'', ''uid''] in if uid = [] then [] else [uid])"

subsection \<open>Start\<close>

text \<open>Checks are served only after every cache has synchronized; the caches then count as fresh.\<close>

definition startChecker :: "bool \<Rightarrow> time \<Rightarrow> 'prg checkerState \<Rightarrow> go_error option \<times> 'prg checkerState" where
  "startChecker synced now st =
     (if \<not> synced then (Some (ErrNew ''synchronize authorization caches''), st) else (None, st\<lparr>csLastFresh := now\<rparr>))"

subsection \<open>The page of the counters\<close>

definition metricLines :: "checkerMetrics \<Rightarrow> nat \<Rightarrow> AuditMetricsSnapshot \<Rightarrow> (string \<times> nat) list" where
  "metricLines m freshValue audit =
     [(''assignmentd_authz_allows_total'', unat (cmAllows m)), (''assignmentd_authz_denies_total'', unat (cmDenies m)),
      (''assignmentd_authz_errors_total'', unat (cmErrors m)), (''assignmentd_authz_token_reviews_total'', unat (cmTokenReviews m)),
      (''assignmentd_authz_token_cache_hits_total'', unat (cmTokenCacheHits m)), (''assignmentd_authz_cel_errors_total'', unat (cmCelErrors m)),
      (''assignmentd_authz_freshness_denies_total'', unat (cmFreshnessDenies m)), (''assignmentd_authz_grants_used_total'', unat (cmGrantsUsed m)),
      (''assignmentd_authz_cache_fresh'', freshValue),
      (''assignmentd_audit_enqueued_total'', unat (amEnqueued audit)), (''assignmentd_audit_written_total'', unat (amWritten audit)),
      (''assignmentd_audit_dropped_total'', unat (amDropped audit)), (''assignmentd_audit_errors_total'', unat (amErrors audit))]"

definition metricLine :: "string \<times> nat \<Rightarrow> string" where
  "metricLine l = fst l @ '' '' @ showDec (snd l) @ [CHR 0x0A]"

definition noAudit :: AuditMetricsSnapshot where
  "noAudit = \<lparr>amEnqueued = 0, amWritten = 0, amDropped = 0, amErrors = 0\<rparr>"

definition MetricsHandler :: "AuditMetricsSnapshot option \<Rightarrow> time \<Rightarrow> 'prg checkerState \<Rightarrow> response" where
  "MetricsHandler audit now st =
     \<lparr>rspStatus = 200, rspHeaders = [(''Content-Type'', [''text/plain; version=0.0.4''])],
      rspBody = concat (map metricLine (metricLines (csMetrics st) (if fresh now st then 1 else 0)
        (case audit of None \<Rightarrow> noAudit | Some a \<Rightarrow> a)))\<rparr>"

subsection \<open>What an index promises\<close>

definition servesIndexes :: "('ast, 'prg, 'w) checkerEnv \<Rightarrow> pod list \<Rightarrow> unstructured list \<Rightarrow> bool" where
  "servesIndexes env pods assignments \<longleftrightarrow>
     (\<forall>uid found. cePodsByIndex env uid = Inr found \<longrightarrow> mset found = mset (filter (\<lambda>p. uid \<in> set (podUIDs p)) pods)) \<and>
     (\<forall>uid found. ceAssignmentsByIndex env uid = Inr found \<longrightarrow>
        mset found = mset (filter (\<lambda>object. uid \<in> set (assignmentPodUIDs object)) assignments))"

lemma mset_filter_single:
  assumes "mset [x] = mset (filter P xs)"
  shows "filter P xs = [x] \<and> P x"
proof -
  have "length (filter P xs) = 1" using assms by (metis size_mset size_single mset.simps(1,2) add_mset_add_single add.left_neutral)
  then obtain y where y: "filter P xs = [y]" by (metis One_nat_def length_0_conv length_Suc_conv)
  moreover have "y = x" using assms unfolding y by simp
  moreover have "P y" using y by (metis filter_eq_ConsD)
  ultimately show ?thesis by simp
qed

lemma servesIndexes_pod:
  assumes "servesIndexes env pods assignments" "cePodsByIndex env uid = Inr [p]"
  shows "filter (\<lambda>p. metaUID p = uid) pods = [p] \<and> uid \<noteq> []"
proof -
  have found: "filter (\<lambda>p. uid \<in> set (podUIDs p)) pods = [p] \<and> uid \<in> set (podUIDs p)"
    by (rule mset_filter_single) (use assms in \<open>unfold servesIndexes_def, blast\<close>)
  then have "uid \<noteq> []" by (auto simp: podUIDs_def split: if_splits)
  then have "(\<lambda>p. uid \<in> set (podUIDs p)) = (\<lambda>p. metaUID p = uid)" by (auto simp: podUIDs_def)
  with found \<open>uid \<noteq> []\<close> show ?thesis by simp
qed

lemma servesIndexes_assignment:
  assumes "servesIndexes env pods assignments" "ceAssignmentsByIndex env uid = Inr [object]" "uid \<noteq> []"
  shows "filter (\<lambda>object. strAt (uStatus object) [''podRef'', ''uid''] = uid) assignments = [object]"
proof -
  have "filter (\<lambda>object. uid \<in> set (assignmentPodUIDs object)) assignments = [object] \<and> uid \<in> set (assignmentPodUIDs object)"
    by (rule mset_filter_single) (use assms in \<open>unfold servesIndexes_def, blast\<close>)
  moreover have "(\<lambda>object. uid \<in> set (assignmentPodUIDs object)) = (\<lambda>object. strAt (uStatus object) [''podRef'', ''uid''] = uid)"
    using assms(3) by (auto simp: assignmentPodUIDs_def Let_def)
  ultimately show ?thesis by simp
qed

text \<open>
  an allow names one Pod and one assignment of the whole cache. When the caches are indexed as the checker asks and a
  check allows a request without an error, the cache holds exactly one Pod with the UID of the decision and exactly one assignment whose
  status names that UID; the decision is for this assignment, and an empty UID is never allowed. A second assignment that claims the Pod, or
  a second Pod with the UID, turns the answer into a denial.
\<close>

theorem allow_unique_in_cache:
  assumes "servesIndexes env pods assignments" "check env clk input st w = ((d, None), st', w')" "dAllow d"
  shows "\<exists>p object. filter (\<lambda>p. metaUID p = dPodUID d) pods = [p] \<and> dPodUID d \<noteq> [] \<and> metaNamespace p = ceWorkloadNamespace env \<and>
    filter (\<lambda>object. strAt (uStatus object) [''podRef'', ''uid''] = dPodUID d) assignments = [object] \<and>
    dAssignmentUID d = metaUID object \<and> dAssignmentName d = metaName object \<and> conditionTrue object ''Ready'' \<and> metaDeletionTimestamp object = None"
proof -
  have "checkOp env clk input (st, w) = ((d, None), st', w')" using assms(2) by (simp add: checkOp_def)
  from kubernetes_checker.justified [OF this assms(3)] have "authorised env clk input st w d" by (simp add: authorisedIn_def)
  then obtain identity p object where objs: "podMatches env input identity p" "assignmentReady env (riPodUID identity) object"
    and d: "dPodUID d = riPodUID identity" "dAssignmentUID d = metaUID object" "dAssignmentName d = metaName object"
    unfolding authorised_def by (auto simp: allowedByBundle_def grantAllowed_def decisionFor_def)
  have pod: "filter (\<lambda>p. metaUID p = dPodUID d) pods = [p] \<and> dPodUID d \<noteq> []"
    using servesIndexes_pod [OF assms(1)] objs(1) d(1) by (simp add: podMatches_def)
  then have "filter (\<lambda>object. strAt (uStatus object) [''podRef'', ''uid''] = dPodUID d) assignments = [object]"
    using servesIndexes_assignment [OF assms(1)] objs(2) d(1) by (simp add: assignmentReady_def)
  with pod objs d show ?thesis by (auto simp: podMatches_def assignmentReady_def)
qed

theorem allow_unique_in_cache_witness:
  "\<exists>p object. filter (\<lambda>p. metaUID p = ''pod-1'') [exPod] = [p] \<and>
     filter (\<lambda>object. strAt (uStatus object) [''podRef'', ''uid''] = ''pod-1'') [exAssignment, exBundle] = [object] \<and> metaName object = ''task-1''"
proof -
  obtain st' where run: "check exEnv exClocks exInput exState () = ((exDecision, None), st', ())" using exCheck by blast
  have uid: "metaUID exPod = ''pod-1''" "strAt (uStatus exAssignment) [''podRef'', ''uid''] = ''pod-1''"
    "strAt (uStatus exBundle) [''podRef'', ''uid''] = []"
    by (simp_all add: exPod_def exAssignment_def exBundle_def strAt_eq)
  then have "servesIndexes exEnv [exPod] [exAssignment, exBundle]"
    by (auto simp: servesIndexes_def exEnv_def podUIDs_def assignmentPodUIDs_def Let_def)
  moreover have "dAllow exDecision" "dPodUID exDecision = ''pod-1''" "dAssignmentName exDecision = ''task-1''"
    by (simp_all add: exDecision_def allowedByBundle_def decisionFor_def exAssignment_def)
  ultimately show ?thesis using allow_unique_in_cache [OF _ run] by metis
qed

subsection \<open>What the counters disclose\<close>

lemma length_showDec_word: "length (showDec (unat (n :: 64 word))) \<le> 20"
proof -
  have "unat n < 2 ^ 64" using unsigned_less [of n] by simp
  then have "unat n < 10 ^ Suc 19" by (rule less_trans) simp
  then show ?thesis using length_showDec [of "unat n" 19] by simp
qed

text \<open>
  The page of the counters is bounded and free of credentials, as its comment says: it has at most 696 bytes whatever was counted, and it is
  a function of the counters and of the time of the last probe, so that it cannot tell two states with different cached tokens apart.
\<close>

theorem metrics_bounded:
  "length (rspBody (MetricsHandler audit now st)) \<le> 696 \<and>
   MetricsHandler audit now (st\<lparr>csTokens := tokens, csPrograms := programs\<rparr>) = MetricsHandler audit now st"
proof -
  define a where "a = (case audit of None \<Rightarrow> noAudit | Some a \<Rightarrow> a)"
  let ?m = "csMetrics st"
  have fresh_digits: "length (showDec (if fresh now st then 1 else 0)) \<le> 1"
    using length_showDec [of "if fresh now st then 1 else 0" 0] by simp
  have "length (rspBody (MetricsHandler audit now st)) \<le> 696"
    using fresh_digits length_showDec_word [of "cmAllows ?m"] length_showDec_word [of "cmDenies ?m"] length_showDec_word [of "cmErrors ?m"]
      length_showDec_word [of "cmTokenReviews ?m"] length_showDec_word [of "cmTokenCacheHits ?m"] length_showDec_word [of "cmCelErrors ?m"]
      length_showDec_word [of "cmFreshnessDenies ?m"] length_showDec_word [of "cmGrantsUsed ?m"] length_showDec_word [of "amEnqueued a"]
      length_showDec_word [of "amWritten a"] length_showDec_word [of "amDropped a"] length_showDec_word [of "amErrors a"]
    unfolding MetricsHandler_def a_def [symmetric] by (simp add: metricLines_def metricLine_def)
  moreover have "fresh now (st\<lparr>csTokens := tokens, csPrograms := programs\<rparr>) = fresh now st" by (simp add: fresh_def)
  ultimately show ?thesis by (simp add: MetricsHandler_def)
qed

end
