(* ===== verification/GoJson.thy ===== *)
theory GoJson
  imports GoEncoding
begin

section \<open>Parsing JSON\<close>

text \<open>
  The reader of \<open>encoding/json\<close>. A document is parsed to a \<open>json\<close> value whose objects keep their
  members in order, repeated names included. The recursion is bounded by fuel, which is one more
  than the length of the text: a nested value takes two steps and at least two bytes, its opening and
  its closing bracket, and every further element takes one step and at least two bytes. Nesting beyond 10000 levels
  is an error, as in Go. Strings are decoded with their escapes; a surrogate without its partner
  and bytes that are not UTF-8 become the replacement character.
\<close>

definition jsonSpace :: "char \<Rightarrow> bool" where
  "jsonSpace c \<longleftrightarrow> c = CHR '' '' \<or> c = CHR 0x09 \<or> c = CHR 0x0A \<or> c = CHR 0x0D"

definition skipSpace :: "string \<Rightarrow> string" where
  "skipSpace s = dropWhile jsonSpace s"

definition utf8Encode :: "nat \<Rightarrow> string" where
  "utf8Encode n =
     (if n < 128 then [char_of n]
      else if n < 2048 then [char_of (192 + n div 64), char_of (128 + n mod 64)]
      else if n < 65536 then [char_of (224 + n div 4096), char_of (128 + n div 64 mod 64), char_of (128 + n mod 64)]
      else [char_of (240 + n div 262144), char_of (128 + n div 4096 mod 64), char_of (128 + n div 64 mod 64),
            char_of (128 + n mod 64)])"

definition hex4 :: "string \<Rightarrow> (nat \<times> string) option" where
  "hex4 s = (let h = take 4 s in if length h = 4 \<and> list_all isHex h then Some (readBase 16 h, drop 4 s) else None)"

definition isSurrogate :: "nat \<Rightarrow> bool" where
  "isSurrogate n \<longleftrightarrow> 55296 \<le> n \<and> n < 57344"

text \<open>The rune of a \<open>\u\<close> escape, with the second half of a surrogate pair when it follows.\<close>

definition escapeRune :: "nat \<Rightarrow> string \<Rightarrow> string \<times> string" where
  "escapeRune n s =
     (if \<not> isSurrogate n then (utf8Encode n, s)
      else
        case (if take 2 s = [CHR 0x5C, CHR ''u''] then hex4 (drop 2 s) else None) of
          Some (m, r) \<Rightarrow>
            if n < 56320 \<and> 56320 \<le> m \<and> m < 57344
            then (utf8Encode (65536 + (n - 55296) * 1024 + (m - 56320)), r)
            else (replacementRune, s)
        | None \<Rightarrow> (replacementRune, s))"

definition simpleEscape :: "char \<Rightarrow> char option" where
  "simpleEscape c =
     (if c = CHR 0x22 \<or> c = CHR 0x5C \<or> c = CHR ''/'' then Some c
      else if c = CHR ''b'' then Some (CHR 0x08) else if c = CHR ''f'' then Some (CHR 0x0C)
      else if c = CHR ''n'' then Some (CHR 0x0A) else if c = CHR ''r'' then Some (CHR 0x0D)
      else if c = CHR ''t'' then Some (CHR 0x09) else None)"

text \<open>The rest of a string literal after its opening quote.\<close>

fun parseChars :: "nat \<Rightarrow> string \<Rightarrow> string \<Rightarrow> (string \<times> string) option" where
  "parseChars 0 s acc = None"
| "parseChars (Suc n) s acc =
     (case s of
        [] \<Rightarrow> None
      | c # r \<Rightarrow>
          if c = CHR 0x22 then Some (acc, r)
          else if c = CHR 0x5C then
            (case r of
               [] \<Rightarrow> None
             | e # r' \<Rightarrow>
                 if e = CHR ''u'' then
                   (case hex4 r' of
                      None \<Rightarrow> None
                    | Some (v, r'') \<Rightarrow> let (t, q) = escapeRune v r'' in parseChars n q (acc @ t))
                 else (case simpleEscape e of None \<Rightarrow> None | Some d \<Rightarrow> parseChars n r' (acc @ [d])))
          else if byteIn 0 31 c then None
          else if runeLen s = 0 then parseChars n r (acc @ replacementRune)
          else parseChars n (drop (runeLen s) s) (acc @ take (runeLen s) s))"

definition digitsOf :: "string \<Rightarrow> string" where
  "digitsOf s = takeWhile isDigit s"

text \<open>A number literal: its text, and whether it has a fraction or an exponent.\<close>

definition scanNumber :: "string \<Rightarrow> (string \<times> bool \<times> string) option" where
  "scanNumber s =
     (let (sign, s1) = (if s \<noteq> [] \<and> hd s = CHR ''-'' then (''-'', tl s) else ([], s));
          ip = (if s1 \<noteq> [] \<and> hd s1 = CHR ''0'' then ''0'' else digitsOf s1);
          s2 = drop (length ip) s1;
          hasFrac = (s2 \<noteq> [] \<and> hd s2 = CHR ''.'');
          fd = (if hasFrac then digitsOf (tl s2) else []);
          fp = (if hasFrac then CHR ''.'' # fd else []);
          s3 = drop (length fp) s2;
          hasExp = (s3 \<noteq> [] \<and> (hd s3 = CHR ''e'' \<or> hd s3 = CHR ''E''));
          es = (if hasExp \<and> tl s3 \<noteq> [] \<and> hd (tl s3) \<in> {CHR ''+'', CHR ''-''} then take 2 s3
                else if hasExp then take 1 s3 else []);
          ed = (if hasExp then digitsOf (drop (length es) s3) else []);
          s4 = drop (length es + length ed) s3
      in if ip = [] \<or> (hasFrac \<and> fd = []) \<or> (hasExp \<and> ed = []) then None
         else Some (sign @ ip @ fp @ es @ ed, hasFrac \<or> hasExp, s4))"

definition numberValue :: "string \<Rightarrow> bool \<Rightarrow> json" where
  "numberValue t float =
     (if float then JFloat t
      else if hasPrefix t ''-'' then JInt (- int (readBase 10 (tl t))) else JInt (int (readBase 10 t)))"

text \<open>For evaluation the digits are read as integers.\<close>

lemma int_readBase: "int (readBase b s) = foldl (\<lambda>acc c. acc * int b + int (digitVal c)) 0 s"
  by (induction s rule: rev_induct) (simp_all add: readBase_def)

lemma numberValue_code [code]:
  "numberValue t float =
     (let read = foldl (\<lambda>acc c. acc * 10 + int (digitVal c)) 0 in
      if float then JFloat t else if hasPrefix t ''-'' then JInt (- read (tl t)) else JInt (read t))"
  by (simp add: numberValue_def int_readBase)

fun parseValue :: "nat \<Rightarrow> nat \<Rightarrow> string \<Rightarrow> (json \<times> string) option"
  and parseElements :: "nat \<Rightarrow> nat \<Rightarrow> string \<Rightarrow> json list \<Rightarrow> (json \<times> string) option"
  and parseMembers :: "nat \<Rightarrow> nat \<Rightarrow> string \<Rightarrow> (string \<times> json) list \<Rightarrow> (json \<times> string) option" where
  "parseValue 0 depth s = None"
| "parseValue (Suc n) depth s0 =
     (let s = skipSpace s0 in
      if s = [] \<or> 10000 < depth then None
      else if hd s = CHR ''{'' then
        (let r = skipSpace (tl s)
         in if r \<noteq> [] \<and> hd r = CHR ''}'' then Some (JObj [], tl r) else parseMembers n (Suc depth) r [])
      else if hd s = CHR ''['' then
        (let r = skipSpace (tl s)
         in if r \<noteq> [] \<and> hd r = CHR '']'' then Some (JArr [], tl r) else parseElements n (Suc depth) r [])
      else if hd s = CHR 0x22 then map_option (\<lambda>(t, r). (JStr t, r)) (parseChars (length s) (tl s) [])
      else if hasPrefix s ''true'' then Some (JBool True, drop 4 s)
      else if hasPrefix s ''false'' then Some (JBool False, drop 5 s)
      else if hasPrefix s ''null'' then Some (JNull, drop 4 s)
      else case scanNumber s of
             None \<Rightarrow> None
           | Some (t, float, r) \<Rightarrow> Some (numberValue t float, r))"
| "parseElements 0 depth s acc = None"
| "parseElements (Suc n) depth s acc =
     (case parseValue n depth s of
        None \<Rightarrow> None
      | Some (v, r0) \<Rightarrow>
          (let r = skipSpace r0
           in if r = [] then None
              else if hd r = CHR '']'' then Some (JArr (acc @ [v]), tl r)
              else if hd r = CHR '','' then parseElements n depth (tl r) (acc @ [v])
              else None))"
| "parseMembers 0 depth s acc = None"
| "parseMembers (Suc n) depth s0 acc =
     (let s = skipSpace s0 in
      if s = [] \<or> hd s \<noteq> CHR 0x22 then None
      else case parseChars (length s) (tl s) [] of
             None \<Rightarrow> None
           | Some (k, r0) \<Rightarrow>
               (let r = skipSpace r0
                in if r = [] \<or> hd r \<noteq> CHR '':'' then None
                   else case parseValue n depth (tl r) of
                          None \<Rightarrow> None
                        | Some (v, q0) \<Rightarrow>
                            (let q = skipSpace q0
                             in if q = [] then None
                                else if hd q = CHR ''}'' then Some (JObj (acc @ [(k, v)]), tl q)
                                else if hd q = CHR '','' then parseMembers n depth (tl q) (acc @ [(k, v)])
                                else None)))"

definition parseJson :: "string \<Rightarrow> json option" where
  "parseJson s =
     (case parseValue (Suc (length s)) 0 s of
        Some (v, r) \<Rightarrow> if skipSpace r = [] then Some v else None
      | None \<Rightarrow> None)"

subsection \<open>Decoding a field that is a list of strings\<close>

text \<open>
  \<open>json.Unmarshal\<close> into a struct whose only field is a \<open>[]string\<close>: names match without regard to
  case, the last occurrence wins, \<open>null\<close> leaves the zero value, and a value of another type is an
  error.
\<close>

fun decodeStrings :: "json \<Rightarrow> string list option" where
  "decodeStrings JNull = Some []"
| "decodeStrings (JArr xs) =
     (if list_all (\<lambda>x. case x of JStr _ \<Rightarrow> True | JNull \<Rightarrow> True | _ \<Rightarrow> False) xs
      then Some (map (\<lambda>x. case x of JStr t \<Rightarrow> t | _ \<Rightarrow> []) xs) else None)"
| "decodeStrings _ = None"

definition unmarshalStringsField :: "string \<Rightarrow> string \<Rightarrow> go_error + string list" where
  "unmarshalStringsField name raw =
     (case parseJson raw of
        None \<Rightarrow> Inl (ErrNew ''invalid JSON'')
      | Some JNull \<Rightarrow> Inr []
      | Some (JObj kvs) \<Rightarrow>
          (let values = map (decodeStrings \<circ> snd) (filter (\<lambda>kv. equalFold (fst kv) name) kvs)
           in if None \<in> set values then Inl (ErrNew ''json: cannot unmarshal value'')
              else Inr (if values = [] then [] else the (last values)))
      | Some _ \<Rightarrow> Inl (ErrNew ''json: cannot unmarshal value''))"

end
