(* ===== verification/Controller.thy ===== *)
theory Controller
  imports AuthzTypes GoJson "HOL-Library.AList"
begin

section \<open>The assignment controller\<close>

text \<open>
  \<open>internal/assignment/controller/controller.go\<close>. Every path through \<open>reconcile\<close> reads some
  objects and ends in one tail call: an update of the assignment, of its status or of the bundle,
  the finalization, or a plain return. The model keeps this shape: \<open>reconcileDecide\<close> makes the
  reads, in the order of the source, and returns the tail call as an \<open>outcome\<close>, which \<open>reconcile\<close>
  performs. In the same way \<open>finalizeDecide\<close> deletes the workload and looks for what is left, and
  says whether the finalizer may go.

  \<open>kubeClient\<close> holds the calls to the API server and the converters to typed objects. \<open>clock\<close> gives
  the time at which a condition of a given type is built.
\<close>

subsection \<open>Configuration and parameters\<close>

definition assignmentFinalizer :: string where
  "assignmentFinalizer = ''aks-sandbox.azure.com/revoke-assignment''"
definition bundleFinalizer :: string where
  "bundleFinalizer = ''aks-sandbox.azure.com/in-use-protection''"
definition identityAudience :: string where "identityAudience = ''aks-sandbox-capability-gateway''"
definition identityVolume :: string where "identityVolume = ''assignment-identity''"
definition identityContainer :: string where "identityContainer = ''egress''"
definition identityMountPath :: string where "identityMountPath = ''/var/run/aks-sandbox-identity''"

datatype EgressIdentityMode = ProjectedSidecarIdentity | ExternalMediatorIdentity

record controllerConfig =
  ccAssignmentNamespace :: string
  ccWorkloadNamespace :: string
  ccAllowedRuntimeClasses :: "string list"
  ccEgressIdentityMode :: EgressIdentityMode
  ccInterval :: int

text \<open>\<open>New\<close>: \<open>None\<close> when it panics. The mode arrives as text, empty for the default.\<close>

definition parseIdentityMode :: "string \<Rightarrow> EgressIdentityMode option" where
  "parseIdentityMode m =
     (if m = [] \<or> m = ''projected-sidecar'' then Some ProjectedSidecarIdentity
      else if m = ''external-mediator'' then Some ExternalMediatorIdentity else None)"

definition newController ::
  "bool \<Rightarrow> bool \<Rightarrow> string \<Rightarrow> string \<Rightarrow> string list \<Rightarrow> string \<Rightarrow> int \<Rightarrow> controllerConfig option" where
  "newController dynamicNil coreNil assignmentNs workloadNs classes mode interval =
     (if dynamicNil \<or> coreNil \<or> assignmentNs = [] \<or> workloadNs = [] then None
      else case parseIdentityMode mode of
             None \<Rightarrow> None
           | Some m \<Rightarrow>
               Some \<lparr>ccAssignmentNamespace = assignmentNs, ccWorkloadNamespace = workloadNs,
                 ccAllowedRuntimeClasses =
                   (if classes = [] then [''kata-vm-isolation'', ''kata-optimized'', ''self-kata-clh'', ''kata-clh'']
                    else classes),
                 ccEgressIdentityMode = m, ccInterval = (if interval \<le> 0 then 2 * second else interval)\<rparr>)"

record ('ast, 'prg, 'w) kubeClient =
  kcListAssignments :: "('w, unstructured list) call"
  kcUpdateAssignment :: "unstructured \<Rightarrow> ('w, unit) call"
  kcUpdateAssignmentStatus :: "unstructured \<Rightarrow> ('w, unit) call"
  kcGetTemplate :: "string \<Rightarrow> ('w, unstructured) call"
  kcGetBundle :: "string \<Rightarrow> ('w, unstructured) call"
  kcUpdateBundle :: "unstructured \<Rightarrow> ('w, unit) call"
  kcListWorkloads :: "string \<Rightarrow> ('w, unstructured list) call"
  kcGetWorkload :: "string \<Rightarrow> string \<Rightarrow> ('w, unstructured) call"
  kcDeleteWorkload :: "string \<Rightarrow> string \<Rightarrow> ('w, unit) call"
  kcGetPool :: "string \<Rightarrow> ('w, unstructured) call"
  kcListPods :: "string \<Rightarrow> ('w, pod list) call"
  kcGetPod :: "string \<Rightarrow> ('w, pod) call"
  kcGetServiceAccount :: "string \<Rightarrow> ('w, service_account) call"
  kcToAssignment :: "unstructured \<Rightarrow> go_error + SandboxAssignment"
  kcToTemplate :: "unstructured \<Rightarrow> go_error + SandboxTemplate"
  kcToBundle :: "unstructured \<Rightarrow> go_error + CapabilityBundle"
  kcCel :: "('ast, 'prg) celEnv"

subsection \<open>Pure helpers\<close>

definition assignmentUID :: "strmap \<Rightarrow> string" where
  "assignmentUID annotations =
     (if getS annotations OpenSandboxAssignmentUIDAnnotation \<noteq> []
      then getS annotations OpenSandboxAssignmentUIDAnnotation
      else getS annotations AssignmentUIDAnnotation)"

definition ownedBy :: "owner_reference list \<Rightarrow> unstructured \<Rightarrow> bool" where
  "ownedBy references workload \<longleftrightarrow>
     list_ex (\<lambda>r. ownerController r = Some True \<and> ownerKind r = ''BatchSandbox'' \<and> ownerUID r = metaUID workload) references"

definition ownedByPool :: "owner_reference list \<Rightarrow> unstructured \<Rightarrow> bool" where
  "ownedByPool references pool \<longleftrightarrow>
     list_ex (\<lambda>r. ownerController r = Some True \<and> ownerKind r = ''Pool'' \<and> ownerUID r = metaUID pool) references"

definition runtimeClassName :: "pod \<Rightarrow> string" where
  "runtimeClassName p = optS (podRuntimeClassName p)"

definition podReady :: "pod \<Rightarrow> bool" where
  "podReady p \<longleftrightarrow> list_ex (\<lambda>c. pcType c = ''Ready'' \<and> pcStatus c = ''True'') (podConditions p)"

definition validateServiceAccountReference :: "pod \<Rightarrow> go_error option" where
  "validateServiceAccountReference p =
     (if podServiceAccountName p = [] then Some (ErrNew ''bound Pod does not declare a ServiceAccount'') else None)"

definition validateEligibleServiceAccount :: "service_account \<Rightarrow> go_error option" where
  "validateEligibleServiceAccount sa =
     (if getS (metaLabels sa) EligibleServiceAccountLabel \<noteq> ''true''
      then Some (ErrNew (''ServiceAccount '' @ encodeString False (metaName sa) @ '' is not platform-eligible''))
      else if saAutomount sa \<noteq> Some False
      then Some (ErrNew (''ServiceAccount '' @ encodeString False (metaName sa) @ '' must disable token automount''))
      else None)"

definition validatePodServiceAccountIsolation :: "pod \<Rightarrow> go_error option" where
  "validatePodServiceAccountIsolation p =
     (if podAutomount p \<noteq> Some False then Some (ErrNew ''automountServiceAccountToken must be false'') else None)"

definition goodProjection :: "sa_token_projection \<Rightarrow> bool" where
  "goodProjection t \<longleftrightarrow>
     tokPath t = ''token'' \<and> tokAudience t = identityAudience \<and>
     (case tokExpirationSeconds t of None \<Rightarrow> False | Some e \<Rightarrow> 0 < e \<and> e \<le> 600)"

definition foundProjection :: "pod \<Rightarrow> bool" where
  "foundProjection p \<longleftrightarrow>
     list_ex (\<lambda>v. volName v = identityVolume \<and>
        (case volProjected v of
           None \<Rightarrow> False
         | Some sources \<Rightarrow> list_ex (\<lambda>t. case t of None \<Rightarrow> False | Some tok \<Rightarrow> goodProjection tok) sources)) (podVolumes p)"

definition identityMounts :: "pod \<Rightarrow> (string \<times> volume_mount) list" where
  "identityMounts p =
     concat (map (\<lambda>c. map (\<lambda>m. (ctrName c, m)) (filter (\<lambda>m. mntName m = identityVolume) (ctrMounts c))) (podContainers p))"

definition goodMount :: "string \<times> volume_mount \<Rightarrow> bool" where
  "goodMount cm \<longleftrightarrow>
     fst cm = identityContainer \<and> mntReadOnly (snd cm) \<and> mntPath (snd cm) = identityMountPath \<and>
     mntSubPath (snd cm) = [] \<and> mntSubPathExpr (snd cm) = []"

definition validateIdentity :: "pod \<Rightarrow> go_error option" where
  "validateIdentity p =
     (case validatePodServiceAccountIsolation p of
        Some e \<Rightarrow> Some e
      | None \<Rightarrow>
          if \<not> foundProjection p then Some (ErrNew ''required Pod-bound identity projection is missing'')
          else case filter (\<lambda>cm. \<not> goodMount cm) (identityMounts p) of
                 cm # _ \<Rightarrow> Some (ErrNew (''identity volume has an invalid mount in container '' @ encodeString False (fst cm)))
               | [] \<Rightarrow> if identityMounts p = [] then Some (ErrNew ''identity volume is not mounted by egress'') else None)"

definition validateExternalMediatorIdentity :: "pod \<Rightarrow> go_error option" where
  "validateExternalMediatorIdentity p =
     (if list_ex (\<lambda>v. case volProjected v of None \<Rightarrow> False | Some sources \<Rightarrow> list_ex (\<lambda>t. t \<noteq> None) sources) (podVolumes p)
      then Some (ErrNew ''external mediator mode forbids projected service account tokens'') else None)"

text \<open>The backends of a bundle are checked in the order in which Go iterates over the map.\<close>

fun firstInvalidBackend :: "('ast, 'prg) celEnv \<Rightarrow> (string \<times> string) list \<Rightarrow> go_error option" where
  "firstInvalidBackend cel [] = None"
| "firstInvalidBackend cel ((backend, allow) # rest) =
     (if allow = [] then Some (ErrNew (''backend '' @ encodeString False backend @ '' allow expression is missing''))
      else case ValidateAllowExpression cel allow of
             Some e \<Rightarrow> Some (Errorf (''backend '' @ encodeString False backend @ '' allow expression'') e)
           | None \<Rightarrow> firstInvalidBackend cel rest)"

definition validateBundlePolicy :: "('ast, 'prg) celEnv \<Rightarrow> CapabilityBundle \<Rightarrow> go_error option" where
  "validateBundlePolicy cel bundle =
     (case cbsEgress (cbSpec bundle) of
        None \<Rightarrow> None
      | Some egress \<Rightarrow> firstInvalidBackend cel (epAgentgateway egress))"

definition policyRevision :: "unstructured \<Rightarrow> string" where
  "policyRevision bundle = PolicyRevision (specMap (uSpec bundle))"

definition workloadReference :: "unstructured \<Rightarrow> json" where
  "workloadReference workload =
     JObj [(''apiVersion'', JStr (uAPIVersion workload)), (''kind'', JStr (uKind workload)),
           (''namespace'', JStr (metaNamespace workload)), (''name'', JStr (metaName workload)),
           (''uid'', JStr (metaUID workload))]"

definition podReference :: "pod \<Rightarrow> json" where
  "podReference p =
     JObj [(''apiVersion'', JStr ''v1''), (''kind'', JStr ''Pod''), (''namespace'', JStr (metaNamespace p)),
           (''name'', JStr (metaName p)), (''uid'', JStr (metaUID p))]"

text \<open>The text of an error, as \<open>err.Error()\<close> returns it.\<close>

fun errorText :: "go_error \<Rightarrow> string" where
  "errorText (ErrNew m) = m"
| "errorText (Errorf m e) = m @ '': '' @ errorText e"
| "errorText (ApiStatus r) =
     (case r of ReasonNotFound \<Rightarrow> ''not found'' | ReasonAlreadyExists \<Rightarrow> ''already exists'' | ReasonConflict \<Rightarrow> ''conflict''
      | ReasonForbidden \<Rightarrow> ''forbidden'' | ReasonOther m \<Rightarrow> m)"

subsection \<open>Conditions and status\<close>

definition condition :: "unstructured \<Rightarrow> (string \<Rightarrow> time) \<Rightarrow> string \<Rightarrow> bool \<Rightarrow> string \<Rightarrow> string \<Rightarrow> json" where
  "condition object clock kind value reason message =
     JObj [(''type'', JStr kind), (''status'', JStr (if value then ''True'' else ''False'')),
           (''reason'', JStr reason), (''message'', JStr message),
           (''observedGeneration'', JInt (metaGeneration object)),
           (''lastTransitionTime'', JStr (formatRFC3339 (clock kind)))]"

definition readyConditions :: "unstructured \<Rightarrow> (string \<Rightarrow> time) \<Rightarrow> bool \<Rightarrow> EgressIdentityMode \<Rightarrow> json list" where
  "readyConditions object clock identityRequired mode =
     (let (identityReason, identityMessage) =
        (if \<not> identityRequired then (''IdentityNotRequired'', ''bundle has no mediated egress policy'')
         else case mode of
                ExternalMediatorIdentity \<Rightarrow>
                  (''ExternalMediatorConfigured'',
                   ''trusted mediator issues an audience-restricted token bound to the sandbox Pod'')
              | ProjectedSidecarIdentity \<Rightarrow>
                  (''EgressIdentityConfigured'', ''identity projection is isolated to egress''))
      in [condition object clock ''BundleResolved'' True ''BundleValid'' ''immutable bundle resolved'',
          condition object clock ''PodBound'' True ''FreshPodObserved'' ''fresh owned Pod bound'',
          condition object clock ''IdentityReady'' True identityReason identityMessage,
          condition object clock ''Ready'' True ''AssignmentReady'' ''assignment enforcement is ready''])"

definition progressConditions ::
  "unstructured \<Rightarrow> (string \<Rightarrow> time) \<Rightarrow> bool \<Rightarrow> bool \<Rightarrow> bool \<Rightarrow> string \<Rightarrow> string \<Rightarrow> json list" where
  "progressConditions object clock bundleResolved podBound identityReady reason message =
     (let (bundleReason, bundleMessage) =
            (if bundleResolved then (''BundleValid'', ''immutable bundle resolved'') else (reason, message));
          (podReason, podMessage) =
            (if podBound then (''FreshPodObserved'', ''fresh owned Pod bound'') else (reason, message));
          (identityReason, identityMessage) =
            (if identityReady then (''EgressIdentityConfigured'', ''identity projection is isolated to egress'')
             else (reason, message))
      in [condition object clock ''BundleResolved'' bundleResolved bundleReason bundleMessage,
          condition object clock ''PodBound'' podBound podReason podMessage,
          condition object clock ''IdentityReady'' identityReady identityReason identityMessage,
          condition object clock ''Ready'' False reason message])"

definition newStatus :: "json option \<Rightarrow> json option \<Rightarrow> json option \<Rightarrow> json list \<Rightarrow> json" where
  "newStatus resolved workloadRef podRef conditions =
     JObj ([(''conditions'', JArr conditions)] @
           (case resolved of None \<Rightarrow> [] | Some r \<Rightarrow> [(''resolvedCapabilityBundle'', r)]) @
           (case workloadRef of None \<Rightarrow> [] | Some r \<Rightarrow> [(''workloadRef'', r)]) @
           (case podRef of None \<Rightarrow> [] | Some r \<Rightarrow> [(''podRef'', r)]))"

definition dropTransitionTime :: "json \<Rightarrow> json" where
  "dropTransitionTime raw =
     (case raw of JObj kvs \<Rightarrow> JObj (filter (\<lambda>kv. fst kv \<noteq> ''lastTransitionTime'') kvs) | _ \<Rightarrow> raw)"

definition stripTransitionTimes :: "json \<Rightarrow> json" where
  "stripTransitionTimes status =
     (let conditions = JArr (map dropTransitionTime (sliceAt status [''conditions'']))
      in case status of
           JObj kvs \<Rightarrow> JObj (AList.update ''conditions'' conditions kvs)
         | _ \<Rightarrow> JObj [(''conditions'', conditions)])"

text \<open>\<open>reflect.DeepEqual\<close> on decoded JSON does not see the order of keys.\<close>

definition statusEquivalent :: "json \<Rightarrow> json \<Rightarrow> bool" where
  "statusEquivalent left right \<longleftrightarrow> sortKeys (stripTransitionTimes left) = sortKeys (stripTransitionTimes right)"

definition updateStatus ::
  "('ast, 'prg, 'w) kubeClient \<Rightarrow> unstructured \<Rightarrow> json option \<Rightarrow> json option \<Rightarrow> json option \<Rightarrow> json list \<Rightarrow>
   'w \<Rightarrow> go_error option \<times> 'w" where
  "updateStatus client object resolved workloadRef podRef conditions w =
     (let status = newStatus resolved workloadRef podRef conditions
      in if statusEquivalent (specMap (uStatus object)) status then (None, w)
         else callw (kcUpdateAssignmentStatus client (object\<lparr>uStatus := status\<rparr>))
                (\<lambda>e w'. (Some e, w')) (\<lambda>_ w'. (None, w')) w)"

subsection \<open>Reconciling\<close>

text \<open>The tail call with which a pass over one assignment ends.\<close>

datatype outcome =
    Done "go_error option"
  | Finalize
  | WriteAssignment unstructured
  | WriteBundle unstructured
  | WriteStatus "json option" "json option" "json option" "json list"

type_synonym ('w, 'a) rstep = "(outcome, 'w, 'a) step"

definition pendingStatus ::
  "unstructured \<Rightarrow> (string \<Rightarrow> time) \<Rightarrow> json option \<Rightarrow> json option \<Rightarrow> json option \<Rightarrow> bool \<Rightarrow> bool \<Rightarrow> string \<Rightarrow> string \<Rightarrow> outcome" where
  "pendingStatus object clock resolved workloadRef podRef bundleOk podBound reason message =
     WriteStatus resolved workloadRef podRef (progressConditions object clock bundleOk podBound False reason message)"

definition resolveTemplate ::
  "('ast, 'prg, 'w) kubeClient \<Rightarrow> unstructured \<Rightarrow> (string \<Rightarrow> time) \<Rightarrow> SandboxAssignment \<Rightarrow>
   ('w, SandboxTemplate option) rstep" where
  "resolveTemplate client object clock typed =
     (let tref = saTemplateRef (sasSpec typed);
          bundleName = cbrName (saCapabilityBundleRef (sasSpec typed));
          reject = pendingStatus object clock None None None False False
      in if trName tref = [] then retw None
         else
           bindw (tryw (kcGetTemplate client (trName tref))
             (\<lambda>_. reject ''TemplateNotFound'' ''sandbox template is unavailable'')) (\<lambda>templateObject.
           bindw (guardw (metaDeletionTimestamp templateObject \<noteq> None)
             (reject ''TemplateNotFound'' ''sandbox template is unavailable'')) (\<lambda>_.
           bindw (guardw (metaUID templateObject \<noteq> trUID tref)
             (reject ''TemplateReplaced'' ''sandbox template incarnation changed'')) (\<lambda>_.
           bindw (guardw (policyRevision templateObject \<noteq> trSpecRevision tref)
             (reject ''TemplateRevisionMismatch'' ''sandbox template revision changed'')) (\<lambda>_.
           bindw (liftf (case kcToTemplate client templateObject of Inl e \<Rightarrow> Inl (Done (Some e)) | Inr t \<Rightarrow> Inr t)) (\<lambda>template.
           bindw (guardw (\<not> tsEnabled (stSpec template) \<or> cbrName (tsCapabilityBundleRef (stSpec template)) \<noteq> bundleName)
             (reject ''TemplateInvalid'' ''sandbox template is disabled or selects a different capability bundle'')) (\<lambda>_.
             retw (Some template))))))))"

text \<open>The bundle with its typed form and its revision.\<close>

definition resolveBundle ::
  "('ast, 'prg, 'w) kubeClient \<Rightarrow> unstructured \<Rightarrow> (string \<Rightarrow> time) \<Rightarrow> SandboxAssignment \<Rightarrow> SandboxTemplate option \<Rightarrow>
   ('w, unstructured \<times> CapabilityBundle) rstep" where
  "resolveBundle client object clock typed template =
     (let bundleName = cbrName (saCapabilityBundleRef (sasSpec typed));
          reject = pendingStatus object clock None None None False False in
      bindw (tryw (kcGetBundle client bundleName)
        (\<lambda>_. reject ''BundleNotFound'' ''capability bundle is unavailable'')) (\<lambda>b.
      bindw (guardw (metaDeletionTimestamp b \<noteq> None)
        (reject ''BundleNotFound'' ''capability bundle is unavailable'')) (\<lambda>_.
      bindw (liftf (case kcToBundle client b of
                      Inl e \<Rightarrow> Inl (Done (Some (Errorf (''convert CapabilityBundle '' @ metaName b) e)))
                    | Inr t \<Rightarrow> Inr t)) (\<lambda>typedBundle.
      bindw (liftf (case validateBundlePolicy (kcCel client) typedBundle of
                      Some e \<Rightarrow> Inl (reject ''BundleInvalid'' (errorText e))
                    | None \<Rightarrow> Inr ())) (\<lambda>_.
      bindw (guardw (bundleFinalizer \<notin> set (metaFinalizers b))
        (WriteBundle (b\<lparr>metaFinalizers := metaFinalizers b @ [bundleFinalizer]\<rparr>))) (\<lambda>_.
      bindw (guardw
        (case template of
           None \<Rightarrow> False
         | Some t \<Rightarrow>
             cbrPolicyRevision (tsCapabilityBundleRef (stSpec t)) \<noteq> policyRevision b \<or>
             saLogicalTenant (sasSpec typed) = [] \<or>
             (case cbsGovernance (cbSpec typedBundle) of
                None \<Rightarrow> True
              | Some g \<Rightarrow> saLogicalTenant (sasSpec typed) \<noteq> gbLogicalTenant g))
        (reject ''TemplateBoundaryMismatch'' ''sandbox template, assignment tenant, and capability revision do not match'')) (\<lambda>_.
        retw (b, typedBundle))))))))"

definition resolvedReference :: "unstructured \<Rightarrow> json" where
  "resolvedReference b =
     JObj [(''name'', JStr (metaName b)), (''uid'', JStr (metaUID b)), (''policyRevision'', JStr (policyRevision b))]"

definition identityRequired :: "CapabilityBundle \<Rightarrow> bool" where
  "identityRequired typedBundle =
     (case cbsEgress (cbSpec typedBundle) of None \<Rightarrow> False | Some e \<Rightarrow> epAgentgateway e \<noteq> [])"

definition selectorFor :: "unstructured \<Rightarrow> string" where
  "selectorFor object = AssignmentLabel @ ''='' @ metaName object"

definition matchingWorkloads :: "('ast, 'prg, 'w) kubeClient \<Rightarrow> unstructured \<Rightarrow> ('w, unstructured list) call" where
  "matchingWorkloads client object =
     bindw (kcListWorkloads client (selectorFor object)) (\<lambda>items.
       retw (filter (\<lambda>item. assignmentUID (metaAnnotations item) = metaUID object) items))"

definition withSandboxID :: "unstructured \<Rightarrow> string \<Rightarrow> unstructured" where
  "withSandboxID object name =
     object\<lparr>metaAnnotations := (metaAnnotations object)(SandboxIDAnnotation \<mapsto> name),
            metaLabels := (metaLabels object)(SandboxIDLabel \<mapsto> name)\<rparr>"

definition bindWorkload ::
  "('ast, 'prg, 'w) kubeClient \<Rightarrow> unstructured \<Rightarrow> (string \<Rightarrow> time) \<Rightarrow> json \<Rightarrow> ('w, unstructured) rstep" where
  "bindWorkload client object clock resolved =
     (let reject = (\<lambda>wref. pendingStatus object clock (Some resolved) wref None True False) in
      bindw (tryw (matchingWorkloads client object) (\<lambda>e. Done (Some e))) (\<lambda>workloads.
      bindw (guardw (1 < length workloads)
        (reject None ''MultipleWorkloads'' ''more than one BatchSandbox claims the assignment'')) (\<lambda>_.
      bindw (guardw (workloads = [])
        (reject None ''WorkloadPending'' ''waiting for exactly one fresh BatchSandbox'')) (\<lambda>_.
      let workload = hd workloads in
      bindw (guardw (getS (metaAnnotations object) SandboxIDAnnotation = [])
        (WriteAssignment (withSandboxID object (metaName workload)))) (\<lambda>_.
      bindw (guardw (nestedInt64 (uSpec workload) [''replicas''] \<noteq> Inr (Some 1))
        (reject (Some (workloadReference workload)) ''InvalidReplicaCount'' ''BatchSandbox must request exactly one Pod'')) (\<lambda>_.
      bindw (guardw (metaCreationTimestamp workload < metaCreationTimestamp object)
        (reject (Some (workloadReference workload)) ''StaleWorkload'' ''BatchSandbox predates assignment'')) (\<lambda>_.
        retw workload)))))))"

definition allocStatusAnnotation :: string where
  "allocStatusAnnotation = ''sandbox.opensandbox.io/alloc-status''"

definition allocatedPoolPods ::
  "('ast, 'prg, 'w) kubeClient \<Rightarrow> unstructured \<Rightarrow> string \<Rightarrow> ('w, pod list) call" where
  "allocatedPoolPods client workload poolRef =
     bindw (kcGetPool client poolRef) (\<lambda>pool.
     let recycleType = strAt (uSpec pool) [''recycleStrategy'', ''type''];
         raw = getS (metaAnnotations workload) allocStatusAnnotation in
     bindw (guardw (recycleType \<noteq> ''Delete'' \<and> recycleType \<noteq> ''Replace'')
       (ErrNew (''pool '' @ encodeString False poolRef @ '' must use Delete/Replace recycle strategy''))) (\<lambda>_.
     if raw = [] then retw []
     else
       bindw (liftf (case unmarshalStringsField ''pods'' raw of
                       Inl e \<Rightarrow> Inl (Errorf ''parse Pool allocation'' e) | Inr names \<Rightarrow> Inr names)) (\<lambda>names.
       if names = [] then retw []
       else
         bindw (guardw (length names \<noteq> 1)
           (ErrNew (''Pool allocation contains '' @ showDec (length names) @ '' Pods''))) (\<lambda>_.
         bindw (attempt (kcGetPod client (hd names))) (\<lambda>found.
           case found of
             Inl e \<Rightarrow> if isNotFound e then retw [] else exitw e
           | Inr p \<Rightarrow>
               bindw (guardw (metaDeletionTimestamp p \<noteq> None \<or> \<not> ownedByPool (metaOwnerReferences p) pool)
                 (ErrNew (''allocated Pod is not owned by replacement Pool '' @ encodeString False poolRef))) (\<lambda>_.
                 retw [p]))))))"

definition matchingPods ::
  "('ast, 'prg, 'w) kubeClient \<Rightarrow> unstructured \<Rightarrow> unstructured \<Rightarrow> string \<Rightarrow> ('w, pod list) call" where
  "matchingPods client object workload poolRef =
     (if poolRef \<noteq> [] then allocatedPoolPods client workload poolRef
      else bindw (kcListPods client (selectorFor object)) (\<lambda>items.
        retw (filter (\<lambda>p. assignmentUID (metaAnnotations p) = metaUID object \<and> ownedBy (metaOwnerReferences p) workload \<and>
                          metaDeletionTimestamp p = None) items)))"

definition poolRefOf :: "unstructured \<Rightarrow> string" where
  "poolRefOf workload = strAt (uSpec workload) [''poolRef'']"

definition bindPod ::
  "('ast, 'prg, 'w) kubeClient \<Rightarrow> unstructured \<Rightarrow> (string \<Rightarrow> time) \<Rightarrow> json \<Rightarrow> unstructured \<Rightarrow> ('w, pod) rstep" where
  "bindPod client object clock resolved workload =
     (let reject = pendingStatus object clock (Some resolved) (Some (workloadReference workload)) None True False in
      bindw (tryw (matchingPods client object workload (poolRefOf workload)) (\<lambda>e. Done (Some e))) (\<lambda>pods.
      bindw (guardw (1 < length pods)
        (reject ''MultiplePods'' ''more than one live Pod is owned by the BatchSandbox'')) (\<lambda>_.
      bindw (guardw (pods = []) (reject ''PodPending'' ''waiting for exactly one owned Pod'')) (\<lambda>_.
        retw (hd pods)))))"

definition checkErr :: "go_error option \<Rightarrow> (go_error \<Rightarrow> 'r) \<Rightarrow> ('r, 'w, unit) step" where
  "checkErr r h = (case r of None \<Rightarrow> retw () | Some e \<Rightarrow> exitw (h e))"

definition checkPod ::
  "('ast, 'prg, 'w) kubeClient \<Rightarrow> controllerConfig \<Rightarrow> unstructured \<Rightarrow> (string \<Rightarrow> time) \<Rightarrow> json \<Rightarrow> unstructured \<Rightarrow>
   CapabilityBundle \<Rightarrow> pod \<Rightarrow> ('w, unit) rstep" where
  "checkPod client config object clock resolved workload typedBundle p =
     (let reject = pendingStatus object clock (Some resolved) (Some (workloadReference workload)) (Some (podReference p)) True in
      bindw (checkErr (validateServiceAccountReference p) (\<lambda>e. reject True ''ServiceAccountNotReady'' (errorText e))) (\<lambda>_.
      bindw (tryw (kcGetServiceAccount client (podServiceAccountName p))
        (\<lambda>_. reject True ''ServiceAccountNotReady'' ''sandbox ServiceAccount is unavailable'')) (\<lambda>serviceAccount.
      bindw (checkErr (validateEligibleServiceAccount serviceAccount)
        (\<lambda>e. reject True ''ServiceAccountNotReady'' (errorText e))) (\<lambda>_.
      bindw (checkErr (validatePodServiceAccountIsolation p)
        (\<lambda>e. reject True ''ServiceAccountNotReady'' (errorText e))) (\<lambda>_.
      bindw (guardw (let fenced = getS (metaAnnotations object) ResumeAfterPodUIDAnnotation
                     in fenced \<noteq> [] \<and> fenced = metaUID p)
        (reject False ''ResumePending'' ''waiting for a fresh Pod incarnation'')) (\<lambda>_.
      bindw (guardw (poolRefOf workload = [] \<and> metaCreationTimestamp p < metaCreationTimestamp object)
        (reject False ''StalePod'' ''owned Pod predates assignment'')) (\<lambda>_.
      bindw (guardw (runtimeClassName p \<notin> set (ccAllowedRuntimeClasses config))
        (reject True ''RuntimeNotAllowed'' ''bound Pod does not use an approved runtime class'')) (\<lambda>_.
      bindw (guardw (\<not> podReady p) (reject True ''PodNotReady'' ''bound Pod is not ready'')) (\<lambda>_.
        if \<not> identityRequired typedBundle then retw ()
        else checkErr (case ccEgressIdentityMode config of
                         ExternalMediatorIdentity \<Rightarrow> validateExternalMediatorIdentity p
                       | ProjectedSidecarIdentity \<Rightarrow> validateIdentity p)
               (\<lambda>e. reject True ''IdentityNotReady'' (errorText e)))))))))))"

definition statusRef :: "unstructured \<Rightarrow> string \<Rightarrow> json option" where
  "statusRef object field = (case nestedMap (uStatus object) [field] of Inr r \<Rightarrow> r | Inl _ \<Rightarrow> None)"

definition pausedStatus :: "unstructured \<Rightarrow> (string \<Rightarrow> time) \<Rightarrow> json \<Rightarrow> outcome" where
  "pausedStatus object clock resolved =
     pendingStatus object clock (Some resolved) (statusRef object ''workloadRef'') (statusRef object ''podRef'') True
       (statusRef object ''podRef'' \<noteq> None) ''Paused'' ''sandbox capability is paused''"

definition reconcileDecide ::
  "('ast, 'prg, 'w) kubeClient \<Rightarrow> controllerConfig \<Rightarrow> unstructured \<Rightarrow> (string \<Rightarrow> time) \<Rightarrow> ('w, outcome) rstep" where
  "reconcileDecide client config object clock =
     bindw (guardw (metaDeletionTimestamp object \<noteq> None) Finalize) (\<lambda>_.
     bindw (guardw (assignmentFinalizer \<notin> set (metaFinalizers object))
       (WriteAssignment (object\<lparr>metaFinalizers := metaFinalizers object @ [assignmentFinalizer]\<rparr>))) (\<lambda>_.
     bindw (liftf (case kcToAssignment client object of
                     Inl e \<Rightarrow> Inl (Done (Some (Errorf (''convert SandboxAssignment '' @ metaName object) e)))
                   | Inr t \<Rightarrow> Inr t)) (\<lambda>typed.
     bindw (resolveTemplate client object clock typed) (\<lambda>template.
     bindw (resolveBundle client object clock typed template) (\<lambda>(b, typedBundle).
     let resolved = resolvedReference b in
     bindw (guardw (getS (metaAnnotations object) PausedAnnotation = ''true'') (pausedStatus object clock resolved)) (\<lambda>_.
     bindw (bindWorkload client object clock resolved) (\<lambda>workload.
     bindw (bindPod client object clock resolved workload) (\<lambda>p.
     bindw (checkPod client config object clock resolved workload typedBundle p) (\<lambda>_.
       retw (WriteStatus (Some resolved) (Some (workloadReference workload)) (Some (podReference p))
               (readyConditions object clock (identityRequired typedBundle) (ccEgressIdentityMode config))))))))))))"

subsection \<open>Finalizing\<close>

text \<open>Delete each workload and make sure that it is gone.\<close>

fun deleteWorkloads ::
  "('ast, 'prg, 'w) kubeClient \<Rightarrow> string \<Rightarrow> string list \<Rightarrow> (go_error option, 'w, unit) step" where
  "deleteWorkloads client ns [] = retw ()"
| "deleteWorkloads client ns (name # names) =
     bindw (attempt (kcDeleteWorkload client ns name)) (\<lambda>deleted.
     bindw (case deleted of Inl e \<Rightarrow> guardw (\<not> isNotFound e) (Some e) | Inr _ \<Rightarrow> retw ()) (\<lambda>_.
     bindw (attempt (kcGetWorkload client ns name)) (\<lambda>found.
     bindw (case found of Inr _ \<Rightarrow> exitw None | Inl e \<Rightarrow> guardw (\<not> isNotFound e) (Some e)) (\<lambda>_.
       deleteWorkloads client ns names))))"

text \<open>\<open>Inr ()\<close> when nothing of the assignment is left, so that its finalizer may go.\<close>

definition finalizeDecide ::
  "('ast, 'prg, 'w) kubeClient \<Rightarrow> controllerConfig \<Rightarrow> unstructured \<Rightarrow> (go_error option, 'w, unit) step" where
  "finalizeDecide client config object =
     (let statusName = strAt (uStatus object) [''workloadRef'', ''name''];
          statusNs = strAt (uStatus object) [''workloadRef'', ''namespace''];
          ns = (if statusNs = [] then ccWorkloadNamespace config else statusNs);
          podName = strAt (uStatus object) [''podRef'', ''name''];
          podUID = strAt (uStatus object) [''podRef'', ''uid''] in
      bindw (guardw (assignmentFinalizer \<notin> set (metaFinalizers object)) None) (\<lambda>_.
      bindw (if statusName \<noteq> [] then retw [statusName]
             else bindw (tryw (matchingWorkloads client object) Some) (\<lambda>ws. retw (map metaName ws))) (\<lambda>names.
      bindw (deleteWorkloads client ns names) (\<lambda>_.
      bindw (if podName = [] then retw ()
             else bindw (attempt (kcGetPod client podName)) (\<lambda>found.
               case found of
                 Inr p \<Rightarrow> guardw (metaUID p = podUID) None
               | Inl e \<Rightarrow> guardw (\<not> isNotFound e) (Some e))) (\<lambda>_.
      bindw (tryw (kcListPods client (selectorFor object)) Some) (\<lambda>pods.
        guardw (list_ex (\<lambda>p. assignmentUID (metaAnnotations p) = metaUID object) pods) None))))))"

text \<open>Whether another assignment uses the bundle; the first conversion error or use ends the loop.\<close>

fun bundleInUse ::
  "('ast, 'prg, 'w) kubeClient \<Rightarrow> string \<Rightarrow> string \<Rightarrow> unstructured list \<Rightarrow> go_error + bool" where
  "bundleInUse client uid bundleName [] = Inr False"
| "bundleInUse client uid bundleName (item # items) =
     (case kcToAssignment client item of
        Inl e \<Rightarrow> Inl (Errorf (''convert SandboxAssignment '' @ metaName item) e)
      | Inr typed \<Rightarrow>
          if metaUID item \<noteq> uid \<and> cbrName (saCapabilityBundleRef (sasSpec typed)) = bundleName then Inr True
          else bundleInUse client uid bundleName items)"

definition withoutFinalizer :: "string \<Rightarrow> unstructured \<Rightarrow> unstructured" where
  "withoutFinalizer f object = object\<lparr>metaFinalizers := filter (\<lambda>v. v \<noteq> f) (metaFinalizers object)\<rparr>"

definition releaseDecide ::
  "('ast, 'prg, 'w) kubeClient \<Rightarrow> unstructured \<Rightarrow> (go_error option, 'w, unstructured) step" where
  "releaseDecide client object =
     bindw (liftf (case kcToAssignment client object of
                     Inl e \<Rightarrow> Inl (Some (Errorf (''convert SandboxAssignment '' @ metaName object) e))
                   | Inr t \<Rightarrow> Inr (cbrName (saCapabilityBundleRef (sasSpec t))))) (\<lambda>bundleName.
     bindw (tryw (kcListAssignments client) Some) (\<lambda>items.
     bindw (liftf (case bundleInUse client (metaUID object) bundleName items of
                     Inl e \<Rightarrow> Inl (Some e) | Inr used \<Rightarrow> if used then Inl None else Inr ())) (\<lambda>_.
       tryw (kcGetBundle client bundleName) (\<lambda>e. if isNotFound e then None else Some e))))"

definition releaseBundleIfUnused ::
  "('ast, 'prg, 'w) kubeClient \<Rightarrow> unstructured \<Rightarrow> 'w \<Rightarrow> go_error option \<times> 'w" where
  "releaseBundleIfUnused client object w =
     (case releaseDecide client object w of
        (Inl r, w') \<Rightarrow> (r, w')
      | (Inr b, w') \<Rightarrow>
          callw (kcUpdateBundle client (withoutFinalizer bundleFinalizer b)) (\<lambda>e w''. (Some e, w'')) (\<lambda>_ w''. (None, w'')) w')"

definition finalize ::
  "('ast, 'prg, 'w) kubeClient \<Rightarrow> controllerConfig \<Rightarrow> unstructured \<Rightarrow> 'w \<Rightarrow> go_error option \<times> 'w" where
  "finalize client config object w =
     (case finalizeDecide client config object w of
        (Inl r, w') \<Rightarrow> (r, w')
      | (Inr _, w') \<Rightarrow>
          callw (kcUpdateAssignment client (withoutFinalizer assignmentFinalizer object))
            (\<lambda>e w''. (Some e, w''))
            (\<lambda>_ w''. releaseBundleIfUnused client object w'') w')"

subsection \<open>The reconcile loop\<close>

definition performOutcome ::
  "('ast, 'prg, 'w) kubeClient \<Rightarrow> controllerConfig \<Rightarrow> unstructured \<Rightarrow> outcome \<Rightarrow> 'w \<Rightarrow> go_error option \<times> 'w" where
  "performOutcome client config object out w =
     (case out of
        Done r \<Rightarrow> (r, w)
      | Finalize \<Rightarrow> finalize client config object w
      | WriteAssignment o' \<Rightarrow> callw (kcUpdateAssignment client o') (\<lambda>e w'. (Some e, w')) (\<lambda>_ w'. (None, w')) w
      | WriteBundle b \<Rightarrow> callw (kcUpdateBundle client b) (\<lambda>e w'. (Some e, w')) (\<lambda>_ w'. (None, w')) w
      | WriteStatus resolved workloadRef podRef conditions \<Rightarrow>
          updateStatus client object resolved workloadRef podRef conditions w)"

definition reconcile ::
  "('ast, 'prg, 'w) kubeClient \<Rightarrow> controllerConfig \<Rightarrow> unstructured \<Rightarrow> (string \<Rightarrow> time) \<Rightarrow> 'w \<Rightarrow> go_error option \<times> 'w" where
  "reconcile client config object clock w =
     (case finishw (reconcileDecide client config object clock) w of
        (out, w') \<Rightarrow> performOutcome client config object out w')"

text \<open>\<open>errors.Join\<close> as the list of the errors that were joined.\<close>

fun reconcileItems ::
  "('ast, 'prg, 'w) kubeClient \<Rightarrow> controllerConfig \<Rightarrow> (string \<Rightarrow> time) \<Rightarrow> unstructured list \<Rightarrow> 'w \<Rightarrow> go_error list \<times> 'w" where
  "reconcileItems client config clock [] w = ([], w)"
| "reconcileItems client config clock (item # items) w =
     (case reconcile client config item clock w of
        (r, w1) \<Rightarrow>
          (case reconcileItems client config clock items w1 of
             (errs, w2) \<Rightarrow> ((case r of None \<Rightarrow> errs | Some e \<Rightarrow> Errorf (metaName item) e # errs), w2)))"

definition reconcileAll ::
  "('ast, 'prg, 'w) kubeClient \<Rightarrow> controllerConfig \<Rightarrow> (string \<Rightarrow> time) \<Rightarrow> 'w \<Rightarrow> go_error list \<times> 'w" where
  "reconcileAll client config clock w =
     callw (kcListAssignments client) (\<lambda>e w'. ([e], w')) (\<lambda>items w'. reconcileItems client config clock items w') w"

subsection \<open>Only the last step reports Ready\<close>

text \<open>
  The steps that the calls of the client may take the world along, and what a run that starts in
  the world \<open>w\<close> gets to see: the call returned the value, or reported that the object is missing.
\<close>

definition kubeSteps :: "('ast, 'prg, 'w) kubeClient \<Rightarrow> ('w \<times> 'w) set" where
  "kubeSteps client =
     {(w, w'). w' = snd (kcListAssignments client w) \<or> (\<exists>x. w' = snd (kcUpdateAssignment client x w)) \<or>
        (\<exists>x. w' = snd (kcUpdateAssignmentStatus client x w)) \<or> (\<exists>n. w' = snd (kcGetTemplate client n w)) \<or>
        (\<exists>n. w' = snd (kcGetBundle client n w)) \<or> (\<exists>x. w' = snd (kcUpdateBundle client x w)) \<or>
        (\<exists>n. w' = snd (kcListWorkloads client n w)) \<or> (\<exists>ns n. w' = snd (kcGetWorkload client ns n w)) \<or>
        (\<exists>ns n. w' = snd (kcDeleteWorkload client ns n w)) \<or> (\<exists>n. w' = snd (kcGetPool client n w)) \<or>
        (\<exists>n. w' = snd (kcListPods client n w)) \<or> (\<exists>n. w' = snd (kcGetPod client n w)) \<or>
        (\<exists>n. w' = snd (kcGetServiceAccount client n w))}"

abbreviation returns :: "('ast, 'prg, 'w) kubeClient \<Rightarrow> 'w \<Rightarrow> ('w, 'a) call \<Rightarrow> 'a \<Rightarrow> bool" where
  "returns client w c a \<equiv> observes (kubeSteps client) w c (Inr a)"

abbreviation reportsGone :: "('ast, 'prg, 'w) kubeClient \<Rightarrow> 'w \<Rightarrow> ('w, 'a) call \<Rightarrow> bool" where
  "reportsGone client w c \<equiv> observesGone (kubeSteps client) w c"

lemma within_client [within_intros]:
  "within (kubeSteps client) (kcListAssignments client)" "within (kubeSteps client) (kcGetTemplate client n)"
  "within (kubeSteps client) (kcGetBundle client n)" "within (kubeSteps client) (kcListWorkloads client n)"
  "within (kubeSteps client) (kcGetWorkload client ns n)" "within (kubeSteps client) (kcDeleteWorkload client ns n)"
  "within (kubeSteps client) (kcGetPool client n)" "within (kubeSteps client) (kcListPods client n)"
  "within (kubeSteps client) (kcGetPod client n)" "within (kubeSteps client) (kcGetServiceAccount client n)"
  by (rule within_call, auto simp: kubeSteps_def)+

lemma within_checkErr [within_intros]: "within R (checkErr r h)"
  by (auto simp: checkErr_def intro: within_intros split: option.split)

lemma within_matchingWorkloads [within_intros]: "within (kubeSteps client) (matchingWorkloads client object)"
  unfolding matchingWorkloads_def by (intro within_intros)

lemma within_allocatedPoolPods [within_intros]: "within (kubeSteps client) (allocatedPoolPods client workload poolRef)"
  unfolding allocatedPoolPods_def Let_def by (intro within_intros)

lemma within_matchingPods [within_intros]: "within (kubeSteps client) (matchingPods client object workload poolRef)"
  unfolding matchingPods_def by (intro within_intros)

lemma within_stages [within_intros]:
  "within (kubeSteps client) (resolveTemplate client object clock typed)"
  "within (kubeSteps client) (resolveBundle client object clock typed template)"
  "within (kubeSteps client) (bindWorkload client object clock resolved)"
  "within (kubeSteps client) (bindPod client object clock resolved workload)"
  unfolding resolveTemplate_def resolveBundle_def bindWorkload_def bindPod_def Let_def by (intro within_intros)+

definition readyIn :: "json list \<Rightarrow> bool" where
  "readyIn conditions \<longleftrightarrow>
     list_ex (\<lambda>raw. jsonGet raw ''type'' = Some (JStr ''Ready'') \<and> jsonGet raw ''status'' = Some (JStr ''True'')) conditions"

fun claimsReady :: "outcome \<Rightarrow> bool" where
  "claimsReady (WriteStatus _ _ _ conditions) = readyIn conditions"
| "claimsReady _ = False"

lemma progress_not_ready: "\<not> readyIn (progressConditions object clock b p i reason message)"
  by (simp add: readyIn_def progressConditions_def condition_def jsonGet_def split: prod.splits)

lemma pending_not_ready [simp]: "\<not> claimsReady (pendingStatus object clock r wr pr b p reason message)"
  by (simp add: pendingStatus_def progress_not_ready)

lemma ready_ready: "readyIn (readyConditions object clock i mode)"
  by (simp add: readyIn_def readyConditions_def condition_def jsonGet_def split: prod.splits)

lemma checkErr_eq [flow_simps]:
  "checkErr r h w = (Inr u, w') \<longleftrightarrow> r = None \<and> w' = w"
  "checkErr r h w = (Inl x, w') \<longleftrightarrow> (\<exists>e. r = Some e \<and> x = h e) \<and> w' = w"
  by (cases r; auto simp: checkErr_def)+

lemma stages_not_ready:
  "resolveTemplate client object clock typed w = (Inl out, w') \<Longrightarrow> \<not> claimsReady out"
  "resolveBundle client object clock typed template w = (Inl out, w') \<Longrightarrow> \<not> claimsReady out"
  "bindWorkload client object clock resolved w = (Inl out, w') \<Longrightarrow> \<not> claimsReady out"
  "bindPod client object clock resolved workload w = (Inl out, w') \<Longrightarrow> \<not> claimsReady out"
  "checkPod client config object clock resolved workload typedBundle p w = (Inl out, w') \<Longrightarrow> \<not> claimsReady out"
proof -
  show "resolveTemplate client object clock typed w = (Inl out, w') \<Longrightarrow> \<not> claimsReady out"
    by (auto simp: resolveTemplate_def Let_def flow_simps split: if_splits)
  show "resolveBundle client object clock typed template w = (Inl out, w') \<Longrightarrow> \<not> claimsReady out"
    by (auto simp: resolveBundle_def Let_def flow_simps)
  show "bindWorkload client object clock resolved w = (Inl out, w') \<Longrightarrow> \<not> claimsReady out"
    by (auto simp: bindWorkload_def Let_def flow_simps)
  show "bindPod client object clock resolved workload w = (Inl out, w') \<Longrightarrow> \<not> claimsReady out"
    by (auto simp: bindPod_def Let_def flow_simps)
  show "checkPod client config object clock resolved workload typedBundle p w = (Inl out, w') \<Longrightarrow> \<not> claimsReady out"
    by (auto simp: checkPod_def Let_def flow_simps split: if_splits)
qed

lemma reconcileDecide_Inl_not_ready:
  assumes "reconcileDecide client config object clock w = (Inl out, w')"
  shows "\<not> claimsReady out"
  using assms
  by (auto simp: reconcileDecide_def Let_def flow_simps pausedStatus_def dest: stages_not_ready split: prod.splits)

subsection \<open>What Ready means\<close>

definition templateMatches ::
  "('ast, 'prg, 'w) kubeClient \<Rightarrow> 'w \<Rightarrow> SandboxAssignment \<Rightarrow> unstructured \<Rightarrow> CapabilityBundle \<Rightarrow> bool" where
  "templateMatches client w typed b typedBundle \<longleftrightarrow>
     (let tref = saTemplateRef (sasSpec typed) in
      trName tref = [] \<or>
      (\<exists>tobj t g. returns client w (kcGetTemplate client (trName tref)) tobj \<and> metaDeletionTimestamp tobj = None \<and>
         metaUID tobj = trUID tref \<and> policyRevision tobj = trSpecRevision tref \<and> kcToTemplate client tobj = Inr t \<and>
         tsEnabled (stSpec t) \<and>
         cbrName (tsCapabilityBundleRef (stSpec t)) = cbrName (saCapabilityBundleRef (sasSpec typed)) \<and>
         cbrPolicyRevision (tsCapabilityBundleRef (stSpec t)) = policyRevision b \<and>
         cbsGovernance (cbSpec typedBundle) = Some g \<and> saLogicalTenant (sasSpec typed) \<noteq> [] \<and>
         saLogicalTenant (sasSpec typed) = gbLogicalTenant g))"

definition bundleValid ::
  "('ast, 'prg, 'w) kubeClient \<Rightarrow> 'w \<Rightarrow> SandboxAssignment \<Rightarrow> unstructured \<Rightarrow> CapabilityBundle \<Rightarrow> bool" where
  "bundleValid client w typed b typedBundle \<longleftrightarrow>
     returns client w (kcGetBundle client (cbrName (saCapabilityBundleRef (sasSpec typed)))) b \<and>
     metaDeletionTimestamp b = None \<and> kcToBundle client b = Inr typedBundle \<and>
     validateBundlePolicy (kcCel client) typedBundle = None \<and> bundleFinalizer \<in> set (metaFinalizers b)"

definition workloadBound ::
  "('ast, 'prg, 'w) kubeClient \<Rightarrow> 'w \<Rightarrow> unstructured \<Rightarrow> unstructured \<Rightarrow> bool" where
  "workloadBound client w object workload \<longleftrightarrow>
     returns client w (matchingWorkloads client object) [workload] \<and>
     nestedInt64 (uSpec workload) [''replicas''] = Inr (Some 1) \<and>
     metaCreationTimestamp object \<le> metaCreationTimestamp workload \<and>
     getS (metaAnnotations object) SandboxIDAnnotation \<noteq> []"

definition podAccepted ::
  "('ast, 'prg, 'w) kubeClient \<Rightarrow> 'w \<Rightarrow> controllerConfig \<Rightarrow> unstructured \<Rightarrow> unstructured \<Rightarrow> CapabilityBundle \<Rightarrow> pod \<Rightarrow> bool" where
  "podAccepted client w config object workload typedBundle p \<longleftrightarrow>
     podServiceAccountName p \<noteq> [] \<and>
     (\<exists>sa. returns client w (kcGetServiceAccount client (podServiceAccountName p)) sa \<and>
           getS (metaLabels sa) EligibleServiceAccountLabel = ''true'' \<and> saAutomount sa = Some False) \<and>
     podAutomount p = Some False \<and>
     (getS (metaAnnotations object) ResumeAfterPodUIDAnnotation = [] \<or>
      getS (metaAnnotations object) ResumeAfterPodUIDAnnotation \<noteq> metaUID p) \<and>
     (poolRefOf workload = [] \<longrightarrow> metaCreationTimestamp object \<le> metaCreationTimestamp p) \<and>
     runtimeClassName p \<in> set (ccAllowedRuntimeClasses config) \<and> podReady p \<and>
     (identityRequired typedBundle \<longrightarrow>
        (case ccEgressIdentityMode config of
           ExternalMediatorIdentity \<Rightarrow> validateExternalMediatorIdentity p
         | ProjectedSidecarIdentity \<Rightarrow> validateIdentity p) = None)"

lemma resolve_stages_Inr:
  assumes "resolveTemplate client object clock typed w = (Inr template, w1)"
    and "resolveBundle client object clock typed template w1 = (Inr (b, typedBundle), w2)"
  shows "templateMatches client w typed b typedBundle \<and> bundleValid client w typed b typedBundle"
proof -
  have later: "(w, w1) \<in> (kubeSteps client)\<^sup>*"
    by (rule withinD [OF within_stages(1) rtrancl.rtrancl_refl assms(1)])
  have "bundleValid client w typed b typedBundle"
    using assms(2) later by (auto simp: bundleValid_def resolveBundle_def Let_def flow_simps intro: observesI)
  moreover have "templateMatches client w typed b typedBundle"
  proof (cases template)
    case None
    then have "trName (saTemplateRef (sasSpec typed)) = []"
      using assms(1) by (auto simp: resolveTemplate_def Let_def flow_simps split: if_splits)
    then show ?thesis by (simp add: templateMatches_def)
  next
    case (Some t)
    from assms(2) Some obtain g where "cbrPolicyRevision (tsCapabilityBundleRef (stSpec t)) = policyRevision b"
      "saLogicalTenant (sasSpec typed) \<noteq> []" "cbsGovernance (cbSpec typedBundle) = Some g"
      "saLogicalTenant (sasSpec typed) = gbLogicalTenant g"
      by (auto simp: resolveBundle_def Let_def flow_simps split: option.split_asm)
    moreover from assms(1) Some obtain tobj where
      "returns client w (kcGetTemplate client (trName (saTemplateRef (sasSpec typed)))) tobj"
      "metaDeletionTimestamp tobj = None"
      "metaUID tobj = trUID (saTemplateRef (sasSpec typed))"
      "policyRevision tobj = trSpecRevision (saTemplateRef (sasSpec typed))" "kcToTemplate client tobj = Inr t"
      "tsEnabled (stSpec t)"
      "cbrName (tsCapabilityBundleRef (stSpec t)) = cbrName (saCapabilityBundleRef (sasSpec typed))"
      by (auto simp: resolveTemplate_def Let_def flow_simps split: if_splits intro: observesI0)
    ultimately show ?thesis unfolding templateMatches_def Let_def by blast
  qed
  ultimately show ?thesis by blast
qed

lemma length_1_hd: "xs \<noteq> [] \<Longrightarrow> \<not> 1 < length xs \<Longrightarrow> xs = [hd xs]"
  by (cases xs) auto

lemma bindWorkload_Inr:
  assumes "bindWorkload client object clock resolved w1 = (Inr workload, w')" and "(w, w1) \<in> (kubeSteps client)\<^sup>*"
  shows "workloadBound client w object workload"
proof -
  from assms obtain ws w2 where "matchingWorkloads client object w1 = (Inr ws, w2)" "ws \<noteq> []" "\<not> 1 < length ws"
    "workload = hd ws" and rest: "nestedInt64 (uSpec workload) [''replicas''] = Inr (Some 1)"
    "metaCreationTimestamp object \<le> metaCreationTimestamp workload"
    "getS (metaAnnotations object) SandboxIDAnnotation \<noteq> []"
    by (auto simp: bindWorkload_def Let_def flow_simps)
  then have "returns client w (matchingWorkloads client object) [workload]"
    using length_1_hd [of ws] observesI assms(2) by metis
  with rest show ?thesis by (simp add: workloadBound_def)
qed

lemma bindPod_Inr:
  assumes "bindPod client object clock resolved workload w1 = (Inr p, w')" and "(w, w1) \<in> (kubeSteps client)\<^sup>*"
  shows "returns client w (matchingPods client object workload (poolRefOf workload)) [p]"
proof -
  from assms obtain ps w2 where "matchingPods client object workload (poolRefOf workload) w1 = (Inr ps, w2)"
    "ps \<noteq> []" "\<not> 1 < length ps" "p = hd ps"
    by (auto simp: bindPod_def Let_def flow_simps)
  then show ?thesis using length_1_hd [of ps] observesI assms(2) by metis
qed

lemma checkPod_Inr:
  assumes "checkPod client config object clock resolved workload typedBundle p w1 = (Inr u, w')"
    and "(w, w1) \<in> (kubeSteps client)\<^sup>*"
  shows "podAccepted client w config object workload typedBundle p"
  using assms
  by (auto simp: checkPod_def podAccepted_def Let_def flow_simps validateServiceAccountReference_def
      validateEligibleServiceAccount_def validatePodServiceAccountIsolation_def
      split: if_splits intro: observesI)

subsection \<open>An example cluster\<close>

text \<open>One assignment, its bundle, one workload with one Pod, and a client that reads them.\<close>

definition ctlBundle :: unstructured where
  "ctlBundle = \<lparr>metaNamespace = ''assignments'', metaName = ''tools'', metaGenerateName = [], metaUID = ''bundle-1'',
     metaResourceVersion = ''3'', metaGeneration = 1, metaCreationTimestamp = 0, metaDeletionTimestamp = None,
     metaLabels = Map.empty, metaAnnotations = Map.empty, metaFinalizers = [bundleFinalizer], metaOwnerReferences = [],
     uAPIVersion = ''aks-sandbox.azure.com/v1alpha1'', uKind = ''CapabilityBundle'', uSpec = JNull, uStatus = JNull\<rparr>"

definition ctlTypedBundle :: CapabilityBundle where
  "ctlTypedBundle = \<lparr>metaNamespace = ''assignments'', metaName = ''tools'', metaGenerateName = [], metaUID = ''bundle-1'',
     metaResourceVersion = ''3'', metaGeneration = 1, metaCreationTimestamp = 0, metaDeletionTimestamp = None,
     metaLabels = Map.empty, metaAnnotations = Map.empty, metaFinalizers = [bundleFinalizer], metaOwnerReferences = [],
     cbSpec = \<lparr>cbsEgress = Some \<lparr>epAgentgateway = [(''web'', ''true'')]\<rparr>, cbsHarness = None, cbsGovernance = None\<rparr>\<rparr>"

definition ctlAssignment :: "string list \<Rightarrow> json \<Rightarrow> unstructured" where
  "ctlAssignment finalizers status = \<lparr>metaNamespace = ''assignments'', metaName = ''task-1'', metaGenerateName = [],
     metaUID = ''assignment-1'', metaResourceVersion = ''9'', metaGeneration = 1, metaCreationTimestamp = 0,
     metaDeletionTimestamp = None, metaLabels = Map.empty,
     metaAnnotations = [SandboxIDAnnotation \<mapsto> ''sandbox''], metaFinalizers = finalizers,
     metaOwnerReferences = [], uAPIVersion = ''aks-sandbox.azure.com/v1alpha1'', uKind = ''SandboxAssignment'',
     uSpec = JObj [(''capabilityBundleRef'', JObj [(''name'', JStr ''tools'')])], uStatus = status\<rparr>"

definition ctlTyped :: SandboxAssignment where
  "ctlTyped = \<lparr>metaNamespace = ''assignments'', metaName = ''task-1'', metaGenerateName = [],
     metaUID = ''assignment-1'', metaResourceVersion = ''9'', metaGeneration = 1, metaCreationTimestamp = 0,
     metaDeletionTimestamp = None, metaLabels = Map.empty,
     metaAnnotations = [SandboxIDAnnotation \<mapsto> ''sandbox''], metaFinalizers = [], metaOwnerReferences = [],
     sasSpec = \<lparr>saTemplateRef = \<lparr>trName = [], trUID = [], trSpecRevision = []\<rparr>, saLogicalTenant = ''blue'',
       saCapabilityBundleRef = \<lparr>cbrName = ''tools'', cbrPolicyRevision = []\<rparr>\<rparr>, sasStatus = emptyAssignmentStatus\<rparr>"

definition ctlWorkload :: unstructured where
  "ctlWorkload = \<lparr>metaNamespace = ''sandboxes'', metaName = ''sandbox'', metaGenerateName = [], metaUID = ''batch-1'',
     metaResourceVersion = ''4'', metaGeneration = 1, metaCreationTimestamp = 5, metaDeletionTimestamp = None,
     metaLabels = Map.empty, metaAnnotations = [AssignmentUIDAnnotation \<mapsto> ''assignment-1''], metaFinalizers = [],
     metaOwnerReferences = [], uAPIVersion = ''sandbox.opensandbox.io/v1alpha1'', uKind = ''BatchSandbox'',
     uSpec = JObj [(''replicas'', JInt 1)], uStatus = JNull\<rparr>"

definition ctlPod :: pod where
  "ctlPod = \<lparr>metaNamespace = ''sandboxes'', metaName = ''sandbox-0'', metaGenerateName = [], metaUID = ''pod-1'',
     metaResourceVersion = ''5'', metaGeneration = 1, metaCreationTimestamp = 10,
     metaDeletionTimestamp = None, metaLabels = Map.empty,
     metaAnnotations = [AssignmentUIDAnnotation \<mapsto> ''assignment-1''], metaFinalizers = [],
     metaOwnerReferences = [\<lparr>ownerKind = ''BatchSandbox'', ownerUID = ''batch-1'', ownerController = Some True\<rparr>],
     podServiceAccountName = ''sandbox'', podAutomount = Some False,
     podRuntimeClassName = Some ''kata-clh'', podVolumes = [], podContainers = [], podIP = ''10.0.0.7'',
     podIPs = [''10.0.0.7''], podConditions = [\<lparr>pcType = ''Ready'', pcStatus = ''True''\<rparr>]\<rparr>"

definition ctlServiceAccount :: service_account where
  "ctlServiceAccount = \<lparr>metaNamespace = ''sandboxes'', metaName = ''sandbox'', metaGenerateName = [],
     metaUID = ''sa-1'', metaResourceVersion = ''2'', metaGeneration = 1, metaCreationTimestamp = 0,
     metaDeletionTimestamp = None, metaLabels = [EligibleServiceAccountLabel \<mapsto> ''true''],
     metaAnnotations = Map.empty, metaFinalizers = [], metaOwnerReferences = [], saAutomount = Some False\<rparr>"

definition missing :: "('w, 'a) call" where "missing w = (Inl (ApiStatus ReasonNotFound), w)"

text \<open>With \<open>live\<close> the workload and its Pod exist; the world counts the writes.\<close>

definition ctlClient :: "bool \<Rightarrow> (string, string, nat) kubeClient" where
  "ctlClient live = \<lparr>kcListAssignments = okw [ctlAssignment [assignmentFinalizer] JNull],
     kcUpdateAssignment = (\<lambda>_ w. (Inr (), w + 1)), kcUpdateAssignmentStatus = (\<lambda>_ w. (Inr (), w + 1)),
     kcGetTemplate = (\<lambda>_. missing), kcGetBundle = (\<lambda>_. okw ctlBundle), kcUpdateBundle = (\<lambda>_ w. (Inr (), w + 1)),
     kcListWorkloads = (\<lambda>_. okw (if live then [ctlWorkload] else [])),
     kcGetWorkload = (\<lambda>_ _. if live then okw ctlWorkload else missing), kcDeleteWorkload = (\<lambda>_ _. okw ()),
     kcGetPool = (\<lambda>_. missing), kcListPods = (\<lambda>_. okw (if live then [ctlPod] else [])),
     kcGetPod = (\<lambda>_. if live then okw ctlPod else missing), kcGetServiceAccount = (\<lambda>_. okw ctlServiceAccount),
     kcToAssignment = (\<lambda>_. Inr ctlTyped), kcToTemplate = (\<lambda>_. Inl wrongType), kcToBundle = (\<lambda>_. Inr ctlTypedBundle),
     kcCel = \<lparr>celCompile = Inr, celIsBool = (\<lambda>_. True), celProgram = Inr, celEval = (\<lambda>_ _. Inr (CelBool True))\<rparr>\<rparr>"

definition ctlConfig :: controllerConfig where
  "ctlConfig = \<lparr>ccAssignmentNamespace = ''assignments'', ccWorkloadNamespace = ''sandboxes'',
     ccAllowedRuntimeClasses = [''kata-clh''], ccEgressIdentityMode = ExternalMediatorIdentity, ccInterval = 2 * second\<rparr>"

lemmas ctl_defs = ctlBundle_def ctlTypedBundle_def ctlAssignment_def ctlTyped_def ctlWorkload_def ctlPod_def
  ctlServiceAccount_def missing_def ctlClient_def ctlConfig_def

definition ctlOutcome :: outcome where
  "ctlOutcome = WriteStatus (Some (resolvedReference ctlBundle)) (Some (workloadReference ctlWorkload))
     (Some (podReference ctlPod)) (readyConditions (ctlAssignment [assignmentFinalizer] JNull) (\<lambda>_. 0) True ExternalMediatorIdentity)"

lemma ctl_pod_stage:
  "bindPod (ctlClient True) (ctlAssignment fs st) clock resolved ctlWorkload w = (Inr ctlPod, w)"
  "checkPod (ctlClient True) ctlConfig (ctlAssignment fs st) clock resolved ctlWorkload ctlTypedBundle ctlPod w = (Inr (), w)"
  by (simp_all add: bindPod_def checkPod_def matchingPods_def poolRefOf_def ctl_defs annotation_defs Let_def bindw_def
      tryw_def checkErr_def getS_def assignmentUID_def ownedBy_def validateServiceAccountReference_def
      validateEligibleServiceAccount_def validatePodServiceAccountIsolation_def runtimeClassName_def podReady_def
      validateExternalMediatorIdentity_def identityRequired_def guardw_def strAt_def nestedString_def valueOr_def)

lemma ctl_workload_stage:
  "bindWorkload (ctlClient True) (ctlAssignment fs st) clock resolved w = (Inr ctlWorkload, w)"
  by (simp add: bindWorkload_def matchingWorkloads_def ctl_defs annotation_defs Let_def bindw_def
      tryw_def getS_def assignmentUID_def guardw_def nestedInt64_def)

lemma ctl_resolve_stage:
  "resolveTemplate (ctlClient live) object clock ctlTyped w = (Inr None, w)"
  "resolveBundle (ctlClient live) object clock ctlTyped None w = (Inr (ctlBundle, ctlTypedBundle), w)"
  by (simp_all add: resolveTemplate_def resolveBundle_def ctl_defs Let_def bindw_def tryw_def guardw_def
      validateBundlePolicy_def ValidateAllowExpression_def)

lemma ctl_reconcile:
  "reconcileDecide (ctlClient True) ctlConfig (ctlAssignment [assignmentFinalizer] JNull) (\<lambda>_. 0) w = (Inr ctlOutcome, w)"
proof -
  have "kcToAssignment (ctlClient True) (ctlAssignment [assignmentFinalizer] JNull) = Inr ctlTyped"
    "metaDeletionTimestamp (ctlAssignment [assignmentFinalizer] JNull) = None"
    "metaFinalizers (ctlAssignment [assignmentFinalizer] JNull) = [assignmentFinalizer]"
    "getS (metaAnnotations (ctlAssignment [assignmentFinalizer] JNull)) PausedAnnotation \<noteq> ''true''"
    "identityRequired ctlTypedBundle" "ccEgressIdentityMode ctlConfig = ExternalMediatorIdentity"
    by (simp_all add: ctl_defs annotation_defs getS_def identityRequired_def)
  then show ?thesis
    by (simp add: reconcileDecide_def Let_def ctl_pod_stage ctl_workload_stage ctl_resolve_stage ctlOutcome_def
        bindw_def guardw_def)
qed

lemma reconcile_ready:
  assumes "finishw (reconcileDecide client config object clock) w = (out, w')" and "claimsReady out"
  shows "\<exists>typed b typedBundle workload p.
    metaDeletionTimestamp object = None \<and> assignmentFinalizer \<in> set (metaFinalizers object) \<and>
    getS (metaAnnotations object) PausedAnnotation \<noteq> ''true'' \<and> kcToAssignment client object = Inr typed \<and>
    templateMatches client w typed b typedBundle \<and> bundleValid client w typed b typedBundle \<and>
    workloadBound client w object workload \<and>
    returns client w (matchingPods client object workload (poolRefOf workload)) [p] \<and>
    podAccepted client w config object workload typedBundle p \<and>
    out = WriteStatus (Some (resolvedReference b)) (Some (workloadReference workload)) (Some (podReference p))
      (readyConditions object clock (identityRequired typedBundle) (ccEgressIdentityMode config))"
proof -
  have "reconcileDecide client config object clock w = (Inr out, w')"
    using assms reconcileDecide_Inl_not_ready [of client config object clock w out w'] by (auto simp: flow_simps)
  then obtain typed template b typedBundle workload p w1 w2 w3 w4 w5 u where
    facts: "metaDeletionTimestamp object = None" "assignmentFinalizer \<in> set (metaFinalizers object)"
    "kcToAssignment client object = Inr typed" "getS (metaAnnotations object) PausedAnnotation \<noteq> ''true''"
    "out = WriteStatus (Some (resolvedReference b)) (Some (workloadReference workload)) (Some (podReference p))
      (readyConditions object clock (identityRequired typedBundle) (ccEgressIdentityMode config))"
    and template: "resolveTemplate client object clock typed w = (Inr template, w1)"
    and resolved: "resolveBundle client object clock typed template w1 = (Inr (b, typedBundle), w2)"
    and workload: "bindWorkload client object clock (resolvedReference b) w2 = (Inr workload, w3)"
    and p: "bindPod client object clock (resolvedReference b) workload w3 = (Inr p, w4)"
    and c: "checkPod client config object clock (resolvedReference b) workload typedBundle p w4 = (Inr u, w5)"
    by (auto simp: reconcileDecide_def Let_def flow_simps split: prod.splits)
  note l1 = withinD [OF within_stages(1) rtrancl.rtrancl_refl template]
  note l2 = withinD [OF within_stages(2) l1 resolved]
  note l3 = withinD [OF within_stages(3) l2 workload]
  note l4 = withinD [OF within_stages(4) l3 p]
  show ?thesis
    using facts resolve_stages_Inr [OF template resolved] bindWorkload_Inr [OF workload l2] bindPod_Inr [OF p l3]
      checkPod_Inr [OF c l4] by blast
qed

text \<open>
  C3: an assignment becomes Ready only when everything it promises was observed. If a pass ends in
  writing a status whose Ready condition is True, then the assignment is neither deleting nor
  paused; its template, when it names one, and its bundle exist unchanged, with the recorded UID
  and revision, are enabled, valid and of the assignment's tenant; exactly one workload with one
  replica and exactly one Pod, both fresh, are bound to this incarnation; the Pod is not the one a
  resume waits to see replaced, runs ready under an approved runtime class, without token automount
  and with an eligible service account; and its identity projection is right where the bundle has
  mediated egress. The status names that Pod, and the bundle with its UID and revision.
\<close>

theorem ready_status_sound:
  assumes "finishw (reconcileDecide client config object clock) w = (out, w')" and "claimsReady out"
  shows "\<exists>typed b typedBundle workload p.
    metaDeletionTimestamp object = None \<and> assignmentFinalizer \<in> set (metaFinalizers object) \<and>
    getS (metaAnnotations object) PausedAnnotation \<noteq> ''true'' \<and> kcToAssignment client object = Inr typed \<and>
    templateMatches client w typed b typedBundle \<and> bundleValid client w typed b typedBundle \<and>
    workloadBound client w object workload \<and>
    returns client w (matchingPods client object workload (poolRefOf workload)) [p] \<and>
    podAccepted client w config object workload typedBundle p \<and>
    out = WriteStatus (Some (resolvedReference b)) (Some (workloadReference workload)) (Some (podReference p))
      (readyConditions object clock (identityRequired typedBundle) (ccEgressIdentityMode config))"
  using assms by (rule reconcile_ready)

theorem ready_status_sound_witness:
  "\<exists>typed b typedBundle workload p.
    kcToAssignment (ctlClient True) (ctlAssignment [assignmentFinalizer] JNull) = Inr typed \<and>
    bundleValid (ctlClient True) 0 typed b typedBundle \<and>
    workloadBound (ctlClient True) 0 (ctlAssignment [assignmentFinalizer] JNull) workload \<and>
    podAccepted (ctlClient True) 0 ctlConfig (ctlAssignment [assignmentFinalizer] JNull) workload typedBundle p \<and>
    ctlOutcome = WriteStatus (Some (resolvedReference b)) (Some (workloadReference workload)) (Some (podReference p))
      (readyConditions (ctlAssignment [assignmentFinalizer] JNull) (\<lambda>_. 0) (identityRequired typedBundle)
         (ccEgressIdentityMode ctlConfig))"
proof -
  have run: "finishw (reconcileDecide (ctlClient True) ctlConfig (ctlAssignment [assignmentFinalizer] JNull) (\<lambda>_. 0)) 0
      = (ctlOutcome, 0)"
    by (simp add: finishw_def ctl_reconcile)
  have "claimsReady ctlOutcome" by (simp add: ctlOutcome_def ready_ready)
  from ready_status_sound [OF run this] show ?thesis by blast
qed

subsection \<open>A settled assignment is left alone\<close>

lemma dropTransitionTime_condition:
  "metaGeneration o1 = metaGeneration o2 \<Longrightarrow>
   dropTransitionTime (condition o1 c1 k v r m) = dropTransitionTime (condition o2 c2 k v r m)"
  by (simp add: dropTransitionTime_def condition_def)

lemma drop_conditions:
  assumes "metaGeneration o1 = metaGeneration o2"
  shows "map dropTransitionTime (readyConditions o1 c1 i mode) = map dropTransitionTime (readyConditions o2 c2 i mode)"
    "map dropTransitionTime (progressConditions o1 c1 b p i r m) = map dropTransitionTime (progressConditions o2 c2 b p i r m)"
  by (simp_all add: readyConditions_def progressConditions_def dropTransitionTime_condition [OF assms] split: prod.splits)

lemma stripTransitionTimes_newStatus:
  "stripTransitionTimes (newStatus resolved wr pr conditions) =
     newStatus resolved wr pr (map dropTransitionTime conditions)"
  by (simp add: stripTransitionTimes_def newStatus_def sliceAt_eq)

lemma updateStatus_settled:
  assumes "uStatus object = newStatus resolved wr pr conds" "map dropTransitionTime conds = map dropTransitionTime conds'"
  shows "updateStatus client object resolved wr pr conds' w = (None, w)"
  using assms
  by (simp add: updateStatus_def Let_def statusEquivalent_def stripTransitionTimes_newStatus specMap_def newStatus_def
      stripTransitionTimes_def sliceAt_eq)

text \<open>
  C38: the loop comes to rest. Once a status has been written, the next pass that reaches the same
  conclusion, at whatever later time, performs no call at all: conditions are compared without
  their transition times, and the times already stored are kept.
\<close>

theorem status_quiescent:
  assumes "uStatus object = newStatus resolved wr pr conds"
    and "(conds, conds') \<in> {(readyConditions o1 c1 i mode, readyConditions o2 c2 i mode),
                             (progressConditions o1 c1 b p ready r m, progressConditions o2 c2 b p ready r m)}"
    and "metaGeneration o1 = metaGeneration o2"
  shows "performOutcome client config object (WriteStatus resolved wr pr conds') w = (None, w)"
proof -
  have "map dropTransitionTime conds = map dropTransitionTime conds'"
    using assms(2) drop_conditions [OF assms(3)] by auto
  then show ?thesis by (simp add: performOutcome_def updateStatus_settled [OF assms(1)])
qed

theorem status_quiescent_witness:
  "performOutcome (ctlClient True) ctlConfig
     (ctlAssignment [] (newStatus None None None
        (readyConditions (ctlAssignment [] JNull) (\<lambda>_. 0) True ExternalMediatorIdentity)))
     (WriteStatus None None None (readyConditions (ctlAssignment [] JNull) (\<lambda>_. second) True ExternalMediatorIdentity)) 7 = (None, 7)"
  by (rule status_quiescent [where conds = "readyConditions (ctlAssignment [] JNull) (\<lambda>_. 0) True ExternalMediatorIdentity"
        and ?o1.0 = "ctlAssignment [] JNull" and ?o2.0 = "ctlAssignment [] JNull"
        and ?c1.0 = "\<lambda>_. 0" and ?c2.0 = "\<lambda>_. second" and i = True and mode = ExternalMediatorIdentity])
    (simp_all add: ctlAssignment_def)

subsection \<open>Finalizers\<close>

lemma within_deleteWorkloads [within_intros]: "within (kubeSteps client) (deleteWorkloads client ns names)"
proof (induction names)
  case Nil show ?case unfolding deleteWorkloads.simps by (rule within_intros)
next
  case (Cons n names) then show ?case unfolding deleteWorkloads.simps by (intro within_intros)
qed

lemma deleteWorkloads_Inr:
  "deleteWorkloads client ns names w1 = (Inr u, w') \<Longrightarrow> (w, w1) \<in> (kubeSteps client)\<^sup>* \<Longrightarrow> name \<in> set names \<Longrightarrow>
   reportsGone client w (kcGetWorkload client ns name)"
proof (induction names arbitrary: w1)
  case (Cons n names)
  from Cons.prems(1) obtain deleted w2 e w3 where del: "kcDeleteWorkload client ns n w1 = (deleted, w2)"
    and get: "kcGetWorkload client ns n w2 = (Inl e, w3)" and gone: "isNotFound e"
    and rest: "deleteWorkloads client ns names w3 = (Inr u, w')"
    by (auto simp: flow_simps)
  have l2: "(w, w2) \<in> (kubeSteps client)\<^sup>*" by (rule withinD [OF within_client(6) Cons.prems(2) del])
  have l3: "(w, w3) \<in> (kubeSteps client)\<^sup>*" by (rule withinD [OF within_client(5) l2 get])
  have "reportsGone client w (kcGetWorkload client ns n)"
    using observesI [of "kcGetWorkload client ns n", OF get l2] gone by (auto simp: observesGone_def)
  then show ?case using Cons.IH [OF rest l3] Cons.prems(3) by auto
qed simp

text \<open>
  What a finalization has to see before it lets go: with \<open>names\<close> the workloads of the assignment, every
  workload was reported missing, the recorded Pod was reported missing or has been replaced, and no
  Pod carries the UID of the assignment.
\<close>

definition finalizeTargets ::
  "('ast, 'prg, 'w) kubeClient \<Rightarrow> 'w \<Rightarrow> unstructured \<Rightarrow> string list \<Rightarrow> bool" where
  "finalizeTargets client w object names \<longleftrightarrow>
     (let recorded = strAt (uStatus object) [''workloadRef'', ''name''] in
      if recorded \<noteq> [] then names = [recorded]
      else \<exists>ws. returns client w (matchingWorkloads client object) ws \<and> names = map metaName ws)"

definition finalizeNamespace :: "controllerConfig \<Rightarrow> unstructured \<Rightarrow> string" where
  "finalizeNamespace config object =
     (let ns = strAt (uStatus object) [''workloadRef'', ''namespace'']
      in if ns = [] then ccWorkloadNamespace config else ns)"

definition sandboxGone :: "('ast, 'prg, 'w) kubeClient \<Rightarrow> 'w \<Rightarrow> controllerConfig \<Rightarrow> unstructured \<Rightarrow> bool" where
  "sandboxGone client w config object \<longleftrightarrow>
     (\<exists>names pods. finalizeTargets client w object names \<and>
        (\<forall>name \<in> set names. reportsGone client w (kcGetWorkload client (finalizeNamespace config object) name)) \<and>
        (let podName = strAt (uStatus object) [''podRef'', ''name''] in
           podName = [] \<or> reportsGone client w (kcGetPod client podName) \<or>
           (\<exists>p. returns client w (kcGetPod client podName) p \<and>
                metaUID p \<noteq> strAt (uStatus object) [''podRef'', ''uid''])) \<and>
        returns client w (kcListPods client (selectorFor object)) pods \<and>
        (\<forall>p \<in> set pods. assignmentUID (metaAnnotations p) \<noteq> metaUID object))"

lemma finalizeDecide_gone:
  fixes client :: "('ast, 'prg, 'w) kubeClient"
  assumes "finalizeDecide client config object w = (Inr u, w')"
  shows "sandboxGone client w config object"
proof -
  define ns where "ns = finalizeNamespace config object"
  define podName where "podName = strAt (uStatus object) [''podRef'', ''name'']"
  define recorded where "recorded = strAt (uStatus object) [''workloadRef'', ''name'']"
  define namesStep :: "(go_error option, 'w, string list) step" where
    "namesStep = (if recorded \<noteq> [] then retw [recorded]
       else bindw (tryw (matchingWorkloads client object) Some) (\<lambda>ws. retw (map metaName ws)))"
  define podStep :: "(go_error option, 'w, unit) step" where
    "podStep = (if podName = [] then retw ()
       else bindw (attempt (kcGetPod client podName)) (\<lambda>found.
         case found of
           Inr p \<Rightarrow> guardw (metaUID p = strAt (uStatus object) [''podRef'', ''uid'']) None
         | Inl e \<Rightarrow> guardw (\<not> isNotFound e) (Some e)))"
  from assms obtain names pods w1 w2 w3 and u1 u2 :: unit where
    names: "namesStep w = (Inr names, w1)"
    and del: "deleteWorkloads client ns names w1 = (Inr u1, w2)"
    and pod: "podStep w2 = (Inr u2, w3)"
    and pods: "kcListPods client (selectorFor object) w3 = (Inr pods, w')"
    and none: "\<not> list_ex (\<lambda>p. assignmentUID (metaAnnotations p) = metaUID object) pods"
    unfolding finalizeDecide_def Let_def ns_def finalizeNamespace_def podName_def [symmetric] recorded_def [symmetric]
      namesStep_def [symmetric] podStep_def [symmetric]
    by (simp only: bindw_Inr guardw_Inr tryw_Inr) blast
  have w1: "(w, w1) \<in> (kubeSteps client)\<^sup>*"
    by (rule withinD [of _ namesStep, OF _ rtrancl.rtrancl_refl names], unfold namesStep_def) (intro within_intros)
  have w2: "(w, w2) \<in> (kubeSteps client)\<^sup>*" by (rule withinD [OF within_deleteWorkloads w1 del])
  have w3: "(w, w3) \<in> (kubeSteps client)\<^sup>*"
    by (rule withinD [of _ podStep, OF _ w2 pod], unfold podStep_def) (intro within_intros)
  have targets: "finalizeTargets client w object names"
    using names
    by (auto simp: namesStep_def finalizeTargets_def Let_def recorded_def [symmetric] flow_simps intro: observesI0)
  have podGone: "podName = [] \<or> reportsGone client w (kcGetPod client podName) \<or>
       (\<exists>p. returns client w (kcGetPod client podName) p \<and> metaUID p \<noteq> strAt (uStatus object) [''podRef'', ''uid''])"
    using pod w2 by (auto simp: podStep_def flow_simps observesGone_def intro: observesI)
  have workloads: "\<forall>name \<in> set names. reportsGone client w (kcGetWorkload client ns name)"
    using deleteWorkloads_Inr [OF del w1] by blast
  show ?thesis
    unfolding sandboxGone_def Let_def podName_def [symmetric] ns_def [symmetric]
    using targets podGone workloads none [unfolded list_ex_iff]
      observesI [of "kcListPods client (selectorFor object)", OF pods w3] by blast
qed

text \<open>
  C4: an assignment is released only when its sandbox is gone. A finalization that runs over an
  assignment either returns before it writes anything, with the result and the world of its checks,
  or the sandbox was seen to be gone, while it ran: every workload was reported missing after its
  deletion, the recorded Pod was reported missing or has been replaced by another incarnation, and
  no Pod in the workload namespace carries the UID of the assignment. Only then is the finalizer
  taken off, and nothing else of the assignment changed.
\<close>

theorem finalizer_released_when_gone:
  assumes "finalize client config object w = (result, w')"
  shows "finalizeDecide client config object w = (Inl result, w') \<or>
    (sandboxGone client w config object \<and>
     (\<exists>w1 r w2. kcUpdateAssignment client (withoutFinalizer assignmentFinalizer object) w1 = (r, w2) \<and>
        (case r of Inl e \<Rightarrow> (result, w') = (Some e, w2) | Inr _ \<Rightarrow> (result, w') = releaseBundleIfUnused client object w2)))"
proof (cases "finalizeDecide client config object w")
  case (Pair r w1)
  show ?thesis
  proof (cases r)
    case (Inl x) with Pair assms show ?thesis by (simp add: finalize_def)
  next
    case (Inr u)
    with Pair have "sandboxGone client w config object" by (simp add: finalizeDecide_gone)
    moreover obtain r' w2 where run: "kcUpdateAssignment client (withoutFinalizer assignmentFinalizer object) w1 = (r', w2)"
      by (cases "kcUpdateAssignment client (withoutFinalizer assignmentFinalizer object) w1")
    ultimately show ?thesis using assms Pair Inr
      by (cases r') (auto simp: finalize_def callw_def intro!: exI [of _ w1])
  qed
qed

theorem finalizer_released_when_gone_witness:
  "finalize (ctlClient False) ctlConfig (ctlAssignment [assignmentFinalizer] JNull) 0 = (None, 2) \<and>
   sandboxGone (ctlClient False) 0 ctlConfig (ctlAssignment [assignmentFinalizer] JNull)"
proof -
  have decide: "finalizeDecide (ctlClient False) ctlConfig (ctlAssignment [assignmentFinalizer] JNull) 0 = (Inr (), 0)"
    by (simp add: finalizeDecide_def Let_def ctl_defs matchingWorkloads_def bindw_def guardw_def tryw_def strAt_def
        nestedString_def valueOr_def)
  have "releaseBundleIfUnused (ctlClient False) (ctlAssignment [assignmentFinalizer] JNull) 1 = (None, 2)"
    by (simp add: releaseBundleIfUnused_def releaseDecide_def ctl_defs bindw_def tryw_def callw_def)
  then have "finalize (ctlClient False) ctlConfig (ctlAssignment [assignmentFinalizer] JNull) 0 = (None, 2)"
    by (simp add: finalize_def decide callw_def) (simp add: ctlClient_def)
  then show ?thesis using finalizer_released_when_gone decide by fastforce
qed

lemma bundleInUse_False:
  "bundleInUse client uid name items = Inr False \<longleftrightarrow>
     (\<forall>item \<in> set items. \<exists>t. kcToAssignment client item = Inr t \<and>
        (metaUID item = uid \<or> cbrName (saCapabilityBundleRef (sasSpec t)) \<noteq> name))"
  by (induction items) (auto split: sum.splits)

lemma releaseDecide_unused:
  assumes "releaseDecide client object w = (Inr b, w')"
  shows "\<exists>typed items. kcToAssignment client object = Inr typed \<and> returns client w (kcListAssignments client) items \<and>
    returns client w (kcGetBundle client (cbrName (saCapabilityBundleRef (sasSpec typed)))) b \<and>
    (\<forall>item \<in> set items. metaUID item \<noteq> metaUID object \<longrightarrow>
       (\<exists>t. kcToAssignment client item = Inr t \<and>
            cbrName (saCapabilityBundleRef (sasSpec t)) \<noteq> cbrName (saCapabilityBundleRef (sasSpec typed))))"
proof -
  from assms obtain typed items w1 where typed: "kcToAssignment client object = Inr typed"
    and items: "kcListAssignments client w = (Inr items, w1)"
    and unused: "bundleInUse client (metaUID object) (cbrName (saCapabilityBundleRef (sasSpec typed))) items = Inr False"
    and b: "kcGetBundle client (cbrName (saCapabilityBundleRef (sasSpec typed))) w1 = (Inr b, w')"
    by (auto simp: releaseDecide_def flow_simps split: if_splits)
  have later: "(w, w1) \<in> (kubeSteps client)\<^sup>*" by (rule withinD [OF within_client(1) rtrancl.rtrancl_refl items])
  have "returns client w (kcListAssignments client) items" by (rule observesI0 [of "kcListAssignments client", OF items])
  moreover have "returns client w (kcGetBundle client (cbrName (saCapabilityBundleRef (sasSpec typed)))) b"
    by (rule observesI [of "kcGetBundle client (cbrName (saCapabilityBundleRef (sasSpec typed)))", OF b later])
  ultimately show ?thesis
    using typed unused [unfolded bundleInUse_False] by (intro exI [of _ typed] exI [of _ items]) blast
qed

text \<open>
  a bundle loses its protection only when nobody uses it. \<open>releaseBundleIfUnused\<close> either returns
  before it writes anything, or it saw every assignment of the namespace, could read each of them
  other than the one being released, found that each names another bundle, and then writes the
  bundle of the released assignment without the in-use finalizer and otherwise unchanged.
\<close>

theorem bundle_released_when_unused:
  assumes "releaseBundleIfUnused client object w = (result, w')"
  shows "releaseDecide client object w = (Inl result, w') \<or>
    (\<exists>typed items b w1 r. kcToAssignment client object = Inr typed \<and> returns client w (kcListAssignments client) items \<and>
      returns client w (kcGetBundle client (cbrName (saCapabilityBundleRef (sasSpec typed)))) b \<and>
      (\<forall>item \<in> set items. metaUID item \<noteq> metaUID object \<longrightarrow>
         (\<exists>t. kcToAssignment client item = Inr t \<and>
              cbrName (saCapabilityBundleRef (sasSpec t)) \<noteq> cbrName (saCapabilityBundleRef (sasSpec typed)))) \<and>
      kcUpdateBundle client (withoutFinalizer bundleFinalizer b) w1 = (r, w') \<and>
      result = (case r of Inl e \<Rightarrow> Some e | Inr _ \<Rightarrow> None))"
proof (cases "releaseDecide client object w")
  case (Pair d w1)
  show ?thesis
  proof (cases d)
    case (Inl x) with Pair assms show ?thesis by (simp add: releaseBundleIfUnused_def)
  next
    case (Inr b)
    obtain r w2 where run: "kcUpdateBundle client (withoutFinalizer bundleFinalizer b) w1 = (r, w2)"
      by (cases "kcUpdateBundle client (withoutFinalizer bundleFinalizer b) w1")
    with assms Pair Inr have "w' = w2" "result = (case r of Inl e \<Rightarrow> Some e | Inr _ \<Rightarrow> None)"
      by (cases r; simp add: releaseBundleIfUnused_def callw_def)+
    moreover have "releaseDecide client object w = (Inr b, w1)" using Pair Inr by simp
    note releaseDecide_unused [OF this]
    ultimately show ?thesis using run by metis
  qed
qed

theorem bundle_released_when_unused_witness:
  "\<exists>items b. returns (ctlClient False) 0 (kcListAssignments (ctlClient False)) items \<and>
     returns (ctlClient False) 0 (kcGetBundle (ctlClient False) ''tools'') b \<and>
     (\<forall>item \<in> set items. metaUID item \<noteq> metaUID (ctlAssignment [] JNull) \<longrightarrow>
        (\<exists>t. kcToAssignment (ctlClient False) item = Inr t \<and> cbrName (saCapabilityBundleRef (sasSpec t)) \<noteq> ''tools''))"
proof -
  have decide: "releaseDecide (ctlClient False) (ctlAssignment [] JNull) 0 = (Inr ctlBundle, 0)"
    by (simp add: releaseDecide_def ctl_defs bindw_def tryw_def)
  then have "releaseBundleIfUnused (ctlClient False) (ctlAssignment [] JNull) 0 = (None, 1)"
    by (simp add: releaseBundleIfUnused_def callw_def) (simp add: ctlClient_def)
  from bundle_released_when_unused [OF this] decide obtain typed items b where
    typed: "kcToAssignment (ctlClient False) (ctlAssignment [] JNull) = Inr typed"
    and rest: "returns (ctlClient False) 0 (kcListAssignments (ctlClient False)) items"
      "returns (ctlClient False) 0 (kcGetBundle (ctlClient False) (cbrName (saCapabilityBundleRef (sasSpec typed)))) b"
      "\<forall>item \<in> set items. metaUID item \<noteq> metaUID (ctlAssignment [] JNull) \<longrightarrow>
         (\<exists>t. kcToAssignment (ctlClient False) item = Inr t \<and>
              cbrName (saCapabilityBundleRef (sasSpec t)) \<noteq> cbrName (saCapabilityBundleRef (sasSpec typed)))"
    by auto
  have "cbrName (saCapabilityBundleRef (sasSpec typed)) = ''tools''"
    using typed by (auto simp: ctlClient_def ctlTyped_def)
  with rest show ?thesis by metis
qed

end
