(* ===== verification/GoUrl.thy ===== *)
theory GoUrl
  imports GoHttp
begin

section \<open>URL paths\<close>

text \<open>
  What the program uses of \<open>net/url\<close>: \<open>PathEscape\<close> and \<open>PathUnescape\<close> on one segment, and the path of
  \<open>ResolveReference\<close> for a reference whose path is absolute, on decoded paths.
\<close>

text \<open>\<open>shouldEscape(c, encodePathSegment)\<close> is false for these bytes.\<close>

definition pathSegmentByte :: "char \<Rightarrow> bool" where
  "pathSegmentByte c \<longleftrightarrow> isLower c \<or> isUpper c \<or> isDigit c \<or> c \<in> set ''-_.~$&+=:@''"

definition upperHexDigit :: "nat \<Rightarrow> char" where
  "upperHexDigit n = char_of (if n < 10 then 48 + n else 55 + n)"

fun PathEscape :: "string \<Rightarrow> string" where
  "PathEscape [] = []"
| "PathEscape (c # cs) =
     (if pathSegmentByte c then c # PathEscape cs
      else CHR ''%'' # upperHexDigit (of_char c div 16) # upperHexDigit (of_char c mod 16) # PathEscape cs)"

text \<open>\<open>None\<close> is the error for a percent sign that two hexadecimal digits do not follow.\<close>

fun PathUnescape :: "string \<Rightarrow> string option" where
  "PathUnescape [] = Some []"
| "PathUnescape (c # cs) =
     (if c = CHR ''%''
      then case cs of
             a # b # rest \<Rightarrow>
               if isHex a \<and> isHex b then map_option ((#) (char_of (digitVal a * 16 + digitVal b))) (PathUnescape rest) else None
           | _ \<Rightarrow> None
      else map_option ((#) c) (PathUnescape cs))"

lemma upperHexDigit_lt16:
  assumes "n < 16"
  shows "isHex (upperHexDigit n) \<and> digitVal (upperHexDigit n) = n \<and> upperHexDigit n \<noteq> CHR ''%''"
proof -
  have "\<forall>k \<in> set [0..<16]. isHex (upperHexDigit k) \<and> digitVal (upperHexDigit k) = k \<and> upperHexDigit k \<noteq> CHR ''%''"
    by code_simp
  with assms show ?thesis by simp
qed

lemma percent_escaped: "\<not> pathSegmentByte (CHR ''%'')"
  by code_simp

lemma PathUnescape_PathEscape: "PathUnescape (PathEscape s) = Some s"
proof (induction s)
  case (Cons c s)
  have "of_char c < (16 * 16 :: nat)" using nat_of_char_less_256 [of c] by simp
  then have "of_char c div 16 < (16 :: nat)" "of_char c mod 16 < (16 :: nat)" by (simp_all add: less_mult_imp_div_less)
  note hi = upperHexDigit_lt16 [OF this(1)] and lo = upperHexDigit_lt16 [OF this(2)]
  have "char_of (digitVal (upperHexDigit (of_char c div 16)) * 16 + digitVal (upperHexDigit (of_char c mod 16))) = c"
    using hi lo by (simp add: div_mult_mod_eq)
  with Cons hi lo show ?case using percent_escaped by (cases "c = CHR ''%''") auto
qed simp

lemma PathEscape_plain: "list_all pathSegmentByte s \<Longrightarrow> PathEscape s = s"
  by (induction s) auto

subsection \<open>References\<close>

text \<open>\<open>resolvePath\<close>: dot segments are removed from the path, whose segments come in order.\<close>

fun resolveSegments :: "string list \<Rightarrow> string list \<Rightarrow> string list" where
  "resolveSegments acc [] = acc"
| "resolveSegments acc (e # es) =
     (if e = ''.'' then resolveSegments acc es
      else if e = ''..'' then resolveSegments (butlast acc) es
      else resolveSegments (acc @ [e]) es)"

definition resolvePath :: "string \<Rightarrow> string" where
  "resolvePath ref =
     (let segments = splitOn (CHR ''/'') ref;
          r = ''/'' @ joinWith ''/'' (resolveSegments [] segments) @
              (if last segments \<in> {''.'', ''..''} then ''/'' else [])
      in if hasPrefix r ''//'' then tl r else r)"

lemma resolveSegments_plain:
  "\<forall>e \<in> set es. e \<noteq> ''.'' \<and> e \<noteq> ''..'' \<Longrightarrow> resolveSegments acc es = acc @ es"
  by (induction es arbitrary: acc) auto

lemma joinWith_splitOn: "joinWith [d] (splitOn d s) = s"
proof (induction s)
  case (Cons c s)
  obtain f fs where split: "splitOn d s = f # fs" by (cases "splitOn d s") auto
  with Cons show ?case by (cases fs) auto
qed simp

lemma resolvePath_plain:
  assumes "\<forall>e \<in> set (splitOn (CHR ''/'') p). e \<noteq> ''.'' \<and> e \<noteq> ''..''" and "hasPrefix p ''/''"
  shows "resolvePath p = p"
proof -
  have "last (splitOn (CHR ''/'') p) \<in> set (splitOn (CHR ''/'') p)" by simp
  with assms(1) have "last (splitOn (CHR ''/'') p) \<notin> {''.'', ''..''}" by blast
  moreover have "resolveSegments [] (splitOn (CHR ''/'') p) = splitOn (CHR ''/'') p"
    using resolveSegments_plain [OF assms(1)] by simp
  ultimately show ?thesis using assms(2) joinWith_splitOn [of "CHR ''/''" p]
    by (cases p) (auto simp: resolvePath_def Let_def hasPrefix_def)
qed

end
