(* ===== verification/GoWeb.thy ===== *)
theory GoWeb
  imports GoHttp GoUrl GoJson GoCalendar
begin

section \<open>Forms, cookies and redirects\<close>

text \<open>
  What the web console uses of the standard library beside \<open>GoHttp\<close>: \<open>strings.Contains\<close> and
  \<open>strings.Fields\<close>, the parsers of \<open>strconv\<close>, \<open>encoding/base64\<close>, \<open>url.ParseQuery\<close>, the cookies and
  redirects of \<open>net/http\<close> and the text of a \<open>time.Duration\<close>. A form is a list of names with their
  values, each name once.
\<close>

subsection \<open>Strings\<close>

fun containsStr :: "string \<Rightarrow> string \<Rightarrow> bool" where
  "containsStr [] t \<longleftrightarrow> t = []"
| "containsStr (c # s) t \<longleftrightarrow> hasPrefix (c # s) t \<or> containsStr s t"

text \<open>\<open>strings.Cut\<close> with a separator of several bytes.\<close>

fun cutString :: "string \<Rightarrow> string \<Rightarrow> (string \<times> string) option" where
  "cutString sep [] = (if sep = [] then Some ([], []) else None)"
| "cutString sep (c # s) =
     (if hasPrefix (c # s) sep then Some ([], drop (length sep) (c # s))
      else map_option (\<lambda>(front, after). (c # front, after)) (cutString sep s))"

text \<open>\<open>strings.FieldsFunc\<close> for a predicate on ASCII bytes: the pieces between runs of separators.\<close>

fun fieldsBy :: "(char \<Rightarrow> bool) \<Rightarrow> string \<Rightarrow> string list" where
  "fieldsBy sep [] = []"
| "fieldsBy sep (c # s) =
     (if sep c then fieldsBy sep s
      else case s of
             [] \<Rightarrow> [[c]]
           | d # _ \<Rightarrow> if sep d then [c] # fieldsBy sep s
                     else case fieldsBy sep s of [] \<Rightarrow> [[c]] | f # fs \<Rightarrow> (c # f) # fs)"

subsection \<open>Numbers\<close>

definition readInt :: "string \<Rightarrow> int" where
  "readInt s = foldl (\<lambda>acc c. acc * 10 + int (digitVal c)) 0 s"

text \<open>\<open>strconv.ParseInt(s, 10, bits)\<close>; \<open>strconv.Atoi\<close> is the case of 64 bits.\<close>

definition parseInt :: "nat \<Rightarrow> string \<Rightarrow> int option" where
  "parseInt bits s =
     (let signed = s \<noteq> [] \<and> hd s \<in> {CHR ''+'', CHR ''-''};
          digits = (if signed then tl s else s)
      in if digits = [] \<or> \<not> list_all isDigit digits then None
         else
           let value = (if s \<noteq> [] \<and> hd s = CHR ''-'' then - readInt digits else readInt digits)
           in if - (2 ^ (bits - 1)) \<le> value \<and> value < 2 ^ (bits - 1) then Some value else None)"

lemma parseInt_range:
  assumes "parseInt bits s = Some v"
  shows "- (2 ^ (bits - 1)) \<le> v" "v < 2 ^ (bits - 1)"
  using assms by (auto simp: parseInt_def Let_def split: if_splits)

text \<open>\<open>strconv.ParseBool\<close> and \<open>FormatBool\<close>.\<close>

definition parseBool :: "string \<Rightarrow> bool option" where
  "parseBool s =
     (if s \<in> {''1'', ''t'', ''T'', ''TRUE'', ''true'', ''True''} then Some True
      else if s \<in> {''0'', ''f'', ''F'', ''FALSE'', ''false'', ''False''} then Some False else None)"

definition formatBool :: "bool \<Rightarrow> string" where
  "formatBool b = (if b then ''true'' else ''false'')"

text \<open>An \<open>int64\<close> result: the product of two integers as the machine computes it.\<close>

definition wrap64 :: "int \<Rightarrow> int" where
  "wrap64 i = (i + 2 ^ 63) mod 2 ^ 64 - 2 ^ 63"

lemma wrap64_id: "- (2 ^ 63) \<le> i \<Longrightarrow> i < 2 ^ 63 \<Longrightarrow> wrap64 i = i"
  by (simp add: wrap64_def)

lemma wrap64_range: "- (2 ^ 63) \<le> wrap64 i" "wrap64 i < 2 ^ 63"
proof -
  have "0 \<le> (i + 2 ^ 63) mod 2 ^ 64 \<and> (i + 2 ^ 63) mod 2 ^ 64 < (2 ^ 64 :: int)" by simp
  then show "- (2 ^ 63) \<le> wrap64 i" "wrap64 i < 2 ^ 63" by (auto simp: wrap64_def)
qed

text \<open>\<open>Duration.String\<close>.\<close>

definition trimZeros :: "string \<Rightarrow> string" where
  "trimZeros s = rev (dropWhile (\<lambda>c. c = CHR ''0'') (rev s))"

definition withFraction :: "nat \<Rightarrow> int \<Rightarrow> string" where
  "withFraction digits u =
     (let unit = 10 ^ digits; fraction = trimZeros (padDec digits (u mod unit))
      in showDec (nat (u div unit)) @ (if fraction = [] then [] else CHR ''.'' # fraction))"

definition positiveDuration :: "int \<Rightarrow> string" where
  "positiveDuration u =
     (if u = 0 then ''0s''
      else if u < 1000 then showDec (nat u) @ ''ns''
      else if u < 1000000 then withFraction 3 u @ [CHR 0xC2, CHR 0xB5] @ ''s''
      else if u < second then withFraction 6 u @ ''ms''
      else
        let secs = u div second; mins = secs div 60; hours = mins div 60
        in (if hours > 0 then showDec (nat hours) @ ''h'' else []) @
           (if mins > 0 then showDec (nat (mins mod 60)) @ ''m'' else []) @
           withFraction 9 (u mod (60 * second)) @ ''s'')"

definition durationString :: "int \<Rightarrow> string" where
  "durationString d = (if d < 0 then CHR ''-'' # positiveDuration (- d) else positiveDuration d)"

subsection \<open>Base64\<close>

definition b64Char :: "bool \<Rightarrow> nat \<Rightarrow> char" where
  "b64Char url n =
     (if n < 26 then char_of (65 + n) else if n < 52 then char_of (71 + n) else if n < 62 then char_of (n - 4)
      else if n = 62 then (if url then CHR ''-'' else CHR ''+'') else (if url then CHR ''_'' else CHR ''/''))"

text \<open>\<open>RawURLEncoding\<close> is the case \<open>b64Encode True []\<close>, \<open>StdEncoding\<close> \<open>b64Encode False ''=''\<close>.\<close>

fun b64Encode :: "bool \<Rightarrow> string \<Rightarrow> string \<Rightarrow> string" where
  "b64Encode url pad [] = []"
| "b64Encode url pad [a] =
     (let x = of_char a in [b64Char url (x div 4), b64Char url (x mod 4 * 16)] @ pad @ pad)"
| "b64Encode url pad [a, b] =
     (let x = of_char a; y = of_char b
      in [b64Char url (x div 4), b64Char url (x mod 4 * 16 + y div 16), b64Char url (y mod 16 * 4)] @ pad)"
| "b64Encode url pad (a # b # c # s) =
     (let x = of_char a; y = of_char b; z = of_char c
      in [b64Char url (x div 4), b64Char url (x mod 4 * 16 + y div 16), b64Char url (y mod 16 * 4 + z div 64),
          b64Char url (z mod 64)] @ b64Encode url pad s)"

definition b64Val :: "char \<Rightarrow> nat option" where
  "b64Val c =
     (if isUpper c then Some (of_char c - 65) else if isLower c then Some (of_char c - 71)
      else if isDigit c then Some (of_char c + 4) else if c = CHR ''+'' then Some 62
      else if c = CHR ''/'' then Some 63 else None)"

fun b64Quads :: "string \<Rightarrow> string option" where
  "b64Quads [] = Some []"
| "b64Quads (a # b # c # d # s) =
     (case (b64Val a, b64Val b) of
        (Some p, Some q) \<Rightarrow>
          (let x = char_of (p * 4 + q div 16) in
           if d = CHR ''='' then
             (if s \<noteq> [] then None
              else if c = CHR ''='' then Some [x]
              else map_option (\<lambda>r. [x, char_of (q mod 16 * 16 + r div 4)]) (b64Val c))
           else
             (case (b64Val c, b64Val d, b64Quads s) of
                (Some r, Some t, Some rest) \<Rightarrow> Some (x # char_of (q mod 16 * 16 + r div 4) # char_of (r mod 4 * 64 + t) # rest)
              | _ \<Rightarrow> None))
      | _ \<Rightarrow> None)"
| "b64Quads _ = None"

text \<open>\<open>StdEncoding.DecodeString\<close> skips line ends.\<close>

definition b64Decode :: "string \<Rightarrow> string option" where
  "b64Decode s = b64Quads (filter (\<lambda>c. c \<noteq> CHR 0x0A \<and> c \<noteq> CHR 0x0D) s)"

lemma b64_table: "list_all (\<lambda>n. b64Val (b64Char False n) = Some n \<and> b64Char False n \<notin> {CHR ''='', CHR 0x0A, CHR 0x0D}) [0..<64]"
  by code_simp

lemma b64_char [simp]:
  assumes "n < 64"
  shows "b64Val (b64Char False n) = Some n" "b64Char False n \<noteq> CHR ''=''" "b64Char False n \<noteq> CHR 0x0A" "b64Char False n \<noteq> CHR 0x0D"
  using b64_table assms by (auto simp: list_all_iff)

lemma b64_byte: "of_char (c :: char) < (256 :: nat)"
  using of_char_mod_256 [of c] by (metis mod_less_divisor zero_less_numeral)

lemma b64_bits [simp]:
  fixes x y :: nat
  assumes "x < 256"
  shows "x div 4 < 64" "x mod 4 * 16 < 64" "x mod 16 * 4 < 64" "x mod 64 < 64"
    "y < 256 \<Longrightarrow> x mod 4 * 16 + y div 16 < 64" "y < 256 \<Longrightarrow> x mod 16 * 4 + y div 64 < 64"
    "x div 16 div 16 = 0" "x div 64 div 4 = 0" "x div 16 mod 16 = x div 16" "x div 64 mod 4 = x div 64"
proof -
  have half: "y div 16 < 16" "y div 64 < 4" if "y < 256" using that by auto
  have "x div 16 < 16" "x div 64 < 4" using assms by auto
  then show "x div 4 < 64" "x mod 4 * 16 < 64" "x mod 16 * 4 < 64" "x mod 64 < 64"
    "y < 256 \<Longrightarrow> x mod 4 * 16 + y div 16 < 64" "y < 256 \<Longrightarrow> x mod 16 * 4 + y div 64 < 64"
    "x div 16 div 16 = 0" "x div 64 div 4 = 0" "x div 16 mod 16 = x div 16" "x div 64 mod 4 = x div 64"
    using assms half by simp_all
qed

text \<open>Decoding inverts encoding.\<close>

lemma b64_roundtrip: "b64Decode (b64Encode False ''='' s) = Some s"
  unfolding b64Decode_def
  by (induction "False" "''=''" s rule: b64Encode.induct) (simp_all add: Let_def b64_byte)

subsection \<open>Queries\<close>

definition queryByte :: "char \<Rightarrow> bool" where
  "queryByte c \<longleftrightarrow> isLower c \<or> isUpper c \<or> isDigit c \<or> c \<in> set ''-_.~''"

definition queryEscapeByte :: "char \<Rightarrow> string" where
  "queryEscapeByte c =
     (if queryByte c then [c] else if c = CHR '' '' then ''+''
      else [CHR ''%'', upperHexDigit (of_char c div 16), upperHexDigit (of_char c mod 16)])"

definition QueryEscape :: "string \<Rightarrow> string" where
  "QueryEscape s = concat (map queryEscapeByte s)"

fun QueryUnescape :: "string \<Rightarrow> string option" where
  "QueryUnescape [] = Some []"
| "QueryUnescape (c # s) =
     (if c = CHR ''%'' then
        (case s of
           a # b # t \<Rightarrow>
             if isHex a \<and> isHex b then map_option ((#) (char_of (digitVal a * 16 + digitVal b))) (QueryUnescape t) else None
         | _ \<Rightarrow> None)
      else map_option ((#) (if c = CHR ''+'' then CHR '' '' else c)) (QueryUnescape s))"

type_synonym form = "(string \<times> string list) list"

definition formValues :: "form \<Rightarrow> string \<Rightarrow> string list" where
  "formValues f name = (case map_of f name of None \<Rightarrow> [] | Some vs \<Rightarrow> vs)"

definition formGet :: "form \<Rightarrow> string \<Rightarrow> string" where
  "formGet f name = (case formValues f name of [] \<Rightarrow> [] | v # _ \<Rightarrow> v)"

fun formAdd :: "form \<Rightarrow> string \<Rightarrow> string \<Rightarrow> form" where
  "formAdd [] name value = [(name, [value])]"
| "formAdd ((n, vs) # f) name value = (if n = name then (n, vs @ [value]) # f else (n, vs) # formAdd f name value)"

text \<open>\<open>url.ParseQuery\<close>: any malformed pair is an error.\<close>

definition parsePair :: "string \<Rightarrow> (string \<times> string) option option" where
  "parsePair pair =
     (if CHR '';'' \<in> set pair then None
      else if pair = [] then Some None
      else case cutAt (CHR ''='') pair of (key, value, _) \<Rightarrow>
             (case (QueryUnescape key, QueryUnescape value) of (Some k, Some v) \<Rightarrow> Some (Some (k, v)) | _ \<Rightarrow> None))"

definition ParseQuery :: "string \<Rightarrow> form option" where
  "ParseQuery query =
     (let pairs = map parsePair (splitOn (CHR ''&'') query)
      in if None \<in> set pairs then None
         else Some (foldl (\<lambda>f p. case p of Some (Some (k, v)) \<Rightarrow> formAdd f k v | _ \<Rightarrow> f) [] pairs))"

lemma formValues_add [simp]:
  "formValues (formAdd f n v) m = (if m = n then formValues f n @ [v] else formValues f m)"
  by (induction f n v rule: formAdd.induct) (auto simp: formValues_def split: option.splits)

lemma formAdd_names: "fst ` set (formAdd f n v) = insert n (fst ` set f)"
  by (induction f n v rule: formAdd.induct) auto

lemma formAdd_distinct: "distinct (map fst f) \<Longrightarrow> distinct (map fst (formAdd f n v))"
proof (induction f n v rule: formAdd.induct)
  case (2 n vs f name v)
  then show ?case using formAdd_names [of f name v] by (auto simp: image_iff)
qed simp

text \<open>Every form of \<open>ParseQuery\<close> has each name once.\<close>

lemma ParseQuery_distinct:
  assumes "ParseQuery query = Some f"
  shows "distinct (map fst f)"
proof -
  have "distinct (map fst (foldl (\<lambda>f p. case p of Some (Some (k, v)) \<Rightarrow> formAdd f k v | _ \<Rightarrow> f) f0 pairs))"
    if "distinct (map fst f0)" for f0 and pairs :: "(string \<times> string) option option list"
    using that by (induction pairs arbitrary: f0) (auto simp: formAdd_distinct split: option.splits)
  then show ?thesis using assms by (auto simp: ParseQuery_def Let_def split: if_splits)
qed

text \<open>
  \<open>Request.ParseForm\<close> of a POST request. \<open>media\<close> is what \<open>mime.ParseMediaType\<close> makes of the content
  type: the type and whether there was no error. \<open>limit\<close> is the size at which reading the body
  fails. The form has the values of the body first, then those of the query.
\<close>

definition postForm :: "string \<times> bool \<Rightarrow> nat \<Rightarrow> 'a request_scheme \<Rightarrow> go_error + form" where
  "postForm media limit r =
     (case (if fst media = ''application/x-www-form-urlencoded''
            then seqf (readBody r limit) (\<lambda>body. case ParseQuery body of None \<Rightarrow> Inl (ErrNew ''invalid query'') | Some f \<Rightarrow> Inr f)
            else Inr []) of
        Inl e \<Rightarrow> Inl e
      | Inr f \<Rightarrow> if snd media then Inr f else Inl (ErrNew ''mime: invalid media parameter''))"

definition requestForm :: "string \<times> bool \<Rightarrow> nat \<Rightarrow> string \<Rightarrow> 'a request_scheme \<Rightarrow> go_error + form" where
  "requestForm media limit rawQuery r =
     seqf (postForm media limit r) (\<lambda>post.
       case ParseQuery rawQuery of
         None \<Rightarrow> Inl (ErrNew ''invalid query'')
       | Some query \<Rightarrow> Inr (foldl (\<lambda>f (name, vs). foldl (\<lambda>f v. formAdd f name v) f vs) post query))"

lemma postForm_distinct: "postForm media limit r = Inr f \<Longrightarrow> distinct (map fst f)"
  by (auto simp: postForm_def flow_simps dest: ParseQuery_distinct split: if_splits)

subsection \<open>Cookies\<close>

definition trimBlank :: "string \<Rightarrow> string" where
  "trimBlank s = (let blank = (\<lambda>c. c = CHR '' '' \<or> c = CHR 0x09 \<or> c = CHR 0x0A \<or> c = CHR 0x0D)
     in rev (dropWhile blank (rev (dropWhile blank s))))"

definition cookieByte :: "char \<Rightarrow> bool" where
  "cookieByte c \<longleftrightarrow> byteIn 0x20 0x7E c \<and> c \<notin> {CHR 0x22, CHR '';'', CHR 0x5C}"

definition cookieValue :: "string \<Rightarrow> string option" where
  "cookieValue raw =
     (let v = (if 1 < length raw \<and> hd raw = CHR 0x22 \<and> last raw = CHR 0x22 then butlast (tl raw) else raw)
      in if list_all cookieByte v then Some v else None)"

definition cookiePart :: "string \<Rightarrow> string \<Rightarrow> string option" where
  "cookiePart name part =
     (case cutAt (CHR ''='') (trimBlank part) of (n, v, _) \<Rightarrow> if trimBlank n = name then cookieValue v else None)"

text \<open>\<open>Request.Cookie\<close> for a name that is a token: the first valid cookie of that name.\<close>

definition requestCookie :: "header \<Rightarrow> string \<Rightarrow> string option" where
  "requestCookie h name =
     (let lines = (case map_of h ''Cookie'' of None \<Rightarrow> [] | Some ls \<Rightarrow> ls);
          found = List.map_filter (cookiePart name) (concat (map (\<lambda>line. splitOn (CHR '';'') line) lines))
      in case found of [] \<Rightarrow> None | v # _ \<Rightarrow> Some v)"

text \<open>
  A cookie that a handler sets, with the fields that the code uses, and its text in the header
  \<open>Set-Cookie\<close>. The zero time is not written; an age below zero removes the cookie at once.
\<close>

record cookie =
  ckName :: string
  ckValue :: string
  ckPath :: string
  ckExpires :: time
  ckMaxAge :: int
  ckHttpOnly :: bool
  ckSecure :: bool
  ckSameSiteLax :: bool

definition weekdayNames :: "string list" where
  "weekdayNames = [''Sun'', ''Mon'', ''Tue'', ''Wed'', ''Thu'', ''Fri'', ''Sat'']"

definition monthNames :: "string list" where
  "monthNames = [''Jan'', ''Feb'', ''Mar'', ''Apr'', ''May'', ''Jun'', ''Jul'', ''Aug'', ''Sep'', ''Oct'', ''Nov'', ''Dec'']"

definition formatCookieTime :: "time \<Rightarrow> string" where
  "formatCookieTime t =
     (let secs = t div second; days = secs div 86400; (y, m, d) = civilFromDays days; r = secs mod 86400
      in weekdayNames ! nat ((days + 4) mod 7) @ '', '' @ padDec 2 d @ '' '' @ monthNames ! nat (m - 1) @ '' '' @ padDec 4 y @ '' '' @
         padDec 2 (r div 3600) @ '':'' @ padDec 2 (r div 60 mod 60) @ '':'' @ padDec 2 (r mod 60) @ '' GMT'')"

definition cookieExpires :: "time \<Rightarrow> bool" where
  "cookieExpires t \<longleftrightarrow> (case civilFromDays (t div second div 86400) of (y, _, _) \<Rightarrow> 1601 \<le> y)"

definition formatCookie :: "cookie \<Rightarrow> string" where
  "formatCookie c =
     ckName c @ ''='' @ ckValue c @
     (if ckPath c = [] then [] else ''; Path='' @ filter (\<lambda>b. byteIn 0x20 0x7E b \<and> b \<noteq> CHR '';'') (ckPath c)) @
     (if cookieExpires (ckExpires c) then ''; Expires='' @ formatCookieTime (ckExpires c) else []) @
     (if ckMaxAge c > 0 then ''; Max-Age='' @ showInt (ckMaxAge c) else if ckMaxAge c < 0 then ''; Max-Age=0'' else []) @
     (if ckHttpOnly c then ''; HttpOnly'' else []) @ (if ckSecure c then ''; Secure'' else []) @
     (if ckSameSiteLax c then ''; SameSite=Lax'' else [])"

text \<open>\<open>http.SetCookie\<close> for a value without spaces and commas, as the values of the program are.\<close>

definition setCookie :: "header \<Rightarrow> cookie \<Rightarrow> header" where
  "setCookie h c = headerAdd h ''Set-Cookie'' (formatCookie c)"

subsection \<open>Redirects\<close>

definition cleanStep :: "string list \<Rightarrow> string \<Rightarrow> string list" where
  "cleanStep kept seg = (if seg \<in> {[], ''.''} then kept else if seg = ''..'' then butlast kept else kept @ [seg])"

text \<open>\<open>path.Clean\<close> of a rooted path.\<close>

definition cleanRooted :: "string \<Rightarrow> string" where
  "cleanRooted p = CHR ''/'' # joinWith ''/'' (foldl cleanStep [] (splitOn (CHR ''/'') p))"

definition escapeNonASCII :: "string \<Rightarrow> string" where
  "escapeNonASCII s = concat (map (\<lambda>c. if byteIn 0 127 c then [c] else CHR ''%'' # hex2 c) s)"

definition htmlEscapeByte :: "char \<Rightarrow> string" where
  "htmlEscapeByte c =
     (if c = CHR ''&'' then ''&amp;'' else if c = CHR ''<'' then ''&lt;'' else if c = CHR ''>'' then ''&gt;''
      else if c = CHR 0x22 then ''&#34;'' else if c = CHR 0x27 then ''&#39;'' else [c])"

text \<open>\<open>http.Redirect\<close> to a rooted URL with the status 303.\<close>

definition redirectTarget :: "string \<Rightarrow> string" where
  "redirectTarget url =
     (case cutAt (CHR ''?'') url of (path, query, hasQuery) \<Rightarrow>
        let cleaned = cleanRooted path
        in (if hasSuffix path ''/'' \<and> \<not> hasSuffix cleaned ''/'' then cleaned @ ''/'' else cleaned) @
           (if hasQuery then CHR ''?'' # query else []))"

definition httpRedirect :: "string \<Rightarrow> string \<Rightarrow> response" where
  "httpRedirect verb url =
     (let target = escapeNonASCII (redirectTarget url)
      in \<lparr>rspStatus = 303,
          rspHeaders = (''Location'', [target]) # (if verb \<in> {''GET'', ''HEAD''} then [(''Content-Type'', [''text/html; charset=utf-8''])] else []),
          rspBody = (if verb = ''GET'' then ''<a href='' @ [CHR 0x22] @ concat (map htmlEscapeByte (redirectTarget url)) @ [CHR 0x22] @
                       ''>See Other</a>.'' @ [CHR 0x0A, CHR 0x0A] else [])\<rparr>)"

lemma httpRedirect_status [simp]: "rspStatus (httpRedirect m url) = 303"
  by (simp add: httpRedirect_def Let_def)

end
