(* ===== verification/GoUri.thy ===== *)
theory GoUri
  imports GoWeb GoNet
begin

section \<open>URLs, quoting and fields\<close>

text \<open>
  What the administration forms use of the standard library beside \<open>GoWeb\<close>: \<open>strings.Fields\<close>, the verb
  \<open>%q\<close> of \<open>fmt\<close>, \<open>regexp.QuoteMeta\<close> with the texts that a quoted pattern matches, and \<open>url.Parse\<close> and \<open>url.ParseRequestURI\<close> of Go 1.26 with \<open>EscapedPath\<close> and
  \<open>Port\<close>. A parse error is \<open>None\<close>: no caller looks at it.
\<close>

subsection \<open>Fields\<close>

text \<open>The length of the white space rune at the front, 0 when there is none.\<close>

definition spaceLen :: "string \<Rightarrow> nat" where
  "spaceLen s =
     (case s of
        a # b # c # _ \<Rightarrow> if asciiSpace a then 1 else if space2 a b then 2 else if space3 a b c then 3 else 0
      | [a, b] \<Rightarrow> if asciiSpace a then 1 else if space2 a b then 2 else 0
      | [a] \<Rightarrow> if asciiSpace a then 1 else 0
      | [] \<Rightarrow> 0)"

function splitFields :: "string \<Rightarrow> string \<Rightarrow> string list" where
  "splitFields cur [] = (if cur = [] then [] else [rev cur])"
| "splitFields cur (c # s) =
     (let n = spaceLen (c # s)
      in if n = 0 then splitFields (c # cur) s
         else (if cur = [] then [] else [rev cur]) @ splitFields [] (drop (n - 1) s))"
  by pat_completeness auto

termination
  by (relation "measure (\<lambda>(_, s). length s)") auto

definition stringFields :: "string \<Rightarrow> string list" where
  "stringFields s = splitFields [] s"

subsection \<open>Quoting\<close>

text \<open>\<open>strconv.Quote\<close>, which \<open>%q\<close> prints, on ASCII text.\<close>

definition quoteByte :: "char \<Rightarrow> string" where
  "quoteByte c =
     (if c = CHR 0x22 \<or> c = CHR 0x5C then [CHR 0x5C, c]
      else if c = CHR 0x07 then [CHR 0x5C, CHR ''a''] else if c = CHR 0x08 then [CHR 0x5C, CHR ''b'']
      else if c = CHR 0x0C then [CHR 0x5C, CHR ''f''] else if c = CHR 0x0A then [CHR 0x5C, CHR ''n'']
      else if c = CHR 0x0D then [CHR 0x5C, CHR ''r''] else if c = CHR 0x09 then [CHR 0x5C, CHR ''t'']
      else if c = CHR 0x0B then [CHR 0x5C, CHR ''v'']
      else if asciiControl c then [CHR 0x5C, CHR ''x''] @ hex2 c else [c])"

definition quoted :: "string \<Rightarrow> string" where
  "quoted s = [CHR 0x22] @ concat (map quoteByte s) @ [CHR 0x22]"

definition metaByte :: "char \<Rightarrow> bool" where
  "metaByte c \<longleftrightarrow> c = CHR 0x5C \<or> c \<in> set ''.+*?()|[]{}^$''"

definition QuoteMeta :: "string \<Rightarrow> string" where
  "QuoteMeta s = concat (map (\<lambda>c. if metaByte c then [CHR 0x5C, c] else [c]) s)"

subsection \<open>Regular expressions\<close>

text \<open>
  The language of a pattern of \<open>regexp\<close>, for the anchored patterns that are a sequence of single bytes: a literal, a backslash with
  the punctuation it makes literal, or the dot (any byte but a newline), each with an optional operator \<open>*\<close>, \<open>+\<close> or \<open>?\<close>. A dollar
  sign ends the pattern at the end of the text. A pattern outside this fragment (a class, a group, an alternative, a pattern without
  an anchor) is read as \<open>None\<close> and matches nothing here, so that a statement about the texts that a pattern matches
  does not hold by accident of a pattern that was not understood.
\<close>

datatype quantifier = Once | AtMostOne | AnyNumber | AtLeastOne

fun readAtom :: "string \<Rightarrow> ((char \<Rightarrow> bool) \<times> string) option" where
  "readAtom [] = None"
| "readAtom (c # s) =
     (if c = CHR 0x5C then
        (case s of [] \<Rightarrow> None | d # t \<Rightarrow> if of_char d < (128 :: nat) \<and> \<not> (isLower d \<or> isUpper d \<or> isDigit d) then Some ((=) d, t) else None)
      else if c = CHR ''.'' then Some (\<lambda>d. d \<noteq> CHR 0x0A, s)
      else if c \<in> set ''+*?()|[]{}^$'' then None
      else Some ((=) c, s))"

definition quantifierOf :: "string \<Rightarrow> quantifier \<times> string" where
  "quantifierOf s =
     (case s of [] \<Rightarrow> (Once, s)
      | c # t \<Rightarrow> if c = CHR ''*'' then (AnyNumber, t) else if c = CHR ''+'' then (AtLeastOne, t)
          else if c = CHR ''?'' then (AtMostOne, t) else (Once, s))"

lemma quantifierOf_length: "length (snd (quantifierOf s)) \<le> length s"
  by (auto simp: quantifierOf_def split: list.splits)

lemma readAtom_length: "readAtom s = Some (m, t) \<Longrightarrow> length t < length s"
  by (cases s) (auto split: if_splits list.splits)

function regexAtoms :: "string \<Rightarrow> ((char \<Rightarrow> bool) \<times> quantifier) list option" where
  "regexAtoms s =
     (if s = ''$'' then Some []
      else case readAtom s of None \<Rightarrow> None
      | Some (m, t) \<Rightarrow> map_option (\<lambda>atoms. (m, fst (quantifierOf t)) # atoms) (regexAtoms (snd (quantifierOf t))))"
  by pat_completeness auto

termination
proof (relation "measure length")
  fix s x m t
  assume "readAtom s = Some x" and "(m, t) = x"
  then have "length t < length s" using readAtom_length by metis
  then show "(snd (quantifierOf t), s) \<in> measure length"
    using quantifierOf_length [of t] by simp
qed simp

declare regexAtoms.simps [simp del]

fun matchesAtoms :: "((char \<Rightarrow> bool) \<times> quantifier) list \<Rightarrow> string \<Rightarrow> bool" where
  "matchesAtoms [] s \<longleftrightarrow> s = []"
| "matchesAtoms ((m, Once) # atoms) s \<longleftrightarrow> (case s of [] \<Rightarrow> False | c # t \<Rightarrow> m c \<and> matchesAtoms atoms t)"
| "matchesAtoms ((m, AtMostOne) # atoms) s \<longleftrightarrow>
     matchesAtoms atoms s \<or> (case s of [] \<Rightarrow> False | c # t \<Rightarrow> m c \<and> matchesAtoms atoms t)"
| "matchesAtoms ((m, AnyNumber) # atoms) s \<longleftrightarrow>
     list_ex (\<lambda>n. list_all m (take n s) \<and> matchesAtoms atoms (drop n s)) [0..<Suc (length s)]"
| "matchesAtoms ((m, AtLeastOne) # atoms) s \<longleftrightarrow>
     list_ex (\<lambda>n. list_all m (take n s) \<and> matchesAtoms atoms (drop n s)) [1..<Suc (length s)]"

definition regexMatches :: "string \<Rightarrow> string \<Rightarrow> bool" where
  "regexMatches pattern s \<longleftrightarrow>
     (case pattern of [] \<Rightarrow> False
      | c # body \<Rightarrow> c = CHR ''^'' \<and> (case regexAtoms body of None \<Rightarrow> False | Some atoms \<Rightarrow> matchesAtoms atoms s))"

lemma readAtom_quoted:
  "readAtom (QuoteMeta (c # s) @ rest) = Some ((=) c, QuoteMeta s @ rest)"
  by (auto simp: QuoteMeta_def metaByte_def isLower_def isUpper_def isDigit_def byteIn_def split: list.splits)

lemma quantifierOf_quoted: "quantifierOf (QuoteMeta s @ ''$'') = (Once, QuoteMeta s @ ''$'')"
  by (cases s) (auto simp: QuoteMeta_def metaByte_def quantifierOf_def)

lemma regexAtoms_QuoteMeta: "regexAtoms (QuoteMeta s @ ''$'') = Some (map (\<lambda>c. ((=) c, Once)) s)"
proof (induction s)
  case Nil
  then show ?case by (simp add: QuoteMeta_def regexAtoms.simps)
next
  case (Cons c s)
  have "QuoteMeta (c # s) \<noteq> []" by (simp add: QuoteMeta_def)
  then have "QuoteMeta (c # s) @ ''$'' \<noteq> ''$''" by simp
  then show ?case using Cons.IH by (subst regexAtoms.simps) (simp add: readAtom_quoted quantifierOf_quoted)
qed

lemma matchesAtoms_literal: "matchesAtoms (map (\<lambda>c. ((=) c, Once)) x) s \<longleftrightarrow> s = x"
  by (induction x arbitrary: s) (auto split: list.splits)

lemma regexMatches_QuoteMeta: "regexMatches (''^'' @ QuoteMeta command @ ''$'') s \<longleftrightarrow> s = command"
  by (simp add: regexMatches_def regexAtoms_QuoteMeta matchesAtoms_literal)

lemma QuoteMeta_inject: "QuoteMeta s = QuoteMeta t \<longleftrightarrow> s = t"
  by (metis regexMatches_QuoteMeta)

subsection \<open>Parsing a URL\<close>

record url =
  urlScheme :: string
  urlUser :: bool
  urlHost :: string
  urlPath :: string
  urlRawPath :: string
  urlRawQuery :: string
  urlFragment :: string

definition emptyUrl :: url where
  "emptyUrl = \<lparr>urlScheme = [], urlUser = False, urlHost = [], urlPath = [], urlRawPath = [], urlRawQuery = [], urlFragment = []\<rparr>"

definition unreservedByte :: "char \<Rightarrow> bool" where
  "unreservedByte c \<longleftrightarrow> isLower c \<or> isUpper c \<or> isDigit c \<or> c \<in> set ''-_.~''"

text \<open>The bytes that \<open>escape\<close> keeps in a path.\<close>

definition pathByte :: "char \<Rightarrow> bool" where
  "pathByte c \<longleftrightarrow> unreservedByte c \<or> c \<in> set ''$&+,/:;=@''"

definition escapePath :: "string \<Rightarrow> string" where
  "escapePath s = concat (map (\<lambda>c. if pathByte c then [c]
     else [CHR ''%'', upperHexDigit (of_char c div 16), upperHexDigit (of_char c mod 16)]) s)"

text \<open>The bytes of an escaped path: printable, without quotes, backslash, question mark and number sign.\<close>

definition escapedByte :: "char \<Rightarrow> bool" where
  "escapedByte c \<longleftrightarrow> pathByte c \<or> c \<in> set ''!()*[]%'' \<or> c = CHR 0x27"

definition validEncodedPath :: "string \<Rightarrow> bool" where
  "validEncodedPath s \<longleftrightarrow> list_all escapedByte s"

text \<open>The bytes that stand for themselves in a host.\<close>

definition hostByte :: "char \<Rightarrow> bool" where
  "hostByte c \<longleftrightarrow> unreservedByte c \<or> c \<in> set ''!$&()*+,;=:[]<>'' \<or> c = CHR 0x27 \<or> c = CHR 0x22 \<or> byteIn 128 255 c"

text \<open>\<open>unescape\<close> of a host, and of its zone.\<close>

fun unescapeHost :: "bool \<Rightarrow> string \<Rightarrow> string option" where
  "unescapeHost inZone [] = Some []"
| "unescapeHost inZone (c # s) =
     (if c = CHR ''%'' then
        (case s of
           a # b # t \<Rightarrow>
             let v = char_of (digitVal a * 16 + digitVal b) :: char in
             if isHex a \<and> isHex b \<and>
                (v = CHR ''%'' \<or> (if inZone then v = CHR '' '' \<or> unreservedByte v \<or> v \<in> set ''!$&()*+,;=:[]<>'' \<or> v = CHR 0x27 \<or> v = CHR 0x22
                                else \<not> digitVal a < 8))
             then map_option ((#) v) (unescapeHost inZone t) else None
         | _ \<Rightarrow> None)
      else if hostByte c then map_option ((#) c) (unescapeHost inZone s) else None)"

definition validOptionalPort :: "string \<Rightarrow> bool" where
  "validOptionalPort port \<longleftrightarrow> (case port of [] \<Rightarrow> True | c # s \<Rightarrow> c = CHR '':'' \<and> list_all isDigit s)"

text \<open>An address in brackets, with its zone: what is between the brackets, decoded.\<close>

definition bracketedHost :: "string \<Rightarrow> string option" where
  "bracketedHost hostname =
     (case cutString ''%25'' hostname of
        None \<Rightarrow> unescapeHost False hostname
      | Some (front, after) \<Rightarrow>
          (case (unescapeHost False front, unescapeHost True (''%25'' @ after)) of (Some h, Some z) \<Rightarrow> Some (h @ z) | _ \<Rightarrow> None))"

definition isV4 :: "addr \<Rightarrow> bool" where
  "isV4 a \<longleftrightarrow> (case a of AddrV4 _ \<Rightarrow> True | AddrV6 _ _ \<Rightarrow> False)"

definition parseHost :: "string \<Rightarrow> string option" where
  "parseHost host =
     (if host \<noteq> [] \<and> containsChar (tl host) (CHR ''['') then None
      else if hasPrefix host ''['' then
        (case lastIndexByte (CHR '']'') host of
           None \<Rightarrow> None
         | Some i \<Rightarrow>
             let colonPort = drop (Suc i) host in
             if \<not> validOptionalPort colonPort then None
             else case bracketedHost (drop 1 (take i host)) of
                    None \<Rightarrow> None
                  | Some name \<Rightarrow>
                      (case parseAddr name of
                         None \<Rightarrow> None
                       | Some a \<Rightarrow> if isV4 a then None else Some (''['' @ name @ '']'' @ colonPort)))
      else if \<not> validOptionalPort (dropWhile (\<lambda>c. c \<noteq> CHR '':'') host) then None
      else unescapeHost False host)"

text \<open>\<open>parseAuthority\<close>; the user information only counts as present.\<close>

definition userinfoByte :: "char \<Rightarrow> bool" where
  "userinfoByte c \<longleftrightarrow> isLower c \<or> isUpper c \<or> isDigit c \<or> c \<in> set ''-._:~!$&()*+,;=%@'' \<or> c = CHR 0x27"

definition parseAuthority :: "string \<Rightarrow> (bool \<times> string) option" where
  "parseAuthority authority =
     (case lastIndexByte (CHR ''@'') authority of
        None \<Rightarrow> map_option (Pair False) (parseHost authority)
      | Some i \<Rightarrow>
          let userinfo = take i authority;
              (username, password, _) = cutAt (CHR '':'') userinfo
          in if list_all userinfoByte userinfo \<and> PathUnescape username \<noteq> None \<and> PathUnescape password \<noteq> None
             then map_option (Pair True) (parseHost (drop (Suc i) authority)) else None)"

definition schemeByte :: "char \<Rightarrow> bool" where
  "schemeByte c \<longleftrightarrow> isLower c \<or> isUpper c \<or> isDigit c \<or> c \<in> set ''+-.''"

text \<open>\<open>getScheme\<close>: the scheme, without the colon, and the rest.\<close>

definition getScheme :: "string \<Rightarrow> (string \<times> string) option" where
  "getScheme raw =
     (let scheme = takeWhile schemeByte raw; rest = dropWhile schemeByte raw
      in if raw = [] then Some ([], raw)
         else if hd raw = CHR '':'' then None
         else if scheme = [] \<or> \<not> (isLower (hd raw) \<or> isUpper (hd raw)) then Some ([], raw)
         else if rest \<noteq> [] \<and> hd rest = CHR '':'' then Some (scheme, tl rest)
         else Some ([], raw))"

definition setPath :: "string \<Rightarrow> url \<Rightarrow> url option" where
  "setPath p u =
     map_option (\<lambda>path. u\<lparr>urlPath := path, urlRawPath := (if p = escapePath path then [] else p)\<rparr>) (PathUnescape p)"

text \<open>The query is cut off at the first question mark; a lone one at the end leaves an empty query.\<close>

definition parseUrl :: "bool \<Rightarrow> string \<Rightarrow> url option" where
  "parseUrl viaRequest raw =
     (if list_ex (\<lambda>c. byteIn 0 31 c \<or> byteIn 127 127 c) raw \<or> (raw = [] \<and> viaRequest) then None
      else if raw = ''*'' then Some (emptyUrl\<lparr>urlPath := ''*''\<rparr>)
      else case getScheme raw of
             None \<Rightarrow> None
           | Some (scheme0, rest0) \<Rightarrow>
               let scheme = toLower scheme0; (rest, query, _) = cutAt (CHR ''?'') rest0;
                   u = emptyUrl\<lparr>urlScheme := scheme, urlRawQuery := query\<rparr>
               in if \<not> hasPrefix rest ''/'' \<and> scheme \<noteq> [] then Some u
                  else if \<not> hasPrefix rest ''/'' \<and> viaRequest then None
                  else if \<not> hasPrefix rest ''/'' \<and> containsChar (takeWhile (\<lambda>c. c \<noteq> CHR ''/'') rest) (CHR '':'') then None
                  else if (scheme \<noteq> [] \<or> (\<not> viaRequest \<and> \<not> hasPrefix rest ''///'')) \<and> hasPrefix rest ''//'' then
                    (let after = drop 2 rest in
                     case parseAuthority (takeWhile (\<lambda>c. c \<noteq> CHR ''/'') after) of
                       None \<Rightarrow> None
                     | Some (user, host) \<Rightarrow> setPath (dropWhile (\<lambda>c. c \<noteq> CHR ''/'') after) (u\<lparr>urlUser := user, urlHost := host\<rparr>))
                  else setPath rest u)"

definition ParseRequestURI :: "string \<Rightarrow> url option" where
  "ParseRequestURI raw = parseUrl True raw"

definition urlParse :: "string \<Rightarrow> url option" where
  "urlParse raw =
     (let (front, fragment, _) = cutAt (CHR ''#'') raw in
      case (parseUrl False front, PathUnescape fragment) of
        (Some u, Some f) \<Rightarrow> Some (u\<lparr>urlFragment := f\<rparr>)
      | _ \<Rightarrow> None)"

definition EscapedPath :: "url \<Rightarrow> string" where
  "EscapedPath u =
     (if urlRawPath u \<noteq> [] \<and> validEncodedPath (urlRawPath u) \<and> PathUnescape (urlRawPath u) = Some (urlPath u) then urlRawPath u
      else if urlPath u = ''*'' then ''*'' else escapePath (urlPath u))"

definition urlPort :: "url \<Rightarrow> string" where
  "urlPort u =
     (case lastIndexByte (CHR '':'') (urlHost u) of
        None \<Rightarrow> []
      | Some i \<Rightarrow> if validOptionalPort (drop i (urlHost u)) then drop (Suc i) (urlHost u) else [])"

subsection \<open>What an escaped path looks like\<close>

lemma escapePath_bytes: "list_all escapedByte (escapePath s)"
proof (induction s)
  case (Cons c s)
  have "list_all (\<lambda>n. escapedByte (upperHexDigit n)) [0..<16]" by code_simp
  then have "escapedByte (upperHexDigit n)" if "n < 16" for n using that by (simp add: list_all_iff)
  moreover have "of_char c div 16 < (16 :: nat)" "of_char c mod 16 < (16 :: nat)"
    using nat_of_char_less_256 [of c] by (simp_all add: less_mult_imp_div_less)
  ultimately have hex: "escapedByte (upperHexDigit (of_char c div 16))" "escapedByte (upperHexDigit (of_char c mod 16))" by auto
  have "escapedByte (CHR ''%'')" by code_simp
  with hex Cons show ?case by (auto simp: escapePath_def escapedByte_def)
qed (simp add: escapePath_def)

lemma EscapedPath_bytes: "list_all escapedByte (EscapedPath u)"
proof -
  have "list_all escapedByte ''*''" by code_simp
  then show ?thesis
    using escapePath_bytes [of "urlPath u"] by (simp add: EscapedPath_def validEncodedPath_def)
qed

text \<open>No byte below the exclamation mark, no quote, no backslash.\<close>

lemma escapedByte_code: "escapedByte c \<Longrightarrow> (33 :: nat) \<le> of_char c \<and> of_char c \<notin> {34, 92, 127 :: nat}"
  unfolding escapedByte_def pathByte_def unreservedByte_def isLower_def isUpper_def isDigit_def less_eq_char_def
  by (elim disjE conjE) auto

lemma escapedByte_quote:
  assumes "escapedByte c"
  shows "quoteByte c = [c]"
proof -
  have "\<not> asciiControl c"
    using escapedByte_code [OF assms] by (simp add: asciiControl_def byteIn_def)
  moreover have "c \<noteq> CHR 0x22" "c \<noteq> CHR 0x5C"
    using escapedByte_code [OF assms] by fastforce+
  moreover have "list_all asciiControl [CHR 0x07, CHR 0x08, CHR 0x0C, CHR 0x0A, CHR 0x0D, CHR 0x09, CHR 0x0B]"
    by code_simp
  with \<open>\<not> asciiControl c\<close> have "c \<notin> set [CHR 0x07, CHR 0x08, CHR 0x0C, CHR 0x0A, CHR 0x0D, CHR 0x09, CHR 0x0B]"
    unfolding list_all_iff by blast
  ultimately show ?thesis by (simp add: quoteByte_def)
qed

lemma quoted_escaped:
  assumes "list_all escapedByte s"
  shows "quoted s = [CHR 0x22] @ s @ [CHR 0x22]"
proof -
  have "concat (map quoteByte s) = s" using assms by (induction s) (simp_all add: escapedByte_quote)
  then show ?thesis by (simp add: quoted_def)
qed

end
