(* ===== verification/Doctor.thy ===== *)
theory Doctor
  imports Controller GoUri
begin

section \<open>The readiness doctor\<close>

text \<open>
  \<open>internal/doctor/doctor.go\<close> and the exit code of \<open>cmd/sandbox-doctor\<close>: nine checks that read the cluster and
  report whether the governed runtime is in place.

  \<open>doctorClient\<close> holds the reads. Of the objects the records keep what the checks look at; \<open>ndCPU\<close> and
  \<open>ndMemory\<close> are the allocatable quantities, \<open>pdbMinAvailable\<close> is what \<open>IntValue\<close> makes of \<open>minAvailable\<close>.
  The selectors of \<open>apimachinery\<close> are parameters: whether a requirement is well formed, and what a set of
  requirements matches.
\<close>

subsection \<open>What the doctor reads\<close>

record runtime_class =
  rcName :: string
  rcHandler :: string
  rcNodeSelector :: "(string \<times> string) list option"

record node = object_meta +
  ndUnschedulable :: bool
  ndConditions :: "pod_condition list"
  ndCPU :: int
  ndMemory :: int

record deployment =
  dpReplicas :: "int option"
  dpStrategy :: string
  dpReadyReplicas :: int
  dpContainerEnv :: "(string \<times> string) list list"

record policy_rule =
  plAPIGroups :: "string list"
  plResources :: "string list"
  plVerbs :: "string list"

record rbac_subject =
  sjKind :: string
  sjNamespace :: string
  sjName :: string

record role_binding =
  rbKind :: string
  rbName :: string
  rbSubjects :: "rbac_subject list"

record 'w doctorClient =
  drRuntimeClass :: "string \<Rightarrow> ('w, runtime_class) call"
  drNodes :: "('w, node list) call"
  drCRD :: "string \<Rightarrow> ('w, unstructured) call"
  drDeployment :: "string \<Rightarrow> string \<Rightarrow> ('w, deployment) call"
  drMinAvailable :: "string \<Rightarrow> string \<Rightarrow> ('w, int option) call"
  drRole :: "string \<Rightarrow> string \<Rightarrow> ('w, policy_rule list) call"
  drRoleBinding :: "string \<Rightarrow> string \<Rightarrow> ('w, role_binding) call"
  drClusterRole :: "string \<Rightarrow> ('w, policy_rule list) call"
  drClusterRoleBinding :: "string \<Rightarrow> ('w, role_binding) call"
  drService :: "string \<Rightarrow> string \<Rightarrow> ('w, unit) call"
  drServiceAccount :: "string \<Rightarrow> string \<Rightarrow> ('w, service_account) call"
  drTemplates :: "string \<Rightarrow> ('w, unstructured list) call"
  drBundles :: "string \<Rightarrow> ('w, unstructured list) call"
  drTenants :: "string \<Rightarrow> ('w, unstructured list) call"
  drQuotas :: "string \<Rightarrow> ('w, nat) call"
  drNetworkPolicies :: "string \<Rightarrow> ('w, string list) call"

record selectorLib =
  slRequirementOk :: "string \<Rightarrow> string \<Rightarrow> bool"
  slMatches :: "(string \<times> string) list \<Rightarrow> strmap \<Rightarrow> bool"

record doctorConfig =
  dcAssignmentNamespace :: string
  dcWorkloadNamespace :: string
  dcRuntimeClass :: string

record Check =
  chName :: string
  chStatus :: string
  chSummary :: string
  chRemediation :: string

record Report =
  rpReady :: bool
  rpChecks :: "Check list"

definition StatusPass :: string where "StatusPass = ''pass''"

definition StatusWarning :: string where "StatusWarning = ''warning''"

definition StatusFail :: string where "StatusFail = ''fail''"

definition passCheck :: "string \<Rightarrow> string \<Rightarrow> Check" where
  "passCheck name summary = \<lparr>chName = name, chStatus = StatusPass, chSummary = summary, chRemediation = []\<rparr>"

definition warningCheck :: "string \<Rightarrow> string \<Rightarrow> string \<Rightarrow> Check" where
  "warningCheck name summary remediation =
     \<lparr>chName = name, chStatus = StatusWarning, chSummary = summary, chRemediation = remediation\<rparr>"

definition failCheck :: "string \<Rightarrow> string \<Rightarrow> string \<Rightarrow> Check" where
  "failCheck name summary remediation =
     \<lparr>chName = name, chStatus = StatusFail, chSummary = summary, chRemediation = remediation\<rparr>"

definition newDoctor :: "doctorConfig \<Rightarrow> doctorConfig" where
  "newDoctor config =
     \<lparr>dcAssignmentNamespace = (if dcAssignmentNamespace config = [] then ''aks-sandbox-system'' else dcAssignmentNamespace config),
      dcWorkloadNamespace = (if dcWorkloadNamespace config = [] then ''opensandbox'' else dcWorkloadNamespace config),
      dcRuntimeClass = (if dcRuntimeClass config = [] then ''kata-optimized'' else dcRuntimeClass config)\<rparr>"

subsection \<open>Nodes and the runtime class\<close>

type_synonym 'w doctorCheck = "(Check, 'w, Check) step"

definition runtimeClassCheck :: "'w doctorClient \<Rightarrow> doctorConfig \<Rightarrow> 'w doctorCheck" where
  "runtimeClassCheck c config =
     bindw (tryw (drRuntimeClass c (dcRuntimeClass config))
       (\<lambda>_. failCheck ''kata-runtime'' (''RuntimeClass '' @ quoted (dcRuntimeClass config) @ '' is unavailable'')
         ''Install the AKS Kata runtime and verify the RuntimeClass name.'')) (\<lambda>rc.
       retw (passCheck ''kata-runtime'' (''RuntimeClass '' @ quoted (rcName rc) @ '' uses handler '' @ quoted (rcHandler rc))))"

fun nodeConditionReady :: "pod_condition list \<Rightarrow> bool" where
  "nodeConditionReady [] \<longleftrightarrow> False"
| "nodeConditionReady (cond # conditions) \<longleftrightarrow>
     (if pcType cond = ''Ready'' then pcStatus cond = ''True'' else nodeConditionReady conditions)"

definition nodeReady :: "node \<Rightarrow> bool" where
  "nodeReady node \<longleftrightarrow> nodeConditionReady (ndConditions node)"

text \<open>A class without scheduling, or with an empty selector, selects every node.\<close>

definition classSelector :: "runtime_class \<Rightarrow> (string \<times> string) list" where
  "classSelector rc = (case rcNodeSelector rc of None \<Rightarrow> [] | Some requirements \<Rightarrow> requirements)"

definition eligibleNode :: "selectorLib \<Rightarrow> runtime_class \<Rightarrow> node \<Rightarrow> bool" where
  "eligibleNode lib rc node \<longleftrightarrow>
     \<not> (ndUnschedulable node \<or> \<not> nodeReady node \<or> \<not> (classSelector rc = [] \<or> slMatches lib (classSelector rc) (metaLabels node))) \<and>
     \<not> (ndCPU node = 0 \<or> ndMemory node = 0)"

definition kataCapacity :: "'w doctorClient \<Rightarrow> selectorLib \<Rightarrow> doctorConfig \<Rightarrow> 'w doctorCheck" where
  "kataCapacity c lib config =
     bindw (tryw (drRuntimeClass c (dcRuntimeClass config))
       (\<lambda>_. failCheck ''kata-capacity'' ''Kata capacity cannot be evaluated without its RuntimeClass'' ''Install the RuntimeClass first.'')) (\<lambda>rc.
     bindw (tryw (drNodes c)
       (\<lambda>_. failCheck ''kata-capacity'' ''Nodes could not be listed'' ''Grant the doctor identity permission to list nodes.'')) (\<lambda>nodes.
     bindw (guardw (list_ex (\<lambda>(key, v). \<not> slRequirementOk lib key v) (classSelector rc))
       (failCheck ''kata-capacity'' ''RuntimeClass contains an invalid node selector'' ''Repair the RuntimeClass scheduling selector.'')) (\<lambda>_.
     let eligible = length (filter (eligibleNode lib rc) nodes) in
     bindw (guardw (eligible = 0)
       (failCheck ''kata-capacity'' ''No ready schedulable node satisfies the Kata RuntimeClass selector'' ''Scale or repair the Kata node pool.'')) (\<lambda>_.
       retw (passCheck ''kata-capacity'' (showDec eligible @ '' ready schedulable node(s) satisfy the Kata runtime contract''))))))"

subsection \<open>Custom resource definitions\<close>

definition requiredCRDs :: "string list" where
  "requiredCRDs = map (\<lambda>s. s @ ''.aks-sandbox.azure.com'') [''capabilitybundles'', ''sandboxaccessrequests'', ''sandboxassignments'',
     ''sandboxcredentialevents'', ''sandboxcredentialrevocations'', ''sandboxegressevents'', ''sandboxprincipalbindings'',
     ''sandboxtemplates'', ''sandboxtenantpolicies'', ''sandboxvalidationruns'']"

fun missingCRDs :: "'w doctorClient \<Rightarrow> string list \<Rightarrow> (Check, 'w, string list) step" where
  "missingCRDs c [] = retw []"
| "missingCRDs c (name # names) =
     bindw (attempt (drCRD c name)) (\<lambda>found.
     bindw (missingCRDs c names) (\<lambda>missing.
       retw (case found of Inl _ \<Rightarrow> name # missing | Inr _ \<Rightarrow> missing)))"

definition governanceCRDs :: "'w doctorClient \<Rightarrow> 'w doctorCheck" where
  "governanceCRDs c =
     bindw (missingCRDs c requiredCRDs) (\<lambda>missing.
     bindw (guardw (missing \<noteq> []) (failCheck ''governance-crds'' (''Missing CRDs: '' @ joinWith '', '' missing)
       ''Apply deploy/governance/k8s/crds.yaml.'')) (\<lambda>_.
       retw (passCheck ''governance-crds'' (''All '' @ showDec (length requiredCRDs) @ '' required governance CRDs are installed''))))"

subsection \<open>The assignment service\<close>

definition containsOrAny :: "string list \<Rightarrow> string \<Rightarrow> bool" where
  "containsOrAny values wanted \<longleftrightarrow> list_ex (\<lambda>v. v = wanted \<or> v = ''*'') values"

fun roleAllows :: "policy_rule list \<Rightarrow> string \<Rightarrow> string \<Rightarrow> string list \<Rightarrow> bool" where
  "roleAllows [] apiGroup resource verbs \<longleftrightarrow> False"
| "roleAllows (rule # rules) apiGroup resource verbs \<longleftrightarrow>
     (if \<not> containsOrAny (plAPIGroups rule) apiGroup \<or> \<not> containsOrAny (plResources rule) resource
      then roleAllows rules apiGroup resource verbs
      else list_all (containsOrAny (plVerbs rule)) verbs)"

definition hasServiceAccountSubject :: "rbac_subject list \<Rightarrow> string \<Rightarrow> string \<Rightarrow> bool" where
  "hasServiceAccountSubject subjects namespace name \<longleftrightarrow>
     list_ex (\<lambda>s. sjKind s = ''ServiceAccount'' \<and> sjNamespace s = namespace \<and> sjName s = name) subjects"

fun containerEnv :: "(string \<times> string) list \<Rightarrow> string \<Rightarrow> string option" where
  "containerEnv [] name = None"
| "containerEnv ((key, v) # env) name = (if key = name then Some v else containerEnv env name)"

fun deploymentEnvOf :: "(string \<times> string) list list \<Rightarrow> string \<Rightarrow> string" where
  "deploymentEnvOf [] name = []"
| "deploymentEnvOf (env # envs) name =
     (case containerEnv env name of Some v \<Rightarrow> v | None \<Rightarrow> deploymentEnvOf envs name)"

definition deploymentEnv :: "deployment \<Rightarrow> string \<Rightarrow> string" where
  "deploymentEnv d name = deploymentEnvOf (dpContainerEnv d) name"

definition boundTo :: "string \<Rightarrow> string \<Rightarrow> string \<Rightarrow> role_binding \<Rightarrow> bool" where
  "boundTo kind name namespace binding \<longleftrightarrow>
     rbKind binding = kind \<and> rbName binding = name \<and> hasServiceAccountSubject (rbSubjects binding) namespace ''assignmentd''"

text \<open>A read whose failure and whose bad result give the same check.\<close>

definition expect :: "('w, 'a) call \<Rightarrow> ('a \<Rightarrow> bool) \<Rightarrow> Check \<Rightarrow> (Check, 'w, 'a) step" where
  "expect m ok check = bindw (tryw m (\<lambda>_. check)) (\<lambda>v. bindw (guardw (\<not> ok v) check) (\<lambda>_. retw v))"

definition leaseVerbs :: "string list" where
  "leaseVerbs = [''create'', ''get'', ''update'', ''patch'', ''delete'']"

definition workloadRules :: "policy_rule list \<Rightarrow> bool" where
  "workloadRules rules \<longleftrightarrow>
     roleAllows rules ''sandbox.opensandbox.io'' ''batchsandboxes'' [''get'', ''list'', ''watch'', ''delete''] \<and>
     roleAllows rules [] ''pods'' [''get'', ''list'', ''watch''] \<and>
     roleAllows rules [] ''serviceaccounts'' [''get'', ''list'', ''watch'']"

definition assignmentPermissions :: "'w doctorClient \<Rightarrow> doctorConfig \<Rightarrow> (Check, 'w, unit) step" where
  "assignmentPermissions c config =
     (let ns = dcAssignmentNamespace config; ws = dcWorkloadNamespace config in
      bindw (expect (drRole c ns ''assignmentd'') (\<lambda>rules. roleAllows rules ''coordination.k8s.io'' ''leases'' leaseVerbs)
        (failCheck ''assignmentd'' ''assignmentd cannot manage admission and leader-election Leases''
          ''Grant the assignmentd Role create, get, update, patch, and delete on coordination.k8s.io Leases.'')) (\<lambda>_.
      bindw (expect (drRoleBinding c ns ''assignmentd'') (boundTo ''Role'' ''assignmentd'' ns)
        (failCheck ''assignmentd'' ''assignmentd Lease permissions are not bound to its ServiceAccount''
          ''Bind the assignmentd Role to the assignmentd ServiceAccount.'')) (\<lambda>_.
      bindw (expect (drClusterRole c ''assignmentd-tokenreview'') (\<lambda>rules. roleAllows rules ''authentication.k8s.io'' ''tokenreviews'' [''create''])
        (failCheck ''assignmentd'' ''assignmentd cannot authenticate caller or Pod tokens''
          ''Grant create on authentication.k8s.io TokenReviews.'')) (\<lambda>_.
      bindw (expect (drClusterRoleBinding c ''assignmentd-tokenreview'') (boundTo ''ClusterRole'' ''assignmentd-tokenreview'' ns)
        (failCheck ''assignmentd'' ''TokenReview permission is not bound to assignmentd''
          ''Bind assignmentd-tokenreview to the assignmentd ServiceAccount.'')) (\<lambda>_.
      bindw (expect (drRole c ws ''assignmentd-workloads'') workloadRules
        (failCheck ''assignmentd'' ''assignmentd cannot reconcile workload identities''
          ''Grant the assignmentd-workloads Role access to BatchSandboxes, Pods, and ServiceAccounts.'')) (\<lambda>_.
      bindw (expect (drRoleBinding c ws ''assignmentd-workloads'') (boundTo ''Role'' ''assignmentd-workloads'' ns)
        (failCheck ''assignmentd'' ''workload reconciliation permission is not bound to assignmentd''
          ''Bind assignmentd-workloads to the assignmentd ServiceAccount.'')) (\<lambda>_. retw ())))))))"

definition rollingReplicas :: "deployment \<Rightarrow> bool" where
  "rollingReplicas d \<longleftrightarrow> (case dpReplicas d of None \<Rightarrow> False | Some n \<Rightarrow> 2 \<le> n) \<and> dpStrategy d = ''RollingUpdate''"

definition assignmentService :: "'w doctorClient \<Rightarrow> doctorConfig \<Rightarrow> 'w doctorCheck" where
  "assignmentService c config =
     (let ns = dcAssignmentNamespace config in
      bindw (tryw (drDeployment c ns ''assignmentd'')
        (\<lambda>_. failCheck ''assignmentd'' ''assignmentd Deployment is unavailable'' ''Deploy the governance assignment service.'')) (\<lambda>d.
      bindw (guardw (\<not> rollingReplicas d)
        (failCheck ''assignmentd'' ''assignmentd must run with at least two replicas and RollingUpdate''
          ''Deploy multiple replicas; Kubernetes Leases serialize tenant admission and elect one assignment controller.'')) (\<lambda>_.
      bindw (guardw (dpReadyReplicas d < 2)
        (failCheck ''assignmentd'' ''assignmentd does not have at least two ready replicas''
          ''Inspect the Deployment rollout, image pull, Secret, and scheduling events.'')) (\<lambda>_.
      bindw (expect (drMinAvailable c ns ''assignmentd'') (\<lambda>minAvailable. case minAvailable of None \<Rightarrow> False | Some n \<Rightarrow> 1 \<le> n)
        (failCheck ''assignmentd'' ''assignmentd PodDisruptionBudget is missing or ineffective''
          ''Apply a PodDisruptionBudget with minAvailable of at least one.'')) (\<lambda>_.
      bindw (assignmentPermissions c config) (\<lambda>_.
      let mode = deploymentEnv d ''ASSIGNMENTD_EGRESS_IDENTITY_MODE'' in
      bindw (guardw (mode \<noteq> ''projected-sidecar'' \<and> mode \<noteq> ''external-mediator'')
        (failCheck ''assignmentd'' ''assignmentd has an invalid egress identity mode''
          ''Set ASSIGNMENTD_EGRESS_IDENTITY_MODE to projected-sidecar or external-mediator.'')) (\<lambda>_.
      bindw (tryw (drService c ns ''assignmentd'')
        (\<lambda>_. failCheck ''assignmentd'' ''assignmentd Service is unavailable'' ''Apply the assignmentd Service manifest.'')) (\<lambda>_.
        retw (passCheck ''assignmentd'' (showInt (dpReadyReplicas d) @ '' assignmentd replicas are ready in '' @ mode @ '' identity mode''))))))))))"

subsection \<open>The workload namespace and the inventory\<close>

definition openSandboxService :: "'w doctorClient \<Rightarrow> doctorConfig \<Rightarrow> 'w doctorCheck" where
  "openSandboxService c config =
     bindw (tryw (drService c (dcWorkloadNamespace config) ''opensandbox-server'')
       (\<lambda>_. failCheck ''opensandbox-service'' ''OpenSandbox lifecycle Service is unavailable'' ''Deploy OpenSandbox before governance components.'')) (\<lambda>_.
       retw (passCheck ''opensandbox-service'' ''OpenSandbox lifecycle Service is discoverable''))"

definition safeServiceAccount :: "service_account \<Rightarrow> bool" where
  "safeServiceAccount sa \<longleftrightarrow> getS (metaLabels sa) ''aks-sandbox.azure.com/eligible'' = ''true'' \<and> saAutomount sa = Some False"

definition sandboxServiceAccount :: "'w doctorClient \<Rightarrow> doctorConfig \<Rightarrow> 'w doctorCheck" where
  "sandboxServiceAccount c config =
     bindw (tryw (drServiceAccount c (dcWorkloadNamespace config) ''opensandbox-workload'')
       (\<lambda>_. failCheck ''sandbox-identity'' ''Sandbox ServiceAccount is unavailable'' ''Apply deploy/governance/k8s/sandbox-serviceaccount.yaml.'')) (\<lambda>sa.
     bindw (guardw (\<not> safeServiceAccount sa)
       (failCheck ''sandbox-identity'' ''Sandbox ServiceAccount permits unsafe token behavior''
         ''Mark it eligible and set automountServiceAccountToken: false.'')) (\<lambda>_.
       retw (passCheck ''sandbox-identity'' ''Sandbox ServiceAccount is eligible and disables token automount'')))"

definition enabledObject :: "unstructured \<Rightarrow> bool" where
  "enabledObject object \<longleftrightarrow> nestedField (uSpec object) [''enabled''] = Inr (Some (JBool True))"

text \<open>All three lists are read before their errors are looked at.\<close>

definition governanceInventory :: "'w doctorClient \<Rightarrow> doctorConfig \<Rightarrow> 'w doctorCheck" where
  "governanceInventory c config =
     (let ns = dcAssignmentNamespace config;
          unlisted = failCheck ''governance-inventory'' ''Templates, capability bundles, or tenant policies could not be listed''
            ''Apply the sample resources and verify RBAC.''
      in
      bindw (attempt (drTemplates c ns)) (\<lambda>templates.
      bindw (attempt (drBundles c ns)) (\<lambda>bundles.
      bindw (attempt (drTenants c ns)) (\<lambda>tenants.
      case (templates, bundles, tenants) of
        (Inr ts, Inr bs, Inr ps) \<Rightarrow>
          let enabled = length (filter enabledObject ts); enabledTenants = length (filter enabledObject ps) in
          bindw (guardw (enabled = 0 \<or> length bs = 0 \<or> enabledTenants = 0)
            (failCheck ''governance-inventory'' ''No enabled template, capability bundle, and tenant policy set is available''
              ''Create at least one enabled immutable template, capability bundle, and tenant policy.'')) (\<lambda>_.
            retw (passCheck ''governance-inventory'' (showDec enabled @ '' enabled template(s), '' @ showDec (length bs) @
              '' capability bundle(s), and '' @ showDec enabledTenants @ '' enabled tenant policy revision(s) are available'')))
      | _ \<Rightarrow> exitw unlisted))))"

definition resourceQuota :: "'w doctorClient \<Rightarrow> doctorConfig \<Rightarrow> 'w doctorCheck" where
  "resourceQuota c config =
     bindw (tryw (drQuotas c (dcWorkloadNamespace config))
       (\<lambda>_. failCheck ''resource-quota'' ''ResourceQuotas could not be listed'' ''Grant permission to list ResourceQuotas.'')) (\<lambda>quotas.
     bindw (guardw (quotas = 0)
       (warningCheck ''resource-quota'' ''No workload namespace ResourceQuota is installed'' ''Install tenant or workload budgets before shared use.'')) (\<lambda>_.
       retw (passCheck ''resource-quota'' (showDec quotas @ '' ResourceQuota object(s) protect the workload namespace''))))"

definition forcedEgressPolicies :: "string list" where
  "forcedEgressPolicies = [''sandbox-allow-assignmentd'', ''sandbox-default-deny-egress'']"

definition networkPolicyCheck :: "'w doctorClient \<Rightarrow> doctorConfig \<Rightarrow> 'w doctorCheck" where
  "networkPolicyCheck c config =
     bindw (tryw (drNetworkPolicies c (dcWorkloadNamespace config))
       (\<lambda>_. failCheck ''network-policy'' ''NetworkPolicies could not be listed'' ''Grant permission to list NetworkPolicies.'')) (\<lambda>names.
     bindw (guardw (names = [])
       (warningCheck ''network-policy'' ''No workload namespace NetworkPolicy is installed'' ''Install fail-closed ingress and mediated-egress policies.'')) (\<lambda>_.
     let missing = filter (\<lambda>name. name \<notin> set names) forcedEgressPolicies in
     bindw (guardw (missing \<noteq> [])
       (warningCheck ''network-policy'' (''Forced-egress policies are missing: '' @ joinWith '', '' missing)
         ''Apply deploy/governance/k8s/forced-egress-networkpolicy.yaml.'')) (\<lambda>_.
       retw (passCheck ''network-policy'' (''NetworkPolicies installed: '' @ joinWith '', '' (sort names))))))"

subsection \<open>The report\<close>

fun runChecks :: "'w doctorCheck list \<Rightarrow> 'w \<Rightarrow> Check list \<times> 'w" where
  "runChecks [] w = ([], w)"
| "runChecks (check # checks) w =
     (case finishw check w of (result, w1) \<Rightarrow> case runChecks checks w1 of (results, w2) \<Rightarrow> (result # results, w2))"

definition doctorChecks :: "'w doctorClient \<Rightarrow> selectorLib \<Rightarrow> doctorConfig \<Rightarrow> 'w doctorCheck list" where
  "doctorChecks c lib config =
     [runtimeClassCheck c config, kataCapacity c lib config, governanceCRDs c, assignmentService c config, openSandboxService c config,
      sandboxServiceAccount c config, governanceInventory c config, resourceQuota c config, networkPolicyCheck c config]"

definition RunDoctor :: "'w doctorClient \<Rightarrow> selectorLib \<Rightarrow> doctorConfig \<Rightarrow> 'w \<Rightarrow> Report \<times> 'w" where
  "RunDoctor c lib config w =
     (case runChecks (doctorChecks c lib config) w of
        (checks, w') \<Rightarrow> (\<lparr>rpReady = \<not> list_ex (\<lambda>check. chStatus check = StatusFail) checks, rpChecks = checks\<rparr>, w'))"

text \<open>The exit code of \<open>sandbox-doctor\<close>; an unknown format is found after the run.\<close>

definition exitCode :: "string \<Rightarrow> Report \<Rightarrow> nat" where
  "exitCode output report =
     (if output \<noteq> ''json'' \<and> output \<noteq> ''table'' then 2 else if \<not> rpReady report then 1 else 0)"

subsection \<open>The contract behind the report\<close>

text \<open>The cluster does not change while the doctor reads it.\<close>

definition quietCluster :: "'w doctorClient \<Rightarrow> bool" where
  "quietCluster c \<longleftrightarrow>
     (\<forall>w a b. snd (drRuntimeClass c a w) = w \<and> snd (drNodes c w) = w \<and> snd (drCRD c a w) = w \<and> snd (drDeployment c a b w) = w \<and>
        snd (drMinAvailable c a b w) = w \<and> snd (drRole c a b w) = w \<and> snd (drRoleBinding c a b w) = w \<and> snd (drClusterRole c a w) = w \<and>
        snd (drClusterRoleBinding c a w) = w \<and> snd (drService c a b w) = w \<and> snd (drServiceAccount c a b w) = w \<and>
        snd (drTemplates c a w) = w \<and> snd (drBundles c a w) = w \<and> snd (drTenants c a w) = w \<and> snd (drQuotas c a w) = w \<and>
        snd (drNetworkPolicies c a w) = w)"

definition readsAs :: "('w, 'a) call \<Rightarrow> 'w \<Rightarrow> ('a \<Rightarrow> bool) \<Rightarrow> bool" where
  "readsAs m w ok \<longleftrightarrow> (\<exists>v. fst (m w) = Inr v \<and> ok v)"

definition capacityContract :: "'w doctorClient \<Rightarrow> selectorLib \<Rightarrow> doctorConfig \<Rightarrow> 'w \<Rightarrow> bool" where
  "capacityContract c lib config w \<longleftrightarrow>
     readsAs (drRuntimeClass c (dcRuntimeClass config)) w (\<lambda>rc. readsAs (drNodes c) w (\<lambda>nodes.
       (\<forall>(key, v) \<in> set (classSelector rc). slRequirementOk lib key v) \<and>
       (\<exists>node \<in> set nodes. \<not> ndUnschedulable node \<and> nodeReady node \<and> ndCPU node \<noteq> 0 \<and> ndMemory node \<noteq> 0 \<and>
          (classSelector rc = [] \<or> slMatches lib (classSelector rc) (metaLabels node)))))"

definition permissionContract :: "'w doctorClient \<Rightarrow> doctorConfig \<Rightarrow> 'w \<Rightarrow> bool" where
  "permissionContract c config w \<longleftrightarrow>
     (let ns = dcAssignmentNamespace config; ws = dcWorkloadNamespace config in
      readsAs (drRole c ns ''assignmentd'') w (\<lambda>rules. roleAllows rules ''coordination.k8s.io'' ''leases'' leaseVerbs) \<and>
      readsAs (drRoleBinding c ns ''assignmentd'') w (boundTo ''Role'' ''assignmentd'' ns) \<and>
      readsAs (drClusterRole c ''assignmentd-tokenreview'') w (\<lambda>rules. roleAllows rules ''authentication.k8s.io'' ''tokenreviews'' [''create'']) \<and>
      readsAs (drClusterRoleBinding c ''assignmentd-tokenreview'') w (boundTo ''ClusterRole'' ''assignmentd-tokenreview'' ns) \<and>
      readsAs (drRole c ws ''assignmentd-workloads'') w workloadRules \<and>
      readsAs (drRoleBinding c ws ''assignmentd-workloads'') w (boundTo ''Role'' ''assignmentd-workloads'' ns))"

definition serviceContract :: "'w doctorClient \<Rightarrow> doctorConfig \<Rightarrow> 'w \<Rightarrow> bool" where
  "serviceContract c config w \<longleftrightarrow>
     (let ns = dcAssignmentNamespace config in
      readsAs (drDeployment c ns ''assignmentd'') w (\<lambda>d. (\<exists>n. dpReplicas d = Some n \<and> 2 \<le> n) \<and> dpStrategy d = ''RollingUpdate'' \<and>
        2 \<le> dpReadyReplicas d \<and> deploymentEnv d ''ASSIGNMENTD_EGRESS_IDENTITY_MODE'' \<in> {''projected-sidecar'', ''external-mediator''}) \<and>
      readsAs (drMinAvailable c ns ''assignmentd'') w (\<lambda>m. \<exists>n. m = Some n \<and> 1 \<le> n) \<and>
      permissionContract c config w \<and> readsAs (drService c ns ''assignmentd'') w (\<lambda>_. True))"

definition inventoryContract :: "'w doctorClient \<Rightarrow> doctorConfig \<Rightarrow> 'w \<Rightarrow> bool" where
  "inventoryContract c config w \<longleftrightarrow>
     (let ns = dcAssignmentNamespace config in
      readsAs (drTemplates c ns) w (\<lambda>ts. \<exists>t \<in> set ts. enabledObject t) \<and> readsAs (drBundles c ns) w (\<lambda>bs. bs \<noteq> []) \<and>
      readsAs (drTenants c ns) w (\<lambda>ps. \<exists>p \<in> set ps. enabledObject p))"

definition workloadContract :: "'w doctorClient \<Rightarrow> doctorConfig \<Rightarrow> 'w \<Rightarrow> bool" where
  "workloadContract c config w \<longleftrightarrow>
     (let ws = dcWorkloadNamespace config in
      readsAs (drService c ws ''opensandbox-server'') w (\<lambda>_. True) \<and>
      readsAs (drServiceAccount c ws ''opensandbox-workload'') w safeServiceAccount \<and>
      readsAs (drQuotas c ws) w (\<lambda>_. True) \<and> readsAs (drNetworkPolicies c ws) w (\<lambda>_. True))"

text \<open>A check in a quiet cluster leaves the world alone, and fails or not.\<close>

definition settles :: "'w doctorCheck \<Rightarrow> 'w \<Rightarrow> bool \<Rightarrow> bool" where
  "settles check w ok \<longleftrightarrow> snd (finishw check w) = w \<and> (chStatus (fst (finishw check w)) \<noteq> StatusFail \<longleftrightarrow> ok)"

lemma step_parts:
  "bindw m f w = (case fst (m w) of Inl r \<Rightarrow> (Inl r, snd (m w)) | Inr a \<Rightarrow> f a (snd (m w)))"
  "tryw c h w = (case fst (c w) of Inl e \<Rightarrow> (Inl (h e), snd (c w)) | Inr a \<Rightarrow> (Inr a, snd (c w)))"
  "attempt c w = (Inr (fst (c w)), snd (c w))"
  "finishw s w = (case fst (s w) of Inl r \<Rightarrow> (r, snd (s w)) | Inr r \<Rightarrow> (r, snd (s w)))"
  by (simp_all add: bindw_def tryw_def attempt_def finishw_def case_prod_unfold split: sum.splits)

lemma check_status [simp]:
  "chStatus (passCheck n s) = StatusPass" "chStatus (warningCheck n s r) = StatusWarning" "chStatus (failCheck n s r) = StatusFail"
  "StatusPass \<noteq> StatusFail" "StatusWarning \<noteq> StatusFail"
  by (simp_all add: passCheck_def warningCheck_def failCheck_def StatusPass_def StatusWarning_def StatusFail_def)

lemma quietCluster_snd:
  assumes "quietCluster c"
  shows "snd (drRuntimeClass c a w) = w" "snd (drNodes c w) = w" "snd (drCRD c a w) = w" "snd (drDeployment c a b w) = w"
    "snd (drMinAvailable c a b w) = w" "snd (drRole c a b w) = w" "snd (drRoleBinding c a b w) = w" "snd (drClusterRole c a w) = w"
    "snd (drClusterRoleBinding c a w) = w" "snd (drService c a b w) = w" "snd (drServiceAccount c a b w) = w"
    "snd (drTemplates c a w) = w" "snd (drBundles c a w) = w" "snd (drTenants c a w) = w" "snd (drQuotas c a w) = w"
    "snd (drNetworkPolicies c a w) = w"
  using assms unfolding quietCluster_def by blast+

lemma expect_parts:
  "snd (m w) = w \<Longrightarrow> expect m ok check w = (if readsAs m w ok then (Inr (projr (fst (m w))), w) else (Inl check, w))"
  by (auto simp: expect_def readsAs_def step_parts guardw_def retw_def split: sum.splits)

lemma runtime_settles:
  "quietCluster c \<Longrightarrow> settles (runtimeClassCheck c config) w (readsAs (drRuntimeClass c (dcRuntimeClass config)) w (\<lambda>_. True))"
  by (auto simp: settles_def runtimeClassCheck_def readsAs_def step_parts retw_def quietCluster_snd split: sum.splits)

lemma capacity_settles: "quietCluster c \<Longrightarrow> settles (kataCapacity c lib config) w (capacityContract c lib config w)"
  by (auto simp: settles_def kataCapacity_def capacityContract_def eligibleNode_def readsAs_def step_parts guardw_def retw_def quietCluster_snd
      Let_def list_ex_iff filter_empty_conv split: sum.splits)

lemma missingCRDs_eq:
  "quietCluster c \<Longrightarrow> missingCRDs c names w = (Inr (filter (\<lambda>name. isl (fst (drCRD c name w))) names), w)"
  by (induction names) (auto simp: step_parts retw_def quietCluster_snd split: sum.splits)

lemma none_missing:
  "filter (\<lambda>name. isl (fst (drCRD c name w))) names = [] \<longleftrightarrow> (\<forall>name \<in> set names. readsAs (drCRD c name) w (\<lambda>_. True))"
  by (simp add: filter_empty_conv readsAs_def) (metis Inl_Inr_False isl_def sum.exhaust)

lemma crds_settles:
  assumes "quietCluster c"
  shows "settles (governanceCRDs c) w (\<forall>name \<in> set requiredCRDs. readsAs (drCRD c name) w (\<lambda>_. True))"
  unfolding none_missing [symmetric]
  by (simp add: settles_def governanceCRDs_def step_parts missingCRDs_eq [OF assms] guardw_def retw_def)

lemma permissions_parts:
  "quietCluster c \<Longrightarrow> snd (assignmentPermissions c config w) = w \<and>
     (case fst (assignmentPermissions c config w) of Inl r \<Rightarrow> \<not> permissionContract c config w \<and> chStatus r = StatusFail
      | Inr _ \<Rightarrow> permissionContract c config w)"
  by (simp add: assignmentPermissions_def permissionContract_def Let_def step_parts(1) expect_parts quietCluster_snd retw_def)

lemma service_settles:
  assumes "quietCluster c"
  shows "settles (assignmentService c config) w (serviceContract c config w)"
  using permissions_parts [OF assms, of config w]
  by (auto simp: settles_def assignmentService_def serviceContract_def rollingReplicas_def Let_def step_parts guardw_def retw_def
      expect_parts quietCluster_snd [OF assms] readsAs_def split: sum.splits option.splits)

lemma workload_settles:
  assumes "quietCluster c"
  shows "settles (openSandboxService c config) w (readsAs (drService c (dcWorkloadNamespace config) ''opensandbox-server'') w (\<lambda>_. True))"
    "settles (sandboxServiceAccount c config) w
       (readsAs (drServiceAccount c (dcWorkloadNamespace config) ''opensandbox-workload'') w safeServiceAccount)"
    "settles (resourceQuota c config) w (readsAs (drQuotas c (dcWorkloadNamespace config)) w (\<lambda>_. True))"
    "settles (networkPolicyCheck c config) w (readsAs (drNetworkPolicies c (dcWorkloadNamespace config)) w (\<lambda>_. True))"
  by (auto simp: settles_def openSandboxService_def sandboxServiceAccount_def resourceQuota_def networkPolicyCheck_def readsAs_def
      Let_def step_parts guardw_def retw_def quietCluster_snd [OF assms] split: sum.splits)

lemma inventory_settles:
  "quietCluster c \<Longrightarrow> settles (governanceInventory c config) w (inventoryContract c config w)"
  by (auto simp: settles_def governanceInventory_def inventoryContract_def readsAs_def Let_def step_parts guardw_def retw_def exitw_def
      quietCluster_snd filter_empty_conv split: sum.splits)

lemma runChecks_settles:
  assumes "list_all2 (\<lambda>check ok. settles check w ok) checks oks"
  shows "snd (runChecks checks w) = w \<and> (list_ex (\<lambda>check. chStatus check = StatusFail) (fst (runChecks checks w)) \<longleftrightarrow> False \<in> set oks)"
  using assms by (induction rule: list_all2_induct) (auto simp: settles_def case_prod_unfold)

text \<open>
  C29: what a ready report says. In a cluster that does not change meanwhile, the doctor reports ready exactly when the
  runtime class exists with well formed selectors and a ready schedulable node of its own with capacity, all ten resource definitions are
  installed, assignmentd rolls with two ready replicas, a disruption budget, a known identity mode and its six grants, both services and a
  safe service account are there, an enabled template, a bundle and an enabled tenant policy exist, and quotas and network policies can be listed. Missing
  quotas or network policies do not count. The service account then passes the check of the controller, which also knows the mode.
\<close>

theorem doctor_ready_iff:
  assumes quiet: "quietCluster c"
  shows "(rpReady (fst (RunDoctor c lib config w)) \<longleftrightarrow>
      capacityContract c lib config w \<and> (\<forall>name \<in> set requiredCRDs. readsAs (drCRD c name) w (\<lambda>_. True)) \<and>
      serviceContract c config w \<and> inventoryContract c config w \<and> workloadContract c config w) \<and>
    (rpReady (fst (RunDoctor c lib config w)) \<longrightarrow>
      readsAs (drServiceAccount c (dcWorkloadNamespace config) ''opensandbox-workload'') w (\<lambda>sa. validateEligibleServiceAccount sa = None) \<and>
      readsAs (drDeployment c (dcAssignmentNamespace config) ''assignmentd'') w
        (\<lambda>d. parseIdentityMode (deploymentEnv d ''ASSIGNMENTD_EGRESS_IDENTITY_MODE'') \<noteq> None))"
proof -
  let ?oks = "[readsAs (drRuntimeClass c (dcRuntimeClass config)) w (\<lambda>_. True), capacityContract c lib config w,
    (\<forall>name \<in> set requiredCRDs. readsAs (drCRD c name) w (\<lambda>_. True)), serviceContract c config w,
    readsAs (drService c (dcWorkloadNamespace config) ''opensandbox-server'') w (\<lambda>_. True),
    readsAs (drServiceAccount c (dcWorkloadNamespace config) ''opensandbox-workload'') w safeServiceAccount, inventoryContract c config w,
    readsAs (drQuotas c (dcWorkloadNamespace config)) w (\<lambda>_. True),
    readsAs (drNetworkPolicies c (dcWorkloadNamespace config)) w (\<lambda>_. True)]"
  have "list_all2 (\<lambda>check ok. settles check w ok) (doctorChecks c lib config) ?oks"
    unfolding doctorChecks_def
    by (intro list.rel_intros runtime_settles capacity_settles crds_settles service_settles workload_settles inventory_settles quiet)
  from runChecks_settles [OF this] have "rpReady (fst (RunDoctor c lib config w)) \<longleftrightarrow> False \<notin> set ?oks"
    by (simp add: RunDoctor_def case_prod_unfold)
  moreover have "capacityContract c lib config w \<Longrightarrow> readsAs (drRuntimeClass c (dcRuntimeClass config)) w (\<lambda>_. True)"
    by (auto simp: capacityContract_def readsAs_def)
  ultimately have ready: "rpReady (fst (RunDoctor c lib config w)) \<longleftrightarrow>
      capacityContract c lib config w \<and> (\<forall>name \<in> set requiredCRDs. readsAs (drCRD c name) w (\<lambda>_. True)) \<and>
      serviceContract c config w \<and> inventoryContract c config w \<and> workloadContract c config w"
    by (auto simp: workloadContract_def Let_def)
  have "workloadContract c config w \<Longrightarrow>
      readsAs (drServiceAccount c (dcWorkloadNamespace config) ''opensandbox-workload'') w (\<lambda>sa. validateEligibleServiceAccount sa = None)"
    by (auto simp: workloadContract_def Let_def readsAs_def safeServiceAccount_def validateEligibleServiceAccount_def EligibleServiceAccountLabel_def)
  moreover have "serviceContract c config w \<Longrightarrow> readsAs (drDeployment c (dcAssignmentNamespace config) ''assignmentd'') w
        (\<lambda>d. parseIdentityMode (deploymentEnv d ''ASSIGNMENTD_EGRESS_IDENTITY_MODE'') \<noteq> None)"
    by (auto simp: serviceContract_def Let_def readsAs_def parseIdentityMode_def)
  ultimately show ?thesis using ready by blast
qed

text \<open>
  The check of a role reads one rule only. What it accepts is granted for every verb; but grants add up over the rules of
  a role, and verbs that two rules grant together are not accepted.
\<close>

definition granted :: "policy_rule list \<Rightarrow> string \<Rightarrow> string \<Rightarrow> string \<Rightarrow> bool" where
  "granted rules apiGroup resource verb \<longleftrightarrow>
     (\<exists>rule \<in> set rules. containsOrAny (plAPIGroups rule) apiGroup \<and> containsOrAny (plResources rule) resource \<and> containsOrAny (plVerbs rule) verb)"

definition splitRules :: "policy_rule list" where
  "splitRules = [\<lparr>plAPIGroups = [''''], plResources = [''pods''], plVerbs = [''get'', ''list'']\<rparr>,
     \<lparr>plAPIGroups = [''''], plResources = [''pods''], plVerbs = [''watch'']\<rparr>]"

lemma roleAllows_granted:
  assumes "roleAllows rules apiGroup resource verbs" "verb \<in> set verbs"
  shows "granted rules apiGroup resource verb"
  using assms by (induction rules) (auto simp: granted_def list_all_iff split: if_splits)

lemma roleAllows_first_rule_only:
  "(\<forall>verb \<in> set [''get'', ''list'', ''watch'']. granted splitRules [] ''pods'' verb) \<and>
   \<not> roleAllows splitRules [] ''pods'' [''get'', ''list'', ''watch'']"
  by (simp add: granted_def splitRules_def containsOrAny_def)

subsection \<open>An example\<close>

definition dxAll :: "policy_rule list" where
  "dxAll = [\<lparr>plAPIGroups = [''*''], plResources = [''*''], plVerbs = [''*'']\<rparr>]"

definition dxBinding :: "string \<Rightarrow> string \<Rightarrow> role_binding" where
  "dxBinding kind name = \<lparr>rbKind = kind, rbName = name,
     rbSubjects = [\<lparr>sjKind = ''ServiceAccount'', sjNamespace = ''aks-sandbox-system'', sjName = ''assignmentd''\<rparr>]\<rparr>"

definition dxNode :: node where
  "dxNode = object_meta.extend emptyMeta
     \<lparr>ndUnschedulable = False, ndConditions = [\<lparr>pcType = ''Ready'', pcStatus = ''True''\<rparr>], ndCPU = 4, ndMemory = 8\<rparr>"

definition dxAccount :: service_account where
  "dxAccount = object_meta.extend (emptyMeta\<lparr>metaLabels := [''aks-sandbox.azure.com/eligible'' \<mapsto> ''true'']\<rparr>) \<lparr>saAutomount = Some False\<rparr>"

definition dxObject :: unstructured where
  "dxObject = object_meta.extend emptyMeta \<lparr>uAPIVersion = [], uKind = [], uSpec = JObj [(''enabled'', JBool True)], uStatus = JNull\<rparr>"

definition dxClient :: "unit doctorClient" where
  "dxClient = \<lparr>drRuntimeClass = (\<lambda>name. okw \<lparr>rcName = name, rcHandler = ''kata'', rcNodeSelector = None\<rparr>),
     drNodes = okw [dxNode], drCRD = (\<lambda>_. okw dxObject),
     drDeployment = (\<lambda>_ _. okw \<lparr>dpReplicas = Some 2, dpStrategy = ''RollingUpdate'', dpReadyReplicas = 2,
       dpContainerEnv = [[(''ASSIGNMENTD_EGRESS_IDENTITY_MODE'', ''external-mediator'')]]\<rparr>),
     drMinAvailable = (\<lambda>_ _. okw (Some 1)), drRole = (\<lambda>_ _. okw dxAll), drRoleBinding = (\<lambda>_ name. okw (dxBinding ''Role'' name)),
     drClusterRole = (\<lambda>_. okw dxAll), drClusterRoleBinding = (\<lambda>name. okw (dxBinding ''ClusterRole'' name)), drService = (\<lambda>_ _. okw ()),
     drServiceAccount = (\<lambda>_ _. okw dxAccount), drTemplates = (\<lambda>_. okw [dxObject]), drBundles = (\<lambda>_. okw [dxObject]),
     drTenants = (\<lambda>_. okw [dxObject]), drQuotas = (\<lambda>_. okw 0), drNetworkPolicies = (\<lambda>_. okw [])\<rparr>"

definition dxConfig :: doctorConfig where
  "dxConfig = newDoctor \<lparr>dcAssignmentNamespace = [], dcWorkloadNamespace = [], dcRuntimeClass = []\<rparr>"

definition dxLib :: selectorLib where
  "dxLib = \<lparr>slRequirementOk = (\<lambda>_ _. True), slMatches = (\<lambda>_ _. True)\<rparr>"

lemma dx_quiet: "quietCluster dxClient"
  by (simp add: quietCluster_def dxClient_def okw_def)

lemma dx_reads:
  "fst (drRuntimeClass dxClient name w) = Inr \<lparr>rcName = name, rcHandler = ''kata'', rcNodeSelector = None\<rparr>"
  "fst (drNodes dxClient w) = Inr [dxNode]" "fst (drCRD dxClient name w) = Inr dxObject"
  "fst (drDeployment dxClient ns name w) = Inr \<lparr>dpReplicas = Some 2, dpStrategy = ''RollingUpdate'', dpReadyReplicas = 2,
       dpContainerEnv = [[(''ASSIGNMENTD_EGRESS_IDENTITY_MODE'', ''external-mediator'')]]\<rparr>"
  "fst (drMinAvailable dxClient ns name w) = Inr (Some 1)" "fst (drRole dxClient ns name w) = Inr dxAll"
  "fst (drRoleBinding dxClient ns name w) = Inr (dxBinding ''Role'' name)" "fst (drClusterRole dxClient name w) = Inr dxAll"
  "fst (drClusterRoleBinding dxClient name w) = Inr (dxBinding ''ClusterRole'' name)" "fst (drService dxClient ns name w) = Inr ()"
  "fst (drServiceAccount dxClient ns name w) = Inr dxAccount" "fst (drTemplates dxClient ns w) = Inr [dxObject]"
  "fst (drBundles dxClient ns w) = Inr [dxObject]" "fst (drTenants dxClient ns w) = Inr [dxObject]"
  "fst (drQuotas dxClient ns w) = Inr 0" "fst (drNetworkPolicies dxClient ns w) = Inr []"
  by (simp_all add: dxClient_def okw_def)

lemma dx_allows: "roleAllows dxAll g r vs"
  by (simp add: dxAll_def containsOrAny_def list_all_iff)

lemma dx_contracts:
  "capacityContract dxClient dxLib dxConfig w" "serviceContract dxClient dxConfig w" "inventoryContract dxClient dxConfig w"
  "workloadContract dxClient dxConfig w"
  by (simp_all add: capacityContract_def serviceContract_def permissionContract_def inventoryContract_def workloadContract_def workloadRules_def
      readsAs_def dx_reads dx_allows Let_def classSelector_def nodeReady_def dxNode_def object_meta.defs deploymentEnv_def boundTo_def dxBinding_def
      hasServiceAccountSubject_def dxConfig_def newDoctor_def enabledObject_def dxObject_def safeServiceAccount_def dxAccount_def
      emptyMeta_def getS_def)

text \<open>The example cluster is ready, without quotas and network policies.\<close>

theorem doctor_ready_iff_witness:
  "rpReady (fst (RunDoctor dxClient dxLib dxConfig ())) \<and> exitCode ''table'' (fst (RunDoctor dxClient dxLib dxConfig ())) = 0 \<and>
   readsAs (drServiceAccount dxClient (dcWorkloadNamespace dxConfig) ''opensandbox-workload'') () (\<lambda>sa. validateEligibleServiceAccount sa = None)"
proof -
  have crds: "\<forall>name \<in> set requiredCRDs. readsAs (drCRD dxClient name) () (\<lambda>_. True)" by (simp add: readsAs_def dx_reads)
  from doctor_ready_iff [OF dx_quiet, of dxLib dxConfig "()"] dx_contracts crds show ?thesis
    by (simp add: exitCode_def)
qed

end
