(* ===== verification/GoFlag.thy ===== *)
theory GoFlag
  imports GoWeb GoNet
begin

section \<open>Command lines, durations and loopback addresses\<close>

text \<open>
  The parts of Go's standard library that set the programs up: \<open>flag.FlagSet.Parse\<close>, \<open>time.ParseDuration\<close>,
  \<open>net.ParseIP\<close> with \<open>IsLoopback\<close>, and the environment with defaults. Parsing a command line gives the flags that it sets, in order,
  with their texts, and the arguments that follow. The text of an error for an ill-formed value is shortened.
\<close>

subsection \<open>Durations\<close>

text \<open>
  \<open>scaled f unit n\<close> stands for the product \<open>uint64(float64(f) * (float64(unit) / scale))\<close> with \<open>scale\<close> the
  \<open>n\<close>-th power of ten; floating point is not modelled.
\<close>

definition durationUnit :: "string \<Rightarrow> int option" where
  "durationUnit u = map_of [(''ns'', 1), (''us'', 1000), ([CHR 0xC2, CHR 0xB5] @ ''s'', 1000), ([CHR 0xCE, CHR 0xBC] @ ''s'', 1000),
     (''ms'', 1000000), (''s'', second), (''m'', 60 * second), (''h'', 3600 * second)] u"

definition leadingFraction :: "string \<Rightarrow> int \<times> nat" where
  "leadingFraction digits =
     (case foldl (\<lambda>(x, n, overflow) c.
         if overflow \<or> (2 ^ 63 - 1) div 10 < x \<or> 2 ^ 63 < x * 10 + int (digitVal c) then (x, n, True)
         else (x * 10 + int (digitVal c), Suc n, False)) (0 :: int, 0 :: nat, False) digits of (x, n, _) \<Rightarrow> (x, n))"

text \<open>One number with its unit; the result is the number of nanoseconds and the rest of the text.\<close>

definition durationPart :: "(int \<Rightarrow> int \<Rightarrow> nat \<Rightarrow> int) \<Rightarrow> string \<Rightarrow> (int \<times> string) option" where
  "durationPart scaled s =
     (let whole = takeWhile isDigit s; s1 = dropWhile isDigit s;
          dotted = s1 \<noteq> [] \<and> hd s1 = CHR ''.'';
          fraction = (if dotted then takeWhile isDigit (tl s1) else []);
          s2 = (if dotted then dropWhile isDigit (tl s1) else s1);
          word = takeWhile (\<lambda>c. c \<noteq> CHR ''.'' \<and> \<not> isDigit c) s2
      in if whole = [] \<and> fraction = [] \<or> 2 ^ 63 < readInt whole then None
         else case durationUnit word of
                None \<Rightarrow> None
              | Some unit \<Rightarrow>
                  if 2 ^ 63 div unit < readInt whole then None
                  else let (f, n) = leadingFraction fraction;
                           v = (readInt whole * unit + (if 0 < f then scaled f unit n else 0)) mod 2 ^ 64
                       in if 0 < f \<and> 2 ^ 63 < v then None else Some (v, dropWhile (\<lambda>c. c \<noteq> CHR ''.'' \<and> \<not> isDigit c) s2))"

lemma durationUnit_word: "durationUnit u = Some n \<Longrightarrow> u \<noteq> []"
  by (auto simp: durationUnit_def split: if_splits)

lemma durationPart_shorter:
  assumes "durationPart scaled s = Some (v, rest)"
  shows "length rest < length s"
proof -
  define s2 where "s2 = (if dropWhile isDigit s \<noteq> [] \<and> hd (dropWhile isDigit s) = CHR ''.''
    then dropWhile isDigit (tl (dropWhile isDigit s)) else dropWhile isDigit s)"
  have "takeWhile (\<lambda>c. c \<noteq> CHR ''.'' \<and> \<not> isDigit c) s2 \<noteq> []" "rest = dropWhile (\<lambda>c. c \<noteq> CHR ''.'' \<and> \<not> isDigit c) s2"
    using assms durationUnit_word unfolding s2_def
    by (force simp: durationPart_def Let_def split: if_splits option.splits prod.splits)+
  then have "length rest < length s2"
    by (metis length_append length_greater_0_conv less_add_same_cancel2 takeWhile_dropWhile_id)
  moreover have "length s2 \<le> length s"
    using length_dropWhile_le [of isDigit s] length_dropWhile_le [of isDigit "tl (dropWhile isDigit s)"] by (auto simp: s2_def)
  ultimately show ?thesis by simp
qed

function durationSum :: "(int \<Rightarrow> int \<Rightarrow> nat \<Rightarrow> int) \<Rightarrow> int \<Rightarrow> string \<Rightarrow> int option" where
  "durationSum scaled d s =
     (if s = [] then Some d
      else case durationPart scaled s of
             None \<Rightarrow> None
           | Some (v, rest) \<Rightarrow> if 2 ^ 63 < (d + v) mod 2 ^ 64 then None else durationSum scaled ((d + v) mod 2 ^ 64) rest)"
  by pat_completeness auto
termination by (relation "measure (\<lambda>(scaled, d, s). length s)") (auto dest: durationPart_shorter)

declare durationSum.simps [simp del]

definition ParseDuration :: "(int \<Rightarrow> int \<Rightarrow> nat \<Rightarrow> int) \<Rightarrow> string \<Rightarrow> int option" where
  "ParseDuration scaled text0 =
     (let neg = text0 \<noteq> [] \<and> hd text0 = CHR ''-'';
          s = (if text0 \<noteq> [] \<and> hd text0 \<in> {CHR ''-'', CHR ''+''} then tl text0 else text0)
      in if s = ''0'' then Some 0
         else if s = [] then None
         else case durationSum scaled 0 s of
                None \<Rightarrow> None
              | Some d \<Rightarrow> if neg then Some (- d) else if 2 ^ 63 - 1 < d then None else Some d)"

subsection \<open>Flags\<close>

datatype flagKind = StringFlag | BoolFlag | DurationFlag

datatype flagError = ErrHelp | FlagError string

definition flagAccepts :: "(int \<Rightarrow> int \<Rightarrow> nat \<Rightarrow> int) \<Rightarrow> flagKind \<Rightarrow> string \<Rightarrow> bool" where
  "flagAccepts scaled kind v =
     (case kind of StringFlag \<Rightarrow> True | BoolFlag \<Rightarrow> parseBool v \<noteq> None | DurationFlag \<Rightarrow> ParseDuration scaled v \<noteq> None)"

text \<open>The name after one or two dashes, with the text after an equals sign that is not its first byte.\<close>

definition splitFlag :: "string \<Rightarrow> string \<times> string option" where
  "splitFlag name =
     (let front = takeWhile (\<lambda>c. c \<noteq> CHR ''='') (tl name); back = dropWhile (\<lambda>c. c \<noteq> CHR ''='') (tl name)
      in (hd name # front, if back = [] then None else Some (tl back)))"

fun parseFlags ::
  "(int \<Rightarrow> int \<Rightarrow> nat \<Rightarrow> int) \<Rightarrow> (string \<Rightarrow> flagKind option) \<Rightarrow> string list \<Rightarrow> flagError + ((string \<times> string) list \<times> string list)" where
  "parseFlags scaled formal [] = Inr ([], [])"
| "parseFlags scaled formal (s # args) =
     (if length s < 2 \<or> hd s \<noteq> CHR ''-'' then Inr ([], s # args)
      else if s = ''--'' then Inr ([], args)
      else
        let raw = (if s ! 1 = CHR ''-'' then drop 2 s else tl s) in
        if hd raw = CHR ''-'' \<or> hd raw = CHR ''='' then Inl (FlagError (''bad flag syntax: '' @ s))
        else
          let (name, given) = splitFlag raw in
          (case formal name of
             None \<Rightarrow> if name = ''help'' \<or> name = ''h'' then Inl ErrHelp else Inl (FlagError (''flag provided but not defined: -'' @ name))
           | Some BoolFlag \<Rightarrow>
               let v = (case given of None \<Rightarrow> ''true'' | Some v \<Rightarrow> v) in
               if \<not> flagAccepts scaled BoolFlag v then Inl (FlagError (''invalid boolean value for -'' @ name))
               else seqf (parseFlags scaled formal args) (\<lambda>(sets, rest). Inr ((name, v) # sets, rest))
           | Some kind \<Rightarrow>
               (case given of
                  Some v \<Rightarrow>
                    if \<not> flagAccepts scaled kind v then Inl (FlagError (''invalid value for flag -'' @ name))
                    else seqf (parseFlags scaled formal args) (\<lambda>(sets, rest). Inr ((name, v) # sets, rest))
                | None \<Rightarrow>
                    (case args of
                       [] \<Rightarrow> Inl (FlagError (''flag needs an argument: -'' @ name))
                     | v # args' \<Rightarrow>
                         if \<not> flagAccepts scaled kind v then Inl (FlagError (''invalid value for flag -'' @ name))
                         else seqf (parseFlags scaled formal args') (\<lambda>(sets, rest). Inr ((name, v) # sets, rest))))))"

text \<open>The last setting of a flag counts; without one its default stays.\<close>

definition flagText :: "(string \<times> string) list \<Rightarrow> string \<Rightarrow> string \<Rightarrow> string" where
  "flagText sets name fallback = (case map_of (rev sets) name of None \<Rightarrow> fallback | Some v \<Rightarrow> v)"

definition flagBool :: "(string \<times> string) list \<Rightarrow> string \<Rightarrow> bool \<Rightarrow> bool" where
  "flagBool sets name fallback =
     (case map_of (rev sets) name of None \<Rightarrow> fallback | Some v \<Rightarrow> (case parseBool v of None \<Rightarrow> fallback | Some b \<Rightarrow> b))"

definition flagDuration :: "(int \<Rightarrow> int \<Rightarrow> nat \<Rightarrow> int) \<Rightarrow> (string \<times> string) list \<Rightarrow> string \<Rightarrow> int \<Rightarrow> int" where
  "flagDuration scaled sets name fallback =
     (case map_of (rev sets) name of None \<Rightarrow> fallback | Some v \<Rightarrow> (case ParseDuration scaled v of None \<Rightarrow> fallback | Some d \<Rightarrow> d))"

subsection \<open>Loopback addresses\<close>

definition parseIP :: "string \<Rightarrow> addr option" where
  "parseIP s = (case parseAddr s of Some (AddrV6 gs z) \<Rightarrow> if z = [] then Some (AddrV6 gs z) else None | a \<Rightarrow> a)"

definition isLoopback :: "addr \<Rightarrow> bool" where
  "isLoopback a = (case unmap a of AddrV4 v \<Rightarrow> hd v = 127 | AddrV6 gs _ \<Rightarrow> gs = [0, 0, 0, 0, 0, 0, 0, 1])"

text \<open>\<open>strings.Trim\<close> with one character.\<close>

definition trimByte :: "char \<Rightarrow> string \<Rightarrow> string" where
  "trimByte c s = rev (dropWhile (\<lambda>x. x = c) (rev (dropWhile (\<lambda>x. x = c) s)))"

lemma trimByte_ends:
  "trimByte c s \<noteq> [] \<Longrightarrow> last (trimByte c s) \<noteq> c \<and> hd (trimByte c s) \<noteq> c"
proof -
  define t where "t = dropWhile (\<lambda>x. x = c) s"
  assume *: "trimByte c s \<noteq> []"
  have "last (trimByte c s) = hd (dropWhile (\<lambda>x. x = c) (rev t))" using * by (simp add: trimByte_def t_def last_rev)
  moreover have "dropWhile (\<lambda>x. x = c) (rev t) \<noteq> []" using * by (simp add: trimByte_def t_def)
  ultimately have "last (trimByte c s) \<noteq> c" using hd_dropWhile [of "\<lambda>x. x = c" "rev t"] by simp
  moreover have "hd (trimByte c s) = hd t"
  proof -
    obtain zs where "t = trimByte c s @ zs"
      by (metis rev_append rev_rev_ident takeWhile_dropWhile_id t_def trimByte_def)
    then show ?thesis using * by simp
  qed
  moreover have "t \<noteq> []" using * unfolding trimByte_def t_def [symmetric] by auto
  then have "hd t \<noteq> c" using hd_dropWhile [of "\<lambda>x. x = c" s] by (simp add: t_def)
  ultimately show ?thesis by simp
qed

end
