(* ===== verification/Requester.thy ===== *)
theory Requester
  imports GoWeb "HOL-Library.Sublist"
begin

section \<open>Who may see and change which sandbox in the dashboard\<close>

text \<open>
  \<open>cmd/aks-sandbox-dashboard/principals.go\<close> and \<open>requester_authorization.go\<close>. A person who has signed in
  is known by tenant and object ID; the one binding of that principal names the logical tenants it
  may act for. The middleware before the embedded dashboard and the wrapper around its client let a
  request through only for sandboxes of these tenants.

  The custom resources are read with \<open>dashClient\<close>; the OpenSandbox client of the embedded dashboard is
  \<open>osbClient\<close>, whose events, requests and results are opaque, of the type \<open>'x\<close>. The identity is what
  the context holds. Errors are the sentinels that the code tests with \<open>errors.Is\<close>; the texts
  around them never leave the server.
\<close>

subsection \<open>Data\<close>

record authenticatedIdentity =
  aiTenantID :: string
  aiObjectID :: string
  aiName :: string
  aiRoles :: "string list"
  aiScopes :: "string list"
  aiExpiresAt :: time

datatype requesterError =
    RequesterUnauthorized | RequesterForbidden | RequesterUnavailable
  | SandboxAssignmentMissing | SandboxAssignmentAmbiguous | SandboxLogicalTenantEmpty | TemplateLogicalTenantEmpty
  | PrincipalBindingMissing | PrincipalBindingAmbiguous | OtherError go_error

type_synonym ('w, 'a) rcall = "(requesterError, 'w, 'a) step"

text \<open>A \<open>map[string]struct{}\<close> that may be nil.\<close>

type_synonym tenants = "string list option"

record principalTenantScopes =
  psRequester :: tenants
  psAdmin :: tenants

text \<open>\<open>Sandbox\<close> and \<open>Snapshot\<close> of the OpenSandbox client, as far as the code reads them.\<close>

record osbSandbox =
  osID :: string
  osMetadata :: "strmap option"

record osbSnapshot =
  snID :: string
  snSandboxID :: string

record 'w dashClient =
  dcListBindings :: "('w, unstructured list) call"
  dcToBinding :: "unstructured \<Rightarrow> go_error + SandboxPrincipalBinding"
  dcGetTemplate :: "string \<Rightarrow> ('w, unstructured) call"
  dcGetBundle :: "string \<Rightarrow> ('w, unstructured) call"
  dcGetAssignment :: "string \<Rightarrow> ('w, unstructured) call"
  dcListAssignments :: "('w, unstructured list) call"
  dcToAssignment :: "unstructured \<Rightarrow> go_error + SandboxAssignment"

record ('x, 'w) osbClient =
  ocListSandboxes :: "('w, osbSandbox list) call"
  ocListSnapshots :: "('w, osbSnapshot list) call"
  ocGetSnapshot :: "string \<Rightarrow> ('w, osbSnapshot) call"
  ocListSandboxNodeLoads :: "('w, 'x) call"
  ocListPodEvents :: "string \<Rightarrow> ('w, 'x) call"
  ocListRecentSandboxEvents :: "osbSandbox list \<Rightarrow> ('w, 'x) call"
  ocCreateSandbox :: "'x \<Rightarrow> ('w, osbSandbox) call"
  ocDeleteSandbox :: "osbSandbox \<Rightarrow> ('w, unit) call"
  ocPauseSandbox :: "string \<Rightarrow> ('w, unit) call"
  ocResumeSandbox :: "string \<Rightarrow> ('w, unit) call"
  ocCreateSnapshot :: "string \<Rightarrow> string \<Rightarrow> ('w, osbSnapshot) call"
  ocDeleteSnapshot :: "string \<Rightarrow> ('w, unit) call"
  ocOpenPTY :: "string \<Rightarrow> ('w, 'x) call"
  ocRunCommand :: "string \<Rightarrow> string \<Rightarrow> ('w, 'x) call"
  ocClose :: "('w, unit) call"

record ('x, 'w) requesterLifecycleAuthorizer =
  raClient :: "'w dashClient"
  raSandboxReader :: "('x, 'w) osbClient"
  raNamespace :: string
  raBasePath :: string
  raTemplateName :: string

text \<open>A request with the identity and the CSRF token of its context, its query, and its parsed content type.\<close>

record dashRequest = request +
  dqIdentity :: "authenticatedIdentity option"
  dqCSRF :: "string option"
  dqRawQuery :: string
  dqMedia :: "string \<times> bool"

definition newRequesterLifecycleAuthorizer ::
  "bool \<Rightarrow> bool \<Rightarrow> ('x, 'w) requesterLifecycleAuthorizer \<Rightarrow> go_error + ('x, 'w) requesterLifecycleAuthorizer" where
  "newRequesterLifecycleAuthorizer clientNil readerNil a =
     (if clientNil \<or> readerNil
      then Inl (ErrNew ''requester dashboard authorization requires Kubernetes and sandbox readers'')
      else if raNamespace a = [] \<or> raBasePath a = [] \<or> raTemplateName a = []
      then Inl (ErrNew ''requester dashboard authorization requires assignment namespace, base path, and sandbox template'')
      else Inr a)"

subsection \<open>Principals (principals.go)\<close>

definition tenantAllowed :: "tenants \<Rightarrow> string \<Rightarrow> bool" where
  "tenantAllowed tenants tenant \<longleftrightarrow> (case tenants of None \<Rightarrow> True | Some ts \<Rightarrow> tenant \<in> set ts)"

definition principalMatches :: "authenticatedIdentity \<Rightarrow> SandboxPrincipalBinding \<Rightarrow> bool" where
  "principalMatches identity binding \<longleftrightarrow>
     metaDeletionTimestamp binding = None \<and> pbTenantID (spbSpec binding) = aiTenantID identity \<and>
     pbObjectID (spbSpec binding) = aiObjectID identity"

text \<open>The loops decode every item before they look at it.\<close>

fun matchOnly ::
  "('a \<Rightarrow> go_error + 'b) \<Rightarrow> ('b \<Rightarrow> bool) \<Rightarrow> requesterError \<Rightarrow> 'a list \<Rightarrow> 'b option \<Rightarrow> requesterError + 'b option" where
  "matchOnly decode matches ambiguous [] matched = Inr matched"
| "matchOnly decode matches ambiguous (item # items) matched =
     (case decode item of
        Inl e \<Rightarrow> Inl (OtherError e)
      | Inr value \<Rightarrow>
          if \<not> matches value then matchOnly decode matches ambiguous items matched
          else if matched \<noteq> None then Inl ambiguous
          else matchOnly decode matches ambiguous items (Some value))"

definition loadPrincipalScopes :: "'w dashClient \<Rightarrow> authenticatedIdentity \<Rightarrow> ('w, principalTenantScopes) rcall" where
  "loadPrincipalScopes client identity =
     bindw (tryw (dcListBindings client) OtherError) (\<lambda>items.
     bindw (liftf (matchOnly (dcToBinding client) (principalMatches identity) PrincipalBindingAmbiguous items None)) (\<lambda>matched.
       case matched of
         None \<Rightarrow> exitw PrincipalBindingMissing
       | Some binding \<Rightarrow>
           retw \<lparr>psRequester = Some (pbRequesterTenants (spbSpec binding)), psAdmin = Some (pbAdminTenants (spbSpec binding))\<rparr>))"

subsection \<open>Tenants of requesters and sandboxes\<close>

text \<open>\<open>caught m\<close> goes on with the error of \<open>m\<close> or its value.\<close>

definition caught :: "('e, 'w, 'a) step \<Rightarrow> ('r, 'w, 'e + 'a) step" where
  "caught m w = (case m w of (r, w') \<Rightarrow> (Inr r, w'))"

definition authenticatedIdentityFromContext :: "authenticatedIdentity option \<Rightarrow> authenticatedIdentity option" where
  "authenticatedIdentityFromContext ctx =
     (case ctx of
        None \<Rightarrow> None
      | Some identity \<Rightarrow> if aiTenantID identity \<noteq> [] \<and> aiObjectID identity \<noteq> [] then Some identity else None)"

definition requesterTenants ::
  "('x, 'w) requesterLifecycleAuthorizer \<Rightarrow> authenticatedIdentity option \<Rightarrow> ('w, tenants) rcall" where
  "requesterTenants a ctx =
     (case authenticatedIdentityFromContext ctx of
        None \<Rightarrow> exitw RequesterUnauthorized
      | Some identity \<Rightarrow>
          bindw (caught (loadPrincipalScopes (raClient a) identity)) (\<lambda>loaded.
            case loaded of
              Inl e \<Rightarrow> exitw (if e \<in> {PrincipalBindingMissing, PrincipalBindingAmbiguous} then RequesterForbidden else RequesterUnavailable)
            | Inr scopes \<Rightarrow>
                if psRequester scopes = None \<or> psRequester scopes = Some [] then exitw RequesterForbidden
                else retw (psRequester scopes)))"

text \<open>\<open>nestedString\<close> of this file: empty when the path is not there or does not end in a string.\<close>

fun nestedStringField :: "json \<Rightarrow> string list \<Rightarrow> string" where
  "nestedStringField (JObj kvs) (f # fs) = (case map_of kvs f of None \<Rightarrow> [] | Some v \<Rightarrow> nestedStringField v fs)"
| "nestedStringField (JStr s) [] = s"
| "nestedStringField _ _ = []"

definition bundleLogicalTenant :: "('x, 'w) requesterLifecycleAuthorizer \<Rightarrow> string \<Rightarrow> ('w, string) rcall" where
  "bundleLogicalTenant a bundleName =
     bindw (tryw (dcGetBundle (raClient a) bundleName) (\<lambda>_. RequesterUnavailable)) (\<lambda>bundleObject.
     let logicalTenant = nestedStringField (uSpec bundleObject) [''governance'', ''logicalTenant''] in
       if trimSpace logicalTenant = [] then exitw SandboxLogicalTenantEmpty else retw logicalTenant)"

definition templateLogicalTenant :: "('x, 'w) requesterLifecycleAuthorizer \<Rightarrow> ('w, string) rcall" where
  "templateLogicalTenant a =
     bindw (tryw (dcGetTemplate (raClient a) (raTemplateName a)) (\<lambda>_. RequesterUnavailable)) (\<lambda>templateObject.
     let bundleName = nestedStringField (uSpec templateObject) [''capabilityBundleRef'', ''name''] in
       if trimSpace bundleName = [] then exitw TemplateLogicalTenantEmpty else bundleLogicalTenant a bundleName)"

definition assignmentMatches :: "string \<Rightarrow> SandboxAssignment \<Rightarrow> bool" where
  "assignmentMatches sandboxID value \<longleftrightarrow>
     metaDeletionTimestamp value = None \<and>
     (getS (metaAnnotations value) SandboxIDAnnotation = sandboxID \<or> getS (metaLabels value) SandboxIDLabel = sandboxID)"

definition assignmentForSandboxID :: "('x, 'w) requesterLifecycleAuthorizer \<Rightarrow> string \<Rightarrow> ('w, SandboxAssignment) rcall" where
  "assignmentForSandboxID a sandboxID =
     bindw (tryw (dcListAssignments (raClient a)) OtherError) (\<lambda>items.
     bindw (liftf (matchOnly (dcToAssignment (raClient a)) (assignmentMatches sandboxID) SandboxAssignmentAmbiguous items None)) (\<lambda>matched.
       case matched of None \<Rightarrow> exitw SandboxAssignmentMissing | Some value \<Rightarrow> retw value))"

definition assignmentByName :: "('x, 'w) requesterLifecycleAuthorizer \<Rightarrow> string \<Rightarrow> ('w, SandboxAssignment) rcall" where
  "assignmentByName a assignmentName =
     bindw (tryw (dcGetAssignment (raClient a) assignmentName) (\<lambda>_. SandboxAssignmentMissing)) (\<lambda>object.
     bindw (guardw (metaDeletionTimestamp object \<noteq> None) SandboxAssignmentMissing) (\<lambda>_.
       liftf (case dcToAssignment (raClient a) object of Inl e \<Rightarrow> Inl (OtherError e) | Inr value \<Rightarrow> Inr value)))"

definition assignmentForSandbox :: "('x, 'w) requesterLifecycleAuthorizer \<Rightarrow> osbSandbox \<Rightarrow> ('w, SandboxAssignment) rcall" where
  "assignmentForSandbox a sandbox =
     (let assignmentName = (case osMetadata sandbox of None \<Rightarrow> [] | Some metadata \<Rightarrow> trimSpace (getS metadata AssignmentLabel))
      in if assignmentName \<noteq> [] then assignmentByName a assignmentName else assignmentForSandboxID a (osID sandbox))"

text \<open>The common tail of \<open>sandboxLogicalTenant\<close> and \<open>sandboxLogicalTenantForSandbox\<close>.\<close>

definition assignmentTenant :: "('x, 'w) requesterLifecycleAuthorizer \<Rightarrow> SandboxAssignment \<Rightarrow> ('w, string) rcall" where
  "assignmentTenant a value =
     (let logicalTenant = trimSpace (saLogicalTenant (sasSpec value))
      in if logicalTenant \<noteq> [] then retw logicalTenant
         else bundleLogicalTenant a (cbrName (saCapabilityBundleRef (sasSpec value))))"

definition sandboxLogicalTenant :: "('x, 'w) requesterLifecycleAuthorizer \<Rightarrow> string \<Rightarrow> ('w, string) rcall" where
  "sandboxLogicalTenant a sandboxID = bindw (assignmentForSandboxID a sandboxID) (assignmentTenant a)"

definition sandboxLogicalTenantForSandbox :: "('x, 'w) requesterLifecycleAuthorizer \<Rightarrow> osbSandbox \<Rightarrow> ('w, string) rcall" where
  "sandboxLogicalTenantForSandbox a sandbox = bindw (assignmentForSandbox a sandbox) (assignmentTenant a)"

text \<open>A sandbox without one assignment or without a tenant is nobody's.\<close>

definition allowedTenant :: "('w, string) rcall \<Rightarrow> tenants \<Rightarrow> ('w, bool) rcall" where
  "allowedTenant resolve tenants =
     bindw (caught resolve) (\<lambda>resolved.
       case resolved of
         Inr logicalTenant \<Rightarrow> retw (tenantAllowed tenants logicalTenant)
       | Inl e \<Rightarrow>
           if e \<in> {SandboxAssignmentMissing, SandboxAssignmentAmbiguous, SandboxLogicalTenantEmpty} then retw False
           else exitw RequesterUnavailable)"

definition sandboxAllowed :: "('x, 'w) requesterLifecycleAuthorizer \<Rightarrow> string \<Rightarrow> tenants \<Rightarrow> ('w, bool) rcall" where
  "sandboxAllowed a sandboxID tenants = allowedTenant (sandboxLogicalTenant a sandboxID) tenants"

definition sandboxAllowedByObject :: "('x, 'w) requesterLifecycleAuthorizer \<Rightarrow> osbSandbox \<Rightarrow> tenants \<Rightarrow> ('w, bool) rcall" where
  "sandboxAllowedByObject a sandbox tenants = allowedTenant (sandboxLogicalTenantForSandbox a sandbox) tenants"

definition snapshotAllowed :: "('x, 'w) requesterLifecycleAuthorizer \<Rightarrow> osbSnapshot \<Rightarrow> tenants \<Rightarrow> ('w, bool) rcall" where
  "snapshotAllowed a snapshot tenants =
     (if trimSpace (snSandboxID snapshot) = [] then retw False else sandboxAllowed a (snSandboxID snapshot) tenants)"

subsection \<open>Authorization\<close>

definition authorizeTemplate :: "('x, 'w) requesterLifecycleAuthorizer \<Rightarrow> authenticatedIdentity option \<Rightarrow> ('w, unit) rcall" where
  "authorizeTemplate a ctx =
     bindw (requesterTenants a ctx) (\<lambda>tenants.
     bindw (templateLogicalTenant a) (\<lambda>logicalTenant.
       guardw (\<not> tenantAllowed tenants logicalTenant) RequesterForbidden))"

fun allAllowed :: "('a \<Rightarrow> ('w, bool) rcall) \<Rightarrow> 'a list \<Rightarrow> ('w, unit) rcall" where
  "allAllowed allow [] = retw ()"
| "allAllowed allow (item # items) =
     bindw (allow item) (\<lambda>allowed.
     bindw (guardw (\<not> allowed) RequesterForbidden) (\<lambda>_. allAllowed allow items))"

definition authorizeAggregateSandboxes ::
  "('x, 'w) requesterLifecycleAuthorizer \<Rightarrow> authenticatedIdentity option \<Rightarrow> ('w, unit) rcall" where
  "authorizeAggregateSandboxes a ctx =
     bindw (requesterTenants a ctx) (\<lambda>tenants.
     bindw (tryw (ocListSandboxes (raSandboxReader a)) (\<lambda>_. RequesterUnavailable)) (\<lambda>sandboxes.
       allAllowed (\<lambda>sandbox. sandboxAllowedByObject a sandbox tenants) sandboxes))"

definition authorizeAggregateSnapshots ::
  "('x, 'w) requesterLifecycleAuthorizer \<Rightarrow> authenticatedIdentity option \<Rightarrow> ('w, unit) rcall" where
  "authorizeAggregateSnapshots a ctx =
     bindw (requesterTenants a ctx) (\<lambda>tenants.
     bindw (tryw (ocListSnapshots (raSandboxReader a)) (\<lambda>_. RequesterUnavailable)) (\<lambda>snapshots.
       allAllowed (\<lambda>snapshot. snapshotAllowed a snapshot tenants) snapshots))"

definition authorizeSandbox ::
  "('x, 'w) requesterLifecycleAuthorizer \<Rightarrow> authenticatedIdentity option \<Rightarrow> string \<Rightarrow> ('w, unit) rcall" where
  "authorizeSandbox a ctx sandboxID =
     bindw (requesterTenants a ctx) (\<lambda>tenants.
     bindw (sandboxAllowed a sandboxID tenants) (\<lambda>allowed.
       guardw (\<not> allowed) RequesterForbidden))"

subsection \<open>The middleware\<close>

definition relativePath :: "('x, 'w) requesterLifecycleAuthorizer \<Rightarrow> string \<Rightarrow> string option" where
  "relativePath a path =
     (case cutPrefix path (raBasePath a) of
        None \<Rightarrow> None
      | Some rel \<Rightarrow> Some (if rel = [] then ''/'' else if \<not> hasPrefix rel ''/'' then CHR ''/'' # rel else rel))"

definition isAggregateSandboxPath :: "string \<Rightarrow> bool" where
  "isAggregateSandboxPath rel \<longleftrightarrow>
     rel \<in> {''/'', ''/stats'', ''/snapshots'', ''/dashboard/overview'', ''/dashboard/stats'', ''/dashboard/snapshots''}"

definition pathHead :: "string \<Rightarrow> string" where
  "pathHead s = fst (cutAt (CHR ''/'') s)"

definition usesSandboxSnapshotTotals :: "string \<Rightarrow> bool" where
  "usesSandboxSnapshotTotals rel =
     (if hasPrefix rel ''/sandboxes/'' then \<not> containsChar (trimPrefix rel ''/sandboxes/'') (CHR ''/'')
      else if hasPrefix rel ''/dashboard/sandboxes/'' then
        (let rest = trimPrefix rel ''/dashboard/sandboxes/''
         in rest \<noteq> [] \<and> (rest = pathHead rest \<or> hasSuffix rel ''/fragment''))
      else False)"

fun firstSandbox :: "string list \<Rightarrow> string \<Rightarrow> string option" where
  "firstSandbox [] rel = None"
| "firstSandbox (p # ps) rel =
     (case cutPrefix rel p of
        Some rest \<Rightarrow> if rest \<noteq> [] \<and> pathHead rest \<noteq> [] then Some (pathHead rest) else firstSandbox ps rel
      | None \<Rightarrow> firstSandbox ps rel)"

definition sandboxPathValue :: "string \<Rightarrow> string option" where
  "sandboxPathValue rel = firstSandbox [''/sandboxes/'', ''/dashboard/sandboxes/''] rel"

definition writeRequesterAuthorizationError :: "requesterError \<Rightarrow> response" where
  "writeRequesterAuthorizationError e =
     (if e = RequesterUnauthorized then httpError ''Unauthorized'' 401
      else if e = RequesterForbidden then httpError ''Forbidden'' 403
      else httpError ''Requester authorization is unavailable'' 503)"

text \<open>Without a limit of its own \<open>ParseForm\<close> reads 10 MB.\<close>

definition maxFormSize :: nat where
  "maxFormSize = 10 * 2 ^ 20"

definition authorizeRequest :: "('x, 'w) requesterLifecycleAuthorizer \<Rightarrow> dashRequest \<Rightarrow> string \<Rightarrow> ('w, unit) rcall" where
  "authorizeRequest a r rel =
     (let ctx = dqIdentity r in
      if rqMethod r = ''POST'' \<and> rel = ''/dashboard/sandboxes'' then authorizeTemplate a ctx
      else if isAggregateSandboxPath rel then
        bindw (authorizeAggregateSandboxes a ctx) (\<lambda>_. authorizeAggregateSnapshots a ctx)
      else if rqMethod r = ''GET'' \<and> usesSandboxSnapshotTotals rel then
        (case sandboxPathValue rel of
           None \<Rightarrow> retw ()
         | Some sandboxID \<Rightarrow> bindw (authorizeSandbox a ctx sandboxID) (\<lambda>_. authorizeAggregateSnapshots a ctx))
      else if rqMethod r = ''POST'' \<and> rel = ''/dashboard/snapshots'' then
        (case requestForm (dqMedia r) maxFormSize (dqRawQuery r) r of
           Inl _ \<Rightarrow> exitw RequesterUnavailable
         | Inr form \<Rightarrow>
             (let sandboxID = trimSpace (formGet form ''sandboxID'')
              in if sandboxID \<noteq> [] then authorizeSandbox a ctx sandboxID else retw ()))
      else
        (case sandboxPathValue rel of
           None \<Rightarrow> retw ()
         | Some sandboxID \<Rightarrow> authorizeSandbox a ctx sandboxID))"

definition requesterMiddleware ::
  "('x, 'w) requesterLifecycleAuthorizer \<Rightarrow> (dashRequest \<Rightarrow> 'w \<Rightarrow> response \<times> 'w) \<Rightarrow> dashRequest \<Rightarrow> 'w \<Rightarrow> response \<times> 'w" where
  "requesterMiddleware a serveNext r w =
     (case relativePath a (rqPath r) of
        None \<Rightarrow> serveNext r w
      | Some rel \<Rightarrow>
          (case authorizeRequest a r rel w of
             (Inl e, w') \<Rightarrow> (writeRequesterAuthorizationError e, w')
           | (Inr _, w') \<Rightarrow> serveNext r w'))"

subsection \<open>The client of the dashboard\<close>

text \<open>Every method takes the authorizer, the base client and the identity of its context.\<close>

record ('x, 'w) authorizedDashboardClient =
  adBase :: "('x, 'w) osbClient"
  adAuthorizer :: "('x, 'w) requesterLifecycleAuthorizer"

definition WrapClient ::
  "('x, 'w) requesterLifecycleAuthorizer \<Rightarrow> ('x, 'w) osbClient option \<Rightarrow> ('x, 'w) authorizedDashboardClient option" where
  "WrapClient a client = (case client of None \<Rightarrow> None | Some base \<Rightarrow> Some \<lparr>adBase = base, adAuthorizer = a\<rparr>)"

definition basew :: "('w, 'a) call \<Rightarrow> ('w, 'a) rcall" where
  "basew c = tryw c OtherError"

fun filterAllowed :: "('a \<Rightarrow> ('w, bool) rcall) \<Rightarrow> 'a list \<Rightarrow> 'a list \<Rightarrow> ('w, 'a list) rcall" where
  "filterAllowed allow [] filtered = retw filtered"
| "filterAllowed allow (item # items) filtered =
     bindw (allow item) (\<lambda>allowed. filterAllowed allow items (if allowed then filtered @ [item] else filtered))"

definition filterSandboxes where
  "filterSandboxes c ctx sandboxes =
     bindw (requesterTenants (adAuthorizer c) ctx) (\<lambda>tenants.
       filterAllowed (\<lambda>sandbox. sandboxAllowedByObject (adAuthorizer c) sandbox tenants) sandboxes [])"

definition filterSnapshots where
  "filterSnapshots c ctx snapshots =
     bindw (requesterTenants (adAuthorizer c) ctx) (\<lambda>tenants.
       filterAllowed (\<lambda>snapshot. snapshotAllowed (adAuthorizer c) snapshot tenants) snapshots [])"

definition ListSandboxes where
  "ListSandboxes c ctx = bindw (basew (ocListSandboxes (adBase c))) (filterSandboxes c ctx)"

definition ListSnapshots where
  "ListSnapshots c ctx = bindw (basew (ocListSnapshots (adBase c))) (filterSnapshots c ctx)"

definition GetSnapshot where
  "GetSnapshot c ctx snapshotID =
     bindw (basew (ocGetSnapshot (adBase c) snapshotID)) (\<lambda>snapshot.
     bindw (requesterTenants (adAuthorizer c) ctx) (\<lambda>tenants.
     bindw (snapshotAllowed (adAuthorizer c) snapshot tenants) (\<lambda>allowed.
     bindw (guardw (\<not> allowed) RequesterForbidden) (\<lambda>_. retw snapshot))))"

definition ListSandboxNodeLoads where
  "ListSandboxNodeLoads c ctx = basew (ocListSandboxNodeLoads (adBase c))"

text \<open>The methods that name one sandbox ask for it first.\<close>

definition forSandbox ::
  "('x, 'w) authorizedDashboardClient \<Rightarrow> authenticatedIdentity option \<Rightarrow> string \<Rightarrow> ('w, 'a) call \<Rightarrow> ('w, 'a) rcall" where
  "forSandbox c ctx sandboxID op = bindw (authorizeSandbox (adAuthorizer c) ctx sandboxID) (\<lambda>_. basew op)"

definition ListPodEvents where
  "ListPodEvents c ctx sandboxID = forSandbox c ctx sandboxID (ocListPodEvents (adBase c) sandboxID)"

definition ListRecentSandboxEvents where
  "ListRecentSandboxEvents c ctx sandboxes =
     bindw (filterSandboxes c ctx sandboxes) (\<lambda>filtered. basew (ocListRecentSandboxEvents (adBase c) filtered))"

definition CreateSandbox where
  "CreateSandbox c ctx req = basew (ocCreateSandbox (adBase c) req)"

definition DeleteSandbox where
  "DeleteSandbox c ctx sandbox = forSandbox c ctx (osID sandbox) (ocDeleteSandbox (adBase c) sandbox)"

definition PauseSandbox where
  "PauseSandbox c ctx sandboxID = forSandbox c ctx sandboxID (ocPauseSandbox (adBase c) sandboxID)"

definition ResumeSandbox where
  "ResumeSandbox c ctx sandboxID = forSandbox c ctx sandboxID (ocResumeSandbox (adBase c) sandboxID)"

definition CreateSnapshot where
  "CreateSnapshot c ctx sandboxID name = forSandbox c ctx sandboxID (ocCreateSnapshot (adBase c) sandboxID name)"

definition DeleteSnapshot where
  "DeleteSnapshot c ctx snapshotID =
     bindw (GetSnapshot c ctx snapshotID) (\<lambda>snapshot. basew (ocDeleteSnapshot (adBase c) (snID snapshot)))"

definition OpenPTY where
  "OpenPTY c ctx sandboxID = forSandbox c ctx sandboxID (ocOpenPTY (adBase c) sandboxID)"

definition RunCommand where
  "RunCommand c ctx sandboxID command = forSandbox c ctx sandboxID (ocRunCommand (adBase c) sandboxID command)"

definition closeClient where
  "closeClient c = basew (ocClose (adBase c))"

subsection \<open>What is granted\<close>

lemma caught_eq [flow_simps]: "caught m w = (s, w') \<longleftrightarrow> (\<exists>r. m w = (r, w') \<and> s = Inr r)"
  by (cases "m w") (auto simp: caught_def)

text \<open>All items decode, and exactly one of them matches.\<close>

definition singledOut :: "('a \<Rightarrow> go_error + 'b) \<Rightarrow> ('b \<Rightarrow> bool) \<Rightarrow> 'a list \<Rightarrow> 'b \<Rightarrow> bool" where
  "singledOut decode matches items v \<longleftrightarrow> (\<exists>vs. map decode items = map Inr vs \<and> filter matches vs = [v])"

lemma matchOnly_iff:
  "matchOnly decode matches ambiguous items (Some v) = Inr m \<longleftrightarrow>
     m = Some v \<and> (\<exists>vs. map decode items = map Inr vs \<and> filter matches vs = [])"
  "matchOnly decode matches ambiguous items None = Inr (Some v) \<longleftrightarrow> singledOut decode matches items v"
proof -
  show some: "matchOnly decode matches ambiguous items (Some v) = Inr m \<longleftrightarrow>
     m = Some v \<and> (\<exists>vs. map decode items = map Inr vs \<and> filter matches vs = [])" for items v m
  proof (induction items)
    case (Cons item items)
    show ?case
    proof (cases "decode item")
      case (Inr x)
      then show ?thesis using Cons by (auto simp: map_eq_Cons_conv Cons_eq_map_conv)
    qed (auto simp: map_eq_Cons_conv Cons_eq_map_conv)
  qed auto
  show "matchOnly decode matches ambiguous items None = Inr (Some v) \<longleftrightarrow> singledOut decode matches items v"
  proof (induction items)
    case (Cons item items)
    show ?case
    proof (cases "decode item")
      case (Inr x)
      have "singledOut decode matches (item # items) v \<longleftrightarrow>
          (if matches x then v = x \<and> (\<exists>vs. map decode items = map Inr vs \<and> filter matches vs = []) else singledOut decode matches items v)"
        using Inr by (auto simp: singledOut_def Cons_eq_map_conv)
      then show ?thesis using Inr Cons by (auto simp: some)
    qed (auto simp: singledOut_def Cons_eq_map_conv)
  qed (auto simp: singledOut_def)
qed

text \<open>The requester may act for the tenants that its one binding lists.\<close>

definition requesterScope ::
  "('x, 'w) requesterLifecycleAuthorizer \<Rightarrow> authenticatedIdentity option \<Rightarrow> 'w \<Rightarrow> string list \<Rightarrow> 'w \<Rightarrow> bool" where
  "requesterScope a ctx w scope w' \<longleftrightarrow>
     (\<exists>identity items binding. ctx = Some identity \<and> aiTenantID identity \<noteq> [] \<and> aiObjectID identity \<noteq> [] \<and>
        dcListBindings (raClient a) w = (Inr items, w') \<and>
        singledOut (dcToBinding (raClient a))
          (\<lambda>b. metaDeletionTimestamp b = None \<and> pbTenantID (spbSpec b) = aiTenantID identity \<and> pbObjectID (spbSpec b) = aiObjectID identity)
          items binding \<and>
        scope = pbRequesterTenants (spbSpec binding) \<and> scope \<noteq> [])"

lemma loadPrincipalScopes_Inr:
  "loadPrincipalScopes client identity w = (Inr scopes, w') \<longleftrightarrow>
     (\<exists>items binding. dcListBindings client w = (Inr items, w') \<and>
        singledOut (dcToBinding client) (principalMatches identity) items binding \<and>
        scopes = \<lparr>psRequester = Some (pbRequesterTenants (spbSpec binding)), psAdmin = Some (pbAdminTenants (spbSpec binding))\<rparr>)"
  unfolding loadPrincipalScopes_def by (simp add: flow_simps) (metis matchOnly_iff(2))

lemma identityFromContext_Some:
  "authenticatedIdentityFromContext ctx = Some identity \<longleftrightarrow> ctx = Some identity \<and> aiTenantID identity \<noteq> [] \<and> aiObjectID identity \<noteq> []"
  by (auto simp: authenticatedIdentityFromContext_def split: option.splits if_splits)

lemma requesterTenants_Inr:
  "requesterTenants a ctx w = (Inr tenants, w') \<longleftrightarrow> (\<exists>scope. tenants = Some scope \<and> requesterScope a ctx w scope w')"
proof -
  have "requesterTenants a ctx w = (Inr tenants, w') \<longleftrightarrow>
      (\<exists>identity scopes. authenticatedIdentityFromContext ctx = Some identity \<and>
         loadPrincipalScopes (raClient a) identity w = (Inr scopes, w') \<and>
         psRequester scopes \<noteq> None \<and> psRequester scopes \<noteq> Some [] \<and> tenants = psRequester scopes)"
    by (auto simp: requesterTenants_def flow_simps split: option.splits)
  also have "\<dots> \<longleftrightarrow> (\<exists>identity items binding. authenticatedIdentityFromContext ctx = Some identity \<and>
         dcListBindings (raClient a) w = (Inr items, w') \<and>
         singledOut (dcToBinding (raClient a)) (principalMatches identity) items binding \<and>
         pbRequesterTenants (spbSpec binding) \<noteq> [] \<and> tenants = Some (pbRequesterTenants (spbSpec binding)))"
    unfolding loadPrincipalScopes_Inr by (rule iffI; elim exE conjE; force)
  finally show ?thesis unfolding requesterScope_def identityFromContext_Some principalMatches_def by blast
qed

text \<open>The sandbox has one assignment, and the tenant of that assignment is in scope.\<close>

definition sandboxGranted ::
  "('x, 'w) requesterLifecycleAuthorizer \<Rightarrow> authenticatedIdentity option \<Rightarrow> 'w \<Rightarrow> string \<Rightarrow> 'w \<Rightarrow> bool" where
  "sandboxGranted a ctx w sandboxID w' \<longleftrightarrow>
     (\<exists>scope w1 items value w2 tenant. requesterScope a ctx w scope w1 \<and>
        dcListAssignments (raClient a) w1 = (Inr items, w2) \<and>
        singledOut (dcToAssignment (raClient a))
          (\<lambda>v. metaDeletionTimestamp v = None \<and>
             (getS (metaAnnotations v) SandboxIDAnnotation = sandboxID \<or> getS (metaLabels v) SandboxIDLabel = sandboxID))
          items value \<and>
        assignmentTenant a value w2 = (Inr tenant, w') \<and> tenant \<in> set scope)"

lemma allowedTenant_Inr:
  "allowedTenant resolve (Some scope) w = (Inr True, w') \<longleftrightarrow> (\<exists>tenant. resolve w = (Inr tenant, w') \<and> tenant \<in> set scope)"
  by (auto simp: allowedTenant_def flow_simps tenantAllowed_def split: if_splits)

lemma authorizeSandbox_Inr: "authorizeSandbox a ctx sandboxID w = (Inr u, w') \<longleftrightarrow> sandboxGranted a ctx w sandboxID w'"
proof -
  have "authorizeSandbox a ctx sandboxID w = (Inr u, w') \<longleftrightarrow>
      (\<exists>scope w1. requesterScope a ctx w scope w1 \<and> sandboxAllowed a sandboxID (Some scope) w1 = (Inr True, w'))"
    by (simp add: authorizeSandbox_def flow_simps requesterTenants_Inr) (metis (full_types))
  also have "\<dots> \<longleftrightarrow> sandboxGranted a ctx w sandboxID w'"
    unfolding sandboxGranted_def sandboxAllowed_def allowedTenant_Inr sandboxLogicalTenant_def assignmentForSandboxID_def assignmentMatches_def
    by (simp add: flow_simps matchOnly_iff) blast
  finally show ?thesis .
qed

subsection \<open>The client is guarded\<close>

definition guarded ::
  "('x, 'w) authorizedDashboardClient \<Rightarrow> authenticatedIdentity option \<Rightarrow> string \<Rightarrow> ('w, 'a) rcall \<Rightarrow> ('w, 'a) call \<Rightarrow> bool" where
  "guarded c ctx sandboxID op baseOp \<longleftrightarrow>
     (\<forall>w r w'. op w = (r, w') \<longrightarrow>
        (\<exists>e. r = Inl e \<and> authorizeSandbox (adAuthorizer c) ctx sandboxID w = (Inl e, w')) \<or>
        (\<exists>w1. sandboxGranted (adAuthorizer c) ctx w sandboxID w1 \<and> basew baseOp w1 = (r, w')))"

lemma guarded_forSandbox: "guarded c ctx sandboxID (forSandbox c ctx sandboxID op) op"
  unfolding guarded_def
proof (intro allI impI)
  fix w r w'
  assume run: "forSandbox c ctx sandboxID op w = (r, w')"
  obtain s w1 where auth: "authorizeSandbox (adAuthorizer c) ctx sandboxID w = (s, w1)"
    by (cases "authorizeSandbox (adAuthorizer c) ctx sandboxID w")
  show "(\<exists>e. r = Inl e \<and> authorizeSandbox (adAuthorizer c) ctx sandboxID w = (Inl e, w')) \<or>
      (\<exists>w1. sandboxGranted (adAuthorizer c) ctx w sandboxID w1 \<and> basew op w1 = (r, w'))"
  proof (cases s)
    case (Inl e)
    with run auth show ?thesis by (simp add: forSandbox_def)
  next
    case (Inr u)
    with run auth have "basew op w1 = (r, w')" by (simp add: forSandbox_def)
    moreover have "sandboxGranted (adAuthorizer c) ctx w sandboxID w1" using auth Inr authorizeSandbox_Inr [of "adAuthorizer c" ctx sandboxID w u w1] by simp
    ultimately show ?thesis by blast
  qed
qed

text \<open>
  C9: the dashboard acts on a sandbox only for a requester of its tenant. Every method of the wrapped
  client that names a sandbox either refuses and has then only looked up who may do what, or the
  context holds an identity with exactly one binding, the sandbox has exactly one assignment that is not being
  deleted, and the tenant of that assignment is among the requester tenants of the binding; only
  then does the method of the OpenSandbox client run, once, and its result is passed on.
\<close>

theorem dashboard_client_guarded:
  "guarded c ctx i (ListPodEvents c ctx i) (ocListPodEvents (adBase c) i) \<and>
   guarded c ctx (osID s) (DeleteSandbox c ctx s) (ocDeleteSandbox (adBase c) s) \<and>
   guarded c ctx i (PauseSandbox c ctx i) (ocPauseSandbox (adBase c) i) \<and>
   guarded c ctx i (ResumeSandbox c ctx i) (ocResumeSandbox (adBase c) i) \<and>
   guarded c ctx i (CreateSnapshot c ctx i n) (ocCreateSnapshot (adBase c) i n) \<and>
   guarded c ctx i (OpenPTY c ctx i) (ocOpenPTY (adBase c) i) \<and>
   guarded c ctx i (RunCommand c ctx i cmd) (ocRunCommand (adBase c) i cmd)"
  by (simp add: ListPodEvents_def DeleteSandbox_def PauseSandbox_def ResumeSandbox_def CreateSnapshot_def OpenPTY_def RunCommand_def
      guarded_forSandbox)

text \<open>Which paths name a sandbox, and that the middleware asks for it under every method.\<close>

lemma sandbox_path_shape:
  assumes "sandboxPathValue rel = Some sandboxID"
  shows "\<not> isAggregateSandboxPath rel" "rel \<noteq> ''/dashboard/sandboxes''"
  using assms
  by (auto simp: sandboxPathValue_def isAggregateSandboxPath_def cutPrefix_def hasPrefix_def split: option.splits if_splits)

lemma authorizeRequest_sandbox:
  assumes "sandboxPathValue rel = Some sandboxID" "authorizeRequest a r rel w = (Inr u, w')"
  shows "\<exists>w1. sandboxGranted a (dqIdentity r) w sandboxID w1"
proof -
  have "rel \<noteq> ''/dashboard/snapshots''" using sandbox_path_shape(1) [OF assms(1)] by (auto simp: isAggregateSandboxPath_def)
  then obtain w1 where "authorizeSandbox a (dqIdentity r) sandboxID w = (Inr (), w1)"
    using assms sandbox_path_shape [OF assms(1)]
    by (auto simp: authorizeRequest_def Let_def flow_simps split: if_splits)
  then show ?thesis unfolding authorizeSandbox_Inr by blast
qed

lemma requesterError_status: "rspStatus (writeRequesterAuthorizationError e) \<in> {401, 403, 503}"
  by (simp add: writeRequesterAuthorizationError_def)

text \<open>
  a page of a sandbox is served only to a requester of its tenant. Whatever the method, a request
  for a path below the base path that names a sandbox, as a page or as an action, is answered with 401, 403 or 503
  without reaching the dashboard, or the sandbox is granted to the identity of the request.
\<close>

theorem sandbox_page_guarded:
  assumes "relativePath a (rqPath r) = Some rel" "sandboxPathValue rel = Some sandboxID"
    and "requesterMiddleware a serveNext r w = (response, w')"
  shows "(\<exists>e. authorizeRequest a r rel w = (Inl e, w') \<and> response = writeRequesterAuthorizationError e \<and>
            rspStatus response \<in> {401, 403, 503}) \<or>
    (\<exists>w1 w2. sandboxGranted a (dqIdentity r) w sandboxID w1 \<and> serveNext r w2 = (response, w'))"
proof (cases "authorizeRequest a r rel w")
  case (Pair s w2)
  show ?thesis
  proof (cases s)
    case (Inl e)
    with Pair assms(1,3) have "w2 = w'" "response = writeRequesterAuthorizationError e"
      by (auto simp: requesterMiddleware_def)
    then show ?thesis using Pair Inl requesterError_status [of e] by blast
  next
    case (Inr u)
    with Pair obtain w1 where "sandboxGranted a (dqIdentity r) w sandboxID w1"
      using authorizeRequest_sandbox [OF assms(2), of a r w u w2] by auto
    moreover have "serveNext r w2 = (response, w')" using assms(1,3) Pair Inr by (simp add: requesterMiddleware_def)
    ultimately show ?thesis by blast
  qed
qed

subsection \<open>Lists show what is in scope\<close>

lemma filterAllowed_Inr:
  assumes "filterAllowed allow items filtered w = (Inr kept, w')"
  shows "\<exists>verdicts. list_all2 (\<lambda>item b. \<exists>u u'. allow item u = (Inr b, u')) items verdicts \<and>
     kept = filtered @ map fst (filter snd (zip items verdicts))"
  using assms
proof (induction items arbitrary: filtered w)
  case Nil
  then show ?case by (simp add: flow_simps)
next
  case (Cons item items)
  then obtain b w1 where "allow item w = (Inr b, w1)"
      "filterAllowed allow items (if b then filtered @ [item] else filtered) w1 = (Inr kept, w')"
    by (auto simp: bindw_Inr)
  with Cons.IH [of "if b then filtered @ [item] else filtered" w1] obtain verdicts where
    "list_all2 (\<lambda>item b. \<exists>u u'. allow item u = (Inr b, u')) (item # items) (b # verdicts)"
    "kept = filtered @ map fst (filter snd (zip (item # items) (b # verdicts)))"
    by (cases b) auto
  then show ?case by blast
qed

lemma kept_items:
  assumes "list_all2 P items verdicts"
  shows "item \<in> set (map fst (filter snd (zip items verdicts))) \<Longrightarrow> item \<in> set items \<and> P item True"
    and "item \<in> set items \<Longrightarrow> item \<notin> set (map fst (filter snd (zip items verdicts))) \<Longrightarrow> P item False"
  using assms by (induction rule: list_all2_induct; auto split: if_splits)+

text \<open>The sandbox resolves to a tenant in scope, and does not.\<close>

definition objectInScope :: "('x, 'w) requesterLifecycleAuthorizer \<Rightarrow> string list \<Rightarrow> osbSandbox \<Rightarrow> bool" where
  "objectInScope a scope sandbox \<longleftrightarrow>
     (\<exists>u u' tenant. sandboxLogicalTenantForSandbox a sandbox u = (Inr tenant, u') \<and> tenant \<in> set scope)"

definition objectOutOfScope :: "('x, 'w) requesterLifecycleAuthorizer \<Rightarrow> string list \<Rightarrow> osbSandbox \<Rightarrow> bool" where
  "objectOutOfScope a scope sandbox \<longleftrightarrow>
     (\<exists>u u' r. sandboxLogicalTenantForSandbox a sandbox u = (r, u') \<and>
        (case r of Inr tenant \<Rightarrow> tenant \<notin> set scope
         | Inl e \<Rightarrow> e \<in> {SandboxAssignmentMissing, SandboxAssignmentAmbiguous, SandboxLogicalTenantEmpty}))"

lemma allowedTenant_False:
  assumes "allowedTenant resolve (Some scope) w = (Inr False, w')"
  shows "\<exists>r. resolve w = (r, w') \<and> (case r of Inr tenant \<Rightarrow> tenant \<notin> set scope
     | Inl e \<Rightarrow> e \<in> {SandboxAssignmentMissing, SandboxAssignmentAmbiguous, SandboxLogicalTenantEmpty})"
  using assms by (auto simp: allowedTenant_def flow_simps tenantAllowed_def split: if_splits sum.splits)

text \<open>
  the list of sandboxes is cut down to the scope of the requester. A successful
  \<open>ListSandboxes\<close> returns a part of what the OpenSandbox server lists, in its order; what it returns
  resolves to a tenant of the requester, and what it leaves out has another tenant, none, or not
  one assignment.
\<close>

theorem listed_sandboxes_in_scope:
  assumes "ListSandboxes c ctx w = (Inr kept, w')"
  shows "\<exists>sandboxes scope w1 w2. ocListSandboxes (adBase c) w = (Inr sandboxes, w1) \<and>
     requesterScope (adAuthorizer c) ctx w1 scope w2 \<and> subseq kept sandboxes \<and>
     (\<forall>sandbox \<in> set kept. objectInScope (adAuthorizer c) scope sandbox) \<and>
     (\<forall>sandbox \<in> set sandboxes - set kept. objectOutOfScope (adAuthorizer c) scope sandbox)"
proof -
  let ?a = "adAuthorizer c"
  obtain sandboxes w1 scope w2 where list: "ocListSandboxes (adBase c) w = (Inr sandboxes, w1)"
    and scope: "requesterScope ?a ctx w1 scope w2"
    and run: "filterAllowed (\<lambda>sandbox. sandboxAllowedByObject ?a sandbox (Some scope)) sandboxes [] w2 = (Inr kept, w')"
    using assms by (auto simp: ListSandboxes_def filterSandboxes_def basew_def bindw_Inr tryw_Inr requesterTenants_Inr)
  let ?P = "\<lambda>sandbox b. \<exists>u u'. sandboxAllowedByObject ?a sandbox (Some scope) u = (Inr b, u')"
  from filterAllowed_Inr [OF run] obtain verdicts where verdicts: "list_all2 ?P sandboxes verdicts"
    and kept: "kept = map fst (filter snd (zip sandboxes verdicts))" by auto
  have "subseq kept (map fst (zip sandboxes verdicts))" unfolding kept by (intro subseq_map subseq_filter_left)
  then have "subseq kept sandboxes" using list_all2_lengthD [OF verdicts] by simp
  moreover have "objectInScope ?a scope sandbox" if "sandbox \<in> set kept" for sandbox
    using kept_items(1) [OF verdicts, folded kept, OF that] by (auto simp: objectInScope_def sandboxAllowedByObject_def allowedTenant_Inr)
  moreover have "objectOutOfScope ?a scope sandbox" if "sandbox \<in> set sandboxes - set kept" for sandbox
  proof -
    from that kept_items(2) [OF verdicts, folded kept, of sandbox] obtain u u' where "allowedTenant (sandboxLogicalTenantForSandbox ?a sandbox) (Some scope) u = (Inr False, u')"
      unfolding sandboxAllowedByObject_def by auto
    from allowedTenant_False [OF this] show ?thesis unfolding objectOutOfScope_def by blast
  qed
  ultimately show ?thesis using list scope by blast
qed

text \<open>
  The form of a snapshot request is never read: its path is among the aggregate paths, so the case of
  the switch that reads the sandbox ID from the form cannot be reached, and a requester with one
  tenant of several may not take a snapshot of an own sandbox through the dashboard.
\<close>

theorem snapshot_form_unread:
  "authorizeRequest a (r\<lparr>rqBody := b, dqRawQuery := q, dqMedia := m\<rparr>) rel w = authorizeRequest a r rel w"
proof -
  have "isAggregateSandboxPath ''/dashboard/snapshots''" by (simp add: isAggregateSandboxPath_def)
  then show ?thesis by (auto simp: authorizeRequest_def Let_def)
qed

subsection \<open>An example\<close>

definition rqxMeta :: "strmap \<Rightarrow> object_meta" where
  "rqxMeta annotations = emptyMeta\<lparr>metaNamespace := ''assignments'', metaName := ''a1'', metaAnnotations := annotations\<rparr>"

definition rqxBinding :: SandboxPrincipalBinding where
  "rqxBinding = object_meta.extend emptyMeta \<lparr>spbSpec = \<lparr>pbTenantID = ''entra'', pbObjectID = ''alice'',
     pbServiceAccountNamespace = [], pbServiceAccountName = [], pbRequesterTenants = [''blue''], pbAdminTenants = []\<rparr>\<rparr>"

definition rqxAssignment :: SandboxAssignment where
  "rqxAssignment = object_meta.extend (rqxMeta [SandboxIDAnnotation \<mapsto> ''sb1''])
     \<lparr>sasSpec = \<lparr>saTemplateRef = \<lparr>trName = ''python'', trUID = ''u1'', trSpecRevision = ''r1''\<rparr>, saLogicalTenant = ''blue'',
        saCapabilityBundleRef = \<lparr>cbrName = ''b1'', cbrPolicyRevision = []\<rparr>\<rparr>, sasStatus = emptyAssignmentStatus\<rparr>"

definition rqxObject :: unstructured where
  "rqxObject = object_meta.extend emptyMeta \<lparr>uAPIVersion = [], uKind = [], uSpec = JNull, uStatus = JNull\<rparr>"

definition rqxClient :: "'w dashClient" where
  "rqxClient = \<lparr>dcListBindings = okw [rqxObject], dcToBinding = (\<lambda>_. Inr rqxBinding), dcGetTemplate = (\<lambda>_. okw rqxObject),
     dcGetBundle = (\<lambda>_. okw rqxObject), dcGetAssignment = (\<lambda>_. okw rqxObject), dcListAssignments = okw [rqxObject],
     dcToAssignment = (\<lambda>_. Inr rqxAssignment)\<rparr>"

definition rqxOsb :: "(unit, 'w) osbClient" where
  "rqxOsb = \<lparr>ocListSandboxes = okw [\<lparr>osID = ''sb1'', osMetadata = None\<rparr>, \<lparr>osID = ''sb2'', osMetadata = None\<rparr>],
     ocListSnapshots = okw [], ocGetSnapshot = (\<lambda>i. okw \<lparr>snID = i, snSandboxID = ''sb1''\<rparr>),
     ocListSandboxNodeLoads = okw (), ocListPodEvents = (\<lambda>_. okw ()), ocListRecentSandboxEvents = (\<lambda>_. okw ()),
     ocCreateSandbox = (\<lambda>_. okw \<lparr>osID = ''sb3'', osMetadata = None\<rparr>), ocDeleteSandbox = (\<lambda>_. okw ()), ocPauseSandbox = (\<lambda>_. okw ()),
     ocResumeSandbox = (\<lambda>_. okw ()), ocCreateSnapshot = (\<lambda>i n. okw \<lparr>snID = n, snSandboxID = i\<rparr>), ocDeleteSnapshot = (\<lambda>_. okw ()),
     ocOpenPTY = (\<lambda>_. okw ()), ocRunCommand = (\<lambda>_ _. okw ()), ocClose = okw ()\<rparr>"

definition rqxAuthorizer :: "(unit, 'w) requesterLifecycleAuthorizer" where
  "rqxAuthorizer = \<lparr>raClient = rqxClient, raSandboxReader = rqxOsb, raNamespace = ''assignments'', raBasePath = ''/osb'',
     raTemplateName = ''python''\<rparr>"

definition rqxIdentity :: authenticatedIdentity where
  "rqxIdentity = \<lparr>aiTenantID = ''entra'', aiObjectID = ''alice'', aiName = ''Alice'', aiRoles = [], aiScopes = [], aiExpiresAt = 0\<rparr>"

definition rqxRequest :: dashRequest where
  "rqxRequest = \<lparr>rqMethod = ''POST'', rqPath = ''/osb/dashboard/sandboxes/sb1/pause'', rqHeaders = [], rqBody = Inr [], rqScopes = None,
     dqIdentity = Some rqxIdentity, dqCSRF = Some ''token'', dqRawQuery = [], dqMedia = ([], True)\<rparr>"

definition rqxNext :: "dashRequest \<Rightarrow> unit \<Rightarrow> response \<times> unit" where
  "rqxNext r w = (\<lparr>rspStatus = 200, rspHeaders = [], rspBody = ''ok''\<rparr>, w)"

lemmas rqx_simps = rqxAuthorizer_def rqxClient_def rqxOsb_def rqxBinding_def rqxAssignment_def rqxIdentity_def rqxMeta_def emptyMeta_def
  object_meta.extend_def SandboxIDAnnotation_def SandboxIDLabel_def getS_def

lemma rqx_blue: "trimSpace ''blue'' = ''blue''"
  by code_simp

lemma rqx_tenants: "requesterTenants rqxAuthorizer (Some rqxIdentity) w = (Inr (Some [''blue'']), w)"
  by (simp add: requesterTenants_def authenticatedIdentityFromContext_def loadPrincipalScopes_def principalMatches_def
      bindw_def tryw_def caught_def liftf_def retw_def rqx_simps)

lemma rqx_assignment:
  "assignmentForSandboxID rqxAuthorizer ''sb1'' w = (Inr rqxAssignment, w)"
  "assignmentForSandboxID rqxAuthorizer ''sb2'' w = (Inl SandboxAssignmentMissing, w)"
  by (simp_all add: assignmentForSandboxID_def assignmentMatches_def bindw_def tryw_def liftf_def retw_def exitw_def rqx_simps)

lemma rqx_tenant: "assignmentTenant rqxAuthorizer rqxAssignment w = (Inr ''blue'', w)"
  by (simp add: assignmentTenant_def rqxAssignment_def object_meta.extend_def rqx_blue retw_def)

lemmas rqx_runs = rqx_tenants rqx_assignment rqx_tenant bindw_def tryw_def caught_def retw_def exitw_def guardw_def allowedTenant_def
  tenantAllowed_def

lemma rqx_authorized: "authorizeSandbox rqxAuthorizer (Some rqxIdentity) ''sb1'' w = (Inr (), w)"
  by (simp add: authorizeSandbox_def sandboxAllowed_def sandboxLogicalTenant_def rqx_runs)

theorem sandbox_page_guarded_witness:
  "(\<exists>w1 w2. sandboxGranted rqxAuthorizer (Some rqxIdentity) () ''sb1'' w1 \<and>
      rqxNext rqxRequest w2 = (\<lparr>rspStatus = 200, rspHeaders = [], rspBody = ''ok''\<rparr>, ()))"
proof -
  have rel: "relativePath (rqxAuthorizer :: (unit, unit) requesterLifecycleAuthorizer) (rqPath rqxRequest) = Some ''/dashboard/sandboxes/sb1/pause''"
    and sb: "sandboxPathValue ''/dashboard/sandboxes/sb1/pause'' = Some ''sb1''"
    by code_simp+
  have "authorizeSandbox (rqxAuthorizer :: (unit, unit) requesterLifecycleAuthorizer) (dqIdentity rqxRequest) ''sb1'' () = (Inr (), ())"
    by (simp add: rqxRequest_def rqx_authorized)
  then have "requesterMiddleware rqxAuthorizer rqxNext rqxRequest () = (\<lparr>rspStatus = 200, rspHeaders = [], rspBody = ''ok''\<rparr>, ())"
    using rel sb by (simp add: requesterMiddleware_def authorizeRequest_def Let_def rqxNext_def rqxRequest_def isAggregateSandboxPath_def)
  from sandbox_page_guarded [OF rel sb this] show ?thesis
    by (auto simp: rqxRequest_def)
qed

definition rqxWrapped :: "(unit, unit) authorizedDashboardClient" where
  "rqxWrapped = \<lparr>adBase = rqxOsb, adAuthorizer = rqxAuthorizer\<rparr>"

theorem listed_sandboxes_in_scope_witness:
  "ListSandboxes rqxWrapped (Some rqxIdentity) () = (Inr [\<lparr>osID = ''sb1'', osMetadata = None\<rparr>], ()) \<and>
   (\<exists>scope. objectInScope (rqxAuthorizer :: (unit, unit) requesterLifecycleAuthorizer) scope \<lparr>osID = ''sb1'', osMetadata = None\<rparr>)"
proof -
  have run: "ListSandboxes rqxWrapped (Some rqxIdentity) () = (Inr [\<lparr>osID = ''sb1'', osMetadata = None\<rparr>], ())"
    by (simp add: ListSandboxes_def filterSandboxes_def rqxWrapped_def basew_def rqxOsb_def sandboxAllowedByObject_def
        sandboxLogicalTenantForSandbox_def assignmentForSandbox_def Let_def rqx_runs)
  from listed_sandboxes_in_scope [OF run] run show ?thesis by (auto simp: rqxWrapped_def)
qed

end
