(* ===== verification/Session.thy ===== *)
theory Session
  imports Requester "HOL-Library.AList"
begin

section \<open>Signing in to the dashboard\<close>

text \<open>
  \<open>cmd/aks-sandbox-dashboard/auth.go\<close> and \<open>mise.go\<close>. The browser obtains an access token and posts it
  to \<open>/auth/session\<close>; MISE validates the token and returns its claims; the dashboard keeps a
  session in memory under the hash of a random cookie value, and the middleware puts identity and CSRF
  token of the session into the context of every other request.

  The state is the session store and the rest of the world, \<open>'w\<close>. \<open>authEnv\<close> has what the code calls: the
  clock, which may give a new time at every read, \<open>rand.Read\<close>, the token validator and the
  rendering of the pages. The mutex of the store makes each of its methods one step; the two locks of
  \<open>getSession\<close> delete what has expired, which no other method brings back.
\<close>

subsection \<open>The session store\<close>

definition sessionCookieName :: string where
  "sessionCookieName = ''osb_dashboard_session''"

definition maxSessions :: nat where
  "maxSessions = 10000"

record dashboardSession =
  dsIdentity :: authenticatedIdentity
  dsCSRFToken :: string
  dsCreatedAt :: time
  dsExpiresAt :: time

text \<open>The map from the SHA-256 of the cookie value to the session.\<close>

record memoryAuthStore =
  msSessions :: "(string \<times> dashboardSession) list"

definition newMemoryAuthStore :: memoryAuthStore where
  "newMemoryAuthStore = \<lparr>msSessions = []\<rparr>"

definition cleanupLocked :: "time \<Rightarrow> memoryAuthStore \<Rightarrow> memoryAuthStore" where
  "cleanupLocked now s = s\<lparr>msSessions := filter (\<lambda>(key, session). now < dsExpiresAt session) (msSessions s)\<rparr>"

definition deleteSession :: "string \<Rightarrow> memoryAuthStore \<Rightarrow> memoryAuthStore" where
  "deleteSession raw s = (if raw = [] then s else s\<lparr>msSessions := AList.delete (sha256Sum raw) (msSessions s)\<rparr>)"

definition storeSession :: "time \<Rightarrow> string \<Rightarrow> dashboardSession \<Rightarrow> memoryAuthStore \<Rightarrow> (go_error + unit) \<times> memoryAuthStore" where
  "storeSession now raw session s0 =
     (let s = cleanupLocked now s0
      in if maxSessions \<le> length (msSessions s) then (Inl (ErrNew ''dashboard session capacity reached''), s)
         else (Inr (), s\<lparr>msSessions := AList.update (sha256Sum raw) session (msSessions s)\<rparr>))"

definition lookupSession :: "time \<Rightarrow> string \<Rightarrow> memoryAuthStore \<Rightarrow> dashboardSession option \<times> memoryAuthStore" where
  "lookupSession now raw s =
     (case map_of (msSessions s) (sha256Sum raw) of
        None \<Rightarrow> (None, s)
      | Some session \<Rightarrow> if now < dsExpiresAt session then (Some session, s) else (None, deleteSession raw s))"

subsection \<open>The world\<close>

datatype authPage = LoginPage string | FlowPage string string string string | PkceScript

record 'w authEnv =
  aeNow :: "'w \<Rightarrow> time \<times> 'w"
  aeRandom :: "nat \<Rightarrow> ('w, string) call"
  aeValidate :: "string \<Rightarrow> ('w, authenticatedIdentity) call"
  aeRender :: "authPage \<Rightarrow> string"

record 'w authWorld =
  awStore :: memoryAuthStore
  awRest :: 'w

definition nowS :: "'w authEnv \<Rightarrow> ('r, 'w authWorld, time) step" where
  "nowS env w = (case aeNow env (awRest w) of (t, x) \<Rightarrow> (Inr t, w\<lparr>awRest := x\<rparr>))"

definition callS :: "('w, 'a) call \<Rightarrow> ('w authWorld, 'a) call" where
  "callS c w = (case c (awRest w) of (r, x) \<Rightarrow> (r, w\<lparr>awRest := x\<rparr>))"

definition storeS :: "(memoryAuthStore \<Rightarrow> 'a \<times> memoryAuthStore) \<Rightarrow> ('r, 'w authWorld, 'a) step" where
  "storeS f w = (case f (awStore w) of (a, s) \<Rightarrow> (Inr a, w\<lparr>awStore := s\<rparr>))"

definition randomValue :: "'w authEnv \<Rightarrow> nat \<Rightarrow> ('w authWorld, string) call" where
  "randomValue env bytes = bindw (callS (aeRandom env bytes)) (\<lambda>value. retw (b64Encode True [] value))"

definition createSession :: "'w authEnv \<Rightarrow> dashboardSession \<Rightarrow> ('w authWorld, string) call" where
  "createSession env session =
     bindw (randomValue env 32) (\<lambda>raw.
     bindw (nowS env) (\<lambda>now.
     bindw (storeS (storeSession now raw session)) (\<lambda>stored.
       liftf (case stored of Inl e \<Rightarrow> Inl e | Inr _ \<Rightarrow> Inr raw))))"

text \<open>The clock is read only when there is a session under the key.\<close>

definition getSession :: "'w authEnv \<Rightarrow> string \<Rightarrow> 'w authWorld \<Rightarrow> dashboardSession option \<times> 'w authWorld" where
  "getSession env raw w =
     (if raw = [] \<or> map_of (msSessions (awStore w)) (sha256Sum raw) = None then (None, w)
      else case aeNow env (awRest w) of (now, x) \<Rightarrow>
             (case lookupSession now raw (awStore w) of (found, s) \<Rightarrow> (found, w\<lparr>awStore := s, awRest := x\<rparr>)))"

definition cleanupSessions :: "'w authEnv \<Rightarrow> 'w authWorld \<Rightarrow> 'w authWorld" where
  "cleanupSessions env w =
     (case aeNow env (awRest w) of (now, x) \<Rightarrow> w\<lparr>awStore := cleanupLocked now (awStore w), awRest := x\<rparr>)"

subsection \<open>Cookies and headers\<close>

record dashboardAuth =
  daBasePath :: string
  daCookieSecure :: bool
  daSessionLifetime :: int
  daTenantID :: string
  daClientID :: string
  daScope :: string
  daRedirectURI :: string

text \<open>
  The age is \<open>int(Duration.Seconds())\<close>; below a hundred days the floating point number is exact
  enough to give the whole seconds.
\<close>

definition sessionCookie :: "dashboardAuth \<Rightarrow> string \<Rightarrow> time \<Rightarrow> int \<Rightarrow> cookie" where
  "sessionCookie a content expiresAt age =
     \<lparr>ckName = sessionCookieName, ckValue = content, ckPath = daBasePath a, ckExpires = expiresAt, ckMaxAge = age,
      ckHttpOnly = True, ckSecure = daCookieSecure a, ckSameSiteLax = True\<rparr>"

definition wholeSeconds :: "int \<Rightarrow> int" where
  "wholeSeconds d = (if d < 0 then - (- d div second) else d div second)"

definition setSessionCookie :: "dashboardAuth \<Rightarrow> string \<Rightarrow> time \<Rightarrow> time \<Rightarrow> header" where
  "setSessionCookie a content expiresAt now =
     setCookie [] (sessionCookie a content expiresAt (wholeSeconds (timeSub expiresAt now)))"

definition clearSessionCookie :: "dashboardAuth \<Rightarrow> header" where
  "clearSessionCookie a = setCookie [] (sessionCookie a [] zeroTime (- 1))"

definition withHeaders :: "header \<Rightarrow> response \<Rightarrow> response" where
  "withHeaders h response = response\<lparr>rspHeaders := h @ rspHeaders response\<rparr>"

lemma withHeaders_status [simp]: "rspStatus (withHeaders h response) = rspStatus response"
  by (simp add: withHeaders_def)

definition setAuthPageHeaders :: header where
  "setAuthPageHeaders =
     [(''Content-Type'', [''text/html; charset=utf-8'']), (''Cache-Control'', [''no-store'']),
      (''Content-Security-Policy'', [''default-src 'none'; script-src 'self'; style-src 'unsafe-inline'; connect-src 'self' https://login.microsoftonline.com; base-uri 'self'; frame-ancestors '' @ [CHR 0x27] @ ''none'' @ [CHR 0x27]])]"

subsection \<open>The middleware (auth.go)\<close>

definition publicPath :: "dashboardAuth \<Rightarrow> string \<Rightarrow> bool" where
  "publicPath a path \<longleftrightarrow>
     path \<in> set (map ((@) (daBasePath a))
       [''/login'', ''/auth/login'', ''/auth/redirect/'', ''/auth/config'', ''/auth/pkce.js'', ''/auth/session'', ''/healthz'']) \<or>
     hasPrefix path (daBasePath a @ ''/assets/'')"

definition shouldRedirectToLogin :: "dashRequest \<Rightarrow> bool" where
  "shouldRedirectToLogin r =
     (if rqMethod r \<noteq> ''GET'' \<or> equalFold (headerGet (rqHeaders r) ''Upgrade'') ''websocket'' then False
      else if equalFold (headerGet (rqHeaders r) ''HX-Request'') ''true'' then False
      else let accept = headerGet (rqHeaders r) ''Accept'' in accept = [] \<or> containsStr accept ''text/html'')"

definition unauthenticated :: "dashboardAuth \<Rightarrow> dashRequest \<Rightarrow> response" where
  "unauthenticated a r =
     withHeaders (clearSessionCookie a @ [(''Cache-Control'', [''no-store''])])
       (if shouldRedirectToLogin r then httpRedirect (rqMethod r) (daBasePath a @ ''/login'') else httpError ''Unauthorized'' 401)"

definition inSession :: "dashRequest \<Rightarrow> dashboardSession \<Rightarrow> dashRequest" where
  "inSession r session = r\<lparr>dqIdentity := Some (dsIdentity session), dqCSRF := Some (dsCSRFToken session)\<rparr>"

definition sessionMiddleware ::
  "'w authEnv \<Rightarrow> dashboardAuth \<Rightarrow> (dashRequest \<Rightarrow> 'w authWorld \<Rightarrow> response \<times> 'w authWorld) \<Rightarrow>
     dashRequest \<Rightarrow> 'w authWorld \<Rightarrow> response \<times> 'w authWorld" where
  "sessionMiddleware env a serveNext r w =
     (if publicPath a (rqPath r) then
        serveNext (if rqPath r = daBasePath a @ ''/auth/redirect/'' \<and> dqRawQuery r \<noteq> [] then r\<lparr>dqRawQuery := []\<rparr> else r) w
      else case requestCookie (rqHeaders r) sessionCookieName of
             None \<Rightarrow> (unauthenticated a r, w)
           | Some raw \<Rightarrow>
               (case getSession env raw w of
                  (Some session, w') \<Rightarrow> serveNext (inSession r session) w'
                | (None, w') \<Rightarrow> (unauthenticated a r, w')))"

subsection \<open>The handlers (auth.go)\<close>

definition authPageResponse :: "'w authEnv \<Rightarrow> authPage \<Rightarrow> response" where
  "authPageResponse env page = \<lparr>rspStatus = 200, rspHeaders = setAuthPageHeaders, rspBody = aeRender env page\<rparr>"

definition loginPage :: "'w authEnv \<Rightarrow> dashboardAuth \<Rightarrow> dashRequest \<Rightarrow> 'w authWorld \<Rightarrow> response \<times> 'w authWorld" where
  "loginPage env a r w =
     (let page = authPageResponse env (LoginPage (daBasePath a @ ''/auth/login'')) in
      case requestCookie (rqHeaders r) sessionCookieName of
        None \<Rightarrow> (page, w)
      | Some raw \<Rightarrow>
          (case getSession env raw w of
             (Some _, w') \<Rightarrow> (httpRedirect (rqMethod r) (daBasePath a @ ''/''), w')
           | (None, w') \<Rightarrow> (page, w')))"

definition renderAuthFlowPage :: "'w authEnv \<Rightarrow> dashboardAuth \<Rightarrow> string \<Rightarrow> string \<Rightarrow> response" where
  "renderAuthFlowPage env a action message =
     authPageResponse env (FlowPage action message (daBasePath a @ ''/auth/pkce.js'') (daBasePath a @ ''/auth/config''))"

definition ellipsis :: string where
  "ellipsis = [CHR 0xE2, CHR 0x80, CHR 0xA6]"

definition startLoginPage :: "'w authEnv \<Rightarrow> dashboardAuth \<Rightarrow> response" where
  "startLoginPage env a = renderAuthFlowPage env a ''start'' (''Redirecting to Microsoft sign in'' @ ellipsis)"

definition callbackPage :: "'w authEnv \<Rightarrow> dashboardAuth \<Rightarrow> response" where
  "callbackPage env a = renderAuthFlowPage env a ''callback'' (''Completing sign in'' @ ellipsis)"

definition authConfig :: "dashboardAuth \<Rightarrow> response" where
  "authConfig a =
     \<lparr>rspStatus = 200, rspHeaders = [(''Content-Type'', [''application/json'']), (''Cache-Control'', [''no-store''])],
      rspBody = encodeJson True (sortKeys (JObj
        [(''authorizationEndpoint'', JStr (''https://login.microsoftonline.com/'' @ daTenantID a @ ''/oauth2/v2.0/authorize'')),
         (''tokenEndpoint'', JStr (''https://login.microsoftonline.com/'' @ daTenantID a @ ''/oauth2/v2.0/token'')),
         (''clientId'', JStr (daClientID a)), (''scope'', JStr (''openid profile '' @ daScope a)),
         (''redirectUri'', JStr (daRedirectURI a)), (''basePath'', JStr (daBasePath a))])) @ [CHR 0x0A]\<rparr>"

definition pkceScript :: "'w authEnv \<Rightarrow> response" where
  "pkceScript env =
     \<lparr>rspStatus = 200, rspHeaders = [(''Content-Type'', [''text/javascript; charset=utf-8'']), (''Cache-Control'', [''no-store''])],
      rspBody = aeRender env PkceScript\<rparr>"

text \<open>\<open>minimumTime\<close> leaves zero times out.\<close>

definition minimumTime :: "time list \<Rightarrow> time" where
  "minimumTime values =
     foldl (\<lambda>least t. if t = zeroTime then least else if least = zeroTime \<or> t < least then t else least) zeroTime values"

definition sessionToken :: "dashRequest \<Rightarrow> string option" where
  "sessionToken r =
     (let authorization = headerGet (rqHeaders r) ''Authorization'' in
      if length authorization < 7 \<or> \<not> equalFold (take 7 authorization) ''Bearer '' then None
      else let token = trimSpace (drop 7 authorization) in if token = [] then None else Some token)"

definition openSession :: "'w authEnv \<Rightarrow> dashboardAuth \<Rightarrow> dashRequest \<Rightarrow> (response, 'w authWorld, response) step" where
  "openSession env a r =
     bindw (liftf (case sessionToken r of None \<Rightarrow> Inl (httpError ''Bearer token is required'' 401) | Some token \<Rightarrow> Inr token)) (\<lambda>token.
     bindw (tryw (callS (aeValidate env token)) (\<lambda>_. httpError ''Token validation failed'' 401)) (\<lambda>identity.
     bindw (nowS env) (\<lambda>now1.
     let expiresAt = minimumTime [aiExpiresAt identity, now1 + daSessionLifetime a] in
     bindw (nowS env) (\<lambda>now2.
     bindw (guardw (\<not> now2 < expiresAt) (httpError ''Token has expired'' 401)) (\<lambda>_.
     bindw (tryw (randomValue env 32) (\<lambda>_. httpError ''Failed to create dashboard session'' 503)) (\<lambda>csrfToken.
     bindw (nowS env) (\<lambda>now3.
     bindw (tryw (createSession env \<lparr>dsIdentity = identity, dsCSRFToken = csrfToken, dsCreatedAt = now3, dsExpiresAt = expiresAt\<rparr>)
              (\<lambda>_. httpError ''Failed to create dashboard session'' 503)) (\<lambda>sessionID.
     bindw (nowS env) (\<lambda>now4.
       retw \<lparr>rspStatus = 204, rspHeaders = setSessionCookie a sessionID expiresAt now4 @ [(''Cache-Control'', [''no-store''])],
             rspBody = []\<rparr>)))))))))"

definition postSession :: "'w authEnv \<Rightarrow> dashboardAuth \<Rightarrow> dashRequest \<Rightarrow> 'w authWorld \<Rightarrow> response \<times> 'w authWorld" where
  "postSession env a r = finishw (openSession env a r)"

definition csrfTokenFromContext :: "dashRequest \<Rightarrow> string option" where
  "csrfTokenFromContext r = (case dqCSRF r of None \<Rightarrow> None | Some token \<Rightarrow> if token \<noteq> [] then Some token else None)"

definition logout :: "dashboardAuth \<Rightarrow> dashRequest \<Rightarrow> 'w authWorld \<Rightarrow> response \<times> 'w authWorld" where
  "logout a r w =
     (withHeaders (clearSessionCookie a @ [(''Cache-Control'', [''no-store''])]) (httpRedirect (rqMethod r) (daBasePath a @ ''/login'')),
      case requestCookie (rqHeaders r) sessionCookieName of
        None \<Rightarrow> w
      | Some raw \<Rightarrow> w\<lparr>awStore := deleteSession raw (awStore w)\<rparr>)"

text \<open>\<open>RegisterRoutes\<close>: the handler of a method and a path below the base path. GET serves HEAD as well.\<close>

definition authRoute ::
  "'w authEnv \<Rightarrow> dashboardAuth \<Rightarrow> string \<Rightarrow> (dashRequest \<Rightarrow> 'w authWorld \<Rightarrow> response \<times> 'w authWorld) \<Rightarrow>
     dashRequest \<Rightarrow> 'w authWorld \<Rightarrow> response \<times> 'w authWorld" where
  "authRoute env a path otherwise r w =
     (let get = rqMethod r \<in> {''GET'', ''HEAD''}; post = rqMethod r = ''POST'' in
      if get \<and> path = ''/login'' then loginPage env a r w
      else if get \<and> path = ''/auth/login'' then (startLoginPage env a, w)
      else if get \<and> hasPrefix path ''/auth/redirect/'' then (callbackPage env a, w)
      else if get \<and> path = ''/auth/config'' then (authConfig a, w)
      else if get \<and> path = ''/auth/pkce.js'' then (pkceScript env, w)
      else if post \<and> path = ''/auth/session'' then postSession env a r w
      else if post \<and> path = ''/auth/logout'' then logout a r w
      else otherwise r w)"

subsection \<open>Token validation (mise.go)\<close>

record miseTokenValidator =
  mvPolicy :: string
  mvTenantID :: string
  mvRequiredScope :: string
  mvRequiredRole :: string

text \<open>A claim set is a map of names to values, like a form.\<close>

definition claimFirst :: "form \<Rightarrow> string \<Rightarrow> string" where
  "claimFirst claims name = formGet claims (toLower name)"

definition claimsAppend :: "form \<Rightarrow> string \<Rightarrow> string list \<Rightarrow> form" where
  "claimsAppend claims claim values = foldl (\<lambda>c v. formAdd c claim v) claims values"

fun decodeAll :: "string list \<Rightarrow> string list option" where
  "decodeAll [] = Some []"
| "decodeAll (v # vs) = (case (b64Decode v, decodeAll vs) of (Some d, Some ds) \<Rightarrow> Some (d # ds) | _ \<Rightarrow> None)"

text \<open>Go visits the headers in any order; the list is the order of one run.\<close>

fun subjectClaims :: "header \<Rightarrow> form \<Rightarrow> go_error + form" where
  "subjectClaims [] claims = Inr claims"
| "subjectClaims ((name, values) # headers) claims =
     (let lowerName = toLower name in
      if hasPrefix lowerName ''subject-token-claim-'' then
        subjectClaims headers (claimsAppend claims (trimPrefix lowerName ''subject-token-claim-'') values)
      else if hasPrefix lowerName ''subject-token-encoded-claim-'' then
        (case decodeAll values of
           None \<Rightarrow> Inl (ErrNew (''decode MISE claim '' @ trimPrefix lowerName ''subject-token-encoded-claim-''))
         | Some decoded \<Rightarrow> subjectClaims headers (claimsAppend claims (trimPrefix lowerName ''subject-token-encoded-claim-'') decoded))
      else subjectClaims headers claims)"

fun firstNonEmptyClaim :: "form \<Rightarrow> string list \<Rightarrow> string" where
  "firstNonEmptyClaim claims [] = []"
| "firstNonEmptyClaim claims (name # names) =
     (if claimFirst claims name \<noteq> [] then claimFirst claims name else firstNonEmptyClaim claims names)"

definition expandedClaimValues :: "string list \<Rightarrow> string list" where
  "expandedClaimValues values =
     concat (map (\<lambda>v. case obind (parseJson v) decodeStrings of
                        Some array \<Rightarrow> array
                      | None \<Rightarrow> fieldsBy (\<lambda>c. c = CHR '' '' \<or> c = CHR '','') v) values)"

text \<open>\<open>time.Unix(s, 0)\<close>: the seconds since the year 1 are an \<open>int64\<close>.\<close>

definition unixTime :: "int \<Rightarrow> time" where
  "unixTime s = (wrap64 (s + 62135596800) - 62135596800) * second"

definition miseHeaders :: "miseTokenValidator \<Rightarrow> string \<Rightarrow> header" where
  "miseHeaders v token =
     [(''Authorization'', [''Bearer '' @ token]), (''Original-Uri'', [''/dashboard/auth/session'']), (''Original-Method'', [''POST'']),
      (''Return-All-Subject-Token-Claims'', [''1''])] @
     (if mvPolicy v \<noteq> [] then [(''Mise-Inbound-Policies-To-Filter'', [mvPolicy v])] else [])"

definition claimIdentity :: "form \<Rightarrow> authenticatedIdentity" where
  "claimIdentity claims =
     \<lparr>aiTenantID = claimFirst claims ''tid'', aiObjectID = claimFirst claims ''oid'',
      aiName = firstNonEmptyClaim claims [''preferred_username'', ''upn'', ''name''],
      aiRoles = expandedClaimValues (formValues claims ''roles''), aiScopes = expandedClaimValues (formValues claims ''scp''),
      aiExpiresAt = zeroTime\<rparr>"

definition checkIdentity :: "miseTokenValidator \<Rightarrow> authenticatedIdentity \<Rightarrow> go_error option" where
  "checkIdentity v identity =
     (if aiTenantID identity \<noteq> mvTenantID v then 
      Some (ErrNew (''validated token tenant '' @ encodeString False (aiTenantID identity) @ '' does not match configured tenant''))
      else if aiObjectID identity = [] then Some (ErrNew ''validated token does not include oid'')
      else if mvRequiredScope v \<noteq> [] \<and> mvRequiredScope v \<notin> set (aiScopes identity)
      then Some (ErrNew (''validated token does not include required scope '' @ encodeString False (mvRequiredScope v)))
      else if mvRequiredRole v \<noteq> [] \<and> mvRequiredRole v \<notin> set (aiRoles identity)
      then Some (ErrNew (''validated token does not include required role '' @ encodeString False (mvRequiredRole v))) else None)"

text \<open>
  \<open>mise\<close> sends the request with the headers and returns status and headers of the answer. The error of
  \<open>Validate\<close> reaches the log only; the status and the description that a rejection quotes are left out.
\<close>

definition Validate ::
  "(header \<Rightarrow> ('w, response) call) \<Rightarrow> ('w \<Rightarrow> time \<times> 'w) \<Rightarrow> miseTokenValidator \<Rightarrow> string \<Rightarrow> ('w, authenticatedIdentity) call" where
  "Validate mise now v token =
     bindw (tryw (mise (miseHeaders v token)) (Errorf ''validate token with MISE'')) (\<lambda>response.
     bindw (guardw (rspStatus response \<noteq> 200) (ErrNew ''MISE rejected token'')) (\<lambda>_.
     bindw (liftf (subjectClaims (rspHeaders response) [])) (\<lambda>claims.
     let identity = claimIdentity claims in
     bindw (liftf (case checkIdentity v identity of Some e \<Rightarrow> Inl e | None \<Rightarrow> Inr ())) (\<lambda>_.
     bindw (liftf (case parseInt 64 (claimFirst claims ''exp'') of
                     None \<Rightarrow> Inl (ErrNew ''validated token has invalid exp claim'') | Some s \<Rightarrow> Inr s)) (\<lambda>s w.
       case now w of (t, w') \<Rightarrow>
         if t < unixTime s then (Inr (identity\<lparr>aiExpiresAt := unixTime s\<rparr>), w')
         else (Inl (ErrNew ''validated token has expired''), w'))))))"

subsection \<open>What the store promises\<close>

text \<open>
  The sessions that are alive at an instant, by the hash of the cookie value, are all that a user of the
  store can tell. Time does not run backwards between two operations: each law speaks of the instants
  from the clock reading of the operation on.
\<close>

locale session_store =
  fixes live :: "time \<Rightarrow> 's \<Rightarrow> string \<Rightarrow> dashboardSession option"
    and insert_at :: "time \<Rightarrow> string \<Rightarrow> dashboardSession \<Rightarrow> 's \<Rightarrow> (go_error + unit) \<times> 's"
    and lookup_at :: "time \<Rightarrow> string \<Rightarrow> 's \<Rightarrow> dashboardSession option \<times> 's"
    and remove :: "string \<Rightarrow> 's \<Rightarrow> 's"
    and cleanup_at :: "time \<Rightarrow> 's \<Rightarrow> 's"
    and invar :: "'s \<Rightarrow> bool"
  assumes insert_live: "invar s \<Longrightarrow> insert_at now raw session s = (Inr u, s') \<Longrightarrow> now \<le> t \<Longrightarrow>
      live t s' = (live t s)(sha256Sum raw := if t < dsExpiresAt session then Some session else None)"
    and insert_refused: "invar s \<Longrightarrow> insert_at now raw session s = (Inl e, s') \<Longrightarrow> now \<le> t \<Longrightarrow> live t s' = live t s"
    and lookup_found: "invar s \<Longrightarrow> lookup_at now raw s = (found, s') \<Longrightarrow> found = live now s (sha256Sum raw)"
    and lookup_live: "invar s \<Longrightarrow> lookup_at now raw s = (found, s') \<Longrightarrow> now \<le> t \<Longrightarrow> live t s' = live t s"
    and remove_live: "invar s \<Longrightarrow> raw \<noteq> [] \<Longrightarrow> live t (remove raw s) = (live t s)(sha256Sum raw := None)"
    and cleanup_live: "invar s \<Longrightarrow> now \<le> t \<Longrightarrow> live t (cleanup_at now s) = live t s"
    and kept: "invar s \<Longrightarrow> insert_at now raw session s = (r, s') \<Longrightarrow> invar s'"
      "invar s \<Longrightarrow> lookup_at now raw s = (found, s') \<Longrightarrow> invar s'"
      "invar s \<Longrightarrow> invar (remove raw s)" "invar s \<Longrightarrow> invar (cleanup_at now s)"
begin

text \<open>A session is found from its creation to its expiry, under its own cookie value.\<close>

lemma found_after_insert:
  assumes "invar s" "insert_at now raw session s = (Inr u, s1)" "now \<le> t" "lookup_at t other s1 = (found, s2)"
  shows "found = (if sha256Sum other = sha256Sum raw then if t < dsExpiresAt session then Some session else None
                  else live t s (sha256Sum other))"
  using lookup_found [OF kept(1) [OF assms(1,2)] assms(4)] insert_live [OF assms(1,2,3)] by simp

lemma not_found_after_remove:
  assumes "invar s" "raw \<noteq> []" "lookup_at t raw (remove raw s) = (found, s')"
  shows "found = None"
  using lookup_found [OF kept(3) [OF assms(1)] assms(3)] remove_live [OF assms(1,2)] by simp

text \<open>What is found is alive.\<close>

lemma found_stays:
  assumes "invar s" "lookup_at now raw s = (found, s1)" "now \<le> t" "lookup_at t raw s1 = (again, s2)"
  shows "again = live t s (sha256Sum raw)"
  using lookup_found [OF kept(2) [OF assms(1,2)] assms(4)] lookup_live [OF assms(1,2,3)] by simp

end

definition liveSessions :: "time \<Rightarrow> memoryAuthStore \<Rightarrow> string \<Rightarrow> dashboardSession option" where
  "liveSessions t s key =
     (case map_of (msSessions s) key of
        None \<Rightarrow> None
      | Some session \<Rightarrow> if t < dsExpiresAt session then Some session else None)"

definition storeOk :: "memoryAuthStore \<Rightarrow> bool" where
  "storeOk s \<longleftrightarrow> distinct (map fst (msSessions s)) \<and> length (msSessions s) \<le> maxSessions"

lemma map_of_filter_live:
  assumes "distinct (map fst xs)"
  shows "map_of (filter (\<lambda>(key, session). P session) xs) k = (case map_of xs k of None \<Rightarrow> None | Some x \<Rightarrow> if P x then Some x else None)"
  using assms
proof (induction xs)
  case (Cons kv xs)
  obtain key x where kv: "kv = (key, x)" by (cases kv)
  have "map_of xs key = None" using Cons.prems kv by (simp add: map_of_eq_None_iff)
  with Cons kv show ?case by (auto split: option.splits)
qed simp

lemma cleanup_map: "storeOk s \<Longrightarrow> map_of (msSessions (cleanupLocked now s)) k =
    (case map_of (msSessions s) k of None \<Rightarrow> None | Some x \<Rightarrow> if now < dsExpiresAt x then Some x else None)"
  by (simp add: cleanupLocked_def storeOk_def map_of_filter_live)

lemma cleanup_ok: "storeOk s \<Longrightarrow> storeOk (cleanupLocked now s)"
  by (auto simp: storeOk_def cleanupLocked_def distinct_map_filter intro: le_trans [OF length_filter_le])

lemma cleanup_liveSessions: "storeOk s \<Longrightarrow> now \<le> t \<Longrightarrow> liveSessions t (cleanupLocked now s) = liveSessions t s"
  by (auto simp: liveSessions_def cleanup_map fun_eq_iff split: option.splits)

lemma delete_ok: "storeOk s \<Longrightarrow> storeOk (deleteSession raw s)"
  by (auto simp: storeOk_def deleteSession_def distinct_delete intro: le_trans [OF length_delete_le])

lemma delete_liveSessions: "raw \<noteq> [] \<Longrightarrow> liveSessions t (deleteSession raw s) = (liveSessions t s)(sha256Sum raw := None)"
  by (auto simp: liveSessions_def deleteSession_def delete_conv' fun_eq_iff)

lemma update_size: "length (AList.update k v xs) \<le> Suc (length xs)"
  by (induction xs) auto

lemma update_bounded: "length xs < n \<Longrightarrow> length (AList.update k v xs) \<le> n"
  using update_size [of k v xs] by linarith

lemma storeSession_ok:
  assumes "storeOk s" "storeSession now raw session s = (r, s')"
  shows "storeOk s'"
proof (cases "maxSessions \<le> length (msSessions (cleanupLocked now s))")
  case True
  then show ?thesis using assms cleanup_ok by (auto simp: storeSession_def Let_def)
next
  case False
  moreover from this have "length (AList.update (sha256Sum raw) session (msSessions (cleanupLocked now s))) \<le> maxSessions"
    by (intro update_bounded) simp
  ultimately show ?thesis using assms cleanup_ok [OF assms(1), of now]
    by (auto simp: storeSession_def Let_def storeOk_def distinct_update)
qed

lemma storeSession_live:
  "storeOk s \<Longrightarrow> storeSession now raw session s = (Inr u, s') \<Longrightarrow> now \<le> t \<Longrightarrow>
     liveSessions t s' = (liveSessions t s)(sha256Sum raw := if t < dsExpiresAt session then Some session else None)"
  using cleanup_liveSessions [of s now t]
  by (auto simp: storeSession_def Let_def liveSessions_def update_conv' fun_eq_iff split: if_splits)

interpretation memory: session_store liveSessions storeSession lookupSession deleteSession cleanupLocked storeOk
proof unfold_locales
  fix s now raw session s' e and t :: time
  assume "storeOk s" "storeSession now raw session s = (Inl e, s')" "now \<le> t"
  then show "liveSessions t s' = liveSessions t s"
    by (auto simp: storeSession_def Let_def cleanup_liveSessions split: if_splits)
next
  fix s now raw found s' and t :: time
  assume *: "storeOk s" "lookupSession now raw s = (found, s')"
  show "found = liveSessions now s (sha256Sum raw)"
    using * by (auto simp: lookupSession_def liveSessions_def split: option.splits if_splits)
  assume "now \<le> t"
  then show "liveSessions t s' = liveSessions t s"
    using * by (auto simp: lookupSession_def liveSessions_def deleteSession_def delete_conv' fun_eq_iff split: option.splits if_splits)
next
  fix s now raw found s'
  assume "storeOk s" "lookupSession now raw s = (found, s')"
  then show "storeOk s'" by (auto simp: lookupSession_def delete_ok split: option.splits if_splits)
next
  fix s now raw session s' u and t :: time
  assume "storeOk s" "storeSession now raw session s = (Inr u, s')" "now \<le> t"
  then show "liveSessions t s' = (liveSessions t s)(sha256Sum raw := if t < dsExpiresAt session then Some session else None)"
    by (rule storeSession_live)
qed (auto intro: storeSession_ok delete_ok delete_liveSessions cleanup_liveSessions cleanup_ok)

text \<open>
  C10: the session store is a map of live sessions. An accepted session is found under its cookie value
  until it expires, whatever else was looked up; a session that was logged out is not found; a refused
  session, a lookup and the periodic cleanup change nothing that a lookup can tell; and the store never holds
  more than 10000 sessions, each under a hash of its own.
\<close>

theorem session_store_refines:
  assumes "storeOk s"
  shows "(\<forall>now raw session r s' t. storeSession now raw session s = (r, s') \<and> now \<le> t \<longrightarrow> storeOk s' \<and>
            liveSessions t s' = (if isl r then liveSessions t s
              else (liveSessions t s)(sha256Sum raw := if t < dsExpiresAt session then Some session else None))) \<and>
         (\<forall>now raw found s' t. lookupSession now raw s = (found, s') \<and> now \<le> t \<longrightarrow> storeOk s' \<and>
            found = liveSessions now s (sha256Sum raw) \<and> liveSessions t s' = liveSessions t s) \<and>
         (\<forall>raw t. raw \<noteq> [] \<longrightarrow> storeOk (deleteSession raw s) \<and>
            liveSessions t (deleteSession raw s) = (liveSessions t s)(sha256Sum raw := None)) \<and>
         (\<forall>now t. now \<le> t \<longrightarrow> storeOk (cleanupLocked now s) \<and> liveSessions t (cleanupLocked now s) = liveSessions t s)"
proof (intro conjI allI impI)
  fix now raw session r s' and t :: time
  assume *: "storeSession now raw session s = (r, s') \<and> now \<le> t"
  show "storeOk s'" using * memory.kept(1) assms by blast
  show "liveSessions t s' = (if isl r then liveSessions t s
              else (liveSessions t s)(sha256Sum raw := if t < dsExpiresAt session then Some session else None))"
    using * memory.insert_refused [OF assms, of now raw session] memory.insert_live [OF assms, of now raw session] by (cases r) auto
next
  fix now raw found s' and t :: time
  assume *: "lookupSession now raw s = (found, s') \<and> now \<le> t"
  show "storeOk s'" "found = liveSessions now s (sha256Sum raw)" "liveSessions t s' = liveSessions t s"
    using * memory.kept(2) memory.lookup_found memory.lookup_live assms by blast+
next
  fix raw :: string and t :: time
  assume "raw \<noteq> []"
  then show "storeOk (deleteSession raw s)" "liveSessions t (deleteSession raw s) = (liveSessions t s)(sha256Sum raw := None)"
    using memory.kept(3) [OF assms] memory.remove_live [OF assms] by blast+
next
  fix now t :: time
  assume "now \<le> t"
  then show "storeOk (cleanupLocked now s)" "liveSessions t (cleanupLocked now s) = liveSessions t s"
    using memory.kept(4) [OF assms] memory.cleanup_live [OF assms] by blast+
qed

subsection \<open>Sessions come from validated tokens\<close>

lemma nowS_eq [flow_simps]:
  "nowS env w = (s, w') \<longleftrightarrow> (\<exists>t x. aeNow env (awRest w) = (t, x) \<and> s = Inr t \<and> w' = w\<lparr>awRest := x\<rparr>)"
  by (auto simp: nowS_def split: prod.splits)

lemma callS_eq [flow_simps]:
  "callS c w = (s, w') \<longleftrightarrow> (\<exists>x. c (awRest w) = (s, x) \<and> w' = w\<lparr>awRest := x\<rparr>)"
  by (auto simp: callS_def split: prod.splits)

lemma storeS_eq [flow_simps]:
  "storeS f w = (s, w') \<longleftrightarrow> (\<exists>y st. f (awStore w) = (y, st) \<and> s = Inr y \<and> w' = w\<lparr>awStore := st\<rparr>)"
  by (auto simp: storeS_def split: prod.splits)

lemma minimumTime_two: "minimumTime [t, u] = (if t = zeroTime then u else if u = zeroTime then t else min t u)"
  by (simp add: minimumTime_def)

text \<open>A session that the token of a person stands for: validated, and bounded by the token and by the configured lifetime.\<close>

definition sessionOk :: "'w authEnv \<Rightarrow> dashboardAuth \<Rightarrow> dashboardSession \<Rightarrow> bool" where
  "sessionOk env a session \<longleftrightarrow>
     (\<exists>token x x'. aeValidate env token x = (Inr (dsIdentity session), x')) \<and>
     (aiExpiresAt (dsIdentity session) \<noteq> zeroTime \<longrightarrow> dsExpiresAt session \<le> aiExpiresAt (dsIdentity session)) \<and>
     (\<exists>now x x'. aeNow env x = (now, x') \<and> (now + daSessionLifetime a \<noteq> zeroTime \<longrightarrow> dsExpiresAt session \<le> now + daSessionLifetime a))"

text \<open>What opening a session does to the store: nothing, or one insertion of such a session.\<close>

definition insertion ::
  "'w authEnv \<Rightarrow> dashboardAuth \<Rightarrow> memoryAuthStore \<Rightarrow> string \<Rightarrow> dashboardSession \<Rightarrow> go_error + unit \<Rightarrow> memoryAuthStore \<Rightarrow> time \<Rightarrow> bool" where
  "insertion env a s raw session r s' now \<longleftrightarrow> sessionOk env a session \<and> storeSession now raw session s = (r, s')"

lemma createSession_Inr:
  "createSession env session w = (Inr raw, w') \<Longrightarrow> \<exists>now u. storeSession now raw session (awStore w) = (Inr u, awStore w')"
  by (auto simp: createSession_def randomValue_def flow_simps)

lemma createSession_Inl:
  "createSession env session w = (Inl e, w') \<Longrightarrow>
     awStore w' = awStore w \<or> (\<exists>now raw. storeSession now raw session (awStore w) = (Inl e, awStore w'))"
  by (auto simp: createSession_def randomValue_def flow_simps)

lemma session_bounds:
  assumes "aeValidate env token x = (Inr identity, x')" "aeNow env y = (now, y')"
    "dsIdentity session = identity" "dsExpiresAt session = minimumTime [aiExpiresAt identity, now + daSessionLifetime a]"
  shows "sessionOk env a session"
  using assms unfolding sessionOk_def minimumTime_two by (auto simp: min_le_iff_disj)

lemma openSession_Inr:
  assumes "openSession env a r w = (Inr response, w')"
  shows "\<exists>token session raw now now4 u. sessionToken r = Some token \<and> (\<exists>x x'. aeValidate env token x = (Inr (dsIdentity session), x')) \<and>
     insertion env a (awStore w) raw session (Inr u) (awStore w') now \<and>
     response = \<lparr>rspStatus = 204,
       rspHeaders = setSessionCookie a raw (dsExpiresAt session) now4 @ [(''Cache-Control'', [''no-store''])], rspBody = []\<rparr>"
proof -
  obtain token identity x x' now1 y csrf now3 raw now4 w1 w2 session where
    token: "sessionToken r = Some token" and validated: "aeValidate env token x = (Inr identity, x')" and
    clock: "aeNow env x' = (now1, y)" and
    session: "session = \<lparr>dsIdentity = identity, dsCSRFToken = csrf, dsCreatedAt = now3,
      dsExpiresAt = minimumTime [aiExpiresAt identity, now1 + daSessionLifetime a]\<rparr>" and
    created: "createSession env session w1 = (Inr raw, w2)" and store: "awStore w1 = awStore w" "awStore w' = awStore w2" and
    response: "response = \<lparr>rspStatus = 204,
       rspHeaders = setSessionCookie a raw (dsExpiresAt session) now4 @ [(''Cache-Control'', [''no-store''])], rspBody = []\<rparr>"
    using assms by (auto simp: openSession_def Let_def flow_simps randomValue_def)
  have ok: "sessionOk env a session" using validated clock by (rule session_bounds) (simp_all add: session)
  from createSession_Inr [OF created] obtain now u where "storeSession now raw session (awStore w1) = (Inr u, awStore w2)"
    by blast
  then have "insertion env a (awStore w) raw session (Inr u) (awStore w') now" using ok store by (simp add: insertion_def)
  moreover have "\<exists>x x'. aeValidate env token x = (Inr (dsIdentity session), x')" using validated session by auto
  ultimately show ?thesis using token response by blast
qed

lemma openSession_Inl:
  assumes "openSession env a r w = (Inl response, w')"
  shows "rspStatus response \<in> {401, 503}" "awStore w' = awStore w \<or>
     (\<exists>raw session e now. insertion env a (awStore w) raw session (Inl e) (awStore w') now)"
proof -
  show "rspStatus response \<in> {401, 503}" using assms by (auto simp: openSession_def Let_def flow_simps)
  consider "awStore w' = awStore w" |
    token identity x x' now1 y csrf now3 e w1 where "aeValidate env token x = (Inr identity, x')" "aeNow env x' = (now1, y)"
      "createSession env \<lparr>dsIdentity = identity, dsCSRFToken = csrf, dsCreatedAt = now3,
         dsExpiresAt = minimumTime [aiExpiresAt identity, now1 + daSessionLifetime a]\<rparr> w1 = (Inl e, w')" "awStore w1 = awStore w"
    using assms by (auto simp: openSession_def Let_def flow_simps randomValue_def)
  then show "awStore w' = awStore w \<or> (\<exists>raw session e now. insertion env a (awStore w) raw session (Inl e) (awStore w') now)"
  proof cases
    case (2 token identity x x' now1 y csrf now3 e w1)
    let ?session = "\<lparr>dsIdentity = identity, dsCSRFToken = csrf, dsCreatedAt = now3,
         dsExpiresAt = minimumTime [aiExpiresAt identity, now1 + daSessionLifetime a]\<rparr>"
    have ok: "sessionOk env a ?session" using 2(1,2) by (rule session_bounds) simp_all
    show ?thesis using createSession_Inl [OF 2(3)] ok 2(4) unfolding insertion_def by metis
  qed simp
qed

text \<open>The worlds that the dashboard can reach: its handlers run, its timer ticks, and the rest of the world does what it does.\<close>

inductive serving :: "'w authEnv \<Rightarrow> dashboardAuth \<Rightarrow> 'w authWorld \<Rightarrow> bool" for env a where
  start: "serving env a \<lparr>awStore = newMemoryAuthStore, awRest = x\<rparr>"
| signIn: "serving env a w \<Longrightarrow> postSession env a r w = (response, w') \<Longrightarrow> serving env a w'"
| signOut: "serving env a w \<Longrightarrow> logout a r w = (response, w') \<Longrightarrow> serving env a w'"
| lookup: "serving env a w \<Longrightarrow> getSession env raw w = (found, w') \<Longrightarrow> serving env a w'"
| tick: "serving env a w \<Longrightarrow> serving env a (cleanupSessions env w)"
| outside: "serving env a w \<Longrightarrow> serving env a (w\<lparr>awRest := x\<rparr>)"

definition servingOk :: "'w authEnv \<Rightarrow> dashboardAuth \<Rightarrow> memoryAuthStore \<Rightarrow> bool" where
  "servingOk env a s \<longleftrightarrow> storeOk s \<and> (\<forall>(key, session) \<in> set (msSessions s). sessionOk env a session)"

lemma servingOk_sub:
  "servingOk env a s \<Longrightarrow> storeOk s' \<Longrightarrow> set (msSessions s') \<subseteq> set (msSessions s) \<Longrightarrow> servingOk env a s'"
  by (auto simp: servingOk_def)

lemma set_AList_update: "set (AList.update k v xs) \<subseteq> insert (k, v) (set xs)"
  by (induction xs) auto

lemma servingOk_cleanup: "servingOk env a s \<Longrightarrow> servingOk env a (cleanupLocked now s)"
  by (rule servingOk_sub) (simp_all add: servingOk_def cleanup_ok, auto simp: cleanupLocked_def)

lemma servingOk_delete: "servingOk env a s \<Longrightarrow> servingOk env a (deleteSession raw s)"
  by (rule servingOk_sub) (simp_all add: servingOk_def delete_ok, auto simp: deleteSession_def AList.delete_eq)

lemma servingOk_insertion:
  assumes "servingOk env a s" "insertion env a s raw session r s' now"
  shows "servingOk env a s'"
proof -
  have store: "storeSession now raw session s = (r, s')" and ok: "sessionOk env a session"
    using assms(2) by (simp_all add: insertion_def)
  have "storeOk s'" using assms(1) store storeSession_ok by (auto simp: servingOk_def)
  moreover have "\<forall>(key, x) \<in> set (msSessions s'). sessionOk env a x"
    using store ok servingOk_cleanup [OF assms(1), of now] set_AList_update [of "sha256Sum raw" session "msSessions (cleanupLocked now s)"]
    by (auto simp: storeSession_def Let_def servingOk_def split: if_splits)
  ultimately show ?thesis by (simp add: servingOk_def)
qed

lemma lookupSession_store: "lookupSession now raw s = (found, s') \<Longrightarrow> s' = s \<or> s' = deleteSession raw s"
  by (auto simp: lookupSession_def split: option.splits if_splits)

lemma getSession_store: "getSession env raw w = (found, w') \<Longrightarrow> awStore w' = awStore w \<or> awStore w' = deleteSession raw (awStore w)"
  by (auto simp: getSession_def dest: lookupSession_store split: if_splits prod.splits)

lemma serving_ok: "serving env a w \<Longrightarrow> servingOk env a (awStore w)"
proof (induction rule: serving.induct)
  case (start x)
  then show ?case by (simp add: servingOk_def storeOk_def newMemoryAuthStore_def)
next
  case (signIn w r response w')
  then consider "openSession env a r w = (Inl response, w')" | "openSession env a r w = (Inr response, w')"
    by (auto simp: postSession_def finishw_eq)
  then show ?case
  proof cases
    case 1
    from openSession_Inl(2) [OF this] show ?thesis using servingOk_insertion signIn.IH by metis
  next
    case 2
    from openSession_Inr [OF this] show ?thesis using servingOk_insertion signIn.IH by metis
  qed
next
  case (signOut w r response w')
  then show ?case by (auto simp: logout_def servingOk_delete split: option.splits)
next
  case (lookup w raw found w')
  then show ?case using getSession_store [of env raw w found w'] by (auto simp: servingOk_delete)
next
  case (tick w)
  then show ?case by (auto simp: cleanupSessions_def servingOk_cleanup split: prod.splits)
qed simp

text \<open>
  a session stands for a validated token. Posting a bearer token opens a session, answered with 204 and
  the cookie that leads to it, only when the validator returned the identity that the session keeps; the
  session ends no later than the token and than the configured lifetime, and is alive under its cookie from
  then on until it expires. Every other answer is 401 or 503 and leaves the live sessions as they were.
\<close>

theorem session_opened:
  assumes "storeOk (awStore w)" "postSession env a r w = (response, w')"
  shows "(\<exists>token session raw now now4. sessionToken r = Some token \<and> (\<exists>x x'. aeValidate env token x = (Inr (dsIdentity session), x')) \<and>
      sessionOk env a session \<and> response = \<lparr>rspStatus = 204,
        rspHeaders = setSessionCookie a raw (dsExpiresAt session) now4 @ [(''Cache-Control'', [''no-store''])], rspBody = []\<rparr> \<and>
      (\<forall>t \<ge> now. liveSessions t (awStore w') =
         (liveSessions t (awStore w))(sha256Sum raw := if t < dsExpiresAt session then Some session else None))) \<or>
    (rspStatus response \<in> {401, 503} \<and> (\<exists>now. \<forall>t \<ge> now. liveSessions t (awStore w') = liveSessions t (awStore w)))"
proof -
  consider "openSession env a r w = (Inl response, w')" | "openSession env a r w = (Inr response, w')"
    using assms(2) by (auto simp: postSession_def finishw_eq)
  then show ?thesis
  proof cases
    case 1
    from openSession_Inl(2) [OF 1] have "\<exists>now. \<forall>t \<ge> now. liveSessions t (awStore w') = liveSessions t (awStore w)"
      using memory.insert_refused [OF assms(1)] unfolding insertion_def by metis
    with openSession_Inl(1) [OF 1] show ?thesis by blast
  next
    case 2
    from openSession_Inr [OF 2] show ?thesis using memory.insert_live [OF assms(1)] unfolding insertion_def by blast
  qed
qed

lemma getSession_Some:
  "getSession env raw w = (Some session, w') \<longleftrightarrow>
     (\<exists>now x. raw \<noteq> [] \<and> map_of (msSessions (awStore w)) (sha256Sum raw) = Some session \<and> aeNow env (awRest w) = (now, x) \<and>
        now < dsExpiresAt session \<and> w' = w\<lparr>awRest := x\<rparr>)"
  by (auto simp: getSession_def lookupSession_def split: prod.splits option.splits if_splits)

lemma unauthenticated_status: "rspStatus (unauthenticated a r) \<in> {303, 401}"
  by (simp add: unauthenticated_def)

text \<open>A request in a session: the cookie leads to a session that is alive and stands for a validated token.\<close>

definition signedIn :: "'w authEnv \<Rightarrow> dashboardAuth \<Rightarrow> dashRequest \<Rightarrow> 'w authWorld \<Rightarrow> dashboardSession \<Rightarrow> 'w authWorld \<Rightarrow> bool" where
  "signedIn env a r w session w1 \<longleftrightarrow>
     (\<exists>raw now x. requestCookie (rqHeaders r) sessionCookieName = Some raw \<and>
        map_of (msSessions (awStore w)) (sha256Sum raw) = Some session \<and> sessionOk env a session \<and>
        aeNow env (awRest w) = (now, x) \<and> now < dsExpiresAt session \<and> w1 = w\<lparr>awRest := x\<rparr>)"

lemma sessionMiddleware_cases:
  assumes "serving env a w" "\<not> publicPath a (rqPath r)" "sessionMiddleware env a serveNext r w = (response, w')"
  shows "response = unauthenticated a r \<or>
    (\<exists>session w1. signedIn env a r w session w1 \<and> serveNext (inSession r session) w1 = (response, w'))"
proof (cases "requestCookie (rqHeaders r) sessionCookieName")
  case None
  then show ?thesis using assms(2,3) by (simp add: sessionMiddleware_def)
next
  case (Some raw)
  show ?thesis
  proof (cases "getSession env raw w")
    case (Pair found w1)
    show ?thesis
    proof (cases found)
      case None
      then show ?thesis using assms(2,3) Pair Some by (simp add: sessionMiddleware_def)
    next
      case (Some session)
      have live: "getSession env raw w = (Some session, w1)" using Pair Some by simp
      then have "map_of (msSessions (awStore w)) (sha256Sum raw) = Some session" by (simp add: getSession_Some)
      then have "sessionOk env a session" using serving_ok [OF assms(1)] by (auto simp: servingOk_def dest: map_of_SomeD)
      then have "signedIn env a r w session w1"
        using live \<open>requestCookie (rqHeaders r) sessionCookieName = Some raw\<close> by (auto simp: signedIn_def getSession_Some)
      moreover have "serveNext (inSession r session) w1 = (response, w')"
        using assms(2,3) live \<open>requestCookie (rqHeaders r) sessionCookieName = Some raw\<close> by (simp add: sessionMiddleware_def)
      ultimately show ?thesis by blast
    qed
  qed
qed

text \<open>
  behind the middleware a request is in a session. In every world that the dashboard reaches, a request
  for a path that is not public is answered with 401 or the way to the login page, or its cookie leads to a
  session that has not expired and stands for a validated token, and the next handler gets the request with the
  identity and the CSRF token of that session.
\<close>

theorem console_needs_session:
  assumes "serving env a w" "\<not> publicPath a (rqPath r)" "sessionMiddleware env a serveNext r w = (response, w')"
  shows "(response = unauthenticated a r \<and> rspStatus response \<in> {303, 401}) \<or>
    (\<exists>session w1. signedIn env a r w session w1 \<and> serveNext (inSession r session) w1 = (response, w'))"
  using sessionMiddleware_cases [OF assms] unauthenticated_status by blast

text \<open>After signing out, the cookie leads nowhere.\<close>

lemma logout_ends_session:
  assumes "storeOk (awStore w)" "requestCookie (rqHeaders r) sessionCookieName = Some raw" "logout a r w = (response, w1)"
    "awStore w2 = awStore w1"
  shows "fst (getSession env raw w2) = None"
proof (cases "raw = []")
  case False
  have "awStore w2 = deleteSession raw (awStore w)" using assms(2,3,4) by (auto simp: logout_def)
  then show ?thesis using False by (simp add: getSession_def deleteSession_def delete_conv')
qed (simp add: getSession_def)

lemma case_prod_eq: "(case p of (t, x) \<Rightarrow> f t x) = v \<longleftrightarrow> (\<exists>t x. p = (t, x) \<and> f t x = v)"
  by (cases p) simp

text \<open>
  who MISE vouches for. An identity is accepted only from an answer 200 of MISE to a request with the
  token; its tenant is the configured one, its object ID is not empty, it has the required scope and
  role, and the expiry, read from the claim, is in the future.
\<close>

theorem mise_identity_checked:
  assumes "Validate mise clock v token w = (Inr identity, w')"
  shows "\<exists>response claims w1 now s. mise (miseHeaders v token) w = (Inr response, w1) \<and> rspStatus response = 200 \<and>
     subjectClaims (rspHeaders response) [] = Inr claims \<and> identity = (claimIdentity claims)\<lparr>aiExpiresAt := unixTime s\<rparr> \<and>
     aiTenantID identity = mvTenantID v \<and> aiObjectID identity \<noteq> [] \<and>
     (mvRequiredScope v = [] \<or> mvRequiredScope v \<in> set (aiScopes identity)) \<and>
     (mvRequiredRole v = [] \<or> mvRequiredRole v \<in> set (aiRoles identity)) \<and>
     parseInt 64 (claimFirst claims ''exp'') = Some s \<and> clock w1 = (now, w') \<and> now < aiExpiresAt identity"
proof -
  obtain response claims w1 s now where run: "mise (miseHeaders v token) w = (Inr response, w1)" "rspStatus response = 200"
      "subjectClaims (rspHeaders response) [] = Inr claims" "checkIdentity v (claimIdentity claims) = None"
      "parseInt 64 (claimFirst claims ''exp'') = Some s" "clock w1 = (now, w')" "now < unixTime s"
      "identity = (claimIdentity claims)\<lparr>aiExpiresAt := unixTime s\<rparr>"
    using assms by (auto simp: Validate_def Let_def flow_simps case_prod_eq split: if_splits)
  then show ?thesis by (intro exI conjI) (auto simp: checkIdentity_def split: if_splits)
qed

subsection \<open>An example\<close>

text \<open>A clock that shows the state, random bytes that are all the same, and one token that is accepted.\<close>

definition sxIdentity :: authenticatedIdentity where
  "sxIdentity = \<lparr>aiTenantID = ''entra'', aiObjectID = ''alice'', aiName = ''Alice'', aiRoles = [''OpenSandbox.Admin''],
     aiScopes = [''access_as_user''], aiExpiresAt = 5000 * second\<rparr>"

definition sxEnv :: "int authEnv" where
  "sxEnv = \<lparr>aeNow = (\<lambda>x. (x, x)), aeRandom = (\<lambda>n. okw (replicate n (CHR ''A''))),
     aeValidate = (\<lambda>token. if token = ''good'' then okw sxIdentity else failw (ErrNew ''rejected'')), aeRender = (\<lambda>_. [])\<rparr>"

definition sxAuth :: dashboardAuth where
  "sxAuth = \<lparr>daBasePath = ''/dashboard'', daCookieSecure = True, daSessionLifetime = 1800 * second, daTenantID = ''entra'',
     daClientID = ''client'', daScope = ''api'', daRedirectURI = ''https://console.example''\<rparr>"

definition sxRequest :: "string \<Rightarrow> header \<Rightarrow> dashRequest" where
  "sxRequest path h = \<lparr>rqMethod = ''POST'', rqPath = path, rqHeaders = h, rqBody = Inr [], rqScopes = None,
     dqIdentity = None, dqCSRF = None, dqRawQuery = [], dqMedia = ([], True)\<rparr>"

definition sxSignIn :: dashRequest where
  "sxSignIn = sxRequest ''/dashboard/auth/session'' [(''Authorization'', [''Bearer good''])]"

definition sxStart :: "int authWorld" where
  "sxStart = \<lparr>awStore = newMemoryAuthStore, awRest = 1000 * second\<rparr>"

definition sxToken :: string where
  "sxToken = b64Encode True [] (replicate 32 (CHR ''A''))"

definition sxSession :: dashboardSession where
  "sxSession = \<lparr>dsIdentity = sxIdentity, dsCSRFToken = sxToken, dsCreatedAt = 1000 * second, dsExpiresAt = 2800 * second\<rparr>"

definition sxSignedIn :: "int authWorld" where
  "sxSignedIn = sxStart\<lparr>awStore := \<lparr>msSessions = [(sha256Sum sxToken, sxSession)]\<rparr>\<rparr>"

lemma sx_token: "sessionToken sxSignIn = Some ''good''"
  by code_simp

lemma sx_token_set: "sxToken \<noteq> []"
  by code_simp

lemma sx_signIn: "postSession sxEnv sxAuth sxSignIn sxStart =
  (\<lparr>rspStatus = 204, rspHeaders = setSessionCookie sxAuth sxToken (2800 * second) (1000 * second) @ [(''Cache-Control'', [''no-store''])],
    rspBody = []\<rparr>, sxSignedIn)"
  by (simp add: postSession_def finishw_def openSession_def sx_token bindw_def tryw_def callS_def nowS_def sxEnv_def sxStart_def guardw_def
      randomValue_def createSession_def storeS_def storeSession_def cleanupLocked_def newMemoryAuthStore_def maxSessions_def sxAuth_def
      minimumTime_two sxIdentity_def zeroTime_def second_def sxSignedIn_def sxSession_def sxToken_def Let_def)

theorem session_opened_witness:
  "\<exists>session raw. rspStatus (fst (postSession sxEnv sxAuth sxSignIn sxStart)) = 204 \<and> sessionOk sxEnv sxAuth session \<and>
     (\<exists>now. \<forall>t \<ge> now. liveSessions t (awStore sxSignedIn) (sha256Sum raw) = (if t < dsExpiresAt session then Some session else None))"
proof -
  have ok: "storeOk (awStore sxStart)" by (simp add: storeOk_def sxStart_def newMemoryAuthStore_def)
  from session_opened [OF ok sx_signIn] obtain session raw now where "sessionOk sxEnv sxAuth session"
      "\<forall>t \<ge> now. liveSessions t (awStore sxSignedIn) =
         (liveSessions t (awStore sxStart))(sha256Sum raw := if t < dsExpiresAt session then Some session else None)"
    by auto
  then have "\<forall>t \<ge> now. liveSessions t (awStore sxSignedIn) (sha256Sum raw) = (if t < dsExpiresAt session then Some session else None)"
    by (metis fun_upd_same)
  moreover have "rspStatus (fst (postSession sxEnv sxAuth sxSignIn sxStart)) = 204" by (simp add: sx_signIn)
  ultimately show ?thesis using \<open>sessionOk sxEnv sxAuth session\<close> by blast
qed

theorem session_store_refines_witness:
  "liveSessions (1200 * second) (snd (storeSession (1000 * second) sxToken sxSession newMemoryAuthStore)) (sha256Sum sxToken) = Some sxSession"
proof -
  have ok: "storeOk newMemoryAuthStore" by (simp add: storeOk_def newMemoryAuthStore_def)
  obtain s' where run: "storeSession (1000 * second) sxToken sxSession newMemoryAuthStore = (Inr (), s')"
    by (simp add: storeSession_def Let_def cleanupLocked_def newMemoryAuthStore_def maxSessions_def)
  have le: "1000 * second \<le> 1200 * second" "1200 * second < dsExpiresAt sxSession" by (simp_all add: second_def sxSession_def)
  from session_store_refines [OF ok, THEN conjunct1, rule_format, of "1000 * second" sxToken sxSession "Inr ()" s' "1200 * second"] run le(1)
  have "liveSessions (1200 * second) s' = (liveSessions (1200 * second) newMemoryAuthStore)
      (sha256Sum sxToken := if 1200 * second < dsExpiresAt sxSession then Some sxSession else None)"
    by (simp only: sum.disc if_False)
  then show ?thesis using run le(2) by simp
qed

definition sxPage :: dashRequest where
  "sxPage = sxRequest ''/dashboard/admin'' [(''Cookie'', [''theme=dark; osb_dashboard_session='' @ sxToken])]"

definition sxNext :: "dashRequest \<Rightarrow> int authWorld \<Rightarrow> response \<times> int authWorld" where
  "sxNext r w = (\<lparr>rspStatus = 200, rspHeaders = [], rspBody = (case dqIdentity r of None \<Rightarrow> [] | Some i \<Rightarrow> aiName i)\<rparr>, w)"

lemma sx_cookie: "requestCookie (rqHeaders sxPage) sessionCookieName = Some sxToken"
  by code_simp

lemma sx_private: "\<not> publicPath sxAuth (rqPath sxPage)"
  by code_simp

lemma sx_page: "sessionMiddleware sxEnv sxAuth sxNext sxPage sxSignedIn = (\<lparr>rspStatus = 200, rspHeaders = [], rspBody = ''Alice''\<rparr>, sxSignedIn)"
proof -
  have "getSession sxEnv sxToken sxSignedIn = (Some sxSession, sxSignedIn)"
    unfolding getSession_Some by (simp add: sxSignedIn_def sxEnv_def sxStart_def sxSession_def second_def sx_token_set)
  then show ?thesis
    using sx_private sx_cookie by (simp add: sessionMiddleware_def sxNext_def inSession_def sxSession_def sxIdentity_def)
qed

theorem console_needs_session_witness:
  "\<exists>session w1. signedIn sxEnv sxAuth sxPage sxSignedIn session w1 \<and>
     sxNext (inSession sxPage session) w1 = (\<lparr>rspStatus = 200, rspHeaders = [], rspBody = ''Alice''\<rparr>, sxSignedIn)"
proof -
  have "serving sxEnv sxAuth sxStart" unfolding sxStart_def by (rule serving.start)
  then have reached: "serving sxEnv sxAuth sxSignedIn" using sx_signIn by (rule serving.signIn)
  from console_needs_session [OF reached sx_private sx_page] unauthenticated_status [of sxAuth sxPage] show ?thesis by auto
qed

definition sxMise :: "header \<Rightarrow> (int, response) call" where
  "sxMise h = okw \<lparr>rspStatus = 200, rspHeaders = [(''Subject-Token-Claim-Tid'', [''entra'']), (''Subject-Token-Encoded-Claim-Oid'', [''YWxpY2U='']),
     (''Subject-Token-Claim-Roles'', [[CHR ''['', CHR 0x22] @ ''reader'' @ [CHR 0x22, CHR '']'']]), (''Subject-Token-Claim-Scp'', [''access_as_user other'']),
     (''Subject-Token-Claim-Exp'', [''5000''])], rspBody = []\<rparr>"

definition sxValidator :: miseTokenValidator where
  "sxValidator = \<lparr>mvPolicy = [], mvTenantID = ''entra'', mvRequiredScope = ''access_as_user'', mvRequiredRole = ''reader''\<rparr>"

definition sxSubject :: authenticatedIdentity where
  "sxSubject = \<lparr>aiTenantID = ''entra'', aiObjectID = ''alice'', aiName = [], aiRoles = [''reader''],
     aiScopes = [''access_as_user'', ''other''], aiExpiresAt = 5000 * second\<rparr>"

theorem mise_identity_checked_witness:
  "Validate sxMise (\<lambda>x. (x, x)) sxValidator ''good'' (1000 * second) = (Inr sxSubject, 1000 * second) \<and> 1000 * second < aiExpiresAt sxSubject"
proof -
  have run: "Validate sxMise (\<lambda>x. (x, x)) sxValidator ''good'' (1000 * second) = (Inr sxSubject, 1000 * second)" by code_simp
  from mise_identity_checked [OF run] run show ?thesis by auto
qed

end
