(* ===== verification/Dashboard.thy ===== *)
theory Dashboard
  imports Session Governance Controller
begin

section \<open>Access requests in the dashboard\<close>

text \<open>
  \<open>cmd/aks-sandbox-dashboard/governance.go\<close>, the handlers of access requests with all they call, and
  \<open>maxAccessDurationSeconds\<close> of \<open>tenants.go\<close>. A requester asks for temporary access to the exact target of a
  denied egress event; an administrator of the tenant approves or denies it. An approval is what the
  checker of the gateway honours later.

  \<open>govClient\<close> has the calls to the custom resources of the assignment namespace, the clock and the
  converters of \<open>apimachinery\<close>; \<open>govLib\<close> the validators outside the repository. A handler is a chain of
  steps that ends early with a response.
\<close>

subsection \<open>Parameters\<close>

definition governanceBodyLimit :: nat where
  "governanceBodyLimit = 16 * 2 ^ 10"

record govLib =
  glUuidOk :: "string \<Rightarrow> bool"
  glDnsErrors :: "string \<Rightarrow> string list"
  glDnsLabelErrors :: "string \<Rightarrow> string list"

record 'w govClient =
  gcBase :: "'w dashClient"
  gcNow :: "'w \<Rightarrow> time \<times> 'w"
  gcGetEvent :: "string \<Rightarrow> ('w, unstructured) call"
  gcListEvents :: "('w, unstructured list) call"
  gcToEvent :: "unstructured \<Rightarrow> go_error + SandboxEgressEvent"
  gcGetRequest :: "string \<Rightarrow> ('w, unstructured) call"
  gcListRequests :: "('w, unstructured list) call"
  gcCreateRequest :: "unstructured \<Rightarrow> ('w, unstructured) call"
  gcUpdateRequestStatus :: "unstructured \<Rightarrow> ('w, unstructured) call"
  gcToRequest :: "unstructured \<Rightarrow> go_error + SandboxAccessRequest"
  gcFromRequest :: "SandboxAccessRequest \<Rightarrow> go_error + unstructured"
  gcListPolicies :: "('w, unstructured list) call"
  gcToPolicy :: "unstructured \<Rightarrow> go_error + SandboxTenantPolicy"

record governanceDashboard =
  gdNamespace :: string
  gdBasePath :: string
  gdPublicOrigin :: string
  gdAdminRole :: string

type_synonym ('w, 'a) gstep = "(response, 'w, 'a) step"

definition clockW :: "'w govClient \<Rightarrow> ('r, 'w, time) step" where
  "clockW c w = (case gcNow c w of (t, w') \<Rightarrow> (Inr t, w'))"

subsection \<open>Answers\<close>

definition redirectWithMessage :: "governanceDashboard \<Rightarrow> dashRequest \<Rightarrow> string \<Rightarrow> string \<Rightarrow> response" where
  "redirectWithMessage g r path message = httpRedirect (rqMethod r) (gdBasePath g @ path @ ''?message='' @ QueryEscape message)"

definition internalError :: response where
  "internalError = httpError ''Governance operation failed'' 500"

definition resourceError :: "go_error \<Rightarrow> response" where
  "resourceError e =
     (if isNotFound e then httpError ''Resource not found'' 404
      else if isConflict e then httpError ''Resource changed; reload and retry'' 409
      else if isForbidden e then httpError ''Kubernetes authorization denied'' 403
      else httpError ''Governance operation failed'' 500)"

lemma error_status [simp]: "rspStatus internalError = 500" "rspStatus (resourceError e) \<in> {404, 409, 403, 500}"
  by (simp_all add: internalError_def resourceError_def)

lemma error_status_refusal [simp]: "400 \<le> rspStatus (resourceError e)"
  by (simp add: resourceError_def)

lemma redirectWithMessage_status [simp]: "rspStatus (redirectWithMessage g r path message) = 303"
  by (simp add: redirectWithMessage_def)

subsection \<open>Who asks\<close>

definition governanceRequestContext :: "dashRequest \<Rightarrow> (authenticatedIdentity \<times> string) option" where
  "governanceRequestContext r =
     (case (authenticatedIdentityFromContext (dqIdentity r), csrfTokenFromContext r) of
        (Some identity, Some csrf) \<Rightarrow> Some (identity, csrf)
      | _ \<Rightarrow> None)"

definition requireAdmin :: "governanceDashboard \<Rightarrow> dashRequest \<Rightarrow> response + authenticatedIdentity" where
  "requireAdmin g r =
     (case governanceRequestContext r of
        None \<Rightarrow> Inl (httpError ''Unauthorized'' 401)
      | Some (identity, _) \<Rightarrow>
          if gdAdminRole g \<notin> set (aiRoles identity) then Inl (httpError ''Forbidden'' 403) else Inr identity)"

text \<open>\<open>principalScopes\<close> with the answer to its failure.\<close>

definition principalScopes :: "'w govClient \<Rightarrow> authenticatedIdentity \<Rightarrow> ('w, principalTenantScopes) rcall" where
  "principalScopes c identity = loadPrincipalScopes (gcBase c) identity"

definition notAdministrator :: response where
  "notAdministrator = httpError ''Administrator is not authorized for this logical tenant'' 403"

definition requireTenantScope :: "'w govClient \<Rightarrow> authenticatedIdentity \<Rightarrow> string \<Rightarrow> ('w, unit) gstep" where
  "requireTenantScope c identity logicalTenant =
     bindw (caught (principalScopes c identity)) (\<lambda>scopes.
       guardw (case scopes of Inl _ \<Rightarrow> True | Inr s \<Rightarrow> \<not> tenantAllowed (psAdmin s) logicalTenant) notAdministrator)"

definition requireAdminTenant ::
  "'w govClient \<Rightarrow> governanceDashboard \<Rightarrow> dashRequest \<Rightarrow> string \<Rightarrow> ('w, authenticatedIdentity) gstep" where
  "requireAdminTenant c g r logicalTenant =
     bindw (liftf (requireAdmin g r)) (\<lambda>identity.
     bindw (requireTenantScope c identity logicalTenant) (\<lambda>_. retw identity))"

text \<open>The requester and the tenants that its binding lists.\<close>

definition requireRequester :: "'w govClient \<Rightarrow> dashRequest \<Rightarrow> ('w, authenticatedIdentity \<times> string list) gstep" where
  "requireRequester c r =
     (case governanceRequestContext r of
        None \<Rightarrow> exitw (httpError ''Unauthorized'' 401)
      | Some (identity, _) \<Rightarrow>
          bindw (caught (principalScopes c identity)) (\<lambda>scopes.
            case scopes of
              Inl _ \<Rightarrow> exitw (httpError ''Forbidden'' 403)
            | Inr s \<Rightarrow> (case psRequester s of
                          Some (t # ts) \<Rightarrow> retw (identity, t # ts)
                        | _ \<Rightarrow> exitw (httpError ''Forbidden'' 403))))"

subsection \<open>Forms\<close>

definition formContentType :: "dashRequest \<Rightarrow> string" where
  "formContentType r = toLower (trimSpace (hd (splitOn (CHR '';'') (headerGet (rqHeaders r) ''Content-Type''))))"

definition missingField :: "string list \<Rightarrow> form \<Rightarrow> string option" where
  "missingField allowed form = List.find (\<lambda>name. length (formValues form name) \<noteq> 1) allowed"

definition csrfMatches :: "dashRequest \<Rightarrow> form \<Rightarrow> bool" where
  "csrfMatches r form \<longleftrightarrow> csrfTokenFromContext r = Some (formGet form ''csrf'')"

definition parseMutation :: "governanceDashboard \<Rightarrow> dashRequest \<Rightarrow> string list \<Rightarrow> response + form" where
  "parseMutation g r allowed =
     seqf (guardf (dqRawQuery r \<noteq> []) (httpError ''Query parameters are not accepted'' 400)) (\<lambda>_.
     seqf (guardf (headerGet (rqHeaders r) ''Origin'' \<noteq> gdPublicOrigin g \<or> equalFold (headerGet (rqHeaders r) ''Sec-Fetch-Site'') ''cross-site'')
       (httpError ''Cross-site request rejected'' 403)) (\<lambda>_.
     seqf (guardf (formContentType r \<noteq> ''application/x-www-form-urlencoded'') (httpError ''Unsupported content type'' 415)) (\<lambda>_.
     seqf (case postForm (dqMedia r) governanceBodyLimit r of Inl _ \<Rightarrow> Inl (httpError ''Invalid form body'' 400) | Inr f \<Rightarrow> Inr f) (\<lambda>form.
     seqf (guardf (list_ex (\<lambda>(name, values). name \<notin> set allowed \<or> length values \<noteq> 1) form) (httpError ''Invalid form fields'' 400)) (\<lambda>_.
     seqf (case missingField allowed form of None \<Rightarrow> Inr () | Some name \<Rightarrow> Inl (httpError (''Missing form field: '' @ name) 400)) (\<lambda>_.
     seqf (guardf (\<not> csrfMatches r form) (httpError ''Invalid CSRF token'' 403)) (\<lambda>_. Inr form)))))))"

definition parseDurationMinutes :: "string \<Rightarrow> string + int" where
  "parseDurationMinutes content =
     (case parseInt 64 content of
        None \<Rightarrow> Inl ''duration must be a whole number of minutes''
      | Some minutes \<Rightarrow>
          let duration = wrap64 (minutes * (60 * second))
          in if duration < MinimumRequestedDuration \<or> MaximumRequestedDuration < duration
             then Inl ''duration must be between 1 and 480 minutes'' else Inr duration)"

definition requireDuration :: "form \<Rightarrow> response + int" where
  "requireDuration form =
     (case parseDurationMinutes (formGet form ''durationMinutes'') of Inl e \<Rightarrow> Inl (httpError e 400) | Inr d \<Rightarrow> Inr d)"

definition requireReason :: "form \<Rightarrow> response + string" where
  "requireReason form =
     (let reason = formGet form ''decisionReason'' in
      if length (trimSpace reason) < 3 \<or> 512 < length reason then Inl (httpError ''Decision reason must be 3-512 characters'' 400)
      else Inr reason)"

subsection \<open>Requests, events and assignments\<close>

definition requestState :: "SandboxAccessRequestStatus \<Rightarrow> string" where
  "requestState status = (if rtState status = [] then SandboxAccessRequestPending else rtState status)"

definition pendingRequest ::
  "'w govClient \<Rightarrow> govLib \<Rightarrow> string \<Rightarrow> ('w, unstructured \<times> SandboxAccessRequest) gstep" where
  "pendingRequest c lib name =
     bindw (guardw (glDnsErrors lib name \<noteq> []) (httpError ''Invalid access request name'' 400)) (\<lambda>_.
     bindw (tryw (gcGetRequest c name) resourceError) (\<lambda>object.
     bindw (liftf (case gcToRequest c object of Inl _ \<Rightarrow> Inl internalError | Inr request \<Rightarrow> Inr request)) (\<lambda>request.
     bindw (guardw (requestState (sarStatus request) \<noteq> SandboxAccessRequestPending)
       (httpError ''Access request has already been decided'' 409)) (\<lambda>_. retw (object, request)))))"

definition staleAssignment :: "unstructured \<Rightarrow> AssignmentReference \<Rightarrow> bool" where
  "staleAssignment object ref \<longleftrightarrow> metaDeletionTimestamp object \<noteq> None \<or> metaUID object \<noteq> arUID ref"

definition resolvedBundleField :: "unstructured \<Rightarrow> string \<Rightarrow> string" where
  "resolvedBundleField object field = strAt (uStatus object) [''resolvedCapabilityBundle'', field]"

definition validateEventAssignment :: "'w govClient \<Rightarrow> SandboxEgressEventSpec \<Rightarrow> (string, 'w, unit) step" where
  "validateEventAssignment c event =
     bindw (tryw (dcGetAssignment (gcBase c) (arName (esAssignmentRef event))) (\<lambda>_. ''assignment is no longer available'')) (\<lambda>object.
     bindw (guardw (staleAssignment object (esAssignmentRef event)) ''denied event belongs to a stale assignment incarnation'') (\<lambda>_.
       guardw (resolvedBundleField object ''name'' \<noteq> esCapabilityBundleName event \<or>
               resolvedBundleField object ''policyRevision'' \<noteq> esCapabilityBundleRevision event)
         ''denied event belongs to a stale capability policy revision''))"

definition validateRequestAssignment :: "'w govClient \<Rightarrow> SandboxAccessRequestSpec \<Rightarrow> (string, 'w, unit) step" where
  "validateRequestAssignment c spec =
     bindw (tryw (dcGetAssignment (gcBase c) (arName (rsAssignmentRef spec))) (\<lambda>_. ''assignment is no longer available'')) (\<lambda>object.
     bindw (guardw (staleAssignment object (rsAssignmentRef spec)) ''access request belongs to a stale assignment incarnation'') (\<lambda>_.
       guardw (resolvedBundleField object ''policyRevision'' \<noteq> rsBasePolicyRevision spec)
         ''access request belongs to a stale capability policy revision''))"

definition orConflict :: "(string, 'w, 'a) step \<Rightarrow> ('w, 'a) gstep" where
  "orConflict m w = (case m w of (Inl e, w') \<Rightarrow> (Inl (httpError e 409), w') | (Inr v, w') \<Rightarrow> (Inr v, w'))"

text \<open>\<open>maxAccessDurationSeconds\<close> (tenants.go): the budget of the one enabled policy.\<close>

fun decodeItems :: "('a \<Rightarrow> go_error + 'b) \<Rightarrow> 'a list \<Rightarrow> go_error + 'b list" where
  "decodeItems decode [] = Inr []"
| "decodeItems decode (item # items) =
     seqf (decode item) (\<lambda>v. seqf (decodeItems decode items) (\<lambda>vs. Inr (v # vs)))"

definition enabledPolicy :: "string \<Rightarrow> SandboxTenantPolicy \<Rightarrow> bool" where
  "enabledPolicy logicalTenant policy \<longleftrightarrow>
     tpEnabled (stpSpec policy) \<and> tpLogicalTenant (stpSpec policy) = logicalTenant \<and> metaDeletionTimestamp policy = None"

definition maxAccessDurationSeconds :: "'w govClient \<Rightarrow> string \<Rightarrow> (string, 'w, int) step" where
  "maxAccessDurationSeconds c logicalTenant =
     bindw (tryw (gcListPolicies c) errorText) (\<lambda>items.
     bindw (liftf (case decodeItems (gcToPolicy c) items of Inl e \<Rightarrow> Inl (errorText e) | Inr ps \<Rightarrow> Inr ps)) (\<lambda>policies.
       case filter (enabledPolicy logicalTenant) policies of
         [policy] \<Rightarrow> retw (tpMaxAccessRequestDurationSeconds (stpSpec policy))
       | _ \<Rightarrow> exitw (''logical tenant '' @ encodeString False logicalTenant @ '' must have exactly one enabled tenant policy'')))"

definition requireBudget :: "'w govClient \<Rightarrow> string \<Rightarrow> int \<Rightarrow> string \<Rightarrow> ('w, unit) gstep" where
  "requireBudget c logicalTenant duration message =
     bindw (orConflict (maxAccessDurationSeconds c logicalTenant)) (\<lambda>maxAccessSeconds.
       guardw (maxAccessSeconds * second < duration) (httpError message 400))"

text \<open>\<open>hasActiveDuplicate\<close>. The clock is read for every approved request that has an expiry.\<close>

definition sameGrant :: "SandboxAccessRequestSpec \<Rightarrow> SandboxAccessRequestSpec \<Rightarrow> bool" where
  "sameGrant s t \<longleftrightarrow>
     rsAssignmentRef s = rsAssignmentRef t \<and> rsBasePolicyRevision s = rsBasePolicyRevision t \<and> rsBackend s = rsBackend t \<and>
     rsMethod s = rsMethod t \<and> rsHost s = rsHost t \<and> rsPath s = rsPath t"

definition activeRequest :: "'w govClient \<Rightarrow> SandboxAccessRequest \<Rightarrow> ('r, 'w, bool) step" where
  "activeRequest c request =
     (let state = requestState (sarStatus request) in
      if state = SandboxAccessRequestPending then retw True
      else if state \<noteq> SandboxAccessRequestApproved then retw False
      else case rtExpiresAt (sarStatus request) of
             None \<Rightarrow> retw False
           | Some expiresAt \<Rightarrow> bindw (clockW c) (\<lambda>now. retw (now < expiresAt)))"

fun findDuplicate :: "'w govClient \<Rightarrow> SandboxAccessRequestSpec \<Rightarrow> unstructured list \<Rightarrow> ('w, bool) call" where
  "findDuplicate c spec [] = retw False"
| "findDuplicate c spec (item # items) =
     (case gcToRequest c item of
        Inl e \<Rightarrow> exitw e
      | Inr request \<Rightarrow>
          bindw (activeRequest c request) (\<lambda>active.
            if active \<and> sameGrant (sarSpec request) spec then retw True else findDuplicate c spec items))"

definition hasActiveDuplicate :: "'w govClient \<Rightarrow> SandboxAccessRequestSpec \<Rightarrow> ('w, bool) call" where
  "hasActiveDuplicate c spec = bindw (gcListRequests c) (findDuplicate c spec)"

definition updateRequestStatus :: "'w govClient \<Rightarrow> unstructured \<Rightarrow> SandboxAccessRequestStatus \<Rightarrow> ('w, unstructured) call" where
  "updateRequestStatus c object status =
     bindw (liftf (gcToRequest c object)) (\<lambda>request.
     bindw (liftf (gcFromRequest c (request\<lparr>sarStatus := status\<rparr>))) (gcUpdateRequestStatus c))"

definition governanceIdentity :: "govLib \<Rightarrow> authenticatedIdentity \<Rightarrow> string \<Rightarrow> string \<Rightarrow> go_error + GovernanceIdentity" where
  "governanceIdentity lib identity logicalTenant team =
     (let result = \<lparr>giTenantID = aiTenantID identity, giObjectID = aiObjectID identity, giDisplayName = aiName identity,
                    giLogicalTenant = logicalTenant, giTeam = team\<rparr>
      in case ValidateIdentity (glUuidOk lib) result of Some e \<Rightarrow> Inl e | None \<Rightarrow> Inr result)"

subsection \<open>Handlers\<close>

definition emptyRequestStatus :: SandboxAccessRequestStatus where
  "emptyRequestStatus = \<lparr>rtState = [], rtApprover = None, rtDecisionReason = [], rtApprovedAt = None, rtExpiresAt = None\<rparr>"

definition requestSpecFor :: "authenticatedIdentity \<Rightarrow> SandboxEgressEventSpec \<Rightarrow> Target \<Rightarrow> string \<Rightarrow> int \<Rightarrow> SandboxAccessRequestSpec" where
  "requestSpecFor identity event target reason duration =
     \<lparr>rsAssignmentRef = esAssignmentRef event, rsPodUID = esPodUID event, rsBasePolicyRevision = esCapabilityBundleRevision event,
      rsBackend = tgBackend target, rsMethod = tgMethod target, rsHost = tgHost target, rsPath = tgPath target, rsReason = reason,
      rsRequester = \<lparr>giTenantID = aiTenantID identity, giObjectID = aiObjectID identity, giDisplayName = aiName identity,
        giLogicalTenant = esLogicalTenant event, giTeam = esTeam event\<rparr>,
      rsRequestedDurationSeconds = duration div second\<rparr>"

definition newAccessRequest :: "governanceDashboard \<Rightarrow> SandboxAccessRequestSpec \<Rightarrow> SandboxAccessRequest" where
  "newAccessRequest g spec = object_meta.extend (emptyMeta\<lparr>metaNamespace := gdNamespace g, metaGenerateName := ''access-''\<rparr>)
     \<lparr>sarSpec = spec, sarStatus = emptyRequestStatus\<rparr>"

text \<open>The checks on the event that access is asked for.\<close>

definition deniedEventTarget ::
  "'w govClient \<Rightarrow> string list \<Rightarrow> string \<Rightarrow> ('w, SandboxEgressEventSpec \<times> Target) gstep" where
  "deniedEventTarget c tenants eventName =
     bindw (tryw (gcGetEvent c eventName) resourceError) (\<lambda>eventObject.
     bindw (liftf (case gcToEvent c eventObject of Inl _ \<Rightarrow> Inl internalError | Inr event \<Rightarrow> Inr (seeSpec event))) (\<lambda>event.
     bindw (guardw (esAllowed event \<or> esDecisionSource event \<noteq> DecisionSourceDeny)
       (httpError ''Access can only be requested from a denied event'' 409)) (\<lambda>_.
     bindw (guardw (\<not> tenantAllowed (Some tenants) (esLogicalTenant event))
       (httpError ''Denied event belongs to another logical tenant'' 403)) (\<lambda>_.
     bindw (liftf (case NormalizeTarget (esBackend event) (esMethod event) (esHost event) (esPath event) of
                     Inl _ \<Rightarrow> Inl (httpError ''Denied event target is invalid'' 409)
                   | Inr target \<Rightarrow> if target = eventTarget event then Inr target else Inl (httpError ''Denied event target is invalid'' 409)))
       (\<lambda>target.
     bindw (orConflict (validateEventAssignment c event)) (\<lambda>_. retw (event, target)))))))"

text \<open>Everything before the first write.\<close>

definition prepareRequest ::
  "'w govClient \<Rightarrow> govLib \<Rightarrow> governanceDashboard \<Rightarrow> dashRequest \<Rightarrow> ('w, unstructured) gstep" where
  "prepareRequest c lib g r =
     bindw (requireRequester c r) (\<lambda>(identity, tenants).
     bindw (liftf (parseMutation g r [''csrf'', ''eventName'', ''reason'', ''durationMinutes''])) (\<lambda>form.
     bindw (guardw (glDnsErrors lib (formGet form ''eventName'') \<noteq> []) (httpError ''Invalid event name'' 400)) (\<lambda>_.
     bindw (liftf (requireDuration form)) (\<lambda>duration.
     bindw (deniedEventTarget c tenants (formGet form ''eventName'')) (\<lambda>(event, target).
     bindw (requireBudget c (esLogicalTenant event) duration ''Requested duration exceeds the tenant access budget'') (\<lambda>_.
     let spec = requestSpecFor identity event target (formGet form ''reason'') duration in
     bindw (liftf (case ValidateAccessRequestSpec (glUuidOk lib) (glDnsErrors lib) spec of
                     Some e \<Rightarrow> Inl (httpError (''Invalid access request: '' @ errorText e) 400) | None \<Rightarrow> Inr ())) (\<lambda>_.
     bindw (tryw (hasActiveDuplicate c spec) (\<lambda>_. internalError)) (\<lambda>duplicate.
     bindw (guardw duplicate (httpError ''An active request already exists for this exact target'' 409)) (\<lambda>_.
       liftf (case gcFromRequest c (newAccessRequest g spec) of Inl _ \<Rightarrow> Inl internalError | Inr object \<Rightarrow> Inr object))))))))))"

definition writeRequest ::
  "'w govClient \<Rightarrow> governanceDashboard \<Rightarrow> dashRequest \<Rightarrow> unstructured \<Rightarrow> ('w, response) gstep" where
  "writeRequest c g r object =
     bindw (tryw (gcCreateRequest c object) resourceError) (\<lambda>created.
     bindw (liftf (case gcToRequest c created of Inl _ \<Rightarrow> Inl internalError | Inr request \<Rightarrow> Inr request)) (\<lambda>createdRequest.
     bindw (tryw (updateRequestStatus c created ((sarStatus createdRequest)\<lparr>rtState := SandboxAccessRequestPending\<rparr>))
       (\<lambda>_. internalError)) (\<lambda>_.
       retw (redirectWithMessage g r ''/access'' (''Access request '' @ metaName created @ '' created'')))))"

definition createAccessRequest ::
  "'w govClient \<Rightarrow> govLib \<Rightarrow> governanceDashboard \<Rightarrow> dashRequest \<Rightarrow> 'w \<Rightarrow> response \<times> 'w" where
  "createAccessRequest c lib g r = finishw (bindw (prepareRequest c lib g r) (writeRequest c g r))"

definition approvedStatus :: "GovernanceIdentity \<Rightarrow> string \<Rightarrow> time \<Rightarrow> int \<Rightarrow> SandboxAccessRequestStatus" where
  "approvedStatus approver reason now duration =
     \<lparr>rtState = SandboxAccessRequestApproved, rtApprover = Some approver, rtDecisionReason = reason,
      rtApprovedAt = Some now, rtExpiresAt = Some (now + duration)\<rparr>"

definition deniedStatus :: "GovernanceIdentity \<Rightarrow> string \<Rightarrow> SandboxAccessRequestStatus" where
  "deniedStatus approver reason =
     \<lparr>rtState = SandboxAccessRequestDenied, rtApprover = Some approver, rtDecisionReason = reason,
      rtApprovedAt = None, rtExpiresAt = None\<rparr>"

definition requireApprover :: "govLib \<Rightarrow> authenticatedIdentity \<Rightarrow> response + GovernanceIdentity" where
  "requireApprover lib identity =
     (case governanceIdentity lib identity [] [] of
        Inl _ \<Rightarrow> Inl (httpError ''Authenticated administrator identity is invalid'' 403) | Inr approver \<Rightarrow> Inr approver)"

text \<open>The tenant whose budget limits the approval: that of the bundle of the assignment.\<close>

definition requestBundleTenant :: "'w govClient \<Rightarrow> SandboxAccessRequestSpec \<Rightarrow> ('w, string) gstep" where
  "requestBundleTenant c spec =
     bindw (tryw (dcGetAssignment (gcBase c) (arName (rsAssignmentRef spec))) resourceError) (\<lambda>assignmentObject.
     bindw (tryw (dcGetBundle (gcBase c) (strAt (uSpec assignmentObject) [''capabilityBundleRef'', ''name''])) resourceError) (\<lambda>bundleObject.
       retw (strAt (uSpec bundleObject) [''governance'', ''logicalTenant''])))"

definition prepareApproval ::
  "'w govClient \<Rightarrow> govLib \<Rightarrow> governanceDashboard \<Rightarrow> dashRequest \<Rightarrow> string \<Rightarrow>
     ('w, unstructured \<times> SandboxAccessRequest \<times> SandboxAccessRequestStatus) gstep" where
  "prepareApproval c lib g r name =
     bindw (liftf (requireAdmin g r)) (\<lambda>identity.
     bindw (liftf (parseMutation g r [''csrf'', ''decisionReason'', ''durationMinutes''])) (\<lambda>form.
     bindw (liftf (requireDuration form)) (\<lambda>duration.
     bindw (liftf (requireReason form)) (\<lambda>reason.
     bindw (pendingRequest c lib name) (\<lambda>(object, request).
     bindw (requireTenantScope c identity (giLogicalTenant (rsRequester (sarSpec request)))) (\<lambda>_.
     bindw (guardw (ValidateAccessRequestSpec (glUuidOk lib) (glDnsErrors lib) (sarSpec request) \<noteq> None)
       (httpError ''Access request is invalid'' 409)) (\<lambda>_.
     bindw (guardw (rsRequestedDurationSeconds (sarSpec request) * second < duration)
       (httpError ''Approved duration exceeds the requested duration'' 400)) (\<lambda>_.
     bindw (orConflict (validateRequestAssignment c (sarSpec request))) (\<lambda>_.
     bindw (requestBundleTenant c (sarSpec request)) (\<lambda>logicalTenant.
     bindw (requireBudget c logicalTenant duration ''Approved duration exceeds the tenant access budget'') (\<lambda>_.
     bindw (liftf (requireApprover lib identity)) (\<lambda>approver.
     bindw (clockW c) (\<lambda>now.
       retw (object, request, approvedStatus approver reason now duration))))))))))))))"

text \<open>The write and the answer of both decisions; \<open>outcome\<close> is the word in the message.\<close>

definition writeDecision ::
  "'w govClient \<Rightarrow> governanceDashboard \<Rightarrow> dashRequest \<Rightarrow> string \<Rightarrow>
     unstructured \<times> SandboxAccessRequest \<times> SandboxAccessRequestStatus \<Rightarrow> ('w, response) gstep" where
  "writeDecision c g r outcome = (\<lambda>(object, request, status).
     bindw (tryw (updateRequestStatus c object status) resourceError) (\<lambda>_.
       retw (redirectWithMessage g r ''/admin'' (''Access request '' @ metaName request @ outcome))))"

definition approveAccessRequest ::
  "'w govClient \<Rightarrow> govLib \<Rightarrow> governanceDashboard \<Rightarrow> dashRequest \<Rightarrow> string \<Rightarrow> 'w \<Rightarrow> response \<times> 'w" where
  "approveAccessRequest c lib g r name = finishw (bindw (prepareApproval c lib g r name) (writeDecision c g r '' approved''))"

definition prepareDenial ::
  "'w govClient \<Rightarrow> govLib \<Rightarrow> governanceDashboard \<Rightarrow> dashRequest \<Rightarrow> string \<Rightarrow>
     ('w, unstructured \<times> SandboxAccessRequest \<times> SandboxAccessRequestStatus) gstep" where
  "prepareDenial c lib g r name =
     bindw (liftf (requireAdmin g r)) (\<lambda>identity.
     bindw (liftf (parseMutation g r [''csrf'', ''decisionReason''])) (\<lambda>form.
     bindw (liftf (requireReason form)) (\<lambda>reason.
     bindw (pendingRequest c lib name) (\<lambda>(object, request).
     bindw (requireTenantScope c identity (giLogicalTenant (rsRequester (sarSpec request)))) (\<lambda>_.
     bindw (liftf (requireApprover lib identity)) (\<lambda>approver.
       retw (object, request, deniedStatus approver reason)))))))"

definition denyAccessRequest ::
  "'w govClient \<Rightarrow> govLib \<Rightarrow> governanceDashboard \<Rightarrow> dashRequest \<Rightarrow> string \<Rightarrow> 'w \<Rightarrow> response \<times> 'w" where
  "denyAccessRequest c lib g r name = finishw (bindw (prepareDenial c lib g r name) (writeDecision c g r '' denied''))"

subsection \<open>The checks, one by one\<close>

lemma clockW_eq [flow_simps]: "clockW c w = (s, w') \<longleftrightarrow> (\<exists>t. gcNow c w = (t, w') \<and> s = Inr t)"
  by (auto simp: clockW_def split: prod.splits)

lemma orConflict_Inr [flow_simps]: "orConflict m w = (Inr v, w') \<longleftrightarrow> m w = (Inr v, w')"
  by (auto simp: orConflict_def split: prod.splits sum.splits)

lemma orConflict_Inl [flow_simps]: "orConflict m w = (Inl s, w') \<longleftrightarrow> (\<exists>e. m w = (Inl e, w') \<and> s = httpError e 409)"
  by (auto simp: orConflict_def split: prod.splits sum.splits)

lemma decodeItems_Inr: "decodeItems decode items = Inr vs \<longleftrightarrow> map decode items = map Inr vs"
proof (induction items arbitrary: vs)
  case (Cons item items)
  then show ?case by (cases vs) (auto simp: flow_simps)
qed auto

text \<open>The principal has exactly one binding that is not being deleted.\<close>

definition boundPrincipal ::
  "'w govClient \<Rightarrow> authenticatedIdentity \<Rightarrow> 'w \<Rightarrow> SandboxPrincipalBindingSpec \<Rightarrow> 'w \<Rightarrow> bool" where
  "boundPrincipal c identity w spec w' \<longleftrightarrow>
     (\<exists>items binding. dcListBindings (gcBase c) w = (Inr items, w') \<and>
        singledOut (dcToBinding (gcBase c))
          (\<lambda>b. metaDeletionTimestamp b = None \<and> pbTenantID (spbSpec b) = aiTenantID identity \<and> pbObjectID (spbSpec b) = aiObjectID identity)
          items binding \<and> spec = spbSpec binding)"

lemma principalScopes_Inr:
  "principalScopes c identity w = (Inr scopes, w') \<longleftrightarrow>
     (\<exists>spec. boundPrincipal c identity w spec w' \<and> scopes = \<lparr>psRequester = Some (pbRequesterTenants spec), psAdmin = Some (pbAdminTenants spec)\<rparr>)"
  unfolding principalScopes_def loadPrincipalScopes_Inr boundPrincipal_def principalMatches_def by blast

lemma requireTenantScope_Inr:
  "requireTenantScope c identity tenant w = (Inr u, w') \<longleftrightarrow> (\<exists>spec. boundPrincipal c identity w spec w' \<and> tenant \<in> set (pbAdminTenants spec))"
proof -
  have "requireTenantScope c identity tenant w = (Inr u, w') \<longleftrightarrow>
      (\<exists>scopes. principalScopes c identity w = (Inr scopes, w') \<and> tenantAllowed (psAdmin scopes) tenant)"
    by (cases "principalScopes c identity w"; cases "fst (principalScopes c identity w)")
      (auto simp: requireTenantScope_def bindw_def caught_def guardw_def)
  then show ?thesis by (auto simp: principalScopes_Inr tenantAllowed_def)
qed

lemma requireRequester_Inr:
  "requireRequester c r w = (Inr (identity, tenants), w') \<longleftrightarrow>
     (\<exists>csrf spec. governanceRequestContext r = Some (identity, csrf) \<and> boundPrincipal c identity w spec w' \<and>
        tenants = pbRequesterTenants spec \<and> tenants \<noteq> [])"
proof -
  have "requireRequester c r w = (Inr (identity, tenants), w') \<longleftrightarrow>
      (\<exists>csrf scopes. governanceRequestContext r = Some (identity, csrf) \<and> principalScopes c identity w = (Inr scopes, w') \<and>
         psRequester scopes = Some tenants \<and> tenants \<noteq> [])"
    unfolding requireRequester_def bindw_def caught_def
    by (auto split: option.splits sum.splits list.splits prod.splits)
  then show ?thesis by (auto simp: principalScopes_Inr)
qed

text \<open>A form that comes from the own pages: same origin, the CSRF token of the session, and the fields of the page once each.\<close>

definition genuineForm :: "governanceDashboard \<Rightarrow> dashRequest \<Rightarrow> string list \<Rightarrow> form \<Rightarrow> bool" where
  "genuineForm g r names form \<longleftrightarrow>
     dqRawQuery r = [] \<and> headerGet (rqHeaders r) ''Origin'' = gdPublicOrigin g \<and>
     \<not> equalFold (headerGet (rqHeaders r) ''Sec-Fetch-Site'') ''cross-site'' \<and>
     formContentType r = ''application/x-www-form-urlencoded'' \<and> postForm (dqMedia r) governanceBodyLimit r = Inr form \<and>
     fst ` set form \<subseteq> set names \<and> (\<forall>name \<in> set names. \<exists>v. formValues form name = [v]) \<and>
     csrfTokenFromContext r = Some (formGet form ''csrf'')"

lemma length_one: "length vs = Suc 0 \<longleftrightarrow> (\<exists>v. vs = [v])"
  by (cases vs) auto

lemma formValues_mem: "distinct (map fst f) \<Longrightarrow> (n, vs) \<in> set f \<Longrightarrow> formValues f n = vs"
  by (simp add: formValues_def map_of_is_SomeI)

lemma missingField_None: "missingField names form = None \<longleftrightarrow> (\<forall>name \<in> set names. \<exists>v. formValues form name = [v])"
  unfolding missingField_def find_None_iff by (auto simp: length_one)

lemma parseMutation_Inr: "parseMutation g r names = Inr form \<longleftrightarrow> genuineForm g r names form"
proof -
  have "(\<not> list_ex (\<lambda>(name, values). name \<notin> set names \<or> length values \<noteq> 1) form \<and> missingField names form = None) \<longleftrightarrow>
      fst ` set form \<subseteq> set names \<and> (\<forall>name \<in> set names. \<exists>v. formValues form name = [v])"
    if "postForm (dqMedia r) governanceBodyLimit r = Inr form"
    using postForm_distinct [OF that] unfolding missingField_None by (force simp: list_ex_iff formValues_mem length_one)
  then show ?thesis
    by (auto simp: parseMutation_def genuineForm_def flow_simps csrfMatches_def)
qed

lemma parseDuration_Inr:
  "parseDurationMinutes s = Inr d \<longleftrightarrow>
     (\<exists>minutes. parseInt 64 s = Some minutes \<and> d = wrap64 (minutes * (60 * second)) \<and>
        MinimumRequestedDuration \<le> d \<and> d \<le> MaximumRequestedDuration)"
  by (auto simp: parseDurationMinutes_def Let_def not_less split: option.splits)

lemma requireDuration_Inr: "requireDuration form = Inr d \<longleftrightarrow> parseDurationMinutes (formGet form ''durationMinutes'') = Inr d"
  by (auto simp: requireDuration_def split: sum.splits)

lemma requireReason_Inr:
  "requireReason form = Inr reason \<longleftrightarrow> reason = formGet form ''decisionReason'' \<and> 3 \<le> length (trimSpace reason) \<and> length reason \<le> 512"
  by (auto simp: requireReason_def Let_def)

lemma requireAdmin_Inr:
  "requireAdmin g r = Inr identity \<longleftrightarrow> (\<exists>csrf. governanceRequestContext r = Some (identity, csrf)) \<and> gdAdminRole g \<in> set (aiRoles identity)"
  by (auto simp: requireAdmin_def split: option.splits)

definition adminIdentity :: "authenticatedIdentity \<Rightarrow> GovernanceIdentity" where
  "adminIdentity identity = \<lparr>giTenantID = aiTenantID identity, giObjectID = aiObjectID identity, giDisplayName = aiName identity,
     giLogicalTenant = [], giTeam = []\<rparr>"

lemma requireApprover_Inr:
  "requireApprover lib identity = Inr approver \<longleftrightarrow> approver = adminIdentity identity \<and> ValidateIdentity (glUuidOk lib) approver = None"
  by (auto simp: requireApprover_def governanceIdentity_def adminIdentity_def Let_def split: option.splits sum.splits)

text \<open>The tenant has one enabled policy, with this limit on access.\<close>

definition tenantBudget :: "'w govClient \<Rightarrow> string \<Rightarrow> 'w \<Rightarrow> int \<Rightarrow> 'w \<Rightarrow> bool" where
  "tenantBudget c tenant w seconds w' \<longleftrightarrow>
     (\<exists>items policy. gcListPolicies c w = (Inr items, w') \<and>
        singledOut (gcToPolicy c)
          (\<lambda>p. tpEnabled (stpSpec p) \<and> tpLogicalTenant (stpSpec p) = tenant \<and> metaDeletionTimestamp p = None) items policy \<and>
        seconds = tpMaxAccessRequestDurationSeconds (stpSpec policy))"

lemma maxAccess_Inr: "maxAccessDurationSeconds c tenant w = (Inr seconds, w') \<longleftrightarrow> tenantBudget c tenant w seconds w'"
proof -
  have one: "(case ps of [policy] \<Rightarrow> retw (f policy) | _ \<Rightarrow> exitw e) w1 = (Inr v, w2) \<longleftrightarrow> (\<exists>policy. ps = [policy] \<and> v = f policy \<and> w2 = w1)"
    for ps :: "SandboxTenantPolicy list" and f :: "SandboxTenantPolicy \<Rightarrow> int" and e :: string and w1 w2 :: 'a and v
    by (auto split: list.splits)
  have "maxAccessDurationSeconds c tenant w = (Inr seconds, w') \<longleftrightarrow>
      (\<exists>items policies policy. gcListPolicies c w = (Inr items, w') \<and> map (gcToPolicy c) items = map Inr policies \<and>
         filter (enabledPolicy tenant) policies = [policy] \<and> seconds = tpMaxAccessRequestDurationSeconds (stpSpec policy))"
    by (auto simp: maxAccessDurationSeconds_def flow_simps decodeItems_Inr one)
  then show ?thesis unfolding tenantBudget_def singledOut_def enabledPolicy_def by blast
qed

lemma requireBudget_Inr:
  "requireBudget c tenant duration message w = (Inr u, w') \<longleftrightarrow> (\<exists>seconds. tenantBudget c tenant w seconds w' \<and> duration \<le> seconds * second)"
  by (auto simp: requireBudget_def flow_simps maxAccess_Inr not_less)

subsection \<open>Refusals\<close>

text \<open>The early ends of a step are all refusals: their status is that of an error.\<close>

named_theorems refuses_intros \<open>steps that end early with a refusal\<close>

definition refuses :: "('w, 'a) gstep \<Rightarrow> bool" where
  "refuses m \<longleftrightarrow> (\<forall>w s w'. m w = (Inl s, w') \<longrightarrow> 400 \<le> rspStatus s)"

lemma refuses_bindw [refuses_intros]: "refuses m \<Longrightarrow> (\<And>a. refuses (f a)) \<Longrightarrow> refuses (bindw m f)"
  by (auto simp: refuses_def flow_simps) blast+

lemma refuses_basic [refuses_intros]:
  "refuses (retw a)" "400 \<le> rspStatus s \<Longrightarrow> refuses (exitw s)" "400 \<le> rspStatus s \<Longrightarrow> refuses (guardw b s)"
  "(\<And>e. 400 \<le> rspStatus (h e)) \<Longrightarrow> refuses (tryw m h)" "refuses (caught n)" "refuses (clockW c)" "refuses (orConflict k)"
  by (auto simp: refuses_def flow_simps caught_def split: prod.splits)

lemma refuses_liftf [refuses_intros]: "(\<And>s. m = Inl s \<Longrightarrow> 400 \<le> rspStatus s) \<Longrightarrow> refuses (liftf m)"
  by (auto simp: refuses_def)

lemma refusal_status:
  "requireAdmin g r = Inl s \<Longrightarrow> 400 \<le> rspStatus s" "parseMutation g r names = Inl s \<Longrightarrow> 400 \<le> rspStatus s"
  "requireDuration form = Inl s \<Longrightarrow> 400 \<le> rspStatus s" "requireReason form = Inl s \<Longrightarrow> 400 \<le> rspStatus s"
  "requireApprover lib identity = Inl s \<Longrightarrow> 400 \<le> rspStatus s"
  by (auto simp: requireAdmin_def parseMutation_def requireDuration_def requireReason_def requireApprover_def Let_def flow_simps
      split: option.splits sum.splits if_splits)

lemma refuses_checks [refuses_intros]:
  "refuses (requireTenantScope c identity tenant)" "refuses (requireRequester c r)" "refuses (pendingRequest c lib name)"
  "refuses (requireBudget c tenant d m)" "refuses (requestBundleTenant c spec)" "refuses (deniedEventTarget c tenants eventName)"
  by (auto simp: requireTenantScope_def notAdministrator_def requireRequester_def pendingRequest_def requireBudget_def
      requestBundleTenant_def deniedEventTarget_def split: option.splits sum.splits list.splits if_splits
      intro!: refuses_intros)

lemma prepareApproval_refuses: "refuses (prepareApproval c lib g r name)"
  unfolding prepareApproval_def by (auto intro!: refuses_intros dest: refusal_status)

lemma prepareDenial_refuses: "refuses (prepareDenial c lib g r name)"
  unfolding prepareDenial_def by (auto intro!: refuses_intros dest: refusal_status)

lemma prepareRequest_refuses: "refuses (prepareRequest c lib g r)"
  unfolding prepareRequest_def Let_def
  by (auto intro!: refuses_intros dest: refusal_status split: option.splits sum.splits)

lemma refuses_finish:
  assumes "refuses m" and "\<And>x. refuses (f x)"
  shows "finishw (bindw m f) w = (resp, w') \<and> rspStatus resp = 303 \<longleftrightarrow>
    (\<exists>x w1. m w = (Inr x, w1) \<and> f x w1 = (Inr resp, w')) \<and> rspStatus resp = 303"
proof -
  have "refuses (bindw m f)" using assms by (rule refuses_bindw)
  then have "400 \<le> rspStatus resp" if "bindw m f w = (Inl resp, w')" using that unfolding refuses_def by blast
  then have "bindw m f w \<noteq> (Inl resp, w')" if "rspStatus resp = 303" using that by auto
  then show ?thesis by (auto simp: finishw_eq bindw_Inr)
qed

subsection \<open>What an approval rests on\<close>

definition pendingIn :: "'w govClient \<Rightarrow> govLib \<Rightarrow> string \<Rightarrow> 'w \<Rightarrow> unstructured \<Rightarrow> SandboxAccessRequest \<Rightarrow> 'w \<Rightarrow> bool" where
  "pendingIn c lib name w object request w' \<longleftrightarrow>
     glDnsErrors lib name = [] \<and> gcGetRequest c name w = (Inr object, w') \<and> gcToRequest c object = Inr request \<and>
     rtState (sarStatus request) \<in> {[], SandboxAccessRequestPending}"

lemma pendingRequest_Inr: "pendingRequest c lib name w = (Inr (object, request), w') \<longleftrightarrow> pendingIn c lib name w object request w'"
  by (auto simp: pendingRequest_def pendingIn_def flow_simps requestState_def)

text \<open>The assignment is the one that was meant, it lives, and its policy is the one of that moment.\<close>

definition liveAssignment :: "'w govClient \<Rightarrow> AssignmentReference \<Rightarrow> string \<Rightarrow> 'w \<Rightarrow> unstructured \<Rightarrow> 'w \<Rightarrow> bool" where
  "liveAssignment c ref revision w object w' \<longleftrightarrow>
     dcGetAssignment (gcBase c) (arName ref) w = (Inr object, w') \<and> metaDeletionTimestamp object = None \<and>
     metaUID object = arUID ref \<and> strAt (uStatus object) [''resolvedCapabilityBundle'', ''policyRevision''] = revision"

lemma validateRequestAssignment_Inr:
  "validateRequestAssignment c spec w = (Inr u, w') \<longleftrightarrow> (\<exists>object. liveAssignment c (rsAssignmentRef spec) (rsBasePolicyRevision spec) w object w')"
  by (auto simp: validateRequestAssignment_def liveAssignment_def flow_simps staleAssignment_def resolvedBundleField_def)

lemma validateEventAssignment_Inr:
  "validateEventAssignment c event w = (Inr u, w') \<longleftrightarrow>
     (\<exists>object. liveAssignment c (esAssignmentRef event) (esCapabilityBundleRevision event) w object w' \<and>
        strAt (uStatus object) [''resolvedCapabilityBundle'', ''name''] = esCapabilityBundleName event)"
  by (auto simp: validateEventAssignment_def liveAssignment_def flow_simps staleAssignment_def resolvedBundleField_def)

definition bundleTenantOf :: "'w govClient \<Rightarrow> string \<Rightarrow> 'w \<Rightarrow> string \<Rightarrow> 'w \<Rightarrow> bool" where
  "bundleTenantOf c assignmentName w tenant w' \<longleftrightarrow>
     (\<exists>assignmentObject w1 bundleObject. dcGetAssignment (gcBase c) assignmentName w = (Inr assignmentObject, w1) \<and>
        dcGetBundle (gcBase c) (strAt (uSpec assignmentObject) [''capabilityBundleRef'', ''name'']) w1 = (Inr bundleObject, w') \<and>
        tenant = strAt (uSpec bundleObject) [''governance'', ''logicalTenant''])"

lemma requestBundleTenant_Inr:
  "requestBundleTenant c spec w = (Inr tenant, w') \<longleftrightarrow> bundleTenantOf c (arName (rsAssignmentRef spec)) w tenant w'"
  by (auto simp: requestBundleTenant_def bundleTenantOf_def flow_simps)

text \<open>The administrator that decides: signed in, with the role, and bound to the tenant of the requester.\<close>

definition decidedBy ::
  "'w govClient \<Rightarrow> govLib \<Rightarrow> governanceDashboard \<Rightarrow> dashRequest \<Rightarrow> SandboxAccessRequest \<Rightarrow> authenticatedIdentity \<Rightarrow> 'w \<Rightarrow> 'w \<Rightarrow> bool" where
  "decidedBy c lib g r request identity w w' \<longleftrightarrow>
     (\<exists>csrf. governanceRequestContext r = Some (identity, csrf)) \<and> gdAdminRole g \<in> set (aiRoles identity) \<and>
     (\<exists>spec. boundPrincipal c identity w spec w' \<and> giLogicalTenant (rsRequester (sarSpec request)) \<in> set (pbAdminTenants spec)) \<and>
     ValidateIdentity (glUuidOk lib) (adminIdentity identity) = None"

definition approvalGrounds ::
  "'w govClient \<Rightarrow> govLib \<Rightarrow> governanceDashboard \<Rightarrow> dashRequest \<Rightarrow> string \<Rightarrow> 'w \<Rightarrow>
     unstructured \<Rightarrow> SandboxAccessRequest \<Rightarrow> SandboxAccessRequestStatus \<Rightarrow> 'w \<Rightarrow> bool" where
  "approvalGrounds c lib g r name w object request status w' \<longleftrightarrow>
     (\<exists>identity form duration reason w1 w2 w3 w4 w5 assignment tenant budget now.
        genuineForm g r [''csrf'', ''decisionReason'', ''durationMinutes''] form \<and>
        parseDurationMinutes (formGet form ''durationMinutes'') = Inr duration \<and>
        reason = formGet form ''decisionReason'' \<and> 3 \<le> length (trimSpace reason) \<and> length reason \<le> 512 \<and>
        pendingIn c lib name w object request w1 \<and> decidedBy c lib g r request identity w1 w2 \<and>
        ValidateAccessRequestSpec (glUuidOk lib) (glDnsErrors lib) (sarSpec request) = None \<and>
        duration \<le> rsRequestedDurationSeconds (sarSpec request) * second \<and>
        liveAssignment c (rsAssignmentRef (sarSpec request)) (rsBasePolicyRevision (sarSpec request)) w2 assignment w3 \<and>
        bundleTenantOf c (arName (rsAssignmentRef (sarSpec request))) w3 tenant w4 \<and>
        tenantBudget c tenant w4 budget w5 \<and> duration \<le> budget * second \<and> gcNow c w5 = (now, w') \<and>
        status = \<lparr>rtState = SandboxAccessRequestApproved, rtApprover = Some (adminIdentity identity), rtDecisionReason = reason,
          rtApprovedAt = Some now, rtExpiresAt = Some (now + duration)\<rparr>)"

lemmas check_results =
  requireAdmin_Inr parseMutation_Inr requireDuration_Inr requireReason_Inr pendingRequest_Inr requireTenantScope_Inr
  requireApprover_Inr requireBudget_Inr requestBundleTenant_Inr validateRequestAssignment_Inr validateEventAssignment_Inr
  requireRequester_Inr

lemma prepareApproval_Inr:
  "prepareApproval c lib g r name w = (Inr (object, request, status), w') \<longleftrightarrow> approvalGrounds c lib g r name w object request status w'"
  (is "?L \<longleftrightarrow> ?R")
proof
  assume ?L
  then show ?R
    unfolding prepareApproval_def approvalGrounds_def decidedBy_def
    by (clarsimp simp: flow_simps check_results approvedStatus_def not_less) blast
next
  assume ?R
  then show ?L
    unfolding prepareApproval_def approvalGrounds_def decidedBy_def
    by (clarsimp simp: flow_simps check_results approvedStatus_def not_less) blast
qed

text \<open>The checks do not depend on the calls that write.\<close>

lemma duplicates_unwritten:
  "activeRequest (c\<lparr>gcCreateRequest := create, gcUpdateRequestStatus := update\<rparr>) = activeRequest c" (is ?active)
  "findDuplicate (c\<lparr>gcCreateRequest := create, gcUpdateRequestStatus := update\<rparr>) spec items = findDuplicate c spec items"
proof -
  show active: ?active
    by (simp add: activeRequest_def clockW_def [abs_def] fun_eq_iff Let_def split: option.split)
  show "findDuplicate (c\<lparr>gcCreateRequest := create, gcUpdateRequestStatus := update\<rparr>) spec items = findDuplicate c spec items"
    by (induction items)
      (simp_all add: activeRequest_def clockW_def [abs_def] exitw_def [abs_def] Let_def split: sum.split option.split cong: if_cong)
qed

lemma checks_unwritten:
  fixes c :: "'w govClient" and create update
  defines "d \<equiv> c\<lparr>gcCreateRequest := create, gcUpdateRequestStatus := update\<rparr>"
  shows "requireTenantScope d = requireTenantScope c" "requireRequester d = requireRequester c" "pendingRequest d = pendingRequest c"
    "validateRequestAssignment d = validateRequestAssignment c" "requestBundleTenant d = requestBundleTenant c"
    "requireBudget d = requireBudget c" "clockW d = clockW c" "deniedEventTarget d = deniedEventTarget c"
    "hasActiveDuplicate d = hasActiveDuplicate c" "gcFromRequest d = gcFromRequest c"
  by (simp_all add: d_def fun_eq_iff requireTenantScope_def requireRequester_def principalScopes_def [abs_def] pendingRequest_def
      validateRequestAssignment_def [abs_def] requestBundleTenant_def requireBudget_def maxAccessDurationSeconds_def [abs_def] clockW_def
      deniedEventTarget_def validateEventAssignment_def [abs_def] hasActiveDuplicate_def duplicates_unwritten [abs_def] cong: option.case_cong)

lemma updateRequestStatus_Inr:
  "updateRequestStatus c object status w = (Inr v, w') \<longleftrightarrow>
     (\<exists>request encoded. gcToRequest c object = Inr request \<and> gcFromRequest c (request\<lparr>sarStatus := status\<rparr>) = Inr encoded \<and>
        gcUpdateRequestStatus c encoded w = (Inr v, w'))"
  by (auto simp: updateRequestStatus_def flow_simps)

lemma writeDecision_refuses: "refuses (writeDecision c g r outcome x)"
  by (cases x) (auto simp: writeDecision_def intro!: refuses_intros)

lemma writeDecision_Inr:
  "writeDecision c g r outcome (object, request, status) w = (Inr resp, w') \<longleftrightarrow>
     (\<exists>v. updateRequestStatus c object status w = (Inr v, w')) \<and>
     resp = redirectWithMessage g r ''/admin'' (''Access request '' @ metaName request @ outcome)"
  by (auto simp: writeDecision_def flow_simps)

text \<open>
  C13: what an approval rests on. The handler answers with its redirect exactly when the form came from the
  dashboard's own page of this session (origin, token, each field once), the signed-in user has the
  administrator role and its one binding administers the tenant of the requester, the access request exists, is
  undecided and valid, its assignment still lives in the same incarnation and under the policy revision of the
  request, and the duration is within the range, the request and the budget of the one enabled policy of the tenant of
  the assignment's bundle; the one write then records this administrator, its reason, the moment and the end
  that the duration gives. The checks themselves never call a write.
\<close>

theorem approval_justified:
  "(approveAccessRequest c lib g r name w = (resp, w') \<and> rspStatus resp = 303 \<longleftrightarrow>
     (\<exists>object request status w1 v. approvalGrounds c lib g r name w object request status w1 \<and>
        updateRequestStatus c object status w1 = (Inr v, w') \<and>
        resp = redirectWithMessage g r ''/admin'' (''Access request '' @ metaName request @ '' approved''))) \<and>
   prepareApproval (c\<lparr>gcCreateRequest := create, gcUpdateRequestStatus := update\<rparr>) lib g r name = prepareApproval c lib g r name"
proof
  show "prepareApproval (c\<lparr>gcCreateRequest := create, gcUpdateRequestStatus := update\<rparr>) lib g r name = prepareApproval c lib g r name"
    by (simp add: prepareApproval_def checks_unwritten)
  have "approveAccessRequest c lib g r name w = (resp, w') \<and> rspStatus resp = 303 \<longleftrightarrow>
      (\<exists>x w1. prepareApproval c lib g r name w = (Inr x, w1) \<and> writeDecision c g r '' approved'' x w1 = (Inr resp, w')) \<and> rspStatus resp = 303"
    unfolding approveAccessRequest_def by (rule refuses_finish [OF prepareApproval_refuses writeDecision_refuses])
  then show "approveAccessRequest c lib g r name w = (resp, w') \<and> rspStatus resp = 303 \<longleftrightarrow>
     (\<exists>object request status w1 v. approvalGrounds c lib g r name w object request status w1 \<and>
        updateRequestStatus c object status w1 = (Inr v, w') \<and>
        resp = redirectWithMessage g r ''/admin'' (''Access request '' @ metaName request @ '' approved''))"
    by (force simp: prepareApproval_Inr writeDecision_Inr)
qed

subsection \<open>What a request for access rests on\<close>

text \<open>No request for the same target still counts: it is decided, and an approval has ended.\<close>

definition settled :: "'w govClient \<Rightarrow> SandboxAccessRequest \<Rightarrow> bool" where
  "settled c request \<longleftrightarrow>
     rtState (sarStatus request) \<notin> {[], SandboxAccessRequestPending} \<and>
     (rtState (sarStatus request) = SandboxAccessRequestApproved \<longrightarrow>
        (\<forall>expiresAt. rtExpiresAt (sarStatus request) = Some expiresAt \<longrightarrow> (\<exists>w now w'. gcNow c w = (now, w') \<and> expiresAt \<le> now)))"

lemma activeRequest_False: "activeRequest c request w = (Inr False, w') \<Longrightarrow> settled c request"
  by (auto simp: activeRequest_def settled_def Let_def requestState_def flow_simps SandboxAccessRequestPending_def
      SandboxAccessRequestApproved_def not_less split: if_splits) blast

lemma findDuplicate_False:
  "findDuplicate c spec items w = (Inr False, w') \<Longrightarrow> item \<in> set items \<Longrightarrow>
     \<exists>request. gcToRequest c item = Inr request \<and> (sameGrant (sarSpec request) spec \<longrightarrow> settled c request)"
proof (induction items arbitrary: w)
  case (Cons i items)
  from Cons.prems(1) obtain request active w1 where "gcToRequest c i = Inr request" "activeRequest c request w = (Inr active :: go_error + bool, w1)"
    "\<not> (active \<and> sameGrant (sarSpec request) spec)" "findDuplicate c spec items w1 = (Inr False, w')"
    by (auto simp: flow_simps split: sum.splits if_splits)
  then show ?case using Cons.IH [of w1] Cons.prems(2) activeRequest_False [of c request w w1] by (cases active) auto
qed simp

definition noDuplicate :: "'w govClient \<Rightarrow> SandboxAccessRequestSpec \<Rightarrow> 'w \<Rightarrow> bool" where
  "noDuplicate c spec w \<longleftrightarrow>
     (\<exists>items w'. gcListRequests c w = (Inr items, w') \<and>
        (\<forall>item \<in> set items. \<exists>request. gcToRequest c item = Inr request \<and> (sameGrant (sarSpec request) spec \<longrightarrow> settled c request)))"

lemma hasActiveDuplicate_False: "hasActiveDuplicate c spec w = (Inr False, w') \<Longrightarrow> noDuplicate c spec w"
  by (auto simp: hasActiveDuplicate_def noDuplicate_def flow_simps dest: findDuplicate_False)

text \<open>The denied event that the requester saw, of a tenant of the requester, with a canonical target.\<close>

definition deniedEvent ::
  "'w govClient \<Rightarrow> string list \<Rightarrow> string \<Rightarrow> 'w \<Rightarrow> SandboxEgressEventSpec \<Rightarrow> 'w \<Rightarrow> bool" where
  "deniedEvent c tenants eventName w event w' \<longleftrightarrow>
     (\<exists>object ev w1 assignment. gcGetEvent c eventName w = (Inr object, w1) \<and> gcToEvent c object = Inr ev \<and> event = seeSpec ev \<and>
        \<not> esAllowed event \<and> esDecisionSource event = DecisionSourceDeny \<and> esLogicalTenant event \<in> set tenants \<and>
        NormalizeTarget (esBackend event) (esMethod event) (esHost event) (esPath event) = Inr (eventTarget event) \<and>
        liveAssignment c (esAssignmentRef event) (esCapabilityBundleRevision event) w1 assignment w' \<and>
        strAt (uStatus assignment) [''resolvedCapabilityBundle'', ''name''] = esCapabilityBundleName event)"

lemma deniedEventTarget_Inr:
  "deniedEventTarget c tenants eventName w = (Inr (event, target), w') \<longleftrightarrow>
     deniedEvent c tenants eventName w event w' \<and> target = eventTarget event"
  by (auto simp: deniedEventTarget_def deniedEvent_def flow_simps check_results tenantAllowed_def split: if_splits)

definition requestGrounds ::
  "'w govClient \<Rightarrow> govLib \<Rightarrow> governanceDashboard \<Rightarrow> dashRequest \<Rightarrow> 'w \<Rightarrow> SandboxAccessRequestSpec \<Rightarrow> bool" where
  "requestGrounds c lib g r w spec \<longleftrightarrow>
     (\<exists>identity csrf binding form duration event budget w1 w2 w3.
        governanceRequestContext r = Some (identity, csrf) \<and> boundPrincipal c identity w binding w1 \<and>
        genuineForm g r [''csrf'', ''eventName'', ''reason'', ''durationMinutes''] form \<and>
        parseDurationMinutes (formGet form ''durationMinutes'') = Inr duration \<and>
        glDnsErrors lib (formGet form ''eventName'') = [] \<and>
        deniedEvent c (pbRequesterTenants binding) (formGet form ''eventName'') w1 event w2 \<and>
        tenantBudget c (esLogicalTenant event) w2 budget w3 \<and> duration \<le> budget * second \<and>
        spec = requestSpecFor identity event (eventTarget event) (formGet form ''reason'') duration \<and>
        ValidateAccessRequestSpec (glUuidOk lib) (glDnsErrors lib) spec = None \<and> noDuplicate c spec w3)"

lemma prepareRequest_Inr:
  assumes "prepareRequest c lib g r w = (Inr object, w')"
  shows "\<exists>spec. requestGrounds c lib g r w spec \<and> gcFromRequest c (newAccessRequest g spec) = Inr object"
  using assms unfolding prepareRequest_def requestGrounds_def Let_def
  by (clarsimp simp: flow_simps check_results deniedEventTarget_Inr not_less dest!: hasActiveDuplicate_False) blast

lemma writeRequest_refuses: "refuses (writeRequest c g r object)"
  by (auto simp: writeRequest_def split: sum.splits intro!: refuses_intros)

lemma writeRequest_Inr:
  "writeRequest c g r object w = (Inr resp, w') \<longleftrightarrow>
     (\<exists>created request w1 v. gcCreateRequest c object w = (Inr created, w1) \<and> gcToRequest c created = Inr request \<and>
        updateRequestStatus c created ((sarStatus request)\<lparr>rtState := SandboxAccessRequestPending\<rparr>) w1 = (Inr v, w') \<and>
        resp = redirectWithMessage g r ''/access'' (''Access request '' @ metaName created @ '' created''))"
  by (auto simp: writeRequest_def flow_simps)

text \<open>
  C14: a request for access comes from a denial. When the handler reports a new request, the user is signed in
  and bound to the tenant of an egress event that was denied and whose target is canonical; the assignment of
  the event lives in the same incarnation and under the same bundle and policy revision; the duration is in the range and in the budget
  of the tenant's one enabled policy; no undecided or still running request exists for the same target; and what was created is
  a valid request for exactly the backend, method, host and path of the event, in the name of this user, marked as pending. The checks never
  call a write.
\<close>

theorem access_request_justified:
  "(createAccessRequest c lib g r w = (resp, w') \<and> rspStatus resp = 303 \<longrightarrow>
     (\<exists>spec object w1 created w2 request v. requestGrounds c lib g r w spec \<and>
        gcFromRequest c (newAccessRequest g spec) = Inr object \<and> gcCreateRequest c object w1 = (Inr created, w2) \<and>
        gcToRequest c created = Inr request \<and>
        updateRequestStatus c created ((sarStatus request)\<lparr>rtState := SandboxAccessRequestPending\<rparr>) w2 = (Inr v, w') \<and>
        resp = redirectWithMessage g r ''/access'' (''Access request '' @ metaName created @ '' created''))) \<and>
   prepareRequest (c\<lparr>gcCreateRequest := create, gcUpdateRequestStatus := update\<rparr>) lib g r = prepareRequest c lib g r"
proof
  show "prepareRequest (c\<lparr>gcCreateRequest := create, gcUpdateRequestStatus := update\<rparr>) lib g r = prepareRequest c lib g r"
    by (simp add: prepareRequest_def Let_def checks_unwritten)
  have "createAccessRequest c lib g r w = (resp, w') \<and> rspStatus resp = 303 \<longleftrightarrow>
      (\<exists>x w1. prepareRequest c lib g r w = (Inr x, w1) \<and> writeRequest c g r x w1 = (Inr resp, w')) \<and> rspStatus resp = 303"
    unfolding createAccessRequest_def by (rule refuses_finish [OF prepareRequest_refuses writeRequest_refuses])
  then show "createAccessRequest c lib g r w = (resp, w') \<and> rspStatus resp = 303 \<longrightarrow>
     (\<exists>spec object w1 created w2 request v. requestGrounds c lib g r w spec \<and>
        gcFromRequest c (newAccessRequest g spec) = Inr object \<and> gcCreateRequest c object w1 = (Inr created, w2) \<and>
        gcToRequest c created = Inr request \<and>
        updateRequestStatus c created ((sarStatus request)\<lparr>rtState := SandboxAccessRequestPending\<rparr>) w2 = (Inr v, w') \<and>
        resp = redirectWithMessage g r ''/access'' (''Access request '' @ metaName created @ '' created''))"
    unfolding writeRequest_Inr by (blast dest: prepareRequest_Inr)
qed

subsection \<open>Durations\<close>

lemma minutes_exact:
  assumes "parseInt 64 s = Some minutes" and "\<bar>minutes\<bar> \<le> 153722867"
  shows "parseDurationMinutes s = Inr d \<longleftrightarrow> 1 \<le> minutes \<and> minutes \<le> 480 \<and> d = minutes * (60 * second)"
proof -
  have "wrap64 (minutes * (60 * second)) = minutes * (60 * second)"
    using assms(2) by (intro wrap64_id) (auto simp: second_def)
  then show ?thesis
    using assms(1) by (auto simp: parseDurationMinutes_def MinimumRequestedDuration_def MaximumRequestedDuration_def second_def not_less)
qed

text \<open>
  C15: durations. Every duration that the forms accept lies between one minute and eight hours. For a number of minutes that
  fits in a \<open>time.Duration\<close> it is accepted exactly when it is between 1 and 480, as that many minutes. A larger
  number wraps around: 9007199254740993 minutes are accepted, as one minute.
\<close>

theorem duration_bounds:
  "(parseDurationMinutes s = Inr d \<longrightarrow> 60 * second \<le> d \<and> d \<le> 480 * 60 * second) \<and>
   (parseInt 64 s = Some minutes \<and> \<bar>minutes\<bar> \<le> 153722867 \<longrightarrow>
      (parseDurationMinutes s = Inr d \<longleftrightarrow> 1 \<le> minutes \<and> minutes \<le> 480 \<and> d = minutes * (60 * second))) \<and>
   parseDurationMinutes ''9007199254740993'' = Inr (60 * second)"
proof (intro conjI impI)
  assume "parseDurationMinutes s = Inr d"
  then have "MinimumRequestedDuration \<le> d" "d \<le> MaximumRequestedDuration" by (auto simp: parseDuration_Inr)
  then show "60 * second \<le> d" "d \<le> 480 * 60 * second"
    by (simp_all add: MinimumRequestedDuration_def MaximumRequestedDuration_def second_def)
next
  assume "parseInt 64 s = Some minutes \<and> \<bar>minutes\<bar> \<le> 153722867"
  then show "parseDurationMinutes s = Inr d \<longleftrightarrow> 1 \<le> minutes \<and> minutes \<le> 480 \<and> d = minutes * (60 * second)"
    using minutes_exact by blast
next
  show "parseDurationMinutes ''9007199254740993'' = Inr (60 * second)" by code_simp
qed

theorem duration_bounds_witness:
  "parseDurationMinutes ''60'' = Inr (60 * (60 * second)) \<and> (60 * second) \<le> (60 * (60 * second))"
proof -
  have run: "parseInt 64 ''60'' = Some 60" by code_simp
  then have "parseDurationMinutes ''60'' = Inr (60 * (60 * second))"
    using duration_bounds [of "''60''" "60 * (60 * second)" 60] by simp
  then show ?thesis using duration_bounds [of "''60''" "60 * (60 * second)" 60] by blast
qed

subsection \<open>An example\<close>

definition gxObject :: unstructured where
  "gxObject = object_meta.extend (emptyMeta\<lparr>metaName := ''o1'', metaUID := ''u1''\<rparr>)
     \<lparr>uAPIVersion = [], uKind = [], uSpec = JObj [(''capabilityBundleRef'', JObj [(''name'', JStr ''b1'')]), (''governance'', JObj [(''logicalTenant'', JStr ''blue'')])],
      uStatus = JObj [(''resolvedCapabilityBundle'', JObj [(''name'', JStr ''b1''), (''policyRevision'', JStr ''sha256:1'')])]\<rparr>"

definition gxEvent :: SandboxEgressEvent where
  "gxEvent = object_meta.extend emptyMeta \<lparr>seeSpec = \<lparr>esTimestamp = 0, esAssignmentRef = \<lparr>arName = ''a1'', arUID = ''u1''\<rparr>, esSandboxID = ''sb1'',
     esPodUID = ''p1'', esCapabilityBundleName = ''b1'', esCapabilityBundleRevision = ''sha256:1'', esLogicalTenant = ''blue'', esTeam = ''core'',
     esPermissionLevel = ''reader'', esBoundaryDisplayName = ''Blue'', esBackend = ''web'', esMethod = ''GET'', esHost = ''example.com'', esPath = ''/x'',
     esAllowed = False, esReason = ''denied'', esDecisionSource = DecisionSourceDeny, esAccessRequestName = []\<rparr>\<rparr>"

definition gxSpec :: SandboxAccessRequestSpec where
  "gxSpec = requestSpecFor sxIdentity (seeSpec gxEvent) (eventTarget (seeSpec gxEvent)) ''build needs it'' (60 * (60 * second))"

definition gxRequest :: SandboxAccessRequest where
  "gxRequest = object_meta.extend (emptyMeta\<lparr>metaName := ''access-1''\<rparr>) \<lparr>sarSpec = gxSpec\<lparr>rsPath := ''/y''\<rparr>, sarStatus = emptyRequestStatus\<rparr>"

definition gxPolicy :: SandboxTenantPolicy where
  "gxPolicy = object_meta.extend emptyMeta \<lparr>stpSpec = \<lparr>tpLogicalTenant = ''blue'', tpWorkloadNamespace = ''work'', tpAllowedCapabilityBundles = [''b1''],
     tpAllowedCapabilityBundlePrefixes = [], tpMaxConcurrentSandboxes = 4, tpMaxLifetimeSeconds = 3600, tpMaxAccessRequestDurationSeconds = 3600,
     tpMaxCPU = ''2'', tpMaxMemory = ''2Gi'', tpEnabled = True\<rparr>\<rparr>"

definition gxBinding :: SandboxPrincipalBinding where
  "gxBinding = object_meta.extend emptyMeta \<lparr>spbSpec = \<lparr>pbTenantID = ''entra'', pbObjectID = ''alice'', pbServiceAccountNamespace = [],
     pbServiceAccountName = [], pbRequesterTenants = [''blue''], pbAdminTenants = [''blue'']\<rparr>\<rparr>"

definition gxClient :: "time govClient" where
  "gxClient = \<lparr>gcBase = \<lparr>dcListBindings = okw [gxObject], dcToBinding = (\<lambda>_. Inr gxBinding), dcGetTemplate = (\<lambda>_. okw gxObject),
       dcGetBundle = (\<lambda>_. okw gxObject), dcGetAssignment = (\<lambda>_. okw gxObject), dcListAssignments = okw [],
       dcToAssignment = (\<lambda>_. Inl (ErrNew ''unused''))\<rparr>,
     gcNow = (\<lambda>t. (t, t)), gcGetEvent = (\<lambda>_. okw gxObject), gcListEvents = okw [gxObject], gcToEvent = (\<lambda>_. Inr gxEvent),
     gcGetRequest = (\<lambda>_. okw gxObject), gcListRequests = okw [gxObject], gcCreateRequest = okw, gcUpdateRequestStatus = okw,
     gcToRequest = (\<lambda>_. Inr gxRequest), gcFromRequest = (\<lambda>_. Inr gxObject),
     gcListPolicies = okw [gxObject], gcToPolicy = (\<lambda>_. Inr gxPolicy)\<rparr>"

definition gxLib :: govLib where
  "gxLib = \<lparr>glUuidOk = (\<lambda>_. True), glDnsErrors = (\<lambda>_. []), glDnsLabelErrors = (\<lambda>_. [])\<rparr>"

definition gxDashboard :: governanceDashboard where
  "gxDashboard = \<lparr>gdNamespace = ''assignments'', gdBasePath = ''/dashboard'', gdPublicOrigin = ''https://console.example'',
     gdAdminRole = ''OpenSandbox.Admin''\<rparr>"

definition gxPost :: "string \<Rightarrow> dashRequest" where
  "gxPost body = \<lparr>rqMethod = ''POST'', rqPath = [], rqHeaders = [(''Origin'', [''https://console.example'']),
     (''Content-Type'', [''application/x-www-form-urlencoded''])], rqBody = Inr body, rqScopes = None,
     dqIdentity = Some sxIdentity, dqCSRF = Some ''t'', dqRawQuery = [], dqMedia = (''application/x-www-form-urlencoded'', True)\<rparr>"

definition gxAsk :: dashRequest where
  "gxAsk = gxPost ''csrf=t&eventName=e1&reason=build+needs+it&durationMinutes=60''"

definition gxApprove :: dashRequest where
  "gxApprove = gxPost ''csrf=t&decisionReason=looks+fine&durationMinutes=30''"

lemma gx_run: "rspStatus (fst (createAccessRequest gxClient gxLib gxDashboard gxAsk (1000 * second))) = 303"
  by code_simp

theorem access_request_justified_witness:
  "\<exists>spec. requestGrounds gxClient gxLib gxDashboard gxAsk (1000 * second) spec"
proof -
  obtain resp w' where run: "createAccessRequest gxClient gxLib gxDashboard gxAsk (1000 * second) = (resp, w')"
    by (cases "createAccessRequest gxClient gxLib gxDashboard gxAsk (1000 * second)")
  with gx_run have "rspStatus resp = 303" by simp
  with run access_request_justified [of gxClient gxLib gxDashboard gxAsk "1000 * second" resp w'] show ?thesis by blast
qed

theorem approval_justified_witness:
  "\<exists>object request status w. approvalGrounds gxClient gxLib gxDashboard gxApprove ''access-1'' (1000 * second) object request status w"
proof -
  have "rspStatus (fst (approveAccessRequest gxClient gxLib gxDashboard gxApprove ''access-1'' (1000 * second))) = 303"
    by code_simp
  then obtain resp w' where "approveAccessRequest gxClient gxLib gxDashboard gxApprove ''access-1'' (1000 * second) = (resp, w')"
    "rspStatus resp = 303"
    by (cases "approveAccessRequest gxClient gxLib gxDashboard gxApprove ''access-1'' (1000 * second)") simp
  with approval_justified [of gxClient gxLib gxDashboard gxApprove "''access-1''" "1000 * second" resp w'] show ?thesis by blast
qed

end
