(* ===== verification/Template.thy ===== *)
theory Template
  imports Governance GoTime
begin

section \<open>Resolution of sandbox templates\<close>

text \<open>
  \<open>internal/assignment/opensandboxapi/template.go\<close>. A caller names a template; everything else of the
  sandbox comes from the template and from the capability bundle it pins by revision. The two reads
  and the conversion to the typed template are the fields of \<open>templateClient\<close>.

  The locale \<open>template_resolver\<close> is the interface \<open>TemplateResolver\<close> of the same file.
\<close>

record 'w templateClient =
  tcGetTemplate :: "string \<Rightarrow> string \<Rightarrow> ('w, unstructured) call"
  tcGetBundle :: "string \<Rightarrow> string \<Rightarrow> ('w, unstructured) call"
  tcToTemplate :: "unstructured \<Rightarrow> go_error + SandboxTemplate"

record ResolvedTemplate =
  rtplName :: string
  rtplUID :: string
  rtplRevision :: string
  rtplImage :: string
  rtplEntrypoint :: "string list"
  rtplCPU :: string
  rtplMemory :: string
  rtplTimeoutSeconds :: int
  rtplCapabilityBundleName :: string
  rtplCapabilityBundleRevision :: string
  rtplLogicalTenant :: string

text \<open>\<open>NewKubernetesTemplateResolver\<close>: \<open>None\<close> when it panics.\<close>

definition newTemplateResolver :: "bool \<Rightarrow> string \<Rightarrow> string option" where
  "newTemplateResolver clientNil namespace = (if clientNil \<or> namespace = [] then None else Some namespace)"

text \<open>The largest \<open>int\<close>, on a 64-bit platform.\<close>

definition maxInt :: int where
  "maxInt = 2 ^ 63 - 1"

text \<open>\<open>spec, found, err := unstructured.NestedMap(object, "spec")\<close> with \<open>err != nil || !found\<close> refused.\<close>

definition requireSpec :: "unstructured \<Rightarrow> string \<Rightarrow> (go_error, 'w, json) step" where
  "requireSpec object message =
     (case uSpec object of JObj kvs \<Rightarrow> retw (JObj kvs) | _ \<Rightarrow> exitw (ErrNew message))"

definition Resolve :: "'w templateClient \<Rightarrow> string \<Rightarrow> string \<Rightarrow> ('w, ResolvedTemplate) call" where
  "Resolve client namespace name =
     bindw (tcGetTemplate client namespace name) (\<lambda>object.
     bindw (guardw (metaDeletionTimestamp object \<noteq> None) (ErrNew ''sandbox template is deleting'')) (\<lambda>_.
     bindw (liftf (case tcToTemplate client object of
                     Inl e \<Rightarrow> Inl (Errorf ''decode sandbox template'' e) | Inr t \<Rightarrow> Inr (stSpec t))) (\<lambda>spec.
     bindw (guardw (\<not> tsEnabled spec) (ErrNew ''sandbox template is disabled'')) (\<lambda>_.
     bindw (guardw (maxInt < tsTimeoutSeconds spec)
       (ErrNew ''sandbox template timeout exceeds platform integer range'')) (\<lambda>_.
     bindw (tryw (tcGetBundle client namespace (cbrName (tsCapabilityBundleRef spec)))
       (Errorf ''get sandbox template capability bundle'')) (\<lambda>bundleObject.
     bindw (guardw (metaDeletionTimestamp bundleObject \<noteq> None)
       (ErrNew ''sandbox template capability bundle is deleting'')) (\<lambda>_.
     bindw (requireSpec bundleObject ''sandbox template capability bundle has no spec'') (\<lambda>bundleSpec.
     bindw (guardw (PolicyRevision bundleSpec \<noteq> cbrPolicyRevision (tsCapabilityBundleRef spec))
       (ErrNew ''sandbox template capability bundle revision is stale'')) (\<lambda>_.
     bindw (requireSpec object ''sandbox template has no spec'') (\<lambda>templateSpec.
     let logicalTenant = strAt (uSpec bundleObject) [''governance'', ''logicalTenant''] in
     bindw (guardw (logicalTenant = []) (ErrNew ''sandbox template capability bundle has no logical tenant'')) (\<lambda>_.
       retw \<lparr>rtplName = metaName object, rtplUID = metaUID object, rtplRevision = PolicyRevision templateSpec,
             rtplImage = tsImage spec, rtplEntrypoint = tsEntrypoint spec, rtplCPU = tsCPU spec,
             rtplMemory = tsMemory spec, rtplTimeoutSeconds = tsTimeoutSeconds spec,
             rtplCapabilityBundleName = cbrName (tsCapabilityBundleRef spec),
             rtplCapabilityBundleRevision = PolicyRevision bundleSpec,
             rtplLogicalTenant = logicalTenant\<rparr>)))))))))))"

subsection \<open>The interface\<close>

locale template_resolver =
  fixes resolve :: "string \<Rightarrow> ('w, ResolvedTemplate) call"
  assumes resolved_tenant: "resolve name w = (Inr t, w') \<Longrightarrow> rtplLogicalTenant t \<noteq> []"
    and resolved_bounded: "resolve name w = (Inr t, w') \<Longrightarrow> rtplTimeoutSeconds t \<le> maxInt"
begin

lemma resolved_tenant_named: "resolve name w = (Inr t, w') \<Longrightarrow> \<exists>c cs. rtplLogicalTenant t = c # cs"
  using resolved_tenant [of name w t w'] by (cases "rtplLogicalTenant t") auto

end

text \<open>What a resolved template was read from.\<close>

definition resolvedFrom ::
  "'w templateClient \<Rightarrow> unstructured \<Rightarrow> SandboxTemplateSpec \<Rightarrow> unstructured \<Rightarrow> ResolvedTemplate \<Rightarrow> bool" where
  "resolvedFrom client object spec bundleObject t \<longleftrightarrow>
     metaDeletionTimestamp object = None \<and> (\<exists>typed. tcToTemplate client object = Inr typed \<and> stSpec typed = spec) \<and>
     tsEnabled spec \<and> tsTimeoutSeconds spec \<le> maxInt \<and> metaDeletionTimestamp bundleObject = None \<and>
     (\<exists>kvs. uSpec bundleObject = JObj kvs) \<and> (\<exists>kvs. uSpec object = JObj kvs) \<and>
     PolicyRevision (uSpec bundleObject) = cbrPolicyRevision (tsCapabilityBundleRef spec) \<and>
     strAt (uSpec bundleObject) [''governance'', ''logicalTenant''] \<noteq> [] \<and>
     t = \<lparr>rtplName = metaName object, rtplUID = metaUID object, rtplRevision = PolicyRevision (uSpec object),
          rtplImage = tsImage spec, rtplEntrypoint = tsEntrypoint spec, rtplCPU = tsCPU spec,
          rtplMemory = tsMemory spec, rtplTimeoutSeconds = tsTimeoutSeconds spec,
          rtplCapabilityBundleName = cbrName (tsCapabilityBundleRef spec),
          rtplCapabilityBundleRevision = PolicyRevision (uSpec bundleObject),
          rtplLogicalTenant = strAt (uSpec bundleObject) [''governance'', ''logicalTenant'']\<rparr>"

lemma requireSpec_Inr [flow_simps]:
  "requireSpec object m w = (Inr spec, w') \<longleftrightarrow> (\<exists>kvs. uSpec object = JObj kvs \<and> spec = JObj kvs) \<and> w' = w"
  by (auto simp: requireSpec_def split: json.splits)

lemma Resolve_iff:
  "Resolve client namespace name w = (Inr t, w') \<longleftrightarrow>
     (\<exists>object w1 spec bundleObject. tcGetTemplate client namespace name w = (Inr object, w1) \<and>
        tcGetBundle client namespace (cbrName (tsCapabilityBundleRef spec)) w1 = (Inr bundleObject, w') \<and>
        resolvedFrom client object spec bundleObject t)"
  by (auto simp: Resolve_def resolvedFrom_def Let_def flow_simps not_less)

text \<open>
  a template resolves exactly to what it pins. \<open>Resolve\<close> returns a template exactly when the
  template object exists, is not being deleted, decodes and is enabled, its bundle exists and is
  not being deleted, the bundle's content hashes to the revision that the template recorded, and
  the bundle names a tenant; the result then has the image, limits, entry point and timeout of the
  template, the hash of its content, and the tenant and revision of the bundle. A bundle that has
  been edited since the template was written is never used.
\<close>

theorem resolve_exact:
  "Resolve client namespace name w = (Inr t, w') \<longleftrightarrow>
     (\<exists>object w1 spec bundleObject. tcGetTemplate client namespace name w = (Inr object, w1) \<and>
        tcGetBundle client namespace (cbrName (tsCapabilityBundleRef spec)) w1 = (Inr bundleObject, w') \<and>
        resolvedFrom client object spec bundleObject t)"
  by (rule Resolve_iff)

interpretation kubernetes_templates: template_resolver "Resolve client namespace"
  for client :: "'w templateClient" and namespace
  by unfold_locales (auto simp: Resolve_iff resolvedFrom_def)

end
