(* ===== verification/DashboardAdmin.thy ===== *)
theory DashboardAdmin
  imports Dashboard GoUri Template
begin

section \<open>Administration forms of the dashboard\<close>

text \<open>
  \<open>capabilities.go\<close>, \<open>templates.go\<close> and \<open>tenants.go\<close> of \<open>cmd/aks-sandbox-dashboard\<close> with
  \<open>simulateCapabilityBundle\<close> of \<open>governance.go\<close>: an administrator creates capability bundles, sandbox templates and tenant
  policies from text forms, or asks what a set of egress rules would have allowed. The command policy of a bundle is read by
  \<open>harness/server.py\<close>; its reader is here beside the writer.

  \<open>adminClient\<close> adds the calls that create these objects to the client of the access requests;
  \<open>alQuantitySign\<close> is \<open>resource.ParseQuantity\<close> with \<open>Sign\<close>, \<open>None\<close> for a parse error. The HTML of the simulation page is
  a parameter: executing a template on its own data fails only when the connection does.
\<close>

subsection \<open>Parameters\<close>

definition maximumPreauthorizedRules :: nat where
  "maximumPreauthorizedRules = 32"

record adminLib =
  alGov :: govLib
  alQuantitySign :: "string \<Rightarrow> int option"

record policySimulationPageData =
  spBasePath :: string
  spIdentityName :: string
  spDeniedEvents :: nat
  spNewlyAllowed :: nat
  spAffectedTenants :: string
  spAffectedTeams :: string
  spMatches :: "PolicyImpactMatch list"

record 'w adminClient =
  acGov :: "'w govClient"
  acFromBundle :: "CapabilityBundle \<Rightarrow> go_error + unstructured"
  acCreateBundle :: "unstructured \<Rightarrow> ('w, unstructured) call"
  acCreateTemplate :: "unstructured \<Rightarrow> ('w, unstructured) call"
  acFromPolicy :: "SandboxTenantPolicy \<Rightarrow> go_error + unstructured"
  acCreatePolicy :: "unstructured \<Rightarrow> ('w, unstructured) call"
  acRenderSimulation :: "policySimulationPageData \<Rightarrow> string"

definition trimmed :: "form \<Rightarrow> string \<Rightarrow> string" where
  "trimmed form name = trimSpace (formGet form name)"

definition textLines :: "string \<Rightarrow> string list" where
  "textLines content = map trimSpace (splitOn (CHR 0x0A) content)"

subsection \<open>Rules in text (capabilities.go)\<close>

definition lineText :: "nat \<Rightarrow> string" where
  "lineText lineNumber = ''line '' @ showDec (Suc lineNumber)"

text \<open>One rule: backend, method and an exact HTTPS URL.\<close>

definition exactEgressTarget :: "nat \<Rightarrow> string \<Rightarrow> go_error + Target" where
  "exactEgressTarget lineNumber line =
     (case stringFields line of
        [backend, method, raw] \<Rightarrow>
          seqf (case ParseRequestURI raw of
                  Some u \<Rightarrow>
                    if equalFold (urlScheme u) ''https'' \<and> urlHost u \<noteq> [] \<and> urlPort u = [] \<and> \<not> urlUser u \<and> urlRawQuery u = [] \<and>
                       urlFragment u = [] then Inr u
                    else Inl (ErrNew (lineText lineNumber @ '' must contain an exact HTTPS URL without port, query, or fragment''))
                | None \<Rightarrow> Inl (ErrNew (lineText lineNumber @ '' must contain an exact HTTPS URL without port, query, or fragment'')))
            (\<lambda>targetURL.
               case NormalizeTarget backend method (urlHost targetURL) (EscapedPath targetURL) of
                 Inl e \<Rightarrow> Inl (Errorf (lineText lineNumber) e) | Inr target \<Rightarrow> Inr target)
      | _ \<Rightarrow> Inl (ErrNew (lineText lineNumber @ '' must be: backend METHOD https://host/path'')))"

fun egressLoop :: "nat \<Rightarrow> nat \<Rightarrow> Target list \<Rightarrow> string list \<Rightarrow> go_error + Target list" where
  "egressLoop lineNumber ruleCount targets [] = Inr targets"
| "egressLoop lineNumber ruleCount targets (line # rest) =
     (if line = [] then egressLoop (Suc lineNumber) ruleCount targets rest
      else if maximumPreauthorizedRules < Suc ruleCount \<or> 2048 < length line
      then Inl (ErrNew (''at most '' @ showDec maximumPreauthorizedRules @ '' bounded rules are allowed''))
      else seqf (exactEgressTarget lineNumber line) (\<lambda>target.
             egressLoop (Suc lineNumber) (Suc ruleCount) (if target \<in> set targets then targets else targets @ [target]) rest))"

definition parseExactEgressTargets :: "string \<Rightarrow> go_error + Target list" where
  "parseExactEgressTargets content = egressLoop 0 0 [] (textLines content)"

definition targetExpression :: "Target \<Rightarrow> string" where
  "targetExpression target =
     ''request.method == '' @ quoted (tgMethod target) @ '' && request.host == '' @ quoted (tgHost target) @
     '' && request.path == '' @ quoted (tgPath target)"

definition backendPolicy :: "Target list \<Rightarrow> string \<Rightarrow> string" where
  "backendPolicy targets backend =
     joinWith '' || '' (map (\<lambda>e. ''('' @ e @ '')'')
       (sort (map targetExpression (filter (\<lambda>target. tgBackend target = backend) targets))))"

definition parseExactEgressRules :: "string \<Rightarrow> go_error + (string \<times> string) list" where
  "parseExactEgressRules content =
     seqf (parseExactEgressTargets content) (\<lambda>targets.
       Inr (map (\<lambda>backend. (backend, backendPolicy targets backend)) (remdups (map tgBackend targets))))"

definition commandPattern :: "string \<Rightarrow> string" where
  "commandPattern command = ''^'' @ QuoteMeta command @ ''$''"

definition allowRule :: "string \<Rightarrow> CommandPolicyRule" where
  "allowRule command = \<lparr>cpPattern = commandPattern command, cpDecision = ''allow'',
     cpReason = ''Pre-authorized by the capability bundle administrator.''\<rparr>"

fun commandLoop :: "CommandPolicyRule list \<Rightarrow> string list \<Rightarrow> go_error + CommandPolicyRule list" where
  "commandLoop result [] = Inr result"
| "commandLoop result (command # rest) =
     (if command = [] then commandLoop result rest
      else if maximumPreauthorizedRules \<le> length result \<or> 2048 < length command \<or> containsControl command
      then Inl (ErrNew (''at most '' @ showDec maximumPreauthorizedRules @ '' bounded commands are allowed''))
      else if list_ex (\<lambda>rule. cpPattern rule = commandPattern command) result then commandLoop result rest
      else commandLoop (result @ [allowRule command]) rest)"

definition parseAllowedCommands :: "string \<Rightarrow> go_error + CommandPolicyRule list" where
  "parseAllowedCommands content = commandLoop [] (textLines content)"

definition badPathPrefix :: "string \<Rightarrow> bool" where
  "badPathPrefix p \<longleftrightarrow>
     p \<noteq> ''*'' \<and> (hasPrefix p ''/'' \<or> containsChar p (CHR 0x5C) \<or> containsStr p ''..'' \<or> containsControl p \<or> 512 < length p)"

definition allowedPattern :: "CommandPolicyRule list \<Rightarrow> string \<Rightarrow> bool" where
  "allowedPattern commandPolicy pattern \<longleftrightarrow> list_ex (\<lambda>rule. cpDecision rule = ''allow'' \<and> cpPattern rule = pattern) commandPolicy"

definition validationLine :: "CommandPolicyRule list \<Rightarrow> nat \<Rightarrow> string \<Rightarrow> go_error + ValidationRule" where
  "validationLine commandPolicy lineNumber line =
     (let (p, command) = (case cutString ''=>'' line of None \<Rightarrow> (line, []) | Some (l, r) \<Rightarrow> (l, r));
          pathPrefix = trimSpace p; cmd = trimSpace command
      in seqf (guardf (cutString ''=>'' line = None \<or> pathPrefix = [] \<or> cmd = [])
           (ErrNew (lineText lineNumber @ '' must be: path-prefix => exact command''))) (\<lambda>_.
         seqf (guardf (badPathPrefix pathPrefix) (ErrNew (lineText lineNumber @ '' has an invalid repository-relative path prefix''))) (\<lambda>_.
         seqf (guardf (\<not> allowedPattern commandPolicy (commandPattern cmd))
           (ErrNew (lineText lineNumber @ '' command must also appear in allowed exact commands''))) (\<lambda>_.
           Inr \<lparr>vrPathPrefix = pathPrefix, vrCommand = cmd\<rparr>))))"

fun validationLoop :: "CommandPolicyRule list \<Rightarrow> nat \<Rightarrow> ValidationRule list \<Rightarrow> string list \<Rightarrow> go_error + ValidationRule list" where
  "validationLoop commandPolicy lineNumber result [] = Inr result"
| "validationLoop commandPolicy lineNumber result (line # rest) =
     (if line = [] then validationLoop commandPolicy (Suc lineNumber) result rest
      else if maximumPreauthorizedRules \<le> length result \<or> 2560 < length line
      then Inl (ErrNew (''at most '' @ showDec maximumPreauthorizedRules @ '' bounded rules are allowed''))
      else seqf (validationLine commandPolicy lineNumber line) (\<lambda>rule.
             validationLoop commandPolicy (Suc lineNumber) (if rule \<in> set result then result else result @ [rule]) rest))"

definition parseValidationRules :: "string \<Rightarrow> CommandPolicyRule list \<Rightarrow> go_error + ValidationRule list" where
  "parseValidationRules content commandPolicy = validationLoop commandPolicy 0 [] (textLines content)"

subsection \<open>Capability bundles (capabilities.go)\<close>

definition orBadRequest :: "string \<Rightarrow> go_error + 'a \<Rightarrow> response + 'a" where
  "orBadRequest message m = (case m of Inl e \<Rightarrow> Inl (httpError (message @ errorText e) 400) | Inr v \<Rightarrow> Inr v)"

definition bundleFields :: "string list" where
  "bundleFields = [''csrf'', ''name'', ''displayName'', ''logicalTenant'', ''team'', ''permissionLevel'', ''egressRules'',
     ''allowedCommands'', ''validationRules'']"

definition badBoundary :: "govLib \<Rightarrow> form \<Rightarrow> bool" where
  "badBoundary lib form \<longleftrightarrow>
     glDnsErrors lib (trimmed form ''name'') \<noteq> [] \<or> length (trimmed form ''displayName'') < 3 \<or> 128 < length (trimmed form ''displayName'') \<or>
     containsControl (trimmed form ''displayName'') \<or> glDnsLabelErrors lib (trimmed form ''logicalTenant'') \<noteq> [] \<or>
     glDnsLabelErrors lib (trimmed form ''team'') \<noteq> [] \<or> glDnsLabelErrors lib (trimmed form ''permissionLevel'') \<noteq> []"

definition bundleSpecFor ::
  "form \<Rightarrow> (string \<times> string) list \<Rightarrow> CommandPolicyRule list \<Rightarrow> ValidationRule list \<Rightarrow> CapabilityBundleSpec" where
  "bundleSpecFor form egress commandPolicy validationRules =
     \<lparr>cbsEgress = (if egress = [] then None else Some \<lparr>epAgentgateway = egress\<rparr>),
      cbsHarness = (if commandPolicy = [] \<and> validationRules = [] then None
                    else Some \<lparr>hpCommandPolicy = commandPolicy, hpValidationRules = validationRules\<rparr>),
      cbsGovernance = Some \<lparr>gbLogicalTenant = trimmed form ''logicalTenant'', gbTeam = trimmed form ''team'',
        gbPermissionLevel = trimmed form ''permissionLevel'', gbDisplayName = trimmed form ''displayName''\<rparr>\<rparr>"

definition newObjectMeta :: "governanceDashboard \<Rightarrow> string \<Rightarrow> object_meta" where
  "newObjectMeta g name = emptyMeta\<lparr>metaName := name, metaNamespace := gdNamespace g\<rparr>"

text \<open>The last steps of the three handlers that create an object: write it, and go back to the page.\<close>

definition writeCreated ::
  "(unstructured \<Rightarrow> ('w, unstructured) call) \<Rightarrow> governanceDashboard \<Rightarrow> dashRequest \<Rightarrow> string \<Rightarrow> string \<times> unstructured \<Rightarrow> ('w, response) gstep" where
  "writeCreated create g r kind = (\<lambda>(name, object).
     bindw (tryw (create object) resourceError) (\<lambda>_.
       retw (redirectWithMessage g r ''/admin'' (kind @ name @ '' created''))))"

definition encodeObject :: "('a \<Rightarrow> go_error + unstructured) \<Rightarrow> 'a \<Rightarrow> response + unstructured" where
  "encodeObject encode v = (case encode v of Inl _ \<Rightarrow> Inl internalError | Inr object \<Rightarrow> Inr object)"

definition prepareBundle ::
  "'w adminClient \<Rightarrow> adminLib \<Rightarrow> governanceDashboard \<Rightarrow> dashRequest \<Rightarrow> ('w, string \<times> unstructured) gstep" where
  "prepareBundle c lib g r =
     bindw (liftf (requireAdmin g r)) (\<lambda>_.
     bindw (liftf (parseMutation g r bundleFields)) (\<lambda>form.
     bindw (guardw (badBoundary (alGov lib) form) (httpError ''Capability boundary fields are invalid'' 400)) (\<lambda>_.
     bindw (requireAdminTenant (acGov c) g r (trimmed form ''logicalTenant'')) (\<lambda>_.
     bindw (liftf (orBadRequest ''Invalid pre-authorized egress: '' (parseExactEgressRules (formGet form ''egressRules'')))) (\<lambda>egress.
     bindw (liftf (orBadRequest ''Invalid allowed commands: '' (parseAllowedCommands (formGet form ''allowedCommands'')))) (\<lambda>commandPolicy.
     bindw (liftf (orBadRequest ''Invalid validation rules: '' (parseValidationRules (formGet form ''validationRules'') commandPolicy))) (\<lambda>validationRules.
     bindw (liftf (encodeObject (acFromBundle c) (object_meta.extend (newObjectMeta g (trimmed form ''name''))
       \<lparr>cbSpec = bundleSpecFor form egress commandPolicy validationRules\<rparr>))) (\<lambda>object.
       retw (trimmed form ''name'', object)))))))))"

definition createCapabilityBundle ::
  "'w adminClient \<Rightarrow> adminLib \<Rightarrow> governanceDashboard \<Rightarrow> dashRequest \<Rightarrow> 'w \<Rightarrow> response \<times> 'w" where
  "createCapabilityBundle c lib g r =
     finishw (bindw (prepareBundle c lib g r) (writeCreated (acCreateBundle c) g r ''Capability bundle ''))"

subsection \<open>Simulation (governance.go)\<close>

text \<open>A name of the policy in single quotes.\<close>

definition cspWord :: "string \<Rightarrow> string" where
  "cspWord s = [CHR 0x27] @ s @ [CHR 0x27]"

definition setPageHeaders :: "response \<Rightarrow> response" where
  "setPageHeaders = withHeaders [(''Content-Type'', [''text/html; charset=utf-8'']), (''Cache-Control'', [''no-store'']),
     (''Content-Security-Policy'', [''default-src '' @ cspWord ''none'' @ ''; style-src '' @ cspWord ''unsafe-inline'' @
        ''; form-action '' @ cspWord ''self'' @ ''; base-uri '' @ cspWord ''self'' @ ''; frame-ancestors '' @ cspWord ''none''])]"

definition pageResponse :: "string \<Rightarrow> response" where
  "pageResponse body = setPageHeaders \<lparr>rspStatus = 200, rspHeaders = [], rspBody = body\<rparr>"

definition simulationPage :: "governanceDashboard \<Rightarrow> authenticatedIdentity \<Rightarrow> PolicyImpact \<Rightarrow> policySimulationPageData" where
  "simulationPage g identity impact =
     \<lparr>spBasePath = gdBasePath g, spIdentityName = aiName identity, spDeniedEvents = piDeniedEvents impact,
      spNewlyAllowed = piNewlyAllowed impact, spAffectedTenants = joinWith '', '' (piAffectedTenants impact),
      spAffectedTeams = joinWith '', '' (piAffectedTeams impact), spMatches = piMatches impact\<rparr>"

definition simulateCapabilityBundle :: "'w adminClient \<Rightarrow> governanceDashboard \<Rightarrow> dashRequest \<Rightarrow> 'w \<Rightarrow> response \<times> 'w" where
  "simulateCapabilityBundle c g r = finishw (
     bindw (liftf (requireAdmin g r)) (\<lambda>identity.
     bindw (liftf (parseMutation g r [''csrf'', ''egressRules''])) (\<lambda>form.
     bindw (liftf (orBadRequest ''Invalid candidate egress: '' (parseExactEgressTargets (formGet form ''egressRules'')))) (\<lambda>targets.
     bindw (tryw (gcListEvents (acGov c)) (\<lambda>_. internalError)) (\<lambda>items.
     bindw (liftf (case decodeItems (gcToEvent (acGov c)) items of Inl _ \<Rightarrow> Inl internalError | Inr events \<Rightarrow> Inr events)) (\<lambda>events.
       retw (pageResponse (acRenderSimulation c (simulationPage g identity (SimulatePolicyImpact events targets))))))))))"

subsection \<open>Templates (templates.go)\<close>

definition lowerHexByte :: "char \<Rightarrow> bool" where
  "lowerHexByte c \<longleftrightarrow> isDigit c \<or> (CHR ''a'' \<le> c \<and> c \<le> CHR ''f'')"

text \<open>\<open>digestPinnedImagePattern\<close>, \<open>^.+@sha256:[a-f0-9]{64}$\<close>.\<close>

definition digestPinnedImage :: "string \<Rightarrow> bool" where
  "digestPinnedImage ref \<longleftrightarrow>
     72 < length ref \<and> CHR 0x0A \<notin> set (take (length ref - 72) ref) \<and>
     take 8 (drop (length ref - 72) ref) = ''@sha256:'' \<and> list_all lowerHexByte (drop (length ref - 64) ref)"

definition templateFields :: "string list" where
  "templateFields = [''csrf'', ''name'', ''displayName'', ''description'', ''image'', ''entrypoint'', ''capabilityBundle'', ''cpu'', ''memory'',
     ''timeoutSeconds'', ''enabled'']"

definition badTemplateFields :: "form \<Rightarrow> bool" where
  "badTemplateFields form \<longleftrightarrow>
     length (trimmed form ''displayName'') < 3 \<or> 128 < length (trimmed form ''displayName'') \<or> 512 < length (trimmed form ''description'') \<or>
     512 < length (trimmed form ''image'') \<or> \<not> digestPinnedImage (trimmed form ''image'') \<or>
     trimmed form ''capabilityBundle'' = [] \<or> 253 < length (trimmed form ''capabilityBundle'')"

definition unmarshalStrings :: "string \<Rightarrow> string list option" where
  "unmarshalStrings raw = (case parseJson raw of None \<Rightarrow> None | Some j \<Rightarrow> decodeStrings j)"

definition parseEntrypoint :: "string \<Rightarrow> response + string list" where
  "parseEntrypoint raw =
     (case unmarshalStrings raw of
        None \<Rightarrow> Inl (httpError ''Entrypoint must be a JSON string array'' 400)
      | Some entrypoint \<Rightarrow>
          if entrypoint = [] \<or> 32 < length entrypoint then Inl (httpError ''Entrypoint must be a JSON string array'' 400)
          else if list_ex (\<lambda>v. trimSpace v = [] \<or> 512 < length v) entrypoint then Inl (httpError ''Entrypoint values are invalid'' 400)
          else Inr entrypoint)"

definition parseLifetime :: "string \<Rightarrow> response + int" where
  "parseLifetime raw =
     (case parseInt 64 raw of
        None \<Rightarrow> Inl (httpError ''Lifetime must be between 60 and 3600 seconds'' 400)
      | Some n \<Rightarrow> if n < 60 \<or> 3600 < n then Inl (httpError ''Lifetime must be between 60 and 3600 seconds'' 400) else Inr n)"

definition parseEnabled :: "string \<Rightarrow> response + bool" where
  "parseEnabled raw = (case parseBool raw of None \<Rightarrow> Inl (httpError ''Enabled must be true or false'' 400) | Some b \<Rightarrow> Inr b)"

definition templatePolicyRevision :: "unstructured \<Rightarrow> string" where
  "templatePolicyRevision bundle = PolicyRevision (case uSpec bundle of JObj kvs \<Rightarrow> JObj kvs | _ \<Rightarrow> JNull)"

definition templateSpecJson :: "form \<Rightarrow> string \<Rightarrow> string list \<Rightarrow> int \<Rightarrow> bool \<Rightarrow> json" where
  "templateSpecJson form revision entrypoint timeoutSeconds enabled =
     JObj [(''displayName'', JStr (trimmed form ''displayName'')), (''description'', JStr (trimmed form ''description'')),
       (''image'', JStr (trimmed form ''image'')), (''entrypoint'', JArr (map JStr entrypoint)),
       (''capabilityBundleRef'', JObj [(''name'', JStr (trimmed form ''capabilityBundle'')), (''policyRevision'', JStr revision)]),
       (''resources'', JObj [(''cpu'', JStr (trimmed form ''cpu'')), (''memory'', JStr (trimmed form ''memory''))]),
       (''timeoutSeconds'', JInt timeoutSeconds), (''enabled'', JBool enabled)]"

definition templateObject :: "governanceDashboard \<Rightarrow> string \<Rightarrow> json \<Rightarrow> unstructured" where
  "templateObject g name spec = object_meta.extend (newObjectMeta g name)
     \<lparr>uAPIVersion = ''aks-sandbox.azure.com/v1alpha1'', uKind = ''SandboxTemplate'', uSpec = spec, uStatus = JNull\<rparr>"

text \<open>The bundle that the template names, with its tenant; the administrator must administer the tenant.\<close>

definition templateBundle ::
  "'w govClient \<Rightarrow> governanceDashboard \<Rightarrow> dashRequest \<Rightarrow> string \<Rightarrow> ('w, unstructured) gstep" where
  "templateBundle c g r name =
     bindw (tryw (dcGetBundle (gcBase c) name)
       (\<lambda>e. if isNotFound e then httpError ''Capability bundle does not exist'' 400 else resourceError e)) (\<lambda>bundleObject.
     let logicalTenant = strAt (uSpec bundleObject) [''governance'', ''logicalTenant''] in
     bindw (guardw (trimSpace logicalTenant = []) (httpError ''Capability bundle has no logical tenant'' 400)) (\<lambda>_.
     bindw (requireAdminTenant c g r logicalTenant) (\<lambda>_. retw bundleObject)))"

definition prepareTemplate ::
  "'w adminClient \<Rightarrow> adminLib \<Rightarrow> governanceDashboard \<Rightarrow> dashRequest \<Rightarrow> ('w, string \<times> unstructured) gstep" where
  "prepareTemplate c lib g r =
     bindw (liftf (requireAdmin g r)) (\<lambda>_.
     bindw (liftf (parseMutation g r templateFields)) (\<lambda>form.
     bindw (guardw (glDnsErrors (alGov lib) (trimmed form ''name'') \<noteq> []) (httpError ''Template name must be a DNS subdomain'' 400)) (\<lambda>_.
     bindw (guardw (badTemplateFields form) (httpError ''Template fields are invalid'' 400)) (\<lambda>_.
     bindw (templateBundle (acGov c) g r (trimmed form ''capabilityBundle'')) (\<lambda>bundleObject.
     bindw (liftf (parseEntrypoint (formGet form ''entrypoint''))) (\<lambda>entrypoint.
     bindw (guardw (alQuantitySign lib (trimmed form ''cpu'') = None) (httpError ''CPU quantity is invalid'' 400)) (\<lambda>_.
     bindw (guardw (alQuantitySign lib (trimmed form ''memory'') = None) (httpError ''Memory quantity is invalid'' 400)) (\<lambda>_.
     bindw (liftf (parseLifetime (formGet form ''timeoutSeconds''))) (\<lambda>timeoutSeconds.
     bindw (liftf (parseEnabled (formGet form ''enabled''))) (\<lambda>enabled.
       retw (trimmed form ''name'', templateObject g (trimmed form ''name'')
         (templateSpecJson form (templatePolicyRevision bundleObject) entrypoint timeoutSeconds enabled))))))))))))"

definition createSandboxTemplate ::
  "'w adminClient \<Rightarrow> adminLib \<Rightarrow> governanceDashboard \<Rightarrow> dashRequest \<Rightarrow> 'w \<Rightarrow> response \<times> 'w" where
  "createSandboxTemplate c lib g r =
     finishw (bindw (prepareTemplate c lib g r) (writeCreated (acCreateTemplate c) g r ''Sandbox template ''))"

subsection \<open>Tenant policies (tenants.go)\<close>

definition uniqueLines :: "string \<Rightarrow> string list" where
  "uniqueLines content = foldl (\<lambda>result line. if line \<noteq> [] \<and> line \<notin> set result then result @ [line] else result) [] (textLines content)"

definition boundedInt32 :: "string \<Rightarrow> int \<Rightarrow> int \<Rightarrow> int option" where
  "boundedInt32 content minimum maximum =
     (case parseInt 32 content of None \<Rightarrow> None | Some n \<Rightarrow> if n < minimum \<or> maximum < n then None else Some n)"

definition requireInt :: "string \<Rightarrow> int \<Rightarrow> int \<Rightarrow> string \<Rightarrow> response + int" where
  "requireInt content minimum maximum message =
     (case boundedInt32 content minimum maximum of None \<Rightarrow> Inl (httpError message 400) | Some n \<Rightarrow> Inr n)"

definition positiveQuantity :: "adminLib \<Rightarrow> string \<Rightarrow> bool" where
  "positiveQuantity lib content \<longleftrightarrow> (case alQuantitySign lib content of None \<Rightarrow> False | Some sign \<Rightarrow> 0 < sign)"

definition policyFields :: "string list" where
  "policyFields = [''csrf'', ''name'', ''logicalTenant'', ''workloadNamespace'', ''allowedCapabilityBundles'', ''allowedCapabilityBundlePrefixes'',
     ''maxConcurrentSandboxes'', ''maxLifetimeSeconds'', ''maxAccessMinutes'', ''maxCpu'', ''maxMemory'', ''enabled'']"

definition badPolicyIdentity :: "govLib \<Rightarrow> form \<Rightarrow> bool" where
  "badPolicyIdentity lib form \<longleftrightarrow>
     glDnsErrors lib (trimmed form ''name'') \<noteq> [] \<or> glDnsLabelErrors lib (trimmed form ''logicalTenant'') \<noteq> [] \<or>
     glDnsLabelErrors lib (trimmed form ''workloadNamespace'') \<noteq> []"

definition badBundlePrefix :: "govLib \<Rightarrow> string \<Rightarrow> bool" where
  "badBundlePrefix lib p \<longleftrightarrow> \<not> hasSuffix p ''-'' \<or> glDnsLabelErrors lib (trimSuffix p ''-'') \<noteq> []"

definition policyBundles :: "govLib \<Rightarrow> form \<Rightarrow> response + (string list \<times> string list)" where
  "policyBundles lib form =
     (let bundles = uniqueLines (formGet form ''allowedCapabilityBundles''); prefs = uniqueLines (formGet form ''allowedCapabilityBundlePrefixes'')
      in seqf (guardf (length bundles + length prefs = 0 \<or> 128 < length bundles \<or> 128 < length prefs)
           (httpError ''At least one allowed capability bundle or prefix is required'' 400)) (\<lambda>_.
         seqf (guardf (list_ex (\<lambda>b. glDnsErrors lib b \<noteq> []) bundles) (httpError ''Allowed capability bundle name is invalid'' 400)) (\<lambda>_.
         seqf (guardf (list_ex (badBundlePrefix lib) prefs) (httpError ''Allowed capability bundle prefix is invalid'' 400)) (\<lambda>_.
           Inr (bundles, prefs)))))"

definition policySpecFor :: "adminLib \<Rightarrow> form \<Rightarrow> response + SandboxTenantPolicySpec" where
  "policySpecFor lib form =
     seqf (policyBundles (alGov lib) form) (\<lambda>(bundles, prefs).
     seqf (requireInt (formGet form ''maxConcurrentSandboxes'') 1 1000 ''Concurrent sandbox budget is invalid'') (\<lambda>maxConcurrent.
     seqf (requireInt (formGet form ''maxLifetimeSeconds'') 60 86400 ''Lifetime budget is invalid'') (\<lambda>maxLifetime.
     seqf (requireInt (formGet form ''maxAccessMinutes'') 1 480 ''Access duration budget is invalid'') (\<lambda>maxAccessMinutes.
     seqf (guardf (\<not> positiveQuantity lib (trimmed form ''maxCpu'')) (httpError ''CPU budget is invalid'' 400)) (\<lambda>_.
     seqf (guardf (\<not> positiveQuantity lib (trimmed form ''maxMemory'')) (httpError ''Memory budget is invalid'' 400)) (\<lambda>_.
       Inr \<lparr>tpLogicalTenant = trimmed form ''logicalTenant'', tpWorkloadNamespace = trimmed form ''workloadNamespace'',
            tpAllowedCapabilityBundles = bundles, tpAllowedCapabilityBundlePrefixes = prefs, tpMaxConcurrentSandboxes = maxConcurrent,
            tpMaxLifetimeSeconds = maxLifetime, tpMaxAccessRequestDurationSeconds = maxAccessMinutes * 60,
            tpMaxCPU = trimmed form ''maxCpu'', tpMaxMemory = trimmed form ''maxMemory'', tpEnabled = (formGet form ''enabled'' = ''true'')\<rparr>))))))"

definition preparePolicy ::
  "'w adminClient \<Rightarrow> adminLib \<Rightarrow> governanceDashboard \<Rightarrow> dashRequest \<Rightarrow> ('w, string \<times> unstructured) gstep" where
  "preparePolicy c lib g r =
     bindw (liftf (requireAdmin g r)) (\<lambda>_.
     bindw (liftf (parseMutation g r policyFields)) (\<lambda>form.
     bindw (guardw (badPolicyIdentity (alGov lib) form) (httpError ''Tenant policy identity fields are invalid'' 400)) (\<lambda>_.
     bindw (requireAdminTenant (acGov c) g r (trimmed form ''logicalTenant'')) (\<lambda>_.
     bindw (liftf (policySpecFor lib form)) (\<lambda>spec.
     bindw (liftf (encodeObject (acFromPolicy c) (object_meta.extend (newObjectMeta g (trimmed form ''name'')) \<lparr>stpSpec = spec\<rparr>))) (\<lambda>object.
       retw (trimmed form ''name'', object)))))))"

definition createTenantPolicy ::
  "'w adminClient \<Rightarrow> adminLib \<Rightarrow> governanceDashboard \<Rightarrow> dashRequest \<Rightarrow> 'w \<Rightarrow> response \<times> 'w" where
  "createTenantPolicy c lib g r =
     finishw (bindw (preparePolicy c lib g r) (writeCreated (acCreatePolicy c) g r ''Tenant policy ''))"

subsection \<open>Commands and validation rules\<close>

lemma commandPattern_inject: "commandPattern a = commandPattern b \<longleftrightarrow> a = b"
  by (simp add: commandPattern_def QuoteMeta_inject)

lemma commandLoop_rules:
  "commandLoop (map allowRule seen) cmds = Inr rules \<Longrightarrow>
     \<exists>more. rules = map allowRule (seen @ more) \<and> set more \<subseteq> set cmds - {[]} \<and>
       set cmds - {[]} \<subseteq> set seen \<union> set more \<and> (distinct seen \<longrightarrow> distinct (seen @ more)) \<and>
       (length seen \<le> maximumPreauthorizedRules \<longrightarrow> length (seen @ more) \<le> maximumPreauthorizedRules)"
proof (induction cmds arbitrary: seen)
  case (Cons command cmds)
  have known: "list_ex (\<lambda>rule. cpPattern rule = commandPattern command) (map allowRule seen) \<longleftrightarrow> command \<in> set seen"
    by (auto simp: list_ex_iff allowRule_def commandPattern_inject)
  consider "command = [] \<or> command \<in> set seen" "commandLoop (map allowRule seen) cmds = Inr rules"
    | "command \<noteq> []" "command \<notin> set seen" "length seen < maximumPreauthorizedRules"
      "commandLoop (map allowRule (seen @ [command])) cmds = Inr rules"
    using Cons.prems known by (auto split: if_splits)
  then show ?case
  proof cases
    case 1
    from Cons.IH [OF 1(2)] show ?thesis using 1(1) by auto
  next
    case 2
    from Cons.IH [OF 2(4)] obtain more where
      "rules = map allowRule (seen @ command # more)" "set more \<subseteq> set cmds - {[]}"
      "set cmds - {[]} \<subseteq> set seen \<union> set (command # more)" "distinct (seen @ [command]) \<longrightarrow> distinct (seen @ command # more)"
      "length (seen @ [command]) \<le> maximumPreauthorizedRules \<longrightarrow> length (seen @ command # more) \<le> maximumPreauthorizedRules"
      by auto
    then show ?thesis using 2(1-3) by (intro exI [of _ "command # more"]) auto
  qed
qed auto

lemma parseAllowedCommands_rules:
  assumes "parseAllowedCommands content = Inr rules"
  obtains cmds where "rules = map allowRule cmds" "set cmds = set (textLines content) - {[]}" "distinct cmds"
    "length cmds \<le> maximumPreauthorizedRules"
  using commandLoop_rules [of "[]" "textLines content" rules] assms by (auto simp: parseAllowedCommands_def)

lemma validationLine_command:
  "validationLine policy n line = Inr rule \<Longrightarrow> allowedPattern policy (commandPattern (vrCommand rule)) \<and> \<not> badPathPrefix (vrPathPrefix rule)"
  by (auto simp: validationLine_def Let_def flow_simps split: prod.splits)

lemma validationLoop_commands:
  "validationLoop policy n result ls = Inr rules \<Longrightarrow>
   \<forall>rule \<in> set result. allowedPattern policy (commandPattern (vrCommand rule)) \<and> \<not> badPathPrefix (vrPathPrefix rule) \<Longrightarrow>
   distinct result \<Longrightarrow>
     distinct rules \<and> (\<forall>rule \<in> set rules. allowedPattern policy (commandPattern (vrCommand rule)) \<and> \<not> badPathPrefix (vrPathPrefix rule))"
proof (induction ls arbitrary: n result)
  case (Cons line ls)
  show ?case
  proof (cases "line = []")
    case False
    with Cons.prems(1) obtain rule where rule: "validationLine policy n line = Inr rule"
      "validationLoop policy (Suc n) (if rule \<in> set result then result else result @ [rule]) ls = Inr rules"
      by (auto simp: flow_simps split: if_splits)
    show ?thesis
      by (rule Cons.IH [OF rule(2)]) (use Cons.prems(2,3) validationLine_command [OF rule(1)] in auto)
  next
    case True
    with Cons.prems(1) have "validationLoop policy (Suc n) result ls = Inr rules" by simp
    from Cons.IH [OF this Cons.prems(2,3)] show ?thesis .
  qed
qed simp

lemma commandLoop_bounded:
  "commandLoop result cmds = Inr rules \<Longrightarrow> command \<in> set cmds \<Longrightarrow> command \<noteq> [] \<Longrightarrow>
     length command \<le> 2048 \<and> \<not> containsControl command"
  by (induction cmds arbitrary: result) (auto split: if_splits)

lemma regexMatches_commandPattern: "regexMatches (commandPattern command) s \<longleftrightarrow> s = command"
  by (simp only: commandPattern_def regexMatches_QuoteMeta)

subsection \<open>The reader of the command policy\<close>

text \<open>
  \<open>exact_command\<close> and \<open>enforce_command_policy\<close> of \<open>harness/server.py\<close>, which applies the rules of a bundle inside the sandbox
  to the command that an agent asks for. Python text is its UTF-8 encoding, so that its length is the number of its runes and a metacharacter
  is one byte; the rules are the list below \<open>spec.harness.commandPolicy\<close>, empty when the bundle has none.
\<close>

datatype harnessError = PermissionError string | ValueError string

definition metacharacters :: "char set" where
  "metacharacters = {CHR 0x5C} \<union> set ''.^$*+?{}[]|()''"

fun exactBody :: "string \<Rightarrow> string option" where
  "exactBody [] = Some []"
| "exactBody (c # s) =
     (if c = CHR 0x5C then
        (case s of [] \<Rightarrow> None
         | d # t \<Rightarrow> if d \<notin> metacharacters then None else map_option ((#) d) (exactBody t))
      else if c \<in> metacharacters then None
      else map_option ((#) c) (exactBody s))"

definition exact_command :: "string \<Rightarrow> string option" where
  "exact_command pattern =
     (if length pattern < 2 \<or> \<not> hasPrefix pattern ''^'' \<or> last pattern \<noteq> CHR ''$'' then None
      else exactBody (butlast (tl pattern)))"

fun ruleDecision :: "CommandPolicyRule list \<Rightarrow> string \<Rightarrow> harnessError + unit" where
  "ruleDecision [] command = Inl (PermissionError ''command is not allowed by the capability bundle'')"
| "ruleDecision (rule # rest) command =
     (if exact_command (cpPattern rule) \<noteq> Some command then ruleDecision rest command
      else let reason = (if cpReason rule = [] then ''no reason supplied'' else cpReason rule)
           in if cpDecision rule = ''allow'' then Inr ()
              else if cpDecision rule = ''require_approval''
              then Inl (PermissionError (''command requires administrator approval: '' @ reason))
              else Inl (PermissionError (''command denied by capability bundle: '' @ reason)))"

definition enforce_command_policy :: "CommandPolicyRule list \<Rightarrow> string \<Rightarrow> harnessError + unit" where
  "enforce_command_policy rules command =
     (if command = [] then
        (if rules = [] then Inl (PermissionError ''capability bundle has no harness command policy'')
         else if list_ex (\<lambda>rule. exact_command (cpPattern rule) = None) rules
         then Inl (ValueError ''capability bundle contains a non-exact command pattern'')
         else Inr ())
      else if 2048 < length (runes command) \<or> list_ex (\<lambda>c. c = CHR 0x0D \<or> c = CHR 0x0A \<or> c = CHR 0x00) command
      then Inl (PermissionError ''command exceeds the bounded exact-command policy'')
      else ruleDecision rules command)"

lemma exactBody_QuoteMeta: "exactBody (QuoteMeta s) = Some s"
proof (induction s)
  case (Cons c s)
  then show ?case by (cases "metaByte c") (auto simp: QuoteMeta_def metaByte_def metacharacters_def)
qed (simp add: QuoteMeta_def)

lemma exact_commandPattern: "exact_command (commandPattern command) = Some command"
  by (simp add: exact_command_def commandPattern_def hasPrefix_def butlast_append exactBody_QuoteMeta)

lemma ruleDecision_allowRules: "ruleDecision (map allowRule cmds) command = Inr () \<longleftrightarrow> command \<in> set cmds"
  by (induction cmds) (auto simp: allowRule_def exact_commandPattern)

lemma control_absent: "\<not> containsControl s \<Longrightarrow> c \<in> set s \<Longrightarrow> \<not> asciiControl c"
  by (induction s rule: containsControl.induct) auto

lemma runes_length: "length (runes s) \<le> length s"
  by (induction s rule: runes.induct) auto

lemma enforce_allowRules:
  assumes "\<forall>command \<in> set cmds. command \<noteq> [] \<and> length command \<le> 2048 \<and> \<not> containsControl command"
  shows "enforce_command_policy (map allowRule cmds) s = Inr () \<longleftrightarrow> (if s = [] then cmds \<noteq> [] else s \<in> set cmds)"
proof (cases "s = []")
  case True
  then show ?thesis
    by (auto simp: enforce_command_policy_def list_ex_iff allowRule_def exact_commandPattern)
next
  case False
  have "s \<in> set cmds \<Longrightarrow> length (runes s) \<le> 2048 \<and> \<not> list_ex (\<lambda>c. c = CHR 0x0D \<or> c = CHR 0x0A \<or> c = CHR 0x00) s"
    using assms runes_length [of s] control_absent [of s "CHR 0x0D"] control_absent [of s "CHR 0x0A"] control_absent [of s "CHR 0x00"]
    by (auto simp: list_ex_iff asciiControl_def byteIn_def)
  with False show ?thesis by (auto simp: enforce_command_policy_def ruleDecision_allowRules)
qed

text \<open>
  C16: the commands of a bundle. A text matches the pattern of one of the rules that the form gives exactly when it is a non-empty line
  of the form, and each pattern matches one command only, whatever metacharacters the command holds; there are at most 32 rules, with
  distinct patterns, and all allow. The harness in the sandbox, which reads these patterns itself, lets through exactly the commands of
  the lines. A validation rule is accepted only for a command that is allowed this way, below a path prefix that is relative and does
  not climb.
\<close>

theorem bundle_commands_exact:
  assumes "parseAllowedCommands content = Inr rules" and "parseValidationRules validations rules = Inr checks"
  shows "(\<forall>s. (\<exists>rule \<in> set rules. regexMatches (cpPattern rule) s) \<longleftrightarrow> s \<in> set (textLines content) - {[]}) \<and>
    (\<forall>rule \<in> set rules. \<exists>command. {s. regexMatches (cpPattern rule) s} = {command}) \<and>
    (\<forall>s. s \<noteq> [] \<longrightarrow> (enforce_command_policy rules s = Inr () \<longleftrightarrow> s \<in> set (textLines content))) \<and>
    length rules \<le> 32 \<and> distinct (map cpPattern rules) \<and> (\<forall>rule \<in> set rules. cpDecision rule = ''allow'') \<and>
    (\<forall>check \<in> set checks. vrCommand check \<in> set (textLines content) \<and>
       (vrPathPrefix check = ''*'' \<or> \<not> hasPrefix (vrPathPrefix check) ''/'' \<and> \<not> containsStr (vrPathPrefix check) ''..''))"
proof -
  obtain cmds where cmds: "rules = map allowRule cmds" "set cmds = set (textLines content) - {[]}" "distinct cmds"
    "length cmds \<le> maximumPreauthorizedRules"
    using parseAllowedCommands_rules [OF assms(1)] by blast
  have language: "{s. regexMatches (cpPattern (allowRule c)) s} = {c}" for c
    by (simp add: allowRule_def regexMatches_commandPattern)
  have "\<forall>s. (\<exists>rule \<in> set rules. regexMatches (cpPattern rule) s) \<longleftrightarrow> s \<in> set cmds"
    by (auto simp: cmds(1) allowRule_def regexMatches_commandPattern)
  moreover have "\<forall>rule \<in> set rules. \<exists>command. {s. regexMatches (cpPattern rule) s} = {command}"
    using language by (auto simp: cmds(1))
  moreover have "\<forall>command \<in> set cmds. command \<noteq> [] \<and> length command \<le> 2048 \<and> \<not> containsControl command"
    using cmds(2) commandLoop_bounded assms(1) by (auto simp: parseAllowedCommands_def)
  then have "\<forall>s. s \<noteq> [] \<longrightarrow> (enforce_command_policy rules s = Inr () \<longleftrightarrow> s \<in> set cmds)"
    by (simp add: cmds(1) enforce_allowRules)
  moreover have "distinct (map cpPattern rules)"
    using cmds(1,3) by (simp add: distinct_map inj_on_def allowRule_def commandPattern_inject)
  moreover have "\<forall>check \<in> set checks. allowedPattern rules (commandPattern (vrCommand check)) \<and> \<not> badPathPrefix (vrPathPrefix check)"
    using validationLoop_commands [OF assms(2) [unfolded parseValidationRules_def]] by simp
  then have "\<forall>check \<in> set checks. vrCommand check \<in> set cmds \<and> \<not> badPathPrefix (vrPathPrefix check)"
    by (auto simp: cmds(1) allowedPattern_def list_ex_iff allowRule_def commandPattern_inject)
  ultimately show ?thesis
    using cmds by (auto simp: maximumPreauthorizedRules_def allowRule_def badPathPrefix_def)
qed

theorem bundle_commands_exact_witness:
  "parseAllowedCommands ''go test ./...'' = Inr [allowRule ''go test ./...''] \<and>
   parseValidationRules ''src => go test ./...'' [allowRule ''go test ./...''] =
     Inr [\<lparr>vrPathPrefix = ''src'', vrCommand = ''go test ./...''\<rparr>] \<and>
   textLines ''go test ./...'' = [''go test ./...''] \<and>
   regexMatches (cpPattern (allowRule ''go test ./...'')) ''go test ./...'' \<and>
   \<not> regexMatches (cpPattern (allowRule ''go test ./...'')) ''go test ./xyz'' \<and>
   enforce_command_policy [allowRule ''go test ./...''] ''go test ./...'' = Inr () \<and>
   enforce_command_policy [allowRule ''go test ./...''] ''go test ./xyz'' \<noteq> Inr ()"
proof -
  have a: "parseAllowedCommands ''go test ./...'' = Inr [allowRule ''go test ./...'']" by code_simp
  have b: "parseValidationRules ''src => go test ./...'' [allowRule ''go test ./...''] =
     Inr [\<lparr>vrPathPrefix = ''src'', vrCommand = ''go test ./...''\<rparr>]" by code_simp
  have c: "textLines ''go test ./...'' = [''go test ./...'']" by code_simp
  from bundle_commands_exact [OF a b] a b c show ?thesis by simp
qed

subsection \<open>The text of an egress policy\<close>

text \<open>
  A reader of expressions that tells string literals from the rest: the text with every literal emptied, and the literals. Inside
  a literal a backslash takes the next byte with it.
\<close>

fun scanLiterals :: "string option \<Rightarrow> string \<Rightarrow> string \<times> string list" where
  "scanLiterals None [] = ([], [])"
| "scanLiterals None (c # s) =
     (let (k, ls) = scanLiterals (if c = CHR 0x22 then Some [] else None) s in (c # k, ls))"
| "scanLiterals (Some acc) [] = ([], [])"
| "scanLiterals (Some acc) (c # s) =
     (if c = CHR 0x22 then (let (k, ls) = scanLiterals None s in (c # k, acc # ls))
      else if c = CHR 0x5C then
        (case s of [] \<Rightarrow> ([], []) | d # t \<Rightarrow> scanLiterals (Some (acc @ [c, d])) t)
      else scanLiterals (Some (acc @ [c])) s)"

definition literalOf :: "string \<Rightarrow> string" where
  "literalOf s = concat (map quoteByte s)"

lemma scan_plain: "CHR 0x22 \<notin> set x \<Longrightarrow> scanLiterals None (x @ s) = (x @ fst (scanLiterals None s), snd (scanLiterals None s))"
  by (induction x) (auto split: prod.splits)

lemma hexDigit_plain: "digitChar n \<noteq> CHR 0x22 \<and> digitChar n \<noteq> CHR 0x5C" if "n < 16" for n
proof -
  have "list_all (\<lambda>n. digitChar n \<noteq> CHR 0x22 \<and> digitChar n \<noteq> CHR 0x5C) [0..<16]" by code_simp
  with that show ?thesis by (simp add: list_all_iff)
qed

lemma scan_quoteByte: "scanLiterals (Some acc) (quoteByte c @ s) = scanLiterals (Some (acc @ quoteByte c)) s"
proof -
  have "of_char c div 16 < (16 :: nat)" "of_char c mod 16 < (16 :: nat)"
    using nat_of_char_less_256 [of c] by (simp_all add: less_mult_imp_div_less)
  from hexDigit_plain [OF this(1)] hexDigit_plain [OF this(2)] show ?thesis
    by (auto simp: quoteByte_def hex2_def)
qed

lemma scan_literal:
  "scanLiterals (Some acc) (literalOf x @ CHR 0x22 # s) = (CHR 0x22 # fst (scanLiterals None s), (acc @ literalOf x) # snd (scanLiterals None s))"
proof (induction x arbitrary: acc)
  case (Cons c x)
  then show ?case by (simp add: literalOf_def scan_quoteByte)
qed (simp add: literalOf_def split: prod.splits)

lemma scan_quoted: "scanLiterals None (quoted x @ s) = ([CHR 0x22, CHR 0x22] @ fst (scanLiterals None s), literalOf x # snd (scanLiterals None s))"
  using scan_literal [of "[]" x s] by (simp add: quoted_def literalOf_def [symmetric])

definition comparisonShape :: string where
  "comparisonShape = ''(request.method == '' @ quoted [] @ '' && request.host == '' @ quoted [] @ '' && request.path == '' @ quoted [] @ '')''"

definition targetLiterals :: "Target \<Rightarrow> string list" where
  "targetLiterals target = [literalOf (tgMethod target), literalOf (tgHost target), literalOf (tgPath target)]"

lemma scan_expression:
  "scanLiterals None (''('' @ targetExpression target @ '')'' @ s) =
     (comparisonShape @ fst (scanLiterals None s), targetLiterals target @ snd (scanLiterals None s))"
proof -
  have written: "''('' @ targetExpression target @ '')'' @ s =
      ''(request.method == '' @ quoted (tgMethod target) @ '' && request.host == '' @ quoted (tgHost target) @
      '' && request.path == '' @ quoted (tgPath target) @ '')'' @ s"
    by (simp add: targetExpression_def)
  have plain: "CHR 0x22 \<notin> set ''(request.method == ''" "CHR 0x22 \<notin> set '' && request.host == ''" "CHR 0x22 \<notin> set '' && request.path == ''"
    "CHR 0x22 \<notin> set '')''"
    by simp_all
  have empty: "quoted [] = [CHR 0x22, CHR 0x22]" by (simp add: quoted_def)
  show ?thesis
    unfolding written scan_plain [OF plain(1)] scan_plain [OF plain(2)] scan_plain [OF plain(3)] scan_plain [OF plain(4)] scan_quoted
    by (simp add: comparisonShape_def targetLiterals_def empty)
qed

lemma scan_policy:
  "scanLiterals None (joinWith '' || '' (map (\<lambda>t. ''('' @ targetExpression t @ '')'') ts)) =
     (joinWith '' || '' (map (\<lambda>_. comparisonShape) ts), concat (map targetLiterals ts))"
proof (induction ts)
  case (Cons t ts)
  have plain: "CHR 0x22 \<notin> set '' || ''" by simp
  show ?case
  proof (cases ts)
    case Nil
    then show ?thesis using scan_expression [of t "[]"] by simp
  next
    case (Cons u us)
    have join: "joinWith '' || '' (map f (t # ts)) = f t @ '' || '' @ joinWith '' || '' (map f ts)" for f :: "Target \<Rightarrow> string"
      by (simp add: Cons)
    have expr: "scanLiterals None ((''('' @ targetExpression t @ '')'') @ s) = scanLiterals None (''('' @ targetExpression t @ '')'' @ s)" for s
      by simp
    show ?thesis
      unfolding join expr scan_expression scan_plain [OF plain] Cons.IH by simp
  qed
qed simp

lemma sort_map_key: "sort (map f xs) = map f (sort_key f xs)"
  by (rule properties_for_sort) simp_all

lemma egressLoop_targets:
  "egressLoop n k ts ls = Inr ts' \<Longrightarrow> distinct ts \<Longrightarrow> length ts \<le> k \<Longrightarrow> k \<le> maximumPreauthorizedRules \<Longrightarrow>
     distinct ts' \<and> length ts' \<le> maximumPreauthorizedRules \<and> set ts \<subseteq> set ts' \<and>
     (\<forall>t \<in> set ts'. t \<in> set ts \<or> (\<exists>m line. line \<in> set ls \<and> exactEgressTarget m line = Inr t)) \<and>
     (\<forall>line \<in> set ls. line \<noteq> [] \<longrightarrow> (\<exists>m. \<exists>t \<in> set ts'. exactEgressTarget m line = Inr t))"
proof (induction ls arbitrary: n k ts)
  case (Cons line ls)
  show ?case
  proof (cases "line = []")
    case True
    with Cons.prems(1) have "egressLoop (Suc n) k ts ls = Inr ts'" by simp
    from Cons.IH [OF this Cons.prems(2,3,4)] True show ?thesis by simp blast
  next
    case False
    with Cons.prems(1) obtain t where t: "exactEgressTarget n line = Inr t" "Suc k \<le> maximumPreauthorizedRules"
      "egressLoop (Suc n) (Suc k) (if t \<in> set ts then ts else ts @ [t]) ls = Inr ts'"
      by (auto simp: flow_simps not_less split: if_splits)
    have "distinct (if t \<in> set ts then ts else ts @ [t])" "length (if t \<in> set ts then ts else ts @ [t]) \<le> Suc k"
      using Cons.prems(2,3) by auto
    moreover have kept: "set (if t \<in> set ts then ts else ts @ [t]) = insert t (set ts)" by auto
    ultimately have ih: "distinct ts'" "length ts' \<le> maximumPreauthorizedRules" "insert t (set ts) \<subseteq> set ts'"
      "\<forall>u \<in> set ts'. u \<in> insert t (set ts) \<or> (\<exists>m line. line \<in> set ls \<and> exactEgressTarget m line = Inr u)"
      "\<forall>line \<in> set ls. line \<noteq> [] \<longrightarrow> (\<exists>m. \<exists>u \<in> set ts'. exactEgressTarget m line = Inr u)"
      using Cons.IH [OF t(3) _ _ t(2)] unfolding kept by blast+
    have "\<forall>u \<in> set ts'. u \<in> set ts \<or> (\<exists>m l. l \<in> set (line # ls) \<and> exactEgressTarget m l = Inr u)"
      using ih(4) t(1) by (metis insert_iff list.set_intros(1) list.set_intros(2))
    moreover have "\<forall>l \<in> set (line # ls). l \<noteq> [] \<longrightarrow> (\<exists>m. \<exists>u \<in> set ts'. exactEgressTarget m l = Inr u)"
      using ih(3,5) t(1) by auto
    ultimately show ?thesis using ih(1,2,3) by blast
  qed
qed auto

lemma exactEgressTarget_path:
  assumes "exactEgressTarget n line = Inr t"
  shows "list_all escapedByte (tgPath t)"
proof -
  from assms obtain b m u where "NormalizeTarget b m (urlHost u) (EscapedPath u) = Inr t"
    by (auto simp: exactEgressTarget_def flow_simps split: list.splits option.splits if_splits)
  then have "NormalizePath (EscapedPath u) = Inr (tgPath t)" by (auto simp: normalize_flow)
  then have "tgPath t = (if EscapedPath u = [] then ''/'' else EscapedPath u)"
    by (auto simp: NormalizePath_def Let_def split: if_splits)
  moreover have "list_all escapedByte ''/''" by code_simp
  ultimately show ?thesis using EscapedPath_bytes [of u] by simp
qed

lemma literalOf_escaped: "list_all escapedByte s \<Longrightarrow> literalOf s = s"
  by (induction s) (simp_all add: literalOf_def escapedByte_quote)

text \<open>
  C17: an egress policy says what its lines say. When the text is accepted, every line gave a target and every target comes from
  a line, at most 32 and each once; there is one policy for every backend named; and the expression of a backend is,
  read with its string literals apart, a disjunction of comparisons of method, host and path with exactly the targets of this
  backend, whatever the lines contain: no text of a target ends up outside of a literal, and a path is its own literal. A number sign
  in the URL does not start a fragment but becomes part of the path.
\<close>

theorem egress_policy_exact:
  assumes "parseExactEgressRules content = Inr policies"
  shows "(\<exists>targets. parseExactEgressTargets content = Inr targets \<and> distinct targets \<and> length targets \<le> 32 \<and>
      (\<forall>t \<in> set targets. \<exists>n line. line \<in> set (textLines content) \<and> exactEgressTarget n line = Inr t) \<and>
      (\<forall>line \<in> set (textLines content). line \<noteq> [] \<longrightarrow> (\<exists>n. \<exists>t \<in> set targets. exactEgressTarget n line = Inr t)) \<and>
      distinct (map fst policies) \<and> fst ` set policies = tgBackend ` set targets \<and>
      (\<forall>backend allow. (backend, allow) \<in> set policies \<longrightarrow>
         (\<exists>ts. distinct ts \<and> set ts = {t \<in> set targets. tgBackend t = backend} \<and>
            scanLiterals None allow = (joinWith '' || '' (map (\<lambda>_. comparisonShape) ts), concat (map targetLiterals ts)) \<and>
            (\<forall>t \<in> set ts. targetLiterals t = [literalOf (tgMethod t), literalOf (tgHost t), tgPath t])))) \<and>
    exactEgressTarget 0 ''web GET https://example.com/a#b'' =
      Inr \<lparr>tgBackend = ''web'', tgMethod = ''GET'', tgHost = ''example.com'', tgPath = ''/a%23b''\<rparr>"
proof
  show "exactEgressTarget 0 ''web GET https://example.com/a#b'' =
      Inr \<lparr>tgBackend = ''web'', tgMethod = ''GET'', tgHost = ''example.com'', tgPath = ''/a%23b''\<rparr>" by code_simp
  from assms obtain targets where targets: "parseExactEgressTargets content = Inr targets"
    "policies = map (\<lambda>b. (b, backendPolicy targets b)) (remdups (map tgBackend targets))"
    by (auto simp: parseExactEgressRules_def flow_simps)
  have loop: "distinct targets" "length targets \<le> 32"
      "\<forall>t \<in> set targets. \<exists>n line. line \<in> set (textLines content) \<and> exactEgressTarget n line = Inr t"
      "\<forall>line \<in> set (textLines content). line \<noteq> [] \<longrightarrow> (\<exists>n. \<exists>t \<in> set targets. exactEgressTarget n line = Inr t)"
    using egressLoop_targets [OF targets(1) [unfolded parseExactEgressTargets_def]] by (auto simp: maximumPreauthorizedRules_def)
  have "\<exists>ts. distinct ts \<and> set ts = {t \<in> set targets. tgBackend t = b} \<and>
      scanLiterals None (backendPolicy targets b) = (joinWith '' || '' (map (\<lambda>_. comparisonShape) ts), concat (map targetLiterals ts)) \<and>
      (\<forall>t \<in> set ts. targetLiterals t = [literalOf (tgMethod t), literalOf (tgHost t), tgPath t])" for b
  proof (intro exI conjI)
    let ?ts = "sort_key targetExpression (filter (\<lambda>t. tgBackend t = b) targets)"
    show "distinct ?ts" using loop(1) by simp
    show set: "set ?ts = {t \<in> set targets. tgBackend t = b}" by simp
    show "scanLiterals None (backendPolicy targets b) = (joinWith '' || '' (map (\<lambda>_. comparisonShape) ?ts), concat (map targetLiterals ?ts))"
      using scan_policy [of ?ts] by (simp add: backendPolicy_def sort_map_key o_def)
    show "\<forall>t \<in> set ?ts. targetLiterals t = [literalOf (tgMethod t), literalOf (tgHost t), tgPath t]"
      using loop(3) by (auto simp: targetLiterals_def dest!: exactEgressTarget_path literalOf_escaped)
  qed
  then show "\<exists>targets. parseExactEgressTargets content = Inr targets \<and> distinct targets \<and> length targets \<le> 32 \<and>
      (\<forall>t \<in> set targets. \<exists>n line. line \<in> set (textLines content) \<and> exactEgressTarget n line = Inr t) \<and>
      (\<forall>line \<in> set (textLines content). line \<noteq> [] \<longrightarrow> (\<exists>n. \<exists>t \<in> set targets. exactEgressTarget n line = Inr t)) \<and>
      distinct (map fst policies) \<and> fst ` set policies = tgBackend ` set targets \<and>
      (\<forall>backend allow. (backend, allow) \<in> set policies \<longrightarrow>
         (\<exists>ts. distinct ts \<and> set ts = {t \<in> set targets. tgBackend t = backend} \<and>
            scanLiterals None allow = (joinWith '' || '' (map (\<lambda>_. comparisonShape) ts), concat (map targetLiterals ts)) \<and>
            (\<forall>t \<in> set ts. targetLiterals t = [literalOf (tgMethod t), literalOf (tgHost t), tgPath t])))"
    using targets loop by (intro exI [of _ targets]) (auto simp: o_def image_image)
qed

theorem egress_policy_exact_witness:
  "\<exists>policies. parseExactEgressRules ''web GET https://example.com/a'' = Inr policies \<and> length policies = 1 \<and> distinct (map fst policies)"
proof -
  have "case parseExactEgressRules ''web GET https://example.com/a'' of Inl _ \<Rightarrow> False | Inr policies \<Rightarrow> length policies = 1"
    by code_simp
  then obtain policies where run: "parseExactEgressRules ''web GET https://example.com/a'' = Inr policies" "length policies = 1"
    by (auto split: sum.splits)
  from egress_policy_exact [OF run(1)] have "distinct (map fst policies)" by (elim conjE exE)
  with run show ?thesis by blast
qed

subsection \<open>Who may create\<close>

definition administers :: "'w govClient \<Rightarrow> governanceDashboard \<Rightarrow> dashRequest \<Rightarrow> string \<Rightarrow> 'w \<Rightarrow> authenticatedIdentity \<Rightarrow> 'w \<Rightarrow> bool" where
  "administers c g r tenant w identity w' \<longleftrightarrow>
     (\<exists>csrf. governanceRequestContext r = Some (identity, csrf)) \<and> gdAdminRole g \<in> set (aiRoles identity) \<and>
     (\<exists>spec. boundPrincipal c identity w spec w' \<and> tenant \<in> set (pbAdminTenants spec))"

lemma requireAdminTenant_Inr [flow_simps]: "requireAdminTenant c g r tenant w = (Inr identity, w') \<longleftrightarrow> administers c g r tenant w identity w'"
  by (auto simp: requireAdminTenant_def administers_def flow_simps requireAdmin_Inr requireTenantScope_Inr)

lemma requireAdminTenant_refuses [refuses_intros]: "refuses (requireAdminTenant c g r tenant)"
  by (auto simp: requireAdminTenant_def intro!: refuses_intros dest: refusal_status)

lemma orBadRequest_Inr [flow_simps]: "orBadRequest m e = Inr v \<longleftrightarrow> e = Inr v"
  by (cases e) (auto simp: orBadRequest_def)

lemma admin_refusal_status:
  "orBadRequest m e = Inl s \<Longrightarrow> 400 \<le> rspStatus s" "parseEntrypoint raw = Inl s \<Longrightarrow> 400 \<le> rspStatus s"
  "parseLifetime raw = Inl s \<Longrightarrow> 400 \<le> rspStatus s" "parseEnabled raw = Inl s \<Longrightarrow> 400 \<le> rspStatus s"
  "policySpecFor lib form = Inl s \<Longrightarrow> 400 \<le> rspStatus s"
  by (auto simp: orBadRequest_def parseEntrypoint_def parseLifetime_def parseEnabled_def policySpecFor_def policyBundles_def requireInt_def Let_def
      flow_simps split: option.splits sum.splits if_splits)

lemma encodeObject_Inr [flow_simps]: "encodeObject encode v = Inr object \<longleftrightarrow> encode v = Inr object"
  by (auto simp: encodeObject_def split: sum.splits)

lemma encodeObject_status: "encodeObject encode v = Inl s \<Longrightarrow> 400 \<le> rspStatus s"
  by (auto simp: encodeObject_def split: sum.splits)

lemma writeCreated_refuses: "refuses (writeCreated create g r kind x)"
  by (cases x) (auto simp: writeCreated_def intro!: refuses_intros)

lemma prepare_refuses:
  "refuses (prepareBundle c lib g r)" "refuses (prepareTemplate c lib g r)" "refuses (preparePolicy c lib g r)"
  by (auto simp: prepareBundle_def prepareTemplate_def preparePolicy_def templateBundle_def Let_def intro!: refuses_intros
      dest: refusal_status admin_refusal_status encodeObject_status split: if_splits)

lemma created_iff:
  assumes "refuses prepare"
  shows "finishw (bindw prepare (writeCreated create g r kind)) w = (resp, w') \<and> rspStatus resp = 303 \<longleftrightarrow>
    (\<exists>name object w1 v. prepare w = (Inr (name, object), w1) \<and> create object w1 = (Inr v, w') \<and>
       resp = redirectWithMessage g r ''/admin'' (kind @ name @ '' created''))"
  unfolding refuses_finish [OF assms writeCreated_refuses] by (auto simp: writeCreated_def flow_simps)

subsection \<open>Tenant policies\<close>

lemma uniqueLines_props: "distinct (uniqueLines content)" "set (uniqueLines content) = set (textLines content) - {[]}"
proof -
  have "distinct (foldl (\<lambda>result line. if line \<noteq> [] \<and> line \<notin> set result then result @ [line] else result) acc ls) \<and>
      set (foldl (\<lambda>result line. if line \<noteq> [] \<and> line \<notin> set result then result @ [line] else result) acc ls) = set acc \<union> (set ls - {[]})"
    if "distinct acc" for acc ls :: "string list"
    using that by (induction ls arbitrary: acc) auto
  from this [of "[]" "textLines content"] show "distinct (uniqueLines content)" "set (uniqueLines content) = set (textLines content) - {[]}"
    by (auto simp: uniqueLines_def)
qed

lemma requireInt_Inr: "requireInt content lo hi m = Inr n \<longleftrightarrow> parseInt 32 content = Some n \<and> lo \<le> n \<and> n \<le> hi"
  by (auto simp: requireInt_def boundedInt32_def split: option.splits if_splits)

text \<open>A policy whose budgets are in the ranges of the form.\<close>

definition boundedPolicy :: "govLib \<Rightarrow> SandboxTenantPolicySpec \<Rightarrow> bool" where
  "boundedPolicy lib spec \<longleftrightarrow>
     1 \<le> tpMaxConcurrentSandboxes spec \<and> tpMaxConcurrentSandboxes spec \<le> 1000 \<and>
     60 \<le> tpMaxLifetimeSeconds spec \<and> tpMaxLifetimeSeconds spec \<le> 86400 \<and>
     MinimumRequestedDuration \<le> tpMaxAccessRequestDurationSeconds spec * second \<and>
     tpMaxAccessRequestDurationSeconds spec * second \<le> MaximumRequestedDuration \<and>
     tpAllowedCapabilityBundles spec @ tpAllowedCapabilityBundlePrefixes spec \<noteq> [] \<and>
     length (tpAllowedCapabilityBundles spec) \<le> 128 \<and> length (tpAllowedCapabilityBundlePrefixes spec) \<le> 128 \<and>
     distinct (tpAllowedCapabilityBundles spec) \<and> distinct (tpAllowedCapabilityBundlePrefixes spec) \<and>
     (\<forall>b \<in> set (tpAllowedCapabilityBundles spec). glDnsErrors lib b = []) \<and>
     (\<forall>p \<in> set (tpAllowedCapabilityBundlePrefixes spec). hasSuffix p ''-'')"

lemma policySpecFor_bounded:
  assumes "policySpecFor lib form = Inr spec"
  shows "boundedPolicy (alGov lib) spec" "tpLogicalTenant spec = trimmed form ''logicalTenant''"
    "tpEnabled spec \<longleftrightarrow> formGet form ''enabled'' = ''true''"
  using assms
  by (auto simp: policySpecFor_def policyBundles_def Let_def flow_simps requireInt_Inr boundedPolicy_def MinimumRequestedDuration_def
      MaximumRequestedDuration_def second_def uniqueLines_props(1) list_ex_iff badBundlePrefix_def)

text \<open>What the handler has seen when it writes the policy.\<close>

definition policyGrounds ::
  "'w adminClient \<Rightarrow> adminLib \<Rightarrow> governanceDashboard \<Rightarrow> dashRequest \<Rightarrow> 'w \<Rightarrow> string \<Rightarrow> SandboxTenantPolicySpec \<Rightarrow> 'w \<Rightarrow> bool" where
  "policyGrounds c lib g r w name spec w' \<longleftrightarrow>
     (\<exists>form identity. genuineForm g r policyFields form \<and> \<not> badPolicyIdentity (alGov lib) form \<and> name = trimmed form ''name'' \<and>
        policySpecFor lib form = Inr spec \<and> administers (acGov c) g r (tpLogicalTenant spec) w identity w')"

lemma administers_admin: "administers c g r tenant w identity w' \<Longrightarrow> \<exists>i. requireAdmin g r = Inr i"
  by (auto simp: administers_def requireAdmin_Inr)

lemma preparePolicy_Inr:
  "preparePolicy c lib g r w = (Inr (name, object), w') \<longleftrightarrow>
     (\<exists>spec. policyGrounds c lib g r w name spec w' \<and>
        acFromPolicy c (object_meta.extend (newObjectMeta g name) \<lparr>stpSpec = spec\<rparr>) = Inr object)"
  (is "?L \<longleftrightarrow> ?R")
proof
  assume ?L
  then show ?R
    unfolding preparePolicy_def policyGrounds_def
    by (clarsimp simp: flow_simps parseMutation_Inr) (metis policySpecFor_bounded(2))
next
  assume ?R
  then obtain spec form identity where *: "genuineForm g r policyFields form" "\<not> badPolicyIdentity (alGov lib) form" "name = trimmed form ''name''"
    "policySpecFor lib form = Inr spec" "administers (acGov c) g r (tpLogicalTenant spec) w identity w'"
    "acFromPolicy c (object_meta.extend (newObjectMeta g name) \<lparr>stpSpec = spec\<rparr>) = Inr object"
    by (auto simp: policyGrounds_def)
  with policySpecFor_bounded(2) [OF *(4)] administers_admin [OF *(5)] show ?L
    unfolding preparePolicy_def by (auto simp: flow_simps parseMutation_Inr)
qed

text \<open>
  C18: a tenant policy has budgets in range. The form creates a policy exactly when it came from the own page of this session with its
  fields once each, names a tenant that the signed-in administrator's one binding administers, and has budgets that parse; what is
  written then is for that tenant, allows between 1 and 1000 sandboxes at a time, a lifetime between a minute and a day, access
  for between a minute and eight hours (the range that access requests accept themselves), and names at least one bundle or
  prefix, each once and at most 128 of either.
\<close>

theorem tenant_policy_bounds:
  "createTenantPolicy c lib g r w = (resp, w') \<and> rspStatus resp = 303 \<longleftrightarrow>
     (\<exists>name spec object w1 v. policyGrounds c lib g r w name spec w1 \<and> boundedPolicy (alGov lib) spec \<and>
        acFromPolicy c (object_meta.extend (newObjectMeta g name) \<lparr>stpSpec = spec\<rparr>) = Inr object \<and>
        acCreatePolicy c object w1 = (Inr v, w') \<and>
        resp = redirectWithMessage g r ''/admin'' (''Tenant policy '' @ name @ '' created''))"
  unfolding createTenantPolicy_def created_iff [OF prepare_refuses(3)] preparePolicy_Inr
  using policySpecFor_bounded(1) unfolding policyGrounds_def by blast

subsection \<open>Templates\<close>

definition templateGrounds ::
  "'w adminClient \<Rightarrow> adminLib \<Rightarrow> governanceDashboard \<Rightarrow> dashRequest \<Rightarrow> 'w \<Rightarrow> form \<Rightarrow> unstructured \<Rightarrow> json \<Rightarrow> 'w \<Rightarrow> bool" where
  "templateGrounds c lib g r w form bundle spec w' \<longleftrightarrow>
     (\<exists>identity w1 entrypoint timeoutSeconds enabled. genuineForm g r templateFields form \<and>
        glDnsErrors (alGov lib) (trimmed form ''name'') = [] \<and> \<not> badTemplateFields form \<and>
        dcGetBundle (gcBase (acGov c)) (trimmed form ''capabilityBundle'') w = (Inr bundle, w1) \<and>
        trimSpace (strAt (uSpec bundle) [''governance'', ''logicalTenant'']) \<noteq> [] \<and>
        administers (acGov c) g r (strAt (uSpec bundle) [''governance'', ''logicalTenant'']) w1 identity w' \<and>
        parseEntrypoint (formGet form ''entrypoint'') = Inr entrypoint \<and>
        alQuantitySign lib (trimmed form ''cpu'') \<noteq> None \<and> alQuantitySign lib (trimmed form ''memory'') \<noteq> None \<and>
        parseLifetime (formGet form ''timeoutSeconds'') = Inr timeoutSeconds \<and> parseEnabled (formGet form ''enabled'') = Inr enabled \<and>
        spec = templateSpecJson form (templatePolicyRevision bundle) entrypoint timeoutSeconds enabled)"

lemma templateBundle_Inr:
  "templateBundle c g r name w = (Inr bundle, w') \<longleftrightarrow>
     (\<exists>w1 identity. dcGetBundle (gcBase c) name w = (Inr bundle, w1) \<and> trimSpace (strAt (uSpec bundle) [''governance'', ''logicalTenant'']) \<noteq> [] \<and>
        administers c g r (strAt (uSpec bundle) [''governance'', ''logicalTenant'']) w1 identity w')"
  by (auto simp: templateBundle_def Let_def flow_simps)

lemma prepareTemplate_Inr:
  "prepareTemplate c lib g r w = (Inr (name, object), w') \<longleftrightarrow>
     (\<exists>form bundle spec. templateGrounds c lib g r w form bundle spec w' \<and> name = trimmed form ''name'' \<and> object = templateObject g name spec)"
  (is "?L \<longleftrightarrow> ?R")
proof
  assume ?L
  then show ?R
    unfolding prepareTemplate_def templateGrounds_def
    by (clarsimp simp: flow_simps parseMutation_Inr templateBundle_Inr) blast
next
  assume ?R
  then show ?L
    unfolding prepareTemplate_def templateGrounds_def
    by (clarsimp simp: flow_simps parseMutation_Inr templateBundle_Inr) (blast dest: administers_admin)
qed

text \<open>
  What the converter of \<open>apimachinery\<close> makes of a template: the fields of the struct from the members of the same name. The members
  have the types of the struct when they are strings, an array of strings, an integer and a boolean.
\<close>

definition jsonString :: "json \<Rightarrow> string" where
  "jsonString j = (case j of JStr s \<Rightarrow> s | _ \<Rightarrow> [])"

definition templateSpecOf :: "json \<Rightarrow> SandboxTemplateSpec" where
  "templateSpecOf spec =
     \<lparr>tsDisplayName = strAt spec [''displayName''], tsDescription = strAt spec [''description''], tsImage = strAt spec [''image''],
      tsEntrypoint = map jsonString (sliceAt spec [''entrypoint'']),
      tsCapabilityBundleRef = \<lparr>cbrName = strAt spec [''capabilityBundleRef'', ''name''],
        cbrPolicyRevision = strAt spec [''capabilityBundleRef'', ''policyRevision'']\<rparr>,
      tsCPU = strAt spec [''resources'', ''cpu''], tsMemory = strAt spec [''resources'', ''memory''],
      tsTimeoutSeconds = valueOr 0 (nestedInt64 spec [''timeoutSeconds'']),
      tsEnabled = (nestedField spec [''enabled''] = Inr (Some (JBool True)))\<rparr>"

definition typedTemplate :: "json \<Rightarrow> bool" where
  "typedTemplate spec \<longleftrightarrow>
     (\<forall>fs \<in> {[''displayName''], [''description''], [''image''], [''capabilityBundleRef'', ''name''], [''capabilityBundleRef'', ''policyRevision''],
             [''resources'', ''cpu''], [''resources'', ''memory'']}. \<exists>s. nestedField spec fs = Inr (Some (JStr s))) \<and>
     (\<exists>ss. nestedField spec [''entrypoint''] = Inr (Some (JArr (map JStr ss)))) \<and>
     (\<exists>n. nestedField spec [''timeoutSeconds''] = Inr (Some (JInt n))) \<and> (\<exists>b. nestedField spec [''enabled''] = Inr (Some (JBool b)))"

definition convertsTemplates :: "'w templateClient \<Rightarrow> bool" where
  "convertsTemplates client \<longleftrightarrow>
     (\<forall>object. typedTemplate (uSpec object) \<longrightarrow> (\<exists>t. tcToTemplate client object = Inr t \<and> stSpec t = templateSpecOf (uSpec object)))"

lemma templateSpecJson_typed: "typedTemplate (templateSpecJson form revision entrypoint timeoutSeconds enabled)"
  by (auto simp: typedTemplate_def templateSpecJson_def)

lemma templateSpecOf_json:
  "templateSpecOf (templateSpecJson form revision entrypoint timeoutSeconds enabled) =
     \<lparr>tsDisplayName = trimmed form ''displayName'', tsDescription = trimmed form ''description'', tsImage = trimmed form ''image'',
      tsEntrypoint = entrypoint, tsCapabilityBundleRef = \<lparr>cbrName = trimmed form ''capabilityBundle'', cbrPolicyRevision = revision\<rparr>,
      tsCPU = trimmed form ''cpu'', tsMemory = trimmed form ''memory'', tsTimeoutSeconds = timeoutSeconds, tsEnabled = enabled\<rparr>"
  by (simp add: templateSpecOf_def templateSpecJson_def strAt_eq sliceAt_eq valueOr_def nestedInt64_def jsonString_def o_def)

lemma strAt_object: "strAt j (f # fs) \<noteq> [] \<Longrightarrow> \<exists>kvs. j = JObj kvs"
  by (cases j) (auto simp: strAt_eq)

lemma templateGrounds_resolves:
  assumes grounds: "templateGrounds c lib g r w form bundle spec w'" and enabled: "parseBool (formGet form ''enabled'') = Some True"
    and convert: "convertsTemplates client"
    and object: "tcGetTemplate client namespace (trimmed form ''name'') v = (Inr object, v1)" "uSpec object = spec" "metaDeletionTimestamp object = None"
    and read: "tcGetBundle client namespace (trimmed form ''capabilityBundle'') v1 = (Inr bundle', v2)" "uSpec bundle' = uSpec bundle"
      "metaDeletionTimestamp bundle' = None"
  shows "\<exists>t. Resolve client namespace (trimmed form ''name'') v = (Inr t, v2) \<and>
    rtplImage t = trimmed form ''image'' \<and> digestPinnedImage (rtplImage t) \<and> parseEntrypoint (formGet form ''entrypoint'') = Inr (rtplEntrypoint t) \<and>
    rtplCPU t = trimmed form ''cpu'' \<and> rtplMemory t = trimmed form ''memory'' \<and>
    parseLifetime (formGet form ''timeoutSeconds'') = Inr (rtplTimeoutSeconds t) \<and> 60 \<le> rtplTimeoutSeconds t \<and> rtplTimeoutSeconds t \<le> 3600 \<and>
    rtplCapabilityBundleName t = trimmed form ''capabilityBundle'' \<and> rtplCapabilityBundleRevision t = PolicyRevision (uSpec bundle) \<and>
    rtplLogicalTenant t = strAt (uSpec bundle) [''governance'', ''logicalTenant''] \<and> rtplRevision t = PolicyRevision spec"
proof -
  let ?tenant = "strAt (uSpec bundle) [''governance'', ''logicalTenant'']"
  from grounds obtain identity w1 entrypoint seconds on where g: "\<not> badTemplateFields form" "trimSpace ?tenant \<noteq> []"
      "administers (acGov c) g r ?tenant w1 identity w'" "parseEntrypoint (formGet form ''entrypoint'') = Inr entrypoint"
      "parseLifetime (formGet form ''timeoutSeconds'') = Inr seconds" "parseEnabled (formGet form ''enabled'') = Inr on"
      "spec = templateSpecJson form (templatePolicyRevision bundle) entrypoint seconds on"
    by (auto simp: templateGrounds_def)
  have tenant: "?tenant \<noteq> []" using g(2) by (auto simp: trimSpace_def trimRight_def)
  obtain kvs where kvs: "uSpec bundle = JObj kvs" using strAt_object [OF tenant] by blast
  have on: "on" using g(6) enabled by (simp add: parseEnabled_def)
  have seconds: "60 \<le> seconds" "seconds \<le> 3600" using g(5) by (auto simp: parseLifetime_def split: option.splits if_splits)
  have "typedTemplate (uSpec object)" using object(2) g(7) templateSpecJson_typed by simp
  then obtain t where t: "tcToTemplate client object = Inr t" "stSpec t = templateSpecOf spec"
    using convert object(2) unfolding convertsTemplates_def by blast
  have "resolvedFrom client object (stSpec t) bundle' \<lparr>rtplName = metaName object, rtplUID = metaUID object, rtplRevision = PolicyRevision spec,
      rtplImage = trimmed form ''image'', rtplEntrypoint = entrypoint, rtplCPU = trimmed form ''cpu'', rtplMemory = trimmed form ''memory'',
      rtplTimeoutSeconds = seconds, rtplCapabilityBundleName = trimmed form ''capabilityBundle'',
      rtplCapabilityBundleRevision = PolicyRevision (uSpec bundle), rtplLogicalTenant = ?tenant\<rparr>" (is "resolvedFrom _ _ _ _ ?t")
    using t object read kvs tenant on seconds
    by (simp add: resolvedFrom_def g(7) templateSpecOf_json maxInt_def templatePolicyRevision_def) (simp add: templateSpecJson_def)
  moreover have "cbrName (tsCapabilityBundleRef (stSpec t)) = trimmed form ''capabilityBundle''"
    by (simp add: t(2) g(7) templateSpecOf_json)
  ultimately have "Resolve client namespace (trimmed form ''name'') v = (Inr ?t, v2)"
    unfolding Resolve_iff using object(1) read(1) by metis
  then show ?thesis using g(1,4,5) seconds by (intro exI [of _ ?t]) (auto simp: badTemplateFields_def)
qed

text \<open>
  C19: a template that the dashboard created resolves to what the form said. When the handler answers with its redirect, it wrote a template of
  the name in the form, after an administrator of the bundle's tenant was checked. Whenever the resolver reads a template of this name with the same spec,
  and the bundle it names with the content that the dashboard saw, and the form said enabled, it answers with the image of the form, pinned by its digest, the entry point, the CPU and
  memory quantities, the lifetime in seconds, which is between 60 and 3600, and the tenant of the bundle: the revision that the dashboard recorded is the one
  that the resolver computes.
\<close>

theorem created_template_resolves:
  assumes created: "createSandboxTemplate c lib g r w = (resp, w')" "rspStatus resp = 303" and convert: "convertsTemplates client"
  shows "\<exists>form bundle written answer identity w1 w2. parseMutation g r templateFields = Inr form \<and>
    dcGetBundle (gcBase (acGov c)) (trimmed form ''capabilityBundle'') w = (Inr bundle, w1) \<and>
    administers (acGov c) g r (strAt (uSpec bundle) [''governance'', ''logicalTenant'']) w1 identity w2 \<and>
    prepareTemplate c lib g r w = (Inr (trimmed form ''name'', written), w2) \<and> acCreateTemplate c written w2 = (Inr answer, w') \<and>
    (\<forall>namespace v object v1 bundle' v2.
       tcGetTemplate client namespace (trimmed form ''name'') v = (Inr object, v1) \<and> uSpec object = uSpec written \<and> metaDeletionTimestamp object = None \<and>
       tcGetBundle client namespace (trimmed form ''capabilityBundle'') v1 = (Inr bundle', v2) \<and> uSpec bundle' = uSpec bundle \<and>
       metaDeletionTimestamp bundle' = None \<and> parseBool (formGet form ''enabled'') = Some True \<longrightarrow>
       (\<exists>t. Resolve client namespace (trimmed form ''name'') v = (Inr t, v2) \<and>
          rtplImage t = trimmed form ''image'' \<and> digestPinnedImage (rtplImage t) \<and> parseEntrypoint (formGet form ''entrypoint'') = Inr (rtplEntrypoint t) \<and>
          rtplCPU t = trimmed form ''cpu'' \<and> rtplMemory t = trimmed form ''memory'' \<and>
          parseLifetime (formGet form ''timeoutSeconds'') = Inr (rtplTimeoutSeconds t) \<and> 60 \<le> rtplTimeoutSeconds t \<and> rtplTimeoutSeconds t \<le> 3600 \<and>
          rtplCapabilityBundleName t = trimmed form ''capabilityBundle'' \<and> rtplCapabilityBundleRevision t = PolicyRevision (uSpec bundle) \<and>
          rtplLogicalTenant t = strAt (uSpec bundle) [''governance'', ''logicalTenant''] \<and> rtplRevision t = PolicyRevision (uSpec written)))"
proof -
  from created have "\<exists>name object w1 v. prepareTemplate c lib g r w = (Inr (name, object), w1) \<and> acCreateTemplate c object w1 = (Inr v, w') \<and>
      resp = redirectWithMessage g r ''/admin'' (''Sandbox template '' @ name @ '' created'')"
    unfolding createSandboxTemplate_def created_iff [OF prepare_refuses(2), symmetric] by simp
  then obtain name written w2 answer where
    wrote: "prepareTemplate c lib g r w = (Inr (name, written), w2)" "acCreateTemplate c written w2 = (Inr answer, w')"
    by blast
  from wrote(1) obtain form b spec where grounds: "templateGrounds c lib g r w form b spec w2"
    and name: "name = trimmed form ''name''" "written = templateObject g name spec"
    unfolding prepareTemplate_Inr by blast
  from grounds obtain identity w1 where tenant: "parseMutation g r templateFields = Inr form"
    "dcGetBundle (gcBase (acGov c)) (trimmed form ''capabilityBundle'') w = (Inr b, w1)"
    "administers (acGov c) g r (strAt (uSpec b) [''governance'', ''logicalTenant'']) w1 identity w2"
    unfolding templateGrounds_def parseMutation_Inr by blast
  have spec: "uSpec written = spec" by (simp add: name(2) templateObject_def object_meta.extend_def)
  show ?thesis
    by (rule exI [of _ form], rule exI [of _ b], rule exI [of _ written], rule exI [of _ answer], rule exI [of _ identity],
        rule exI [of _ w1], rule exI [of _ w2])
      (use tenant wrote name(1) spec templateGrounds_resolves [OF grounds _ convert] in auto)
qed

subsection \<open>An example\<close>

definition axImage :: string where
  "axImage = ''registry/python@sha256:'' @ concat (replicate 16 ''0a1b'')"

definition axPost :: dashRequest where
  "axPost = gxPost (''csrf=t&name=python&displayName=Python&description=&image='' @ axImage @ ''&entrypoint=%5B%22python%22%5D&capabilityBundle=b1'' @
     ''&cpu=1&memory=1Gi&timeoutSeconds=600&enabled=true'')"

definition axForm :: form where
  "axForm = [(''csrf'', [''t'']), (''name'', [''python'']), (''displayName'', [''Python'']), (''description'', [[]]), (''image'', [axImage]),
     (''entrypoint'', [[CHR 0x5B, CHR 0x22] @ ''python'' @ [CHR 0x22, CHR 0x5D]]), (''capabilityBundle'', [''b1'']), (''cpu'', [''1'']), (''memory'', [''1Gi'']),
     (''timeoutSeconds'', [''600'']), (''enabled'', [''true''])]"

definition axLib :: adminLib where
  "axLib = \<lparr>alGov = gxLib, alQuantitySign = (\<lambda>_. Some 1)\<rparr>"

definition axClient :: "time adminClient" where
  "axClient = \<lparr>acGov = gxClient, acFromBundle = (\<lambda>_. Inr gxObject), acCreateBundle = okw, acCreateTemplate = okw,
     acFromPolicy = (\<lambda>_. Inr gxObject), acCreatePolicy = okw, acRenderSimulation = (\<lambda>_. [])\<rparr>"

definition axSpec :: json where
  "axSpec = templateSpecJson axForm (templatePolicyRevision gxObject) [''python''] 600 True"

definition axTemplates :: "unit templateClient" where
  "axTemplates = \<lparr>tcGetTemplate = (\<lambda>_ name. okw (templateObject gxDashboard name axSpec)), tcGetBundle = (\<lambda>_ _. okw gxObject),
     tcToTemplate = (\<lambda>object. Inr (object_meta.extend emptyMeta \<lparr>stSpec = templateSpecOf (uSpec object)\<rparr>))\<rparr>"

lemma ax_form: "parseMutation gxDashboard axPost templateFields = Inr axForm"
  by code_simp

lemma ax_fields: "\<not> badTemplateFields axForm" "parseEntrypoint (formGet axForm ''entrypoint'') = Inr [''python'']"
  "parseLifetime (formGet axForm ''timeoutSeconds'') = Inr 600" "parseEnabled (formGet axForm ''enabled'') = Inr True"
  by code_simp+

lemma ax_tenant: "strAt (uSpec gxObject) [''governance'', ''logicalTenant''] = ''blue''" "trimSpace ''blue'' \<noteq> []"
  by code_simp+

lemma ax_admin: "administers gxClient gxDashboard axPost ''blue'' t sxIdentity t"
proof -
  have "requireAdminTenant gxClient gxDashboard axPost ''blue'' t = (Inr sxIdentity, t)"
    by (simp add: requireAdminTenant_def requireTenantScope_def principalScopes_def loadPrincipalScopes_def principalMatches_def requireAdmin_def
        governanceRequestContext_def authenticatedIdentityFromContext_def csrfTokenFromContext_def axPost_def gxPost_def gxClient_def gxDashboard_def
        gxBinding_def sxIdentity_def object_meta.extend_def emptyMeta_def bindw_def caught_def tryw_def guardw_def tenantAllowed_def)
  then show ?thesis by (simp add: flow_simps)
qed

lemma ax_grounds: "templateGrounds axClient axLib gxDashboard axPost t axForm gxObject axSpec t"
  unfolding templateGrounds_def parseMutation_Inr [symmetric]
  using ax_form ax_fields ax_tenant ax_admin [of t]
  by (intro exI [of _ sxIdentity] exI [of _ t] exI [of _ "[''python'']"] exI [of _ 600] exI [of _ True])
    (simp add: axLib_def gxLib_def axClient_def gxClient_def axSpec_def)

lemma ax_converts: "convertsTemplates axTemplates"
  by (simp add: convertsTemplates_def axTemplates_def object_meta.extend_def)

theorem created_template_resolves_witness:
  "\<exists>resp t. createSandboxTemplate axClient axLib gxDashboard axPost 0 = (resp, 0) \<and> rspStatus resp = 303 \<and>
     Resolve axTemplates ''assignments'' ''python'' () = (Inr t, ()) \<and> rtplImage t = axImage \<and> rtplEntrypoint t = [''python''] \<and>
     rtplCPU t = ''1'' \<and> rtplMemory t = ''1Gi'' \<and> rtplTimeoutSeconds t = 600 \<and> rtplLogicalTenant t = ''blue''"
proof -
  have fields: "trimmed axForm ''name'' = ''python''" "trimmed axForm ''capabilityBundle'' = ''b1''" "trimmed axForm ''image'' = axImage"
    "trimmed axForm ''cpu'' = ''1''" "trimmed axForm ''memory'' = ''1Gi''" "parseBool (formGet axForm ''enabled'') = Some True"
    by code_simp+
  have prepared: "prepareTemplate axClient axLib gxDashboard axPost 0 = (Inr (''python'', templateObject gxDashboard ''python'' axSpec), 0)"
    unfolding prepareTemplate_Inr using ax_grounds [of 0] fields(1) by metis
  have "\<exists>name object w1 v. prepareTemplate axClient axLib gxDashboard axPost 0 = (Inr (name, object), w1) \<and>
      acCreateTemplate axClient object w1 = (Inr v, 0) \<and>
      redirectWithMessage gxDashboard axPost ''/admin'' (''Sandbox template python created'') =
        redirectWithMessage gxDashboard axPost ''/admin'' (''Sandbox template '' @ name @ '' created'')"
    unfolding prepared by (simp add: axClient_def)
  from created_iff [OF prepare_refuses(2), THEN iffD2, OF this] obtain resp where
    run: "createSandboxTemplate axClient axLib gxDashboard axPost 0 = (resp, 0)" "rspStatus resp = 303"
    unfolding createSandboxTemplate_def by blast
  have stored: "dcGetBundle (gcBase (acGov axClient)) ''b1'' 0 = (Inr gxObject, 0)"
    by (simp add: axClient_def gxClient_def)
  have read: "tcGetTemplate axTemplates ''assignments'' ''python'' () = (Inr (templateObject gxDashboard ''python'' axSpec), ())"
    "tcGetBundle axTemplates ''assignments'' ''b1'' () = (Inr gxObject, ())"
    "metaDeletionTimestamp (templateObject gxDashboard ''python'' axSpec) = None" "metaDeletionTimestamp gxObject = None"
    by (simp_all add: axTemplates_def templateObject_def newObjectMeta_def emptyMeta_def gxObject_def object_meta.extend_def)
  from created_template_resolves [OF run ax_converts] obtain form b written where
    ran: "parseMutation gxDashboard axPost templateFields = Inr form" "\<exists>w1. dcGetBundle (gcBase (acGov axClient)) (trimmed form ''capabilityBundle'') 0 = (Inr b, w1)"
      "\<exists>w2. prepareTemplate axClient axLib gxDashboard axPost 0 = (Inr (trimmed form ''name'', written), w2)"
    and resolves: "\<And>object b'. tcGetTemplate axTemplates ''assignments'' (trimmed form ''name'') () = (Inr object, ()) \<and> uSpec object = uSpec written \<and>
       metaDeletionTimestamp object = None \<and> tcGetBundle axTemplates ''assignments'' (trimmed form ''capabilityBundle'') () = (Inr b', ()) \<and>
       uSpec b' = uSpec b \<and> metaDeletionTimestamp b' = None \<and> parseBool (formGet form ''enabled'') = Some True \<Longrightarrow>
       \<exists>t. Resolve axTemplates ''assignments'' (trimmed form ''name'') () = (Inr t, ()) \<and> rtplImage t = trimmed form ''image'' \<and>
         parseEntrypoint (formGet form ''entrypoint'') = Inr (rtplEntrypoint t) \<and> rtplCPU t = trimmed form ''cpu'' \<and> rtplMemory t = trimmed form ''memory'' \<and>
         parseLifetime (formGet form ''timeoutSeconds'') = Inr (rtplTimeoutSeconds t) \<and>
         rtplLogicalTenant t = strAt (uSpec b) [''governance'', ''logicalTenant'']"
    by blast
  have same: "form = axForm" "b = gxObject" "written = templateObject gxDashboard ''python'' axSpec"
    using ran ax_form stored prepared fields(2) by auto
  obtain t where "Resolve axTemplates ''assignments'' ''python'' () = (Inr t, ()) \<and> rtplImage t = axImage \<and> rtplEntrypoint t = [''python''] \<and>
     rtplCPU t = ''1'' \<and> rtplMemory t = ''1Gi'' \<and> rtplTimeoutSeconds t = 600 \<and> rtplLogicalTenant t = ''blue''"
    using resolves [of "templateObject gxDashboard ''python'' axSpec" gxObject, unfolded same fields] read ax_fields(2,3) ax_tenant(1) by auto
  with run show ?thesis by blast
qed

end
