(* ===== verification/Broker.thy ===== *)
theory Broker
  imports GoHttp GoJson GoCalendar AuthzTypes
begin

section \<open>The credential broker\<close>

text \<open>
  \<open>internal/assignment/credentialbroker/broker.go\<close>. A sandbox exchanges its Pod-bound identity for a
  signed credential of one exact target and a short lifetime; an upstream service has the credential
  verified, and either may revoke it. The checker, the validator, the audit sink and the
  revocation store are Go interfaces and fields of the record \<open>broker\<close>; the implementations of the
  last three are in the theory \<open>BrokerKube\<close>. The clock and \<open>uuid.NewString\<close> read the world.

  The JWT library is the record \<open>jwtLibrary\<close>: \<open>jwtSign\<close> is \<open>NewWithClaims\<close> with the key identifier
  in the header and \<open>SignedString\<close>, \<open>jwtParse\<close> is \<open>ParseWithClaims\<close> with its key function, options and
  the time it reads. \<open>jwtAccepts\<close> and \<open>jwtReadsBack\<close> state what the library documents of them.

  A handler that panics has the result \<open>None\<close>; \<open>net/http\<close> then drops the connection. The only place is
  the expiry of a credential that has none. Log lines are not modelled.
\<close>

subsection \<open>Data\<close>

record GrantClaims =
  gcAssignmentName :: string
  gcAssignmentUID :: string
  gcSandboxID :: string
  gcPodUID :: string
  gcCapabilityBundleName :: string
  gcCapabilityBundleRevision :: string
  gcTaskID :: string
  gcBackend :: string
  gcMethod :: string
  gcHost :: string
  gcPath :: string
  gcIssuer :: string
  gcSubject :: string
  gcAudience :: "string list"
  gcExpiresAt :: "time option"
  gcNotBefore :: "time option"
  gcIssuedAt :: "time option"
  gcID :: string

record brokerConfig =
  bcSigningKey :: string
  bcSigningKeyID :: string
  bcPreviousSigningKeys :: "(string \<times> string) list"
  bcIssuer :: string
  bcAudience :: string

record AuditEvent =
  aeTimestamp :: time
  aeAction :: string
  aeGrant :: GrantClaims

record issueRequest =
  irIdentityToken :: string
  irBackend :: string
  irMethod :: string
  irHost :: string
  irPath :: string
  irTaskID :: string
  irTTLSeconds :: "64 word"

text \<open>The header of a token: its algorithm, and the \<open>kid\<close> when it is a string.\<close>

record jwtHeader =
  jhAlg :: string
  jhKid :: "string option"

record jwtOptions =
  joAudience :: string
  joIssuer :: string
  joValidMethods :: "string list"

record jwtLibrary =
  jwtSign :: "jwtHeader \<Rightarrow> string \<Rightarrow> GrantClaims \<Rightarrow> go_error + string"
  jwtParse :: "(jwtHeader \<Rightarrow> go_error + string) \<Rightarrow> jwtOptions \<Rightarrow> time \<Rightarrow> string \<Rightarrow> go_error + (bool \<times> GrantClaims)"

text \<open>A call that may panic.\<close>

type_synonym ('w, 'a) pcall = "'w \<Rightarrow> (go_error + 'a) option \<times> 'w"

record 'w broker =
  brCheck :: "CheckInput \<Rightarrow> 'w \<Rightarrow> (Decision \<times> go_error option) \<times> 'w"
  brValidateGrant :: "GrantClaims \<Rightarrow> ('w, unit) call"
  brAudit :: "(AuditEvent \<Rightarrow> ('w, unit) pcall) option"
  brRevoke :: "GrantClaims \<Rightarrow> ('w, unit) pcall"
  brIsRevoked :: "string \<Rightarrow> ('w, bool) call"
  brConfig :: brokerConfig
  brNow :: "'w \<Rightarrow> time \<times> 'w"
  brNewUUID :: "'w \<Rightarrow> string \<times> 'w"
  brJwt :: jwtLibrary
  brLocalTime :: "time \<Rightarrow> string option"

text \<open>\<open>brLocalTime\<close> is the JSON text of an instant in the zone of the process.\<close>

definition defaultIssuer :: string where "defaultIssuer = ''assignmentd-credential-broker''"
definition defaultAudience :: string where "defaultAudience = ''sandbox-brokered-upstream''"
definition maxRequestBytes :: nat where "maxRequestBytes = 32768"
definition minimumTTL :: int where "minimumTTL = 60 * second"
definition maximumTTL :: int where "maximumTTL = 15 * 60 * second"

subsection \<open>Construction\<close>

definition defaultConfig :: "brokerConfig \<Rightarrow> brokerConfig" where
  "defaultConfig config = config\<lparr>
     bcSigningKeyID := (if bcSigningKeyID config = [] then ''current'' else bcSigningKeyID config),
     bcIssuer := (if bcIssuer config = [] then defaultIssuer else bcIssuer config),
     bcAudience := (if bcAudience config = [] then defaultAudience else bcAudience config)\<rparr>"

definition newBroker :: "bool \<Rightarrow> bool \<Rightarrow> bool \<Rightarrow> 'w broker \<Rightarrow> go_error + 'w broker" where
  "newBroker checkerNil validatorNil revocationsNil b =
     (let config = defaultConfig (brConfig b) in
      if checkerNil \<or> validatorNil \<or> revocationsNil
      then Inl (ErrNew ''credential broker checker, validator, and revocation store are required'')
      else if length (bcSigningKey config) < 32
      then Inl (ErrNew ''credential broker signing key must be at least 32 bytes'')
      else if list_ex (\<lambda>(keyID, key). trimSpace keyID = [] \<or> length key < 32 \<or> keyID = bcSigningKeyID config)
                (bcPreviousSigningKeys config)
      then Inl (ErrNew ''credential broker previous signing keys are invalid'')
      else Inr (b\<lparr>brConfig := config\<rparr>))"

subsection \<open>Requests and responses\<close>

fun taskCharacters :: "bool \<Rightarrow> string \<Rightarrow> bool" where
  "taskCharacters first [] = True"
| "taskCharacters first (c # cs) =
     ((isLower c \<or> isUpper c \<or> isDigit c \<or> (\<not> first \<and> c \<in> {CHR ''.'', CHR ''_'', CHR ''-''})) \<and> taskCharacters False cs)"

text \<open>
  The loop over the runes accepts ASCII only, and every byte of a longer rune is outside ASCII, so
  going by bytes accepts the same strings.
\<close>

definition validTaskID :: "string \<Rightarrow> bool" where
  "validTaskID s \<longleftrightarrow> 1 \<le> length s \<and> length s \<le> 128 \<and> taskCharacters True s"

text \<open>
  Decoding into \<open>issueRequest\<close> with unknown fields disallowed: the names match without regard to case,
  \<open>null\<close> leaves a field alone, and a value of another type, or an integer beyond 64 bits, is an error.
\<close>

definition emptyIssueRequest :: issueRequest where
  "emptyIssueRequest = \<lparr>irIdentityToken = [], irBackend = [], irMethod = [], irHost = [], irPath = [], irTaskID = [],
     irTTLSeconds = 0\<rparr>"

definition decodeStringInto :: "json \<Rightarrow> ((string \<Rightarrow> string) \<Rightarrow> 'r \<Rightarrow> 'r) \<Rightarrow> 'r \<Rightarrow> 'r option" where
  "decodeStringInto j upd r =
     (case j of JStr s \<Rightarrow> Some (upd (\<lambda>_. s) r) | JNull \<Rightarrow> Some r | _ \<Rightarrow> None)"

definition decodeInt64Into :: "json \<Rightarrow> ((64 word \<Rightarrow> 64 word) \<Rightarrow> 'r \<Rightarrow> 'r) \<Rightarrow> 'r \<Rightarrow> 'r option" where
  "decodeInt64Into j upd r =
     (case j of
        JInt i \<Rightarrow> if - (2 ^ 63) \<le> i \<and> i < 2 ^ 63 then Some (upd (\<lambda>_. word_of_int i) r) else None
      | JNull \<Rightarrow> Some r
      | _ \<Rightarrow> None)"

definition decodeIssueField :: "string \<times> json \<Rightarrow> issueRequest \<Rightarrow> issueRequest option" where
  "decodeIssueField kv r =
     (let named = equalFold (fst kv); j = snd kv in
      if named ''identityToken'' then decodeStringInto j irIdentityToken_update r
      else if named ''backend'' then decodeStringInto j irBackend_update r
      else if named ''method'' then decodeStringInto j irMethod_update r
      else if named ''host'' then decodeStringInto j irHost_update r
      else if named ''path'' then decodeStringInto j irPath_update r
      else if named ''taskId'' then decodeStringInto j irTaskID_update r
      else if named ''ttlSeconds'' then decodeInt64Into j irTTLSeconds_update r
      else None)"

definition decodeIssueRequest :: "json \<Rightarrow> issueRequest option" where
  "decodeIssueRequest j =
     (case j of
        JNull \<Rightarrow> Some emptyIssueRequest
      | JObj kvs \<Rightarrow> fold (\<lambda>kv acc. case acc of None \<Rightarrow> None | Some r \<Rightarrow> decodeIssueField kv r) kvs (Some emptyIssueRequest)
      | _ \<Rightarrow> None)"

text \<open>
  One object and then the end of the body. Beyond \<open>maxRequestBytes\<close> the reader fails, so the second
  read cannot find the end; a \<open>null\<close> that ends exactly there is not complete yet.
\<close>

definition decodeJSON :: "request \<Rightarrow> go_error + issueRequest" where
  "decodeJSON r =
     (case rqBody r of
        Inl e \<Rightarrow> Inl (ErrNew ''invalid JSON request'')
      | Inr body \<Rightarrow>
          (let seen = take maxRequestBytes body; cut = (maxRequestBytes < length body) in
           case parseValue (Suc (length seen)) 0 seen of
             None \<Rightarrow> Inl (ErrNew ''invalid JSON request'')
           | Some (v, rest) \<Rightarrow>
               if cut \<and> rest = [] \<and> v = JNull then Inl (ErrNew ''invalid JSON request'')
               else case decodeIssueRequest v of
                      None \<Rightarrow> Inl (ErrNew ''invalid JSON request'')
                    | Some request \<Rightarrow>
                        if cut \<or> skipSpace rest \<noteq> [] then Inl (ErrNew ''request must contain one JSON object'')
                        else Inr request))"

text \<open>A value that does not encode leaves the body empty.\<close>

definition writeJSON :: "nat \<Rightarrow> json option \<Rightarrow> response" where
  "writeJSON status v = \<lparr>rspStatus = status,
     rspHeaders = headerSet (headerSet [] ''Content-Type'' ''application/json'') ''Cache-Control'' ''no-store'',
     rspBody = (case v of None \<Rightarrow> [] | Some j \<Rightarrow> encodeJson True (sortKeys j) @ [CHR 0x0A])\<rparr>"

definition brokerError :: "nat \<Rightarrow> string \<Rightarrow> response" where
  "brokerError status message = writeJSON status (Some (JObj [(''error'', JStr message)]))"

definition errorString :: "go_error \<Rightarrow> string" where
  "errorString e = (case e of ErrNew m \<Rightarrow> m | _ \<Rightarrow> [])"

lemma writeJSON_status [simp]: "rspStatus (writeJSON s v) = s" "rspStatus (brokerError s m) = s"
  by (simp_all add: writeJSON_def brokerError_def)

subsection \<open>Operations\<close>

type_synonym ('w, 'a) bstep = "(response option, 'w, 'a) step"

text \<open>Reading the clock or a new identifier, and a call that may panic.\<close>

definition readw :: "('w \<Rightarrow> 'a \<times> 'w) \<Rightarrow> ('r, 'w, 'a) step" where
  "readw f w = (case f w of (a, w') \<Rightarrow> (Inr a, w'))"

definition tryp :: "('w, 'a) pcall \<Rightarrow> (go_error \<Rightarrow> response) \<Rightarrow> ('w, 'a) bstep" where
  "tryp c h w =
     (case c w of
        (None, w') \<Rightarrow> (Inl None, w')
      | (Some (Inl e), w') \<Rightarrow> (Inl (Some (h e)), w')
      | (Some (Inr a), w') \<Rightarrow> (Inr a, w'))"

definition refuse :: "bool \<Rightarrow> nat \<Rightarrow> string \<Rightarrow> ('w, unit) bstep" where
  "refuse c status message = guardw c (Some (brokerError status message))"

text \<open>\<open>jwt.NewNumericDate\<close> cuts down to whole seconds.\<close>

definition numericDate :: "time \<Rightarrow> time" where
  "numericDate t = t div second * second"

definition recordEvent :: "'w broker \<Rightarrow> string \<Rightarrow> GrantClaims \<Rightarrow> ('w, unit) bstep" where
  "recordEvent b action claims =
     (case brAudit b of
        None \<Rightarrow> retw ()
      | Some audit \<Rightarrow>
          bindw (readw (brNow b)) (\<lambda>t.
            tryp (audit \<lparr>aeTimestamp = t, aeAction = action, aeGrant = claims\<rparr>)
              (\<lambda>_. brokerError 503 ''credential audit is unavailable'')))"

text \<open>\<open>time.Duration(request.TTLSeconds) * time.Second\<close> wraps around at 64 bits.\<close>

definition requestTTL :: "issueRequest \<Rightarrow> int" where
  "requestTTL request = sint (irTTLSeconds request * 1000000000)"

definition checkIssueRequest :: "issueRequest \<Rightarrow> ('w, Target) bstep" where
  "checkIssueRequest request =
     bindw (refuse (irIdentityToken request = []) 400 ''Pod-bound identity is required'') (\<lambda>_.
     bindw (refuse (\<not> validTaskID (irTaskID request)) 400 ''task ID is invalid'') (\<lambda>_.
     bindw (refuse (requestTTL request < minimumTTL \<or> maximumTTL < requestTTL request) 400
       ''TTL must be between 60 and 900 seconds'') (\<lambda>_.
       case NormalizeTarget (irBackend request) (irMethod request) (irHost request) (irPath request) of
         Inl _ \<Rightarrow> exitw (Some (brokerError 400 ''target is invalid''))
       | Inr target \<Rightarrow> retw target)))"

definition issueInput :: "issueRequest \<Rightarrow> Target \<Rightarrow> CheckInput" where
  "issueInput request target = \<lparr>ciBackend = tgBackend target, ciIdentityToken = irIdentityToken request,
     ciMethod = tgMethod target, ciHost = tgHost target, ciPath = tgPath target, ciHeaders = Map.empty,
     ciSourceAddress = [], ciDeriveSourceFromIdentity = True\<rparr>"

definition authorizeIssue :: "'w broker \<Rightarrow> issueRequest \<Rightarrow> Target \<Rightarrow> ('w, Decision) bstep" where
  "authorizeIssue b request target w =
     (case brCheck b (issueInput request target) w of
        ((d, Some e), w') \<Rightarrow> (Inl (Some (brokerError 503 ''credential authorization is unavailable'')), w')
      | ((d, None), w') \<Rightarrow>
          if \<not> dAllow d then (Inl (Some (brokerError 403 ''credential scope is not authorized'')), w')
          else (Inr d, w'))"

definition grantClaims ::
  "brokerConfig \<Rightarrow> issueRequest \<Rightarrow> Target \<Rightarrow> Decision \<Rightarrow> time \<Rightarrow> string \<Rightarrow> GrantClaims" where
  "grantClaims config request target d now grantID = \<lparr>
     gcAssignmentName = dAssignmentName d, gcAssignmentUID = dAssignmentUID d, gcSandboxID = dSandboxID d,
     gcPodUID = dPodUID d, gcCapabilityBundleName = dCapabilityBundleName d,
     gcCapabilityBundleRevision = dCapabilityBundleRevision d, gcTaskID = irTaskID request,
     gcBackend = tgBackend target, gcMethod = tgMethod target, gcHost = tgHost target, gcPath = tgPath target,
     gcIssuer = bcIssuer config, gcSubject = dAssignmentUID d, gcAudience = [bcAudience config],
     gcExpiresAt = Some (numericDate (now + requestTTL request)), gcNotBefore = Some (numericDate now),
     gcIssuedAt = Some (numericDate now), gcID = grantID\<rparr>"

definition signingHeader :: "brokerConfig \<Rightarrow> jwtHeader" where
  "signingHeader config = \<lparr>jhAlg = ''HS256'', jhKid = Some (bcSigningKeyID config)\<rparr>"

definition scopeJSON :: "string \<Rightarrow> string \<Rightarrow> string \<Rightarrow> string \<Rightarrow> json" where
  "scopeJSON backend method host path =
     JObj [(''backend'', JStr backend), (''method'', JStr method), (''host'', JStr host), (''path'', JStr path)]"

definition issuedJSON :: "string \<Rightarrow> GrantClaims \<Rightarrow> time \<Rightarrow> json option" where
  "issuedJSON token claims expiresAt =
     map_option (\<lambda>t. JObj [(''credential'', JStr token), (''grantId'', JStr (gcID claims)), (''expiresAt'', JStr t),
       (''assignment'', JStr (gcAssignmentName claims)), (''sandboxId'', JStr (gcSandboxID claims)),
       (''taskId'', JStr (gcTaskID claims)),
       (''scope'', scopeJSON (gcBackend claims) (gcMethod claims) (gcHost claims) (gcPath claims))])
       (marshalTime expiresAt)"

definition issue :: "'w broker \<Rightarrow> request \<Rightarrow> ('w, response option) bstep" where
  "issue b r =
     bindw (liftf (case decodeJSON r of Inl e \<Rightarrow> Inl (Some (brokerError 400 (errorString e))) | Inr request \<Rightarrow> Inr request)) (\<lambda>request.
     bindw (checkIssueRequest request) (\<lambda>target.
     bindw (authorizeIssue b request target) (\<lambda>d.
     bindw (readw (brNow b)) (\<lambda>now.
     bindw (readw (brNewUUID b)) (\<lambda>grantID.
     let claims = grantClaims (brConfig b) request target d now grantID in
     bindw (liftf (case jwtSign (brJwt b) (signingHeader (brConfig b)) (bcSigningKey (brConfig b)) claims of
                     Inl _ \<Rightarrow> Inl (Some (brokerError 500 ''credential issuance failed'')) | Inr token \<Rightarrow> Inr token)) (\<lambda>token.
     bindw (recordEvent b ''issued'' claims) (\<lambda>_.
       retw (Some (writeJSON 201 (issuedJSON token claims (now + requestTTL request)))))))))))"

text \<open>The key that the parser is given for the header of a token.\<close>

definition keyFunc :: "brokerConfig \<Rightarrow> jwtHeader \<Rightarrow> go_error + string" where
  "keyFunc config header =
     (if jhAlg header \<noteq> ''HS256'' then Inl (ErrNew ''unexpected signing method'')
      else let keyID = optS (jhKid header) in
           if keyID = bcSigningKeyID config then Inr (bcSigningKey config)
           else case map_of (bcPreviousSigningKeys config) keyID of
                  None \<Rightarrow> Inl (ErrNew ''unknown signing key'')
                | Some key \<Rightarrow> Inr key)"

definition jwtParseOptions :: "brokerConfig \<Rightarrow> jwtOptions" where
  "jwtParseOptions config = \<lparr>joAudience = bcAudience config, joIssuer = bcIssuer config, joValidMethods = [''HS256'']\<rparr>"

definition acceptClaims :: "bool \<Rightarrow> GrantClaims \<Rightarrow> go_error + GrantClaims" where
  "acceptClaims valid claims =
     (if \<not> valid \<or> gcID claims = [] \<or> gcAssignmentUID claims = [] \<or> gcPodUID claims = [] \<or>
         gcCapabilityBundleRevision claims = [] \<or> \<not> validTaskID (gcTaskID claims)
      then Inl (ErrNew ''invalid claims'')
      else if NormalizeTarget (gcBackend claims) (gcMethod claims) (gcHost claims) (gcPath claims) \<noteq>
              Inr \<lparr>tgBackend = gcBackend claims, tgMethod = gcMethod claims, tgHost = gcHost claims, tgPath = gcPath claims\<rparr>
      then Inl (ErrNew ''invalid scope'')
      else Inr claims)"

definition bearerCredential :: "request \<Rightarrow> go_error + string" where
  "bearerCredential r =
     (case cutPrefix (trimSpace (headerGet (rqHeaders r) ''Authorization'')) ''Bearer '' of
        None \<Rightarrow> Inl (ErrNew ''missing bearer credential'')
      | Some token \<Rightarrow> if token = [] then Inl (ErrNew ''missing bearer credential'') else Inr token)"

definition parseAuthorization :: "'w broker \<Rightarrow> request \<Rightarrow> ('w, GrantClaims) call" where
  "parseAuthorization b r =
     bindw (liftf (bearerCredential r)) (\<lambda>token.
     bindw (readw (brNow b)) (\<lambda>now.
     bindw (liftf (case jwtParse (brJwt b) (keyFunc (brConfig b)) (jwtParseOptions (brConfig b)) now token of
                     Inl _ \<Rightarrow> Inl (ErrNew ''invalid claims'') | Inr parsed \<Rightarrow> Inr parsed)) (\<lambda>(valid, claims).
       liftf (acceptClaims valid claims))))"

definition verifiedJSON :: "'w broker \<Rightarrow> GrantClaims \<Rightarrow> time \<Rightarrow> json option" where
  "verifiedJSON b claims expiresAt =
     map_option (\<lambda>t. JObj [(''valid'', JBool True), (''grantId'', JStr (gcID claims)), (''taskId'', JStr (gcTaskID claims)),
       (''assignment'', JStr (gcAssignmentName claims)), (''sandboxId'', JStr (gcSandboxID claims)), (''expiresAt'', JStr t),
       (''scope'', scopeJSON (gcBackend claims) (gcMethod claims) (gcHost claims) (gcPath claims))])
       (brLocalTime b expiresAt)"

definition verify :: "'w broker \<Rightarrow> request \<Rightarrow> ('w, response option) bstep" where
  "verify b r =
     bindw (tryw (parseAuthorization b r) (\<lambda>_. Some (brokerError 401 ''credential is invalid or expired''))) (\<lambda>claims.
     bindw (tryw (brIsRevoked b (gcID claims))
       (\<lambda>_. Some (brokerError 503 ''credential revocation state is unavailable''))) (\<lambda>revoked.
     bindw (refuse revoked 401 ''credential is revoked'') (\<lambda>_.
     bindw (tryw (brValidateGrant b claims)
       (\<lambda>_. Some (brokerError 401 ''credential sandbox binding is stale''))) (\<lambda>_.
     bindw (recordEvent b ''used'' claims) (\<lambda>_.
       case gcExpiresAt claims of
         None \<Rightarrow> exitw None
       | Some expiresAt \<Rightarrow> retw (Some (writeJSON 200 (verifiedJSON b claims expiresAt))))))))"

definition revoke :: "'w broker \<Rightarrow> request \<Rightarrow> ('w, response option) bstep" where
  "revoke b r =
     bindw (tryw (parseAuthorization b r) (\<lambda>_. Some (brokerError 401 ''credential is invalid or expired''))) (\<lambda>claims.
     bindw (tryp (brRevoke b claims) (\<lambda>_. brokerError 503 ''credential revocation state is unavailable'')) (\<lambda>_.
     bindw (recordEvent b ''revoked'' claims) (\<lambda>_.
       retw (Some \<lparr>rspStatus = 204, rspHeaders = [], rspBody = []\<rparr>))))"

definition brokerServeHTTP :: "'w broker \<Rightarrow> request \<Rightarrow> 'w \<Rightarrow> response option \<times> 'w" where
  "brokerServeHTTP b r =
     (if rqMethod r = ''POST'' \<and> rqPath r = ''/broker/v1/credentials'' then finishw (issue b r)
      else if rqMethod r = ''POST'' \<and> rqPath r = ''/broker/v1/verify'' then finishw (verify b r)
      else if rqMethod r = ''POST'' \<and> rqPath r = ''/broker/v1/revoke'' then finishw (revoke b r)
      else finishw (retw (Some (httpError ''404 page not found'' 404))))"

definition tokenFingerprint :: "string \<Rightarrow> string" where
  "tokenFingerprint s = hexEncode (take 8 (sha256Sum s))"

subsection \<open>The JWT library\<close>

text \<open>What the validator of the library checks with the options of the broker.\<close>

definition registeredValid :: "jwtOptions \<Rightarrow> time \<Rightarrow> GrantClaims \<Rightarrow> bool" where
  "registeredValid opts now claims \<longleftrightarrow>
     joAudience opts \<in> set (gcAudience claims) \<and> gcIssuer claims = joIssuer opts \<and>
     (case gcExpiresAt claims of None \<Rightarrow> True | Some t \<Rightarrow> now < t) \<and>
     (case gcNotBefore claims of None \<Rightarrow> True | Some t \<Rightarrow> t \<le> now)"

text \<open>
  A token is accepted only with a valid method, with a signature that verifies under the key of its
  header, and with valid registered claims. \<open>verifies key token\<close> says that the signature verifies.
\<close>

definition jwtAccepts :: "jwtLibrary \<Rightarrow> (string \<Rightarrow> string \<Rightarrow> bool) \<Rightarrow> bool" where
  "jwtAccepts lib verifies \<longleftrightarrow>
     (\<forall>keys opts now token claims. jwtParse lib keys opts now token = Inr (True, claims) \<longrightarrow>
        registeredValid opts now claims \<and>
        (\<exists>header key. jhAlg header \<in> set (joValidMethods opts) \<and> keys header = Inr key \<and> verifies key token))"

text \<open>
  A signed token reads back as its claims, if their strings are UTF-8 and their dates are whole
  seconds that a float holds exactly. Tokens are printable ASCII.
\<close>

definition utf8 :: "string \<Rightarrow> bool" where
  "utf8 s \<longleftrightarrow> concat (runes s) = s"

definition exactDate :: "time option \<Rightarrow> bool" where
  "exactDate d \<longleftrightarrow> (case d of None \<Rightarrow> True | Some t \<Rightarrow> numericDate t = t \<and> 0 \<le> t \<and> t < 2 ^ 53 * second)"

definition encodable :: "GrantClaims \<Rightarrow> bool" where
  "encodable claims \<longleftrightarrow>
     list_all utf8 ([gcAssignmentName claims, gcAssignmentUID claims, gcSandboxID claims, gcPodUID claims,
       gcCapabilityBundleName claims, gcCapabilityBundleRevision claims, gcTaskID claims, gcBackend claims,
       gcMethod claims, gcHost claims, gcPath claims, gcIssuer claims, gcSubject claims, gcID claims] @ gcAudience claims) \<and>
     exactDate (gcExpiresAt claims) \<and> exactDate (gcNotBefore claims) \<and> exactDate (gcIssuedAt claims)"

definition jwtReadsBack :: "jwtLibrary \<Rightarrow> bool" where
  "jwtReadsBack lib \<longleftrightarrow>
     (\<forall>header key claims token. jwtSign lib header key claims = Inr token \<longrightarrow>
        token \<noteq> [] \<and> list_all plainChar token \<and>
        (\<forall>keys opts now. encodable claims \<longrightarrow> jhAlg header \<in> set (joValidMethods opts) \<longrightarrow> keys header = Inr key \<longrightarrow>
           registeredValid opts now claims \<longrightarrow> jwtParse lib keys opts now token = Inr (True, claims)))"

subsection \<open>What the steps do\<close>

lemma readw_eq [flow_simps]: "readw f w = (s, w') \<longleftrightarrow> (\<exists>a. f w = (a, w') \<and> s = Inr a)"
  by (cases "f w") (auto simp: readw_def)

lemma tryp_Inr [flow_simps]: "tryp c h w = (Inr a, w') \<longleftrightarrow> c w = (Some (Inr a), w')"
  by (auto simp: tryp_def split: prod.split option.split sum.split)

lemma tryp_Inl [flow_simps]:
  "tryp c h w = (Inl x, w') \<longleftrightarrow> (x = None \<and> c w = (None, w')) \<or> (\<exists>e. c w = (Some (Inl e), w') \<and> x = Some (h e))"
  by (auto simp: tryp_def split: prod.split option.split sum.split)

lemma refuse_eq [flow_simps]:
  "refuse c status message w = (Inr u, w') \<longleftrightarrow> \<not> c \<and> w' = w"
  "refuse c status message w = (Inl x, w') \<longleftrightarrow> c \<and> x = Some (brokerError status message) \<and> w' = w"
  by (simp_all add: refuse_def flow_simps)

lemma authorizeIssue_Inr [flow_simps]:
  "authorizeIssue b request target w = (Inr d, w') \<longleftrightarrow> brCheck b (issueInput request target) w = ((d, None), w') \<and> dAllow d"
  by (auto simp: authorizeIssue_def split: prod.split option.split)

lemma checkIssueRequest_Inr [flow_simps]:
  "checkIssueRequest request w = (Inr target, w') \<longleftrightarrow>
     irIdentityToken request \<noteq> [] \<and> validTaskID (irTaskID request) \<and>
     minimumTTL \<le> requestTTL request \<and> requestTTL request \<le> maximumTTL \<and>
     NormalizeTarget (irBackend request) (irMethod request) (irHost request) (irPath request) = Inr target \<and> w' = w"
  by (auto simp: checkIssueRequest_def flow_simps not_less split: sum.split_asm)

text \<open>The audit entry was written, if there is an audit sink.\<close>

definition recorded :: "'w broker \<Rightarrow> string \<Rightarrow> GrantClaims \<Rightarrow> 'w \<Rightarrow> 'w \<Rightarrow> bool" where
  "recorded b action claims w w' \<longleftrightarrow>
     (case brAudit b of
        None \<Rightarrow> w' = w
      | Some audit \<Rightarrow>
          (\<exists>t w1. brNow b w = (t, w1) \<and>
             audit \<lparr>aeTimestamp = t, aeAction = action, aeGrant = claims\<rparr> w1 = (Some (Inr ()), w')))"

lemma recordEvent_Inr [flow_simps]: "recordEvent b action claims w = (Inr u, w') \<longleftrightarrow> recorded b action claims w w'"
  by (auto simp: recordEvent_def recorded_def flow_simps split: option.split)

lemma recordEvent_Inl:
  "recordEvent b action claims w = (Inl x, w') \<Longrightarrow> x = None \<or> (\<exists>response. x = Some response \<and> rspStatus response = 503)"
  by (auto simp: recordEvent_def flow_simps split: option.split_asm)

text \<open>The run of \<open>issue\<close> that creates a credential.\<close>

definition issuedRun ::
  "'w broker \<Rightarrow> request \<Rightarrow> 'w \<Rightarrow> issueRequest \<Rightarrow> Target \<Rightarrow> Decision \<Rightarrow> time \<Rightarrow> string \<Rightarrow> string \<Rightarrow> 'w \<Rightarrow> bool" where
  "issuedRun b r w request target d now grantID token w' \<longleftrightarrow>
     decodeJSON r = Inr request \<and> irIdentityToken request \<noteq> [] \<and> validTaskID (irTaskID request) \<and>
     minimumTTL \<le> requestTTL request \<and> requestTTL request \<le> maximumTTL \<and>
     NormalizeTarget (irBackend request) (irMethod request) (irHost request) (irPath request) = Inr target \<and>
     (\<exists>w1 w2 w3. brCheck b (issueInput request target) w = ((d, None), w1) \<and> dAllow d \<and>
        brNow b w1 = (now, w2) \<and> brNewUUID b w2 = (grantID, w3) \<and>
        jwtSign (brJwt b) (signingHeader (brConfig b)) (bcSigningKey (brConfig b))
          (grantClaims (brConfig b) request target d now grantID) = Inr token \<and>
        recorded b ''issued'' (grantClaims (brConfig b) request target d now grantID) w3 w')"

lemma issue_Inr:
  "issue b r w = (Inr result, w') \<longleftrightarrow>
     (\<exists>request target d now grantID token. issuedRun b r w request target d now grantID token w' \<and>
        result = Some (writeJSON 201 (issuedJSON token (grantClaims (brConfig b) request target d now grantID)
          (now + requestTTL request))))"
  by (simp add: issue_def issuedRun_def Let_def flow_simps) blast

definition refusals :: "nat set" where
  "refusals = {400, 401, 403, 404, 500, 503}"

lemma checkIssueRequest_Inl:
  "checkIssueRequest request w = (Inl x, w') \<Longrightarrow> \<exists>response. x = Some response \<and> rspStatus response = 400"
  by (auto simp: checkIssueRequest_def flow_simps split: sum.split_asm)

lemma authorizeIssue_Inl:
  "authorizeIssue b request target w = (Inl x, w') \<Longrightarrow> \<exists>response. x = Some response \<and> rspStatus response \<in> {403, 503}"
  by (auto simp: authorizeIssue_def split: prod.split_asm option.split_asm if_split_asm)

lemma issue_Inl:
  assumes "issue b r w = (Inl (Some response), w')"
  shows "rspStatus response \<in> refusals"
proof -
  have steps: "rspStatus response = 400 \<or> rspStatus response \<in> {403, 503} \<or> rspStatus response = 500 \<or> rspStatus response = 503"
    using assms unfolding issue_def Let_def bindw_Inl readw_eq liftf_eq retw_eq
    by (elim disjE exE conjE)
      (auto dest: checkIssueRequest_Inl authorizeIssue_Inl recordEvent_Inl split: sum.split_asm)
  then show ?thesis by (auto simp: refusals_def)
qed

text \<open>What the broker demands of the claims of a credential beside its signature.\<close>

definition wellFormedClaims :: "GrantClaims \<Rightarrow> bool" where
  "wellFormedClaims claims \<longleftrightarrow>
     gcID claims \<noteq> [] \<and> gcAssignmentUID claims \<noteq> [] \<and> gcPodUID claims \<noteq> [] \<and> gcCapabilityBundleRevision claims \<noteq> [] \<and>
     validTaskID (gcTaskID claims) \<and>
     NormalizeTarget (gcBackend claims) (gcMethod claims) (gcHost claims) (gcPath claims) =
       Inr \<lparr>tgBackend = gcBackend claims, tgMethod = gcMethod claims, tgHost = gcHost claims, tgPath = gcPath claims\<rparr>"

lemma acceptClaims_iff: "acceptClaims valid c = Inr claims \<longleftrightarrow> valid \<and> c = claims \<and> wellFormedClaims claims"
  by (auto simp: acceptClaims_def wellFormedClaims_def split: if_splits)

lemma parseAuthorization_Inr:
  "parseAuthorization b r w = (Inr claims, w') \<longleftrightarrow>
     (\<exists>token now. bearerCredential r = Inr token \<and> brNow b w = (now, w') \<and>
        jwtParse (brJwt b) (keyFunc (brConfig b)) (jwtParseOptions (brConfig b)) now token = Inr (True, claims) \<and>
        wellFormedClaims claims)"
  by (auto simp: parseAuthorization_def flow_simps acceptClaims_iff)

lemma verify_Inr:
  "verify b r w = (Inr result, w') \<longleftrightarrow>
     (\<exists>claims w1 w2 w3 expiresAt. parseAuthorization b r w = (Inr claims, w1) \<and>
        brIsRevoked b (gcID claims) w1 = (Inr False, w2) \<and> brValidateGrant b claims w2 = (Inr (), w3) \<and>
        recorded b ''used'' claims w3 w' \<and> gcExpiresAt claims = Some expiresAt \<and>
        result = Some (writeJSON 200 (verifiedJSON b claims expiresAt)))"
  by (auto simp: verify_def flow_simps)

lemma verify_Inl: "verify b r w = (Inl (Some response), w') \<Longrightarrow> rspStatus response \<in> refusals"
  by (auto simp: verify_def flow_simps refusals_def dest!: recordEvent_Inl)

lemma revoke_Inr:
  "revoke b r w = (Inr result, w') \<longleftrightarrow>
     (\<exists>claims w1 w2. parseAuthorization b r w = (Inr claims, w1) \<and> brRevoke b claims w1 = (Some (Inr ()), w2) \<and>
        recorded b ''revoked'' claims w2 w' \<and> result = Some \<lparr>rspStatus = 204, rspHeaders = [], rspBody = []\<rparr>)"
  by (auto simp: revoke_def flow_simps)

lemma revoke_Inl: "revoke b r w = (Inl (Some response), w') \<Longrightarrow> rspStatus response \<in> refusals"
  by (auto simp: revoke_def flow_simps refusals_def dest!: recordEvent_Inl)

text \<open>The status of an answer tells which operation gave it and that it ran to its end.\<close>

lemma serve_status:
  assumes "brokerServeHTTP b r w = (Some response, w')" "rspStatus response \<notin> refusals"
  shows "rspStatus response = 201 \<Longrightarrow> issue b r w = (Inr (Some response), w')"
    "rspStatus response = 200 \<Longrightarrow> verify b r w = (Inr (Some response), w')"
    "rspStatus response = 204 \<Longrightarrow> revoke b r w = (Inr (Some response), w')"
  using assms
  by (auto simp: brokerServeHTTP_def finishw_eq dest: issue_Inl verify_Inl revoke_Inl split: if_splits)
    (auto simp: issue_Inr verify_Inr revoke_Inr refusals_def retw_eq)

subsection \<open>Issuing\<close>

lemma brokerServeHTTP_201:
  "(brokerServeHTTP b r w = (Some response, w') \<and> rspStatus response = 201) \<longleftrightarrow>
     rqMethod r = ''POST'' \<and> rqPath r = ''/broker/v1/credentials'' \<and> issue b r w = (Inr (Some response), w')"
proof
  assume served: "brokerServeHTTP b r w = (Some response, w') \<and> rspStatus response = 201"
  then have run: "issue b r w = (Inr (Some response), w')"
    using serve_status(1) [of b r w response w'] by (simp add: refusals_def)
  have "rqMethod r = ''POST'' \<and> rqPath r = ''/broker/v1/credentials''"
    using served by (auto simp: brokerServeHTTP_def finishw_eq verify_Inr revoke_Inr retw_eq refusals_def
        dest: verify_Inl revoke_Inl split: if_splits)
  with run show "rqMethod r = ''POST'' \<and> rqPath r = ''/broker/v1/credentials'' \<and> issue b r w = (Inr (Some response), w')"
    by simp
qed (auto simp: brokerServeHTTP_def finishw_eq issue_Inr)

text \<open>
  C26: a credential is issued exactly to an authorized sandbox. The broker answers 201 exactly when the
  request is a post of one JSON object with an identity token, a valid task, a lifetime within the limits and a valid
  target, the checker allowed that target for that identity without an error, the claims were
  signed with the current key, and the audit entry was written. The claims name the assignment,
  the Pod and the bundle revision of the decision and the canonical target that was checked, so
  nothing of them comes from the caller but the task.
\<close>

theorem credential_issued_iff:
  "(brokerServeHTTP b r w = (Some response, w') \<and> rspStatus response = 201) \<longleftrightarrow>
     rqMethod r = ''POST'' \<and> rqPath r = ''/broker/v1/credentials'' \<and>
     (\<exists>request target d now grantID token claims w1 w2 w3.
        decodeJSON r = Inr request \<and> irIdentityToken request \<noteq> [] \<and> validTaskID (irTaskID request) \<and>
        minimumTTL \<le> requestTTL request \<and> requestTTL request \<le> maximumTTL \<and>
        NormalizeTarget (irBackend request) (irMethod request) (irHost request) (irPath request) = Inr target \<and>
        brCheck b (issueInput request target) w = ((d, None), w1) \<and> dAllow d \<and>
        brNow b w1 = (now, w2) \<and> brNewUUID b w2 = (grantID, w3) \<and>
        claims = grantClaims (brConfig b) request target d now grantID \<and>
        jwtSign (brJwt b) (signingHeader (brConfig b)) (bcSigningKey (brConfig b)) claims = Inr token \<and>
        recorded b ''issued'' claims w3 w' \<and>
        response = writeJSON 201 (issuedJSON token claims (now + requestTTL request)))"
  unfolding brokerServeHTTP_201 issue_Inr issuedRun_def by blast

lemma numericDate_bounds: "numericDate t \<le> t" "t < numericDate t + second"
  using mult_div_mod_eq [of second t] pos_mod_bound [of second t] pos_mod_sign [of second t]
  by (simp_all only: numericDate_def second_def mult.commute)

lemma numericDate_add: "numericDate (t + n * second) = numericDate t + n * second"
  by (simp add: numericDate_def second_def algebra_simps)

lemma numericDate_mono: "t \<le> u \<Longrightarrow> numericDate t \<le> numericDate u"
  by (simp add: numericDate_def second_def zdiv_mono1)

lemma issued_201:
  assumes "brokerServeHTTP b r w = (Some response, w')" "rspStatus response = 201"
  obtains request target d now grantID token where "issuedRun b r w request target d now grantID token w'"
    "response = writeJSON 201 (issuedJSON token (grantClaims (brConfig b) request target d now grantID) (now + requestTTL request))"
  using assms brokerServeHTTP_201 [of b r w response w'] by (auto simp: issue_Inr)

lemma grantClaims_lifetime:
  assumes "60 * second \<le> requestTTL request" "requestTTL request \<le> 900 * second"
  shows "\<exists>start expiry. gcNotBefore (grantClaims config request target d now grantID) = Some start \<and>
    gcIssuedAt (grantClaims config request target d now grantID) = Some start \<and>
    gcExpiresAt (grantClaims config request target d now grantID) = Some expiry \<and>
    start \<le> now \<and> now < start + second \<and> 60 * second \<le> expiry - start \<and> expiry - start \<le> 900 * second \<and> expiry \<le> now + 900 * second"
proof -
  define expiry where "expiry = numericDate (now + requestTTL request)"
  have "numericDate (now + 60 * second) \<le> expiry" "expiry \<le> numericDate (now + 900 * second)"
    unfolding expiry_def using assms by (intro numericDate_mono; simp)+
  moreover have "expiry \<le> now + 900 * second"
    using numericDate_bounds(1) [of "now + requestTTL request"] assms by (simp add: expiry_def)
  ultimately show ?thesis
    using numericDate_bounds [of now] by (simp add: grantClaims_def expiry_def numericDate_add)
qed

lemma lifetime_refused:
  assumes "rqMethod r = ''POST''" "rqPath r = ''/broker/v1/credentials''" "decodeJSON r = Inr request"
    and "requestTTL request < 60 * second \<or> 900 * second < requestTTL request"
  shows "\<exists>message. brokerServeHTTP b r w = (Some (brokerError 400 message), w)"
proof -
  have "\<exists>message. checkIssueRequest request w = (Inl (Some (brokerError 400 message)), w)"
    using assms(4)
    by (auto simp: checkIssueRequest_def refuse_def guardw_def bindw_def minimumTTL_def maximumTTL_def exitw_def retw_def)
  with assms(1-3) show ?thesis
    by (auto simp: brokerServeHTTP_def issue_def finishw_def bindw_def)
qed

text \<open>
  C34: a credential lives between one and fifteen minutes. Whatever 64-bit number of seconds was asked
  for, also one whose product with the length of a second wraps around: when the broker answers 201, the claims that it signed
  into the credential of the answer start at the second of the issue and end, in whole seconds, between 60 and 900 seconds later, and not
  more than 900 seconds after the clock was read. A request whose lifetime, as the code computes it, is outside this range is
  refused with 400, and nothing is asked, signed or recorded.
\<close>

theorem credential_lifetime:
  "(brokerServeHTTP b r w = (Some response, w') \<and> rspStatus response = 201 \<longrightarrow>
     (\<exists>request target d now claims token w1 w2 start expiry. decodeJSON r = Inr request \<and>
        brCheck b (issueInput request target) w = ((d, None), w1) \<and> brNow b w1 = (now, w2) \<and>
        jwtSign (brJwt b) (signingHeader (brConfig b)) (bcSigningKey (brConfig b)) claims = Inr token \<and>
        response = writeJSON 201 (issuedJSON token claims (now + requestTTL request)) \<and>
        gcNotBefore claims = Some start \<and> gcIssuedAt claims = Some start \<and> gcExpiresAt claims = Some expiry \<and>
        start \<le> now \<and> now < start + second \<and> 60 * second \<le> expiry - start \<and> expiry - start \<le> 900 * second \<and>
        expiry \<le> now + 900 * second)) \<and>
   (rqMethod r = ''POST'' \<and> rqPath r = ''/broker/v1/credentials'' \<and> decodeJSON r = Inr asked \<and>
      (requestTTL asked < 60 * second \<or> 900 * second < requestTTL asked) \<longrightarrow>
      (\<exists>message. brokerServeHTTP b r w = (Some (brokerError 400 message), w)))"
proof (intro conjI impI)
  assume served: "brokerServeHTTP b r w = (Some response, w') \<and> rspStatus response = 201"
  from served [THEN conjunct1] served [THEN conjunct2] obtain request target d now grantID token where run: "issuedRun b r w request target d now grantID token w'"
    and response: "response = writeJSON 201 (issuedJSON token (grantClaims (brConfig b) request target d now grantID) (now + requestTTL request))"
    by (rule issued_201)
  let ?claims = "grantClaims (brConfig b) request target d now grantID"
  have "60 * second \<le> requestTTL request" "requestTTL request \<le> 900 * second"
    using run by (simp_all add: issuedRun_def minimumTTL_def maximumTTL_def)
  from grantClaims_lifetime [OF this, of "brConfig b" target d now grantID] obtain start expiry where
    life: "gcNotBefore ?claims = Some start \<and> gcIssuedAt ?claims = Some start \<and> gcExpiresAt ?claims = Some expiry \<and>
      start \<le> now \<and> now < start + second \<and> 60 * second \<le> expiry - start \<and> expiry - start \<le> 900 * second \<and> expiry \<le> now + 900 * second"
    by blast
  from run obtain w1 w2 where steps: "decodeJSON r = Inr request" "brCheck b (issueInput request target) w = ((d, None), w1)" "brNow b w1 = (now, w2)"
    "jwtSign (brJwt b) (signingHeader (brConfig b)) (bcSigningKey (brConfig b)) ?claims = Inr token"
    unfolding issuedRun_def by blast
  show "\<exists>request target d now claims token w1 w2 start expiry. decodeJSON r = Inr request \<and>
        brCheck b (issueInput request target) w = ((d, None), w1) \<and> brNow b w1 = (now, w2) \<and>
        jwtSign (brJwt b) (signingHeader (brConfig b)) (bcSigningKey (brConfig b)) claims = Inr token \<and>
        response = writeJSON 201 (issuedJSON token claims (now + requestTTL request)) \<and>
        gcNotBefore claims = Some start \<and> gcIssuedAt claims = Some start \<and> gcExpiresAt claims = Some expiry \<and>
        start \<le> now \<and> now < start + second \<and> 60 * second \<le> expiry - start \<and> expiry - start \<le> 900 * second \<and>
        expiry \<le> now + 900 * second"
    by (rule exI [of _ request], rule exI [of _ target], rule exI [of _ d], rule exI [of _ now], rule exI [of _ ?claims], rule exI [of _ token],
        rule exI [of _ w1], rule exI [of _ w2], rule exI [of _ start], rule exI [of _ expiry])
      (simp only: steps response life simp_thms)
qed (blast intro: lifetime_refused)

definition completeDecision :: "Decision \<Rightarrow> bool" where
  "completeDecision d \<longleftrightarrow> dAssignmentUID d \<noteq> [] \<and> dPodUID d \<noteq> [] \<and> dCapabilityBundleRevision d \<noteq> []"

lemma issued_wellFormed:
  assumes run: "issuedRun b r w request target d now grantID token w'"
    and complete: "completeDecision d" "grantID \<noteq> []"
  shows "wellFormedClaims (grantClaims (brConfig b) request target d now grantID) \<longleftrightarrow> CHR '':'' \<notin> set (tgHost target)"
proof -
  have target: "NormalizeTarget (irBackend request) (irMethod request) (irHost request) (irPath request) = Inr target"
    and task: "validTaskID (irTaskID request)"
    using run by (simp_all add: issuedRun_def)
  have "wellFormedClaims (grantClaims (brConfig b) request target d now grantID) \<longleftrightarrow>
      NormalizeTarget (tgBackend target) (tgMethod target) (tgHost target) (tgPath target) = Inr target"
    using complete task by (cases target) (simp add: wellFormedClaims_def grantClaims_def completeDecision_def)
  moreover have "NormalizeTarget (tgBackend target) (tgMethod target) (tgHost target) (tgPath target) \<noteq> Inr target"
    if "CHR '':'' \<in> set (tgHost target)"
    using that NormalizeHost_ipv6_unstable [of "tgHost target" "tgHost target"]
    by (cases target) (auto simp: normalize_flow)
  ultimately show ?thesis using NormalizeTarget_fixed [OF target] by blast
qed

text \<open>
  C35: what is issued is well formed, except for IPv6. When the decision names its assignment, Pod and
  revision and the identifier is not empty, the claims of an issued credential pass every test that
  the broker makes of a credential it reads; for a target whose host is an IPv6 address they never do,
  so that such a credential is issued and recorded and can never be used.
\<close>

theorem issued_claims_wellformed:
  assumes "issuedRun b r w request target d now grantID token w'" "completeDecision d" "grantID \<noteq> []"
  shows "wellFormedClaims (grantClaims (brConfig b) request target d now grantID) \<longleftrightarrow> CHR '':'' \<notin> set (tgHost target)"
  using assms by (rule issued_wellFormed)

subsection \<open>Using a credential\<close>

text \<open>The keys that the configuration knows.\<close>

definition knownKeys :: "brokerConfig \<Rightarrow> string set" where
  "knownKeys config = insert (bcSigningKey config) (snd ` set (bcPreviousSigningKeys config))"

lemma keyFunc_known: "keyFunc config header = Inr key \<Longrightarrow> key \<in> knownKeys config \<and> jhAlg header = ''HS256''"
  by (auto simp: keyFunc_def knownKeys_def Let_def image_iff dest!: map_of_SomeD split: if_splits option.splits)
    (metis snd_conv)

text \<open>
  a credential is accepted only while everything it was issued for still holds. When the broker
  answers 200, the bearer token carries a signature that verifies under the current or a previous key, its audience and
  issuer are those of the broker, the clock was within its lifetime, its claims are well formed, the
  revocation store reported that it is not revoked, the validator confirmed the binding, and the
  use was recorded, in this order. A credential without an expiry is never accepted.
\<close>

theorem credential_accepted:
  assumes "jwtAccepts (brJwt b) verifies"
    and "brokerServeHTTP b r w = (Some response, w')" "rspStatus response = 200"
  shows "\<exists>token key claims now expiry w1 w2 w3.
    bearerCredential r = Inr token \<and> key \<in> knownKeys (brConfig b) \<and> verifies key token \<and> brNow b w = (now, w1) \<and>
    bcAudience (brConfig b) \<in> set (gcAudience claims) \<and> gcIssuer claims = bcIssuer (brConfig b) \<and>
    gcExpiresAt claims = Some expiry \<and> now < expiry \<and> (\<forall>start. gcNotBefore claims = Some start \<longrightarrow> start \<le> now) \<and>
    wellFormedClaims claims \<and> brIsRevoked b (gcID claims) w1 = (Inr False, w2) \<and>
    brValidateGrant b claims w2 = (Inr (), w3) \<and> recorded b ''used'' claims w3 w' \<and>
    response = writeJSON 200 (verifiedJSON b claims expiry)"
proof -
  have "verify b r w = (Inr (Some response), w')"
    using serve_status(2) [OF assms(2)] assms(3) by (simp add: refusals_def)
  then obtain claims w1 w2 w3 expiry where parsed: "parseAuthorization b r w = (Inr claims, w1)"
    and rest: "brIsRevoked b (gcID claims) w1 = (Inr False, w2)" "brValidateGrant b claims w2 = (Inr (), w3)"
      "recorded b ''used'' claims w3 w'" "gcExpiresAt claims = Some expiry"
      "response = writeJSON 200 (verifiedJSON b claims expiry)"
    unfolding verify_Inr by blast
  from parsed obtain token now where token: "bearerCredential r = Inr token" "brNow b w = (now, w1)"
    "jwtParse (brJwt b) (keyFunc (brConfig b)) (jwtParseOptions (brConfig b)) now token = Inr (True, claims)"
    "wellFormedClaims claims"
    unfolding parseAuthorization_Inr by blast
  then obtain header key where "registeredValid (jwtParseOptions (brConfig b)) now claims"
    "keyFunc (brConfig b) header = Inr key" "verifies key token"
    using assms(1) unfolding jwtAccepts_def by blast
  moreover from this have "key \<in> knownKeys (brConfig b)" using keyFunc_known by blast
  moreover have "bcAudience (brConfig b) \<in> set (gcAudience claims)" "gcIssuer claims = bcIssuer (brConfig b)" "now < expiry"
    "\<forall>start. gcNotBefore claims = Some start \<longrightarrow> start \<le> now"
    using \<open>registeredValid _ now claims\<close> rest(4) by (simp_all add: registeredValid_def jwtParseOptions_def split: option.splits)
  ultimately show ?thesis using token rest by blast
qed

text \<open>What a client sends to have a credential verified.\<close>

definition bearerRequest :: "string \<Rightarrow> string \<Rightarrow> request" where
  "bearerRequest path token = \<lparr>rqMethod = ''POST'', rqPath = path, rqHeaders = [(''Authorization'', [''Bearer '' @ token])],
     rqBody = Inr [], rqScopes = None\<rparr>"

lemma trimSpace_ends:
  assumes "plainChar c" "plainChar d"
  shows "trimSpace (c # s @ [d]) = c # s @ [d]"
proof -
  have left: "trimLeft (c # t) = c # t" for t using assms(1) by (cases "c # t" rule: trimLeft.cases) auto
  have "trimRightRev (d # t) = d # t" for t using assms(2) by (cases "d # t" rule: trimRightRev.cases) auto
  then show ?thesis unfolding trimSpace_def trimRight_def left by simp
qed

lemma bearerCredential_request:
  assumes "token \<noteq> []" "list_all plainChar token"
  shows "bearerCredential (bearerRequest path token) = Inr token"
proof -
  obtain t d where token: "token = t @ [d]" using assms(1) by (cases token rule: rev_cases) auto
  have "headerGet (rqHeaders (bearerRequest path token)) ''Authorization'' = ''Bearer '' @ token"
    by (simp add: bearerRequest_def headerGet_def) code_simp
  moreover have "trimSpace (''Bearer '' @ token) = ''Bearer '' @ token"
    using trimSpace_ends [of "CHR ''B''" d "''earer '' @ t"] assms(2) token by (simp add: plainChar_def byteIn_def)
  ultimately show ?thesis using assms(1) by (simp add: bearerCredential_def cutPrefix_def hasPrefix_def)
qed

lemma issued_parses:
  assumes library: "jwtReadsBack (brJwt b)"
    and run: "issuedRun b r w request target d now grantID token w'"
    and complete: "completeDecision d" "grantID \<noteq> []" and host: "CHR '':'' \<notin> set (tgHost target)"
    and claims: "claims = grantClaims (brConfig b) request target d now grantID" "encodable claims"
    and clock: "brNow b v = (later, v1)" "now \<le> later" "later < numericDate (now + requestTTL request)"
  shows "parseAuthorization b (bearerRequest path token) v = (Inr claims, v1)"
proof -
  let ?config = "brConfig b"
  have signed: "jwtSign (brJwt b) (signingHeader ?config) (bcSigningKey ?config) claims = Inr token"
    using run claims(1) by (auto simp: issuedRun_def)
  have "keyFunc ?config (signingHeader ?config) = Inr (bcSigningKey ?config)"
    by (simp add: keyFunc_def signingHeader_def)
  moreover have "registeredValid (jwtParseOptions ?config) later claims"
    using clock numericDate_bounds(1) [of now] by (simp add: registeredValid_def jwtParseOptions_def claims(1) grantClaims_def)
  moreover have "jhAlg (signingHeader ?config) \<in> set (joValidMethods (jwtParseOptions ?config))"
    by (simp add: signingHeader_def jwtParseOptions_def)
  ultimately have "jwtParse (brJwt b) (keyFunc ?config) (jwtParseOptions ?config) later token = Inr (True, claims)"
    using library signed claims(2) unfolding jwtReadsBack_def by blast
  moreover have "wellFormedClaims claims" using issued_wellFormed [OF run complete] host claims(1) by simp
  moreover have "bearerCredential (bearerRequest path token) = Inr token"
    using library signed bearerCredential_request unfolding jwtReadsBack_def by blast
  ultimately show ?thesis unfolding parseAuthorization_Inr using clock(1) by blast
qed

lemma issued_usable:
  assumes "jwtReadsBack (brJwt b)"
    and "issuedRun b r w request target d now grantID token w'"
    and "completeDecision d" "grantID \<noteq> []" "CHR '':'' \<notin> set (tgHost target)"
    and "claims = grantClaims (brConfig b) request target d now grantID" "encodable claims"
    and "brNow b v = (later, v1)" "now \<le> later" "later < numericDate (now + requestTTL request)"
  shows "brIsRevoked b grantID v1 = (Inr False, v2) \<Longrightarrow> brValidateGrant b claims v2 = (Inr (), v3) \<Longrightarrow>
      recorded b ''used'' claims v3 v4 \<Longrightarrow>
      brokerServeHTTP b (bearerRequest ''/broker/v1/verify'' token) v =
        (Some (writeJSON 200 (verifiedJSON b claims (numericDate (now + requestTTL request)))), v4)"
    and "brRevoke b claims v1 = (Some (Inr ()), v2) \<Longrightarrow> recorded b ''revoked'' claims v2 v3 \<Longrightarrow>
      \<exists>response. brokerServeHTTP b (bearerRequest ''/broker/v1/revoke'' token) v = (Some response, v3) \<and> rspStatus response = 204"
proof -
  note parsed = issued_parses [OF assms]
  have id: "gcID claims = grantID" "gcExpiresAt claims = Some (numericDate (now + requestTTL request))"
    by (simp_all add: assms(6) grantClaims_def)
  show "brokerServeHTTP b (bearerRequest ''/broker/v1/verify'' token) v =
      (Some (writeJSON 200 (verifiedJSON b claims (numericDate (now + requestTTL request)))), v4)"
    if "brIsRevoked b grantID v1 = (Inr False, v2)" "brValidateGrant b claims v2 = (Inr (), v3)"
      "recorded b ''used'' claims v3 v4"
  proof -
    have "verify b (bearerRequest ''/broker/v1/verify'' token) v =
        (Inr (Some (writeJSON 200 (verifiedJSON b claims (numericDate (now + requestTTL request))))), v4)"
      unfolding verify_Inr using parsed that id by blast
    then show ?thesis by (simp add: brokerServeHTTP_def bearerRequest_def finishw_eq)
  qed
  show "\<exists>response. brokerServeHTTP b (bearerRequest ''/broker/v1/revoke'' token) v = (Some response, v3) \<and> rspStatus response = 204"
    if "brRevoke b claims v1 = (Some (Inr ()), v2)" "recorded b ''revoked'' claims v2 v3"
  proof -
    have "revoke b (bearerRequest ''/broker/v1/revoke'' token) v =
        (Inr (Some \<lparr>rspStatus = 204, rspHeaders = [], rspBody = []\<rparr>), v3)"
      unfolding revoke_Inr using parsed that by blast
    then show ?thesis by (simp add: brokerServeHTTP_def bearerRequest_def finishw_eq)
  qed
qed

text \<open>
  C33: an issued credential can be used until it expires, under conditions that the code does not check when it issues. The answer 201 carries a credential that
  was signed for the decision of the checker. If the decision names its assignment, Pod and revision, the identifier is not
  empty, the host of the target is not an IPv6 address, and the claims are text in UTF-8 with dates that a token holds exactly, then with a JWT
  library that reads back what it signed the credential, presented as bearer token at a time from its issue to just before its expiry, is
  recognized with exactly the claims it was issued with: when the store then says that it is not
  revoked, the validator confirms the binding and the audit accepts the entry, the answer is 200 and
  repeats the scope. It may also be revoked: \<open>revoke\<close> hands exactly those claims to the store.
\<close>

theorem issued_credential_usable:
  assumes "jwtReadsBack (brJwt b)" and "brokerServeHTTP b r w = (Some response, w')" "rspStatus response = 201"
  shows "\<exists>request target d now grantID claims token w1 w2 w3. decodeJSON r = Inr request \<and>
    NormalizeTarget (irBackend request) (irMethod request) (irHost request) (irPath request) = Inr target \<and>
    brCheck b (issueInput request target) w = ((d, None), w1) \<and> brNow b w1 = (now, w2) \<and> brNewUUID b w2 = (grantID, w3) \<and>
    claims = grantClaims (brConfig b) request target d now grantID \<and>
    jwtSign (brJwt b) (signingHeader (brConfig b)) (bcSigningKey (brConfig b)) claims = Inr token \<and>
    response = writeJSON 201 (issuedJSON token claims (now + requestTTL request)) \<and>
    (completeDecision d \<and> grantID \<noteq> [] \<and> CHR '':'' \<notin> set (tgHost target) \<and> encodable claims \<longrightarrow>
      (\<forall>v later v1. brNow b v = (later, v1) \<and> now \<le> later \<and> later < numericDate (now + requestTTL request) \<longrightarrow>
        (\<forall>v2 v3 v4. brIsRevoked b grantID v1 = (Inr False, v2) \<and> brValidateGrant b claims v2 = (Inr (), v3) \<and> recorded b ''used'' claims v3 v4 \<longrightarrow>
           brokerServeHTTP b (bearerRequest ''/broker/v1/verify'' token) v =
             (Some (writeJSON 200 (verifiedJSON b claims (numericDate (now + requestTTL request)))), v4)) \<and>
        (\<forall>u2 u3. brRevoke b claims v1 = (Some (Inr ()), u2) \<and> recorded b ''revoked'' claims u2 u3 \<longrightarrow>
           (\<exists>answer. brokerServeHTTP b (bearerRequest ''/broker/v1/revoke'' token) v = (Some answer, u3) \<and> rspStatus answer = 204))))"
proof -
  from assms(2,3) obtain request target d now grantID token where run: "issuedRun b r w request target d now grantID token w'"
    and response: "response = writeJSON 201 (issuedJSON token (grantClaims (brConfig b) request target d now grantID) (now + requestTTL request))"
    by (rule issued_201)
  from run obtain w1 w2 w3 where steps: "decodeJSON r = Inr request"
    "NormalizeTarget (irBackend request) (irMethod request) (irHost request) (irPath request) = Inr target"
    "brCheck b (issueInput request target) w = ((d, None), w1)" "brNow b w1 = (now, w2)" "brNewUUID b w2 = (grantID, w3)"
    "jwtSign (brJwt b) (signingHeader (brConfig b)) (bcSigningKey (brConfig b)) (grantClaims (brConfig b) request target d now grantID) = Inr token"
    unfolding issuedRun_def by blast
  note use = issued_usable [OF assms(1) run _ _ _ refl]
  show ?thesis
    by (rule exI [of _ request], rule exI [of _ target], rule exI [of _ d], rule exI [of _ now], rule exI [of _ grantID],
        rule exI [of _ "grantClaims (brConfig b) request target d now grantID"], rule exI [of _ token], rule exI [of _ w1],
        rule exI [of _ w2], rule exI [of _ w3])
      (use steps response use in blast)
qed

subsection \<open>A broker\<close>

definition bxQuote :: "string \<Rightarrow> string" where
  "bxQuote s = CHR 0x22 # s @ [CHR 0x22]"

text \<open>A number of seconds that wraps around to one minute.\<close>

definition bxBody :: string where
  "bxBody = ''{'' @ bxQuote ''identityToken'' @ '':'' @ bxQuote ''t'' @ '','' @ bxQuote ''backend'' @ '':'' @ bxQuote ''github'' @ '','' @
     bxQuote ''method'' @ '':'' @ bxQuote ''get'' @ '','' @ bxQuote ''host'' @ '':'' @ bxQuote ''api.example.com'' @ '','' @
     bxQuote ''path'' @ '':'' @ bxQuote ''/'' @ '','' @ bxQuote ''taskId'' @ '':'' @ bxQuote ''task-1'' @ '','' @
     bxQuote ''ttlSeconds'' @ '':36028797018964028}''"

definition bxHttp :: request where
  "bxHttp = \<lparr>rqMethod = ''POST'', rqPath = ''/broker/v1/credentials'', rqHeaders = [], rqBody = Inr bxBody, rqScopes = None\<rparr>"

definition bxRequest :: issueRequest where
  "bxRequest = \<lparr>irIdentityToken = ''t'', irBackend = ''github'', irMethod = ''get'', irHost = ''api.example.com'', irPath = ''/'',
     irTaskID = ''task-1'', irTTLSeconds = 36028797018964028\<rparr>"

definition bxTarget :: Target where
  "bxTarget = \<lparr>tgBackend = ''github'', tgMethod = ''GET'', tgHost = ''api.example.com'', tgPath = ''/''\<rparr>"

definition bxDecision :: Decision where
  "bxDecision = emptyDecision\<lparr>dAllow := True, dAssignmentName := ''a1'', dAssignmentUID := ''u1'', dSandboxID := ''s1'',
     dPodUID := ''p1'', dCapabilityBundleName := ''b1'', dCapabilityBundleRevision := ''r1''\<rparr>"

definition bxConfig :: brokerConfig where
  "bxConfig = \<lparr>bcSigningKey = replicate 32 (CHR ''k''), bcSigningKeyID = ''current'', bcPreviousSigningKeys = [],
     bcIssuer = defaultIssuer, bcAudience = defaultAudience\<rparr>"

definition bxClaims :: GrantClaims where
  "bxClaims = grantClaims bxConfig bxRequest bxTarget bxDecision (100 * second) ''grant''"

definition bxJwt :: jwtLibrary where
  "bxJwt = \<lparr>jwtSign = (\<lambda>header key claims.
       if header = signingHeader bxConfig \<and> key = bcSigningKey bxConfig \<and> claims = bxClaims then Inr ''token''
       else Inl (ErrNew ''not signed'')),
     jwtParse = (\<lambda>keys opts now token.
       if token = ''token'' \<and> ''HS256'' \<in> set (joValidMethods opts) \<and>
          keys (signingHeader bxConfig) = Inr (bcSigningKey bxConfig) \<and> registeredValid opts now bxClaims
       then Inr (True, bxClaims) else Inl (ErrNew ''not accepted''))\<rparr>"

text \<open>The world is the clock.\<close>

definition bxBroker :: "time broker" where
  "bxBroker = \<lparr>brCheck = (\<lambda>input w. ((bxDecision, None), w)), brValidateGrant = (\<lambda>_. okw ()), brAudit = None,
     brRevoke = (\<lambda>_ w. (Some (Inr ()), w)), brIsRevoked = (\<lambda>_. okw False), brConfig = bxConfig, brNow = (\<lambda>w. (w, w)),
     brNewUUID = (\<lambda>w. (''grant'', w)), brJwt = bxJwt, brLocalTime = marshalTime\<rparr>"

lemma decodeJSON_whole:
  assumes "rqBody r = Inr body" "length body \<le> maxRequestBytes" "parseValue (Suc (length body)) 0 body = Some (v, [])"
    "decodeIssueRequest v = Some request"
  shows "decodeJSON r = Inr request"
  using assms by (simp add: decodeJSON_def skipSpace_def not_less [symmetric])

lemma bxDecode: "decodeJSON bxHttp = Inr bxRequest"
proof -
  have "parseValue (Suc (length bxBody)) 0 bxBody =
      Some (JObj [(''identityToken'', JStr ''t''), (''backend'', JStr ''github''), (''method'', JStr ''get''),
        (''host'', JStr ''api.example.com''), (''path'', JStr ''/''), (''taskId'', JStr ''task-1''),
        (''ttlSeconds'', JInt 36028797018964028)], [])"
    by code_simp
  moreover have "decodeIssueRequest (JObj [(''identityToken'', JStr ''t''), (''backend'', JStr ''github''), (''method'', JStr ''get''),
        (''host'', JStr ''api.example.com''), (''path'', JStr ''/''), (''taskId'', JStr ''task-1''),
        (''ttlSeconds'', JInt 36028797018964028)]) = Some bxRequest"
    by code_simp
  moreover have "length bxBody \<le> maxRequestBytes" by (simp add: bxBody_def bxQuote_def maxRequestBytes_def)
  ultimately show ?thesis by (intro decodeJSON_whole) (simp_all add: bxHttp_def)
qed

lemma bxTTL: "requestTTL bxRequest = 60 * second"
  by (simp add: requestTTL_def bxRequest_def second_def)

lemma bxRun: "issuedRun bxBroker bxHttp (100 * second) bxRequest bxTarget bxDecision (100 * second) ''grant'' ''token'' (100 * second)"
proof -
  have "NormalizeTarget ''github'' ''get'' ''api.example.com'' ''/'' = Inr bxTarget" by code_simp
  then have "NormalizeTarget (irBackend bxRequest) (irMethod bxRequest) (irHost bxRequest) (irPath bxRequest) = Inr bxTarget"
    by (simp add: bxRequest_def)
  moreover have "validTaskID (irTaskID bxRequest)" "irIdentityToken bxRequest \<noteq> []" by code_simp+
  ultimately show ?thesis
    by (simp add: issuedRun_def bxDecode bxTTL minimumTTL_def maximumTTL_def second_def bxBroker_def bxDecision_def recorded_def
        bxJwt_def bxClaims_def)
qed

lemma bxJwt_laws: "jwtReadsBack bxJwt" "jwtAccepts bxJwt (\<lambda>key token. key = bcSigningKey bxConfig \<and> token = ''token'')"
proof -
  show "jwtReadsBack bxJwt"
    by (auto simp: jwtReadsBack_def bxJwt_def signingHeader_def plainChar_def byteIn_def split: if_splits)
  have "jhAlg (signingHeader bxConfig) = ''HS256''" by (simp add: signingHeader_def)
  then show "jwtAccepts bxJwt (\<lambda>key token. key = bcSigningKey bxConfig \<and> token = ''token'')"
    unfolding jwtAccepts_def bxJwt_def by (auto split: if_splits intro: exI [of _ "signingHeader bxConfig"])
qed

lemma bxClaims_encodable: "encodable bxClaims"
proof -
  have "list_all utf8 ([gcAssignmentName bxClaims, gcAssignmentUID bxClaims, gcSandboxID bxClaims, gcPodUID bxClaims,
       gcCapabilityBundleName bxClaims, gcCapabilityBundleRevision bxClaims, gcTaskID bxClaims, gcBackend bxClaims,
       gcMethod bxClaims, gcHost bxClaims, gcPath bxClaims, gcIssuer bxClaims, gcSubject bxClaims, gcID bxClaims] @ gcAudience bxClaims)"
    by code_simp
  moreover have "exactDate (gcExpiresAt bxClaims)" "exactDate (gcNotBefore bxClaims)" "exactDate (gcIssuedAt bxClaims)"
    by (simp_all add: bxClaims_def grantClaims_def bxTTL exactDate_def numericDate_def second_def)
  ultimately show ?thesis unfolding encodable_def by blast
qed

lemma bxIssued: "\<exists>response. brokerServeHTTP bxBroker bxHttp (100 * second) = (Some response, 100 * second) \<and> rspStatus response = 201"
proof -
  have "rqMethod bxHttp = ''POST''" "rqPath bxHttp = ''/broker/v1/credentials''" by (simp_all add: bxHttp_def)
  then show ?thesis unfolding brokerServeHTTP_201 issue_Inr using bxRun by blast
qed

lemma bxSigned: "jwtSign (brJwt bxBroker) header key claims = Inr token \<longleftrightarrow>
  header = signingHeader bxConfig \<and> key = bcSigningKey bxConfig \<and> claims = bxClaims \<and> token = ''token''"
  by (auto simp: bxBroker_def bxJwt_def)

theorem credential_lifetime_witness:
  "(\<exists>response start expiry. brokerServeHTTP bxBroker bxHttp (100 * second) = (Some response, 100 * second) \<and> rspStatus response = 201 \<and>
     gcNotBefore bxClaims = Some start \<and> gcExpiresAt bxClaims = Some expiry \<and> 60 * second \<le> expiry - start \<and> expiry - start \<le> 900 * second \<and>
     irTTLSeconds bxRequest = 36028797018964028) \<and>
   (\<exists>message. brokerServeHTTP bxBroker (bxHttp\<lparr>rqBody := Inr ''null''\<rparr>) 0 = (Some (brokerError 400 message), 0))"
proof (rule conjI)
  obtain response where run: "brokerServeHTTP bxBroker bxHttp (100 * second) = (Some response, 100 * second)" "rspStatus response = 201"
    using bxIssued by blast
  from credential_lifetime [THEN conjunct1, THEN mp, OF conjI [OF run]] obtain claims token start expiry where
    "jwtSign (brJwt bxBroker) (signingHeader (brConfig bxBroker)) (bcSigningKey (brConfig bxBroker)) claims = Inr token"
    and life: "gcNotBefore claims = Some start" "gcExpiresAt claims = Some expiry" "60 * second \<le> expiry - start" "expiry - start \<le> 900 * second"
    by (elim exE conjE)
  then have "claims = bxClaims" unfolding bxSigned by (elim conjE)
  with run life show "\<exists>response start expiry. brokerServeHTTP bxBroker bxHttp (100 * second) = (Some response, 100 * second) \<and> rspStatus response = 201 \<and>
     gcNotBefore bxClaims = Some start \<and> gcExpiresAt bxClaims = Some expiry \<and> 60 * second \<le> expiry - start \<and> expiry - start \<le> 900 * second \<and>
     irTTLSeconds bxRequest = 36028797018964028"
    by (simp add: bxRequest_def)
next
  have "decodeJSON (bxHttp\<lparr>rqBody := Inr ''null''\<rparr>) = Inr emptyIssueRequest"
  proof (rule decodeJSON_whole)
    show "parseValue (Suc (length ''null'')) 0 ''null'' = Some (JNull, [])" by code_simp
  qed (simp_all add: bxHttp_def maxRequestBytes_def decodeIssueRequest_def)
  moreover have "requestTTL emptyIssueRequest < 60 * second" by code_simp
  ultimately show "\<exists>message. brokerServeHTTP bxBroker (bxHttp\<lparr>rqBody := Inr ''null''\<rparr>) 0 = (Some (brokerError 400 message), 0)"
    using credential_lifetime [of bxBroker "bxHttp\<lparr>rqBody := Inr ''null''\<rparr>" 0 _ _ emptyIssueRequest] by (simp add: bxHttp_def)
qed

theorem issued_claims_wellformed_witness: "wellFormedClaims bxClaims"
proof -
  have "grantClaims (brConfig bxBroker) bxRequest bxTarget bxDecision (100 * second) ''grant'' = bxClaims"
    by (simp add: bxClaims_def bxBroker_def)
  moreover have "completeDecision bxDecision" by (simp add: completeDecision_def bxDecision_def)
  moreover have "CHR '':'' \<notin> set (tgHost bxTarget)" by (simp add: bxTarget_def)
  ultimately show ?thesis using issued_claims_wellformed [OF bxRun] by simp
qed

theorem issued_credential_usable_witness:
  "(\<exists>response. brokerServeHTTP bxBroker bxHttp (100 * second) = (Some response, 100 * second) \<and> rspStatus response = 201) \<and>
   brokerServeHTTP bxBroker (bearerRequest ''/broker/v1/verify'' ''token'') (150 * second) =
     (Some (writeJSON 200 (verifiedJSON bxBroker bxClaims (160 * second))), 150 * second) \<and>
   (\<exists>answer. brokerServeHTTP bxBroker (bearerRequest ''/broker/v1/revoke'' ''token'') (150 * second) = (Some answer, 150 * second) \<and>
     rspStatus answer = 204)"
proof -
  obtain response where run: "brokerServeHTTP bxBroker bxHttp (100 * second) = (Some response, 100 * second)" "rspStatus response = 201"
    using bxIssued by blast
  have lib: "jwtReadsBack (brJwt bxBroker)" using bxJwt_laws(1) by (simp add: bxBroker_def)
  have expiry: "numericDate (100 * second + requestTTL bxRequest) = 160 * second"
    by (simp add: bxTTL numericDate_def second_def)
  have conditions: "completeDecision bxDecision" "''grant'' \<noteq> []" "CHR '':'' \<notin> set (tgHost bxTarget)" "encodable bxClaims"
    using bxClaims_encodable by (simp_all add: completeDecision_def bxDecision_def bxTarget_def)
  have parts: "NormalizeTarget (irBackend bxRequest) (irMethod bxRequest) (irHost bxRequest) (irPath bxRequest) = Inr bxTarget"
    using bxRun by (simp add: issuedRun_def)
  have calls: "brCheck bxBroker input w = ((bxDecision, None), w)" "brNow bxBroker w = (w, w)" "brNewUUID bxBroker w = (''grant'', w)"
    "brIsRevoked bxBroker ''grant'' w = (Inr False, w)" "brValidateGrant bxBroker c w = (Inr (), w)"
    "recorded bxBroker action c w w" "brRevoke bxBroker c w = (Some (Inr ()), w)" for input c w action
    by (simp_all add: bxBroker_def recorded_def)
  have use: "\<forall>v. 100 * second \<le> v \<and> v < numericDate (100 * second + requestTTL bxRequest) \<longrightarrow>
      (\<forall>v4. recorded bxBroker ''used'' bxClaims v v4 \<longrightarrow> brokerServeHTTP bxBroker (bearerRequest ''/broker/v1/verify'' ''token'') v =
         (Some (writeJSON 200 (verifiedJSON bxBroker bxClaims (numericDate (100 * second + requestTTL bxRequest)))), v4)) \<and>
      (\<forall>u3. recorded bxBroker ''revoked'' bxClaims v u3 \<longrightarrow>
         (\<exists>answer. brokerServeHTTP bxBroker (bearerRequest ''/broker/v1/revoke'' ''token'') v = (Some answer, u3) \<and> rspStatus answer = 204))"
    using issued_credential_usable [OF lib run] conditions unfolding bxDecode calls(1-3) bxSigned by (clarsimp simp: parts calls)
  have "100 * second \<le> 150 * second \<and> 150 * second < numericDate (100 * second + requestTTL bxRequest)"
    unfolding expiry by (simp add: second_def)
  from use [THEN spec, THEN mp, OF this] show ?thesis unfolding expiry using calls(6) run by blast
qed

lemma bxServed: "\<exists>response. brokerServeHTTP bxBroker (bearerRequest ''/broker/v1/verify'' ''token'') (150 * second) =
    (Some response, 150 * second) \<and> rspStatus response = 200"
proof -
  have "bearerCredential (bearerRequest ''/broker/v1/verify'' ''token'') = Inr ''token''"
    by (rule bearerCredential_request) (simp_all add: plainChar_def byteIn_def)
  moreover have "wellFormedClaims bxClaims" by code_simp
  moreover have "registeredValid (jwtParseOptions bxConfig) (150 * second) bxClaims"
    by (simp add: registeredValid_def jwtParseOptions_def bxClaims_def grantClaims_def bxTTL numericDate_def second_def bxConfig_def)
  moreover have "keyFunc bxConfig (signingHeader bxConfig) = Inr (bcSigningKey bxConfig)"
    by (simp add: keyFunc_def signingHeader_def)
  ultimately have "parseAuthorization bxBroker (bearerRequest ''/broker/v1/verify'' ''token'') (150 * second) = (Inr bxClaims, 150 * second)"
    unfolding parseAuthorization_Inr by (simp add: bxBroker_def bxJwt_def jwtParseOptions_def)
  then have "verify bxBroker (bearerRequest ''/broker/v1/verify'' ''token'') (150 * second) =
      (Inr (Some (writeJSON 200 (verifiedJSON bxBroker bxClaims (160 * second)))), 150 * second)"
    unfolding verify_Inr
    by (intro exI [of _ bxClaims]) (simp add: bxBroker_def recorded_def bxClaims_def grantClaims_def bxTTL numericDate_def second_def)
  then show ?thesis by (simp add: brokerServeHTTP_def bearerRequest_def finishw_eq)
qed

theorem credential_accepted_witness:
  "\<exists>claims now expiry. brNow bxBroker (150 * second) = (now, 150 * second) \<and> gcExpiresAt claims = Some expiry \<and> now < expiry \<and>
     wellFormedClaims claims"
proof -
  have lib: "jwtAccepts (brJwt bxBroker) (\<lambda>key token. key = bcSigningKey bxConfig \<and> token = ''token'')"
    using bxJwt_laws(2) by (simp add: bxBroker_def)
  obtain response where served: "brokerServeHTTP bxBroker (bearerRequest ''/broker/v1/verify'' ''token'') (150 * second) =
      (Some response, 150 * second)" "rspStatus response = 200"
    using bxServed by blast
  have "brNow bxBroker w = (w, w)" for w by (simp add: bxBroker_def)
  with credential_accepted [OF lib served] show ?thesis by auto
qed

end
