(* ===== verification/BrokerKube.thy ===== *)
theory BrokerKube
  imports Broker
begin

section \<open>The credential broker on Kubernetes\<close>

text \<open>
  \<open>internal/assignment/credentialbroker/kubernetes.go\<close>: the validator that compares a credential with
  the live assignment and Pod, the store that keeps one object per revoked credential until it
  expires, and the audit sink. The clients, the clock and the converter to unstructured objects are
  the fields of \<open>brokerClient\<close>. \<open>kubernetesBroker\<close> puts them together as \<open>cmd/assignmentd/main.go\<close> does.

  The locale \<open>credential_backends\<close> is what the broker relies on of the Go interfaces \<open>GrantValidator\<close> and
  \<open>RevocationStore\<close>.
\<close>

subsection \<open>Objects\<close>

record grantPod = pod +
  podPhase :: string

record SandboxCredentialRevocationSpec =
  rvGrantID :: string
  rvExpiresAt :: time
  rvAssignmentRef :: AssignmentReference
  rvPodUID :: string
  rvSandboxID :: string

record SandboxCredentialRevocation = object_meta +
  scrSpec :: SandboxCredentialRevocationSpec

record SandboxCredentialEventSpec =
  ceTimestamp :: time
  ceGrantID :: string
  ceAction :: string
  ceTaskID :: string
  ceAssignmentRef :: AssignmentReference
  cePodUID :: string
  ceSandboxID :: string
  ceCapabilityBundleName :: string
  ceCapabilityBundleRevision :: string
  ceEventBackend :: string
  ceMethod :: string
  ceHost :: string
  cePath :: string
  ceExpiresAt :: time

record SandboxCredentialEvent = object_meta +
  sceSpec :: SandboxCredentialEventSpec

record 'w brokerClient =
  bkGetAssignment :: "string \<Rightarrow> string \<Rightarrow> ('w, unstructured) call"
  bkGetPod :: "string \<Rightarrow> string \<Rightarrow> ('w, grantPod) call"
  bkRevocationObject :: "SandboxCredentialRevocation \<Rightarrow> go_error + unstructured"
  bkCreateRevocation :: "string \<Rightarrow> unstructured \<Rightarrow> ('w, unit) call"
  bkGetRevocation :: "string \<Rightarrow> string \<Rightarrow> ('w, unstructured) call"
  bkDeleteRevocation :: "string \<Rightarrow> string \<Rightarrow> ('w, unit) call"
  bkEventObject :: "SandboxCredentialEvent \<Rightarrow> go_error + unstructured"
  bkCreateEvent :: "string \<Rightarrow> unstructured \<Rightarrow> ('w, unit) call"
  bkNow :: "'w \<Rightarrow> time \<times> 'w"

subsection \<open>Validation\<close>

definition grantConditionTrue :: "unstructured \<Rightarrow> string \<Rightarrow> bool" where
  "grantConditionTrue object kind \<longleftrightarrow>
     list_ex (\<lambda>raw. jsonGet raw ''type'' = Some (JStr kind) \<and> jsonGet raw ''status'' = Some (JStr ''True''))
       (sliceAt (uStatus object) [''conditions''])"

definition grantPodNamespace :: "string \<Rightarrow> unstructured \<Rightarrow> string" where
  "grantPodNamespace workloadNamespace object =
     (let podNamespace = strAt (uStatus object) [''podRef'', ''namespace'']
      in if podNamespace = [] then workloadNamespace else podNamespace)"

definition ValidateGrant :: "'w brokerClient \<Rightarrow> string \<Rightarrow> string \<Rightarrow> GrantClaims \<Rightarrow> ('w, unit) call" where
  "ValidateGrant client assignmentNamespace workloadNamespace claims =
     bindw (bkGetAssignment client assignmentNamespace (gcAssignmentName claims)) (\<lambda>object.
     bindw (guardw (metaDeletionTimestamp object \<noteq> None \<or> metaUID object \<noteq> gcAssignmentUID claims \<or>
                    getS (metaAnnotations object) PausedAnnotation = ''true'' \<or>
                    getS (metaAnnotations object) SandboxIDAnnotation \<noteq> gcSandboxID claims \<or>
                    \<not> grantConditionTrue object ''Ready'')
       (ErrNew ''assignment binding is stale'')) (\<lambda>_.
     bindw (guardw (strAt (uStatus object) [''podRef'', ''uid''] \<noteq> gcPodUID claims \<or>
                    strAt (uStatus object) [''resolvedCapabilityBundle'', ''name''] \<noteq> gcCapabilityBundleName claims \<or>
                    strAt (uStatus object) [''resolvedCapabilityBundle'', ''policyRevision''] \<noteq> gcCapabilityBundleRevision claims)
       (ErrNew ''assignment policy or Pod incarnation changed'')) (\<lambda>_.
     bindw (bkGetPod client (grantPodNamespace workloadNamespace object) (strAt (uStatus object) [''podRef'', ''name''])) (\<lambda>p.
       guardw (metaDeletionTimestamp p \<noteq> None \<or> metaUID p \<noteq> gcPodUID claims \<or> podPhase p = ''Failed'')
         (ErrNew ''sandbox Pod binding is stale'')))))"

subsection \<open>Revocation\<close>

definition revocationName :: "string \<Rightarrow> string" where
  "revocationName grantID = ''grant-'' @ grantID"

definition revocationFor :: "string \<Rightarrow> GrantClaims \<Rightarrow> time \<Rightarrow> SandboxCredentialRevocation" where
  "revocationFor namespace claims expiresAt =
     object_meta.extend (emptyMeta\<lparr>metaName := revocationName (gcID claims), metaNamespace := namespace,
       metaLabels := [''aks-sandbox.azure.com/assignment'' \<mapsto> gcAssignmentName claims]\<rparr>)
       \<lparr>scrSpec = \<lparr>rvGrantID = gcID claims, rvExpiresAt = expiresAt,
          rvAssignmentRef = \<lparr>arName = gcAssignmentName claims, arUID = gcAssignmentUID claims\<rparr>,
          rvPodUID = gcPodUID claims, rvSandboxID = gcSandboxID claims\<rparr>\<rparr>"

definition Revoke :: "'w brokerClient \<Rightarrow> string \<Rightarrow> GrantClaims \<Rightarrow> ('w, unit) pcall" where
  "Revoke client namespace claims w =
     (case gcExpiresAt claims of
        None \<Rightarrow> (None, w)
      | Some expiresAt \<Rightarrow>
          (case bkRevocationObject client (revocationFor namespace claims expiresAt) of
             Inl e \<Rightarrow> (Some (Inl e), w)
           | Inr object \<Rightarrow>
               callw (bkCreateRevocation client namespace object)
                 (\<lambda>e w'. (Some (if isAlreadyExists e then Inr () else Inl e), w')) (\<lambda>_ w'. (Some (Inr ()), w')) w))"

definition IsRevoked :: "'w brokerClient \<Rightarrow> string \<Rightarrow> string \<Rightarrow> ('w, bool) call" where
  "IsRevoked client namespace grantID =
     bindw (attempt (bkGetRevocation client namespace (revocationName grantID))) (\<lambda>found.
       case found of
         Inl e \<Rightarrow> if isNotFound e then retw False else exitw e
       | Inr object \<Rightarrow>
           (case parseRFC3339 (strAt (uSpec object) [''expiresAt'']) of
              None \<Rightarrow> exitw (ErrNew ''parsing time'')
            | Some expiry \<Rightarrow>
                bindw (readw (bkNow client)) (\<lambda>now.
                  if \<not> now < expiry then
                    bindw (attempt (bkDeleteRevocation client namespace (metaName object))) (\<lambda>deleted.
                      case deleted of
                        Inl e \<Rightarrow> if isNotFound e then retw False else exitw e
                      | Inr _ \<Rightarrow> retw False)
                  else retw True)))"

subsection \<open>Audit\<close>

definition credentialEventFor :: "string \<Rightarrow> AuditEvent \<Rightarrow> time \<Rightarrow> SandboxCredentialEvent" where
  "credentialEventFor namespace event expiresAt =
     (let claims = aeGrant event in
      object_meta.extend (emptyMeta\<lparr>metaGenerateName := ''credential-'', metaNamespace := namespace,
        metaLabels := [''aks-sandbox.azure.com/assignment'' \<mapsto> gcAssignmentName claims]\<rparr>)
        \<lparr>sceSpec = \<lparr>ceTimestamp = aeTimestamp event, ceGrantID = gcID claims, ceAction = aeAction event,
           ceTaskID = gcTaskID claims, ceAssignmentRef = \<lparr>arName = gcAssignmentName claims, arUID = gcAssignmentUID claims\<rparr>,
           cePodUID = gcPodUID claims, ceSandboxID = gcSandboxID claims, ceCapabilityBundleName = gcCapabilityBundleName claims,
           ceCapabilityBundleRevision = gcCapabilityBundleRevision claims, ceEventBackend = gcBackend claims,
           ceMethod = gcMethod claims, ceHost = gcHost claims, cePath = gcPath claims, ceExpiresAt = expiresAt\<rparr>\<rparr>)"

definition recordCredential :: "'w brokerClient \<Rightarrow> string \<Rightarrow> AuditEvent \<Rightarrow> ('w, unit) pcall" where
  "recordCredential client namespace event w =
     (case gcExpiresAt (aeGrant event) of
        None \<Rightarrow> (None, w)
      | Some expiresAt \<Rightarrow>
          (case bkEventObject client (credentialEventFor namespace event expiresAt) of
             Inl e \<Rightarrow> (Some (Inl e), w)
           | Inr object \<Rightarrow>
               callw (bkCreateEvent client namespace object)
                 (\<lambda>e w'. (Some (Inl (if isNotFound e then Errorf ''credential audit CRD is not installed'' e else e)), w'))
                 (\<lambda>_ w'. (Some (Inr ()), w')) w))"

text \<open>The broker of \<open>cmd/assignmentd\<close>, with its checker, configuration and library.\<close>

definition kubernetesBroker :: "'w brokerClient \<Rightarrow> string \<Rightarrow> string \<Rightarrow> 'w broker \<Rightarrow> 'w broker" where
  "kubernetesBroker client assignmentNamespace workloadNamespace b = b\<lparr>
     brValidateGrant := ValidateGrant client assignmentNamespace workloadNamespace,
     brAudit := Some (recordCredential client assignmentNamespace),
     brRevoke := Revoke client assignmentNamespace, brIsRevoked := IsRevoked client assignmentNamespace\<rparr>"

subsection \<open>What the broker relies on\<close>

text \<open>
  A validated credential is \<open>Bound\<close> and a credential that is reported as not revoked is \<open>Unrevoked\<close>, in the
  world that the provider was asked in.
\<close>

locale credential_backends =
  fixes validate :: "GrantClaims \<Rightarrow> ('w, unit) call"
    and isRevoked :: "string \<Rightarrow> ('w, bool) call"
    and Bound :: "'w \<Rightarrow> GrantClaims \<Rightarrow> bool"
    and Unrevoked :: "'w \<Rightarrow> string \<Rightarrow> bool"
  assumes validate_bound: "validate claims w = (Inr (), w') \<Longrightarrow> Bound w claims"
    and unrevoked: "isRevoked grantID w = (Inr False, w') \<Longrightarrow> Unrevoked w grantID"
begin

lemma accepted_bound:
  assumes "brValidateGrant b = validate" "brIsRevoked b = isRevoked"
    and "brokerServeHTTP b r w = (Some response, w')" "rspStatus response = 200"
  shows "\<exists>claims w1 w2. parseAuthorization b r w = (Inr claims, w1) \<and> isRevoked (gcID claims) w1 = (Inr False, w2) \<and>
    Unrevoked w1 (gcID claims) \<and> Bound w2 claims"
proof -
  have "verify b r w = (Inr (Some response), w')"
    using serve_status(2) [OF assms(3)] assms(4) by (simp add: refusals_def)
  then obtain claims w1 w2 w3 where "parseAuthorization b r w = (Inr claims, w1)"
    "isRevoked (gcID claims) w1 = (Inr False, w2)" "validate claims w2 = (Inr (), w3)"
    unfolding verify_Inr assms(1,2) by blast
  then show ?thesis using validate_bound unrevoked by blast
qed

end

text \<open>The assignment and the Pod that a credential was issued for, as they were read.\<close>

definition grantBoundTo :: "unstructured \<Rightarrow> grantPod \<Rightarrow> GrantClaims \<Rightarrow> bool" where
  "grantBoundTo object p claims \<longleftrightarrow>
     metaDeletionTimestamp object = None \<and> metaUID object = gcAssignmentUID claims \<and>
     getS (metaAnnotations object) PausedAnnotation \<noteq> ''true'' \<and>
     getS (metaAnnotations object) SandboxIDAnnotation = gcSandboxID claims \<and> grantConditionTrue object ''Ready'' \<and>
     strAt (uStatus object) [''podRef'', ''uid''] = gcPodUID claims \<and>
     strAt (uStatus object) [''resolvedCapabilityBundle'', ''name''] = gcCapabilityBundleName claims \<and>
     strAt (uStatus object) [''resolvedCapabilityBundle'', ''policyRevision''] = gcCapabilityBundleRevision claims \<and>
     metaDeletionTimestamp p = None \<and> metaUID p = gcPodUID claims \<and> podPhase p \<noteq> ''Failed''"

definition boundGrant :: "'w brokerClient \<Rightarrow> string \<Rightarrow> string \<Rightarrow> 'w \<Rightarrow> GrantClaims \<Rightarrow> bool" where
  "boundGrant client assignmentNamespace workloadNamespace w claims \<longleftrightarrow>
     (\<exists>object p w1 w2. bkGetAssignment client assignmentNamespace (gcAssignmentName claims) w = (Inr object, w1) \<and>
        bkGetPod client (grantPodNamespace workloadNamespace object) (strAt (uStatus object) [''podRef'', ''name'']) w1 = (Inr p, w2) \<and>
        grantBoundTo object p claims)"

definition unrevokedGrant :: "'w brokerClient \<Rightarrow> string \<Rightarrow> 'w \<Rightarrow> string \<Rightarrow> bool" where
  "unrevokedGrant client namespace w grantID \<longleftrightarrow>
     (\<exists>e w1. bkGetRevocation client namespace (revocationName grantID) w = (Inl e, w1) \<and> isNotFound e) \<or>
     (\<exists>object expiry now w1 w2. bkGetRevocation client namespace (revocationName grantID) w = (Inr object, w1) \<and>
        parseRFC3339 (strAt (uSpec object) [''expiresAt'']) = Some expiry \<and> bkNow client w1 = (now, w2) \<and> expiry \<le> now)"

lemma ValidateGrant_Inr:
  "ValidateGrant client ans wns claims w = (Inr (), w') \<Longrightarrow> boundGrant client ans wns w claims"
  unfolding ValidateGrant_def boundGrant_def grantBoundTo_def by (simp add: flow_simps) blast

lemma IsRevoked_False: "IsRevoked client ns grantID w = (Inr False, w') \<Longrightarrow> unrevokedGrant client ns w grantID"
  by (auto simp: IsRevoked_def unrevokedGrant_def flow_simps not_less split: sum.split_asm option.split_asm if_split_asm)

interpretation kubernetes_backends: credential_backends
  "ValidateGrant client ans wns" "IsRevoked client ans" "boundGrant client ans wns" "unrevokedGrant client ans"
  for client :: "'w brokerClient" and ans wns
  by unfold_locales (auto dest: ValidateGrant_Inr IsRevoked_False)

lemma kubernetesBroker_simps [simp]:
  "brValidateGrant (kubernetesBroker client ans wns b) = ValidateGrant client ans wns"
  "brIsRevoked (kubernetesBroker client ans wns b) = IsRevoked client ans"
  "brRevoke (kubernetesBroker client ans wns b) = Revoke client ans"
  "brAudit (kubernetesBroker client ans wns b) = Some (recordCredential client ans)"
  "brNow (kubernetesBroker client ans wns b) = brNow b"
  "brConfig (kubernetesBroker client ans wns b) = brConfig b"
  "brJwt (kubernetesBroker client ans wns b) = brJwt b"
  by (simp_all add: kubernetesBroker_def)

text \<open>
  C27: a credential is accepted only for the live sandbox it was issued to. When the broker of
  \<open>assignmentd\<close> answers 200, the assignment that the claims name was read and is the same object, ready, not
  deleted and not paused, with the same sandbox, Pod, bundle and bundle revision as in the claims; the
  Pod was read and is the same Pod, neither deleted nor failed; and the revocation of the credential was
  reported missing, or its expiry had passed.
\<close>

theorem accepted_credential_bound:
  assumes "brokerServeHTTP (kubernetesBroker client ans wns b) r w = (Some response, w')" "rspStatus response = 200"
  shows "\<exists>claims w1 w2 object p w3 w4.
    parseAuthorization (kubernetesBroker client ans wns b) r w = (Inr claims, w1) \<and> unrevokedGrant client ans w1 (gcID claims) \<and>
    bkGetAssignment client ans (gcAssignmentName claims) w2 = (Inr object, w3) \<and>
    bkGetPod client (grantPodNamespace wns object) (strAt (uStatus object) [''podRef'', ''name'']) w3 = (Inr p, w4) \<and>
    grantBoundTo object p claims"
  using kubernetes_backends.accepted_bound [OF _ _ assms, of client ans wns] unfolding boundGrant_def by fastforce

subsection \<open>The revocations as a set of live grants\<close>

text \<open>
  What the store promises: a map from revoked credentials to their expiry. Revoking adds an entry
  unless there is one, asking tells whether there is one that has not expired, and drops it when it has.
\<close>

type_synonym revocations = "string \<Rightarrow> time option"

definition specRevoke :: "string \<Rightarrow> time \<Rightarrow> revocations \<Rightarrow> revocations" where
  "specRevoke grantID expiry m = (if m grantID = None then m(grantID \<mapsto> expiry) else m)"

definition specIsRevoked :: "string \<Rightarrow> time \<Rightarrow> revocations \<Rightarrow> bool" where
  "specIsRevoked grantID now m \<longleftrightarrow> (case m grantID of None \<Rightarrow> False | Some expiry \<Rightarrow> now < expiry)"

definition specExpire :: "string \<Rightarrow> time \<Rightarrow> revocations \<Rightarrow> revocations" where
  "specExpire grantID now m = (if specIsRevoked grantID now m then m else m(grantID := None))"

text \<open>
  The collection of revocation objects on the API server, by name, as documented for create, get and
  delete of a custom resource; a call changes the collection only in this way. The
  converter keeps the name and writes instants in RFC 3339.
\<close>

type_synonym 'w collection = "'w \<Rightarrow> string \<Rightarrow> unstructured option"

definition createsObjects :: "'w brokerClient \<Rightarrow> string \<Rightarrow> 'w collection \<Rightarrow> bool" where
  "createsObjects client ns stored \<longleftrightarrow>
     (\<forall>object w w'. bkCreateRevocation client ns object w = (Inr (), w') \<longrightarrow> stored w (metaName object) = None \<and>
        (\<exists>made. metaName made = metaName object \<and> uSpec made = uSpec object \<and>
           stored w' = (stored w)(metaName object \<mapsto> made))) \<and>
     (\<forall>object w e w'. bkCreateRevocation client ns object w = (Inl e, w') \<longrightarrow> isAlreadyExists e \<longrightarrow>
        stored w (metaName object) \<noteq> None \<and> stored w' = stored w)"

definition readsObjects :: "'w brokerClient \<Rightarrow> string \<Rightarrow> 'w collection \<Rightarrow> bool" where
  "readsObjects client ns stored \<longleftrightarrow>
     (\<forall>name w object w'. bkGetRevocation client ns name w = (Inr object, w') \<longrightarrow>
        stored w name = Some object \<and> metaName object = name \<and> stored w' = stored w) \<and>
     (\<forall>name w e w'. bkGetRevocation client ns name w = (Inl e, w') \<longrightarrow> isNotFound e \<longrightarrow>
        stored w name = None \<and> stored w' = stored w) \<and>
     (\<forall>w t w'. bkNow client w = (t, w') \<longrightarrow> stored w' = stored w)"

definition deletesObjects :: "'w brokerClient \<Rightarrow> string \<Rightarrow> 'w collection \<Rightarrow> bool" where
  "deletesObjects client ns stored \<longleftrightarrow>
     (\<forall>name w w'. bkDeleteRevocation client ns name w = (Inr (), w') \<longrightarrow> stored w' = (stored w)(name := None)) \<and>
     (\<forall>name w e w'. bkDeleteRevocation client ns name w = (Inl e, w') \<longrightarrow> isNotFound e \<longrightarrow>
        stored w name = None \<and> stored w' = stored w)"

definition convertsRevocations :: "'w brokerClient \<Rightarrow> bool" where
  "convertsRevocations client \<longleftrightarrow>
     (\<forall>v object. bkRevocationObject client v = Inr object \<longrightarrow>
        metaName object = metaName v \<and> strAt (uSpec object) [''expiresAt''] = formatRFC3339 (rvExpiresAt (scrSpec v)))"

definition servesRevocations :: "'w brokerClient \<Rightarrow> string \<Rightarrow> 'w collection \<Rightarrow> bool" where
  "servesRevocations client ns stored \<longleftrightarrow>
     createsObjects client ns stored \<and> readsObjects client ns stored \<and> deletesObjects client ns stored \<and>
     convertsRevocations client"

text \<open>The abstraction, and the invariant that every revocation has an expiry that can be read.\<close>

definition expiryOf :: "unstructured \<Rightarrow> time option" where
  "expiryOf object = parseRFC3339 (strAt (uSpec object) [''expiresAt''])"

definition absRevocations :: "'w collection \<Rightarrow> 'w \<Rightarrow> revocations" where
  "absRevocations stored w grantID = obind (stored w (revocationName grantID)) expiryOf"

definition readable :: "'w collection \<Rightarrow> 'w \<Rightarrow> bool" where
  "readable stored w \<longleftrightarrow> (\<forall>name object. stored w name = Some object \<longrightarrow> expiryOf object \<noteq> None)"

lemma revocationName_inj [simp]: "revocationName a = revocationName b \<longleftrightarrow> a = b"
  by (simp add: revocationName_def)

lemma absRevocations_None: "readable stored w \<Longrightarrow> absRevocations stored w grantID = None \<longleftrightarrow> stored w (revocationName grantID) = None"
  by (auto simp: absRevocations_def readable_def obind_def split: option.splits)

lemma absRevocations_upd:
  "stored w' = (stored w)(revocationName grantID := v) \<Longrightarrow>
     absRevocations stored w' = (absRevocations stored w)(grantID := obind v expiryOf)"
  by (auto simp: absRevocations_def fun_eq_iff)

lemma readable_upd:
  "readable stored w \<Longrightarrow> stored w' = (stored w)(name := v) \<Longrightarrow> (\<And>object. v = Some object \<Longrightarrow> expiryOf object \<noteq> None) \<Longrightarrow>
     readable stored w'"
  by (auto simp: readable_def)

lemma Revoke_refines:
  assumes server: "servesRevocations client ns stored" and ok: "readable stored w"
    and expiry: "gcExpiresAt claims = Some expiry" "numericDate expiry = expiry" "0 \<le> yearOf expiry" "yearOf expiry \<le> 9999"
    and run: "Revoke client ns claims w = (Some (Inr ()), w')"
  shows "absRevocations stored w' = specRevoke (gcID claims) expiry (absRevocations stored w)" "readable stored w'"
proof -
  let ?name = "revocationName (gcID claims)"
  obtain object where object: "bkRevocationObject client (revocationFor ns claims expiry) = Inr object"
    and created: "bkCreateRevocation client ns object w = (Inr (), w') \<or>
      (\<exists>e. bkCreateRevocation client ns object w = (Inl e, w') \<and> isAlreadyExists e)"
    using run expiry(1) by (auto simp: Revoke_def call_simps split: sum.split_asm if_split_asm)
  have name: "metaName object = ?name" and written: "strAt (uSpec object) [''expiresAt''] = formatRFC3339 expiry"
    using server object by (auto simp: servesRevocations_def convertsRevocations_def revocationFor_def object_meta.extend_def)
  have "parseRFC3339 (formatRFC3339 expiry) = Some expiry"
    using timestamp_roundtrip [OF expiry(3,4)] expiry(2) by (simp add: numericDate_def)
  then have read: "parseRFC3339 (strAt (uSpec object) [''expiresAt'']) = Some expiry" by (simp add: written)
  from created show "absRevocations stored w' = specRevoke (gcID claims) expiry (absRevocations stored w)"
    and "readable stored w'"
  proof (atomize (full), elim disjE exE conjE)
    assume "bkCreateRevocation client ns object w = (Inr (), w')"
    then obtain made where new: "stored w ?name = None" "uSpec made = uSpec object"
      "stored w' = (stored w)(?name \<mapsto> made)"
      using server name unfolding servesRevocations_def createsObjects_def by metis
    have made: "expiryOf made = Some expiry" using read new(2) by (simp add: expiryOf_def)
    have "absRevocations stored w (gcID claims) = None" using ok new(1) by (simp add: absRevocations_None)
    then show "absRevocations stored w' = specRevoke (gcID claims) expiry (absRevocations stored w) \<and> readable stored w'"
      using absRevocations_upd [OF new(3)] readable_upd [OF ok new(3)] made by (simp add: specRevoke_def obind_def)
  next
    fix e
    assume "bkCreateRevocation client ns object w = (Inl e, w')" "isAlreadyExists e"
    then have "stored w ?name \<noteq> None" "stored w' = stored w"
      using server name unfolding servesRevocations_def createsObjects_def by metis+
    then show "absRevocations stored w' = specRevoke (gcID claims) expiry (absRevocations stored w) \<and> readable stored w'"
      using ok absRevocations_None [OF ok, of "gcID claims"]
      by (auto simp: specRevoke_def absRevocations_def readable_def fun_eq_iff)
  qed
qed

lemma IsRevoked_refines:
  assumes server: "servesRevocations client ns stored" and ok: "readable stored w"
    and run: "IsRevoked client ns grantID w = (Inr revoked, w')"
  shows "\<exists>now. (absRevocations stored w grantID \<noteq> None \<longrightarrow>
         (\<exists>object u u'. bkGetRevocation client ns (revocationName grantID) w = (Inr object, u) \<and> bkNow client u = (now, u'))) \<and>
    revoked = specIsRevoked grantID now (absRevocations stored w) \<and>
    absRevocations stored w' = specExpire grantID now (absRevocations stored w) \<and> readable stored w'"
proof (cases "bkGetRevocation client ns (revocationName grantID) w")
  case (Pair found w1)
  let ?name = "revocationName grantID"
  show ?thesis
  proof (cases found)
    case (Inl e)
    with run Pair have absent: "isNotFound e" "\<not> revoked" "w' = w1"
      by (auto simp: IsRevoked_def flow_simps split: if_split_asm)
    then have "stored w ?name = None" "stored w' = stored w"
      using server Pair Inl unfolding servesRevocations_def readsObjects_def by blast+
    then have "absRevocations stored w grantID = None" "absRevocations stored w' = absRevocations stored w" "readable stored w'"
      using ok by (auto simp: absRevocations_def readable_def fun_eq_iff obind_def)
    then show ?thesis using absent by (simp add: specIsRevoked_def specExpire_def fun_upd_idem)
  next
    case (Inr object)
    then have stored: "stored w ?name = Some object" "metaName object = ?name" "stored w1 = stored w"
      using server Pair unfolding servesRevocations_def readsObjects_def by blast+
    from run Pair Inr obtain expiry now w2 where parsed: "expiryOf object = Some expiry" and now: "bkNow client w1 = (now, w2)"
      and rest: "(if \<not> now < expiry
          then \<not> revoked \<and> ((\<exists>e. bkDeleteRevocation client ns ?name w2 = (Inl e, w') \<and> isNotFound e) \<or>
                            bkDeleteRevocation client ns ?name w2 = (Inr (), w'))
          else revoked \<and> w' = w2)"
      using stored(2)
      by (auto simp: IsRevoked_def flow_simps expiryOf_def split: sum.split_asm option.split_asm if_split_asm)
    have live: "absRevocations stored w grantID = Some expiry"
      using stored(1) parsed by (simp add: absRevocations_def obind_def)
    have w2: "stored w2 = stored w" using server now stored(3) unfolding servesRevocations_def readsObjects_def by metis
    have after: "stored w' = (if now < expiry then stored w else (stored w)(?name := None))"
    proof (cases "now < expiry")
      case False
      then have "(\<exists>e. bkDeleteRevocation client ns ?name w2 = (Inl e, w') \<and> isNotFound e) \<or>
          bkDeleteRevocation client ns ?name w2 = (Inr (), w')"
        using rest by simp
      then have "(stored w2 ?name = None \<and> stored w' = stored w2) \<or> stored w' = (stored w2)(?name := None)"
        using server unfolding servesRevocations_def deletesObjects_def by blast
      then show ?thesis using False w2 by (auto simp: fun_upd_idem)
    qed (use rest w2 in simp)
    have "revoked = (now < expiry)" using rest by (simp split: if_split_asm)
    moreover have "absRevocations stored w' = specExpire grantID now (absRevocations stored w)"
      using after absRevocations_upd [of stored w' w grantID None] live
      by (auto simp: specExpire_def specIsRevoked_def obind_def absRevocations_def fun_eq_iff)
    moreover have "readable stored w'" using after ok by (auto simp: readable_def split: if_splits)
    ultimately show ?thesis using live now Pair Inr by (auto simp: specIsRevoked_def)
  qed
qed

text \<open>
  C32: the revocation objects implement a map of live revocations. On an API server that keeps the
  objects it is given, a successful \<open>Revoke\<close> is exactly \<open>specRevoke\<close> with the expiry of the credential,
  which survives its trip through the object as text, and an answer of \<open>IsRevoked\<close> is exactly that of \<open>specIsRevoked\<close> at
  the time that its clock showed, with exactly the effect of \<open>specExpire\<close>. Both keep every stored revocation readable.
\<close>

theorem revocation_store_refines:
  assumes "servesRevocations client ns stored" "readable stored w"
  shows "(\<forall>claims expiry w'. gcExpiresAt claims = Some expiry \<and> numericDate expiry = expiry \<and> 0 \<le> yearOf expiry \<and> yearOf expiry \<le> 9999 \<and>
       Revoke client ns claims w = (Some (Inr ()), w') \<longrightarrow>
       absRevocations stored w' = specRevoke (gcID claims) expiry (absRevocations stored w) \<and> readable stored w') \<and>
    (\<forall>grantID revoked w'. IsRevoked client ns grantID w = (Inr revoked, w') \<longrightarrow>
       (\<exists>now. (absRevocations stored w grantID \<noteq> None \<longrightarrow>
           (\<exists>object u u'. bkGetRevocation client ns (revocationName grantID) w = (Inr object, u) \<and> bkNow client u = (now, u'))) \<and>
         revoked = specIsRevoked grantID now (absRevocations stored w) \<and>
         absRevocations stored w' = specExpire grantID now (absRevocations stored w) \<and> readable stored w'))"
  using Revoke_refines [OF assms] IsRevoked_refines [OF assms] by blast

text \<open>
  a revoked credential is refused until it expires. If the store holds the revocation of a
  credential and the broker still answers 200 to it, then the clock of the store had reached the
  expiry of the revocation by the time it was asked: the credential expired between the check of its
  lifetime and the lookup.
\<close>

theorem revoked_credential_refused:
  assumes server: "servesRevocations client ans stored"
    and parsed: "parseAuthorization (kubernetesBroker client ans wns b) r w = (Inr claims, w1)"
    and revoked: "readable stored w1" "absRevocations stored w1 (gcID claims) = Some expiry"
    and served: "brokerServeHTTP (kubernetesBroker client ans wns b) r w = (Some response, w')"
  shows "rspStatus response \<noteq> 200 \<or> 
    (\<exists>object u u' now. bkGetRevocation client ans (revocationName (gcID claims)) w1 = (Inr object, u) \<and>
       bkNow client u = (now, u') \<and> expiry \<le> now)"
proof (cases "rspStatus response = 200")
  case ok: True
  obtain claims' v1 v2 where "parseAuthorization (kubernetesBroker client ans wns b) r w = (Inr claims', v1)"
    "IsRevoked client ans (gcID claims') v1 = (Inr False, v2)"
    using kubernetes_backends.accepted_bound [OF _ _ served ok, of client ans wns] by auto
  then have "IsRevoked client ans (gcID claims) w1 = (Inr False, v2)" using parsed by simp
  from IsRevoked_refines [OF server revoked(1) this] revoked(2) show ?thesis by (auto simp: specIsRevoked_def)
qed simp

subsection \<open>A cluster\<close>

text \<open>The world is the collection of revocations and the clock.\<close>

type_synonym rvWorld = "(string \<Rightarrow> unstructured option) \<times> time"

definition rvObject :: "string \<Rightarrow> json \<Rightarrow> json \<Rightarrow> unstructured" where
  "rvObject name spec status = object_meta.extend (emptyMeta\<lparr>metaName := name, metaUID := ''u1'',
       metaAnnotations := [SandboxIDAnnotation \<mapsto> ''s1'']\<rparr>)
     \<lparr>uAPIVersion = ''aks-sandbox.azure.com/v1alpha1'', uKind = [], uSpec = spec, uStatus = status\<rparr>"

definition rvAssignment :: unstructured where
  "rvAssignment = rvObject ''a1'' JNull (JObj [
     (''podRef'', JObj [(''name'', JStr ''pod''), (''uid'', JStr ''p1'')]),
     (''resolvedCapabilityBundle'', JObj [(''name'', JStr ''b1''), (''policyRevision'', JStr ''r1'')]),
     (''conditions'', JArr [JObj [(''type'', JStr ''Ready''), (''status'', JStr ''True'')]])])"

definition rvPod :: grantPod where
  "rvPod = object_meta.extend (emptyMeta\<lparr>metaName := ''pod'', metaUID := ''p1''\<rparr>)
     \<lparr>podServiceAccountName = [], podAutomount = None, podRuntimeClassName = None, podVolumes = [], podContainers = [],
      podIP = [], podIPs = [], podConditions = [], podPhase = ''Running''\<rparr>"

definition rvNamed :: "string \<Rightarrow> unstructured \<Rightarrow> unstructured" where
  "rvNamed name object = object\<lparr>metaName := name\<rparr>"

definition rvStored :: "rvWorld collection" where
  "rvStored w name = map_option (rvNamed name) (fst w name)"

definition rvClient :: "rvWorld brokerClient" where
  "rvClient = \<lparr>bkGetAssignment = (\<lambda>_ _. okw rvAssignment), bkGetPod = (\<lambda>_ _. okw rvPod),
     bkRevocationObject = (\<lambda>v. Inr (rvObject (metaName v) (JObj [(''expiresAt'', JStr (formatRFC3339 (rvExpiresAt (scrSpec v))))]) JNull)),
     bkCreateRevocation = (\<lambda>_ object w.
       if fst w (metaName object) = None then (Inr (), ((fst w)(metaName object \<mapsto> object), snd w))
       else (Inl (ApiStatus ReasonAlreadyExists), w)),
     bkGetRevocation = (\<lambda>_ name w. case fst w name of
       None \<Rightarrow> (Inl (ApiStatus ReasonNotFound), w) | Some object \<Rightarrow> (Inr (rvNamed name object), w)),
     bkDeleteRevocation = (\<lambda>_ name w.
       if fst w name = None then (Inl (ApiStatus ReasonNotFound), w) else (Inr (), ((fst w)(name := None), snd w))),
     bkEventObject = (\<lambda>_. Inr rvAssignment), bkCreateEvent = (\<lambda>_ _. okw ()), bkNow = (\<lambda>w. (snd w, w))\<rparr>"

definition rvBroker :: "rvWorld broker" where
  "rvBroker = kubernetesBroker rvClient ''assignments'' ''workloads''
     \<lparr>brCheck = (\<lambda>input w. ((bxDecision, None), w)), brValidateGrant = (\<lambda>_. okw ()), brAudit = None,
      brRevoke = (\<lambda>_ w. (None, w)), brIsRevoked = (\<lambda>_. okw True), brConfig = bxConfig, brNow = (\<lambda>w. (snd w, w)),
      brNewUUID = (\<lambda>w. (''grant'', w)), brJwt = bxJwt, brLocalTime = marshalTime\<rparr>"

lemma rvClient_serves: "servesRevocations rvClient ns rvStored"
proof -
  have "rvNamed (metaName object) object = object" for object :: unstructured by (simp add: rvNamed_def)
  then have "createsObjects rvClient ns rvStored"
    by (auto simp: createsObjects_def rvClient_def rvStored_def fun_eq_iff split: if_splits) metis
  moreover have "readsObjects rvClient ns rvStored"
    by (auto simp: readsObjects_def rvClient_def rvStored_def rvNamed_def split: option.splits)
  moreover have "deletesObjects rvClient ns rvStored"
    by (auto simp: deletesObjects_def rvClient_def rvStored_def fun_eq_iff split: if_splits)
  moreover have "convertsRevocations rvClient"
    by (auto simp: convertsRevocations_def rvClient_def rvObject_def object_meta.extend_def strAt_eq)
  ultimately show ?thesis by (simp add: servesRevocations_def)
qed

definition rvRevocation :: unstructured where
  "rvRevocation = rvObject ''grant-grant'' (JObj [(''expiresAt'', JStr (formatRFC3339 (160 * second)))]) JNull"

definition rvRevoked :: "(string \<Rightarrow> unstructured option)" where
  "rvRevoked = [''grant-grant'' \<mapsto> rvRevocation]"

lemma bxClaims_fields: "gcID bxClaims = ''grant''" "gcExpiresAt bxClaims = Some (160 * second)"
  by (simp_all add: bxClaims_def grantClaims_def bxTTL numericDate_def second_def)

lemma rvRun: "Revoke rvClient ns bxClaims (Map.empty, t) = (Some (Inr ()), (rvRevoked, t))"
proof -
  have "bkRevocationObject rvClient (revocationFor ns bxClaims (160 * second)) = Inr rvRevocation"
    by (simp add: rvClient_def revocationFor_def object_meta.extend_def rvRevocation_def bxClaims_fields revocationName_def)
  moreover have "metaName rvRevocation = ''grant-grant''" by (simp add: rvRevocation_def rvObject_def object_meta.extend_def)
  then have "bkCreateRevocation rvClient ns rvRevocation (Map.empty, t) = (Inr (), (rvRevoked, t))"
    by (simp add: rvClient_def rvRevoked_def)
  ultimately show ?thesis by (simp add: Revoke_def bxClaims_fields)
qed

lemma rvEmpty: "readable rvStored (Map.empty, t)" "absRevocations rvStored (Map.empty, t) = Map.empty"
  by (simp_all add: readable_def rvStored_def absRevocations_def obind_def fun_eq_iff)

lemma rvYear: "yearOf (160 * second) = 1970"
  by code_simp

lemma rvRevoked_state:
  "absRevocations rvStored (rvRevoked, t) = [''grant'' \<mapsto> 160 * second]" "readable rvStored (rvRevoked, t)"
proof -
  have "numericDate (160 * second) = 160 * second" by (simp add: numericDate_def second_def)
  from Revoke_refines [OF rvClient_serves rvEmpty(1) bxClaims_fields(2) this _ _ rvRun, of t] rvYear
  show "absRevocations rvStored (rvRevoked, t) = [''grant'' \<mapsto> 160 * second]" "readable rvStored (rvRevoked, t)"
    by (simp_all add: rvEmpty specRevoke_def bxClaims_fields)
qed

theorem revocation_store_refines_witness:
  "absRevocations rvStored (rvRevoked, 100 * second) = [''grant'' \<mapsto> 160 * second] \<and>
   (\<exists>now. True = specIsRevoked ''grant'' now (absRevocations rvStored (rvRevoked, 100 * second)))"
proof -
  have date: "numericDate (160 * second) = 160 * second" by (simp add: numericDate_def second_def)
  have "IsRevoked rvClient ''assignments'' ''grant'' (rvRevoked, 100 * second) = (Inr True, (rvRevoked, 100 * second))"
  proof -
    have "parseRFC3339 (formatRFC3339 (160 * second)) = Some (160 * second)"
      using timestamp_roundtrip [of "160 * second"] rvYear date by (simp add: numericDate_def)
    then show ?thesis
      by (simp add: IsRevoked_def bindw_def attempt_def readw_def rvClient_def rvRevoked_def revocationName_def rvNamed_def rvRevocation_def
          rvObject_def object_meta.extend_def strAt_eq second_def)
  qed
  moreover note revocation_store_refines [OF rvClient_serves rvRevoked_state(2), of "''assignments''" "100 * second"]
  ultimately have "\<exists>now. True = specIsRevoked ''grant'' now (absRevocations rvStored (rvRevoked, 100 * second))" by blast
  moreover have "absRevocations rvStored (rvRevoked, 100 * second) = [''grant'' \<mapsto> 160 * second]"
  proof -
    have "0 \<le> yearOf (160 * second)" "yearOf (160 * second) \<le> 9999" using rvYear by simp_all
    then have "absRevocations rvStored (rvRevoked, 100 * second) =
        specRevoke (gcID bxClaims) (160 * second) (absRevocations rvStored (Map.empty, 100 * second))"
      using revocation_store_refines [OF rvClient_serves rvEmpty(1)] bxClaims_fields(2) date rvRun by blast
    then show ?thesis by (simp add: rvEmpty specRevoke_def bxClaims_fields)
  qed
  ultimately show ?thesis by blast
qed

lemma rvParsed:
  "parseAuthorization rvBroker (bearerRequest ''/broker/v1/verify'' ''token'') (m, 150 * second) = (Inr bxClaims, (m, 150 * second))"
proof -
  have "bearerCredential (bearerRequest ''/broker/v1/verify'' ''token'') = Inr ''token''"
    by (rule bearerCredential_request) (simp_all add: plainChar_def byteIn_def)
  moreover have "wellFormedClaims bxClaims" by code_simp
  moreover have "registeredValid (jwtParseOptions bxConfig) (150 * second) bxClaims"
    by (simp add: registeredValid_def jwtParseOptions_def bxClaims_def grantClaims_def bxTTL numericDate_def second_def bxConfig_def)
  moreover have "keyFunc bxConfig (signingHeader bxConfig) = Inr (bcSigningKey bxConfig)"
    by (simp add: keyFunc_def signingHeader_def)
  ultimately show ?thesis
    unfolding parseAuthorization_Inr by (simp add: rvBroker_def bxJwt_def jwtParseOptions_def)
qed

lemma rvServed:
  "\<exists>response. brokerServeHTTP rvBroker (bearerRequest ''/broker/v1/verify'' ''token'') (Map.empty, 150 * second) =
     (Some response, (Map.empty, 150 * second)) \<and> rspStatus response = 200"
proof -
  have "IsRevoked rvClient ns grantID (Map.empty, t) = (Inr False, (Map.empty, t))" for ns grantID t
    by (simp add: IsRevoked_def bindw_def attempt_def rvClient_def)
  moreover have "grantBoundTo rvAssignment rvPod bxClaims" by code_simp
  then have "ValidateGrant rvClient ans wns bxClaims w = (Inr (), w)" for ans wns w
    by (simp add: ValidateGrant_def grantBoundTo_def bindw_def rvClient_def guardw_def)
  moreover have "recordCredential rvClient ns \<lparr>aeTimestamp = t, aeAction = action, aeGrant = bxClaims\<rparr> w = (Some (Inr ()), w)" for ns t action w
    by (simp add: recordCredential_def bxClaims_fields rvClient_def callw_def)
  ultimately have "verify rvBroker (bearerRequest ''/broker/v1/verify'' ''token'') (Map.empty, 150 * second) =
      (Inr (Some (writeJSON 200 (verifiedJSON rvBroker bxClaims (160 * second)))), (Map.empty, 150 * second))"
    unfolding verify_Inr using rvParsed [of Map.empty]
    by (intro exI [of _ bxClaims]) (simp add: rvBroker_def recorded_def bxClaims_fields)
  then show ?thesis by (simp add: brokerServeHTTP_def bearerRequest_def finishw_eq)
qed

theorem accepted_credential_bound_witness:
  "\<exists>claims object p. parseAuthorization rvBroker (bearerRequest ''/broker/v1/verify'' ''token'') (Map.empty, 150 * second) =
      (Inr claims, (Map.empty, 150 * second)) \<and> grantBoundTo object p claims"
proof -
  obtain response where served: "brokerServeHTTP rvBroker (bearerRequest ''/broker/v1/verify'' ''token'') (Map.empty, 150 * second) =
      (Some response, (Map.empty, 150 * second))" "rspStatus response = 200"
    using rvServed by blast
  from accepted_credential_bound [OF served [unfolded rvBroker_def]] rvParsed [of Map.empty]
  show ?thesis by (auto simp: rvBroker_def)
qed

theorem revoked_credential_refused_witness:
  "\<exists>response w'. brokerServeHTTP rvBroker (bearerRequest ''/broker/v1/verify'' ''token'') (rvRevoked, 150 * second) = (Some response, w') \<and>
     rspStatus response \<noteq> 200"
proof -
  let ?r = "bearerRequest ''/broker/v1/verify'' ''token''" and ?w = "(rvRevoked, 150 * second)"
  have "verify rvBroker ?r ?w = (Inl (Some (brokerError 401 ''credential is revoked'')), ?w)"
  proof -
    have "parseRFC3339 (formatRFC3339 (160 * second)) = Some (160 * second)"
      using timestamp_roundtrip [of "160 * second"] rvYear by (simp add: second_def)
    then have "IsRevoked rvClient ''assignments'' ''grant'' ?w = (Inr True, ?w)"
      by (simp add: IsRevoked_def bindw_def attempt_def readw_def rvClient_def rvRevoked_def revocationName_def rvNamed_def rvRevocation_def
          rvObject_def object_meta.extend_def strAt_eq second_def)
    then have "brIsRevoked rvBroker (gcID bxClaims) ?w = (Inr True, ?w)" by (simp add: rvBroker_def bxClaims_fields)
    then show ?thesis using rvParsed [of rvRevoked] by (simp add: verify_def bindw_def tryw_def refuse_def)
  qed
  then have served: "brokerServeHTTP rvBroker ?r ?w = (Some (brokerError 401 ''credential is revoked''), ?w)"
    by (simp add: brokerServeHTTP_def bearerRequest_def finishw_eq)
  have "absRevocations rvStored ?w (gcID bxClaims) = Some (160 * second)" by (simp add: rvRevoked_state bxClaims_fields)
  from revoked_credential_refused [OF rvClient_serves rvParsed [of rvRevoked, unfolded rvBroker_def] rvRevoked_state(2) this
      served [unfolded rvBroker_def]] served
  show ?thesis by auto
qed

end
