(* ===== verification/DashboardPages.thy ===== *)
theory DashboardPages
  imports DashboardAdmin BrokerKube "HOL-Library.AList" "HOL-Library.Multiset"
begin

section \<open>Pages of the dashboard\<close>

text \<open>
  The two pages of \<open>cmd/aks-sandbox-dashboard/governance.go\<close> with the tables they show, \<open>templateRows\<close> (templates.go),
  \<open>tenantPolicyRows\<close> (tenants.go), the constructor \<open>newGovernanceDashboard\<close> and the routes. Each table lists the objects of
  the tenants of the principal: for the access page those it may ask for, for the administration page those it administers.

  \<open>pageClient\<close> adds the lists and converters that the tables read; the HTML is a parameter, a function of the data of the page. A
  Go map keyed by names is an association list in which a name occurs once. \<open>slices.SortFunc\<close> leaves the order of equal elements open;
  here they keep the order of the list.
\<close>

subsection \<open>Data of the pages\<close>

record assignmentPageRow =
  arRowName :: string
  arRowUID :: string
  arSandboxID :: string
  arPod :: string
  arBundle :: string
  arBoundary :: string
  arLogicalTenant :: string
  arTeam :: string
  arPermission :: string
  arReady :: string

record bundlePageRow =
  brName :: string
  brUID :: string
  brBoundary :: string
  brLogicalTenant :: string
  brTeam :: string
  brPermission :: string
  brEgress :: string
  brCommands :: string

record eventPageRow =
  erName :: string
  erTimestamp :: string
  erAssignment :: string
  erSandboxID :: string
  erBundle :: string
  erBoundary :: string
  erPermission :: string
  erBackend :: string
  erMethod :: string
  erHost :: string
  erPath :: string
  erAllowed :: string
  erSource :: string
  erAccessRequest :: string
  erReason :: string

record requestPageRow =
  qrName :: string
  qrState :: string
  qrAssignment :: string
  qrRequester :: string
  qrRequestedDuration :: string
  qrTarget :: string
  qrReason :: string
  qrApprover :: string
  qrDecisionReason :: string
  qrApprovedAt :: string
  qrExpiresAt :: string
  qrApproveAction :: string
  qrDenyAction :: string
  qrRequestedMinutes :: int

record credentialPageRow =
  crTimestamp :: string
  crAction :: string
  crGrantID :: string
  crTaskID :: string
  crSandboxID :: string
  crAssignment :: string
  crTarget :: string
  crExpiresAt :: string

record validationPageRow =
  vrName :: string
  vrState :: string
  vrTaskID :: string
  vrRepository :: string
  vrRevision :: string
  vrSandboxID :: string
  vrAssignment :: string
  vrTemplate :: string
  vrCommands :: string
  vrResults :: string
  vrCleanedUp :: string
  vrMessage :: string

record templatePageRow =
  trRowName :: string
  trDisplayName :: string
  trDescription :: string
  trImage :: string
  trEntrypoint :: string
  trCapabilityBundle :: string
  trCPU :: string
  trMemory :: string
  trTimeout :: string
  trEnabled :: string

record tenantPolicyPageRow =
  prName :: string
  prLogicalTenant :: string
  prWorkloadNamespace :: string
  prBundles :: string
  prConcurrent :: string
  prLifetime :: string
  prAccess :: string
  prCPU :: string
  prMemory :: string
  prEnabled :: string

record accessPageData =
  xpBasePath :: string
  xpIdentityName :: string
  xpCSRFToken :: string
  xpMessage :: string
  xpIsAdmin :: bool
  xpAssignments :: "assignmentPageRow list"
  xpDeniedEvents :: "eventPageRow list"

record adminPageData =
  apBasePath :: string
  apIdentityName :: string
  apCSRFToken :: string
  apMessage :: string
  apTemplates :: "templatePageRow list"
  apRequests :: "requestPageRow list"
  apAssignments :: "assignmentPageRow list"
  apBundles :: "bundlePageRow list"
  apEvents :: "eventPageRow list"
  apCredentials :: "credentialPageRow list"
  apValidations :: "validationPageRow list"
  apTenantPolicies :: "tenantPolicyPageRow list"

record 'w pageClient =
  pcAdmin :: "'w adminClient"
  pcListTemplates :: "('w, unstructured list) call"
  pcListBundles :: "('w, unstructured list) call"
  pcToBundle :: "unstructured \<Rightarrow> go_error + CapabilityBundle"
  pcListCredentials :: "('w, unstructured list) call"
  pcToCredential :: "unstructured \<Rightarrow> go_error + SandboxCredentialEvent"
  pcListValidations :: "('w, unstructured list) call"
  pcToValidation :: "unstructured \<Rightarrow> go_error + SandboxValidationRun"
  pcRenderAccess :: "accessPageData \<Rightarrow> string"
  pcRenderAdmin :: "adminPageData \<Rightarrow> string"

abbreviation pcGov :: "'w pageClient \<Rightarrow> 'w govClient" where
  "pcGov c \<equiv> acGov (pcAdmin c)"

abbreviation pcDash :: "'w pageClient \<Rightarrow> 'w dashClient" where
  "pcDash c \<equiv> gcBase (pcGov c)"

subsection \<open>Lists and tenants\<close>

definition listItems :: "('w, unstructured list) call \<Rightarrow> (unstructured \<Rightarrow> go_error + 'b) \<Rightarrow> ('w, 'b list) call" where
  "listItems list decode = bindw list (\<lambda>items. liftf (decodeItems decode items))"

definition byName :: "'a object_meta_scheme list \<Rightarrow> (string \<times> 'a object_meta_scheme) list" where
  "byName xs = foldl (\<lambda>m x. AList.update (metaName x) x m) [] xs"

type_synonym assignmentMap = "(string \<times> SandboxAssignment) list"
type_synonym bundleMap = "(string \<times> CapabilityBundle) list"

definition assignmentMap :: "'w pageClient \<Rightarrow> ('w, assignmentMap) call" where
  "assignmentMap c = bindw (listItems (dcListAssignments (pcDash c)) (dcToAssignment (pcDash c))) (\<lambda>xs. retw (byName xs))"

definition bundleMap :: "'w pageClient \<Rightarrow> ('w, bundleMap) call" where
  "bundleMap c = bindw (listItems (pcListBundles c) (pcToBundle c)) (\<lambda>xs. retw (byName xs))"

text \<open>\<open>bundleLogicalTenant\<close> of a looked up bundle; \<open>None\<close> is the nil pointer.\<close>

definition bundleObjectTenant :: "CapabilityBundle option \<Rightarrow> string" where
  "bundleObjectTenant bundle =
     (case bundle of
        None \<Rightarrow> []
      | Some b \<Rightarrow> (case cbsGovernance (cbSpec b) of None \<Rightarrow> [] | Some gov \<Rightarrow> trimSpace (gbLogicalTenant gov)))"

definition assignmentLogicalTenant :: "SandboxAssignment option \<Rightarrow> bundleMap \<Rightarrow> string" where
  "assignmentLogicalTenant assignment bundles =
     (case assignment of
        None \<Rightarrow> []
      | Some a \<Rightarrow>
          if trimSpace (saLogicalTenant (sasSpec a)) \<noteq> [] then trimSpace (saLogicalTenant (sasSpec a))
          else bundleObjectTenant (map_of bundles (cbrName (saCapabilityBundleRef (sasSpec a)))))"

definition requestLogicalTenant :: "SandboxAccessRequest \<Rightarrow> assignmentMap \<Rightarrow> bundleMap \<Rightarrow> string" where
  "requestLogicalTenant request assignments bundles =
     (if trimSpace (giLogicalTenant (rsRequester (sarSpec request))) \<noteq> [] then trimSpace (giLogicalTenant (rsRequester (sarSpec request)))
      else assignmentLogicalTenant (map_of assignments (arName (rsAssignmentRef (sarSpec request)))) bundles)"

text \<open>The tenant of an assignment that is looked up by its name, else that of the bundle.\<close>

definition eventLogicalTenant :: "AssignmentReference \<Rightarrow> string \<Rightarrow> assignmentMap \<Rightarrow> bundleMap \<Rightarrow> string" where
  "eventLogicalTenant ref bundleName assignments bundles =
     (let logicalTenant = assignmentLogicalTenant (map_of assignments (arName ref)) bundles
      in if logicalTenant \<noteq> [] then logicalTenant else bundleObjectTenant (map_of bundles bundleName))"

definition credentialEventLogicalTenant :: "SandboxCredentialEvent \<Rightarrow> assignmentMap \<Rightarrow> bundleMap \<Rightarrow> string" where
  "credentialEventLogicalTenant event = eventLogicalTenant (ceAssignmentRef (sceSpec event)) (ceCapabilityBundleName (sceSpec event))"

definition validationRunLogicalTenant :: "SandboxValidationRun \<Rightarrow> assignmentMap \<Rightarrow> bundleMap \<Rightarrow> string" where
  "validationRunLogicalTenant run = eventLogicalTenant (vsAssignmentRef (svrSpec run)) (vsCapabilityBundleName (svrSpec run))"

text \<open>The two maps that some tables look up; they are only read for a restricted principal.\<close>

definition tenantMaps :: "'w pageClient \<Rightarrow> tenants \<Rightarrow> ('w, assignmentMap \<times> bundleMap) call" where
  "tenantMaps c tenants =
     (if tenants = None then retw ([], [])
      else bindw (assignmentMap c) (\<lambda>assignments. bindw (bundleMap c) (\<lambda>bundles. retw (assignments, bundles))))"

subsection \<open>Rows\<close>

definition timeText :: "time \<Rightarrow> string" where
  "timeText t = formatRFC3339 t"

definition assignmentReadyText :: "SandboxAssignment \<Rightarrow> string" where
  "assignmentReadyText a =
     (case List.find (\<lambda>k. cdType k = ''Ready'') (stConditions (sasStatus a)) of
        Some k \<Rightarrow> cdStatus k | None \<Rightarrow> ''Unknown'')"

definition identityDisplay :: "GovernanceIdentity \<Rightarrow> string" where
  "identityDisplay identity = giDisplayName identity @ '' ('' @ giTenantID identity @ ''/'' @ giObjectID identity @ '')''"

definition boundaryOf :: "CapabilityBundle option \<Rightarrow> GovernanceBoundary" where
  "boundaryOf bundle =
     (case Option.bind bundle (\<lambda>b. cbsGovernance (cbSpec b)) of
        Some boundary \<Rightarrow> boundary
      | None \<Rightarrow> \<lparr>gbLogicalTenant = [], gbTeam = [], gbPermissionLevel = [], gbDisplayName = []\<rparr>)"

definition assignmentRow :: "bundleMap \<Rightarrow> SandboxAssignment \<Rightarrow> assignmentPageRow" where
  "assignmentRow bundles a =
     (let bundleName = cbrName (saCapabilityBundleRef (sasSpec a)); boundary = boundaryOf (map_of bundles bundleName)
      in \<lparr>arRowName = metaName a, arRowUID = metaUID a, arSandboxID = getS (metaAnnotations a) SandboxIDAnnotation,
          arPod = (case stPodRef (sasStatus a) of None \<Rightarrow> [] | Some ref \<Rightarrow> orName ref), arBundle = bundleName,
          arBoundary = gbDisplayName boundary, arLogicalTenant = assignmentLogicalTenant (Some a) bundles, arTeam = gbTeam boundary,
          arPermission = gbPermissionLevel boundary, arReady = assignmentReadyText a\<rparr>)"

definition assignmentRows :: "'w pageClient \<Rightarrow> tenants \<Rightarrow> ('w, assignmentPageRow list) call" where
  "assignmentRows c tenants =
     bindw (dcListAssignments (pcDash c)) (\<lambda>items.
     bindw (bundleMap c) (\<lambda>bundles.
     bindw (liftf (decodeItems (dcToAssignment (pcDash c)) items)) (\<lambda>assignments.
       retw (sort_key arRowName (filter (\<lambda>row. tenantAllowed tenants (arLogicalTenant row)) (map (assignmentRow bundles) assignments))))))"

definition bundleRow :: "CapabilityBundle \<Rightarrow> bundlePageRow" where
  "bundleRow b =
     (let boundary = boundaryOf (Some b)
      in \<lparr>brName = metaName b, brUID = metaUID b, brBoundary = gbDisplayName boundary, brLogicalTenant = gbLogicalTenant boundary,
          brTeam = gbTeam boundary, brPermission = gbPermissionLevel boundary,
          brEgress = (case cbsEgress (cbSpec b) of
                        None \<Rightarrow> [] | Some egress \<Rightarrow> joinWith ''; '' (sort (map (\<lambda>(backend, allow). backend @ '': '' @ allow) (epAgentgateway egress)))),
          brCommands = (case cbsHarness (cbSpec b) of
                          None \<Rightarrow> [] | Some harness \<Rightarrow> showDec (length (hpCommandPolicy harness)) @ '' allowed pattern(s)'')\<rparr>)"

definition bundleRows :: "'w pageClient \<Rightarrow> tenants \<Rightarrow> ('w, bundlePageRow list) call" where
  "bundleRows c tenants =
     bindw (bundleMap c) (\<lambda>bundles.
       retw (sort_key brName (map bundleRow (filter (\<lambda>b. tenantAllowed tenants (bundleObjectTenant (Some b))) (map snd bundles)))))"

definition decisionSourceText :: "SandboxEgressDecisionSource \<Rightarrow> string" where
  "decisionSourceText s =
     (case s of SourceNone \<Rightarrow> [] | DecisionSourceBundle \<Rightarrow> ''bundle'' | DecisionSourceAccessRequest \<Rightarrow> ''access-request'' | DecisionSourceDeny \<Rightarrow> ''deny'')"

definition eventRow :: "SandboxEgressEvent \<Rightarrow> eventPageRow" where
  "eventRow event =
     (let s = seeSpec event
      in \<lparr>erName = metaName event, erTimestamp = timeText (esTimestamp s), erAssignment = arName (esAssignmentRef s), erSandboxID = esSandboxID s,
          erBundle = esCapabilityBundleName s, erBoundary = esBoundaryDisplayName s, erPermission = esPermissionLevel s, erBackend = esBackend s,
          erMethod = esMethod s, erHost = esHost s, erPath = esPath s, erAllowed = formatBool (esAllowed s),
          erSource = decisionSourceText (esDecisionSource s), erAccessRequest = esAccessRequestName s, erReason = esReason s\<rparr>)"

text \<open>The newest hundred.\<close>

definition newest :: "('a \<Rightarrow> time) \<Rightarrow> 'a list \<Rightarrow> 'a list" where
  "newest t xs = take 100 (sort_key (\<lambda>x. - t x) xs)"

definition deniedEgress :: "SandboxEgressEvent \<Rightarrow> bool" where
  "deniedEgress event \<longleftrightarrow> \<not> esAllowed (seeSpec event) \<and> esDecisionSource (seeSpec event) = DecisionSourceDeny"

definition eventRows :: "'w pageClient \<Rightarrow> bool \<Rightarrow> tenants \<Rightarrow> ('w, eventPageRow list) call" where
  "eventRows c deniedOnly tenants =
     bindw (listItems (gcListEvents (pcGov c)) (gcToEvent (pcGov c))) (\<lambda>events.
       retw (map eventRow (newest (\<lambda>e. esTimestamp (seeSpec e))
         (filter (\<lambda>e. (deniedOnly \<longrightarrow> deniedEgress e) \<and> tenantAllowed tenants (esLogicalTenant (seeSpec e))) events))))"

text \<open>Division of Go integers by a positive one.\<close>

definition quotient :: "int \<Rightarrow> int \<Rightarrow> int" where
  "quotient a b = (if a < 0 then - ((- a) div b) else a div b)"

definition requestRow :: "governanceDashboard \<Rightarrow> SandboxAccessRequest \<Rightarrow> requestPageRow" where
  "requestRow g request =
     (let s = sarSpec request; st = sarStatus request; action = gdBasePath g @ ''/admin/requests/'' @ metaName request
      in \<lparr>qrName = metaName request, qrState = requestState st, qrAssignment = arName (rsAssignmentRef s), qrRequester = identityDisplay (rsRequester s),
          qrRequestedDuration = durationString (wrap64 (rsRequestedDurationSeconds s * second)),
          qrTarget = rsMethod s @ '' '' @ rsBackend s @ ''://'' @ rsHost s @ rsPath s, qrReason = rsReason s,
          qrApprover = (case rtApprover st of None \<Rightarrow> [] | Some approver \<Rightarrow> identityDisplay approver), qrDecisionReason = rtDecisionReason st,
          qrApprovedAt = (case rtApprovedAt st of None \<Rightarrow> [] | Some t \<Rightarrow> timeText t),
          qrExpiresAt = (case rtExpiresAt st of None \<Rightarrow> [] | Some t \<Rightarrow> timeText t),
          qrApproveAction = action @ ''/approve'', qrDenyAction = action @ ''/deny'', qrRequestedMinutes = quotient (rsRequestedDurationSeconds s) 60\<rparr>)"

definition requestRows :: "'w pageClient \<Rightarrow> governanceDashboard \<Rightarrow> tenants \<Rightarrow> ('w, requestPageRow list) call" where
  "requestRows c g tenants =
     bindw (gcListRequests (pcGov c)) (\<lambda>items.
     bindw (tenantMaps c tenants) (\<lambda>(assignments, bundles).
     bindw (liftf (decodeItems (gcToRequest (pcGov c)) items)) (\<lambda>requests.
       retw (map (requestRow g) (filter (\<lambda>q. tenantAllowed tenants (requestLogicalTenant q assignments bundles))
         (sort_key (\<lambda>q. - metaCreationTimestamp q) requests))))))"

definition credentialRow :: "SandboxCredentialEvent \<Rightarrow> credentialPageRow" where
  "credentialRow event =
     (let s = sceSpec event
      in \<lparr>crTimestamp = timeText (ceTimestamp s), crAction = ceAction s, crGrantID = ceGrantID s, crTaskID = ceTaskID s, crSandboxID = ceSandboxID s,
          crAssignment = arName (ceAssignmentRef s), crTarget = ceMethod s @ '' '' @ ceEventBackend s @ ''://'' @ ceHost s @ cePath s,
          crExpiresAt = timeText (ceExpiresAt s)\<rparr>)"

definition credentialRows :: "'w pageClient \<Rightarrow> tenants \<Rightarrow> ('w, credentialPageRow list) call" where
  "credentialRows c tenants =
     bindw (pcListCredentials c) (\<lambda>items.
     bindw (tenantMaps c tenants) (\<lambda>(assignments, bundles).
     bindw (liftf (decodeItems (pcToCredential c) items)) (\<lambda>events.
       retw (map credentialRow (newest (\<lambda>e. ceTimestamp (sceSpec e))
         (filter (\<lambda>e. tenantAllowed tenants (credentialEventLogicalTenant e assignments bundles)) events))))))"

definition validationRow :: "SandboxValidationRun \<Rightarrow> validationPageRow" where
  "validationRow run =
     (let s = svrSpec run; st = svrStatus run
      in \<lparr>vrName = metaName run, vrState = vtState st, vrTaskID = vsTaskID s, vrRepository = vsRepository s, vrRevision = vsSourceRevision s,
          vrSandboxID = vsSandboxID s, vrAssignment = arName (vsAssignmentRef s), vrTemplate = vsTemplateName s,
          vrCommands = showDec (length (vsSelectedCommands s)), vrResults = showDec (length (vtResults st)),
          vrCleanedUp = formatBool (vtCleanedUp st), vrMessage = vtMessage st\<rparr>)"

definition validationRows :: "'w pageClient \<Rightarrow> tenants \<Rightarrow> ('w, validationPageRow list) call" where
  "validationRows c tenants =
     bindw (pcListValidations c) (\<lambda>items.
     bindw (tenantMaps c tenants) (\<lambda>(assignments, bundles).
     bindw (liftf (decodeItems (pcToValidation c) items)) (\<lambda>runs.
       retw (map validationRow (newest (\<lambda>run. vsStartedAt (svrSpec run))
         (filter (\<lambda>run. tenantAllowed tenants (validationRunLogicalTenant run assignments bundles)) runs))))))"

text \<open>\<open>NestedStringSlice\<close>: nothing when an element is not a string.\<close>

definition stringsAt :: "json \<Rightarrow> string list \<Rightarrow> string list" where
  "stringsAt j fs =
     (let xs = sliceAt j fs in if list_all (\<lambda>x. case x of JStr _ \<Rightarrow> True | _ \<Rightarrow> False) xs then map jsonString xs else [])"

definition templateRow :: "unstructured \<Rightarrow> templatePageRow" where
  "templateRow item =
     \<lparr>trRowName = metaName item, trDisplayName = strAt (uSpec item) [''displayName''], trDescription = strAt (uSpec item) [''description''],
      trImage = strAt (uSpec item) [''image''], trEntrypoint = joinWith '' '' (stringsAt (uSpec item) [''entrypoint'']),
      trCapabilityBundle = strAt (uSpec item) [''capabilityBundleRef'', ''name''], trCPU = strAt (uSpec item) [''resources'', ''cpu''],
      trMemory = strAt (uSpec item) [''resources'', ''memory''],
      trTimeout = durationString (wrap64 (valueOr 0 (nestedInt64 (uSpec item) [''timeoutSeconds'']) * second)),
      trEnabled = formatBool (nestedField (uSpec item) [''enabled''] = Inr (Some (JBool True)))\<rparr>"

definition templateRows :: "'w pageClient \<Rightarrow> tenants \<Rightarrow> ('w, templatePageRow list) call" where
  "templateRows c tenants =
     bindw (pcListTemplates c) (\<lambda>items.
     bindw (if tenants = None then retw [] else bundleMap c) (\<lambda>bundles.
       retw (map templateRow (filter (\<lambda>item. tenantAllowed tenants
         (bundleObjectTenant (map_of bundles (strAt (uSpec item) [''capabilityBundleRef'', ''name''])))) items))))"

definition tenantPolicyRow :: "SandboxTenantPolicy \<Rightarrow> tenantPolicyPageRow" where
  "tenantPolicyRow policy =
     (let s = stpSpec policy
      in \<lparr>prName = metaName policy, prLogicalTenant = tpLogicalTenant s, prWorkloadNamespace = tpWorkloadNamespace s,
          prBundles = joinWith '', '' (tpAllowedCapabilityBundles s @ tpAllowedCapabilityBundlePrefixes s),
          prConcurrent = showInt (tpMaxConcurrentSandboxes s), prLifetime = showInt (tpMaxLifetimeSeconds s) @ ''s'',
          prAccess = showInt (quotient (tpMaxAccessRequestDurationSeconds s) 60) @ ''m'', prCPU = tpMaxCPU s, prMemory = tpMaxMemory s,
          prEnabled = formatBool (tpEnabled s)\<rparr>)"

definition tenantPolicyRows :: "'w pageClient \<Rightarrow> tenants \<Rightarrow> ('w, tenantPolicyPageRow list) call" where
  "tenantPolicyRows c tenants =
     bindw (listItems (gcListPolicies (pcGov c)) (gcToPolicy (pcGov c))) (\<lambda>policies.
       retw (sort_key prName (map tenantPolicyRow (filter (\<lambda>p. tenantAllowed tenants (tpLogicalTenant (stpSpec p))) policies))))"

subsection \<open>Pages\<close>

text \<open>\<open>URL.Query\<close>: the pairs of the query that can be read.\<close>

definition queryValues :: "string \<Rightarrow> form" where
  "queryValues query =
     foldl (\<lambda>f p. case p of Some (Some (k, v)) \<Rightarrow> formAdd f k v | _ \<Rightarrow> f) [] (map parsePair (splitOn (CHR ''&'') query))"

definition queryMessage :: "dashRequest \<Rightarrow> string" where
  "queryMessage r = formGet (queryValues (dqRawQuery r)) ''message''"

definition orInternal :: "('w, 'a) call \<Rightarrow> ('w, 'a) gstep" where
  "orInternal m = tryw m (\<lambda>_. internalError)"

definition forbidden :: response where
  "forbidden = httpError ''Forbidden'' 403"

definition csrfOf :: "dashRequest \<Rightarrow> string" where
  "csrfOf r = (case csrfTokenFromContext r of None \<Rightarrow> [] | Some t \<Rightarrow> t)"

text \<open>What the page shows, then the page.\<close>

definition accessData :: "'w pageClient \<Rightarrow> governanceDashboard \<Rightarrow> dashRequest \<Rightarrow> ('w, accessPageData) gstep" where
  "accessData c g r =
     bindw (requireRequester (pcGov c) r) (\<lambda>(identity, tenants).
     bindw (orInternal (assignmentRows c (Some tenants))) (\<lambda>assignments.
     bindw (orInternal (eventRows c True (Some tenants))) (\<lambda>events.
       retw \<lparr>xpBasePath = gdBasePath g, xpIdentityName = aiName identity, xpCSRFToken = csrfOf r, xpMessage = queryMessage r,
         xpIsAdmin = (gdAdminRole g \<in> set (aiRoles identity)), xpAssignments = assignments, xpDeniedEvents = events\<rparr>)))"

definition accessPage :: "'w pageClient \<Rightarrow> governanceDashboard \<Rightarrow> dashRequest \<Rightarrow> 'w \<Rightarrow> response \<times> 'w" where
  "accessPage c g r = finishw (bindw (accessData c g r) (\<lambda>d. retw (pageResponse (pcRenderAccess c d))))"

definition requireAdminScope :: "'w govClient \<Rightarrow> authenticatedIdentity \<Rightarrow> ('w, string list) gstep" where
  "requireAdminScope c identity =
     bindw (caught (principalScopes c identity)) (\<lambda>scopes.
       case scopes of
         Inl _ \<Rightarrow> exitw forbidden
       | Inr s \<Rightarrow> (case psAdmin s of Some (t # ts) \<Rightarrow> retw (t # ts) | _ \<Rightarrow> exitw forbidden))"

definition adminData :: "'w pageClient \<Rightarrow> governanceDashboard \<Rightarrow> dashRequest \<Rightarrow> ('w, adminPageData) gstep" where
  "adminData c g r =
     bindw (liftf (requireAdmin g r)) (\<lambda>identity.
     bindw (requireAdminScope (pcGov c) identity) (\<lambda>scope.
     let tenants = Some scope in
     bindw (orInternal (templateRows c tenants)) (\<lambda>templates.
     bindw (orInternal (requestRows c g tenants)) (\<lambda>requests.
     bindw (orInternal (assignmentRows c tenants)) (\<lambda>assignments.
     bindw (orInternal (bundleRows c tenants)) (\<lambda>bundles.
     bindw (orInternal (eventRows c False tenants)) (\<lambda>events.
     bindw (orInternal (credentialRows c tenants)) (\<lambda>credentials.
     bindw (orInternal (validationRows c tenants)) (\<lambda>validations.
     bindw (orInternal (tenantPolicyRows c tenants)) (\<lambda>tenantPolicies.
       retw \<lparr>apBasePath = gdBasePath g, apIdentityName = aiName identity, apCSRFToken = csrfOf r, apMessage = queryMessage r,
         apTemplates = templates, apRequests = requests, apAssignments = assignments, apBundles = bundles, apEvents = events,
         apCredentials = credentials, apValidations = validations, apTenantPolicies = tenantPolicies\<rparr>))))))))))"

definition adminPage :: "'w pageClient \<Rightarrow> governanceDashboard \<Rightarrow> dashRequest \<Rightarrow> 'w \<Rightarrow> response \<times> 'w" where
  "adminPage c g r = finishw (bindw (adminData c g r) (\<lambda>d. retw (pageResponse (pcRenderAdmin c d))))"

subsection \<open>Construction and routes\<close>

text \<open>\<open>newGovernanceDashboard\<close>; the first argument is whether the client is nil.\<close>

definition newGovernanceDashboard :: "bool \<Rightarrow> string \<Rightarrow> string \<Rightarrow> string \<Rightarrow> string \<Rightarrow> go_error + governanceDashboard" where
  "newGovernanceDashboard clientNil redirectURI namespace basePath adminRole =
     (if clientNil then Inl (ErrNew ''dashboard governance Kubernetes client is required'')
      else case urlParse redirectURI of
             Some redirect \<Rightarrow>
               if urlScheme redirect = [] \<or> urlHost redirect = [] then Inl (ErrNew ''dashboard redirect URI must have an origin'')
               else Inr \<lparr>gdNamespace = namespace, gdBasePath = basePath, gdPublicOrigin = urlScheme redirect @ ''://'' @ urlHost redirect,
                         gdAdminRole = adminRole\<rparr>
           | None \<Rightarrow> Inl (ErrNew ''dashboard redirect URI must have an origin''))"

datatype governanceHandler =
  AccessPage | CreateAccessRequest | AdminPage | CreateCapabilityBundle | SimulateCapabilityBundle | CreateSandboxTemplate |
  CreateTenantPolicy | ApproveAccessRequest string | DenyAccessRequest string

text \<open>\<open>RegisterRoutes\<close>: the handler that a method and a path select, if any. A pattern with GET also serves HEAD.\<close>

definition RegisterRoutes :: "string \<Rightarrow> string \<Rightarrow> governanceHandler option" where
  "RegisterRoutes verb path =
     (if verb = ''GET'' \<or> verb = ''HEAD'' then
        (if path = ''/access'' then Some AccessPage else if path = ''/admin'' then Some AdminPage else None)
      else if verb = ''POST'' then
        (if path = ''/access/requests'' then Some CreateAccessRequest
         else if path = ''/admin/bundles'' then Some CreateCapabilityBundle
         else if path = ''/admin/bundles/simulate'' then Some SimulateCapabilityBundle
         else if path = ''/admin/templates'' then Some CreateSandboxTemplate
         else if path = ''/admin/tenant-policies'' then Some CreateTenantPolicy
         else case splitOn (CHR ''/'') path of
                [[], a, b, name, verdict] \<Rightarrow>
                  if a = ''admin'' \<and> b = ''requests'' \<and> name \<noteq> [] \<and> verdict = ''approve'' then Some (ApproveAccessRequest name)
                  else if a = ''admin'' \<and> b = ''requests'' \<and> name \<noteq> [] \<and> verdict = ''deny'' then Some (DenyAccessRequest name) else None
              | _ \<Rightarrow> None)
      else None)"

fun serveGovernance ::
  "'w pageClient \<Rightarrow> adminLib \<Rightarrow> governanceDashboard \<Rightarrow> governanceHandler \<Rightarrow> dashRequest \<Rightarrow> 'w \<Rightarrow> response \<times> 'w" where
  "serveGovernance c lib g AccessPage r = accessPage c g r"
| "serveGovernance c lib g CreateAccessRequest r = createAccessRequest (pcGov c) (alGov lib) g r"
| "serveGovernance c lib g AdminPage r = adminPage c g r"
| "serveGovernance c lib g CreateCapabilityBundle r = createCapabilityBundle (pcAdmin c) lib g r"
| "serveGovernance c lib g SimulateCapabilityBundle r = simulateCapabilityBundle (pcAdmin c) g r"
| "serveGovernance c lib g CreateSandboxTemplate r = createSandboxTemplate (pcAdmin c) lib g r"
| "serveGovernance c lib g CreateTenantPolicy r = createTenantPolicy (pcAdmin c) lib g r"
| "serveGovernance c lib g (ApproveAccessRequest name) r = approveAccessRequest (pcGov c) (alGov lib) g r name"
| "serveGovernance c lib g (DenyAccessRequest name) r = denyAccessRequest (pcGov c) (alGov lib) g r name"

subsection \<open>Who reaches a handler\<close>

definition administratorOnly :: "governanceHandler \<Rightarrow> bool" where
  "administratorOnly h \<longleftrightarrow> h \<noteq> AccessPage \<and> h \<noteq> CreateAccessRequest"

lemma finishw_exit: "m w = (Inl s, w1) \<Longrightarrow> finishw (bindw m f) w = (s, w1)"
  by (simp add: finishw_def bindw_def)

lemma prepare_exit:
  assumes "requireAdmin g r = Inl s"
  shows "prepareApproval c lib g r name w = (Inl s, w)" "prepareDenial c lib g r name w = (Inl s, w)"
    "prepareBundle ac al g r w = (Inl s, w)" "prepareTemplate ac al g r w = (Inl s, w)" "preparePolicy ac al g r w = (Inl s, w)"
  using assms
  by (simp_all add: prepareApproval_def prepareDenial_def prepareBundle_def prepareTemplate_def preparePolicy_def bindw_def)

lemma adminData_exit: "requireAdmin g r = Inl s \<Longrightarrow> adminData c g r w = (Inl s, w)"
  by (simp add: adminData_def bindw_def)

lemma admin_exit:
  assumes "requireAdmin g r = Inl s" "administratorOnly h"
  shows "serveGovernance c lib g h r w = (s, w)"
  using assms
  by (cases h) (simp_all add: administratorOnly_def adminPage_def adminData_exit simulateCapabilityBundle_def createCapabilityBundle_def createSandboxTemplate_def
      createTenantPolicy_def approveAccessRequest_def denyAccessRequest_def finishw_exit prepare_exit)

lemma requester_exit:
  assumes "governanceRequestContext r = None" "\<not> administratorOnly h"
  shows "serveGovernance c lib g h r w = (httpError ''Unauthorized'' 401, w)"
  using assms
  by (cases h) (simp_all add: administratorOnly_def accessPage_def accessData_def createAccessRequest_def prepareRequest_def finishw_exit requireRequester_def bindw_def finishw_def)

lemma registered_admin:
  assumes "RegisterRoutes verb path = Some h"
  shows "administratorOnly h \<longleftrightarrow> hasPrefix path ''/admin''"
proof -
  have "hasPrefix path ''/admin''" if "splitOn (CHR ''/'') path = [[], ''admin'', b, name, verdict]" for b name verdict
    using joinWith_splitOn [of "CHR ''/''" path] unfolding that by (auto simp: hasPrefix_def)
  then show ?thesis
    using assms by (auto simp: RegisterRoutes_def administratorOnly_def hasPrefix_def split: if_splits list.splits)
qed

text \<open>
  C20: the routes of the governance pages need a session, and those of the administration the administrator role. Whatever method and path the routes
  register, without an identity and a CSRF token in the context the answer is Unauthorized; below \<open>/admin\<close> a signed-in user without the
  administrator role is answered Forbidden. In both cases nothing at all is read or written. The routes outside \<open>/admin\<close>, which serve requesters,
  are the access page and its form.
\<close>

theorem governance_needs_sign_in:
  assumes "RegisterRoutes verb path = Some h"
  shows "(governanceRequestContext r = None \<longrightarrow> serveGovernance c lib g h r w = (httpError ''Unauthorized'' 401, w)) \<and>
   (governanceRequestContext r = Some (identity, csrf) \<and> gdAdminRole g \<notin> set (aiRoles identity) \<and> hasPrefix path ''/admin'' \<longrightarrow>
      serveGovernance c lib g h r w = (httpError ''Forbidden'' 403, w)) \<and>
   (\<not> hasPrefix path ''/admin'' \<longrightarrow> (path, h) \<in> {(''/access'', AccessPage), (''/access/requests'', CreateAccessRequest)})"
proof (intro conjI impI)
  assume none: "governanceRequestContext r = None"
  then have "requireAdmin g r = Inl (httpError ''Unauthorized'' 401)" by (simp add: requireAdmin_def)
  with none show "serveGovernance c lib g h r w = (httpError ''Unauthorized'' 401, w)"
    by (cases "administratorOnly h") (simp_all add: admin_exit requester_exit)
next
  assume "governanceRequestContext r = Some (identity, csrf) \<and> gdAdminRole g \<notin> set (aiRoles identity) \<and> hasPrefix path ''/admin''"
  then show "serveGovernance c lib g h r w = (httpError ''Forbidden'' 403, w)"
    using registered_admin [OF assms] by (intro admin_exit) (simp_all add: requireAdmin_def)
next
  assume "\<not> hasPrefix path ''/admin''"
  with registered_admin [OF assms] assms
  show "(path, h) \<in> {(''/access'', AccessPage), (''/access/requests'', CreateAccessRequest)}"
    by (auto simp: RegisterRoutes_def administratorOnly_def split: if_splits list.splits)
qed

subsection \<open>What the tables hold\<close>

lemma listItems_Inr [flow_simps]:
  "listItems list decode w = (Inr vs, w') \<longleftrightarrow> (\<exists>items. list w = (Inr items, w') \<and> map decode items = map Inr vs)"
  by (auto simp: listItems_def flow_simps decodeItems_Inr)

lemma orInternal_Inr [flow_simps]: "orInternal m w = (Inr v, w') \<longleftrightarrow> m w = (Inr v, w')"
  by (simp add: orInternal_def flow_simps)

text \<open>
  What a table should hold, over the objects that were read and in terms of a look up by name that does not use the maps of the code: of objects with one
  name the last one counts.
\<close>

definition readAll :: "('w, unstructured list) call \<Rightarrow> (unstructured \<Rightarrow> go_error + 'b) \<Rightarrow> 'w \<Rightarrow> 'b list \<Rightarrow> 'w \<Rightarrow> bool" where
  "readAll list decode w xs w' \<longleftrightarrow> (\<exists>items. list w = (Inr items, w') \<and> map decode items = map Inr xs)"

definition namedLast :: "string \<Rightarrow> 'a object_meta_scheme list \<Rightarrow> 'a object_meta_scheme option" where
  "namedLast n xs = List.find (\<lambda>x. metaName x = n) (rev xs)"

definition bundleTenant :: "CapabilityBundle list \<Rightarrow> string \<Rightarrow> string" where
  "bundleTenant bs n =
     (case namedLast n bs of
        None \<Rightarrow> []
      | Some b \<Rightarrow> (case cbsGovernance (cbSpec b) of None \<Rightarrow> [] | Some boundary \<Rightarrow> trimSpace (gbLogicalTenant boundary)))"

definition assignmentTenant :: "CapabilityBundle list \<Rightarrow> SandboxAssignment \<Rightarrow> string" where
  "assignmentTenant bs a =
     (if trimSpace (saLogicalTenant (sasSpec a)) \<noteq> [] then trimSpace (saLogicalTenant (sasSpec a))
      else bundleTenant bs (cbrName (saCapabilityBundleRef (sasSpec a))))"

definition namedTenant :: "SandboxAssignment list \<Rightarrow> CapabilityBundle list \<Rightarrow> string \<Rightarrow> string" where
  "namedTenant as bs n = (case namedLast n as of None \<Rightarrow> [] | Some a \<Rightarrow> assignmentTenant bs a)"

definition requestTenant :: "SandboxAssignment list \<Rightarrow> CapabilityBundle list \<Rightarrow> SandboxAccessRequest \<Rightarrow> string" where
  "requestTenant as bs q =
     (if trimSpace (giLogicalTenant (rsRequester (sarSpec q))) \<noteq> [] then trimSpace (giLogicalTenant (rsRequester (sarSpec q)))
      else namedTenant as bs (arName (rsAssignmentRef (sarSpec q))))"

definition eventTenant :: "SandboxAssignment list \<Rightarrow> CapabilityBundle list \<Rightarrow> AssignmentReference \<Rightarrow> string \<Rightarrow> string" where
  "eventTenant as bs ref bundleName =
     (if namedTenant as bs (arName ref) \<noteq> [] then namedTenant as bs (arName ref) else bundleTenant bs bundleName)"

lemma find_append: "List.find P (xs @ ys) = (case List.find P xs of None \<Rightarrow> List.find P ys | Some x \<Rightarrow> Some x)"
  by (induction xs) auto

lemma byName_snoc: "byName (xs @ [x]) = AList.update (metaName x) x (byName xs)"
  by (simp add: byName_def)

lemma map_of_byName: "map_of (byName xs) n = namedLast n xs"
proof (induction xs rule: rev_induct)
  case (snoc x xs)
  then show ?case by (simp add: byName_snoc update_conv' namedLast_def find_append)
qed (simp add: byName_def namedLast_def)

lemma distinct_byName: "distinct (map fst (byName xs))"
  by (induction xs rule: rev_induct) (simp_all add: byName_snoc distinct_update, simp add: byName_def)

lemma namedLast_name: "namedLast n xs = Some x \<Longrightarrow> metaName x = n"
  by (auto simp: namedLast_def find_Some_iff)

lemma byName_values: "(n, x) \<in> set (byName xs) \<longleftrightarrow> n = metaName x \<and> namedLast (metaName x) xs = Some x"
  using map_of_eq_Some_iff [OF distinct_byName, of xs n x] namedLast_name [of n xs x] by (auto simp: map_of_byName)

lemma tenant_lookup:
  "bundleObjectTenant (map_of (byName bs) n) = bundleTenant bs n"
  "assignmentLogicalTenant (Some a) (byName bs) = assignmentTenant bs a"
  "assignmentLogicalTenant (map_of (byName as) n) (byName bs) = namedTenant as bs n"
  "requestLogicalTenant q (byName as) (byName bs) = requestTenant as bs q"
  "credentialEventLogicalTenant e (byName as) (byName bs) = eventTenant as bs (ceAssignmentRef (sceSpec e)) (ceCapabilityBundleName (sceSpec e))"
  "validationRunLogicalTenant v (byName as) (byName bs) = eventTenant as bs (vsAssignmentRef (svrSpec v)) (vsCapabilityBundleName (svrSpec v))"
  by (auto simp: bundleObjectTenant_def bundleTenant_def assignmentLogicalTenant_def assignmentTenant_def namedTenant_def requestLogicalTenant_def
      requestTenant_def credentialEventLogicalTenant_def validationRunLogicalTenant_def eventLogicalTenant_def eventTenant_def map_of_byName Let_def
      split: option.splits)

text \<open>The newest hundred, newest first; elements of the same time may come in any order.\<close>

definition newestOf :: "('a \<Rightarrow> time) \<Rightarrow> 'a list \<Rightarrow> 'a list \<Rightarrow> bool" where
  "newestOf t xs shown \<longleftrightarrow>
     (\<exists>rest. mset xs = mset shown + mset rest \<and> length shown = min 100 (length xs) \<and> sorted (map (\<lambda>x. - t x) shown) \<and>
        (\<forall>s \<in> set shown. \<forall>x \<in> set rest. t x \<le> t s))"

lemma newest_newestOf: "newestOf t xs (newest t xs)"
proof -
  let ?s = "sort_key (\<lambda>x. - t x) xs"
  have "mset (take 100 ?s) + mset (drop 100 ?s) = mset ?s" by (metis append_take_drop_id mset_append)
  moreover have "sorted (map (\<lambda>x. - t x) (take 100 ?s @ drop 100 ?s))" by simp
  then have "sorted (map (\<lambda>x. - t x) (take 100 ?s)) \<and> (\<forall>a \<in> set (take 100 ?s). \<forall>b \<in> set (drop 100 ?s). t b \<le> t a)"
    unfolding map_append sorted_append by auto
  ultimately show ?thesis unfolding newestOf_def newest_def by (intro exI [of _ "drop 100 ?s"]) (simp add: min.commute)
qed

subsection \<open>What the tables should hold\<close>

text \<open>One relation per table: the rows, and the reads that lead from one state to the next.\<close>

definition templateTable :: "'w pageClient \<Rightarrow> string list \<Rightarrow> 'w \<Rightarrow> templatePageRow list \<Rightarrow> 'w \<Rightarrow> bool" where
  "templateTable c ts w rows w' \<longleftrightarrow>
     (\<exists>items bs w1. pcListTemplates c w = (Inr items, w1) \<and> readAll (pcListBundles c) (pcToBundle c) w1 bs w' \<and>
        rows = map templateRow (filter (\<lambda>item. bundleTenant bs (strAt (uSpec item) [''capabilityBundleRef'', ''name'']) \<in> set ts) items))"

definition requestTable :: "'w pageClient \<Rightarrow> governanceDashboard \<Rightarrow> string list \<Rightarrow> 'w \<Rightarrow> requestPageRow list \<Rightarrow> 'w \<Rightarrow> bool" where
  "requestTable c g ts w rows w' \<longleftrightarrow>
     (\<exists>qs as bs w1 w2 shown. readAll (gcListRequests (pcGov c)) (gcToRequest (pcGov c)) w qs w1 \<and>
        readAll (dcListAssignments (pcDash c)) (dcToAssignment (pcDash c)) w1 as w2 \<and> readAll (pcListBundles c) (pcToBundle c) w2 bs w' \<and>
        rows = map (requestRow g) shown \<and> mset shown = mset (filter (\<lambda>q. requestTenant as bs q \<in> set ts) qs) \<and>
        sorted (map (\<lambda>q. - metaCreationTimestamp q) shown))"

definition assignmentTable :: "'w pageClient \<Rightarrow> string list \<Rightarrow> 'w \<Rightarrow> assignmentPageRow list \<Rightarrow> 'w \<Rightarrow> bool" where
  "assignmentTable c ts w rows w' \<longleftrightarrow>
     (\<exists>as bs w1 shown. readAll (dcListAssignments (pcDash c)) (dcToAssignment (pcDash c)) w as w1 \<and> readAll (pcListBundles c) (pcToBundle c) w1 bs w' \<and>
        rows = map (assignmentRow (byName bs)) shown \<and> mset shown = mset (filter (\<lambda>a. assignmentTenant bs a \<in> set ts) as) \<and>
        sorted (map metaName shown))"

definition bundleTable :: "'w pageClient \<Rightarrow> string list \<Rightarrow> 'w \<Rightarrow> bundlePageRow list \<Rightarrow> 'w \<Rightarrow> bool" where
  "bundleTable c ts w rows w' \<longleftrightarrow>
     (\<exists>bs shown. readAll (pcListBundles c) (pcToBundle c) w bs w' \<and> rows = map bundleRow shown \<and>
        set shown = {b. namedLast (metaName b) bs = Some b \<and> bundleTenant bs (metaName b) \<in> set ts} \<and>
        distinct (map metaName shown) \<and> sorted (map metaName shown))"

definition eventTable :: "'w pageClient \<Rightarrow> bool \<Rightarrow> string list \<Rightarrow> 'w \<Rightarrow> eventPageRow list \<Rightarrow> 'w \<Rightarrow> bool" where
  "eventTable c deniedOnly ts w rows w' \<longleftrightarrow>
     (\<exists>es shown. readAll (gcListEvents (pcGov c)) (gcToEvent (pcGov c)) w es w' \<and> rows = map eventRow shown \<and>
        newestOf (\<lambda>e. esTimestamp (seeSpec e))
          (filter (\<lambda>e. esLogicalTenant (seeSpec e) \<in> set ts \<and>
             (deniedOnly \<longrightarrow> \<not> esAllowed (seeSpec e) \<and> esDecisionSource (seeSpec e) = DecisionSourceDeny)) es) shown)"

definition credentialTable :: "'w pageClient \<Rightarrow> string list \<Rightarrow> 'w \<Rightarrow> credentialPageRow list \<Rightarrow> 'w \<Rightarrow> bool" where
  "credentialTable c ts w rows w' \<longleftrightarrow>
     (\<exists>es as bs w1 w2 shown. readAll (pcListCredentials c) (pcToCredential c) w es w1 \<and>
        readAll (dcListAssignments (pcDash c)) (dcToAssignment (pcDash c)) w1 as w2 \<and> readAll (pcListBundles c) (pcToBundle c) w2 bs w' \<and>
        rows = map credentialRow shown \<and>
        newestOf (\<lambda>e. ceTimestamp (sceSpec e))
          (filter (\<lambda>e. eventTenant as bs (ceAssignmentRef (sceSpec e)) (ceCapabilityBundleName (sceSpec e)) \<in> set ts) es) shown)"

definition validationTable :: "'w pageClient \<Rightarrow> string list \<Rightarrow> 'w \<Rightarrow> validationPageRow list \<Rightarrow> 'w \<Rightarrow> bool" where
  "validationTable c ts w rows w' \<longleftrightarrow>
     (\<exists>vs as bs w1 w2 shown. readAll (pcListValidations c) (pcToValidation c) w vs w1 \<and>
        readAll (dcListAssignments (pcDash c)) (dcToAssignment (pcDash c)) w1 as w2 \<and> readAll (pcListBundles c) (pcToBundle c) w2 bs w' \<and>
        rows = map validationRow shown \<and>
        newestOf (\<lambda>v. vsStartedAt (svrSpec v))
          (filter (\<lambda>v. eventTenant as bs (vsAssignmentRef (svrSpec v)) (vsCapabilityBundleName (svrSpec v)) \<in> set ts) vs) shown)"

definition policyTable :: "'w pageClient \<Rightarrow> string list \<Rightarrow> 'w \<Rightarrow> tenantPolicyPageRow list \<Rightarrow> 'w \<Rightarrow> bool" where
  "policyTable c ts w rows w' \<longleftrightarrow>
     (\<exists>ps shown. readAll (gcListPolicies (pcGov c)) (gcToPolicy (pcGov c)) w ps w' \<and> rows = map tenantPolicyRow shown \<and>
        mset shown = mset (filter (\<lambda>p. tpLogicalTenant (stpSpec p) \<in> set ts) ps) \<and> sorted (map metaName shown))"

text \<open>The tables of the administration page, each read after the one before.\<close>

definition adminTables :: "'w pageClient \<Rightarrow> governanceDashboard \<Rightarrow> string list \<Rightarrow> 'w \<Rightarrow> adminPageData \<Rightarrow> 'w \<Rightarrow> bool" where
  "adminTables c g ts w d w' \<longleftrightarrow>
     (\<exists>w1 w2 w3 w4 w5 w6 w7. templateTable c ts w (apTemplates d) w1 \<and> requestTable c g ts w1 (apRequests d) w2 \<and>
        assignmentTable c ts w2 (apAssignments d) w3 \<and> bundleTable c ts w3 (apBundles d) w4 \<and> eventTable c False ts w4 (apEvents d) w5 \<and>
        credentialTable c ts w5 (apCredentials d) w6 \<and> validationTable c ts w6 (apValidations d) w7 \<and>
        policyTable c ts w7 (apTenantPolicies d) w')"

subsection \<open>The code fills the tables\<close>

lemma mapped_insort: "(\<And>x. key (row x) = name x) \<Longrightarrow> insort_key key (row x) (map row xs) = map row (insort_key name x xs)"
  by (induction xs) auto

lemma mapped_sort: "(\<And>x. key (row x) = name x) \<Longrightarrow> sort_key key (map row xs) = map row (sort_key name xs)"
  by (induction xs) (simp_all add: mapped_insort)

lemma maps_Inr [flow_simps]:
  "assignmentMap c w = (Inr m, w') \<longleftrightarrow> (\<exists>as. readAll (dcListAssignments (pcDash c)) (dcToAssignment (pcDash c)) w as w' \<and> m = byName as)"
  "bundleMap c w = (Inr m', w') \<longleftrightarrow> (\<exists>bs. readAll (pcListBundles c) (pcToBundle c) w bs w' \<and> m' = byName bs)"
  by (auto simp: assignmentMap_def bundleMap_def readAll_def flow_simps)

lemma tenantMaps_Inr:
  "tenantMaps c (Some ts) w = (Inr (m, m'), w') \<longleftrightarrow>
     (\<exists>as bs w1. readAll (dcListAssignments (pcDash c)) (dcToAssignment (pcDash c)) w as w1 \<and> readAll (pcListBundles c) (pcToBundle c) w1 bs w' \<and>
        m = byName as \<and> m' = byName bs)"
  by (auto simp: tenantMaps_def flow_simps)

lemma templateRows_table: "templateRows c (Some ts) w = (Inr rows, w') \<Longrightarrow> templateTable c ts w rows w'"
  by (auto simp: templateRows_def templateTable_def flow_simps tenantAllowed_def tenant_lookup)

lemma requestRows_table:
  assumes "requestRows c g (Some ts) w = (Inr rows, w')"
  shows "requestTable c g ts w rows w'"
proof -
  from assms obtain qs as bs w1 w2 where "readAll (gcListRequests (pcGov c)) (gcToRequest (pcGov c)) w qs w1"
    "readAll (dcListAssignments (pcDash c)) (dcToAssignment (pcDash c)) w1 as w2" "readAll (pcListBundles c) (pcToBundle c) w2 bs w'"
    "rows = map (requestRow g) (filter (\<lambda>q. requestTenant as bs q \<in> set ts) (sort_key (\<lambda>q. - metaCreationTimestamp q) qs))"
    by (fastforce simp: requestRows_def readAll_def [of "gcListRequests (pcGov c)"] flow_simps tenantMaps_Inr decodeItems_Inr tenantAllowed_def tenant_lookup)
  then show ?thesis
    unfolding requestTable_def
    by (intro exI [of _ qs] exI [of _ as] exI [of _ bs] exI [of _ w1] exI [of _ w2] exI
        [of _ "filter (\<lambda>q. requestTenant as bs q \<in> set ts) (sort_key (\<lambda>q. - metaCreationTimestamp q) qs)"])
      (auto simp: mset_filter sorted_filter)
qed

lemma assignmentRows_table:
  assumes "assignmentRows c (Some ts) w = (Inr rows, w')"
  shows "assignmentTable c ts w rows w'"
proof -
  from assms obtain as bs w1 where run: "readAll (dcListAssignments (pcDash c)) (dcToAssignment (pcDash c)) w as w1"
    "readAll (pcListBundles c) (pcToBundle c) w1 bs w'"
    "rows = sort_key arRowName (filter (\<lambda>row. arLogicalTenant row \<in> set ts) (map (assignmentRow (byName bs)) as))"
    by (fastforce simp: assignmentRows_def readAll_def [of "dcListAssignments (pcDash c)"] flow_simps decodeItems_Inr tenantAllowed_def)
  have "arLogicalTenant (assignmentRow (byName bs) a) = assignmentTenant bs a" "arRowName (assignmentRow (byName bs) a) = metaName a" for a
    by (simp_all add: assignmentRow_def Let_def tenant_lookup)
  then have "rows = map (assignmentRow (byName bs)) (sort_key metaName (filter (\<lambda>a. assignmentTenant bs a \<in> set ts) as))"
    by (simp add: run(3) filter_map o_def mapped_sort)
  with run show ?thesis unfolding assignmentTable_def by (metis mset_sort sorted_sort_key)
qed

lemma bundleRows_table:
  assumes "bundleRows c (Some ts) w = (Inr rows, w')"
  shows "bundleTable c ts w rows w'"
proof -
  from assms obtain bs where run: "readAll (pcListBundles c) (pcToBundle c) w bs w'"
    "rows = sort_key brName (map bundleRow (filter (\<lambda>b. bundleObjectTenant (Some b) \<in> set ts) (map snd (byName bs))))"
    by (auto simp: bundleRows_def flow_simps tenantAllowed_def)
  let ?shown = "sort_key metaName (filter (\<lambda>b. bundleObjectTenant (Some b) \<in> set ts) (map snd (byName bs)))"
  have "brName (bundleRow b) = metaName b" for b by (simp add: bundleRow_def Let_def)
  then have rows: "rows = map bundleRow ?shown" by (simp add: run(2) mapped_sort)
  have names: "map fst (byName bs) = map metaName (map snd (byName bs))"
    by (auto simp: byName_values)
  have "bundleObjectTenant (Some b) = bundleTenant bs (metaName b)" if "namedLast (metaName b) bs = Some b" for b
    using that by (simp add: bundleTenant_def bundleObjectTenant_def)
  moreover have "set (map snd (byName bs)) = {b. namedLast (metaName b) bs = Some b}"
    using byName_values [of _ _ bs] by (auto intro!: image_eqI [of _ snd "(metaName x, x)" for x])
  ultimately have "set ?shown = {b. namedLast (metaName b) bs = Some b \<and> bundleTenant bs (metaName b) \<in> set ts}"
    by auto
  moreover have "distinct (map metaName ?shown)"
    using distinct_byName [of bs] unfolding names by (auto simp: distinct_map inj_on_def)
  moreover have "sorted (map metaName ?shown)" by simp
  ultimately show ?thesis unfolding bundleTable_def using run(1) rows by blast
qed

lemma eventRows_table:
  assumes "eventRows c deniedOnly (Some ts) w = (Inr rows, w')"
  shows "eventTable c deniedOnly ts w rows w'"
proof -
  from assms obtain es where "readAll (gcListEvents (pcGov c)) (gcToEvent (pcGov c)) w es w'"
    "rows = map eventRow (newest (\<lambda>e. esTimestamp (seeSpec e)) (filter (\<lambda>e. esLogicalTenant (seeSpec e) \<in> set ts \<and>
       (deniedOnly \<longrightarrow> \<not> esAllowed (seeSpec e) \<and> esDecisionSource (seeSpec e) = DecisionSourceDeny)) es))"
    by (auto simp: eventRows_def readAll_def flow_simps tenantAllowed_def deniedEgress_def conj_commute)
  with newest_newestOf show ?thesis unfolding eventTable_def by blast
qed

lemma credentialRows_table:
  assumes "credentialRows c (Some ts) w = (Inr rows, w')"
  shows "credentialTable c ts w rows w'"
proof -
  from assms obtain es as bs w1 w2 where "readAll (pcListCredentials c) (pcToCredential c) w es w1"
    "readAll (dcListAssignments (pcDash c)) (dcToAssignment (pcDash c)) w1 as w2" "readAll (pcListBundles c) (pcToBundle c) w2 bs w'"
    "rows = map credentialRow (newest (\<lambda>e. ceTimestamp (sceSpec e))
       (filter (\<lambda>e. eventTenant as bs (ceAssignmentRef (sceSpec e)) (ceCapabilityBundleName (sceSpec e)) \<in> set ts) es))"
    by (fastforce simp: credentialRows_def readAll_def [of "pcListCredentials c"] flow_simps tenantMaps_Inr decodeItems_Inr tenantAllowed_def tenant_lookup)
  with newest_newestOf show ?thesis unfolding credentialTable_def by blast
qed

lemma validationRows_table:
  assumes "validationRows c (Some ts) w = (Inr rows, w')"
  shows "validationTable c ts w rows w'"
proof -
  from assms obtain vs as bs w1 w2 where "readAll (pcListValidations c) (pcToValidation c) w vs w1"
    "readAll (dcListAssignments (pcDash c)) (dcToAssignment (pcDash c)) w1 as w2" "readAll (pcListBundles c) (pcToBundle c) w2 bs w'"
    "rows = map validationRow (newest (\<lambda>v. vsStartedAt (svrSpec v))
       (filter (\<lambda>v. eventTenant as bs (vsAssignmentRef (svrSpec v)) (vsCapabilityBundleName (svrSpec v)) \<in> set ts) vs))"
    by (fastforce simp: validationRows_def readAll_def [of "pcListValidations c"] flow_simps tenantMaps_Inr decodeItems_Inr tenantAllowed_def tenant_lookup)
  with newest_newestOf show ?thesis unfolding validationTable_def by blast
qed

lemma tenantPolicyRows_table:
  assumes "tenantPolicyRows c (Some ts) w = (Inr rows, w')"
  shows "policyTable c ts w rows w'"
proof -
  from assms obtain ps where run: "readAll (gcListPolicies (pcGov c)) (gcToPolicy (pcGov c)) w ps w'"
    "rows = sort_key prName (map tenantPolicyRow (filter (\<lambda>p. tpLogicalTenant (stpSpec p) \<in> set ts) ps))"
    by (auto simp: tenantPolicyRows_def readAll_def flow_simps tenantAllowed_def)
  have "prName (tenantPolicyRow p) = metaName p" for p by (simp add: tenantPolicyRow_def Let_def)
  then have "rows = map tenantPolicyRow (sort_key metaName (filter (\<lambda>p. tpLogicalTenant (stpSpec p) \<in> set ts) ps))"
    by (simp add: run(2) mapped_sort)
  with run(1) show ?thesis unfolding policyTable_def by (metis mset_sort sorted_sort_key)
qed

lemma requireAdminScope_Inr:
  "requireAdminScope c identity w = (Inr scope, w') \<longleftrightarrow> (\<exists>spec. boundPrincipal c identity w spec w' \<and> scope = pbAdminTenants spec \<and> scope \<noteq> [])"
proof -
  have "requireAdminScope c identity w = (Inr scope, w') \<longleftrightarrow>
      (\<exists>scopes. principalScopes c identity w = (Inr scopes, w') \<and> psAdmin scopes = Some scope \<and> scope \<noteq> [])"
    unfolding requireAdminScope_def bindw_def caught_def
    by (auto split: option.splits sum.splits list.splits prod.splits)
  then show ?thesis by (auto simp: principalScopes_Inr)
qed

lemma adminData_tables:
  assumes "adminData c g r w = (Inr d, w')"
  shows "\<exists>identity csrf spec w1. governanceRequestContext r = Some (identity, csrf) \<and> gdAdminRole g \<in> set (aiRoles identity) \<and>
    boundPrincipal (pcGov c) identity w spec w1 \<and> pbAdminTenants spec \<noteq> [] \<and> adminTables c g (pbAdminTenants spec) w1 d w'"
  using assms unfolding adminTables_def
  by (clarsimp simp: adminData_def Let_def flow_simps requireAdmin_Inr requireAdminScope_Inr)
    (blast dest: templateRows_table requestRows_table assignmentRows_table bundleRows_table eventRows_table credentialRows_table
      validationRows_table tenantPolicyRows_table)

lemma page_steps_refuse [refuses_intros]: "refuses (orInternal m)" "refuses (requireAdminScope c identity)"
  by (auto simp: orInternal_def requireAdminScope_def forbidden_def split: option.splits sum.splits list.splits intro!: refuses_intros)

lemma data_refuses: "refuses (adminData c g r)" "refuses (accessData c g r)"
  by (auto simp: adminData_def accessData_def Let_def intro!: refuses_intros dest: refusal_status)

lemma page_eq:
  assumes "refuses m"
  shows "finishw (bindw m (\<lambda>d. retw (pageResponse (render d)))) w = (resp, w') \<longleftrightarrow>
    m w = (Inl resp, w') \<and> 400 \<le> rspStatus resp \<or> (\<exists>d. m w = (Inr d, w') \<and> resp = pageResponse (render d))"
  using assms by (auto simp: flow_simps refuses_def)

text \<open>
  C21: each table of the administration page holds exactly the rows of the tenants that the signed-in administrator administers. A page that is not an error was
  rendered from data read after the one binding of the administrator was found. Its tables, read one after the other, hold all objects and no
  others whose tenant is administered, in their order: templates by the tenant of the bundle they name, access requests by that of the requester, else of the assignment they
  name, assignments by their own tenant, else that of their bundle, bundles and tenant policies by their own; of egress events, credential events
  and validation runs the newest hundred in scope. A name refers to the last object of this name in the list that was read for the table.
\<close>

theorem admin_page_scoped:
  assumes "adminPage c g r w = (resp, w')" and "rspStatus resp < 400"
  shows "\<exists>identity csrf spec w1 d. governanceRequestContext r = Some (identity, csrf) \<and> gdAdminRole g \<in> set (aiRoles identity) \<and>
    boundPrincipal (pcGov c) identity w spec w1 \<and> pbAdminTenants spec \<noteq> [] \<and> adminTables c g (pbAdminTenants spec) w1 d w' \<and>
    resp = pageResponse (pcRenderAdmin c d)"
proof -
  from assms obtain d where "adminData c g r w = (Inr d, w')" "resp = pageResponse (pcRenderAdmin c d)"
    unfolding adminPage_def page_eq [OF data_refuses(1)] by auto
  with adminData_tables [OF this(1)] show ?thesis by metis
qed

text \<open>
  the access page shows a requester the newest hundred egress events that were denied in its tenants, and the assignments of these
  tenants, and nothing else.
\<close>

theorem access_page_scoped:
  assumes "accessPage c g r w = (resp, w')" and "rspStatus resp < 400"
  shows "\<exists>identity csrf spec d w1 w2. governanceRequestContext r = Some (identity, csrf) \<and> boundPrincipal (pcGov c) identity w spec w1 \<and>
    assignmentTable c (pbRequesterTenants spec) w1 (xpAssignments d) w2 \<and> eventTable c True (pbRequesterTenants spec) w2 (xpDeniedEvents d) w' \<and>
    resp = pageResponse (pcRenderAccess c d)"
proof -
  from assms obtain d where d: "accessData c g r w = (Inr d, w')" "resp = pageResponse (pcRenderAccess c d)"
    unfolding accessPage_def page_eq [OF data_refuses(2)] by auto
  from d(1) obtain identity csrf spec w1 w2 where "governanceRequestContext r = Some (identity, csrf)" "boundPrincipal (pcGov c) identity w spec w1"
    "assignmentRows c (Some (pbRequesterTenants spec)) w1 = (Inr (xpAssignments d), w2)"
    "eventRows c True (Some (pbRequesterTenants spec)) w2 = (Inr (xpDeniedEvents d), w')"
    by (clarsimp simp: accessData_def flow_simps requireRequester_Inr)
  with d(2) show ?thesis using assignmentRows_table eventRows_table by metis
qed

subsection \<open>An example\<close>

definition pxBundle :: CapabilityBundle where
  "pxBundle = object_meta.extend (emptyMeta\<lparr>metaName := ''b1''\<rparr>) \<lparr>cbSpec = \<lparr>cbsEgress = None, cbsHarness = None,
     cbsGovernance = Some \<lparr>gbLogicalTenant = ''blue'', gbTeam = ''core'', gbPermissionLevel = ''reader'', gbDisplayName = ''Blue''\<rparr>\<rparr>\<rparr>"

definition pxClient :: "time pageClient" where
  "pxClient = \<lparr>pcAdmin = axClient\<lparr>acGov := gxClient\<lparr>gcListRequests := okw []\<rparr>\<rparr>, pcListTemplates = okw [], pcListBundles = okw [gxObject], pcToBundle = (\<lambda>_. Inr pxBundle), pcListCredentials = okw [],
     pcToCredential = (\<lambda>_. Inl (ErrNew ''unused'')), pcListValidations = okw [], pcToValidation = (\<lambda>_. Inl (ErrNew ''unused'')),
     pcRenderAccess = (\<lambda>d. concat (map erName (xpDeniedEvents d))), pcRenderAdmin = (\<lambda>d. concat (map brName (apBundles d)))\<rparr>"

definition pxGet :: "string list \<Rightarrow> dashRequest" where
  "pxGet roles = (gxPost [])\<lparr>rqMethod := ''GET'', dqIdentity := Some (sxIdentity\<lparr>aiRoles := roles\<rparr>)\<rparr>"

lemmas px_defs = pxClient_def axClient_def gxClient_def

lemma px_rows:
  "templateRows pxClient (Some ts) t = (Inr [], t)" "requestRows pxClient gxDashboard (Some ts) t = (Inr [], t)"
  "assignmentRows pxClient (Some ts) t = (Inr [], t)" "credentialRows pxClient (Some ts) t = (Inr [], t)"
  "validationRows pxClient (Some ts) t = (Inr [], t)"
  "eventRows pxClient b (Some [''blue'']) t = (Inr [eventRow gxEvent], t)"
  "tenantPolicyRows pxClient (Some [''blue'']) t = (Inr [tenantPolicyRow gxPolicy], t)"
  by (simp_all add: templateRows_def requestRows_def assignmentRows_def credentialRows_def validationRows_def eventRows_def tenantPolicyRows_def
      tenantMaps_def assignmentMap_def bundleMap_def listItems_def px_defs bindw_def newest_def deniedEgress_def tenantAllowed_def gxEvent_def gxPolicy_def
      object_meta.extend_def)

lemma px_bundles: "bundleRows pxClient (Some [''blue'']) t = (Inr [bundleRow pxBundle], t)"
proof -
  have "bundleObjectTenant (Some pxBundle) = ''blue''" by code_simp
  then show ?thesis
    by (simp add: bundleRows_def bundleMap_def listItems_def byName_def px_defs bindw_def tenantAllowed_def)
qed

lemma px_principal: "principalScopes (pcGov pxClient) (sxIdentity\<lparr>aiRoles := roles\<rparr>) t = (Inr \<lparr>psRequester = Some [''blue''], psAdmin = Some [''blue'']\<rparr>, t)"
  by (simp add: principalScopes_def loadPrincipalScopes_def principalMatches_def px_defs gxBinding_def sxIdentity_def object_meta.extend_def emptyMeta_def
      bindw_def tryw_def)

lemma px_context: "governanceRequestContext (pxGet roles) = Some (sxIdentity\<lparr>aiRoles := roles\<rparr>, ''t'')"
  by (simp add: governanceRequestContext_def pxGet_def gxPost_def authenticatedIdentityFromContext_def csrfTokenFromContext_def sxIdentity_def)

lemma px_role: "gdAdminRole gxDashboard = ''OpenSandbox.Admin''"
  by (simp add: gxDashboard_def)

lemmas px_run = px_role px_rows px_bundles px_principal px_context bindw_def caught_def orInternal_def tryw_def Let_def finishw_def

lemma px_bound: "boundPrincipal (pcGov pxClient) (sxIdentity\<lparr>aiRoles := roles\<rparr>) t spec w1 \<Longrightarrow>
  pbAdminTenants spec = [''blue''] \<and> pbRequesterTenants spec = [''blue''] \<and> w1 = t"
  using principalScopes_Inr [of "pcGov pxClient" "sxIdentity\<lparr>aiRoles := roles\<rparr>" t
      "\<lparr>psRequester = Some (pbRequesterTenants spec), psAdmin = Some (pbAdminTenants spec)\<rparr>" w1] by (auto simp: px_principal)

lemma page_render: "pageResponse (pcRenderAdmin pxClient d) = pageResponse (pcRenderAdmin pxClient e) \<Longrightarrow>
  concat (map brName (apBundles d)) = concat (map brName (apBundles e))"
  by (drule arg_cong [of _ _ rspBody]) (simp add: pageResponse_def setPageHeaders_def withHeaders_def pxClient_def)

theorem admin_page_scoped_witness:
  "\<exists>resp d. adminPage pxClient gxDashboard (pxGet [''OpenSandbox.Admin'']) 0 = (resp, 0) \<and> rspStatus resp < 400 \<and>
     resp = pageResponse (pcRenderAdmin pxClient d) \<and> adminTables pxClient gxDashboard [''blue''] 0 d 0 \<and> concat (map brName (apBundles d)) = ''b1''"
proof -
  obtain d where d: "adminPage pxClient gxDashboard (pxGet [''OpenSandbox.Admin'']) 0 = (pageResponse (pcRenderAdmin pxClient d), 0)"
      "apBundles d = [bundleRow pxBundle]"
    by (simp add: adminPage_def adminData_def requireAdmin_def requireAdminScope_def px_run)
  have ok: "rspStatus (pageResponse (pcRenderAdmin pxClient d)) < 400" by (simp add: pageResponse_def setPageHeaders_def)
  from admin_page_scoped [OF d(1) ok] obtain identity csrf spec w1 e where
    page: "governanceRequestContext (pxGet [''OpenSandbox.Admin'']) = Some (identity, csrf)" "boundPrincipal (pcGov pxClient) identity 0 spec w1"
      "adminTables pxClient gxDashboard (pbAdminTenants spec) w1 e 0"
      "pageResponse (pcRenderAdmin pxClient d) = pageResponse (pcRenderAdmin pxClient e)"
    by blast
  have "pbAdminTenants spec = [''blue''] \<and> w1 = 0"
    using px_bound [of "[''OpenSandbox.Admin'']" 0 spec w1] page(1,2) by (simp add: px_context)
  moreover have "concat (map brName (apBundles e)) = ''b1''"
    using page_render [OF page(4)] d(2) by (simp add: bundleRow_def pxBundle_def object_meta.extend_def Let_def)
  ultimately show ?thesis using d(1) ok page(3,4) by metis
qed

theorem access_page_scoped_witness:
  "\<exists>resp d. accessPage pxClient gxDashboard (pxGet []) 0 = (resp, 0) \<and> rspStatus resp < 400 \<and> resp = pageResponse (pcRenderAccess pxClient d) \<and>
     (\<exists>w. eventTable pxClient True [''blue''] w (xpDeniedEvents d) 0)"
proof -
  obtain d where d: "accessPage pxClient gxDashboard (pxGet []) 0 = (pageResponse (pcRenderAccess pxClient d), 0)"
    by (simp add: accessPage_def accessData_def requireRequester_def px_run)
  have ok: "rspStatus (pageResponse (pcRenderAccess pxClient d)) < 400" by (simp add: pageResponse_def setPageHeaders_def)
  from access_page_scoped [OF d ok] obtain identity csrf spec e w1 w2 where
    page: "governanceRequestContext (pxGet []) = Some (identity, csrf)" "boundPrincipal (pcGov pxClient) identity 0 spec w1"
      "eventTable pxClient True (pbRequesterTenants spec) w2 (xpDeniedEvents e) 0"
      "pageResponse (pcRenderAccess pxClient d) = pageResponse (pcRenderAccess pxClient e)"
    by blast
  have "pbRequesterTenants spec = [''blue'']"
    using px_bound [of "[]" 0 spec w1] page(1,2) by (simp add: px_context)
  then show ?thesis using d ok page(3,4) by metis
qed

theorem governance_needs_sign_in_witness:
  "RegisterRoutes ''GET'' ''/admin'' = Some AdminPage \<and>
   serveGovernance pxClient axLib gxDashboard AdminPage (pxGet []) 0 = (httpError ''Forbidden'' 403, 0) \<and>
   RegisterRoutes ''POST'' ''/admin/requests/q1/approve'' = Some (ApproveAccessRequest ''q1'') \<and>
   serveGovernance pxClient axLib gxDashboard (ApproveAccessRequest ''q1'') (pxGet []) 0 = (httpError ''Forbidden'' 403, 0)"
proof -
  have routes: "RegisterRoutes ''GET'' ''/admin'' = Some AdminPage"
    "RegisterRoutes ''POST'' ''/admin/requests/q1/approve'' = Some (ApproveAccessRequest ''q1'')"
    by code_simp+
  have below: "hasPrefix ''/admin'' ''/admin''" "hasPrefix ''/admin/requests/q1/approve'' ''/admin''" by code_simp+
  have role: "governanceRequestContext (pxGet []) = Some (sxIdentity\<lparr>aiRoles := []\<rparr>, ''t'') \<and>
      gdAdminRole gxDashboard \<notin> set (aiRoles (sxIdentity\<lparr>aiRoles := []\<rparr>))"
    using px_context [of "[]"] by simp
  from governance_needs_sign_in [OF routes(1), of "pxGet []" pxClient axLib gxDashboard 0 "sxIdentity\<lparr>aiRoles := []\<rparr>" "''t''"]
    governance_needs_sign_in [OF routes(2), of "pxGet []" pxClient axLib gxDashboard 0 "sxIdentity\<lparr>aiRoles := []\<rparr>" "''t''"] routes below role
  show ?thesis by blast
qed

end
