(* ===== verification/Admission.thy ===== *)
theory Admission
  imports GoTime
begin

section \<open>Tenant budgets\<close>

text \<open>
  \<open>internal/assignment/admission/admission.go\<close>. A sandbox may be created when its bundle belongs to a
  tenant with one enabled policy and the request is within that policy. The count of the running
  sandboxes is taken while a Lease of the tenant is held, so that concurrent creations are counted
  one after the other.

  \<open>admissionClient\<close> holds the calls to the API server, the clock \<open>adNow\<close>, the waiting of the retry
  loop \<open>adWait\<close> (\<open>Some e\<close> when the context is done), \<open>uuid.NewString\<close> and \<open>resource.ParseQuantity\<close>
  with its sign and comparison. The function that gives the lease back is a value of the type
  \<open>release\<close>, run by \<open>runRelease\<close>. The loop of \<open>acquireTenantLease\<close> has no bound of its own: it runs
  on fuel, \<open>None\<close> says that it is still waiting, and \<open>lease_loop_returns\<close> shows that it returns when
  the context expires.
\<close>

text \<open>
  \<open>ossandbox.CreateSandboxRequest\<close>: the fields that the program reads or writes; \<open>csRest\<close> stands for
  all others, and \<open>'sdk\<close> for the types of the SDK that the program never looks into.
\<close>

record 'sdk CreateSandboxRequest =
  csImage :: "string option"
  csSnapshotID :: string
  csTimeout :: "int option"
  csResourceLimits :: strmap
  csResourceRequests :: "strmap option"
  csEntrypoint :: "string list"
  csNetworkPolicy :: "'sdk option"
  csCredentialProxy :: "'sdk option"
  csVolumes :: "'sdk list"
  csPlatform :: "'sdk option"
  csMetadata :: "strmap option"
  csExtensions :: "strmap option"
  csRest :: 'sdk

record ('q, 'w) admissionClient =
  adAssignmentNamespace :: string
  adWorkloadNamespace :: string
  adHasKube :: bool
  adGetBundle :: "string \<Rightarrow> ('w, unstructured) call"
  adListPolicies :: "('w, unstructured list) call"
  adListBundles :: "('w, unstructured list) call"
  adListAssignments :: "('w, unstructured list) call"
  adGetLease :: "string \<Rightarrow> ('w, lease) call"
  adCreateLease :: "lease \<Rightarrow> ('w, lease) call"
  adUpdateLease :: "lease \<Rightarrow> ('w, lease) call"
  adDeleteLease :: "string \<Rightarrow> string option \<Rightarrow> ('w, unit) call"
  adNow :: "'w \<Rightarrow> time \<times> 'w"
  adNewUUID :: "'w \<Rightarrow> string \<times> 'w"
  adWait :: "'w \<Rightarrow> go_error option \<times> 'w"
  adToPolicy :: "unstructured \<Rightarrow> go_error + SandboxTenantPolicy"
  adParseQuantity :: "string \<Rightarrow> go_error + 'q"
  adSign :: "'q \<Rightarrow> int"
  adCmp :: "'q \<Rightarrow> 'q \<Rightarrow> int"

subsection \<open>Policies\<close>

definition bundleAllowed :: "SandboxTenantPolicySpec \<Rightarrow> string \<Rightarrow> bool" where
  "bundleAllowed spec name \<longleftrightarrow>
     name \<in> set (tpAllowedCapabilityBundles spec) \<or>
     list_ex (hasPrefix name) (tpAllowedCapabilityBundlePrefixes spec)"

definition policyApplies :: "string \<Rightarrow> SandboxTenantPolicy \<Rightarrow> bool" where
  "policyApplies logicalTenant p \<longleftrightarrow>
     tpEnabled (stpSpec p) \<and> tpLogicalTenant (stpSpec p) = logicalTenant \<and> metaDeletionTimestamp p = None"

text \<open>The policies of the tenant, in order; the first that does not convert ends the loop.\<close>

fun matchingPolicies ::
  "(unstructured \<Rightarrow> go_error + SandboxTenantPolicy) \<Rightarrow> string \<Rightarrow> unstructured list \<Rightarrow> go_error + SandboxTenantPolicy list" where
  "matchingPolicies toPolicy logicalTenant [] = Inr []"
| "matchingPolicies toPolicy logicalTenant (item # items) =
     (case toPolicy item of
        Inl e \<Rightarrow> Inl e
      | Inr p \<Rightarrow>
          (case matchingPolicies toPolicy logicalTenant items of
             Inl e \<Rightarrow> Inl e
           | Inr ps \<Rightarrow> Inr (if policyApplies logicalTenant p then p # ps else ps)))"

definition policyForTenant :: "('q, 'w) admissionClient \<Rightarrow> string \<Rightarrow> ('w, SandboxTenantPolicy) call" where
  "policyForTenant client logicalTenant =
     bindw (adListPolicies client) (\<lambda>items.
     bindw (liftf (matchingPolicies (adToPolicy client) logicalTenant items)) (\<lambda>ps.
     bindw (guardw (length ps \<noteq> 1)
       (ErrNew (''logical tenant '' @ encodeString False logicalTenant @ '' must have exactly one enabled policy''))) (\<lambda>_.
       retw (hd ps))))"

definition MaxAccessDuration :: "('q, 'w) admissionClient \<Rightarrow> string \<Rightarrow> ('w, int) call" where
  "MaxAccessDuration client logicalTenant =
     bindw (policyForTenant client logicalTenant) (\<lambda>p. retw (tpMaxAccessRequestDurationSeconds (stpSpec p)))"

definition validateResourceLimit :: "('q, 'w) admissionClient \<Rightarrow> string \<Rightarrow> string \<Rightarrow> string \<Rightarrow> go_error option" where
  "validateResourceLimit client name requested maximum =
     (if requested = [] then Some (ErrNew (name @ '' limit is required''))
      else case adParseQuantity client requested of
        Inl _ \<Rightarrow> Some (ErrNew (name @ '' limit is invalid''))
      | Inr requestedQuantity \<Rightarrow>
          (case adParseQuantity client maximum of
             Inl _ \<Rightarrow> Some (ErrNew (''tenant '' @ name @ '' budget is invalid''))
           | Inr maximumQuantity \<Rightarrow>
               if adSign client maximumQuantity \<le> 0 then Some (ErrNew (''tenant '' @ name @ '' budget is invalid''))
               else if adSign client requestedQuantity \<le> 0 \<or> 0 < adCmp client requestedQuantity maximumQuantity
               then Some (ErrNew (name @ '' limit exceeds the tenant budget''))
               else None))"

subsection \<open>The lease\<close>

definition leaseName :: "string \<Rightarrow> string" where
  "leaseName logicalTenant = ''sandbox-admission-'' @ hexEncode (take 8 (sha256Sum logicalTenant))"

definition leaseSeconds :: int where "leaseSeconds = 15"

definition leaseAvailable :: "lease \<Rightarrow> time \<Rightarrow> bool" where
  "leaseAvailable l now =
     (case (lsHolderIdentity l, lsRenewTime l, lsLeaseDurationSeconds l) of
        (Some holder, Some renewed, Some duration) \<Rightarrow>
          holder = [] \<or> \<not> now < renewed + duration * second
      | _ \<Rightarrow> True)"

datatype release = DeleteLease string "string option" | NoRelease

definition runRelease :: "('q, 'w) admissionClient \<Rightarrow> release \<Rightarrow> 'w \<Rightarrow> 'w" where
  "runRelease client r w = (case r of DeleteLease name uid \<Rightarrow> snd (adDeleteLease client name uid w) | NoRelease \<Rightarrow> w)"

definition newLease :: "string \<Rightarrow> string \<Rightarrow> string \<Rightarrow> time \<Rightarrow> lease" where
  "newLease namespace name holder now = \<lparr>metaNamespace = namespace, metaName = name, metaGenerateName = [],
     metaUID = [], metaResourceVersion = [], metaGeneration = 0, metaCreationTimestamp = zeroTime,
     metaDeletionTimestamp = None, metaLabels = Map.empty, metaAnnotations = Map.empty, metaFinalizers = [],
     metaOwnerReferences = [], lsHolderIdentity = Some holder, lsLeaseDurationSeconds = Some leaseSeconds,
     lsAcquireTime = Some now, lsRenewTime = Some now\<rparr>"

definition takenOver :: "lease \<Rightarrow> string \<Rightarrow> time \<Rightarrow> lease" where
  "takenOver l holder now = l\<lparr>lsHolderIdentity := Some holder, lsLeaseDurationSeconds := Some leaseSeconds,
     lsAcquireTime := Some now, lsRenewTime := Some now\<rparr>"

definition readNow :: "('q, 'w) admissionClient \<Rightarrow> ('r, 'w, time) step" where
  "readNow client w = (case adNow client w of (t, w') \<Rightarrow> (Inr t, w'))"

lemma readNow_eq [flow_simps]: "readNow client w = (s, w') \<longleftrightarrow> (\<exists>t. adNow client w = (t, w') \<and> s = Inr t)"
  by (auto simp: readNow_def split: prod.splits)

text \<open>One round of the loop: the error or the release it returns, or \<open>Inr ()\<close> to wait and try again.\<close>

definition leaseRound ::
  "('q, 'w) admissionClient \<Rightarrow> string \<Rightarrow> string \<Rightarrow> (go_error + release, 'w, unit) step" where
  "leaseRound client name holder =
     bindw (readNow client) (\<lambda>now.
     bindw (attempt (adGetLease client name)) (\<lambda>got.
       case got of
         Inl e \<Rightarrow>
           if isNotFound e then
             bindw (attempt (adCreateLease client (newLease (adAssignmentNamespace client) name holder now))) (\<lambda>created.
               case created of
                 Inr _ \<Rightarrow> exitw (Inr (DeleteLease name None))
               | Inl createErr \<Rightarrow> guardw (\<not> isAlreadyExists createErr) (Inl createErr))
           else exitw (Inl e)
       | Inr l \<Rightarrow>
           bindw (readNow client) (\<lambda>later.
           if leaseAvailable l later then
             bindw (attempt (adUpdateLease client (takenOver l holder now))) (\<lambda>updated.
               case updated of
                 Inr l' \<Rightarrow> exitw (Inr (DeleteLease name (Some (metaUID l'))))
               | Inl updateErr \<Rightarrow> guardw (\<not> isConflict updateErr) (Inl updateErr))
           else retw ())))"

fun leaseLoop ::
  "nat \<Rightarrow> ('q, 'w) admissionClient \<Rightarrow> string \<Rightarrow> string \<Rightarrow> 'w \<Rightarrow> ((go_error + release) \<times> 'w) option" where
  "leaseLoop 0 client name holder w = None"
| "leaseLoop (Suc fuel) client name holder w =
     (case leaseRound client name holder w of
        (Inl result, w') \<Rightarrow> Some (result, w')
      | (Inr _, w') \<Rightarrow>
          (case adWait client w' of
             (Some e, w'') \<Rightarrow> Some (Inl e, w'')
           | (None, w'') \<Rightarrow> leaseLoop fuel client name holder w''))"

definition acquireTenantLease ::
  "nat \<Rightarrow> ('q, 'w) admissionClient \<Rightarrow> string \<Rightarrow> 'w \<Rightarrow> ((go_error + release) \<times> 'w) option" where
  "acquireTenantLease fuel client logicalTenant w =
     (if \<not> adHasKube client then Some (Inl (ErrNew ''Kubernetes admission Lease client is required''), w)
      else case adNewUUID client w of
             (holder, w') \<Rightarrow> leaseLoop fuel client (leaseName logicalTenant) holder w')"

subsection \<open>Admission\<close>

definition tenantOf :: "unstructured \<Rightarrow> string" where
  "tenantOf bundleObject = strAt (uSpec bundleObject) [''governance'', ''logicalTenant'']"

definition tenantBundles :: "string \<Rightarrow> unstructured list \<Rightarrow> string list" where
  "tenantBundles logicalTenant items = map metaName (filter (\<lambda>b. tenantOf b = logicalTenant) items)"

text \<open>The assignments that count, and their number in an \<open>int32\<close>.\<close>

definition activeAssignments :: "string list \<Rightarrow> unstructured list \<Rightarrow> unstructured list" where
  "activeAssignments bundleNames items =
     filter (\<lambda>a. metaDeletionTimestamp a = None \<and> strAt (uSpec a) [''capabilityBundleRef'', ''name''] \<in> set bundleNames) items"

definition activeCount :: "string list \<Rightarrow> unstructured list \<Rightarrow> 32 word" where
  "activeCount bundleNames items =
     foldl (\<lambda>n a. if metaDeletionTimestamp a = None \<and>
         strAt (uSpec a) [''capabilityBundleRef'', ''name''] \<in> set bundleNames then n + 1 else n) 0 items"

text \<open>What is checked before the lease is taken: the tenant with its policy.\<close>

definition checkPolicy ::
  "('q, 'w) admissionClient \<Rightarrow> string \<Rightarrow> 'sdk CreateSandboxRequest \<Rightarrow> ('w, string \<times> SandboxTenantPolicy) call" where
  "checkPolicy client bundleName r =
     bindw (adGetBundle client bundleName) (\<lambda>bundleObject.
     let logicalTenant = tenantOf bundleObject in
     bindw (guardw (logicalTenant = []) (ErrNew ''capability bundle has no logical tenant'')) (\<lambda>_.
     bindw (policyForTenant client logicalTenant) (\<lambda>p.
     let spec = stpSpec p in
     bindw (guardw (tpWorkloadNamespace spec \<noteq> adWorkloadNamespace client)
       (ErrNew ''tenant policy targets a different workload namespace'')) (\<lambda>_.
     bindw (guardw (\<not> bundleAllowed spec bundleName)
       (ErrNew ''capability bundle is not allowed by the tenant policy'')) (\<lambda>_.
     bindw (guardw (case csTimeout r of
                      None \<Rightarrow> True
                    | Some t \<Rightarrow> t < 60 \<or> tpMaxLifetimeSeconds spec < 60 \<or> tpMaxLifetimeSeconds spec < t)
       (ErrNew ''requested lifetime exceeds the tenant policy'')) (\<lambda>_.
     bindw (liftf (case validateResourceLimit client ''cpu'' (getS (csResourceLimits r) ''cpu'') (tpMaxCPU spec) of
                     Some e \<Rightarrow> Inl e | None \<Rightarrow> Inr ())) (\<lambda>_.
     bindw (liftf (case validateResourceLimit client ''memory'' (getS (csResourceLimits r) ''memory'') (tpMaxMemory spec) of
                     Some e \<Rightarrow> Inl e | None \<Rightarrow> Inr ())) (\<lambda>_.
       retw (logicalTenant, p)))))))))"

text \<open>The count that is taken while the lease is held.\<close>

definition checkBudget :: "('q, 'w) admissionClient \<Rightarrow> string \<Rightarrow> SandboxTenantPolicySpec \<Rightarrow> ('w, unit) call" where
  "checkBudget client logicalTenant spec =
     bindw (adListBundles client) (\<lambda>bundles.
     bindw (adListAssignments client) (\<lambda>assignments.
       guardw (tpMaxConcurrentSandboxes spec \<le> sint (activeCount (tenantBundles logicalTenant bundles) assignments))
         (ErrNew (''logical tenant '' @ encodeString False logicalTenant @ '' reached its concurrent sandbox budget''))))"

text \<open>\<open>AuthorizeCreate\<close>: every failure after the lease was taken runs the deferred release.\<close>

definition AuthorizeCreate ::
  "nat \<Rightarrow> ('q, 'w) admissionClient \<Rightarrow> string \<Rightarrow> 'sdk CreateSandboxRequest \<Rightarrow> 'w \<Rightarrow> ((go_error + release) \<times> 'w) option" where
  "AuthorizeCreate fuel client bundleName r w =
     (case checkPolicy client bundleName r w of
        (Inl e, w1) \<Rightarrow> Some (Inl e, w1)
      | (Inr (logicalTenant, p), w1) \<Rightarrow>
          (case acquireTenantLease fuel client logicalTenant w1 of
             None \<Rightarrow> None
           | Some (Inl e, w2) \<Rightarrow> Some (Inl e, w2)
           | Some (Inr rel, w2) \<Rightarrow>
               (case checkBudget client logicalTenant (stpSpec p) w2 of
                  (Inl e, w3) \<Rightarrow> Some (Inl e, runRelease client rel w3)
                | (Inr _, w3) \<Rightarrow> Some (Inr rel, w3))))"

subsection \<open>What admission admits\<close>

lemma matchingPolicies_Inr:
  "matchingPolicies toPolicy tenant items = Inr ps \<longleftrightarrow>
     (\<exists>typed. map toPolicy items = map Inr typed \<and> ps = filter (policyApplies tenant) typed)"
proof (induction items arbitrary: ps)
  case (Cons item items)
  have split: "(\<exists>typed. map toPolicy (item # items) = map Inr typed \<and> ps = filter (policyApplies tenant) typed) \<longleftrightarrow>
      (\<exists>p rest. toPolicy item = Inr p \<and> map toPolicy items = map Inr rest \<and>
         ps = (if policyApplies tenant p then p # filter (policyApplies tenant) rest else filter (policyApplies tenant) rest))"
    by (auto simp: Cons_eq_map_conv)
  have "matchingPolicies toPolicy tenant (item # items) = Inr ps \<longleftrightarrow>
      (\<exists>p qs. toPolicy item = Inr p \<and> matchingPolicies toPolicy tenant items = Inr qs \<and>
         ps = (if policyApplies tenant p then p # qs else qs))"
    by (auto split: sum.splits)
  then show ?case unfolding split Cons by blast
qed auto

definition onlyPolicy :: "('q, 'w) admissionClient \<Rightarrow> string \<Rightarrow> unstructured list \<Rightarrow> SandboxTenantPolicy \<Rightarrow> bool" where
  "onlyPolicy client tenant items p \<longleftrightarrow>
     (\<exists>typed. map (adToPolicy client) items = map Inr typed \<and> filter (policyApplies tenant) typed = [p])"

lemma policyForTenant_Inr:
  "policyForTenant client tenant w = (Inr p, w') \<longleftrightarrow>
     (\<exists>items. adListPolicies client w = (Inr items, w') \<and> onlyPolicy client tenant items p)"
proof -
  have "ps = [p] \<longleftrightarrow> length ps = 1 \<and> p = hd ps" for ps :: "SandboxTenantPolicy list"
    by (cases ps) auto
  then show ?thesis by (auto simp: policyForTenant_def flow_simps matchingPolicies_Inr onlyPolicy_def)
qed

definition withinLimit :: "('q, 'w) admissionClient \<Rightarrow> string \<Rightarrow> string \<Rightarrow> bool" where
  "withinLimit client requested maximum \<longleftrightarrow>
     requested \<noteq> [] \<and>
     (\<exists>q m. adParseQuantity client requested = Inr q \<and> adParseQuantity client maximum = Inr m \<and>
            0 < adSign client m \<and> 0 < adSign client q \<and> adCmp client q m \<le> 0)"

lemma validateResourceLimit_None:
  "validateResourceLimit client name requested maximum = None \<longleftrightarrow> withinLimit client requested maximum"
  by (auto simp: validateResourceLimit_def withinLimit_def split: sum.splits)

lemma activeCount_from:
  "foldl (\<lambda>n a. if metaDeletionTimestamp a = None \<and> strAt (uSpec a) [''capabilityBundleRef'', ''name''] \<in> set names
     then n + 1 else n) m items = m + (of_nat (length (activeAssignments names items)) :: 32 word)"
  by (induction items arbitrary: m) (simp_all add: activeAssignments_def)

lemma activeCount_exact:
  assumes "length items < 2 ^ 31"
  shows "sint (activeCount names items) = int (length (activeAssignments names items))"
proof -
  have "length (activeAssignments names items) \<le> length items"
    unfolding activeAssignments_def by (rule length_filter_le)
  with assms have small: "int (length (activeAssignments names items)) < 2 ^ 31" by simp
  have "sint (activeCount names items) = signed_take_bit 31 (int (length (activeAssignments names items)))"
    by (simp add: activeCount_def activeCount_from signed_of_nat)
  also have "\<dots> = int (length (activeAssignments names items))"
    using small by (simp add: signed_take_bit_int_eq_self)
  finally show ?thesis .
qed

text \<open>What the policy \<open>p\<close> asks of a request for the bundle.\<close>

definition withinPolicy ::
  "('q, 'w) admissionClient \<Rightarrow> string \<Rightarrow> 'sdk CreateSandboxRequest \<Rightarrow> SandboxTenantPolicySpec \<Rightarrow> bool" where
  "withinPolicy client bundleName r spec \<longleftrightarrow>
     tpWorkloadNamespace spec = adWorkloadNamespace client \<and> bundleAllowed spec bundleName \<and>
     (\<exists>t. csTimeout r = Some t \<and> 60 \<le> t \<and> t \<le> tpMaxLifetimeSeconds spec) \<and>
     withinLimit client (getS (csResourceLimits r) ''cpu'') (tpMaxCPU spec) \<and>
     withinLimit client (getS (csResourceLimits r) ''memory'') (tpMaxMemory spec)"

lemma checkPolicy_Inr:
  "checkPolicy client bundleName r w = (Inr (tenant, p), w') \<longleftrightarrow>
     (\<exists>b items w1. adGetBundle client bundleName w = (Inr b, w1) \<and> tenant = tenantOf b \<and> tenant \<noteq> [] \<and>
        adListPolicies client w1 = (Inr items, w') \<and> onlyPolicy client tenant items p \<and>
        withinPolicy client bundleName r (stpSpec p))"
  by (auto simp: checkPolicy_def withinPolicy_def Let_def flow_simps policyForTenant_Inr validateResourceLimit_None
      not_less split: option.splits)

subsection \<open>An example cluster\<close>

text \<open>
  One lease that is created, read, replaced and deleted the way the API server does it: a create of
  an existing lease and an update of another version fail, and a delete with a precondition on the
  UID removes only that incarnation.
\<close>

record leaseWorld =
  lwLease :: "lease option"
  lwNow :: time
  lwLeft :: nat

definition lwGet :: "(leaseWorld, lease) call" where
  "lwGet w = (case lwLease w of None \<Rightarrow> (Inl (ApiStatus ReasonNotFound), w) | Some l \<Rightarrow> (Inr l, w))"

definition lwCreate :: "lease \<Rightarrow> (leaseWorld, lease) call" where
  "lwCreate l w =
     (case lwLease w of
        None \<Rightarrow> let stored = l\<lparr>metaUID := ''uid-'' @ optS (lsHolderIdentity l), metaResourceVersion := ''1''\<rparr>
                 in (Inr stored, w\<lparr>lwLease := Some stored\<rparr>)
      | Some _ \<Rightarrow> (Inl (ApiStatus ReasonAlreadyExists), w))"

definition lwUpdate :: "lease \<Rightarrow> (leaseWorld, lease) call" where
  "lwUpdate l w =
     (case lwLease w of
        None \<Rightarrow> (Inl (ApiStatus ReasonNotFound), w)
      | Some old \<Rightarrow>
          if metaResourceVersion old = metaResourceVersion l
          then let stored = l\<lparr>metaResourceVersion := metaResourceVersion l @ ''+''\<rparr>
               in (Inr stored, w\<lparr>lwLease := Some stored\<rparr>)
          else (Inl (ApiStatus ReasonConflict), w))"

definition lwDelete :: "string option \<Rightarrow> (leaseWorld, unit) call" where
  "lwDelete uid w =
     (case lwLease w of
        None \<Rightarrow> (Inl (ApiStatus ReasonNotFound), w)
      | Some l \<Rightarrow> if uid = None \<or> uid = Some (metaUID l) then (Inr (), w\<lparr>lwLease := None\<rparr>)
                   else (Inl (ApiStatus ReasonConflict), w))"

definition adBundle :: unstructured where
  "adBundle = \<lparr>metaNamespace = ''assignments'', metaName = ''tools'', metaGenerateName = [], metaUID = ''bundle-1'',
     metaResourceVersion = ''3'', metaGeneration = 1, metaCreationTimestamp = 0, metaDeletionTimestamp = None,
     metaLabels = Map.empty, metaAnnotations = Map.empty, metaFinalizers = [], metaOwnerReferences = [],
     uAPIVersion = ''aks-sandbox.azure.com/v1alpha1'', uKind = ''CapabilityBundle'',
     uSpec = JObj [(''governance'', JObj [(''logicalTenant'', JStr ''blue'')])], uStatus = JNull\<rparr>"

definition adPolicy :: SandboxTenantPolicy where
  "adPolicy = \<lparr>metaNamespace = ''assignments'', metaName = ''blue'', metaGenerateName = [], metaUID = ''policy-1'',
     metaResourceVersion = ''3'', metaGeneration = 1, metaCreationTimestamp = 0, metaDeletionTimestamp = None,
     metaLabels = Map.empty, metaAnnotations = Map.empty, metaFinalizers = [], metaOwnerReferences = [],
     stpSpec = \<lparr>tpLogicalTenant = ''blue'', tpWorkloadNamespace = ''sandboxes'', tpAllowedCapabilityBundles = [''tools''],
       tpAllowedCapabilityBundlePrefixes = [], tpMaxConcurrentSandboxes = 1, tpMaxLifetimeSeconds = 3600,
       tpMaxAccessRequestDurationSeconds = 600, tpMaxCPU = ''11'', tpMaxMemory = ''11'', tpEnabled = True\<rparr>\<rparr>"

text \<open>Quantities in unary, and a clock that a wait moves by 50 milliseconds.\<close>

definition lwClient :: "(nat, leaseWorld) admissionClient" where
  "lwClient = \<lparr>adAssignmentNamespace = ''assignments'', adWorkloadNamespace = ''sandboxes'', adHasKube = True,
     adGetBundle = (\<lambda>_. okw adBundle), adListPolicies = okw [adBundle], adListBundles = okw [adBundle],
     adListAssignments = okw [], adGetLease = (\<lambda>_. lwGet), adCreateLease = lwCreate, adUpdateLease = lwUpdate,
     adDeleteLease = (\<lambda>_. lwDelete), adNow = (\<lambda>w. (lwNow w, w)), adNewUUID = (\<lambda>w. (''a'', w)),
     adWait = (\<lambda>w. case lwLeft w of 0 \<Rightarrow> (Some (ErrNew ''context deadline exceeded''), w)
        | Suc n \<Rightarrow> (None, w\<lparr>lwLeft := n, lwNow := lwNow w + 50000000\<rparr>)),
     adToPolicy = (\<lambda>_. Inr adPolicy), adParseQuantity = (\<lambda>s. Inr (length s)), adSign = int,
     adCmp = (\<lambda>a b. int a - int b)\<rparr>"

lemmas lw_defs = lwClient_def lwGet_def lwCreate_def lwUpdate_def lwDelete_def

definition adRequest :: "unit CreateSandboxRequest" where
  "adRequest = \<lparr>csImage = None, csSnapshotID = [], csTimeout = Some 600,
     csResourceLimits = [''cpu'' \<mapsto> ''1'', ''memory'' \<mapsto> ''1''], csResourceRequests = None, csEntrypoint = [],
     csNetworkPolicy = None, csCredentialProxy = None, csVolumes = [], csPlatform = None, csMetadata = None,
     csExtensions = None, csRest = ()\<rparr>"

definition lwHeld :: "string \<Rightarrow> string \<Rightarrow> time \<Rightarrow> lease" where
  "lwHeld name holder now =
     (newLease ''assignments'' name holder now)\<lparr>metaUID := ''uid-'' @ holder, metaResourceVersion := ''1''\<rparr>"

lemma lw_create:
  "leaseLoop (Suc fuel) lwClient name holder \<lparr>lwLease = None, lwNow = t, lwLeft = n\<rparr> =
     Some (Inr (DeleteLease name None), \<lparr>lwLease = Some (lwHeld name holder t), lwNow = t, lwLeft = n\<rparr>)"
  by (simp add: leaseRound_def bindw_def readNow_def attempt_def lw_defs Let_def lwHeld_def newLease_def)

lemma lw_takeover:
  assumes "t + 15 * second \<le> t'"
  shows "leaseLoop (Suc fuel) lwClient name holder \<lparr>lwLease = Some (lwHeld name old t), lwNow = t', lwLeft = n\<rparr> =
     Some (Inr (DeleteLease name (Some (''uid-'' @ old))),
       \<lparr>lwLease = Some ((takenOver (lwHeld name old t) holder t')\<lparr>metaResourceVersion := ''1+''\<rparr>), lwNow = t', lwLeft = n\<rparr>)"
  using assms
  by (simp add: leaseRound_def bindw_def readNow_def attempt_def lw_defs Let_def lwHeld_def newLease_def takenOver_def
      leaseAvailable_def leaseSeconds_def)

text \<open>
  C8: a sandbox is admitted only within the budget of its tenant. When \<open>AuthorizeCreate\<close> admits a
  request, the bundle names a tenant, exactly one enabled policy exists for that tenant and all
  policies could be read, the policy is for this workload namespace and allows the bundle, the
  request asks for a lifetime of at least a minute and at most the policy's, its CPU and memory are
  positive and within the budget, the lease of the tenant was taken, and while it was held fewer
  assignments of the tenant's bundles than the policy allows were running (where the 32-bit count
  cannot wrap, below \<open>2 ^ 31\<close> assignments).
\<close>

theorem admission_within_budget:
  assumes "AuthorizeCreate fuel client bundleName r w = Some (Inr rel, w')"
  shows "\<exists>b items p bundles assignments w1 w2 w3 w4.
    adGetBundle client bundleName w = (Inr b, w1) \<and> tenantOf b \<noteq> [] \<and>
    adListPolicies client w1 = (Inr items, w2) \<and> onlyPolicy client (tenantOf b) items p \<and>
    withinPolicy client bundleName r (stpSpec p) \<and>
    acquireTenantLease fuel client (tenantOf b) w2 = Some (Inr rel, w3) \<and>
    adListBundles client w3 = (Inr bundles, w4) \<and> adListAssignments client w4 = (Inr assignments, w') \<and>
    (length assignments < 2 ^ 31 \<longrightarrow>
       int (length (activeAssignments (tenantBundles (tenantOf b) bundles) assignments)) < tpMaxConcurrentSandboxes (stpSpec p))"
proof -
  from assms obtain tenant p w2 w3 where pol: "checkPolicy client bundleName r w = (Inr (tenant, p), w2)"
    and lease: "acquireTenantLease fuel client tenant w2 = Some (Inr rel, w3)"
    and budget: "checkBudget client tenant (stpSpec p) w3 = (Inr (), w')"
    by (auto simp: AuthorizeCreate_def split: prod.splits sum.splits option.splits)
  from pol obtain b items w1 where p: "adGetBundle client bundleName w = (Inr b, w1)" "tenant = tenantOf b" "tenant \<noteq> []"
    "adListPolicies client w1 = (Inr items, w2)" "onlyPolicy client tenant items p"
    "withinPolicy client bundleName r (stpSpec p)"
    unfolding checkPolicy_Inr by blast
  from budget obtain bundles w4 assignments where lists: "adListBundles client w3 = (Inr bundles, w4)"
    "adListAssignments client w4 = (Inr assignments, w')"
    and count: "sint (activeCount (tenantBundles tenant bundles) assignments) < tpMaxConcurrentSandboxes (stpSpec p)"
    by (auto simp: checkBudget_def flow_simps not_le)
  have "length assignments < 2 ^ 31 \<longrightarrow>
      int (length (activeAssignments (tenantBundles tenant bundles) assignments)) < tpMaxConcurrentSandboxes (stpSpec p)"
    using count activeCount_exact by metis
  with p lease lists show ?thesis by blast
qed

theorem admission_within_budget_witness:
  "\<exists>p :: SandboxTenantPolicy. withinPolicy lwClient ''tools'' adRequest (stpSpec p) \<and> 0 < tpMaxConcurrentSandboxes (stpSpec p)"
proof -
  have "checkPolicy lwClient ''tools'' adRequest w = (Inr (''blue'', adPolicy), w)" for w
    by (simp add: checkPolicy_def policyForTenant_def policyApplies_def bindw_def lwClient_def tenantOf_def adBundle_def
        strAt_eq adPolicy_def bundleAllowed_def adRequest_def validateResourceLimit_def Let_def)
  moreover have "checkBudget lwClient ''blue'' (stpSpec adPolicy) w = (Inr (), w)" for w
    by (simp add: checkBudget_def bindw_def lwClient_def activeCount_def adPolicy_def)
  moreover have "adNewUUID lwClient w = (''a'', w)" "adHasKube lwClient" for w by (simp_all add: lwClient_def)
  ultimately have "AuthorizeCreate 1 lwClient ''tools'' adRequest \<lparr>lwLease = None, lwNow = 0, lwLeft = 0\<rparr> =
      Some (Inr (DeleteLease (leaseName ''blue'') None),
        \<lparr>lwLease = Some (lwHeld (leaseName ''blue'') ''a'' 0), lwNow = 0, lwLeft = 0\<rparr>)"
    unfolding AuthorizeCreate_def acquireTenantLease_def One_nat_def lw_create [of 0] by (simp add: lw_create [of 0] del: leaseLoop.simps)
  from admission_within_budget [OF this] obtain b bundles assignments w4 w' and p :: SandboxTenantPolicy where
    p: "withinPolicy lwClient ''tools'' adRequest (stpSpec p)"
    and listed: "adListAssignments lwClient w4 = (Inr assignments, w')"
    and count: "length assignments < 2 ^ 31 \<longrightarrow>
      int (length (activeAssignments (tenantBundles (tenantOf b) bundles) assignments)) < tpMaxConcurrentSandboxes (stpSpec p)"
    by blast
  have "assignments = []" using listed by (simp add: lwClient_def)
  with count have "0 < tpMaxConcurrentSandboxes (stpSpec p)" by (simp add: activeAssignments_def)
  with p show ?thesis by blast
qed

subsection \<open>The lease loop\<close>

text \<open>The steps that the calls and the waiting of the loop may take the world along.\<close>

definition admissionSteps :: "('q, 'w) admissionClient \<Rightarrow> ('w \<times> 'w) set" where
  "admissionSteps client =
     {(w, w'). (\<exists>n. w' = snd (adGetLease client n w)) \<or> (\<exists>l. w' = snd (adCreateLease client l w)) \<or>
        (\<exists>l. w' = snd (adUpdateLease client l w)) \<or> w' = snd (adNow client w) \<or> w' = snd (adNewUUID client w) \<or>
        w' = snd (adWait client w)}"

lemma within_admission [within_intros]:
  "within (admissionSteps client) (adGetLease client n)" "within (admissionSteps client) (adCreateLease client l)"
  "within (admissionSteps client) (adUpdateLease client l)"
  "within (admissionSteps client) (readNow client)"
  by (rule within_call, auto simp: admissionSteps_def readNow_def split_beta)+

lemma within_leaseRound: "within (admissionSteps client) (leaseRound client name holder)"
  unfolding leaseRound_def by (intro within_intros)

text \<open>How a round may take the lease: by creating it, or by taking over one that is free or has expired.\<close>

definition leaseTaken :: "('q, 'w) admissionClient \<Rightarrow> string \<Rightarrow> string \<Rightarrow> 'w \<Rightarrow> release \<Rightarrow> 'w \<Rightarrow> bool" where
  "leaseTaken client name holder w rel w' \<longleftrightarrow>
     (\<exists>now w1. adNow client w = (now, w1) \<and>
        ((\<exists>e w2 l. adGetLease client name w1 = (Inl e, w2) \<and> isNotFound e \<and>
            adCreateLease client (newLease (adAssignmentNamespace client) name holder now) w2 = (Inr l, w') \<and>
            rel = DeleteLease name None) \<or>
         (\<exists>l w2 later w3 l'. adGetLease client name w1 = (Inr l, w2) \<and> adNow client w2 = (later, w3) \<and>
            leaseAvailable l later \<and> adUpdateLease client (takenOver l holder now) w3 = (Inr l', w') \<and>
            rel = DeleteLease name (Some (metaUID l')))))"

lemma leaseRound_taken:
  "leaseRound client name holder w = (Inl (Inr rel), w') \<Longrightarrow> leaseTaken client name holder w rel w'"
  by (auto simp: leaseRound_def leaseTaken_def flow_simps)

text \<open>
  the lease is never taken from a live holder. Whenever the loop returns with the lease, after
  however many rounds, its last round read the clock and the lease and either found none and
  created it, or found one that nobody holds or whose holder has not renewed it within its
  duration, and replaced exactly the version it had read, naming itself as the holder. While a
  lease is held and has not expired, no round takes it.
\<close>

theorem lease_taken_when_free:
  assumes "leaseLoop fuel client name holder w = Some (Inr rel, w')"
  shows "\<exists>w1. (w, w1) \<in> (admissionSteps client)\<^sup>* \<and> leaseTaken client name holder w1 rel w'"
  using assms
proof (induction fuel arbitrary: w)
  case (Suc fuel)
  obtain s w1 where run: "leaseRound client name holder w = (s, w1)" by (cases "leaseRound client name holder w")
  show ?case
  proof (cases s)
    case (Inl result)
    with Suc.prems run have "leaseRound client name holder w = (Inl (Inr rel), w')" by simp
    from leaseRound_taken [OF this] show ?thesis by blast
  next
    case (Inr u)
    obtain e w2 where wait: "adWait client w1 = (e, w2)" by (cases "adWait client w1")
    with Suc.prems run Inr have rest: "leaseLoop fuel client name holder w2 = Some (Inr rel, w')"
      by (cases e) simp_all
    have "(w, w1) \<in> (admissionSteps client)\<^sup>*"
      by (rule withinD [OF within_leaseRound rtrancl.rtrancl_refl run])
    moreover have "(w1, w2) \<in> admissionSteps client" using wait by (auto simp: admissionSteps_def)
    ultimately have "(w, w2) \<in> (admissionSteps client)\<^sup>*" by (rule rtrancl.rtrancl_into_rtrancl)
    with Suc.IH [OF rest] show ?thesis by (meson rtrancl_trans)
  qed
qed simp

theorem lease_taken_when_free_witness:
  "\<exists>w1. leaseTaken lwClient ''l'' ''b'' w1 (DeleteLease ''l'' (Some ''uid-a''))
     \<lparr>lwLease = Some ((takenOver (lwHeld ''l'' ''a'' 0) ''b'' (16 * second))\<lparr>metaResourceVersion := ''1+''\<rparr>),
      lwNow = 16 * second, lwLeft = 0\<rparr>"
proof -
  have "0 + 15 * second \<le> 16 * second" by (simp add: second_def)
  from lease_taken_when_free [OF lw_takeover [OF this, of 0 "''l''" "''b''" "''a''" 0]] show ?thesis by auto
qed

text \<open>
  A context with a deadline, as a countdown: no call gives it more time, and a wait that does not
  report the end of the context uses some of it up.
\<close>

definition deadline :: "('q, 'w) admissionClient \<Rightarrow> ('w \<Rightarrow> nat) \<Rightarrow> bool" where
  "deadline client left \<longleftrightarrow>
     (\<forall>w w'. (w, w') \<in> admissionSteps client \<longrightarrow> left w' \<le> left w) \<and>
     (\<forall>w w'. adWait client w = (None, w') \<longrightarrow> left w' < left w)"

lemma deadline_star:
  assumes "(w, w') \<in> (admissionSteps client)\<^sup>*" "deadline client left"
  shows "left w' \<le> left w"
  using assms
proof (induction rule: rtrancl_induct)
  case (step y z)
  then show ?case unfolding deadline_def by (meson le_trans)
qed simp

text \<open>
  C39: the wait for the lease ends with the request. Under a context with a deadline the loop returns,
  with the lease or with an error, in at most as many rounds as waits fit into the deadline, whatever
  the other holders of the lease do.
\<close>

theorem lease_loop_returns:
  assumes "deadline client left" and "left w < fuel"
  shows "\<exists>result w'. leaseLoop fuel client name holder w = Some (result, w')"
  using assms(2)
proof (induction fuel arbitrary: w)
  case (Suc fuel)
  obtain s w1 where run: "leaseRound client name holder w = (s, w1)" by (cases "leaseRound client name holder w")
  show ?case
  proof (cases s)
    case (Inr u)
    obtain e w2 where wait: "adWait client w1 = (e, w2)" by (cases "adWait client w1")
    show ?thesis
    proof (cases e)
      case None
      have "left w1 \<le> left w"
        using deadline_star [OF withinD [OF within_leaseRound rtrancl.rtrancl_refl run] assms(1)] .
      moreover have "left w2 < left w1" using assms(1) wait None unfolding deadline_def by blast
      ultimately have "left w2 < fuel" using Suc.prems by simp
      with Suc.IH [of w2] run Inr wait None show ?thesis by simp
    qed (use run Inr wait in simp)
  qed (use run in simp)
qed simp

theorem lease_loop_returns_witness:
  "\<exists>result w'. leaseLoop 4 lwClient ''l'' ''b'' \<lparr>lwLease = Some (lwHeld ''l'' ''a'' 0), lwNow = 0, lwLeft = 3\<rparr> = Some (result, w')"
proof -
  have "deadline lwClient lwLeft"
    by (auto simp: deadline_def admissionSteps_def lw_defs Let_def split: nat.splits option.splits if_splits)
  then show ?thesis by (rule lease_loop_returns) simp
qed

text \<open>
  a holder that was too slow gives away a lease that is not its own. A creator of the lease keeps
  a release that deletes it by name, whoever holds it by then. In the run below, \<open>a\<close> creates the
  lease, \<open>b\<close> takes it over after its fifteen seconds are up, \<open>a\<close> finally releases, and \<open>c\<close> gets the
  lease at once, while \<open>b\<close> still holds it and counts its tenant's sandboxes.
\<close>

theorem late_release_breaks_exclusion:
  "leaseLoop 1 lwClient ''l'' ''a'' \<lparr>lwLease = None, lwNow = 0, lwLeft = 0\<rparr> =
     Some (Inr (DeleteLease ''l'' None), \<lparr>lwLease = Some (lwHeld ''l'' ''a'' 0), lwNow = 0, lwLeft = 0\<rparr>) \<and>
   leaseLoop 1 lwClient ''l'' ''b'' \<lparr>lwLease = Some (lwHeld ''l'' ''a'' 0), lwNow = 16 * second, lwLeft = 0\<rparr> =
     Some (Inr (DeleteLease ''l'' (Some ''uid-a'')),
       \<lparr>lwLease = Some ((takenOver (lwHeld ''l'' ''a'' 0) ''b'' (16 * second))\<lparr>metaResourceVersion := ''1+''\<rparr>),
        lwNow = 16 * second, lwLeft = 0\<rparr>) \<and>
   runRelease lwClient (DeleteLease ''l'' None)
       \<lparr>lwLease = Some ((takenOver (lwHeld ''l'' ''a'' 0) ''b'' (16 * second))\<lparr>metaResourceVersion := ''1+''\<rparr>),
        lwNow = 16 * second, lwLeft = 0\<rparr> =
     \<lparr>lwLease = None, lwNow = 16 * second, lwLeft = 0\<rparr> \<and>
   leaseLoop 1 lwClient ''l'' ''c'' \<lparr>lwLease = None, lwNow = 16 * second, lwLeft = 0\<rparr> =
     Some (Inr (DeleteLease ''l'' None),
       \<lparr>lwLease = Some (lwHeld ''l'' ''c'' (16 * second)), lwNow = 16 * second, lwLeft = 0\<rparr>)"
proof -
  have late: "0 + 15 * second \<le> 16 * second" by (simp add: second_def)
  have "runRelease lwClient (DeleteLease n None) \<lparr>lwLease = Some l, lwNow = t, lwLeft = k\<rparr> =
      \<lparr>lwLease = None, lwNow = t, lwLeft = k\<rparr>" for n l t k
    by (simp add: runRelease_def lw_defs)
  then show ?thesis
    unfolding One_nat_def by (simp add: lw_create lw_takeover [OF late] del: leaseLoop.simps)
qed

end
