(* ===== verification/Store.thy ===== *)
theory Store
  imports GoTime
begin

section \<open>The assignment store\<close>

text \<open>
  \<open>internal/assignment/store/kubernetes/store.go\<close>: assignments kept as custom resources. The dynamic
  client, the index of the informer and \<open>retry.RetryOnConflict\<close> are the fields of \<open>storeClient\<close>;
  \<open>retried\<close> states what client-go documents of the retry loop. In the record of an object a missing
  name is the empty one, so \<open>removeEmptyMetadata\<close>, which removes empty names before the create, leaves
  no trace of its own.

  The locale \<open>assignment_store\<close> is the interface \<open>assignment.Store\<close> of \<open>internal/assignment/types.go\<close>
  with what its clients rely on.
\<close>

subsection \<open>Client\<close>

record 'w storeClient =
  scGetBundle :: "string \<Rightarrow> string \<Rightarrow> ('w, unstructured) call"
  scCreate :: "string \<Rightarrow> unstructured \<Rightarrow> ('w, unstructured) call"
  scGet :: "string \<Rightarrow> string \<Rightarrow> ('w, unstructured) call"
  scList :: "string \<Rightarrow> string \<Rightarrow> nat \<Rightarrow> ('w, unstructured list) call"
  scUpdate :: "string \<Rightarrow> unstructured \<Rightarrow> ('w, unit) call"
  scDelete :: "string \<Rightarrow> string \<Rightarrow> ('w, unit) call"
  scByIndex :: "string \<Rightarrow> ('w, unstructured list) call"
  scRetryOnConflict :: "('w, unit) call \<Rightarrow> ('w, unit) call"

text \<open>
  The runs of \<open>retry.RetryOnConflict\<close>: the function is called at least once, and again only after it
  reported a conflict; the result is that of the last call.
\<close>

inductive retried :: "('w, unit) call \<Rightarrow> 'w \<Rightarrow> go_error + unit \<Rightarrow> 'w \<Rightarrow> bool" where
  last: "c w = (r, w') \<Longrightarrow> retried c w r w'"
| again: "c w = (Inl e, w1) \<Longrightarrow> isConflict e \<Longrightarrow> retried c w1 r w' \<Longrightarrow> retried c w r w'"

inductive_cases retriedE: "retried c w r w'"

definition retriesConflicts :: "'w storeClient \<Rightarrow> bool" where
  "retriesConflicts client \<longleftrightarrow>
     (\<forall>c w r w'. scRetryOnConflict client c w = (r, w') \<longrightarrow> retried c w r w')"

text \<open>Such a loop with a bounded number of attempts; client-go's default is five.\<close>

fun retryTimes :: "nat \<Rightarrow> ('w, unit) call \<Rightarrow> ('w, unit) call" where
  "retryTimes 0 c w = c w"
| "retryTimes (Suc n) c w =
     (case c w of (Inl e, w') \<Rightarrow> if isConflict e then retryTimes n c w' else (Inl e, w') | done \<Rightarrow> done)"

lemma retryTimes_retried: "retryTimes n c w = (r, w') \<Longrightarrow> retried c w r w'"
proof (induction n arbitrary: w)
  case (Suc n)
  obtain s w1 where run: "c w = (s, w1)" by (cases "c w")
  show ?case
  proof (cases "\<exists>e. s = Inl e \<and> isConflict e")
    case True
    then obtain e where "s = Inl e" "isConflict e" by blast
    with Suc run show ?thesis by (auto intro: retried.again)
  next
    case False
    with Suc.prems run show ?thesis by (cases s) (auto intro: retried.last)
  qed
qed (auto intro: retried.last)

subsection \<open>Conversion\<close>

definition stringField :: "json \<Rightarrow> string \<Rightarrow> string" where
  "stringField object name = (case jsonGet object name of Some (JStr s) \<Rightarrow> s | _ \<Rightarrow> [])"

definition objectReference :: "json \<Rightarrow> string \<Rightarrow> ObjectReference option" where
  "objectReference status field =
     (case nestedMap status [field] of
        Inr (Some value) \<Rightarrow>
          Some \<lparr>orAPIVersion = stringField value ''apiVersion'', orKind = stringField value ''kind'',
                orNamespace = stringField value ''namespace'', orName = stringField value ''name'',
                orUID = stringField value ''uid''\<rparr>
      | _ \<Rightarrow> None)"

text \<open>The conditions that are objects, in their order.\<close>

fun isObject :: "json \<Rightarrow> bool" where
  "isObject (JObj _) = True"
| "isObject _ = False"

definition convertConditions :: "json list \<Rightarrow> Condition list" where
  "convertConditions raws =
     map (\<lambda>raw. \<lparr>cdType = stringField raw ''type'', cdStatus = stringField raw ''status'',
                 cdReason = stringField raw ''reason'', cdMessage = stringField raw ''message''\<rparr>)
       (filter isObject raws)"

definition readyCondition :: "Condition \<Rightarrow> bool" where
  "readyCondition c \<longleftrightarrow> cdType c = ''Ready'' \<and> cdStatus c = ''True''"

definition convert :: "unstructured \<Rightarrow> go_error + Assignment" where
  "convert object =
     seqf (case nestedString (uSpec object) [''capabilityBundleRef'', ''name''] of
             Inl e \<Rightarrow> Inl (Errorf ''read capability bundle reference'' e) | Inr v \<Rightarrow> Inr (optS v)) (\<lambda>bundleName.
     seqf (case nestedString (uSpec object) [''templateRef'', ''name''] of
             Inl e \<Rightarrow> Inl (Errorf ''read sandbox template reference'' e) | Inr v \<Rightarrow> Inr (optS v)) (\<lambda>templateName.
     seqf (case nestedSlice (uStatus object) [''conditions''] of
             Inl e \<Rightarrow> Inl (Errorf ''read conditions'' e)
           | Inr v \<Rightarrow> Inr (convertConditions (case v of None \<Rightarrow> [] | Some raws \<Rightarrow> raws))) (\<lambda>conditions.
     let workloadRef = objectReference (uStatus object) ''workloadRef'';
         mapped = getS (metaAnnotations object) SandboxIDAnnotation in
     Inr \<lparr>aNamespace = metaNamespace object, aName = metaName object, aUID = metaUID object,
          aResourceVersion = metaResourceVersion object, aTemplateName = templateName,
          aTemplateUID = strAt (uSpec object) [''templateRef'', ''uid''],
          aTemplateRevision = strAt (uSpec object) [''templateRef'', ''specRevision''],
          aLogicalTenant = strAt (uSpec object) [''logicalTenant''], aCapabilityBundleName = bundleName,
          aSandboxID = (if mapped = [] then case workloadRef of None \<Rightarrow> [] | Some r \<Rightarrow> orName r else mapped),
          aIdempotencyKey = getS (metaAnnotations object) IdempotencyKeyAnnotation,
          aRequestHash = getS (metaAnnotations object) RequestHashAnnotation,
          aCreatedAt = metaCreationTimestamp object, aExisting = False,
          aDeleting = (metaDeletionTimestamp object \<noteq> None),
          aReady = list_ex readyCondition conditions,
          aWorkloadRef = workloadRef, aPodRef = objectReference (uStatus object) ''podRef'',
          aConditions = conditions\<rparr>)))"

text \<open>The index function of the informer.\<close>

definition sandboxIDsForObject :: "unstructured \<Rightarrow> string list" where
  "sandboxIDsForObject object =
     (let mapped = getS (metaAnnotations object) SandboxIDAnnotation;
          ids = (if mapped \<noteq> [] then [mapped] else []);
          workloadName = strAt (uStatus object) [''workloadRef'', ''name'']
      in if workloadName \<noteq> [] \<and> workloadName \<notin> set ids then ids @ [workloadName] else ids)"

subsection \<open>Operations\<close>

definition ErrIdempotencyConflict :: go_error where
  "ErrIdempotencyConflict = ErrNew ''idempotency key was reused with a different request''"

definition newAssignmentObject :: "CreateRequest \<Rightarrow> unstructured" where
  "newAssignmentObject request = \<lparr>metaNamespace = crNamespace request, metaName = crName request,
     metaGenerateName = crGenerateName request, metaUID = [], metaResourceVersion = [], metaGeneration = 0,
     metaCreationTimestamp = zeroTime, metaDeletionTimestamp = None, metaLabels = Map.empty,
     metaAnnotations = [IdempotencyKeyAnnotation \<mapsto> crIdempotencyKey request,
                        RequestHashAnnotation \<mapsto> crRequestHash request],
     metaFinalizers = [], metaOwnerReferences = [],
     uAPIVersion = ''aks-sandbox.azure.com/v1alpha1'', uKind = ''SandboxAssignment'',
     uSpec = JObj [
       (''templateRef'', JObj [(''name'', JStr (crTemplateName request)), (''uid'', JStr (crTemplateUID request)),
          (''specRevision'', JStr (crTemplateRevision request))]),
       (''logicalTenant'', JStr (crLogicalTenant request)),
       (''capabilityBundleRef'', JObj [(''name'', JStr (crCapabilityBundleName request))])],
     uStatus = JNull\<rparr>"

text \<open>The existing object was created by the same request.\<close>

definition sameRequest :: "CreateRequest \<Rightarrow> unstructured \<Rightarrow> bool" where
  "sameRequest request existing \<longleftrightarrow>
     getS (metaAnnotations existing) IdempotencyKeyAnnotation = crIdempotencyKey request \<and>
     getS (metaAnnotations existing) RequestHashAnnotation = crRequestHash request \<and>
     strAt (uSpec existing) [''logicalTenant''] = crLogicalTenant request"

definition replayCreate :: "'w storeClient \<Rightarrow> CreateRequest \<Rightarrow> ('w, Assignment) call" where
  "replayCreate client request =
     bindw (scGet client (crNamespace request) (crName request)) (\<lambda>existing.
     bindw (guardw (\<not> sameRequest request existing) ErrIdempotencyConflict) (\<lambda>_.
     bindw (liftf (convert existing)) (\<lambda>result.
       retw (result\<lparr>aExisting := True\<rparr>))))"

definition Create :: "'w storeClient \<Rightarrow> CreateRequest \<Rightarrow> ('w, Assignment) call" where
  "Create client request =
     bindw (tryw (scGetBundle client (crNamespace request) (crCapabilityBundleName request))
       (Errorf ''get capability bundle'')) (\<lambda>b.
     bindw (guardw (metaDeletionTimestamp b \<noteq> None) (ErrNew ''capability bundle is deleting'')) (\<lambda>_.
     bindw (attempt (scCreate client (crNamespace request) (newAssignmentObject request))) (\<lambda>created.
       case created of
         Inl e \<Rightarrow>
           if isAlreadyExists e \<and> crName request \<noteq> [] then replayCreate client request
           else exitw (Errorf ''create sandbox assignment'' e)
       | Inr object \<Rightarrow> liftf (convert object))))"

definition Get :: "'w storeClient \<Rightarrow> string \<Rightarrow> string \<Rightarrow> ('w, Assignment) call" where
  "Get client namespace name = bindw (scGet client namespace name) (\<lambda>object. liftf (convert object))"

definition multipleAssignments :: "string \<Rightarrow> go_error" where
  "multipleAssignments sandboxID =
     ErrNew (''multiple assignments map to OpenSandbox ID '' @ encodeString False sandboxID)"

definition GetBySandboxID :: "'w storeClient \<Rightarrow> string \<Rightarrow> string \<Rightarrow> ('w, Assignment) call" where
  "GetBySandboxID client namespace sandboxID =
     bindw (scByIndex client sandboxID) (\<lambda>objects.
     if length objects = 1 then liftf (convert (hd objects))
     else
       bindw (guardw (1 < length objects) (multipleAssignments sandboxID)) (\<lambda>_.
       bindw (scList client namespace (SandboxIDLabel @ ''='' @ sandboxID) 2) (\<lambda>items.
       if length items = 1 then liftf (convert (hd items))
       else
         bindw (guardw (1 < length items) (multipleAssignments sandboxID)) (\<lambda>_.
           exitw (ApiStatus ReasonNotFound)))))"

type_synonym mutation = "strmap \<times> strmap \<Rightarrow> strmap \<times> strmap"

definition mutateMetadata :: "mutation \<Rightarrow> unstructured \<Rightarrow> unstructured" where
  "mutateMetadata mutate object =
     (case mutate (metaAnnotations object, metaLabels object) of
        (annotations, labels) \<Rightarrow> object\<lparr>metaAnnotations := annotations, metaLabels := labels\<rparr>)"

definition updateAttempt :: "'w storeClient \<Rightarrow> string \<Rightarrow> string \<Rightarrow> mutation \<Rightarrow> ('w, unit) call" where
  "updateAttempt client namespace name mutate =
     bindw (scGet client namespace name) (\<lambda>object. scUpdate client namespace (mutateMetadata mutate object))"

definition updateObjectMetadata :: "'w storeClient \<Rightarrow> string \<Rightarrow> string \<Rightarrow> mutation \<Rightarrow> ('w, unit) call" where
  "updateObjectMetadata client namespace name mutate =
     scRetryOnConflict client (updateAttempt client namespace name mutate)"

definition sandboxIDMutation :: "string \<Rightarrow> mutation" where
  "sandboxIDMutation sandboxID = (\<lambda>(annotations, labels).
     (annotations(SandboxIDAnnotation \<mapsto> sandboxID), labels(SandboxIDLabel \<mapsto> sandboxID)))"

definition SetSandboxID :: "'w storeClient \<Rightarrow> string \<Rightarrow> string \<Rightarrow> string \<Rightarrow> ('w, unit) call" where
  "SetSandboxID client namespace name sandboxID =
     updateObjectMetadata client namespace name (sandboxIDMutation sandboxID)"

definition fenceMutation :: "bool \<Rightarrow> string \<Rightarrow> mutation" where
  "fenceMutation paused resumeAfterPodUID = (\<lambda>(annotations, labels).
     let values = annotations(PausedAnnotation := if paused then Some ''true'' else None)
     in (values(ResumeAfterPodUIDAnnotation := if resumeAfterPodUID \<noteq> [] then Some resumeAfterPodUID else None), labels))"

definition SetLifecycleFence :: "'w storeClient \<Rightarrow> string \<Rightarrow> string \<Rightarrow> bool \<Rightarrow> string \<Rightarrow> ('w, unit) call" where
  "SetLifecycleFence client namespace name paused resumeAfterPodUID =
     updateObjectMetadata client namespace name (fenceMutation paused resumeAfterPodUID)"

definition Delete :: "'w storeClient \<Rightarrow> string \<Rightarrow> string \<Rightarrow> ('w, unit) call" where
  "Delete client namespace name = scDelete client namespace name"

subsection \<open>The interface\<close>

text \<open>
  What the API server of the sandboxes relies on: a replayed create belongs to the same tenant, key
  and request, and Ready in the view of an assignment is the Ready condition.
\<close>

locale assignment_store =
  fixes create :: "CreateRequest \<Rightarrow> ('w, Assignment) call"
    and get :: "string \<Rightarrow> string \<Rightarrow> ('w, Assignment) call"
    and getBySandboxID :: "string \<Rightarrow> string \<Rightarrow> ('w, Assignment) call"
  assumes create_existing:
      "create request w = (Inr a, w') \<Longrightarrow> aExisting a \<Longrightarrow>
         crName request \<noteq> [] \<and> aIdempotencyKey a = crIdempotencyKey request \<and>
         aRequestHash a = crRequestHash request \<and> aLogicalTenant a = crLogicalTenant request"
    and get_view: "get namespace name w = (Inr a, w') \<Longrightarrow> \<not> aExisting a \<and> (aReady a \<longleftrightarrow> list_ex readyCondition (aConditions a))"
    and lookup_view:
      "getBySandboxID namespace sandboxID w = (Inr a, w') \<Longrightarrow> \<not> aExisting a \<and> (aReady a \<longleftrightarrow> list_ex readyCondition (aConditions a))"
begin

lemma replay_refused:
  assumes "create request w = (Inr a, w')"
    and "aLogicalTenant a \<noteq> crLogicalTenant request \<or> aRequestHash a \<noteq> crRequestHash request"
  shows "\<not> aExisting a"
  using create_existing [OF assms(1)] assms(2) by blast

lemma generated_name_is_new:
  assumes "create request w = (Inr a, w')" and "crName request = []"
  shows "\<not> aExisting a"
  using create_existing [OF assms(1)] assms(2) by blast

end

lemma convert_fields:
  assumes "convert object = Inr a"
  shows "aExisting a = False" "aReady a \<longleftrightarrow> list_ex readyCondition (aConditions a)" "aUID a = metaUID object"
    "aName a = metaName object" "aNamespace a = metaNamespace object"
    "aIdempotencyKey a = getS (metaAnnotations object) IdempotencyKeyAnnotation"
    "aRequestHash a = getS (metaAnnotations object) RequestHashAnnotation"
    "aLogicalTenant a = strAt (uSpec object) [''logicalTenant'']"
    "aWorkloadRef a = objectReference (uStatus object) ''workloadRef''"
    "aPodRef a = objectReference (uStatus object) ''podRef''"
    "getS (metaAnnotations object) SandboxIDAnnotation \<noteq> [] \<Longrightarrow> aSandboxID a = getS (metaAnnotations object) SandboxIDAnnotation"
    "aDeleting a \<longleftrightarrow> metaDeletionTimestamp object \<noteq> None"
  using assms by (auto simp: convert_def flow_simps Let_def)

lemma Create_cases:
  assumes "Create client request w = (Inr a, w')"
  obtains (created) object w1 where "scCreate client (crNamespace request) (newAssignmentObject request) w1 = (Inr object, w')"
      "convert object = Inr a"
  | (replayed) existing a' w1 where "crName request \<noteq> []" "scGet client (crNamespace request) (crName request) w1 = (Inr existing, w')"
      "sameRequest request existing" "convert existing = Inr a'" "a = a'\<lparr>aExisting := True\<rparr>"
  using assms by (auto simp: Create_def replayCreate_def flow_simps split: if_splits)

lemma GetBySandboxID_cases:
  assumes "GetBySandboxID client namespace sandboxID w = (Inr a, w')"
  obtains (indexed) object where "scByIndex client sandboxID w = (Inr [object], w')" "convert object = Inr a"
  | (listed) object w1 where "scByIndex client sandboxID w = (Inr [], w1)"
      "scList client namespace (SandboxIDLabel @ ''='' @ sandboxID) 2 w1 = (Inr [object], w')" "convert object = Inr a"
proof -
  have short: "xs = []" if "\<forall>x. xs \<noteq> [x]" "\<not> Suc 0 < length xs" for xs :: "unstructured list"
    using that by (cases xs; cases "tl xs") auto
  from assms show ?thesis
    by (auto simp: GetBySandboxID_def flow_simps length_1_iff [unfolded One_nat_def] dest: short intro: that)
qed

interpretation kubernetes_store: assignment_store "Create client" "Get client" "GetBySandboxID client" for client :: "'w storeClient"
proof
  fix request w a w'
  assume "Create client request w = (Inr a, w')" "aExisting a"
  then show "crName request \<noteq> [] \<and> aIdempotencyKey a = crIdempotencyKey request \<and>
      aRequestHash a = crRequestHash request \<and> aLogicalTenant a = crLogicalTenant request"
    by (auto elim!: Create_cases dest: convert_fields simp: sameRequest_def)
next
  fix namespace name w a w'
  assume "Get client namespace name w = (Inr a, w')"
  then show "\<not> aExisting a \<and> (aReady a \<longleftrightarrow> list_ex readyCondition (aConditions a))"
    by (auto simp: Get_def flow_simps dest: convert_fields)
next
  fix namespace sandboxID w a w'
  assume "GetBySandboxID client namespace sandboxID w = (Inr a, w')"
  then show "\<not> aExisting a \<and> (aReady a \<longleftrightarrow> list_ex readyCondition (aConditions a))"
    by (auto elim!: GetBySandboxID_cases dest: convert_fields)
qed

subsection \<open>Idempotent creation\<close>

text \<open>
  What the API server documents: a create stores what was sent. Two views of the same incarnation of
  an assignment agree on the tenant, which the schema makes immutable, and on the request annotations,
  which nobody changes.
\<close>

definition keepsContent :: "'w storeClient \<Rightarrow> bool" where
  "keepsContent client \<longleftrightarrow>
     (\<forall>ns object w stored w'. scCreate client ns object w = (Inr stored, w') \<longrightarrow>
        metaAnnotations stored = metaAnnotations object \<and> uSpec stored = uSpec object)"

definition sameIncarnation :: "Assignment \<Rightarrow> Assignment \<Rightarrow> bool" where
  "sameIncarnation a1 a2 \<longleftrightarrow>
     aUID a1 = aUID a2 \<and> aIdempotencyKey a1 = aIdempotencyKey a2 \<and> aRequestHash a1 = aRequestHash a2 \<and>
     aLogicalTenant a1 = aLogicalTenant a2"

text \<open>
  The index holds an object under the identifiers of its index function, and a list with a label
  selector returns objects that carry the label.
\<close>

definition indexSound :: "'w storeClient \<Rightarrow> bool" where
  "indexSound client \<longleftrightarrow>
     (\<forall>k w objects w'. scByIndex client k w = (Inr objects, w') \<longrightarrow>
        (\<forall>object \<in> set objects. k \<in> set (sandboxIDsForObject object))) \<and>
     (\<forall>ns k n w objects w'. scList client ns (SandboxIDLabel @ ''='' @ k) n w = (Inr objects, w') \<longrightarrow>
        (\<forall>object \<in> set objects. getS (metaLabels object) SandboxIDLabel = k))"

definition sameIntent :: "CreateRequest \<Rightarrow> CreateRequest \<Rightarrow> bool" where
  "sameIntent r1 r2 \<longleftrightarrow>
     crIdempotencyKey r1 = crIdempotencyKey r2 \<and> crRequestHash r1 = crRequestHash r2 \<and> crLogicalTenant r1 = crLogicalTenant r2"

lemma newAssignmentObject_view:
  assumes "keepsContent client" "scCreate client ns (newAssignmentObject r) w = (Inr object, w')" "convert object = Inr a"
  shows "aIdempotencyKey a = crIdempotencyKey r \<and> aRequestHash a = crRequestHash r \<and> aLogicalTenant a = crLogicalTenant r"
proof -
  have "metaAnnotations object = metaAnnotations (newAssignmentObject r)" "uSpec object = uSpec (newAssignmentObject r)"
    using assms(1,2) unfolding keepsContent_def by blast+
  then show ?thesis using convert_fields [OF assms(3)] by (simp add: newAssignmentObject_def strAt_eq)
qed

subsection \<open>An example client\<close>

text \<open>One namespace that holds at most one assignment, and an update that conflicts a number of times.\<close>

type_synonym storeWorld = "unstructured option \<times> nat"

definition stBundle :: unstructured where
  "stBundle = \<lparr>metaNamespace = ''assignments'', metaName = ''tools'', metaGenerateName = [], metaUID = ''bundle-1'',
     metaResourceVersion = ''3'', metaGeneration = 1, metaCreationTimestamp = 0, metaDeletionTimestamp = None,
     metaLabels = Map.empty, metaAnnotations = Map.empty, metaFinalizers = [], metaOwnerReferences = [],
     uAPIVersion = ''aks-sandbox.azure.com/v1alpha1'', uKind = ''CapabilityBundle'', uSpec = JNull, uStatus = JNull\<rparr>"

definition stCreate :: "unstructured \<Rightarrow> (storeWorld, unstructured) call" where
  "stCreate object w =
     (case w of
        (None, n) \<Rightarrow> let stored = object\<lparr>metaUID := ''uid-'' @ getS (metaAnnotations object) RequestHashAnnotation @ ''/'' @
                            getS (metaAnnotations object) IdempotencyKeyAnnotation\<rparr>
                     in (Inr stored, (Some stored, n))
      | (Some _, n) \<Rightarrow> (Inl (ApiStatus ReasonAlreadyExists), w))"

definition stGet :: "(storeWorld, unstructured) call" where
  "stGet w = (case w of (None, n) \<Rightarrow> (Inl (ApiStatus ReasonNotFound), w) | (Some object, n) \<Rightarrow> (Inr object, w))"

definition stUpdate :: "unstructured \<Rightarrow> (storeWorld, unit) call" where
  "stUpdate object w =
     (case w of
        (stored, Suc n) \<Rightarrow> (Inl (ApiStatus ReasonConflict), (stored, n))
      | (stored, 0) \<Rightarrow> (Inr (), (Some object, 0)))"

definition stClient :: "storeWorld storeClient" where
  "stClient = \<lparr>scGetBundle = (\<lambda>_ _. okw stBundle), scCreate = (\<lambda>_. stCreate), scGet = (\<lambda>_ _. stGet),
     scList = (\<lambda>_ _ _. okw []), scUpdate = (\<lambda>_. stUpdate), scDelete = (\<lambda>_ _ w. (Inr (), (None, snd w))),
     scByIndex = (\<lambda>k w. (Inr (case fst w of None \<Rightarrow> [] | Some object \<Rightarrow>
        if k \<in> set (sandboxIDsForObject object) then [object] else []), w)),
     scRetryOnConflict = retryTimes 4\<rparr>"

definition stRequest :: "string \<Rightarrow> CreateRequest" where
  "stRequest hash = \<lparr>crNamespace = ''assignments'', crName = ''task-1'', crGenerateName = [], crTemplateName = [],
     crTemplateUID = [], crTemplateRevision = [], crLogicalTenant = ''blue'', crCapabilityBundleName = ''tools'',
     crIdempotencyKey = ''key'', crRequestHash = hash\<rparr>"

definition stObject :: unstructured where
  "stObject = (newAssignmentObject (stRequest ''h1''))\<lparr>metaUID := ''uid-h1/key''\<rparr>"

lemma stClient_retries: "retriesConflicts stClient"
  by (auto simp: retriesConflicts_def stClient_def dest: retryTimes_retried)

lemma stClient_keepsContent: "keepsContent stClient"
  by (auto simp: keepsContent_def stClient_def stCreate_def Let_def split: prod.splits option.splits)

lemma stClient_indexSound: "indexSound stClient"
  by (auto simp: indexSound_def stClient_def split: option.splits if_splits)

lemma stRequest_create:
  "\<exists>a. convert stObject = Inr a \<and> aUID a = ''uid-h1/key'' \<and> \<not> aExisting a \<and>
     Create stClient (stRequest ''h1'') (None, 0) = (Inr a, (Some stObject, 0))"
proof -
  obtain a where a: "convert stObject = Inr a"
    by (auto simp: convert_def stObject_def newAssignmentObject_def stRequest_def nestedString_def nestedSlice_def
        seqf_def Let_def)
  have "scCreate stClient (crNamespace (stRequest ''h1'')) (newAssignmentObject (stRequest ''h1'')) (None, 0) =
      (Inr stObject, (Some stObject, 0))"
    by (simp add: stClient_def stCreate_def stObject_def Let_def newAssignmentObject_def stRequest_def getS_def)
  moreover have "scGetBundle stClient ns n w = (Inr stBundle, w)" for ns n w by (simp add: stClient_def)
  moreover have "metaDeletionTimestamp stBundle = None" by (simp add: stBundle_def)
  ultimately have "Create stClient (stRequest ''h1'') (None, 0) = (Inr a, (Some stObject, 0))"
    using a by (simp add: Create_def bindw_def tryw_def attempt_def)
  with a convert_fields [OF a] show ?thesis by (simp add: stObject_def)
qed

text \<open>
  C24: a create that was retried finds the assignment of its first attempt. Suppose that a create made
  an assignment, and that a later create, by whatever request, names the same object and finds it
  there. If the later request has the same idempotency key, request hash and tenant, it returns
  that assignment, with the UID of the first and marked as existing; if any of the three differs,
  it is refused with \<open>ErrIdempotencyConflict\<close> and sees nothing of the assignment.
\<close>

theorem create_idempotent:
  assumes server: "keepsContent client"
    and first: "Create client r1 w = (Inr a1, w')" "\<not> aExisting a1"
    and bundle_ok: "scGetBundle client (crNamespace r2) (crCapabilityBundleName r2) v = (Inr b, v1)"
      "metaDeletionTimestamp b = None"
    and clash: "scCreate client (crNamespace r2) (newAssignmentObject r2) v1 = (Inl e, v2)" "isAlreadyExists e"
      "crName r2 \<noteq> []"
    and found: "scGet client (crNamespace r2) (crName r2) v2 = (Inr o2, v3)" "convert o2 = Inr a" "sameIncarnation a1 a"
  shows "Create client r2 v =
    (if sameIntent r1 r2 then (Inr (a\<lparr>aExisting := True\<rparr>), v3) else (Inl ErrIdempotencyConflict, v3)) \<and> aUID a = aUID a1"
proof -
  from first obtain o1 w1 where made: "scCreate client (crNamespace r1) (newAssignmentObject r1) w1 = (Inr o1, w')"
    and a1: "convert o1 = Inr a1"
    by (auto elim: Create_cases)
  have same: "sameRequest r2 o2 \<longleftrightarrow> sameIntent r1 r2"
    using newAssignmentObject_view [OF server made a1] convert_fields(6-8) [OF found(2)] found(3)
    by (auto simp: sameRequest_def sameIntent_def sameIncarnation_def)
  have "Create client r2 v = replayCreate client r2 v2"
    using bundle_ok clash by (simp add: Create_def bindw_def tryw_def attempt_def)
  also have "\<dots> = (if sameIntent r1 r2 then (Inr (a\<lparr>aExisting := True\<rparr>), v3) else (Inl ErrIdempotencyConflict, v3))"
    using found same by (simp add: replayCreate_def bindw_def)
  finally show ?thesis using found(3) by (simp add: sameIncarnation_def)
qed

theorem create_idempotent_witness:
  "\<exists>a. aUID a = ''uid-h1/key'' \<and>
     Create stClient (stRequest ''h1'') (Some stObject, 0) = (Inr (a\<lparr>aExisting := True\<rparr>), (Some stObject, 0)) \<and>
     Create stClient (stRequest ''h2'') (Some stObject, 0) = (Inl ErrIdempotencyConflict, (Some stObject, 0))"
proof -
  obtain a where a: "convert stObject = Inr a" "aUID a = ''uid-h1/key''" "\<not> aExisting a"
    and first: "Create stClient (stRequest ''h1'') (None, 0) = (Inr a, (Some stObject, 0))"
    using stRequest_create by blast
  have replay: "Create stClient (stRequest h) (Some stObject, 0) =
      (if sameIntent (stRequest ''h1'') (stRequest h) then (Inr (a\<lparr>aExisting := True\<rparr>), (Some stObject, 0))
       else (Inl ErrIdempotencyConflict, (Some stObject, 0))) \<and> aUID a = aUID a" for h
    by (rule create_idempotent [OF stClient_keepsContent first a(3), where b = stBundle and ?o2.0 = stObject
          and ?v1.0 = "(Some stObject, 0)" and ?v2.0 = "(Some stObject, 0)" and e = "ApiStatus ReasonAlreadyExists"])
      (simp_all add: a(1) sameIncarnation_def, simp_all add: stClient_def stBundle_def stCreate_def stGet_def stRequest_def)
  from replay [of "''h1''"] replay [of "''h2''"] a(2) show ?thesis
    by (intro exI [of _ a]) (simp add: sameIntent_def stRequest_def)
qed

subsection \<open>Fences and the sandbox ID\<close>

text \<open>What a retried function last did: a run of its body that ended in the result.\<close>

lemma retried_last:
  "retried c w r w' \<Longrightarrow> \<exists>w1. (w, w1) \<in> {(x, y). y = snd (c x)}\<^sup>* \<and> c w1 = (r, w')"
proof (induction rule: retried.induct)
  case (again c w e w1 r w')
  then obtain w2 where tail: "(w1, w2) \<in> {(x, y). y = snd (c x)}\<^sup>*" and run: "c w2 = (r, w')" by blast
  have "(w, w1) \<in> {(x, y). y = snd (c x)}" using again(1) by simp
  then have "(w, w2) \<in> {(x, y). y = snd (c x)}\<^sup>*" using tail by (rule converse_rtrancl_into_rtrancl)
  with run show ?case by blast
qed blast

lemma updateObjectMetadata_last:
  assumes "retriesConflicts client" "updateObjectMetadata client ns name mutate w = (Inr (), w')"
  shows "\<exists>w1 w2 object. (w, w1) \<in> {(x, y). y = snd (updateAttempt client ns name mutate x)}\<^sup>* \<and>
    scGet client ns name w1 = (Inr object, w2) \<and> scUpdate client ns (mutateMetadata mutate object) w2 = (Inr (), w')"
proof -
  have "retried (updateAttempt client ns name mutate) w (Inr ()) w'"
    using assms unfolding retriesConflicts_def updateObjectMetadata_def by blast
  from retried_last [OF this] obtain w1 where
    reach: "(w, w1) \<in> {(x, y). y = snd (updateAttempt client ns name mutate x)}\<^sup>*"
    and run: "updateAttempt client ns name mutate w1 = (Inr (), w')"
    by blast
  from run obtain object w2 where "scGet client ns name w1 = (Inr object, w2)"
    "scUpdate client ns (mutateMetadata mutate object) w2 = (Inr (), w')"
    unfolding updateAttempt_def bindw_Inr by blast
  with reach show ?thesis by blast
qed

text \<open>Everything but the two fence annotations.\<close>

definition sameButFence :: "unstructured \<Rightarrow> unstructured \<Rightarrow> bool" where
  "sameButFence before after \<longleftrightarrow>
     (\<exists>paused resume. after = before\<lparr>metaAnnotations := (metaAnnotations before)
        (PausedAnnotation := paused, ResumeAfterPodUIDAnnotation := resume)\<rparr>)"

lemma fenceMutation_object:
  "mutateMetadata (fenceMutation paused uid) object =
     object\<lparr>metaAnnotations := (metaAnnotations object)
        (PausedAnnotation := if paused then Some ''true'' else None,
         ResumeAfterPodUIDAnnotation := if uid \<noteq> [] then Some uid else None)\<rparr>"
  by (simp add: mutateMetadata_def fenceMutation_def Let_def)

text \<open>
  a lifecycle fence is written whole and on a fresh object. When \<open>SetLifecycleFence\<close> succeeds,
  however many conflicts it met, its last act was to read the assignment and to write back exactly
  what it read with both fences set: paused as asked, and the Pod UID that a resume must see
  replaced as given, each removed when it is off. In particular it lifts a pause, or a resume
  fence, that was there before and was not asked for again.
\<close>

theorem fence_written:
  assumes "retriesConflicts client" and "SetLifecycleFence client ns name paused uid w = (Inr (), w')"
  shows "\<exists>w1 w2 before after.
    (w, w1) \<in> {(x, y). y = snd (updateAttempt client ns name (fenceMutation paused uid) x)}\<^sup>* \<and>
    scGet client ns name w1 = (Inr before, w2) \<and> scUpdate client ns after w2 = (Inr (), w') \<and>
    sameButFence before after \<and>
    (getS (metaAnnotations after) PausedAnnotation = ''true'' \<longleftrightarrow> paused) \<and>
    getS (metaAnnotations after) ResumeAfterPodUIDAnnotation = uid"
proof -
  from updateObjectMetadata_last [OF assms(1) assms(2) [unfolded SetLifecycleFence_def]] obtain w1 w2 before where
    run: "(w, w1) \<in> {(x, y). y = snd (updateAttempt client ns name (fenceMutation paused uid) x)}\<^sup>*"
      "scGet client ns name w1 = (Inr before, w2)"
      "scUpdate client ns (mutateMetadata (fenceMutation paused uid) before) w2 = (Inr (), w')"
    by blast
  let ?after = "mutateMetadata (fenceMutation paused uid) before"
  have "sameButFence before ?after" unfolding fenceMutation_object sameButFence_def by blast
  moreover have "(getS (metaAnnotations ?after) PausedAnnotation = ''true'' \<longleftrightarrow> paused) \<and>
      getS (metaAnnotations ?after) ResumeAfterPodUIDAnnotation = uid"
    by (auto simp: fenceMutation_object getS_def)
  ultimately show ?thesis using run by blast
qed

theorem fence_written_witness:
  "\<exists>before after. sameButFence before after \<and> getS (metaAnnotations after) PausedAnnotation = ''true'' \<and>
     getS (metaAnnotations after) ResumeAfterPodUIDAnnotation = ''pod-1'' \<and>
     (\<exists>w. scUpdate stClient ''assignments'' after w =
        (Inr (), (Some (mutateMetadata (fenceMutation True ''pod-1'') stObject), 0)))"
proof -
  have "SetLifecycleFence stClient ''assignments'' ''task-1'' True ''pod-1'' (Some stObject, 2) =
      (Inr (), (Some (mutateMetadata (fenceMutation True ''pod-1'') stObject), 0))"
    by (simp add: SetLifecycleFence_def updateObjectMetadata_def updateAttempt_def stClient_def bindw_def stGet_def
        stUpdate_def numeral_2_eq_2 numeral_eq_Suc)
  from fence_written [OF stClient_retries this] show ?thesis by blast
qed

text \<open>The ways in which an object belongs to a sandbox ID.\<close>

definition mapsTo :: "unstructured \<Rightarrow> string \<Rightarrow> bool" where
  "mapsTo object sandboxID \<longleftrightarrow>
     getS (metaAnnotations object) SandboxIDAnnotation = sandboxID \<or>
     (\<exists>r. objectReference (uStatus object) ''workloadRef'' = Some r \<and> orName r = sandboxID) \<or>
     getS (metaLabels object) SandboxIDLabel = sandboxID"

lemma workloadName_reference:
  "strAt status [''workloadRef'', ''name''] \<noteq> [] \<Longrightarrow>
   \<exists>r. objectReference status ''workloadRef'' = Some r \<and> orName r = strAt status [''workloadRef'', ''name'']"
  by (cases status) (auto simp: strAt_eq objectReference_def nestedMap_def stringField_def jsonGet_def
      split: option.splits json.splits sum.splits)

lemma sandboxIDs_mapsTo: "sandboxID \<in> set (sandboxIDsForObject object) \<Longrightarrow> mapsTo object sandboxID"
  using workloadName_reference [of "uStatus object"]
  by (auto simp: sandboxIDsForObject_def mapsTo_def Let_def split: if_splits)

text \<open>
  a sandbox ID leads to the one assignment it belongs to. The assignment that
  \<open>GetBySandboxID\<close> returns is the view of an object that maps to the ID, by its annotation, its
  workload or its label, and the index, or the label when the index knows nothing, had no second
  object for that ID. An ID with two objects in the index is always refused.
\<close>

theorem lookup_unambiguous:
  assumes "indexSound client" and "GetBySandboxID client ns sandboxID w = (Inr a, w')"
  shows "\<exists>object. convert object = Inr a \<and> mapsTo object sandboxID \<and>
    (scByIndex client sandboxID w = (Inr [object], w') \<or>
     (\<exists>w1. scByIndex client sandboxID w = (Inr [], w1) \<and>
           scList client ns (SandboxIDLabel @ ''='' @ sandboxID) 2 w1 = (Inr [object], w')))"
  using assms(2)
proof (cases rule: GetBySandboxID_cases)
  case (indexed object)
  then have "sandboxID \<in> set (sandboxIDsForObject object)"
    using assms(1) unfolding indexSound_def by (metis list.set_intros(1))
  with indexed show ?thesis using sandboxIDs_mapsTo by blast
next
  case (listed object w1)
  then have "getS (metaLabels object) SandboxIDLabel = sandboxID"
    using assms(1) unfolding indexSound_def by (metis list.set_intros(1))
  with listed show ?thesis unfolding mapsTo_def by blast
qed

theorem lookup_unambiguous_witness:
  "\<exists>a object. GetBySandboxID stClient ''assignments'' ''sandbox''
       (Some (stObject\<lparr>metaAnnotations := [SandboxIDAnnotation \<mapsto> ''sandbox'']\<rparr>), 0) =
     (Inr a, (Some (stObject\<lparr>metaAnnotations := [SandboxIDAnnotation \<mapsto> ''sandbox'']\<rparr>), 0)) \<and>
     convert object = Inr a \<and> mapsTo object ''sandbox''"
proof -
  let ?o = "stObject\<lparr>metaAnnotations := [SandboxIDAnnotation \<mapsto> ''sandbox'']\<rparr>"
  obtain a where "convert ?o = Inr a"
    by (auto simp: convert_def stObject_def newAssignmentObject_def stRequest_def nestedString_def nestedSlice_def
        seqf_def Let_def)
  then have run: "GetBySandboxID stClient ''assignments'' ''sandbox'' (Some ?o, 0) = (Inr a, (Some ?o, 0))"
    by (simp add: GetBySandboxID_def stClient_def bindw_def sandboxIDsForObject_def getS_def Let_def)
  from lookup_unambiguous [OF stClient_indexSound run] run show ?thesis by blast
qed

end
