(* ===== verification/Callerauth.thy ===== *)
theory Callerauth
  imports GoHttp
begin

section \<open>Authentication of the lifecycle callers\<close>

text \<open>
  \<open>internal/assignment/callerauth/authenticator.go\<close>. A caller presents a service account token of
  the dedicated audience; the binding of its service account says for which tenants it may act. The
  middleware puts the tenants into the context of the request, \<open>rqScopes\<close>, and \<open>AuthorizeTenant\<close>
  reads them there. The token review and the list of bindings are the calls of \<open>authClient\<close>.

  The locale \<open>caller_authorizer\<close> is the interface \<open>CallerAuthorizer\<close> of
  \<open>internal/assignment/opensandboxapi/handler.go\<close>.
\<close>

record 'w authClient =
  acTokenReview :: "string \<Rightarrow> string list \<Rightarrow> ('w, token_review_status) call"
  acListBindings :: "string \<Rightarrow> ('w, unstructured list) call"

record authenticator =
  authNamespace :: string
  authAudience :: string

definition newAuthenticator :: "bool \<Rightarrow> bool \<Rightarrow> string \<Rightarrow> string \<Rightarrow> go_error + authenticator" where
  "newAuthenticator kubeNil dynamicNil namespace audience =
     (if kubeNil \<or> dynamicNil \<or> namespace = [] \<or> audience = []
      then Inl (ErrNew ''caller authenticator requires Kubernetes clients, namespace, and audience'')
      else Inr \<lparr>authNamespace = namespace, authAudience = audience\<rparr>)"

definition bearerToken :: "string \<Rightarrow> string option" where
  "bearerToken value =
     (case cutAt (CHR '' '') (trimSpace value) of (scheme, token, ok) \<Rightarrow>
        if ok \<and> equalFold scheme ''Bearer'' \<and> token \<noteq> [] \<and> \<not> containsChar token (CHR '' '') then Some token else None)"

definition serviceAccountIdentity :: "string \<Rightarrow> (string \<times> string) option" where
  "serviceAccountIdentity username =
     (case cutPrefix username ''system:serviceaccount:'' of
        None \<Rightarrow> None
      | Some value \<Rightarrow>
          (case cutAt (CHR '':'') value of (namespace, name, ok) \<Rightarrow>
             if ok \<and> namespace \<noteq> [] \<and> name \<noteq> [] \<and> \<not> containsChar name (CHR '':'') then Some (namespace, name) else None))"

text \<open>\<open>values, _, _ := unstructured.NestedStringSlice(...)\<close>: empty unless every element is a string.\<close>

fun stringsOf :: "json list \<Rightarrow> string list option" where
  "stringsOf [] = Some []"
| "stringsOf (JStr s # xs) = map_option ((#) s) (stringsOf xs)"
| "stringsOf (_ # _) = None"

definition stringSliceAt :: "json \<Rightarrow> string list \<Rightarrow> string list" where
  "stringSliceAt j fs =
     (case nestedField j fs of
        Inr (Some (JArr xs)) \<Rightarrow> (case stringsOf xs of None \<Rightarrow> [] | Some ss \<Rightarrow> ss)
      | _ \<Rightarrow> [])"

definition bindingMatches :: "string \<Rightarrow> string \<Rightarrow> unstructured \<Rightarrow> bool" where
  "bindingMatches namespace name item \<longleftrightarrow>
     metaDeletionTimestamp item = None \<and> strAt (uSpec item) [''serviceAccountNamespace''] = namespace \<and>
     strAt (uSpec item) [''serviceAccountName''] = name"

definition bindingTenants :: "unstructured \<Rightarrow> string list" where
  "bindingTenants item = stringSliceAt (uSpec item) [''requesterTenants'']"

text \<open>The loop over the bindings; \<open>None\<close> is the nil map.\<close>

fun matchBindings :: "string \<Rightarrow> string \<Rightarrow> unstructured list \<Rightarrow> string list option \<Rightarrow> go_error + string list option" where
  "matchBindings namespace name [] matched = Inr matched"
| "matchBindings namespace name (item # items) matched =
     (if \<not> bindingMatches namespace name item then matchBindings namespace name items matched
      else if matched \<noteq> None
      then Inl (ErrNew ''service account must have exactly one active principal binding'')
      else matchBindings namespace name items (Some (bindingTenants item)))"

definition serviceAccountTenants ::
  "'w authClient \<Rightarrow> authenticator \<Rightarrow> string \<Rightarrow> string \<Rightarrow> ('w, string list) call" where
  "serviceAccountTenants client a namespace name =
     bindw (acListBindings client (authNamespace a)) (\<lambda>items.
     bindw (liftf (matchBindings namespace name items None)) (\<lambda>matched.
     let tenants = (case matched of None \<Rightarrow> [] | Some ts \<Rightarrow> ts) in
     bindw (guardw (tenants = []) (ErrNew ''service account has no authorized logical tenant'')) (\<lambda>_.
       retw tenants)))"

text \<open>Who the caller is, or the response that refuses it.\<close>

definition authenticate ::
  "'w authClient \<Rightarrow> authenticator \<Rightarrow> request \<Rightarrow> (response, 'w, string list) step" where
  "authenticate client a r =
     bindw (liftf (case bearerToken (headerGet (rqHeaders r) ''Authorization'') of
                     None \<Rightarrow> Inl (httpError ''Unauthorized'' 401) | Some token \<Rightarrow> Inr token)) (\<lambda>token.
     bindw (tryw (acTokenReview client token [authAudience a])
       (\<lambda>_. httpError ''Caller authentication is unavailable'' 503)) (\<lambda>review.
     bindw (guardw (\<not> trAuthenticated review \<or> trAudiences review = []) (httpError ''Unauthorized'' 401)) (\<lambda>_.
     bindw (liftf (case serviceAccountIdentity (trUsername review) of
                     None \<Rightarrow> Inl (httpError ''Forbidden'' 403) | Some identity \<Rightarrow> Inr identity)) (\<lambda>(namespace, name).
       tryw (serviceAccountTenants client a namespace name) (\<lambda>_. httpError ''Forbidden'' 403)))))"

definition withScopes :: "request \<Rightarrow> string list \<Rightarrow> request" where
  "withScopes r tenants = r\<lparr>rqHeaders := headerDel (rqHeaders r) ''Authorization'', rqScopes := Some tenants\<rparr>"

definition Middleware ::
  "'w authClient \<Rightarrow> authenticator \<Rightarrow> (request \<Rightarrow> 'w \<Rightarrow> response \<times> 'w) \<Rightarrow> request \<Rightarrow> 'w \<Rightarrow> response \<times> 'w" where
  "Middleware client a serveNext r w =
     (case authenticate client a r w of
        (Inl refused, w') \<Rightarrow> (refused, w')
      | (Inr tenants, w') \<Rightarrow> serveNext (withScopes r tenants) w')"

definition AuthorizeTenant :: "request \<Rightarrow> string \<Rightarrow> go_error option" where
  "AuthorizeTenant r logicalTenant =
     (case rqScopes r of
        None \<Rightarrow> Some (ErrNew ''caller identity is unavailable'')
      | Some tenants \<Rightarrow>
          if logicalTenant \<in> set tenants then None
          else Some (ErrNew ''caller is not authorized for the logical tenant''))"

subsection \<open>The interface\<close>

locale caller_authorizer =
  fixes authorizeTenant :: "request \<Rightarrow> string \<Rightarrow> go_error option"
    and scope :: "request \<Rightarrow> string set"
  assumes authorized_iff: "authorizeTenant r tenant = None \<longleftrightarrow> tenant \<in> scope r"
begin

lemma refused_outside: "tenant \<notin> scope r \<Longrightarrow> \<exists>e. authorizeTenant r tenant = Some e"
  using authorized_iff [of r tenant] by (cases "authorizeTenant r tenant") auto

end

definition scopeOf :: "request \<Rightarrow> string set" where
  "scopeOf r = (case rqScopes r of None \<Rightarrow> {} | Some tenants \<Rightarrow> set tenants)"

interpretation kubernetes_authorizer: caller_authorizer AuthorizeTenant scopeOf
  by unfold_locales (auto simp: AuthorizeTenant_def scopeOf_def split: option.splits)

subsection \<open>Who is authenticated\<close>

lemma matchBindings_iff:
  "matchBindings namespace name items (Some ts) = Inr m \<longleftrightarrow>
     m = Some ts \<and> (\<forall>item \<in> set items. \<not> bindingMatches namespace name item)"
  "matchBindings namespace name items None = Inr m \<longleftrightarrow>
     (case filter (bindingMatches namespace name) items of
        [] \<Rightarrow> m = None | [item] \<Rightarrow> m = Some (bindingTenants item) | _ \<Rightarrow> False)"
proof -
  show some: "matchBindings namespace name items (Some ts) = Inr m \<longleftrightarrow>
     m = Some ts \<and> (\<forall>item \<in> set items. \<not> bindingMatches namespace name item)" for items ts
    by (induction items) auto
  show "matchBindings namespace name items None = Inr m \<longleftrightarrow>
     (case filter (bindingMatches namespace name) items of
        [] \<Rightarrow> m = None | [item] \<Rightarrow> m = Some (bindingTenants item) | _ \<Rightarrow> False)"
  proof (induction items)
    case (Cons item items)
    show ?case
    proof (cases "bindingMatches namespace name item")
      case True
      then have "matchBindings namespace name (item # items) None = Inr m \<longleftrightarrow>
          m = Some (bindingTenants item) \<and> filter (bindingMatches namespace name) items = []"
        by (simp add: some filter_empty_conv)
      with True show ?thesis by (cases "filter (bindingMatches namespace name) items") simp_all
    qed (simp add: Cons)
  qed auto
qed

lemma serviceAccountTenants_iff:
  "serviceAccountTenants client a namespace name w = (Inr tenants, w') \<longleftrightarrow>
     (\<exists>items item. acListBindings client (authNamespace a) w = (Inr items, w') \<and>
        filter (bindingMatches namespace name) items = [item] \<and> tenants = bindingTenants item \<and> tenants \<noteq> [])"
  (is "?lhs \<longleftrightarrow> ?rhs")
proof
  assume ?lhs
  then obtain items where run: "acListBindings client (authNamespace a) w = (Inr items, w')"
    "matchBindings namespace name items None = Inr (Some tenants)" "tenants \<noteq> []"
    by (auto simp: serviceAccountTenants_def Let_def flow_simps split: option.splits)
  then show ?rhs unfolding matchBindings_iff(2) by (auto split: list.splits)
next
  assume ?rhs
  then obtain items item where run: "acListBindings client (authNamespace a) w = (Inr items, w')"
    "filter (bindingMatches namespace name) items = [item]" "tenants = bindingTenants item" "tenants \<noteq> []"
    by blast
  then have "matchBindings namespace name items None = Inr (Some tenants)"
    unfolding matchBindings_iff(2) by simp
  with run show ?lhs by (simp add: serviceAccountTenants_def bindw_def)
qed

text \<open>
  a service account acts for the tenants of its one binding. The tenants of a service account
  are found exactly when the bindings could be listed, exactly one of them that is not being
  deleted names the service account, and that one lists at least one tenant; they are then the
  tenants it lists. Two bindings for one service account give nothing at all.
\<close>

theorem tenants_of_binding:
  "serviceAccountTenants client a namespace name w = (Inr tenants, w') \<longleftrightarrow>
     (\<exists>items item. acListBindings client (authNamespace a) w = (Inr items, w') \<and>
        filter (bindingMatches namespace name) items = [item] \<and> tenants = bindingTenants item \<and> tenants \<noteq> [])"
  by (rule serviceAccountTenants_iff)

lemma authenticate_Inr:
  assumes "authenticate client a r w = (Inr tenants, w')"
  shows "\<exists>token review namespace name items item w1.
    bearerToken (headerGet (rqHeaders r) ''Authorization'') = Some token \<and>
    acTokenReview client token [authAudience a] w = (Inr review, w1) \<and> trAuthenticated review \<and> trAudiences review \<noteq> [] \<and>
    serviceAccountIdentity (trUsername review) = Some (namespace, name) \<and>
    acListBindings client (authNamespace a) w1 = (Inr items, w') \<and>
    filter (bindingMatches namespace name) items = [item] \<and> tenants = bindingTenants item \<and> tenants \<noteq> []"
  using assms
  by (auto simp: authenticate_def flow_simps serviceAccountTenants_iff split: option.splits)

text \<open>
  C7: nobody passes the middleware unauthenticated. For every handler behind it, a request is either
  refused with 401, 403 or 503 without reaching the handler, or the caller presented a bearer token
  that the token review confirmed for an audience, it belongs to a service account, and exactly one
  binding names that service account and lists tenants. The handler then runs exactly once, on the
  request without its \<open>Authorization\<close> header, and \<open>AuthorizeTenant\<close> accepts in it exactly the tenants
  of that binding, whatever the context held before.
\<close>

theorem middleware_authenticates:
  assumes "Middleware client a serveNext r w = (response, w')"
  shows "(authenticate client a r w = (Inl response, w') \<and> rspStatus response \<in> {401, 403, 503}) \<or>
    (\<exists>token review namespace name items item w1 w2 r'.
       bearerToken (headerGet (rqHeaders r) ''Authorization'') = Some token \<and>
       acTokenReview client token [authAudience a] w = (Inr review, w1) \<and> trAuthenticated review \<and>
       trAudiences review \<noteq> [] \<and> serviceAccountIdentity (trUsername review) = Some (namespace, name) \<and>
       acListBindings client (authNamespace a) w1 = (Inr items, w2) \<and>
       filter (bindingMatches namespace name) items = [item] \<and>
       serveNext r' w2 = (response, w') \<and> headerGet (rqHeaders r') ''Authorization'' = [] \<and>
       (\<forall>tenant. AuthorizeTenant r' tenant = None \<longleftrightarrow> tenant \<in> set (bindingTenants item)))"
proof (cases "authenticate client a r w")
  case (Pair s w2)
  show ?thesis
  proof (cases s)
    case (Inl refused)
    then have "rspStatus refused \<in> {401, 403, 503}"
      using Pair by (auto simp: authenticate_def flow_simps split: option.splits)
    with Inl Pair assms show ?thesis by (simp add: Middleware_def)
  next
    case (Inr tenants)
    let ?r = "withScopes r tenants"
    have "serveNext ?r w2 = (response, w')" using assms Pair Inr by (simp add: Middleware_def)
    moreover have "headerGet (rqHeaders ?r) ''Authorization'' = []" by (simp add: withScopes_def)
    moreover have "\<forall>tenant. AuthorizeTenant ?r tenant = None \<longleftrightarrow> tenant \<in> set tenants"
      by (simp add: kubernetes_authorizer.authorized_iff scopeOf_def withScopes_def)
    ultimately show ?thesis using authenticate_Inr [of client a r w tenants w2] Pair Inr by blast
  qed
qed

text \<open>A caller of the example cluster.\<close>

definition caBinding :: "string \<Rightarrow> unstructured" where
  "caBinding name = \<lparr>metaNamespace = ''assignments'', metaName = name, metaGenerateName = [], metaUID = name,
     metaResourceVersion = ''1'', metaGeneration = 1, metaCreationTimestamp = 0, metaDeletionTimestamp = None,
     metaLabels = Map.empty, metaAnnotations = Map.empty, metaFinalizers = [], metaOwnerReferences = [],
     uAPIVersion = ''aks-sandbox.azure.com/v1alpha1'', uKind = ''SandboxPrincipalBinding'',
     uSpec = JObj [(''serviceAccountNamespace'', JStr ''tools''), (''serviceAccountName'', JStr name),
                   (''requesterTenants'', JArr [JStr ''blue''])], uStatus = JNull\<rparr>"

definition caClient :: "unit authClient" where
  "caClient = \<lparr>acTokenReview = (\<lambda>token audiences w. (Inr \<lparr>trAuthenticated = True, trError = [], trAudiences = audiences,
       trUsername = ''system:serviceaccount:tools:'' @ token, trExtra = (\<lambda>_. [])\<rparr>, w)),
     acListBindings = (\<lambda>_. okw [caBinding ''runner'', caBinding ''other''])\<rparr>"

definition caAuthenticator :: authenticator where
  "caAuthenticator = \<lparr>authNamespace = ''assignments'', authAudience = ''assignmentd''\<rparr>"

definition caRequest :: request where
  "caRequest = \<lparr>rqMethod = ''GET'', rqPath = ''/'', rqHeaders = [(''Authorization'', [''Bearer runner''])],
     rqBody = Inr [], rqScopes = None\<rparr>"

definition caNext :: "request \<Rightarrow> unit \<Rightarrow> response \<times> unit" where
  "caNext r w = (\<lparr>rspStatus = 200, rspHeaders = [], rspBody = concat (case rqScopes r of None \<Rightarrow> [] | Some ts \<Rightarrow> ts)\<rparr>, w)"

theorem middleware_authenticates_witness:
  "\<exists>item r'. Middleware caClient caAuthenticator caNext caRequest () =
       (\<lparr>rspStatus = 200, rspHeaders = [], rspBody = ''blue''\<rparr>, ()) \<and>
     caNext r' () = (\<lparr>rspStatus = 200, rspHeaders = [], rspBody = ''blue''\<rparr>, ()) \<and>
     headerGet (rqHeaders r') ''Authorization'' = [] \<and>
     (\<forall>tenant. AuthorizeTenant r' tenant = None \<longleftrightarrow> tenant \<in> set (bindingTenants item))"
proof -
  have token: "bearerToken (headerGet (rqHeaders caRequest) ''Authorization'') = Some ''runner''"
    by code_simp
  have ident: "serviceAccountIdentity ''system:serviceaccount:tools:runner'' = Some (''tools'', ''runner'')"
    by code_simp
  have "matchBindings ''tools'' ''runner'' [caBinding ''runner'', caBinding ''other''] None = Inr (Some [''blue''])"
    by (simp add: bindingMatches_def bindingTenants_def caBinding_def strAt_eq stringSliceAt_def)
  then have auth: "authenticate caClient caAuthenticator caRequest () = (Inr [''blue''], ())"
    by (simp add: authenticate_def token bindw_def tryw_def caClient_def ident serviceAccountTenants_def Let_def
        caAuthenticator_def)
  then have run: "Middleware caClient caAuthenticator caNext caRequest () =
      (\<lparr>rspStatus = 200, rspHeaders = [], rspBody = ''blue''\<rparr>, ())"
    by (simp add: Middleware_def caNext_def withScopes_def)
  from middleware_authenticates [OF run] auth run show ?thesis by auto
qed

end
