(* ===== verification/Handler.thy ===== *)
theory Handler
  imports Admission Template Store Callerauth GoUrl
begin

section \<open>The OpenSandbox facade\<close>

text \<open>
  \<open>internal/assignment/opensandboxapi/handler.go\<close>. The facade stands between the callers and the
  OpenSandbox lifecycle server. It creates sandboxes from templates only, fences pause and resume
  with the assignment, deletes by deleting the assignment, and proxies everything else.

  A method that writes a response and returns is a step that exits with \<open>Some\<close> response; \<open>None\<close>
  says that a polling loop was still waiting when its fuel ran out. \<open>handler\<close> holds the
  configuration with the interfaces it is given, the transport to the upstream server, the clock,
  the polling of \<open>waitReady\<close>, and the JSON codec of the SDK types. \<open>createMu\<close>, which makes the
  admission and the creation of an assignment one critical section per process, is not visible in
  a sequential run.
\<close>

subsection \<open>Interfaces and configuration\<close>

record 'w assignmentStore =
  asCreate :: "CreateRequest \<Rightarrow> ('w, Assignment) call"
  asGet :: "string \<Rightarrow> string \<Rightarrow> ('w, Assignment) call"
  asGetBySandboxID :: "string \<Rightarrow> string \<Rightarrow> ('w, Assignment) call"
  asSetSandboxID :: "string \<Rightarrow> string \<Rightarrow> string \<Rightarrow> ('w, unit) call"
  asSetLifecycleFence :: "string \<Rightarrow> string \<Rightarrow> bool \<Rightarrow> string \<Rightarrow> ('w, unit) call"
  asDelete :: "string \<Rightarrow> string \<Rightarrow> ('w, unit) call"

definition kubernetesStore :: "'w storeClient \<Rightarrow> 'w assignmentStore" where
  "kubernetesStore client = \<lparr>asCreate = Create client, asGet = Get client, asGetBySandboxID = GetBySandboxID client,
     asSetSandboxID = SetSandboxID client, asSetLifecycleFence = SetLifecycleFence client, asDelete = Delete client\<rparr>"

definition CapabilityProfileExtension :: string where
  "CapabilityProfileExtension = ''aks-sandbox.azure.com/capabilityProfile''"
definition SandboxTemplateExtension :: string where
  "SandboxTemplateExtension = ''aks-sandbox.azure.com/template''"
definition SandboxTemplateRevisionExtension :: string where
  "SandboxTemplateRevisionExtension = ''aks-sandbox.azure.com/templateRevision''"
definition assignmentUIDExtension :: string where
  "assignmentUIDExtension = ''opensandbox.extensions.aks-sandbox-assignment-uid''"
definition defaultPrefix :: string where "defaultPrefix = ''/opensandbox''"
definition maxCreateBodyBytes :: nat where "maxCreateBodyBytes = 4 * 2 ^ 20"

lemmas extension_defs = CapabilityProfileExtension_def SandboxTemplateExtension_def
  SandboxTemplateRevisionExtension_def assignmentUIDExtension_def AssignmentLabel_def

record 'sdk createSandboxResponse =
  crspID :: string
  crspStatus :: 'sdk
  crspMetadata :: "strmap option"
  crspExtensions :: "strmap option"
  crspPlatform :: "'sdk option"
  crspExpiresAt :: "time option"
  crspCreatedAt :: time
  crspEntrypoint :: "string list"

record 'sdk sandboxResponse =
  srspID :: string
  srspImage :: "'sdk option"
  srspSnapshotID :: string
  srspStatus :: 'sdk
  srspMetadata :: "strmap option"
  srspExtensions :: "strmap option"
  srspEntrypoint :: "string list"
  srspExpiresAt :: "time option"
  srspCreatedAt :: time
  srspPlatform :: "'sdk option"

record 'sdk listSandboxesResponse =
  lrspItems :: "'sdk sandboxResponse list"
  lrspPagination :: 'sdk

record outbound =
  obMethod :: string
  obPath :: string
  obHeaders :: header
  obBody :: string

record 'sdk codec =
  decodeCreate :: "string \<Rightarrow> go_error + 'sdk CreateSandboxRequest"
  encodeCreate :: "'sdk CreateSandboxRequest \<Rightarrow> go_error + string"
  decodeCreated :: "string \<Rightarrow> go_error + 'sdk createSandboxResponse"
  encodeCreated :: "'sdk createSandboxResponse \<Rightarrow> go_error + string"
  decodeSandbox :: "string \<Rightarrow> go_error + 'sdk sandboxResponse"
  encodeSandbox :: "'sdk sandboxResponse \<Rightarrow> go_error + string"
  decodeList :: "string \<Rightarrow> go_error + 'sdk listSandboxesResponse"
  encodeList :: "'sdk listSandboxesResponse \<Rightarrow> go_error + string"
  decodePatch :: "string \<Rightarrow> go_error + strmap"
  statusPending :: 'sdk

record ('sdk, 'w) handler =
  hStore :: "'w assignmentStore"
  hPrefix :: string
  hUpstreamPath :: string
  hAPIKey :: string
  hNamespace :: string
  hTransitionTimeout :: int
  hAdmission :: "(string \<Rightarrow> 'sdk CreateSandboxRequest \<Rightarrow> 'w \<Rightarrow> ((go_error + ('w \<Rightarrow> 'w)) \<times> 'w) option) option"
  hTemplates :: "string \<Rightarrow> ('w, ResolvedTemplate) call"
  hCallerAuthorizer :: "(request \<Rightarrow> string \<Rightarrow> go_error option) option"
  hRequireIdempotency :: bool
  hPendingOperationTTL :: int
  hDo :: "outbound \<Rightarrow> ('w, response) call"
  hRoundTrip :: "outbound \<Rightarrow> ('w, response) call"
  hForwardHeaders :: "header \<Rightarrow> header"
  hNow :: "'w \<Rightarrow> time \<times> 'w"
  hPoll :: "int \<Rightarrow> 'w \<Rightarrow> go_error option \<times> 'w"
  hCodec :: "'sdk codec"

text \<open>\<open>NewHandler\<close>: \<open>None\<close> when it panics, else the configuration with its defaults.\<close>

definition NewHandler :: "bool \<Rightarrow> bool \<Rightarrow> bool \<Rightarrow> ('sdk, 'w) handler \<Rightarrow> ('sdk, 'w) handler option" where
  "NewHandler storeNil upstreamNil templatesNil h =
     (if storeNil \<or> upstreamNil \<or> templatesNil then None
      else if hNamespace h = [] then None
      else Some (h\<lparr>hPrefix := trimSuffix (if hPrefix h = [] then defaultPrefix else hPrefix h) ''/'',
             hTransitionTimeout := (if hTransitionTimeout h \<le> 0 then 30 * second else hTransitionTimeout h),
             hPendingOperationTTL := (if hPendingOperationTTL h \<le> 0 then 600 * second else hPendingOperationTTL h)\<rparr>))"

type_synonym ('w, 'a) hstep = "(response option, 'w, 'a) step"

definition reply :: "response \<Rightarrow> ('w, 'a) hstep" where
  "reply r = exitw (Some r)"

subsection \<open>Responses\<close>

definition writeError :: "nat \<Rightarrow> string \<Rightarrow> response" where
  "writeError status message = \<lparr>rspStatus = status, rspHeaders = [(''Content-Type'', [''application/json''])],
     rspBody = encodeJson True (JObj [(''detail'', JObj [(''code'', JStr (StatusText status)), (''message'', JStr message)])]) @
       [CHR 0x0A]\<rparr>"

lemma writeError_status [simp]: "rspStatus (writeError s m) = s"
  by (simp add: writeError_def)

definition storeErrorStatus :: "go_error \<Rightarrow> nat" where
  "storeErrorStatus e = (if isNotFound e then 404 else if isAlreadyExists e then 409 else 500)"

definition writeStoreError :: "go_error \<Rightarrow> response" where
  "writeStoreError e = writeError (storeErrorStatus e) (StatusText (storeErrorStatus e))"

definition hopHeader :: "string \<Rightarrow> bool" where
  "hopHeader name \<longleftrightarrow>
     equalFold name ''Content-Length'' \<or> equalFold name ''Transfer-Encoding'' \<or> equalFold name ''Connection''"

definition copyResponse :: "response \<Rightarrow> string \<Rightarrow> response" where
  "copyResponse r body = \<lparr>rspStatus = rspStatus r,
     rspHeaders = filter (\<lambda>(name, values). \<not> hopHeader name \<and> values \<noteq> []) (rspHeaders r), rspBody = body\<rparr>"

subsection \<open>Upstream\<close>

definition setUpstreamAPIKey :: "header \<Rightarrow> string \<Rightarrow> header" where
  "setUpstreamAPIKey headers apiKey =
     (let cleared = headerDel headers ''OPEN-SANDBOX-API-KEY''
      in if apiKey \<noteq> [] then headerSet cleared ''OPEN-SANDBOX-API-KEY'' apiKey else cleared)"

definition upstreamHeaders :: "header \<Rightarrow> string \<Rightarrow> header" where
  "upstreamHeaders headers apiKey =
     setUpstreamAPIKey (filter (\<lambda>(name, values). \<not> equalFold name ''Authorization'' \<and> values \<noteq> []) headers) apiKey"

text \<open>
  The reference has an absolute path, so that \<open>ResolveReference\<close> keeps nothing of the path of the
  configured upstream.
\<close>

definition doUpstream :: "('sdk, 'w) handler \<Rightarrow> string \<Rightarrow> string \<Rightarrow> header \<Rightarrow> string \<Rightarrow> ('w, response) call" where
  "doUpstream h method path headers body =
     hDo h \<lparr>obMethod = method, obPath = resolvePath path, obHeaders = upstreamHeaders headers (hAPIKey h), obBody = body\<rparr>"

definition joinURLPath :: "string \<Rightarrow> string \<Rightarrow> string" where
  "joinURLPath base requestPath =
     (if base = [] \<or> base = ''/'' then requestPath
      else trimSuffix base ''/'' @ ''/'' @ trimPrefix requestPath ''/'')"

definition sanitizeSandbox :: "'sdk sandboxResponse \<Rightarrow> 'sdk sandboxResponse" where
  "sanitizeSandbox value = value\<lparr>
     srspMetadata := map_option (\<lambda>m. m(AssignmentLabel := None)) (srspMetadata value),
     srspExtensions := map_option (\<lambda>m. m(assignmentUIDExtension := None)) (srspExtensions value)\<rparr>"

definition withBody :: "response \<Rightarrow> string \<Rightarrow> response" where
  "withBody r body = r\<lparr>rspBody := body, rspHeaders := headerSet (rspHeaders r) ''Content-Length'' (showDec (length body))\<rparr>"

definition recode :: "(string \<Rightarrow> go_error + 'a) \<Rightarrow> ('a \<Rightarrow> 'a) \<Rightarrow> ('a \<Rightarrow> go_error + string) \<Rightarrow> response \<Rightarrow> go_error + response" where
  "recode decode f encode r =
     (case decode (rspBody r) of
        Inl e \<Rightarrow> Inl e
      | Inr value \<Rightarrow> (case encode (f value) of Inl e \<Rightarrow> Inl e | Inr body \<Rightarrow> Inr (withBody r body)))"

text \<open>\<open>sanitizeProxiedResponse\<close>, on the response to the outbound request \<open>out\<close>.\<close>

definition sanitizeProxiedResponse :: "'sdk codec \<Rightarrow> outbound \<Rightarrow> response \<Rightarrow> go_error + response" where
  "sanitizeProxiedResponse c out r =
     (if rspStatus r < 200 \<or> 300 \<le> rspStatus r then Inr r
      else if obMethod out = ''GET'' \<and> obPath out = ''/sandboxes''
      then recode (decodeList c) (\<lambda>l. l\<lparr>lrspItems := map sanitizeSandbox (lrspItems l)\<rparr>) (encodeList c) r
      else if obMethod out = ''GET'' \<and> hasPrefix (obPath out) ''/sandboxes/'' \<and>
              CHR ''/'' \<notin> set (trimPrefix (obPath out) ''/sandboxes/'')
      then recode (decodeSandbox c) sanitizeSandbox (encodeSandbox c) r
      else if obMethod out = ''PATCH'' \<and> hasSuffix (obPath out) ''/metadata''
      then recode (decodeSandbox c) sanitizeSandbox (encodeSandbox c) r
      else Inr r)"

definition rewriteRequest :: "('sdk, 'w) handler \<Rightarrow> request \<Rightarrow> string \<Rightarrow> outbound" where
  "rewriteRequest h r body =
     (let trimmed = trimPrefix (rqPath r) (hPrefix h);
          outboundPath = (if trimmed = [] then ''/'' else trimmed)
      in \<lparr>obMethod = rqMethod r, obPath = joinURLPath (hUpstreamPath h) outboundPath,
          obHeaders = setUpstreamAPIKey (headerDel (hForwardHeaders h (rqHeaders r)) ''Authorization'') (hAPIKey h),
          obBody = body\<rparr>)"

definition proxyServe :: "('sdk, 'w) handler \<Rightarrow> request \<Rightarrow> ('w, 'a) hstep" where
  "proxyServe h r =
     (let unavailable = Some (writeError 502 ''OpenSandbox is unavailable'') in
      bindw (liftf (case rqBody r of Inl _ \<Rightarrow> Inl unavailable | Inr body \<Rightarrow> Inr body)) (\<lambda>body.
      bindw (tryw (hRoundTrip h (rewriteRequest h r body)) (\<lambda>_. unavailable)) (\<lambda>response.
        case sanitizeProxiedResponse (hCodec h) (rewriteRequest h r body) response of
          Inl _ \<Rightarrow> exitw unavailable
        | Inr sanitized \<Rightarrow> reply sanitized)))"

subsection \<open>Authorization of the caller\<close>

definition authorizeAssignment :: "('sdk, 'w) handler \<Rightarrow> request \<Rightarrow> Assignment \<Rightarrow> ('w, unit) hstep" where
  "authorizeAssignment h r value =
     (case hCallerAuthorizer h of
        None \<Rightarrow> retw ()
      | Some authorizeTenant \<Rightarrow>
          guardw (aLogicalTenant value = [] \<or> authorizeTenant r (aLogicalTenant value) \<noteq> None)
            (Some (writeError 403 ''caller is not authorized for the sandbox'')))"

text \<open>The lookup and the check with which pause, resume, delete and every proxied operation on one sandbox begin.\<close>

definition authorizedAssignment :: "('sdk, 'w) handler \<Rightarrow> request \<Rightarrow> string \<Rightarrow> ('w, Assignment) hstep" where
  "authorizedAssignment h r sandboxID =
     bindw (tryw (asGetBySandboxID (hStore h) (hNamespace h) sandboxID)
       (\<lambda>e. Some (if isNotFound e then writeError 404 ''sandbox assignment is unavailable'' else writeStoreError e))) (\<lambda>value.
     bindw (authorizeAssignment h r value) (\<lambda>_. retw value))"

subsection \<open>Creating\<close>

definition validIdempotencyKey :: "string \<Rightarrow> bool" where
  "validIdempotencyKey value \<longleftrightarrow>
     8 \<le> length value \<and> length value \<le> 128 \<and>
     list_all (\<lambda>c. isLower c \<or> isUpper c \<or> isDigit c \<or> c \<in> set ''-_.:'') value"

definition createRequestHash :: "'sdk codec \<Rightarrow> 'sdk CreateSandboxRequest \<Rightarrow> ResolvedTemplate \<Rightarrow> go_error + string" where
  "createRequestHash c value template =
     (case encodeCreate c value of
        Inl e \<Rightarrow> Inl e
      | Inr encoded \<Rightarrow>
          let field = (\<lambda>name text. encodeString True name @ '':'' @ text);
              payload = ''{'' @ joinWith '',''
                [field ''request'' encoded, field ''templateName'' (encodeString True (rtplName template)),
                 field ''templateUid'' (encodeString True (rtplUID template)),
                 field ''templateRevision'' (encodeString True (rtplRevision template))] @ ''}''
          in Inr (''sha256:'' @ hexEncode (sha256Sum payload)))"

definition idempotentAssignmentName :: "string \<Rightarrow> string \<Rightarrow> string" where
  "idempotentAssignmentName logicalTenant key =
     ''operation-'' @ hexEncode (take 16 (sha256Sum (logicalTenant @ [CHR 0x00] @ key)))"

text \<open>What is left of the request of the caller: the template decides everything that governs the sandbox.\<close>

definition governedRequest :: "'sdk CreateSandboxRequest \<Rightarrow> ResolvedTemplate \<Rightarrow> 'sdk CreateSandboxRequest" where
  "governedRequest value resolved = value\<lparr>
     csImage := Some (rtplImage resolved), csSnapshotID := [], csTimeout := Some (rtplTimeoutSeconds resolved),
     csResourceLimits := [''cpu'' \<mapsto> rtplCPU resolved, ''memory'' \<mapsto> rtplMemory resolved],
     csResourceRequests := None, csEntrypoint := rtplEntrypoint resolved, csNetworkPolicy := None,
     csCredentialProxy := None, csVolumes := [], csPlatform := None, csExtensions := Some Map.empty\<rparr>"

record 'sdk createPlan =
  cpResolved :: ResolvedTemplate
  cpValue :: "'sdk CreateSandboxRequest"
  cpKey :: string
  cpHash :: string
  cpName :: string

definition resolveCreate ::
  "('sdk, 'w) handler \<Rightarrow> request \<Rightarrow> ('w, 'sdk CreateSandboxRequest \<times> ResolvedTemplate) hstep" where
  "resolveCreate h r =
     (let invalid = Some (writeError 400 ''invalid OpenSandbox create request'') in
      bindw (liftf (case readBody r maxCreateBodyBytes of Inl _ \<Rightarrow> Inl invalid | Inr body \<Rightarrow> Inr body)) (\<lambda>body.
      bindw (liftf (case decodeCreate (hCodec h) body of Inl _ \<Rightarrow> Inl invalid | Inr value \<Rightarrow> Inr value)) (\<lambda>value.
      let templateName = trimSpace (case csExtensions value of None \<Rightarrow> [] | Some m \<Rightarrow> getS m SandboxTemplateExtension) in
      bindw (guardw (templateName = []) (Some (writeError 403 ''sandbox template is required''))) (\<lambda>_.
      bindw (tryw (hTemplates h templateName)
        (\<lambda>e. Some (writeError (if isNotFound e then 404 else 403) ''sandbox template is unavailable''))) (\<lambda>resolved.
      bindw (guardw (case hCallerAuthorizer h of
                       None \<Rightarrow> False
                     | Some authorizeTenant \<Rightarrow> authorizeTenant r (rtplLogicalTenant resolved) \<noteq> None)
        (Some (writeError 403 ''caller is not authorized for the sandbox template''))) (\<lambda>_.
        retw (value, resolved)))))))"

definition planCreate :: "('sdk, 'w) handler \<Rightarrow> request \<Rightarrow> ('w, 'sdk createPlan) hstep" where
  "planCreate h r =
     bindw (resolveCreate h r) (\<lambda>(original, resolved).
     let value = governedRequest original resolved;
         idempotencyKey = trimSpace (headerGet (rqHeaders r) ''Idempotency-Key'') in
     bindw (guardw (hRequireIdempotency h \<and> \<not> validIdempotencyKey idempotencyKey)
       (Some (writeError 400 ''a valid Idempotency-Key header is required''))) (\<lambda>_.
     bindw (liftf (case createRequestHash (hCodec h) value resolved of
                     Inl _ \<Rightarrow> Inl (Some (writeError 500 ''hash OpenSandbox create request'')) | Inr hash \<Rightarrow> Inr hash)) (\<lambda>requestHash.
       retw \<lparr>cpResolved = resolved, cpValue = value, cpKey = idempotencyKey, cpHash = requestHash,
             cpName = (if idempotencyKey \<noteq> []
                       then idempotentAssignmentName (rtplLogicalTenant resolved) idempotencyKey else [])\<rparr>)))"

definition planRequest :: "('sdk, 'w) handler \<Rightarrow> 'sdk createPlan \<Rightarrow> CreateRequest" where
  "planRequest h plan =
     (let resolved = cpResolved plan in
      \<lparr>crNamespace = hNamespace h, crName = cpName plan, crGenerateName = ''assignment-'',
       crTemplateName = rtplName resolved, crTemplateUID = rtplUID resolved, crTemplateRevision = rtplRevision resolved,
       crLogicalTenant = rtplLogicalTenant resolved, crCapabilityBundleName = rtplCapabilityBundleName resolved,
       crIdempotencyKey = cpKey plan, crRequestHash = cpHash plan\<rparr>)"

text \<open>The admission, with the release it returns; no admission releases nothing.\<close>

definition admitCreate :: "('sdk, 'w) handler \<Rightarrow> 'sdk createPlan \<Rightarrow> ('w, 'w \<Rightarrow> 'w) hstep" where
  "admitCreate h plan w =
     (case hAdmission h of
        None \<Rightarrow> (Inr (\<lambda>w. w), w)
      | Some authorizeCreate \<Rightarrow>
          (case authorizeCreate (rtplCapabilityBundleName (cpResolved plan)) (cpValue plan) w of
             None \<Rightarrow> (Inl None, w)
           | Some (Inl _, w') \<Rightarrow>
               (Inl (Some (writeError 403 ''sandbox creation does not satisfy the tenant policy'')), w')
           | Some (Inr rel, w') \<Rightarrow> (Inr rel, w')))"

definition runw :: "('w \<Rightarrow> 'w) \<Rightarrow> ('r, 'w, unit) step" where
  "runw f w = (Inr (), f w)"

text \<open>\<open>errors.Is\<close>, which looks through wrapped errors.\<close>

fun errorsIs :: "go_error \<Rightarrow> go_error \<Rightarrow> bool" where
  "errorsIs (Errorf m e) target \<longleftrightarrow> Errorf m e = target \<or> errorsIs e target"
| "errorsIs e target \<longleftrightarrow> e = target"

definition allocateCreate :: "('sdk, 'w) handler \<Rightarrow> 'sdk createPlan \<Rightarrow> ('w, Assignment) hstep" where
  "allocateCreate h plan =
     bindw (admitCreate h plan) (\<lambda>rel.
     bindw (attempt (asCreate (hStore h) (planRequest h plan))) (\<lambda>created.
     bindw (runw rel) (\<lambda>_.
       case created of
         Inl e \<Rightarrow>
           reply (if errorsIs e ErrIdempotencyConflict
                  then writeError 409 ''Idempotency-Key was reused with different sandbox intent''
                  else writeStoreError e)
       | Inr value \<Rightarrow> retw value)))"

text \<open>An operation that was started before: expired, still running, or answered with its sandbox.\<close>

definition readClock :: "('sdk, 'w) handler \<Rightarrow> ('r, 'w, time) step" where
  "readClock h w = (case hNow h w of (t, w') \<Rightarrow> (Inr t, w'))"

definition expireStale :: "('sdk, 'w) handler \<Rightarrow> Assignment \<Rightarrow> ('w, Assignment) hstep" where
  "expireStale h created =
     (if aSandboxID created \<noteq> [] then retw created
      else
        bindw (readClock h) (\<lambda>now.
        if timeSub now (aCreatedAt created) < hPendingOperationTTL h then retw created
        else
          bindw (tryw (asGet (hStore h) (hNamespace h) (aName created)) (\<lambda>e. Some (writeStoreError e))) (\<lambda>latest.
          if aSandboxID latest \<noteq> [] then retw latest
          else
            bindw (tryw (asDelete (hStore h) (hNamespace h) (aName created)) (\<lambda>e. Some (writeStoreError e))) (\<lambda>_.
              reply (let refused = writeError 503 ''stale sandbox create operation was expired; retry the request''
                     in refused\<lparr>rspHeaders := (''Retry-After'', [''1'']) # rspHeaders refused\<rparr>)))))"

definition templateExtensions :: "ResolvedTemplate \<Rightarrow> strmap \<Rightarrow> strmap" where
  "templateExtensions resolved m =
     m(CapabilityProfileExtension \<mapsto> rtplCapabilityBundleName resolved, SandboxTemplateExtension \<mapsto> rtplName resolved,
       SandboxTemplateRevisionExtension \<mapsto> rtplRevision resolved)"

definition replayResponse :: "('sdk, 'w) handler \<Rightarrow> 'sdk createPlan \<Rightarrow> Assignment \<Rightarrow> ('w, 'a) hstep" where
  "replayResponse h plan created0 =
     bindw (expireStale h created0) (\<lambda>created.
     bindw (guardw (aSandboxID created = [])
       (Some (let pending = writeError 409 ''sandbox create operation is still in progress''
              in pending\<lparr>rspHeaders := (''Retry-After'', [''2'']) # rspHeaders pending\<rparr>))) (\<lambda>_.
       case encodeCreated (hCodec h) \<lparr>crspID = aSandboxID created, crspStatus = statusPending (hCodec h),
              crspMetadata = None, crspExtensions = Some (templateExtensions (cpResolved plan) Map.empty),
              crspPlatform = None, crspExpiresAt = None, crspCreatedAt = aCreatedAt created, crspEntrypoint = []\<rparr> of
         Inl _ \<Rightarrow> reply (writeError 500 ''encode idempotent sandbox response'')
       | Inr body \<Rightarrow>
           reply \<lparr>rspStatus = 200,
                  rspHeaders = [(''Content-Type'', [''application/json'']), (''Cache-Control'', [''no-store''])],
                  rspBody = body\<rparr>))"

definition forwardRequest :: "'sdk createPlan \<Rightarrow> Assignment \<Rightarrow> 'sdk CreateSandboxRequest" where
  "forwardRequest plan created =
     (let value = cpValue plan;
          metadata = (case csMetadata value of None \<Rightarrow> Map.empty | Some m \<Rightarrow> m);
          extensions = (case csExtensions value of None \<Rightarrow> Map.empty | Some m \<Rightarrow> m)
      in value\<lparr>csMetadata := Some (metadata(AssignmentLabel \<mapsto> aName created,
                                            SandboxTemplateExtension \<mapsto> rtplName (cpResolved plan))),
               csExtensions := Some (extensions(assignmentUIDExtension \<mapsto> aUID created))\<rparr>)"

definition presentCreated :: "ResolvedTemplate \<Rightarrow> 'sdk createSandboxResponse \<Rightarrow> 'sdk createSandboxResponse" where
  "presentCreated resolved value = value\<lparr>
     crspMetadata := map_option (\<lambda>m. m(AssignmentLabel := None)) (crspMetadata value),
     crspExtensions := Some (templateExtensions resolved
       (case crspExtensions value of None \<Rightarrow> Map.empty | Some m \<Rightarrow> m(assignmentUIDExtension := None)))\<rparr>"

definition ignorew :: "('w, 'a) call \<Rightarrow> ('r, 'w, unit) step" where
  "ignorew c = bindw (attempt c) (\<lambda>_. retw ())"

definition successful :: "response \<Rightarrow> bool" where
  "successful r \<longleftrightarrow> 200 \<le> rspStatus r \<and> rspStatus r < 300"

definition forwardCreate :: "('sdk, 'w) handler \<Rightarrow> request \<Rightarrow> 'sdk createPlan \<Rightarrow> Assignment \<Rightarrow> ('w, 'a) hstep" where
  "forwardCreate h r plan created =
     (let abandon = ignorew (asDelete (hStore h) (hNamespace h) (aName created)) in
      case encodeCreate (hCodec h) (forwardRequest plan created) of
        Inl _ \<Rightarrow> bindw abandon (\<lambda>_. reply (writeError 500 ''encode OpenSandbox request''))
      | Inr forwardBody \<Rightarrow>
          bindw (tryw (doUpstream h ''POST'' ''/sandboxes'' (rqHeaders r) forwardBody)
            (\<lambda>_. Some (writeError 502 ''OpenSandbox is unavailable''))) (\<lambda>response.
          if \<not> successful response then bindw abandon (\<lambda>_. reply (copyResponse response (rspBody response)))
          else
            bindw (liftf (case decodeCreated (hCodec h) (rspBody response) of
                            Inl _ \<Rightarrow> Inl (Some (writeError 502 ''OpenSandbox returned an invalid create response''))
                          | Inr value \<Rightarrow>
                              if crspID value = [] \<or> crspCreatedAt value = zeroTime
                              then Inl (Some (writeError 502 ''OpenSandbox returned an invalid create response''))
                              else Inr value)) (\<lambda>createdSandbox.
            bindw (tryw (asSetSandboxID (hStore h) (hNamespace h) (aName created) (crspID createdSandbox))
              (\<lambda>_. Some (writeError 500 ''record OpenSandbox assignment''))) (\<lambda>_.
              case encodeCreated (hCodec h) (presentCreated (cpResolved plan) createdSandbox) of
                Inl _ \<Rightarrow> reply (writeError 500 ''encode OpenSandbox response'')
              | Inr body \<Rightarrow> reply (copyResponse response body)))))"

definition create :: "('sdk, 'w) handler \<Rightarrow> request \<Rightarrow> ('w, 'a) hstep" where
  "create h r =
     bindw (planCreate h r) (\<lambda>plan.
     bindw (allocateCreate h plan) (\<lambda>created.
       if aExisting created then replayResponse h plan created else forwardCreate h r plan created))"

subsection \<open>Pause, resume, delete and metadata\<close>

text \<open>\<open>Some None\<close> when the assignment has the wanted readiness, \<open>None\<close> while it is still polling.\<close>

fun waitReady :: "nat \<Rightarrow> ('sdk, 'w) handler \<Rightarrow> string \<Rightarrow> bool \<Rightarrow> 'w \<Rightarrow> (go_error option \<times> 'w) option" where
  "waitReady 0 h name wanted w = None"
| "waitReady (Suc fuel) h name wanted w =
     (case asGet (hStore h) (hNamespace h) name w of
        (Inl e, w1) \<Rightarrow> Some (Some e, w1)
      | (Inr value, w1) \<Rightarrow>
          if aReady value = wanted then Some (None, w1)
          else (case hPoll h (hTransitionTimeout h) w1 of
                  (Some e, w2) \<Rightarrow> Some (Some e, w2)
                | (None, w2) \<Rightarrow> waitReady fuel h name wanted w2))"

definition awaitReady :: "nat \<Rightarrow> ('sdk, 'w) handler \<Rightarrow> string \<Rightarrow> bool \<Rightarrow> ('w, go_error option) hstep" where
  "awaitReady fuel h name wanted w =
     (case waitReady fuel h name wanted w of None \<Rightarrow> (Inl None, w) | Some (e, w') \<Rightarrow> (Inr e, w'))"

definition fence :: "('sdk, 'w) handler \<Rightarrow> Assignment \<Rightarrow> bool \<Rightarrow> string \<Rightarrow> ('w, unit) call" where
  "fence h value = asSetLifecycleFence (hStore h) (hNamespace h) (aName value)"

definition pause :: "nat \<Rightarrow> ('sdk, 'w) handler \<Rightarrow> request \<Rightarrow> string \<Rightarrow> ('w, 'a) hstep" where
  "pause fuel h r sandboxID =
     bindw (authorizedAssignment h r sandboxID) (\<lambda>value.
     bindw (tryw (fence h value True []) (\<lambda>e. Some (writeStoreError e))) (\<lambda>_.
     bindw (awaitReady fuel h (aName value) False) (\<lambda>waited.
       case waited of
         Some _ \<Rightarrow>
           bindw (ignorew (fence h value False [])) (\<lambda>_.
             reply (writeError 503 ''assignment did not become paused''))
       | None \<Rightarrow>
           bindw (tryw (doUpstream h ''POST'' (''/sandboxes/'' @ PathEscape sandboxID @ ''/pause'') (rqHeaders r) [])
             (\<lambda>_. Some (writeError 502 ''OpenSandbox is unavailable''))) (\<lambda>response.
             reply (copyResponse response (rspBody response))))))"

definition resume :: "('sdk, 'w) handler \<Rightarrow> request \<Rightarrow> string \<Rightarrow> ('w, 'a) hstep" where
  "resume h r sandboxID =
     bindw (authorizedAssignment h r sandboxID) (\<lambda>value.
     let oldPodUID = (case aPodRef value of None \<Rightarrow> [] | Some ref \<Rightarrow> orUID ref) in
     bindw (tryw (fence h value False oldPodUID) (\<lambda>e. Some (writeStoreError e))) (\<lambda>_.
     bindw (attempt (doUpstream h ''POST'' (''/sandboxes/'' @ PathEscape sandboxID @ ''/resume'') (rqHeaders r) [])) (\<lambda>answer.
       case answer of
         Inl _ \<Rightarrow>
           bindw (ignorew (fence h value True [])) (\<lambda>_. reply (writeError 502 ''OpenSandbox is unavailable''))
       | Inr response \<Rightarrow>
           if \<not> successful response
           then bindw (ignorew (fence h value True [])) (\<lambda>_. reply (copyResponse response (rspBody response)))
           else reply (copyResponse response (rspBody response)))))"

definition deleteSandbox :: "('sdk, 'w) handler \<Rightarrow> request \<Rightarrow> string \<Rightarrow> ('w, 'a) hstep" where
  "deleteSandbox h r sandboxID =
     bindw (authorizedAssignment h r sandboxID) (\<lambda>value.
     bindw (attempt (asDelete (hStore h) (hNamespace h) (aName value))) (\<lambda>deleted.
     bindw (case deleted of Inr _ \<Rightarrow> retw () | Inl e \<Rightarrow> guardw (\<not> isNotFound e) (Some (writeStoreError e))) (\<lambda>_.
       reply \<lparr>rspStatus = 204, rspHeaders = [], rspBody = []\<rparr>)))"

definition patchMetadata :: "('sdk, 'w) handler \<Rightarrow> request \<Rightarrow> string \<Rightarrow> ('w, 'a) hstep" where
  "patchMetadata h r sandboxID =
     (let invalid = Some (writeError 400 ''invalid metadata patch'') in
      bindw (if hCallerAuthorizer h \<noteq> None
             then bindw (authorizedAssignment h r sandboxID) (\<lambda>_. retw ()) else retw ()) (\<lambda>_.
      bindw (liftf (case readBody r (2 ^ 20) of Inl _ \<Rightarrow> Inl invalid | Inr body \<Rightarrow> Inr body)) (\<lambda>body.
      bindw (liftf (case decodePatch (hCodec h) body of Inl _ \<Rightarrow> Inl invalid | Inr patch \<Rightarrow> Inr patch)) (\<lambda>patch.
      bindw (guardw (patch AssignmentLabel \<noteq> None \<or> patch SandboxTemplateExtension \<noteq> None)
        (Some (writeError 403 ''governance metadata is reserved''))) (\<lambda>_.
        proxyServe h (r\<lparr>rqBody := Inr body\<rparr>))))))"

subsection \<open>Routing\<close>

definition sandboxOperation :: "string \<Rightarrow> (string \<times> string) option" where
  "sandboxOperation path =
     (let parts = splitOn (CHR ''/'') (trimPrefix path ''/sandboxes/'') in
      if hd parts = [] \<or> 2 < length parts then None
      else case PathUnescape (hd parts) of
             None \<Rightarrow> None
           | Some decoded \<Rightarrow>
               if decoded = [] \<or> CHR ''/'' \<in> set decoded then None
               else Some (decoded, if length parts = 2 then parts ! 1 else []))"

definition lifecyclePath :: "('sdk, 'w) handler \<Rightarrow> request \<Rightarrow> string option" where
  "lifecyclePath h r =
     (case cutPrefix (rqPath r) (hPrefix h) of
        None \<Rightarrow> None
      | Some path \<Rightarrow> if path = ''/sandboxes'' \<or> hasPrefix path ''/sandboxes/'' then Some path else None)"

definition proxyAuthorized :: "('sdk, 'w) handler \<Rightarrow> request \<Rightarrow> string \<Rightarrow> ('w, 'a) hstep" where
  "proxyAuthorized h r path =
     bindw (if hCallerAuthorizer h = None then retw ()
            else
              bindw (guardw (path = ''/sandboxes'')
                (Some (writeError 403 ''tenant-scoped sandbox listing is unavailable''))) (\<lambda>_.
              case sandboxOperation path of
                None \<Rightarrow> retw ()
              | Some (sandboxID, action) \<Rightarrow> bindw (authorizedAssignment h r sandboxID) (\<lambda>_. retw ()))) (\<lambda>_.
       proxyServe h r)"

definition ServeHTTP :: "nat \<Rightarrow> ('sdk, 'w) handler \<Rightarrow> request \<Rightarrow> 'w \<Rightarrow> response option \<times> 'w" where
  "ServeHTTP fuel h r = finishw
     (case lifecyclePath h r of
        None \<Rightarrow> reply (writeError 404 ''not found'')
      | Some path \<Rightarrow>
          if rqMethod r = ''POST'' \<and> path = ''/sandboxes'' then create h r
          else case sandboxOperation path of
                 None \<Rightarrow> proxyAuthorized h r path
               | Some (sandboxID, action) \<Rightarrow>
                   if rqMethod r = ''DELETE'' \<and> action = [] then deleteSandbox h r sandboxID
                   else if rqMethod r = ''POST'' \<and> action = ''pause'' then pause fuel h r sandboxID
                   else if rqMethod r = ''POST'' \<and> action = ''resume'' then resume h r sandboxID
                   else if rqMethod r = ''PATCH'' \<and> action = ''metadata'' then patchMetadata h r sandboxID
                   else proxyAuthorized h r path)"

subsection \<open>Tenant isolation\<close>

context caller_authorizer
begin

lemma authorizedAssignment_scope:
  assumes "hCallerAuthorizer h = Some authorizeTenant" and "authorizedAssignment h r sandboxID w = (Inr value, w')"
  shows "asGetBySandboxID (hStore h) (hNamespace h) sandboxID w = (Inr value, w') \<and> aLogicalTenant value \<noteq> [] \<and>
    aLogicalTenant value \<in> scope r"
  using assms by (auto simp: authorizedAssignment_def authorizeAssignment_def flow_simps authorized_iff)

lemma resolveCreate_scope:
  assumes "hCallerAuthorizer h = Some authorizeTenant" and "resolveCreate h r w = (Inr (original, resolved), w')"
  shows "rtplLogicalTenant resolved \<in> scope r"
  using assms by (auto simp: resolveCreate_def Let_def flow_simps authorized_iff)

end

lemma storeErrorStatus_range: "storeErrorStatus e \<in> {404, 409, 500}"
  by (simp add: storeErrorStatus_def)

lemma authorizedAssignment_refused:
  assumes "authorizedAssignment h r sandboxID w = (Inl answer, w')"
  shows "\<exists>refused found. answer = Some refused \<and> rspStatus refused \<in> {403, 404, 409, 500} \<and>
    asGetBySandboxID (hStore h) (hNamespace h) sandboxID w = (found, w')"
  using assms storeErrorStatus_range
  by (auto simp: authorizedAssignment_def authorizeAssignment_def flow_simps writeStoreError_def split: option.splits)

text \<open>The outcome of a chain that begins with the authorization.\<close>

lemma authorized_first:
  assumes "hCallerAuthorizer h = Some AuthorizeTenant"
    and "finishw (bindw (authorizedAssignment h r sandboxID) k) w = (answer, w')"
  shows "(\<exists>refused found. answer = Some refused \<and> rspStatus refused \<in> {403, 404, 409, 500} \<and>
       asGetBySandboxID (hStore h) (hNamespace h) sandboxID w = (found, w')) \<or>
    (\<exists>value w1. asGetBySandboxID (hStore h) (hNamespace h) sandboxID w = (Inr value, w1) \<and>
       aLogicalTenant value \<noteq> [] \<and> aLogicalTenant value \<in> scopeOf r)"
proof (cases "authorizedAssignment h r sandboxID w")
  case (Pair s w1)
  show ?thesis
  proof (cases s)
    case (Inl x)
    with assms(2) Pair have "authorizedAssignment h r sandboxID w = (Inl answer, w')" by (simp add: finishw_def)
    from authorizedAssignment_refused [OF this] show ?thesis by blast
  next
    case (Inr found)
    with Pair have "authorizedAssignment h r sandboxID w = (Inr found, w1)" by simp
    from kubernetes_authorizer.authorizedAssignment_scope [OF assms(1) this] show ?thesis by blast
  qed
qed

lemma bindw_assoc: "bindw (bindw m f) g = bindw m (\<lambda>a. bindw (f a) g)"
  by (rule ext) (auto simp: bindw_def split: prod.splits sum.splits)

lemma bindw_retw: "bindw (retw a) f = f a"
  by (rule ext) simp

lemma bindw_Pair: "bindw (Pair (Inr a)) f = f a"
  by (rule ext) (simp add: bindw_def)

lemma guardw_pass: "\<not> c \<Longrightarrow> guardw c x = retw ()"
  by (rule ext) (simp add: guardw_def)

lemma sandboxOperation_not_collection: "sandboxOperation ''/sandboxes'' = None"
  by code_simp

text \<open>Every operation on one sandbox looks it up and authorizes the caller before anything else.\<close>

lemma serve_authorizes_first:
  assumes "hCallerAuthorizer h = Some AuthorizeTenant" "lifecyclePath h r = Some path"
    "sandboxOperation path = Some (sandboxID, action)"
  shows "\<exists>k. ServeHTTP fuel h r = finishw (bindw (authorizedAssignment h r sandboxID) k)"
proof -
  have "path \<noteq> ''/sandboxes''" using assms(3) sandboxOperation_not_collection by auto
  then have "proxyAuthorized h r path = (bindw (authorizedAssignment h r sandboxID) (\<lambda>_. proxyServe h r)
      :: ('b, response option) hstep)"
    using assms(1,3) by (simp add: proxyAuthorized_def bindw_assoc bindw_retw bindw_Pair guardw_pass)
  moreover have "\<exists>k. patchMetadata h r sandboxID = (bindw (authorizedAssignment h r sandboxID) k :: ('b, response option) hstep)"
    using assms(1) unfolding patchMetadata_def Let_def by (auto simp: bindw_assoc bindw_retw)
  ultimately show ?thesis using assms(2,3) \<open>path \<noteq> ''/sandboxes''\<close>
    unfolding ServeHTTP_def deleteSandbox_def pause_def resume_def by auto
qed

subsection \<open>An example handler\<close>

text \<open>
  A handler over a world that holds the annotations of one assignment, with the store, the upstream
  server and the codec reduced to what the examples need.
\<close>

record handlerWorld =
  hwPaused :: bool
  hwReady :: bool
  hwLeft :: nat
  hwUpstream :: nat

definition exAssignmentView :: "bool \<Rightarrow> Assignment" where
  "exAssignmentView ready = \<lparr>aNamespace = ''assignments'', aName = ''task-1'', aUID = ''assignment-1'',
     aResourceVersion = ''1'', aTemplateName = ''python'', aTemplateUID = ''template-1'', aTemplateRevision = ''r'',
     aLogicalTenant = ''blue'', aCapabilityBundleName = ''tools'', aSandboxID = ''sandbox'', aIdempotencyKey = [],
     aRequestHash = [], aCreatedAt = 0, aExisting = False, aDeleting = False, aReady = ready, aWorkloadRef = None,
     aPodRef = None, aConditions = []\<rparr>"

definition exTemplate :: ResolvedTemplate where
  "exTemplate = \<lparr>rtplName = ''python'', rtplUID = ''template-1'', rtplRevision = ''r'', rtplImage = ''image'',
     rtplEntrypoint = [''run''], rtplCPU = ''1'', rtplMemory = ''1'', rtplTimeoutSeconds = 600,
     rtplCapabilityBundleName = ''tools'', rtplCapabilityBundleRevision = ''b'', rtplLogicalTenant = ''blue''\<rparr>"

definition exStore :: "handlerWorld assignmentStore" where
  "exStore = \<lparr>asCreate = (\<lambda>_. okw (exAssignmentView False)), asGet = (\<lambda>_ _ w. (Inr (exAssignmentView (hwReady w)), w)),
     asGetBySandboxID = (\<lambda>_ _ w. (Inr (exAssignmentView (hwReady w)), w)), asSetSandboxID = (\<lambda>_ _ _. okw ()),
     asSetLifecycleFence = (\<lambda>_ _ paused _ w. (Inr (), w\<lparr>hwPaused := paused\<rparr>)), asDelete = (\<lambda>_ _. okw ())\<rparr>"

definition exCodec :: "unit codec" where
  "exCodec = \<lparr>decodeCreate = (\<lambda>_. Inr adRequest), encodeCreate = (\<lambda>_. Inr ''create''),
     decodeCreated = (\<lambda>_. Inl wrongType), encodeCreated = (\<lambda>_. Inl wrongType),
     decodeSandbox = (\<lambda>_. Inl wrongType), encodeSandbox = (\<lambda>_. Inl wrongType),
     decodeList = (\<lambda>_. Inl wrongType), encodeList = (\<lambda>_. Inl wrongType), decodePatch = (\<lambda>_. Inr Map.empty),
     statusPending = ()\<rparr>"

definition exAnswer :: response where
  "exAnswer = \<lparr>rspStatus = 202, rspHeaders = [], rspBody = []\<rparr>"

definition exHandler :: "(unit, handlerWorld) handler" where
  "exHandler = \<lparr>hStore = exStore, hPrefix = ''/opensandbox'', hUpstreamPath = [], hAPIKey = ''key'',
     hNamespace = ''assignments'', hTransitionTimeout = 30 * second, hAdmission = None,
     hTemplates = (\<lambda>_. okw exTemplate), hCallerAuthorizer = Some AuthorizeTenant, hRequireIdempotency = False,
     hPendingOperationTTL = 600 * second, hDo = (\<lambda>_ w. (Inr exAnswer, w\<lparr>hwUpstream := Suc (hwUpstream w)\<rparr>)),
     hRoundTrip = (\<lambda>_ w. (Inr exAnswer, w\<lparr>hwUpstream := Suc (hwUpstream w)\<rparr>)), hForwardHeaders = (\<lambda>h. h),
     hNow = (\<lambda>w. (0, w)),
     hPoll = (\<lambda>_ w. case hwLeft w of 0 \<Rightarrow> (Some (ErrNew ''context deadline exceeded''), w)
        | Suc n \<Rightarrow> (None, w\<lparr>hwLeft := n\<rparr>)),
     hCodec = exCodec\<rparr>"

definition exHttpRequest :: "string \<Rightarrow> string \<Rightarrow> string list \<Rightarrow> request" where
  "exHttpRequest method path tenants = \<lparr>rqMethod = method, rqPath = path, rqHeaders = [], rqBody = Inr [],
     rqScopes = Some tenants\<rparr>"

definition exWorld :: "bool \<Rightarrow> handlerWorld" where
  "exWorld ready = \<lparr>hwPaused = False, hwReady = ready, hwLeft = 2, hwUpstream = 0\<rparr>"

lemmas ex_handler_defs = exHandler_def exStore_def exAssignmentView_def exHttpRequest_def exWorld_def

lemma ex_authorized:
  "authorizedAssignment exHandler (exHttpRequest m p [''blue'']) sandboxID w = (Inr (exAssignmentView (hwReady w)), w)"
  by (simp add: authorizedAssignment_def authorizeAssignment_def ex_handler_defs bindw_def tryw_def guardw_def
      AuthorizeTenant_def)

lemma ex_fence: "fence exHandler found paused uid w = (Inr (), w\<lparr>hwPaused := paused\<rparr>)"
  by (simp add: fence_def exHandler_def exStore_def)

text \<open>
  a caller only touches sandboxes of its own tenants. With caller authorization configured, every
  request for one sandbox, whatever its method and action, is answered in one of two ways. Either it
  is refused with 403, 404, 409 or 500 after nothing but the lookup of its assignment, or the
  assignment that its ID leads to names a tenant and this tenant is one of the tenants that the
  authentication found for the caller.
\<close>

theorem tenant_isolation:
  assumes "hCallerAuthorizer h = Some AuthorizeTenant" "lifecyclePath h r = Some path"
    "sandboxOperation path = Some (sandboxID, action)" "ServeHTTP fuel h r w = (answer, w')"
  shows "(\<exists>refused found. answer = Some refused \<and> rspStatus refused \<in> {403, 404, 409, 500} \<and>
       asGetBySandboxID (hStore h) (hNamespace h) sandboxID w = (found, w')) \<or>
    (\<exists>value w1. asGetBySandboxID (hStore h) (hNamespace h) sandboxID w = (Inr value, w1) \<and>
       aLogicalTenant value \<noteq> [] \<and> aLogicalTenant value \<in> scopeOf r)"
proof -
  obtain k where "ServeHTTP fuel h r = finishw (bindw (authorizedAssignment h r sandboxID) k)"
    using serve_authorizes_first [OF assms(1-3)] by blast
  with assms(4) authorized_first [OF assms(1)] show ?thesis by metis
qed

theorem tenant_isolation_witness:
  "\<exists>answer w'. ServeHTTP 1 exHandler (exHttpRequest ''DELETE'' ''/opensandbox/sandboxes/sandbox'' [''blue'']) (exWorld True) = (answer, w') \<and>
     ((\<exists>refused found. answer = Some refused \<and> rspStatus refused \<in> {403, 404, 409, 500} \<and>
         asGetBySandboxID (hStore exHandler) (hNamespace exHandler) ''sandbox'' (exWorld True) = (found, w')) \<or>
      (\<exists>found w1. asGetBySandboxID (hStore exHandler) (hNamespace exHandler) ''sandbox'' (exWorld True) = (Inr found, w1) \<and>
         aLogicalTenant found \<noteq> [] \<and>
         aLogicalTenant found \<in> scopeOf (exHttpRequest ''DELETE'' ''/opensandbox/sandboxes/sandbox'' [''blue''])))"
proof -
  let ?r = "exHttpRequest ''DELETE'' ''/opensandbox/sandboxes/sandbox'' [''blue'']"
  obtain answer w' where run: "ServeHTTP 1 exHandler ?r (exWorld True) = (answer, w')"
    by (cases "ServeHTTP 1 exHandler ?r (exWorld True)")
  have auth: "hCallerAuthorizer exHandler = Some AuthorizeTenant" by (simp add: exHandler_def)
  have path: "lifecyclePath exHandler ?r = Some ''/sandboxes/sandbox''"
    by (simp add: lifecyclePath_def exHandler_def exHttpRequest_def cutPrefix_def hasPrefix_def)
  have op: "sandboxOperation ''/sandboxes/sandbox'' = Some (''sandbox'', [])" by code_simp
  from tenant_isolation [OF auth path op run] run show ?thesis by blast
qed

text \<open>
  C40: some paths below a sandbox escape the authorization. A path with more than two segments after
  \<open>/sandboxes/\<close>, one with a trailing slash for example, is not recognised as an operation on a
  sandbox; the request then goes to the upstream server as it is, whatever the tenants of the caller
  and whoever owns the sandbox. The caller authorization makes no difference at all.
\<close>

theorem unmatched_path_proxied:
  assumes "lifecyclePath h r = Some path" "path \<noteq> ''/sandboxes''" "sandboxOperation path = None"
  shows "ServeHTTP fuel h r = finishw (proxyServe h r) \<and>
    ServeHTTP fuel (h\<lparr>hCallerAuthorizer := None\<rparr>) r = ServeHTTP fuel h r"
proof -
  have "proxyServe (h\<lparr>hCallerAuthorizer := None\<rparr>) r = (proxyServe h r :: ('b, response option) hstep)"
    by (simp add: proxyServe_def rewriteRequest_def)
  moreover have "ServeHTTP fuel h r = finishw (proxyServe h r)"
    using assms by (auto simp: ServeHTTP_def proxyAuthorized_def bindw_retw bindw_Pair guardw_pass)
  moreover have "ServeHTTP fuel (h\<lparr>hCallerAuthorizer := None\<rparr>) r = finishw (proxyServe (h\<lparr>hCallerAuthorizer := None\<rparr>) r)"
    using assms by (auto simp: ServeHTTP_def proxyAuthorized_def bindw_retw lifecyclePath_def)
  ultimately show ?thesis by simp
qed

theorem unmatched_path_proxied_witness:
  "ServeHTTP 1 exHandler (exHttpRequest ''POST'' ''/opensandbox/sandboxes/sandbox/pause/'' []) =
     finishw (proxyServe exHandler (exHttpRequest ''POST'' ''/opensandbox/sandboxes/sandbox/pause/'' []))"
proof -
  let ?r = "exHttpRequest ''POST'' ''/opensandbox/sandboxes/sandbox/pause/'' []"
  have "lifecyclePath exHandler ?r = Some ''/sandboxes/sandbox/pause/''"
    by (simp add: lifecyclePath_def exHandler_def exHttpRequest_def cutPrefix_def hasPrefix_def)
  moreover have "sandboxOperation ''/sandboxes/sandbox/pause/'' = None" by code_simp
  ultimately show ?thesis using unmatched_path_proxied [of exHandler ?r "''/sandboxes/sandbox/pause/''" 1] by simp
qed

subsection \<open>What a creation sends upstream\<close>

lemma runw_eq [flow_simps]: "runw f w = (s, w') \<longleftrightarrow> s = Inr () \<and> w' = f w"
  by (auto simp: runw_def)

lemma reply_eq [flow_simps]: "reply r w = (s, w') \<longleftrightarrow> s = Inl (Some r) \<and> w' = w"
  by (auto simp: reply_def)

lemma resolveCreate_Inr:
  assumes "resolveCreate h r w = (Inr (original, resolved), w')"
  shows "\<exists>name. hTemplates h name w = (Inr resolved, w') \<and>
    (case hCallerAuthorizer h of None \<Rightarrow> True | Some authorize \<Rightarrow> authorize r (rtplLogicalTenant resolved) = None)"
  using assms unfolding resolveCreate_def Let_def
  by (simp only: flow_simps prod.inject sum.inject) (auto split: option.splits)

lemma planCreate_Inr:
  assumes "planCreate h r w = (Inr plan, w')"
  shows "\<exists>original name. hTemplates h name w = (Inr (cpResolved plan), w') \<and>
    cpValue plan = governedRequest original (cpResolved plan) \<and>
    (case hCallerAuthorizer h of None \<Rightarrow> True | Some authorize \<Rightarrow> authorize r (rtplLogicalTenant (cpResolved plan)) = None) \<and>
    (hRequireIdempotency h \<longrightarrow> validIdempotencyKey (cpKey plan)) \<and>
    cpName plan = (if cpKey plan = [] then [] else idempotentAssignmentName (rtplLogicalTenant (cpResolved plan)) (cpKey plan))"
proof -
  from assms obtain original resolved where res: "resolveCreate h r w = (Inr (original, resolved), w')"
    and plan: "cpResolved plan = resolved" "cpValue plan = governedRequest original resolved"
      "hRequireIdempotency h \<longrightarrow> validIdempotencyKey (cpKey plan)"
      "cpName plan = (if cpKey plan = [] then [] else idempotentAssignmentName (rtplLogicalTenant resolved) (cpKey plan))"
    by (auto simp: planCreate_def Let_def flow_simps split: prod.splits)
  from resolveCreate_Inr [OF res] plan show ?thesis by blast
qed

lemma allocateCreate_Inr:
  assumes "allocateCreate h plan w = (Inr created, w')"
  shows "\<exists>rel w1 w2. admitCreate h plan w = (Inr rel, w1) \<and> asCreate (hStore h) (planRequest h plan) w1 = (Inr created, w2) \<and>
    w' = rel w2"
  using assms by (auto simp: allocateCreate_def flow_simps)

text \<open>A request in which the template decides everything that governs the sandbox.\<close>

definition governedBy :: "ResolvedTemplate \<Rightarrow> Assignment \<Rightarrow> 'sdk CreateSandboxRequest \<Rightarrow> bool" where
  "governedBy resolved created req \<longleftrightarrow>
     csImage req = Some (rtplImage resolved) \<and> csSnapshotID req = [] \<and> csTimeout req = Some (rtplTimeoutSeconds resolved) \<and>
     csResourceLimits req = [''cpu'' \<mapsto> rtplCPU resolved, ''memory'' \<mapsto> rtplMemory resolved] \<and>
     csResourceRequests req = None \<and> csEntrypoint req = rtplEntrypoint resolved \<and> csNetworkPolicy req = None \<and>
     csCredentialProxy req = None \<and> csVolumes req = [] \<and> csPlatform req = None \<and>
     csExtensions req = Some [assignmentUIDExtension \<mapsto> aUID created] \<and>
     (\<exists>m. csMetadata req = Some m \<and> getS m AssignmentLabel = aName created \<and>
          getS m SandboxTemplateExtension = rtplName resolved)"

lemma forwardRequest_governed:
  assumes "cpValue plan = governedRequest original (cpResolved plan)"
  shows "governedBy (cpResolved plan) created (forwardRequest plan created)"
  using assms by (simp add: governedBy_def forwardRequest_def governedRequest_def Let_def extension_defs)

text \<open>The one request that a creation may send, in a run that starts in the world \<open>w\<close>.\<close>

definition governedOutbound :: "('sdk, 'w) handler \<Rightarrow> request \<Rightarrow> 'w \<Rightarrow> outbound \<Rightarrow> bool" where
  "governedOutbound h r w out \<longleftrightarrow>
     (\<exists>name plan rel created req body w1 w2 w3. hTemplates h name w = (Inr (cpResolved plan), w1) \<and>
        (case hCallerAuthorizer h of None \<Rightarrow> True | Some authorize \<Rightarrow> authorize r (rtplLogicalTenant (cpResolved plan)) = None) \<and>
        admitCreate h plan w1 = (Inr rel, w2) \<and> asCreate (hStore h) (planRequest h plan) w2 = (Inr created, w3) \<and>
        \<not> aExisting created \<and> governedBy (cpResolved plan) created req \<and> encodeCreate (hCodec h) req = Inr body \<and>
        out = \<lparr>obMethod = ''POST'', obPath = ''/sandboxes'', obHeaders = upstreamHeaders (rqHeaders r) (hAPIKey h),
               obBody = body\<rparr>)"

lemma readClock_no_upstream: "readClock (h\<lparr>hDo := d\<rparr>) = readClock h"
  by (rule ext) (simp add: readClock_def)

lemma no_upstream [simp]:
  fixes h :: "('sdk, 'w) handler"
  shows "planCreate (h\<lparr>hDo := d\<rparr>) r = planCreate h r" "allocateCreate (h\<lparr>hDo := d\<rparr>) plan = allocateCreate h plan"
  "replayResponse (h\<lparr>hDo := d\<rparr>) plan created = replayResponse h plan created"
  "authorizedAssignment (h\<lparr>hDo := d\<rparr>) r sandboxID = authorizedAssignment h r sandboxID"
  "fence (h\<lparr>hDo := d\<rparr>) found = fence h found"
proof -
  show "planCreate (h\<lparr>hDo := d\<rparr>) r = planCreate h r"
    by (simp add: planCreate_def resolveCreate_def)
  have "admitCreate (h\<lparr>hDo := d\<rparr>) plan = admitCreate h plan" by (rule ext) (simp add: admitCreate_def)
  then show "allocateCreate (h\<lparr>hDo := d\<rparr>) plan = allocateCreate h plan"
    by (simp add: allocateCreate_def planRequest_def)
  show "replayResponse (h\<lparr>hDo := d\<rparr>) plan created = replayResponse h plan created"
    by (simp add: replayResponse_def expireStale_def readClock_no_upstream cong: if_cong)
  show "authorizedAssignment (h\<lparr>hDo := d\<rparr>) r sandboxID = authorizedAssignment h r sandboxID"
    by (simp add: authorizedAssignment_def authorizeAssignment_def)
  show "fence (h\<lparr>hDo := d\<rparr>) found = fence h found"
    by (simp add: fence_def)
qed

lemma resolvePath_sandboxes: "resolvePath ''/sandboxes'' = ''/sandboxes''"
  by code_simp

lemma forwardCreate_agrees:
  assumes "\<And>body. encodeCreate (hCodec h) (forwardRequest plan created) = Inr body \<Longrightarrow>
      d \<lparr>obMethod = ''POST'', obPath = ''/sandboxes'', obHeaders = upstreamHeaders (rqHeaders r) (hAPIKey h), obBody = body\<rparr> =
      hDo h \<lparr>obMethod = ''POST'', obPath = ''/sandboxes'', obHeaders = upstreamHeaders (rqHeaders r) (hAPIKey h), obBody = body\<rparr>"
  shows "forwardCreate (h\<lparr>hDo := d\<rparr>) r plan created = forwardCreate h r plan created"
  using assms
  by (cases "encodeCreate (hCodec h) (forwardRequest plan created)")
    (simp_all add: forwardCreate_def doUpstream_def resolvePath_sandboxes cong: if_cong)

text \<open>
  C6: the upstream server creates nothing that the governance did not shape. A creation calls the
  upstream server at most with one request, \<open>POST /sandboxes\<close> without the caller's \<open>Authorization\<close>
  header, and only after the template was resolved, the caller was authorized for the tenant of its
  bundle, the admission accepted it and a new assignment was recorded; its body encodes a request
  whose image, entry point, limits and timeout are those of the template, which has no volume,
  network policy, credential proxy, snapshot or platform of the caller's choice, and which names the
  assignment by name and UID. Two upstream servers that answer such requests alike cannot be told
  apart by any creation.
\<close>

theorem create_forwards_governed:
  assumes "\<And>out. governedOutbound h r w out \<Longrightarrow> d out = hDo h out"
  shows "create (h\<lparr>hDo := d\<rparr>) r w = create h r w"
proof (cases "planCreate h r w")
  case (Pair s w1)
  show ?thesis
  proof (cases s)
    case (Inl x) with Pair show ?thesis by (simp add: create_def)
  next
    case (Inr plan)
    with Pair have plan: "planCreate h r w = (Inr plan, w1)" by simp
    show ?thesis
    proof (cases "allocateCreate h plan w1")
      case (Pair t w2)
      show ?thesis
      proof (cases t)
        case (Inl x) with Pair plan show ?thesis by (simp add: create_def)
      next
        case (Inr created)
        with Pair have alloc: "allocateCreate h plan w1 = (Inr created, w2)" by simp
        have "forwardCreate (h\<lparr>hDo := d\<rparr>) r plan created = (forwardCreate h r plan created :: ('b, 'c) hstep)"
          if "\<not> aExisting created"
        proof (rule forwardCreate_agrees)
          fix body assume "encodeCreate (hCodec h) (forwardRequest plan created) = Inr body"
          then show "d \<lparr>obMethod = ''POST'', obPath = ''/sandboxes'',
              obHeaders = upstreamHeaders (rqHeaders r) (hAPIKey h), obBody = body\<rparr> =
            hDo h \<lparr>obMethod = ''POST'', obPath = ''/sandboxes'',
              obHeaders = upstreamHeaders (rqHeaders r) (hAPIKey h), obBody = body\<rparr>"
            using that planCreate_Inr [OF plan] allocateCreate_Inr [OF alloc] forwardRequest_governed
            by (intro assms) (unfold governedOutbound_def, blast)
        qed
        then show ?thesis using plan alloc by (simp add: create_def)
      qed
    qed
  qed
qed

theorem create_forwards_governed_witness:
  "create (exHandler\<lparr>hDo := (\<lambda>out w. if obPath out = ''/sandboxes'' then hDo exHandler out w else (Inl wrongType, w))\<rparr>)
     (exHttpRequest ''POST'' ''/opensandbox/sandboxes'' [''blue'']) (exWorld True) =
   (create exHandler (exHttpRequest ''POST'' ''/opensandbox/sandboxes'' [''blue'']) (exWorld True) ::
     (response option + unit) \<times> handlerWorld)"
  by (rule create_forwards_governed) (auto simp: governedOutbound_def)

subsection \<open>Pause and resume\<close>

lemma waitReady_seen:
  "waitReady fuel h name wanted w = Some (None, w') \<Longrightarrow>
   \<exists>w1 latest. asGet (hStore h) (hNamespace h) name w1 = (Inr latest, w') \<and> aReady latest = wanted"
proof (induction fuel arbitrary: w)
  case (Suc fuel)
  obtain s w1 where run: "asGet (hStore h) (hNamespace h) name w = (s, w1)"
    by (cases "asGet (hStore h) (hNamespace h) name w")
  with Suc.prems obtain latest where latest: "s = Inr latest" by (cases s) auto
  show ?case
  proof (cases "aReady latest = wanted")
    case True
    with Suc.prems run latest have "asGet (hStore h) (hNamespace h) name w = (Inr latest, w')" by simp
    with True show ?thesis by blast
  next
    case False
    obtain e w2 where poll: "hPoll h (hTransitionTimeout h) w1 = (e, w2)" by (cases "hPoll h (hTransitionTimeout h) w1")
    with Suc.prems run latest False have "waitReady fuel h name wanted w2 = Some (None, w')" by (cases e) auto
    then show ?thesis by (rule Suc.IH)
  qed
qed simp

lemma waitReady_no_upstream [simp]: "waitReady fuel (h\<lparr>hDo := d\<rparr>) name wanted w = waitReady fuel h name wanted w"
  by (induction fuel arbitrary: w) (simp_all split: prod.splits sum.splits option.splits)

text \<open>The state in which a pause may be forwarded: the assignment is fenced and was seen not to be ready.\<close>

definition pauseFenced :: "nat \<Rightarrow> ('sdk, 'w) handler \<Rightarrow> request \<Rightarrow> string \<Rightarrow> 'w \<Rightarrow> 'w \<Rightarrow> bool" where
  "pauseFenced fuel h r sandboxID w w3 \<longleftrightarrow>
     (\<exists>found w1 w2. authorizedAssignment h r sandboxID w = (Inr found, w1) \<and>
        fence h found True [] w1 = (Inr (), w2) \<and>
        waitReady fuel h (aName found) False w2 = Some (None, w3) \<and>
        (\<exists>w4 latest. asGet (hStore h) (hNamespace h) (aName found) w4 = (Inr latest, w3) \<and> \<not> aReady latest))"

definition pauseOutbound :: "('sdk, 'w) handler \<Rightarrow> request \<Rightarrow> string \<Rightarrow> outbound" where
  "pauseOutbound h r sandboxID = \<lparr>obMethod = ''POST'', obPath = resolvePath (''/sandboxes/'' @ PathEscape sandboxID @ ''/pause''),
     obHeaders = upstreamHeaders (rqHeaders r) (hAPIKey h), obBody = []\<rparr>"

lemma awaitReady_eq [flow_simps]:
  "awaitReady fuel h name wanted w = (Inr e, w') \<longleftrightarrow> waitReady fuel h name wanted w = Some (e, w')"
  "awaitReady fuel h name wanted w = (Inl x, w') \<longleftrightarrow> waitReady fuel h name wanted w = None \<and> x = None \<and> w' = w"
  by (auto simp: awaitReady_def split: option.splits prod.splits)

lemma awaitReady_no_upstream: "awaitReady fuel (h\<lparr>hDo := d\<rparr>) name wanted = awaitReady fuel h name wanted"
  by (rule ext) (simp add: awaitReady_def)

text \<open>
  C25: a sandbox is paused only behind its fence. The pause reaches the upstream server only after the
  caller was authorized, the pause fence was written, and the assignment was then read and found not
  ready, so that the egress authorization has already stopped. Two upstream servers that answer the
  pause alike in that state cannot be told apart: in every other state none is asked at all.
\<close>

theorem pause_behind_fence:
  assumes "\<And>w3. pauseFenced fuel h r sandboxID w w3 \<Longrightarrow>
    d (pauseOutbound h r sandboxID) w3 = hDo h (pauseOutbound h r sandboxID) w3"
  shows "pause fuel (h\<lparr>hDo := d\<rparr>) r sandboxID w = pause fuel h r sandboxID w"
proof (cases "\<exists>found w1 w2 w3. authorizedAssignment h r sandboxID w = (Inr found, w1) \<and>
    fence h found True [] w1 = (Inr (), w2) \<and> waitReady fuel h (aName found) False w2 = Some (None, w3)")
  case True
  then obtain found w1 w2 w3 where run: "authorizedAssignment h r sandboxID w = (Inr found, w1)"
    "fence h found True [] w1 = (Inr (), w2)" "waitReady fuel h (aName found) False w2 = Some (None, w3)" by blast
  then have "d (pauseOutbound h r sandboxID) w3 = hDo h (pauseOutbound h r sandboxID) w3"
    using assms waitReady_seen [OF run(3)] unfolding pauseFenced_def by blast
  with run show ?thesis
    by (simp add: pause_def bindw_def tryw_def awaitReady_def doUpstream_def pauseOutbound_def)
next
  case False
  then show ?thesis
    by (auto simp: pause_def bindw_def tryw_def awaitReady_def split: prod.splits sum.splits option.splits)
qed

theorem pause_behind_fence_witness:
  "pause 1 (exHandler\<lparr>hDo := (\<lambda>out w. if hwPaused w then hDo exHandler out w else (Inl wrongType, w))\<rparr>)
     (exHttpRequest ''POST'' ''/opensandbox/sandboxes/sandbox/pause'' [''blue'']) ''sandbox'' (exWorld False) =
   (pause 1 exHandler (exHttpRequest ''POST'' ''/opensandbox/sandboxes/sandbox/pause'' [''blue'']) ''sandbox'' (exWorld False) ::
     (response option + unit) \<times> handlerWorld)"
proof (rule pause_behind_fence)
  let ?r = "exHttpRequest ''POST'' ''/opensandbox/sandboxes/sandbox/pause'' [''blue'']"
  fix w3 assume "pauseFenced 1 exHandler ?r ''sandbox'' (exWorld False) w3"
  then obtain name where "waitReady 1 exHandler name False ((exWorld False)\<lparr>hwPaused := True\<rparr>) = Some (None, w3)"
    by (auto simp: pauseFenced_def ex_authorized ex_fence simp del: waitReady.simps)
  then have "hwPaused w3" by (auto simp: ex_handler_defs)
  then show "(if hwPaused w3 then hDo exHandler (pauseOutbound exHandler ?r ''sandbox'') w3 else (Inl wrongType, w3)) =
      hDo exHandler (pauseOutbound exHandler ?r ''sandbox'') w3" by simp
qed

text \<open>
  a pause that could not be confirmed lifts the pause. When the fence was written but the wait for
  the assignment failed, by a timeout or by one error of the store, the handler writes the fence
  again with pausing off, answers 503 and does not ask the upstream server. This also lifts a pause
  that an earlier request had completed, and the fence of a resume that waits for a new Pod.
\<close>

theorem failed_pause_unfences:
  assumes "authorizedAssignment h r sandboxID w = (Inr found, w1)" "fence h found True [] w1 = (Inr (), w2)"
    "waitReady fuel h (aName found) False w2 = Some (Some e, w3)"
  shows "pause fuel h r sandboxID w =
    (Inl (Some (writeError 503 ''assignment did not become paused'')), snd (fence h found False [] w3))"
  using assms
  by (simp add: pause_def bindw_def tryw_def awaitReady_def ignorew_def attempt_def reply_def split: prod.splits)

theorem failed_pause_unfences_witness:
  "pause 3 exHandler (exHttpRequest ''POST'' ''/opensandbox/sandboxes/sandbox/pause'' [''blue'']) ''sandbox''
      ((exWorld True)\<lparr>hwPaused := True\<rparr>) =
    (Inl (Some (writeError 503 ''assignment did not become paused'')), (exWorld True)\<lparr>hwPaused := False, hwLeft := 0\<rparr>)"
proof -
  let ?r = "exHttpRequest ''POST'' ''/opensandbox/sandboxes/sandbox/pause'' [''blue'']"
  let ?w = "(exWorld True)\<lparr>hwPaused := True\<rparr>"
  have a: "authorizedAssignment exHandler ?r ''sandbox'' ?w = (Inr (exAssignmentView True), ?w)"
    using ex_authorized [of _ _ _ ?w] by (simp add: exWorld_def)
  have f: "fence exHandler (exAssignmentView True) True [] ?w = (Inr (), ?w)"
    by (simp add: ex_fence exWorld_def)
  have "waitReady 3 exHandler (aName (exAssignmentView True)) False ?w =
      Some (Some (ErrNew ''context deadline exceeded''), (exWorld True)\<lparr>hwPaused := True, hwLeft := 0\<rparr>)"
    by (simp add: ex_handler_defs numeral_3_eq_3 numeral_2_eq_2)
  from failed_pause_unfences [OF a f this] show ?thesis by (simp add: ex_fence exWorld_def)
qed

text \<open>
  a resume that failed leaves the sandbox paused. The resume reaches the upstream server only after
  the caller was authorized and the fence was written that makes readiness wait for another Pod than
  the recorded one. If the upstream server then cannot be reached or does not answer with success,
  the last act of the handler is to pause the assignment again; if it succeeds, the fence stays.
\<close>

theorem resume_fenced:
  assumes "resume h r sandboxID w = (Inl answer, w')"
  shows "authorizedAssignment h r sandboxID w = (Inl answer, w') \<or>
    (\<exists>found w1 old. authorizedAssignment h r sandboxID w = (Inr found, w1) \<and>
       old = (case aPodRef found of None \<Rightarrow> [] | Some ref \<Rightarrow> orUID ref) \<and>
       ((\<exists>e. fence h found False old w1 = (Inl e, w') \<and> answer = Some (writeStoreError e)) \<or>
        (\<exists>w2 upstream w3. fence h found False old w1 = (Inr (), w2) \<and>
           doUpstream h ''POST'' (''/sandboxes/'' @ PathEscape sandboxID @ ''/resume'') (rqHeaders r) [] w2 = (upstream, w3) \<and>
           w' = (case upstream of
                   Inr response \<Rightarrow> if successful response then w3 else snd (fence h found True [] w3)
                 | Inl _ \<Rightarrow> snd (fence h found True [] w3)))))"
proof (cases "authorizedAssignment h r sandboxID w")
  case (Pair s w1)
  show ?thesis
  proof (cases s)
    case (Inl x) with assms Pair show ?thesis by (simp add: resume_def)
  next
    case (Inr found)
    define old where "old = (case aPodRef found of None \<Rightarrow> [] | Some ref \<Rightarrow> orUID ref)"
    obtain f w2 where f: "fence h found False old w1 = (f, w2)" by (cases "fence h found False old w1")
    obtain u w3 where u: "doUpstream h ''POST'' (''/sandboxes/'' @ PathEscape sandboxID @ ''/resume'') (rqHeaders r) [] w2 = (u, w3)"
      by (cases "doUpstream h ''POST'' (''/sandboxes/'' @ PathEscape sandboxID @ ''/resume'') (rqHeaders r) [] w2")
    show ?thesis
    proof (cases f)
      case (Inl e)
      with assms Pair Inr f show ?thesis by (auto simp: resume_def Let_def bindw_def tryw_def old_def [symmetric])
    next
      case (Inr unit)
      with assms Pair \<open>s = Inr found\<close> f u show ?thesis
        by (cases u) (auto simp: resume_def Let_def bindw_def tryw_def attempt_def ignorew_def reply_def old_def [symmetric]
            split: if_splits prod.splits)
    qed
  qed
qed

theorem resume_fenced_witness:
  "\<exists>found w1. authorizedAssignment exHandler (exHttpRequest ''POST'' ''/opensandbox/sandboxes/sandbox/resume'' [''blue''])
     ''sandbox'' (exWorld False) = (Inr found, w1) \<and> aPodRef found = None"
proof -
  let ?r = "exHttpRequest ''POST'' ''/opensandbox/sandboxes/sandbox/resume'' [''blue'']"
  have up: "doUpstream exHandler m p hs b w = (Inr exAnswer, w\<lparr>hwUpstream := Suc (hwUpstream w)\<rparr>)" for m p hs b w
    by (simp add: doUpstream_def exHandler_def)
  have "\<exists>answer w'. resume exHandler ?r ''sandbox'' (exWorld False) = (Inl answer :: response option + unit, w')"
    by (simp add: resume_def bindw_def ex_authorized tryw_def attempt_def up Let_def ex_fence reply_def
        successful_def exAnswer_def)
  then obtain answer w' where run: "resume exHandler ?r ''sandbox'' (exWorld False) = (Inl answer :: response option + unit, w')"
    by blast
  from resume_fenced [OF run] show ?thesis
    by (auto simp: ex_authorized exAssignmentView_def)
qed

text \<open>
  The wait of a transition, as a countdown: a read of the assignment does not give it more time, and a
  tick that does not report the end of the context uses some of it up.
\<close>

definition transitionDeadline :: "('sdk, 'w) handler \<Rightarrow> ('w \<Rightarrow> nat) \<Rightarrow> bool" where
  "transitionDeadline h left \<longleftrightarrow>
     (\<forall>name w s w'. asGet (hStore h) (hNamespace h) name w = (s, w') \<longrightarrow> left w' \<le> left w) \<and>
     (\<forall>w w'. hPoll h (hTransitionTimeout h) w = (None, w') \<longrightarrow> left w' < left w)"

lemma ex_deadline: "transitionDeadline exHandler hwLeft"
  by (auto simp: transitionDeadline_def exHandler_def exStore_def split: nat.splits)

text \<open>
  waiting for a transition ends. Under its timeout \<open>waitReady\<close> returns in at most as many rounds
  as ticks fit into the timeout, whatever the assignment does; it returns without an error exactly
  when a read saw the wanted readiness.
\<close>

theorem wait_ready_returns:
  assumes "transitionDeadline h left" "left w < fuel"
  shows "\<exists>result w'. waitReady fuel h name wanted w = Some (result, w') \<and>
    (result = None \<longrightarrow>
       (\<exists>w1 latest. asGet (hStore h) (hNamespace h) name w1 = (Inr latest, w') \<and> aReady latest = wanted))"
proof -
  have "\<exists>result w'. waitReady fuel h name wanted w = Some (result, w')"
    using assms(2)
  proof (induction fuel arbitrary: w)
    case (Suc fuel)
    obtain s w1 where get: "asGet (hStore h) (hNamespace h) name w = (s, w1)"
      by (cases "asGet (hStore h) (hNamespace h) name w")
    obtain e w2 where poll: "hPoll h (hTransitionTimeout h) w1 = (e, w2)"
      by (cases "hPoll h (hTransitionTimeout h) w1")
    have "left w1 \<le> left w" "e = None \<Longrightarrow> left w2 < left w1"
      using assms(1) get poll unfolding transitionDeadline_def by blast+
    with Suc.prems have "e = None \<Longrightarrow> left w2 < fuel" by simp
    with Suc.IH [of w2] get poll show ?case by (cases s; cases e) auto
  qed simp
  then show ?thesis using waitReady_seen [of fuel h name wanted w] by metis
qed

theorem wait_ready_returns_witness:
  "\<exists>result w'. waitReady 3 exHandler ''task-1'' False (exWorld True) = Some (result, w')"
  using wait_ready_returns [OF ex_deadline, of "exWorld True" 3 "''task-1''" False] by (auto simp: exWorld_def)

subsection \<open>Names of operations\<close>

lemma nul_split: "CHR 0x00 \<notin> set a \<Longrightarrow> CHR 0x00 \<notin> set b \<Longrightarrow> a @ CHR 0x00 # k = b @ CHR 0x00 # l \<Longrightarrow> a = b \<and> k = l"
proof (induction a arbitrary: b)
  case Nil then show ?case by (cases b) auto
next
  case (Cons c a) then show ?case by (cases b) auto
qed

definition operationByte :: "char \<Rightarrow> bool" where
  "operationByte c \<longleftrightarrow> isLower c \<or> isDigit c \<or> c = CHR ''-''"

text \<open>
  the name of an operation identifies it. The name that a tenant and an idempotency key give is a
  valid object name of 42 lower-case letters, digits and dashes, and it is the hash of a text that
  determines both: tenants without a NUL byte and keys that differ give different texts, so that no
  tenant can reach the operation of another but by a collision of SHA-256.
\<close>

theorem operation_name_identifies:
  "length (idempotentAssignmentName tenant key) = 42 \<and> list_all operationByte (idempotentAssignmentName tenant key) \<and>
   (CHR 0x00 \<notin> set tenant \<and> CHR 0x00 \<notin> set tenant' \<and> tenant @ [CHR 0x00] @ key = tenant' @ [CHR 0x00] @ key' \<longrightarrow>
      tenant = tenant' \<and> key = key')"
proof -
  have hex: "operationByte c" if "c \<in> set (hexEncode s)" for c s
    using hexEncode_chars [OF that] by (auto simp: operationByte_def)
  have "list_all operationByte ''operation-''" by code_simp
  then show ?thesis
    using nul_split [of tenant tenant' key key'] hex
    by (auto simp: idempotentAssignmentName_def length_hexEncode length_sha256Sum list_all_iff)
qed

theorem operation_name_identifies_witness:
  "length (idempotentAssignmentName ''blue'' ''key-0001'') = 42 \<and> ''blue'' = ''blue'' \<and> ''key-0001'' = ''key-0001''"
  using operation_name_identifies [of "''blue''" "''key-0001''" "''blue''" "''key-0001''"] by simp

subsection \<open>Proxied responses\<close>

definition hidesAssignment :: "'sdk sandboxResponse \<Rightarrow> bool" where
  "hidesAssignment v \<longleftrightarrow>
     (\<forall>m. srspMetadata v = Some m \<longrightarrow> m AssignmentLabel = None) \<and>
     (\<forall>m. srspExtensions v = Some m \<longrightarrow> m assignmentUIDExtension = None)"

lemma sanitizeSandbox_hides: "hidesAssignment (sanitizeSandbox v)"
  by (auto simp: hidesAssignment_def sanitizeSandbox_def)

text \<open>
  the assignment stays hidden behind the proxy. With a codec that reads back what it wrote, the
  answer to a proxied \<open>GET\<close> of one sandbox or of the list, and to a metadata change, carries neither
  the assignment label nor the assignment UID of any sandbox, whatever the upstream server sent; an
  answer that cannot be read is not passed on.
\<close>

theorem proxied_response_hides_assignment:
  assumes "\<And>v body. encodeSandbox c v = Inr body \<Longrightarrow> decodeSandbox c body = Inr v"
    and "\<And>l body. encodeList c l = Inr body \<Longrightarrow> decodeList c body = Inr l"
    and "sanitizeProxiedResponse c out response = Inr answer" "successful response"
  shows "(obMethod out = ''GET'' \<and> obPath out = ''/sandboxes'' \<longrightarrow>
       (\<exists>l. decodeList c (rspBody answer) = Inr l \<and> (\<forall>v \<in> set (lrspItems l). hidesAssignment v))) \<and>
    (obMethod out = ''GET'' \<and> hasPrefix (obPath out) ''/sandboxes/'' \<and> CHR ''/'' \<notin> set (trimPrefix (obPath out) ''/sandboxes/'') \<or>
     obMethod out = ''PATCH'' \<and> hasSuffix (obPath out) ''/metadata'' \<longrightarrow>
       (\<exists>v. decodeSandbox c (rspBody answer) = Inr v \<and> hidesAssignment v))"
proof -
  have distinct: "\<not> hasPrefix ''/sandboxes'' ''/sandboxes/''" "''GET'' \<noteq> ''PATCH''" by code_simp+
  have listed: "\<exists>l. decodeList c (rspBody answer) = Inr l \<and> (\<forall>v \<in> set (lrspItems l). hidesAssignment v)"
    if "recode (decodeList c) (\<lambda>l. l\<lparr>lrspItems := map sanitizeSandbox (lrspItems l)\<rparr>) (encodeList c) response = Inr answer"
    using that assms(2) sanitizeSandbox_hides by (auto simp: recode_def withBody_def split: sum.splits)
  have single: "\<exists>v. decodeSandbox c (rspBody answer) = Inr v \<and> hidesAssignment v"
    if "recode (decodeSandbox c) sanitizeSandbox (encodeSandbox c) response = Inr answer"
    using that assms(1) sanitizeSandbox_hides by (auto simp: recode_def withBody_def split: sum.splits)
  show ?thesis using assms(3,4) listed single distinct
    by (auto simp: sanitizeProxiedResponse_def successful_def split: if_splits)
qed

theorem proxied_response_hides_assignment_witness:
  "\<exists>v. decodeSandbox (exCodec\<lparr>decodeSandbox := (\<lambda>_. Inr \<lparr>srspID = ''sandbox'', srspImage = None, srspSnapshotID = [],
        srspStatus = (), srspMetadata = None, srspExtensions = None, srspEntrypoint = [], srspExpiresAt = None,
        srspCreatedAt = 0, srspPlatform = None\<rparr>),
      encodeSandbox := (\<lambda>v. if v = \<lparr>srspID = ''sandbox'', srspImage = None, srspSnapshotID = [],
        srspStatus = (), srspMetadata = None, srspExtensions = None, srspEntrypoint = [], srspExpiresAt = None,
        srspCreatedAt = 0, srspPlatform = None\<rparr> then Inr ''s'' else Inl wrongType)\<rparr>) ''s'' = Inr v \<and> hidesAssignment v"
proof -
  define v0 :: "unit sandboxResponse" where "v0 = \<lparr>srspID = ''sandbox'', srspImage = None, srspSnapshotID = [],
        srspStatus = (), srspMetadata = None, srspExtensions = None, srspEntrypoint = [], srspExpiresAt = None,
        srspCreatedAt = 0, srspPlatform = None\<rparr>"
  let ?c = "exCodec\<lparr>decodeSandbox := (\<lambda>_. Inr v0), encodeSandbox := (\<lambda>v. if v = v0 then Inr ''s'' else Inl wrongType)\<rparr>"
  let ?out = "\<lparr>obMethod = ''GET'', obPath = ''/sandboxes/sandbox'', obHeaders = [], obBody = []\<rparr>"
  have "sanitizeSandbox v0 = v0" by (simp add: sanitizeSandbox_def v0_def)
  then have "sanitizeProxiedResponse ?c ?out (exAnswer\<lparr>rspStatus := 200\<rparr>) = Inr (withBody (exAnswer\<lparr>rspStatus := 200\<rparr>) ''s'')"
    by (simp add: sanitizeProxiedResponse_def recode_def hasPrefix_def trimPrefix_def)
  moreover have "decodeSandbox ?c body = Inr v" if "encodeSandbox ?c v = Inr body" for v body
    using that by (simp split: if_splits)
  moreover have "decodeList ?c body = Inr l" if "encodeList ?c l = Inr body" for l body
    using that by (simp add: exCodec_def)
  moreover have "successful (exAnswer\<lparr>rspStatus := 200\<rparr>)" by (simp add: successful_def)
  ultimately have "\<exists>v. decodeSandbox ?c (rspBody (withBody (exAnswer\<lparr>rspStatus := 200\<rparr>) ''s'')) = Inr v \<and> hidesAssignment v"
    using proxied_response_hides_assignment [of ?c ?out "exAnswer\<lparr>rspStatus := 200\<rparr>"]
    by (simp add: hasPrefix_def trimPrefix_def)
  then have "\<exists>v. decodeSandbox ?c ''s'' = Inr v \<and> hidesAssignment v" by (simp add: withBody_def)
  then show ?thesis unfolding v0_def .
qed

text \<open>
  a base path of the upstream server switches the hiding off. The check looks at the path of the
  outgoing request, which begins with the path of the configured upstream URL. With an upstream such
  as \<open>http://host/v1\<close> the answer to the \<open>GET\<close> of a sandbox is passed on unchanged.
\<close>

theorem base_path_not_sanitized:
  assumes "hUpstreamPath h = ''/v1''" "hPrefix h = ''/opensandbox''" "rqMethod r = ''GET''"
    "rqPath r = ''/opensandbox/sandboxes/'' @ sandboxID"
  shows "obPath (rewriteRequest h r body) = ''/v1/sandboxes/'' @ sandboxID \<and>
    sanitizeProxiedResponse c (rewriteRequest h r body) response = Inr response"
proof -
  have "trimPrefix (''/opensandbox/sandboxes/'' @ sandboxID) ''/opensandbox'' = ''/sandboxes/'' @ sandboxID"
    by (simp add: trimPrefix_def hasPrefix_def)
  then have path: "obPath (rewriteRequest h r body) = ''/v1/sandboxes/'' @ sandboxID"
    using assms by (simp add: rewriteRequest_def Let_def joinURLPath_def trimPrefix_def hasPrefix_def trimSuffix_def hasSuffix_def)
  moreover have "obMethod (rewriteRequest h r body) = ''GET''" using assms by (simp add: rewriteRequest_def Let_def)
  ultimately show ?thesis by (simp add: sanitizeProxiedResponse_def hasPrefix_def)
qed

theorem base_path_not_sanitized_witness:
  "sanitizeProxiedResponse exCodec
     (rewriteRequest (exHandler\<lparr>hUpstreamPath := ''/v1''\<rparr>) (exHttpRequest ''GET'' ''/opensandbox/sandboxes/sandbox'' []) [])
     exAnswer = Inr exAnswer"
  using base_path_not_sanitized [of "exHandler\<lparr>hUpstreamPath := ''/v1''\<rparr>"
      "exHttpRequest ''GET'' ''/opensandbox/sandboxes/sandbox'' []" "''sandbox''" "[]" exCodec exAnswer]
  by (simp add: exHandler_def exHttpRequest_def)

end
