(* ===== verification/ConsoleSetup.thy ===== *)
theory ConsoleSetup
  imports GoFlag DashboardPages Handler
begin

section \<open>How the console is set up\<close>

text \<open>
  \<open>cmd/aks-sandbox-dashboard\<close>: the configuration (\<open>config.go\<close>), the sign-in for development (\<open>dev_auth.go\<close>), the
  transport to the lifecycle facade (\<open>capability_transport.go\<close>), and of \<open>main.go\<close> the choice of the authenticator. The environment is a
  function from names to texts, empty for a variable that is not set. Go visits the map of required settings in any order; the
  list is the order of one run.
\<close>

subsection \<open>Configuration (config.go)\<close>

type_synonym environ = "string \<Rightarrow> string"

record config =
  cfListenAddress :: string
  cfBasePath :: string
  cfKubeconfigPath :: string
  cfOpenSandboxNamespace :: string
  cfSandboxNamespace :: string
  cfAssignmentNamespace :: string
  cfSandboxImage :: string
  cfLifecycleEndpoint :: string
  cfLifecycleTokenFile :: string
  cfSandboxTemplate :: string
  cfTenantID :: string
  cfClientID :: string
  cfScope :: string
  cfRedirectURI :: string
  cfMiseURL :: string
  cfMisePolicy :: string
  cfRequiredScope :: string
  cfRequiredRole :: string
  cfAdminRole :: string
  cfSessionLifetime :: int
  cfCookieSecure :: bool
  cfDevAuth :: bool
  cfDevName :: string
  cfDevTenantID :: string
  cfDevObjectID :: string
  cfDevRoles :: string

definition envOr :: "environ \<Rightarrow> string \<Rightarrow> string \<Rightarrow> string" where
  "envOr env name fallback = (if env name \<noteq> [] then env name else fallback)"

definition envBool :: "environ \<Rightarrow> string \<Rightarrow> bool \<Rightarrow> bool" where
  "envBool env name fallback = (if env name = [] then fallback else case parseBool (env name) of None \<Rightarrow> fallback | Some b \<Rightarrow> b)"

definition envDuration :: "(int \<Rightarrow> int \<Rightarrow> nat \<Rightarrow> int) \<Rightarrow> environ \<Rightarrow> string \<Rightarrow> int \<Rightarrow> int" where
  "envDuration scaled env name fallback =
     (if env name = [] then fallback else case ParseDuration scaled (env name) of None \<Rightarrow> fallback | Some d \<Rightarrow> d)"

definition consoleFlags :: "string \<Rightarrow> flagKind option" where
  "consoleFlags name =
     (if name = ''session-lifetime'' then Some DurationFlag
      else if name \<in> {''cookie-secure'', ''dev-auth''} then Some BoolFlag
      else if name \<in> {''listen'', ''base-path'', ''kubeconfig'', ''opensandbox-namespace'', ''sandbox-namespace'', ''assignment-namespace'',
        ''sandbox-image'', ''lifecycle-endpoint'', ''lifecycle-token-file'', ''sandbox-template'', ''tenant-id'', ''client-id'', ''scope'',
        ''redirect-uri'', ''mise-url'', ''mise-policy'', ''required-scope'', ''required-role'', ''admin-role'', ''dev-name'', ''dev-tenant-id'',
        ''dev-object-id'', ''dev-roles''} then Some StringFlag else None)"

definition configFrom :: "(int \<Rightarrow> int \<Rightarrow> nat \<Rightarrow> int) \<Rightarrow> environ \<Rightarrow> (string \<times> string) list \<Rightarrow> config" where
  "configFrom scaled env sets =
     \<lparr>cfListenAddress = flagText sets ''listen'' (envOr env ''HTTP_ADDR'' ''0.0.0.0:8080''),
      cfBasePath = flagText sets ''base-path'' (envOr env ''OSB_DASHBOARD_BASE_PATH'' ''/dashboard''),
      cfKubeconfigPath = flagText sets ''kubeconfig'' (env ''OSB_DASHBOARD_KUBECONFIG''),
      cfOpenSandboxNamespace = flagText sets ''opensandbox-namespace'' (envOr env ''OSB_DASHBOARD_OPENSANDBOX_NAMESPACE'' ''opensandbox-system''),
      cfSandboxNamespace = flagText sets ''sandbox-namespace'' (envOr env ''OSB_DASHBOARD_SANDBOX_NAMESPACE'' ''opensandbox''),
      cfAssignmentNamespace = flagText sets ''assignment-namespace'' (envOr env ''OSB_DASHBOARD_ASSIGNMENT_NAMESPACE'' ''aks-sandbox-system''),
      cfSandboxImage = flagText sets ''sandbox-image'' (envOr env ''OSB_DASHBOARD_SANDBOX_IMAGE'' ''python:3.12-slim''),
      cfLifecycleEndpoint = flagText sets ''lifecycle-endpoint'' (env ''OSB_DASHBOARD_LIFECYCLE_ENDPOINT''),
      cfLifecycleTokenFile = flagText sets ''lifecycle-token-file'' (env ''OSB_DASHBOARD_LIFECYCLE_TOKEN_FILE''),
      cfSandboxTemplate = flagText sets ''sandbox-template'' (envOr env ''OSB_DASHBOARD_SANDBOX_TEMPLATE'' ''python-kata-reader-v2''),
      cfTenantID = flagText sets ''tenant-id'' (env ''OSB_DASHBOARD_ENTRA_TENANT_ID''),
      cfClientID = flagText sets ''client-id'' (env ''OSB_DASHBOARD_ENTRA_CLIENT_ID''),
      cfScope = flagText sets ''scope'' (env ''OSB_DASHBOARD_ENTRA_SCOPE''),
      cfRedirectURI = flagText sets ''redirect-uri'' (env ''OSB_DASHBOARD_ENTRA_REDIRECT_URI''),
      cfMiseURL = flagText sets ''mise-url'' (envOr env ''OSB_DASHBOARD_MISE_URL'' ''http://127.0.0.1:5000/ValidateRequest''),
      cfMisePolicy = flagText sets ''mise-policy'' (envOr env ''OSB_DASHBOARD_MISE_POLICY'' ''osb-dashboard-inbound-policy''),
      cfRequiredScope = flagText sets ''required-scope'' (envOr env ''OSB_DASHBOARD_REQUIRED_SCOPE'' ''access_as_user''),
      cfRequiredRole = flagText sets ''required-role'' (env ''OSB_DASHBOARD_REQUIRED_ROLE''),
      cfAdminRole = flagText sets ''admin-role'' (envOr env ''OSB_DASHBOARD_ADMIN_ROLE'' ''OpenSandbox.Admin''),
      cfSessionLifetime = flagDuration scaled sets ''session-lifetime'' (envDuration scaled env ''OSB_DASHBOARD_SESSION_LIFETIME'' (30 * 60 * second)),
      cfCookieSecure = flagBool sets ''cookie-secure'' (envBool env ''OSB_DASHBOARD_COOKIE_SECURE'' True),
      cfDevAuth = flagBool sets ''dev-auth'' (envBool env ''OSB_DASHBOARD_DEV_AUTH'' False),
      cfDevName = flagText sets ''dev-name'' (envOr env ''OSB_DASHBOARD_DEV_NAME'' ''POC Administrator''),
      cfDevTenantID = flagText sets ''dev-tenant-id'' (envOr env ''OSB_DASHBOARD_DEV_TENANT_ID'' ''00000000-0000-4000-8000-000000000001''),
      cfDevObjectID = flagText sets ''dev-object-id'' (envOr env ''OSB_DASHBOARD_DEV_OBJECT_ID'' ''00000000-0000-4000-8000-000000000002''),
      cfDevRoles = flagText sets ''dev-roles'' (envOr env ''OSB_DASHBOARD_DEV_ROLES'' ''OpenSandbox.Admin'')\<rparr>"

definition validateLoopbackListenAddress :: "string \<Rightarrow> go_error option" where
  "validateLoopbackListenAddress address =
     (case splitHostPort address of
        None \<Rightarrow> Some (ErrNew ''--listen must be host:port'')
      | Some (host, _) \<Rightarrow>
          (case parseIP host of
             Some ip \<Rightarrow> if isLoopback ip then None else Some (ErrNew ''--dev-auth requires --listen to use a loopback IP'')
           | None \<Rightarrow> Some (ErrNew ''--dev-auth requires --listen to use a loopback IP'')))"

definition requiredSettings :: "config \<Rightarrow> (string \<times> string) list" where
  "requiredSettings cfg =
     [(''--listen'', cfListenAddress cfg), (''--redirect-uri'', cfRedirectURI cfg), (''--sandbox-template'', cfSandboxTemplate cfg),
      (''--assignment-namespace'', cfAssignmentNamespace cfg), (''--admin-role'', cfAdminRole cfg)] @
     (if cfDevAuth cfg
      then [(''--dev-name'', cfDevName cfg), (''--dev-tenant-id'', cfDevTenantID cfg), (''--dev-object-id'', cfDevObjectID cfg),
            (''--dev-roles'', cfDevRoles cfg)]
      else [(''--tenant-id'', cfTenantID cfg), (''--client-id'', cfClientID cfg), (''--scope'', cfScope cfg), (''--mise-url'', cfMiseURL cfg)])"

definition checkConfig :: "config \<Rightarrow> go_error + config" where
  "checkConfig cfg0 =
     (let cfg = cfg0\<lparr>cfBasePath := CHR ''/'' # trimByte (CHR ''/'') (trimSpace (cfBasePath cfg0))\<rparr> in
      seqf (guardf (cfBasePath cfg = ''/'') (ErrNew ''--base-path must not be the site root'')) (\<lambda>_.
      seqf (case (if cfDevAuth cfg then validateLoopbackListenAddress (cfListenAddress cfg) else None) of
              Some e \<Rightarrow> Inl e | None \<Rightarrow> Inr ()) (\<lambda>_.
      seqf (case List.find (\<lambda>(name, v). trimSpace v = []) (requiredSettings cfg) of
              Some (name, _) \<Rightarrow> Inl (ErrNew (name @ '' is required'')) | None \<Rightarrow> Inr ()) (\<lambda>_.
      seqf (guardf (cfSessionLifetime cfg \<le> 0) (ErrNew ''--session-lifetime must be greater than zero'')) (\<lambda>_.
      seqf (guardf (cfLifecycleEndpoint cfg \<noteq> [] \<and> trimSpace (cfLifecycleTokenFile cfg) = [])
        (ErrNew ''--lifecycle-token-file is required with --lifecycle-endpoint'')) (\<lambda>_. Inr cfg))))))"

definition flagFailure :: "flagError \<Rightarrow> go_error" where
  "flagFailure e = (case e of ErrHelp \<Rightarrow> ErrNew ''flag: help requested'' | FlagError message \<Rightarrow> ErrNew message)"

definition parseConfig :: "(int \<Rightarrow> int \<Rightarrow> nat \<Rightarrow> int) \<Rightarrow> environ \<Rightarrow> string list \<Rightarrow> go_error + config" where
  "parseConfig scaled env args =
     (case parseFlags scaled consoleFlags args of
        Inl e \<Rightarrow> Inl (flagFailure e)
      | Inr (sets, rest) \<Rightarrow>
          if rest \<noteq> [] then Inl (ErrNew (''unexpected positional arguments: ['' @ joinWith '' '' rest @ '']''))
          else checkConfig (configFrom scaled env sets))"

subsection \<open>Signing in (auth.go, mise.go, dev_auth.go)\<close>

definition newDashboardAuth :: "config \<Rightarrow> dashboardAuth" where
  "newDashboardAuth cfg =
     \<lparr>daBasePath = cfBasePath cfg, daCookieSecure = cfCookieSecure cfg, daSessionLifetime = cfSessionLifetime cfg,
      daTenantID = cfTenantID cfg, daClientID = cfClientID cfg, daScope = cfScope cfg, daRedirectURI = cfRedirectURI cfg\<rparr>"

definition newMISETokenValidator :: "config \<Rightarrow> miseTokenValidator" where
  "newMISETokenValidator cfg =
     \<lparr>mvPolicy = cfMisePolicy cfg, mvTenantID = cfTenantID cfg, mvRequiredScope = cfRequiredScope cfg, mvRequiredRole = cfRequiredRole cfg\<rparr>"

record developmentDashboardAuth =
  dvIdentity :: authenticatedIdentity
  dvCSRF :: string

definition developmentRoles :: "string \<Rightarrow> string list" where
  "developmentRoles roles = filter (\<lambda>role. role \<noteq> []) (map trimSpace (splitOn (CHR '','') roles))"

definition newDevelopmentDashboardAuth :: "'w authEnv \<Rightarrow> config \<Rightarrow> ('w authWorld, developmentDashboardAuth) call" where
  "newDevelopmentDashboardAuth env cfg =
     bindw (tryw (callS (aeRandom env 32)) (\<lambda>_. ErrNew ''generate development CSRF token'')) (\<lambda>token.
     bindw (guardw (developmentRoles (cfDevRoles cfg) = []) (ErrNew ''development roles are empty'')) (\<lambda>_.
       retw \<lparr>dvIdentity = \<lparr>aiTenantID = cfDevTenantID cfg, aiObjectID = cfDevObjectID cfg, aiName = cfDevName cfg,
               aiRoles = developmentRoles (cfDevRoles cfg), aiScopes = [], aiExpiresAt = zeroTime\<rparr>,
             dvCSRF = b64Encode True [] token\<rparr>))"

definition developmentMiddleware ::
  "developmentDashboardAuth \<Rightarrow> (dashRequest \<Rightarrow> 'w \<Rightarrow> response \<times> 'w) \<Rightarrow> dashRequest \<Rightarrow> 'w \<Rightarrow> response \<times> 'w" where
  "developmentMiddleware a serveNext r = serveNext (r\<lparr>dqIdentity := Some (dvIdentity a), dqCSRF := Some (dvCSRF a)\<rparr>)"

text \<open>The choice in \<open>main.go\<close>, and the middleware of the authenticator that was chosen.\<close>

datatype dashboardAuthenticator = SessionAuth dashboardAuth | DevelopmentAuth developmentDashboardAuth

definition chooseAuthenticator :: "'w authEnv \<Rightarrow> config \<Rightarrow> ('w authWorld, dashboardAuthenticator) call" where
  "chooseAuthenticator env cfg =
     (if cfDevAuth cfg then bindw (newDevelopmentDashboardAuth env cfg) (\<lambda>a. retw (DevelopmentAuth a))
      else retw (SessionAuth (newDashboardAuth cfg)))"

fun authenticatorMiddleware ::
  "'w authEnv \<Rightarrow> dashboardAuthenticator \<Rightarrow> (dashRequest \<Rightarrow> 'w authWorld \<Rightarrow> response \<times> 'w authWorld) \<Rightarrow>
     dashRequest \<Rightarrow> 'w authWorld \<Rightarrow> response \<times> 'w authWorld" where
  "authenticatorMiddleware env (SessionAuth a) serveNext r = sessionMiddleware env a serveNext r"
| "authenticatorMiddleware env (DevelopmentAuth a) serveNext r = developmentMiddleware a serveNext r"

subsection \<open>The transport to the lifecycle facade (capability_transport.go)\<close>

definition maxDashboardCreateBodyBytes :: nat where
  "maxDashboardCreateBodyBytes = 4 * 2 ^ 20"

definition dashboardSandboxTemplateExtension :: string where
  "dashboardSandboxTemplateExtension = ''aks-sandbox.azure.com/template''"

record sandboxTemplateTransport =
  stTemplate :: string
  stTokenFile :: string

record 'w transportEnv =
  teBase :: "request \<Rightarrow> ('w, response) call"
  teReadFile :: "string \<Rightarrow> ('w, string) call"
  teNewUUID :: "'w \<Rightarrow> string \<times> 'w"

definition isCreateRequest :: "request \<Rightarrow> bool" where
  "isCreateRequest request \<longleftrightarrow> rqMethod request = ''POST'' \<and> hasSuffix (rqPath request) ''/sandboxes''"

text \<open>The key is written into the header of the caller's request, before the copy is made.\<close>

definition ensureIdempotencyKey :: "'w transportEnv \<Rightarrow> request \<Rightarrow> 'w \<Rightarrow> request \<times> 'w" where
  "ensureIdempotencyKey env request w =
     (if isCreateRequest request \<and> headerGet (rqHeaders request) ''Idempotency-Key'' = [] then
        (case teNewUUID env w of (key, w') \<Rightarrow> (request\<lparr>rqHeaders := headerSet (rqHeaders request) ''Idempotency-Key'' key\<rparr>, w'))
      else (request, w))"

definition withToken :: "'w transportEnv \<Rightarrow> sandboxTemplateTransport \<Rightarrow> request \<Rightarrow> ('w, request) call" where
  "withToken env t request =
     (if stTokenFile t = [] then retw request
      else bindw (tryw (teReadFile env (stTokenFile t)) (Errorf ''read lifecycle caller token'')) (\<lambda>token.
           bindw (guardw (trimSpace token = []) (ErrNew ''lifecycle caller token is empty'')) (\<lambda>_.
             retw (request\<lparr>rqHeaders := headerSet (rqHeaders request) ''Authorization'' (''Bearer '' @ trimSpace token)\<rparr>))))"

definition templateOnly :: "sandboxTemplateTransport \<Rightarrow> 'sdk CreateSandboxRequest \<Rightarrow> 'sdk CreateSandboxRequest" where
  "templateOnly t createRequest = createRequest\<lparr>csExtensions := Some [dashboardSandboxTemplateExtension \<mapsto> stTemplate t]\<rparr>"

definition createBody :: "'sdk codec \<Rightarrow> sandboxTemplateTransport \<Rightarrow> request \<Rightarrow> go_error + string" where
  "createBody codec t request =
     seqf (case rqBody request of Inl e \<Rightarrow> Inl (Errorf ''read OpenSandbox create request'' e) | Inr body \<Rightarrow> Inr body) (\<lambda>body.
     seqf (guardf (maxDashboardCreateBodyBytes < length body)
       (ErrNew (''OpenSandbox create request exceeds '' @ showDec maxDashboardCreateBodyBytes @ '' bytes''))) (\<lambda>_.
     seqf (case decodeCreate codec body of Inl e \<Rightarrow> Inl (Errorf ''decode OpenSandbox create request'' e) | Inr v \<Rightarrow> Inr v) (\<lambda>createRequest.
     case encodeCreate codec (templateOnly t createRequest) of
       Inl e \<Rightarrow> Inl (Errorf ''encode OpenSandbox create request'' e) | Inr encoded \<Rightarrow> Inr encoded)))"

text \<open>The result of the round trip and the request as the caller sees it afterwards.\<close>

definition RoundTrip ::
  "'w transportEnv \<Rightarrow> 'sdk codec \<Rightarrow> sandboxTemplateTransport \<Rightarrow> request \<Rightarrow> 'w \<Rightarrow> ((go_error + response) \<times> request) \<times> 'w" where
  "RoundTrip env codec t request0 w =
     (case ensureIdempotencyKey env request0 w of (request, w1) \<Rightarrow>
        case bindw (withToken env t request) (\<lambda>outbound.
               if \<not> isCreateRequest request then teBase env outbound
               else bindw (liftf (createBody codec t request)) (\<lambda>body. teBase env (outbound\<lparr>rqBody := Inr body\<rparr>))) w1 of
          (result, w2) \<Rightarrow> ((result, request), w2))"

text \<open>
  The wiring of \<open>run\<close>: a transport only when the endpoint of a facade is configured. In the cluster the client falls back to the OpenSandbox
  server itself; \<open>None\<close> leaves the endpoint to the client that is made from a kubeconfig.
\<close>

definition lifecycleTransport :: "config \<Rightarrow> sandboxTemplateTransport option" where
  "lifecycleTransport cfg =
     (if cfLifecycleEndpoint cfg \<noteq> []
      then Some \<lparr>stTemplate = cfSandboxTemplate cfg, stTokenFile = cfLifecycleTokenFile cfg\<rparr> else None)"

definition clientEndpoint :: "config \<Rightarrow> string option" where
  "clientEndpoint cfg =
     (if cfLifecycleEndpoint cfg \<noteq> [] then Some (cfLifecycleEndpoint cfg)
      else if cfKubeconfigPath cfg = [] then Some (''http://opensandbox-server.'' @ cfOpenSandboxNamespace cfg @ ''.svc.cluster.local'')
      else None)"

subsection \<open>What a configuration promises\<close>

definition loopbackOnly :: "string \<Rightarrow> bool" where
  "loopbackOnly address \<longleftrightarrow> (\<exists>host port ip. splitHostPort address = Some (host, port) \<and> parseIP host = Some ip \<and> isLoopback ip)"

lemma validateLoopback_None: "validateLoopbackListenAddress address = None \<longleftrightarrow> loopbackOnly address"
  by (auto simp: validateLoopbackListenAddress_def loopbackOnly_def split: option.splits)

lemma checkConfig_Inr:
  assumes "checkConfig cfg0 = Inr cfg"
  shows "cfg = cfg0\<lparr>cfBasePath := CHR ''/'' # trimByte (CHR ''/'') (trimSpace (cfBasePath cfg0))\<rparr>" "cfBasePath cfg \<noteq> ''/''"
    "cfDevAuth cfg \<longrightarrow> loopbackOnly (cfListenAddress cfg)" "\<forall>(name, v) \<in> set (requiredSettings cfg). trimSpace v \<noteq> []"
    "0 < cfSessionLifetime cfg" "cfLifecycleEndpoint cfg = [] \<or> trimSpace (cfLifecycleTokenFile cfg) \<noteq> []"
proof -
  show cfg: "cfg = cfg0\<lparr>cfBasePath := CHR ''/'' # trimByte (CHR ''/'') (trimSpace (cfBasePath cfg0))\<rparr>"
    using assms by (auto simp: checkConfig_def Let_def flow_simps)
  from assms show "cfBasePath cfg \<noteq> ''/''" "cfDevAuth cfg \<longrightarrow> loopbackOnly (cfListenAddress cfg)"
      "0 < cfSessionLifetime cfg" "cfLifecycleEndpoint cfg = [] \<or> trimSpace (cfLifecycleTokenFile cfg) \<noteq> []"
    unfolding cfg by (auto simp: checkConfig_def Let_def flow_simps validateLoopback_None split: option.splits if_splits)
  have "List.find (\<lambda>(name, v). trimSpace v = []) (requiredSettings cfg) = None"
    using assms unfolding cfg by (auto simp: checkConfig_def Let_def flow_simps split: option.splits prod.splits)
  then show "\<forall>(name, v) \<in> set (requiredSettings cfg). trimSpace v \<noteq> []" by (auto simp: find_None_iff)
qed

lemma parseConfig_checked: "parseConfig scaled env args = Inr cfg \<Longrightarrow> \<exists>cfg0. checkConfig cfg0 = Inr cfg"
  by (auto simp: parseConfig_def split: sum.splits if_splits)

text \<open>
  C11: outside of a loopback address the console needs a session. Whatever flags and environment start it, a console that starts listens on a
  loopback IP, or it signs users in through sessions of a positive lifetime for a tenant, an API scope and a validator that are all set, below a base path that is not the
  site root; then every request for a path that is not public is answered without the console or carries the cookie of a live session.
\<close>

theorem console_guarded_or_local:
  assumes config: "parseConfig scaled environment args = Inr cfg"
    and auth: "chooseAuthenticator env cfg w0 = (Inr auth, w1)"
    and run: "serving env (newDashboardAuth cfg) w" "\<not> publicPath (newDashboardAuth cfg) (rqPath r)"
      "authenticatorMiddleware env auth serveNext r w = (response, w')"
  shows "cfBasePath cfg \<noteq> ''/'' \<and> hd (cfBasePath cfg) = CHR ''/'' \<and> last (cfBasePath cfg) \<noteq> CHR ''/'' \<and>
    (loopbackOnly (cfListenAddress cfg) \<or>
      \<not> cfDevAuth cfg \<and> 0 < cfSessionLifetime cfg \<and>
      (\<forall>v \<in> {cfTenantID cfg, cfClientID cfg, cfScope cfg, cfMiseURL cfg}. trimSpace v \<noteq> []) \<and>
      (response = unauthenticated (newDashboardAuth cfg) r \<or>
       (\<exists>session w2. signedIn env (newDashboardAuth cfg) r w session w2 \<and> serveNext (inSession r session) w2 = (response, w'))))"
proof -
  obtain cfg0 where "checkConfig cfg0 = Inr cfg" using parseConfig_checked [OF config] by blast
  note checked = checkConfig_Inr [OF this]
  have base: "cfBasePath cfg \<noteq> ''/''" "hd (cfBasePath cfg) = CHR ''/''" using checked(1,2) by simp_all
  have last: "last (cfBasePath cfg) \<noteq> CHR ''/''"
    using checked(1,2) trimByte_ends [of "CHR ''/''" "trimSpace (cfBasePath cfg0)"] by auto
  show ?thesis
  proof (cases "cfDevAuth cfg")
    case True
    then show ?thesis using base last checked(3) by simp
  next
    case False
    then have session: "auth = SessionAuth (newDashboardAuth cfg)" using auth by (simp add: chooseAuthenticator_def flow_simps)
    have "trimSpace v \<noteq> []" if "v \<in> {cfTenantID cfg, cfClientID cfg, cfScope cfg, cfMiseURL cfg}" for v
      using that checked(4) False by (auto simp: requiredSettings_def)
    moreover have "response = unauthenticated (newDashboardAuth cfg) r \<or>
       (\<exists>session w2. signedIn env (newDashboardAuth cfg) r w session w2 \<and> serveNext (inSession r session) w2 = (response, w'))"
      using sessionMiddleware_cases [OF run(1,2)] run(3) session by simp
    ultimately show ?thesis using base last False checked(5) by blast
  qed
qed

subsection \<open>What the transport sends\<close>

text \<open>
  What \<open>encoding/json\<close> documents of a map of strings: it decodes to itself when its keys and values are valid UTF-8 (other bytes are replaced when it is
  encoded) and it is not empty (an empty map is left out). \<open>uuid.NewString\<close> does not return an empty text.
\<close>

definition utf8Map :: "strmap \<Rightarrow> bool" where
  "utf8Map m \<longleftrightarrow> (\<forall>k x. m k = Some x \<longrightarrow> utf8 k \<and> utf8 x)"

definition keepsExtensions :: "'sdk codec \<Rightarrow> bool" where
  "keepsExtensions codec \<longleftrightarrow>
     (\<forall>v m body. encodeCreate codec v = Inr body \<and> csExtensions v = Some m \<and> m \<noteq> Map.empty \<and> utf8Map m \<longrightarrow>
        (\<exists>v'. decodeCreate codec body = Inr v' \<and> csExtensions v' = Some m))"

definition namesUUIDs :: "'w transportEnv \<Rightarrow> bool" where
  "namesUUIDs env \<longleftrightarrow> (\<forall>w. fst (teNewUUID env w) \<noteq> [])"

lemma header_names: "CanonicalHeaderKey ''Authorization'' \<noteq> CanonicalHeaderKey ''Idempotency-Key''"
  by code_simp

lemma headerGet_other: "CanonicalHeaderKey a \<noteq> CanonicalHeaderKey b \<Longrightarrow> headerGet (headerSet h a v) b = headerGet h b"
  by (simp add: headerGet_def headerSet_def map_add_def split: option.splits)

lemma ensureIdempotencyKey_fields:
  assumes "namesUUIDs env" "ensureIdempotencyKey env request w = (request', w')"
  shows "rqMethod request' = rqMethod request" "rqPath request' = rqPath request" "rqBody request' = rqBody request"
    "isCreateRequest request \<Longrightarrow> headerGet (rqHeaders request') ''Idempotency-Key'' \<noteq> []"
  using assms(2) namesUUIDs_def [of env] assms(1)
  by (auto simp: ensureIdempotencyKey_def case_prod_unfold split: if_splits)

lemma withToken_Inr:
  "withToken env t request w = (Inr outbound, w') \<Longrightarrow>
     headerGet (rqHeaders outbound) ''Idempotency-Key'' = headerGet (rqHeaders request) ''Idempotency-Key'' \<and>
     (stTokenFile t \<noteq> [] \<longrightarrow> (\<exists>token w1. teReadFile env (stTokenFile t) w = (Inr token, w1) \<and> trimSpace token \<noteq> [] \<and>
        headerGet (rqHeaders outbound) ''Authorization'' = ''Bearer '' @ trimSpace token))"
  by (auto simp: withToken_def flow_simps headerGet_other header_names split: if_splits)

lemma lifecycleTransport_wired:
  assumes "parseConfig scaled environment args = Inr cfg" "lifecycleTransport cfg = Some t"
  shows "clientEndpoint cfg = Some (cfLifecycleEndpoint cfg)" "trimSpace (stTemplate t) \<noteq> []" "stTokenFile t = cfLifecycleTokenFile cfg"
    "stTokenFile t \<noteq> []"
proof -
  obtain cfg0 where "checkConfig cfg0 = Inr cfg" using parseConfig_checked [OF assms(1)] by blast
  note checked = checkConfig_Inr [OF this]
  have t: "cfLifecycleEndpoint cfg \<noteq> []" "t = \<lparr>stTemplate = cfSandboxTemplate cfg, stTokenFile = cfLifecycleTokenFile cfg\<rparr>"
    using assms(2) by (auto simp: lifecycleTransport_def split: if_splits)
  show "clientEndpoint cfg = Some (cfLifecycleEndpoint cfg)" using t(1) by (simp add: clientEndpoint_def)
  show "trimSpace (stTemplate t) \<noteq> []" using checked(4) t(2) by (auto simp: requiredSettings_def)
  show "stTokenFile t = cfLifecycleTokenFile cfg" using t(2) by simp
  have "trimSpace [] = []" by code_simp
  then show "stTokenFile t \<noteq> []" using checked(6) t by auto
qed

lemma utf8_extension: "utf8 SandboxTemplateExtension"
  by code_simp

lemma resolveCreate_template:
  "resolveCreate h r v = (Inr (value0, resolved), v') \<Longrightarrow>
     \<exists>body original. rqBody r = Inr body \<and> decodeCreate (hCodec h) body = Inr original \<and>
       hTemplates h (trimSpace (case csExtensions original of None \<Rightarrow> [] | Some m \<Rightarrow> getS m SandboxTemplateExtension)) v = (Inr resolved, v')"
  by (auto simp: resolveCreate_def Let_def flow_simps readBody_def split: sum.splits if_splits)

text \<open>
  C12: the console creates from its template only. With a configuration that was accepted and names the endpoint of a facade, the client of the console goes
  to that endpoint, and a creation that its transport sent, whatever its body asked for, carries a body whose only extension names the
  configured template, which is not blank, an idempotency key, and the token of the configured file. The key is the one that the caller's request has afterwards, and a
  retry with this request keeps it. If the name of the template is valid UTF-8, so that the JSON codec keeps it, a facade that accepts the body resolves exactly the
  configured template.
\<close>

theorem transport_governed:
  fixes codec :: "'sdk codec"
  assumes config: "parseConfig scaled environment args = Inr cfg" and wired: "lifecycleTransport cfg = Some t"
    and uuids: "namesUUIDs env" and create: "isCreateRequest request"
    and run: "RoundTrip env codec t request w = ((Inr response, request'), w')"
  shows "clientEndpoint cfg = Some (cfLifecycleEndpoint cfg) \<and> trimSpace (stTemplate t) \<noteq> [] \<and>
    (\<exists>outbound createRequest body token w0 w1 w2. teBase env outbound w2 = (Inr response, w') \<and> rqBody outbound = Inr body \<and>
      encodeCreate codec (createRequest\<lparr>csExtensions := Some [SandboxTemplateExtension \<mapsto> stTemplate t]\<rparr>) = Inr body \<and>
      headerGet (rqHeaders outbound) ''Idempotency-Key'' = headerGet (rqHeaders request') ''Idempotency-Key'' \<and>
      headerGet (rqHeaders request') ''Idempotency-Key'' \<noteq> [] \<and> (\<forall>v. ensureIdempotencyKey env request' v = (request', v)) \<and>
      teReadFile env (cfLifecycleTokenFile cfg) w0 = (Inr token, w1) \<and> trimSpace token \<noteq> [] \<and>
      headerGet (rqHeaders outbound) ''Authorization'' = ''Bearer '' @ trimSpace token \<and>
      (keepsExtensions codec \<and> utf8 (stTemplate t) \<longrightarrow>
         (\<forall>(h :: ('sdk, 'v) handler) r v value0 resolved v'. hCodec h = codec \<and> rqBody r = Inr body \<and> resolveCreate h r v = (Inr (value0, resolved), v') \<longrightarrow>
            hTemplates h (trimSpace (stTemplate t)) v = (Inr resolved, v'))))"
proof -
  note wired = lifecycleTransport_wired [OF config wired]
  obtain w1 where key: "ensureIdempotencyKey env request w = (request', w1)"
    using run by (auto simp: RoundTrip_def split: prod.splits)
  note fields = ensureIdempotencyKey_fields [OF uuids key]
  have create': "isCreateRequest request'" using create fields by (simp add: isCreateRequest_def)
  from run key create' obtain outbound w2 body where sent: "withToken env t request' w1 = (Inr outbound, w2)"
      "createBody codec t request' = Inr body" "teBase env (outbound\<lparr>rqBody := Inr body\<rparr>) w2 = (Inr response, w')"
    by (auto simp: RoundTrip_def flow_simps split: prod.splits)
  obtain createRequest where "encodeCreate codec (templateOnly t createRequest) = Inr body"
    using sent(2) by (auto simp: createBody_def flow_simps split: sum.splits)
  then have encoded: "encodeCreate codec (createRequest\<lparr>csExtensions := Some [SandboxTemplateExtension \<mapsto> stTemplate t]\<rparr>) = Inr body"
    by (simp add: templateOnly_def dashboardSandboxTemplateExtension_def SandboxTemplateExtension_def)
  have resolves: "hTemplates h (trimSpace (stTemplate t)) v = (Inr resolved, v1)"
    if facade: "keepsExtensions codec" "utf8 (stTemplate t)" "hCodec h = codec" "rqBody r = Inr body" "resolveCreate h r v = (Inr (value0, resolved), v1)"
    for h :: "('sdk, 'v) handler" and r v value0 resolved v1
  proof -
    have "utf8Map [SandboxTemplateExtension \<mapsto> stTemplate t]" using facade(2) utf8_extension by (simp add: utf8Map_def)
    then obtain v' where "decodeCreate codec body = Inr v'" "csExtensions v' = Some [SandboxTemplateExtension \<mapsto> stTemplate t]"
      using facade(1) [unfolded keepsExtensions_def, rule_format, of "createRequest\<lparr>csExtensions := Some [SandboxTemplateExtension \<mapsto> stTemplate t]\<rparr>" body
        "[SandboxTemplateExtension \<mapsto> stTemplate t]"] encoded by auto
    then show ?thesis using resolveCreate_template [OF facade(5)] facade(3,4) by (auto simp: getS_def)
  qed
  have again: "\<forall>v. ensureIdempotencyKey env request' v = (request', v)"
    using fields(4) [OF create] by (simp add: ensureIdempotencyKey_def)
  obtain token w3 where token: "teReadFile env (cfLifecycleTokenFile cfg) w1 = (Inr token, w3)" "trimSpace token \<noteq> []"
      "headerGet (rqHeaders outbound) ''Authorization'' = ''Bearer '' @ trimSpace token"
    and key: "headerGet (rqHeaders outbound) ''Idempotency-Key'' = headerGet (rqHeaders request') ''Idempotency-Key''"
    using withToken_Inr [OF sent(1)] wired(3,4) by auto
  have accepted: "keepsExtensions codec \<and> utf8 (stTemplate t) \<longrightarrow> (\<forall>(h :: ('sdk, 'v) handler) r v value0 resolved v'. hCodec h = codec \<and> rqBody r = Inr body \<and>
      resolveCreate h r v = (Inr (value0, resolved), v') \<longrightarrow> hTemplates h (trimSpace (stTemplate t)) v = (Inr resolved, v'))"
    using resolves by blast
  show ?thesis
    by (rule conjI [OF wired(1) conjI [OF wired(2)]], rule exI [of _ "outbound\<lparr>rqBody := Inr body\<rparr>"], rule exI [of _ createRequest],
        rule exI [of _ body], rule exI [of _ token], rule exI [of _ w1], rule exI [of _ w3], rule exI [of _ w2])
      (use sent(3) encoded again token key fields(4) [OF create] accepted in simp)
qed

subsection \<open>Examples\<close>

definition cxArgs :: "string list" where
  "cxArgs = [''--tenant-id=entra'', ''-client-id'', ''client'', ''--scope'', ''api'', ''--redirect-uri=https://console.example/cb'', ''--session-lifetime=15m'',
     ''--cookie-secure'']"

definition cxConfig :: config where
  "cxConfig = projr (parseConfig (\<lambda>_ _ _. 0) (\<lambda>_. []) cxArgs)"

lemma cx_parses: "parseConfig (\<lambda>_ _ _. 0) (\<lambda>_. []) cxArgs = Inr cxConfig"
proof -
  have "\<not> isl (parseConfig (\<lambda>_ _ _. 0) (\<lambda>_. []) cxArgs)" by code_simp
  then show ?thesis by (simp add: cxConfig_def)
qed

lemma cx_fields:
  "cfListenAddress cxConfig = ''0.0.0.0:8080''" "cfBasePath cxConfig = ''/dashboard''" "cfDevAuth cxConfig = False"
  "cfSessionLifetime cxConfig = 900 * second"
  by code_simp+

lemma loopback_a: "validateLoopbackListenAddress ''127.0.0.1:8080'' = None"
  by code_simp

lemma loopback_c: "validateLoopbackListenAddress ''0.0.0.0:8080'' \<noteq> None"
  by code_simp

lemma loopback_d: "validateLoopbackListenAddress ''localhost:8080'' \<noteq> None"
  by code_simp

lemma loopback_examples: "loopbackOnly ''127.0.0.1:8080''" "\<not> loopbackOnly ''0.0.0.0:8080''" "\<not> loopbackOnly ''localhost:8080''"
  using loopback_a loopback_c loopback_d by (simp_all add: validateLoopback_None)

text \<open>A console on all addresses, and a request without a cookie.\<close>

definition cxRequest :: dashRequest where
  "cxRequest = sxRequest ''/dashboard/admin'' []"

theorem console_guarded_or_local_witness:
  "\<not> loopbackOnly (cfListenAddress cxConfig) \<and>
   fst (authenticatorMiddleware sxEnv (SessionAuth (newDashboardAuth cxConfig)) sxNext cxRequest sxStart) =
     unauthenticated (newDashboardAuth cxConfig) cxRequest"
proof -
  let ?a = "newDashboardAuth cxConfig"
  have open_address: "\<not> loopbackOnly (cfListenAddress cxConfig)" using loopback_examples(2) by (simp add: cx_fields)
  have auth: "chooseAuthenticator sxEnv cxConfig sxStart = (Inr (SessionAuth ?a), sxStart)"
    by (simp add: chooseAuthenticator_def cx_fields retw_def)
  have serve: "serving sxEnv ?a sxStart" unfolding sxStart_def by (rule serving.start)
  have path: "\<not> publicPath ?a (rqPath cxRequest)"
    by (simp add: publicPath_def newDashboardAuth_def cx_fields cxRequest_def sxRequest_def hasPrefix_def)
  obtain response w' where run: "authenticatorMiddleware sxEnv (SessionAuth ?a) sxNext cxRequest sxStart = (response, w')"
    by (cases "authenticatorMiddleware sxEnv (SessionAuth ?a) sxNext cxRequest sxStart")
  have "\<not> signedIn sxEnv ?a cxRequest sxStart session w2" for session w2
    by (simp add: signedIn_def sxStart_def newMemoryAuthStore_def)
  then have "response = unauthenticated ?a cxRequest"
    using console_guarded_or_local [OF cx_parses auth serve path run] open_address by blast
  then show ?thesis using open_address run by simp
qed

text \<open>A codec of the requests that have no extension but a template, of any name, after the word \<open>create\<close>.\<close>

definition cxCodec :: "unit codec" where
  "cxCodec = exCodec\<lparr>
     encodeCreate := (\<lambda>v. case csExtensions v of
         None \<Rightarrow> Inr []
       | Some m \<Rightarrow>
           if m = Map.empty then Inr []
           else if dom m \<subseteq> {SandboxTemplateExtension} then Inr (''create '' @ getS m SandboxTemplateExtension) else Inl wrongType),
     decodeCreate := (\<lambda>body. case cutPrefix body ''create '' of
         None \<Rightarrow> Inr adRequest
       | Some x \<Rightarrow> Inr (adRequest\<lparr>csExtensions := Some [SandboxTemplateExtension \<mapsto> x]\<rparr>))\<rparr>"

lemma cx_keeps: "keepsExtensions cxCodec"
proof -
  have "[SandboxTemplateExtension \<mapsto> getS m SandboxTemplateExtension] = m"
    if "m \<noteq> Map.empty" "dom m \<subseteq> {SandboxTemplateExtension}" for m :: strmap
  proof -
    have "dom m = {SandboxTemplateExtension}" using that by (metis dom_eq_empty_conv subset_singletonD)
    then obtain x where "m = [SandboxTemplateExtension \<mapsto> x]" unfolding dom_eq_singleton_conv by blast
    then show ?thesis by (simp add: getS_def)
  qed
  then show ?thesis
    by (auto simp: keepsExtensions_def cxCodec_def exCodec_def cutPrefix_def hasPrefix_def split: if_splits)
qed

text \<open>A facade with this codec that has one template.\<close>

definition cxHandler :: "(unit, handlerWorld) handler" where
  "cxHandler = exHandler\<lparr>hCodec := cxCodec, hCallerAuthorizer := None,
     hTemplates := (\<lambda>name w. if name = ''python'' then (Inr exTemplate, w) else (Inl (ErrNew ''no such template''), w))\<rparr>"

lemma cx_resolves:
  assumes "rqBody r = Inr ''create python''"
  shows "\<exists>value0. resolveCreate cxHandler r w = (Inr (value0, exTemplate), w)"
proof -
  have "trimSpace ''python'' = ''python''" by code_simp
  moreover have "readBody r maxCreateBodyBytes = Inr ''create python''"
    using assms by (simp add: readBody_def maxCreateBodyBytes_def)
  ultimately show ?thesis
    by (simp add: resolveCreate_def cxHandler_def cxCodec_def cutPrefix_def hasPrefix_def getS_def bindw_def tryw_def Let_def)
qed

definition cxFacade :: config where
  "cxFacade = projr (parseConfig (\<lambda>_ _ _. 0) (\<lambda>_. [])
     (cxArgs @ [''--lifecycle-endpoint=http://assignmentd:8080'', ''--lifecycle-token-file'', ''/token'', ''--sandbox-template=python'']))"

lemma cx_facade:
  "parseConfig (\<lambda>_ _ _. 0) (\<lambda>_. [])
     (cxArgs @ [''--lifecycle-endpoint=http://assignmentd:8080'', ''--lifecycle-token-file'', ''/token'', ''--sandbox-template=python'']) = Inr cxFacade"
proof -
  have "\<not> isl (parseConfig (\<lambda>_ _ _. 0) (\<lambda>_. [])
     (cxArgs @ [''--lifecycle-endpoint=http://assignmentd:8080'', ''--lifecycle-token-file'', ''/token'', ''--sandbox-template=python'']))" by code_simp
  then show ?thesis by (simp add: cxFacade_def)
qed

definition cxTransport :: sandboxTemplateTransport where
  "cxTransport = \<lparr>stTemplate = ''python'', stTokenFile = ''/token''\<rparr>"

lemma cx_wired: "lifecycleTransport cxFacade = Some cxTransport"
  by code_simp

definition cxEnv :: "unit transportEnv" where
  "cxEnv = \<lparr>teBase = (\<lambda>_. okw exAnswer), teReadFile = (\<lambda>_. okw ''secret''), teNewUUID = (\<lambda>w. (''00000000-0000-4000-8000-000000000003'', w))\<rparr>"

definition cxPost :: request where
  "cxPost = \<lparr>rqMethod = ''POST'', rqPath = ''/opensandbox/sandboxes'', rqHeaders = [], rqBody = Inr ''{}'', rqScopes = None\<rparr>"

lemma cx_sent: "\<exists>request'. RoundTrip cxEnv cxCodec cxTransport cxPost () = ((Inr exAnswer, request'), ())"
proof -
  have create: "isCreateRequest cxPost" by (simp add: isCreateRequest_def cxPost_def hasSuffix_def)
  let ?request = "cxPost\<lparr>rqHeaders := headerSet (rqHeaders cxPost) ''Idempotency-Key'' ''00000000-0000-4000-8000-000000000003''\<rparr>"
  have key: "ensureIdempotencyKey cxEnv cxPost () = (?request, ())"
    using create by (simp add: ensureIdempotencyKey_def cxEnv_def cxPost_def headerGet_def)
  have "isCreateRequest ?request" using create by (simp add: isCreateRequest_def)
  moreover have "createBody cxCodec cxTransport ?request = Inr ''create python''"
    by (simp add: createBody_def cxPost_def cxCodec_def templateOnly_def cxTransport_def dashboardSandboxTemplateExtension_def
        maxDashboardCreateBodyBytes_def SandboxTemplateExtension_def cutPrefix_def hasPrefix_def getS_def)
  moreover have "withToken cxEnv cxTransport ?request () =
      (Inr (?request\<lparr>rqHeaders := headerSet (rqHeaders ?request) ''Authorization'' ''Bearer secret''\<rparr>), ())"
  proof -
    have "trimSpace ''secret'' = ''secret''" by code_simp
    then show ?thesis by (simp add: withToken_def cxTransport_def cxEnv_def bindw_def tryw_def)
  qed
  moreover have "teBase cxEnv out w = (Inr exAnswer, w)" for out w by (simp add: cxEnv_def)
  ultimately show ?thesis by (simp add: RoundTrip_def key bindw_def liftf_def)
qed

lemma cx_encoded: "encodeCreate cxCodec (v\<lparr>csExtensions := Some [SandboxTemplateExtension \<mapsto> x]\<rparr>) = Inr (''create '' @ x)"
  by (simp add: cxCodec_def getS_def)

theorem transport_governed_witness:
  "\<exists>(outbound :: request) token value0. rqBody outbound = Inr ''create python'' \<and>
     trimSpace token \<noteq> [] \<and> headerGet (rqHeaders outbound) ''Authorization'' = ''Bearer '' @ trimSpace token \<and>
     resolveCreate cxHandler outbound (exWorld True) = (Inr (value0, exTemplate), exWorld True) \<and>
     hTemplates cxHandler (trimSpace ''python'') (exWorld True) = (Inr exTemplate, exWorld True)"
proof -
  obtain request' where run: "RoundTrip cxEnv cxCodec cxTransport cxPost () = ((Inr exAnswer, request'), ())" using cx_sent by blast
  have uuids: "namesUUIDs cxEnv" by (simp add: namesUUIDs_def cxEnv_def)
  have create: "isCreateRequest cxPost" by (simp add: isCreateRequest_def cxPost_def hasSuffix_def)
  have template: "stTemplate cxTransport = ''python''" by (simp add: cxTransport_def)
  have name: "utf8 ''python''" by code_simp
  have facade: "hCodec cxHandler = cxCodec" by (simp add: cxHandler_def)
  from transport_governed [where 'v = handlerWorld, OF cx_facade cx_wired uuids create run, unfolded template cx_encoded] obtain outbound :: request and body token where
    sent: "rqBody outbound = Inr body" "Inr (''create '' @ ''python'') = (Inr body :: go_error + string)"
      "headerGet (rqHeaders outbound) ''Authorization'' = ''Bearer '' @ trimSpace token" "trimSpace token \<noteq> []"
    and resolves: "keepsExtensions cxCodec \<and> utf8 ''python'' \<longrightarrow>
      (\<forall>(h :: (unit, handlerWorld) handler) r v value0 resolved v'. hCodec h = cxCodec \<and> rqBody r = Inr body \<and>
         resolveCreate h r v = (Inr (value0, resolved), v') \<longrightarrow> hTemplates h (trimSpace ''python'') v = (Inr resolved, v'))"
    by (elim exE conjE) blast
  have body: "rqBody outbound = Inr ''create python''" using sent(1,2) by simp
  obtain value0 where "resolveCreate cxHandler outbound (exWorld True) = (Inr (value0, exTemplate), exWorld True)"
    using cx_resolves [OF body] by blast
  moreover from this have "hTemplates cxHandler (trimSpace ''python'') (exWorld True) = (Inr exTemplate, exWorld True)"
    using resolves cx_keeps name facade sent(1) by blast
  ultimately show ?thesis using body sent(3,4) by blast
qed

end
