(* ===== verification/Assignmentd.thy ===== *)
theory Assignmentd
  imports ConsoleSetup BrokerKube AuditSink
begin

section \<open>The assignment service\<close>

text \<open>
  \<open>cmd/assignmentd/main.go\<close>: the settings that the process reads, the handlers behind its API address, and what becomes of
  the controller when leadership changes hands. Opening listeners, starting informers and shutting down are not modelled. The
  elector of \<open>client-go\<close> is a parameter: the model says what its callbacks do, for every order in which it may call them.
\<close>

subsection \<open>Settings\<close>

definition parseOptions :: "string list \<Rightarrow> go_error + bool" where
  "parseOptions args =
     (case parseFlags (\<lambda>_ _ _. 0) (\<lambda>name. if name = ''leader-elect'' then Some BoolFlag else None) args of
        Inl e \<Rightarrow> Inl (flagFailure e)
      | Inr (sets, rest) \<Rightarrow>
          if rest \<noteq> [] then Inl (ErrNew (''unexpected positional arguments: ['' @ joinWith '' '' rest @ '']''))
          else Inr (flagBool sets ''leader-elect'' True))"

definition envPositiveDuration :: "(int \<Rightarrow> int \<Rightarrow> nat \<Rightarrow> int) \<Rightarrow> environ \<Rightarrow> string \<Rightarrow> int \<Rightarrow> go_error + int" where
  "envPositiveDuration scaled env key fallback =
     (if env key = [] then Inr fallback
      else case ParseDuration scaled (env key) of
             Some d \<Rightarrow> if d \<le> 0 then Inl (ErrNew (key @ '' must be a positive duration'')) else Inr d
           | None \<Rightarrow> Inl (ErrNew (key @ '' must be a positive duration'')))"

definition envPositiveInt :: "environ \<Rightarrow> string \<Rightarrow> int \<Rightarrow> go_error + int" where
  "envPositiveInt env key fallback =
     (if env key = [] then Inr fallback
      else case parseInt 64 (env key) of
             Some n \<Rightarrow> if n \<le> 0 then Inl (ErrNew (key @ '' must be a positive integer'')) else Inr n
           | None \<Rightarrow> Inl (ErrNew (key @ '' must be a positive integer'')))"

definition capabilityGatewayAudience :: string where "capabilityGatewayAudience = ''aks-sandbox-capability-gateway''"

definition lifecycleCallerAudience :: string where "lifecycleCallerAudience = ''aks-sandbox-lifecycle''"

record settings =
  stGRPCAddress :: string
  stAPIAddress :: string
  stHealthAddress :: string
  stAssignmentNamespace :: string
  stWorkloadNamespace :: string
  stIdentityMode :: string
  stOpenSandboxURL :: url
  stAPIKey :: string
  stAuditRetention :: int
  stAuditQueueSize :: int

text \<open>How long audit records are kept and how many may wait.\<close>

definition auditSettings :: "(int \<Rightarrow> int \<Rightarrow> nat \<Rightarrow> int) \<Rightarrow> environ \<Rightarrow> go_error + int \<times> int" where
  "auditSettings scaled env =
     seqf (envPositiveDuration scaled env ''ASSIGNMENTD_EGRESS_EVENT_RETENTION'' (24 * 3600 * second)) (\<lambda>auditRetention.
     seqf (envPositiveInt env ''ASSIGNMENTD_AUDIT_QUEUE_SIZE'' 1024) (\<lambda>auditQueueSize. Inr (auditRetention, auditQueueSize)))"

definition loadSettings :: "(int \<Rightarrow> int \<Rightarrow> nat \<Rightarrow> int) \<Rightarrow> environ \<Rightarrow> go_error + settings" where
  "loadSettings scaled env =
     (let mode = envOr env ''ASSIGNMENTD_EGRESS_IDENTITY_MODE'' ''projected-sidecar'' in
      seqf (guardf (mode \<noteq> ''projected-sidecar'' \<and> mode \<noteq> ''external-mediator'') (ErrNew ''invalid ASSIGNMENTD_EGRESS_IDENTITY_MODE'')) (\<lambda>_.
      seqf (case urlParse (envOr env ''ASSIGNMENTD_OPENSANDBOX_URL'' ''http://opensandbox-server.opensandbox-system.svc.cluster.local'') of
              Some u \<Rightarrow> if urlScheme u = [] \<or> urlHost u = [] then Inl (ErrNew ''invalid ASSIGNMENTD_OPENSANDBOX_URL'') else Inr u
            | None \<Rightarrow> Inl (ErrNew ''invalid ASSIGNMENTD_OPENSANDBOX_URL'')) (\<lambda>openSandboxURL.
      seqf (auditSettings scaled env) (\<lambda>(auditRetention, auditQueueSize).
        Inr \<lparr>stGRPCAddress = envOr env ''ASSIGNMENTD_GRPC_ADDRESS'' '':9001'', stAPIAddress = envOr env ''ASSIGNMENTD_API_ADDRESS'' '':8080'',
             stHealthAddress = envOr env ''ASSIGNMENTD_HEALTH_ADDRESS'' '':8081'',
             stAssignmentNamespace = envOr env ''ASSIGNMENTD_NAMESPACE'' ''aks-sandbox-system'',
             stWorkloadNamespace = envOr env ''ASSIGNMENTD_WORKLOAD_NAMESPACE'' ''opensandbox'', stIdentityMode = mode,
             stOpenSandboxURL = openSandboxURL, stAPIKey = env ''ASSIGNMENTD_OPENSANDBOX_API_KEY'',
             stAuditRetention = auditRetention, stAuditQueueSize = auditQueueSize\<rparr>))))"

text \<open>The keys of the credential broker; without a signing key there is none.\<close>

definition brokerSettings :: "environ \<Rightarrow> brokerConfig option" where
  "brokerSettings env =
     (if env ''ASSIGNMENTD_BROKER_SIGNING_KEY'' = [] then None
      else Some \<lparr>bcSigningKey = env ''ASSIGNMENTD_BROKER_SIGNING_KEY'',
                bcSigningKeyID = envOr env ''ASSIGNMENTD_BROKER_SIGNING_KEY_ID'' ''current'',
                bcPreviousSigningKeys =
                  (if env ''ASSIGNMENTD_BROKER_PREVIOUS_SIGNING_KEY'' = [] then []
                   else [(envOr env ''ASSIGNMENTD_BROKER_PREVIOUS_SIGNING_KEY_ID'' ''previous'', env ''ASSIGNMENTD_BROKER_PREVIOUS_SIGNING_KEY'')]),
                bcIssuer = [], bcAudience = []\<rparr>)"

subsection \<open>The lifecycle handler\<close>

definition kubernetesAdmission ::
  "nat \<Rightarrow> ('q, 'w) admissionClient \<Rightarrow> string \<Rightarrow> 'sdk CreateSandboxRequest \<Rightarrow> 'w \<Rightarrow> ((go_error + ('w \<Rightarrow> 'w)) \<times> 'w) option" where
  "kubernetesAdmission fuel client bundleName request w =
     (case AuthorizeCreate fuel client bundleName request w of
        None \<Rightarrow> None
      | Some (Inl e, w') \<Rightarrow> Some (Inl e, w')
      | Some (Inr rel, w') \<Rightarrow> Some (Inr (runRelease client rel), w'))"

text \<open>\<open>NewHandler\<close> with the configuration of the process; \<open>h\<close> holds the transports, the clock and the codec.\<close>

definition lifecycleHandler ::
  "nat \<Rightarrow> settings \<Rightarrow> 'w storeClient \<Rightarrow> ('q, 'w) admissionClient \<Rightarrow> 'w templateClient \<Rightarrow> ('sdk, 'w) handler \<Rightarrow> ('sdk, 'w) handler option" where
  "lifecycleHandler fuel s store admission templates h =
     NewHandler False False False (h\<lparr>hStore := kubernetesStore store, hPrefix := ''/opensandbox'', hUpstreamPath := urlPath (stOpenSandboxURL s),
       hAPIKey := stAPIKey s, hNamespace := stAssignmentNamespace s, hTransitionTimeout := 0,
       hAdmission := Some (kubernetesAdmission fuel admission),
       hTemplates := Resolve templates (stAssignmentNamespace s), hCallerAuthorizer := Some AuthorizeTenant, hRequireIdempotency := True,
       hPendingOperationTTL := 0\<rparr>)"

text \<open>\<open>callerAuthenticator.Middleware(lifecycleHandler)\<close>, for a handler whose polling may still wait when its fuel runs out.\<close>

definition authenticatedLifecycle ::
  "'w authClient \<Rightarrow> authenticator \<Rightarrow> nat \<Rightarrow> ('sdk, 'w) handler \<Rightarrow> request \<Rightarrow> 'w \<Rightarrow> response option \<times> 'w" where
  "authenticatedLifecycle client a fuel h r w =
     (case authenticate client a r w of
        (Inl refused, w') \<Rightarrow> (Some refused, w')
      | (Inr tenants, w') \<Rightarrow> ServeHTTP fuel h (withScopes r tenants) w')"

subsection \<open>The routes of the API address\<close>

text \<open>\<open>cleanPath\<close> of \<open>net/http\<close>, and the first segment of an escaped path, unescaped.\<close>

definition cleanRequestPath :: "string \<Rightarrow> string" where
  "cleanRequestPath p =
     (if p = [] then ''/''
      else let q = (if hd p = CHR ''/'' then p else CHR ''/'' # p); np = cleanRooted q
           in if hasSuffix q ''/'' \<and> np \<noteq> ''/'' then np @ ''/'' else np)"

definition firstSegment :: "string \<Rightarrow> string" where
  "firstSegment path =
     (let raw = takeWhile (\<lambda>c. c \<noteq> CHR ''/'') (tl path) in case PathUnescape raw of None \<Rightarrow> raw | Some s \<Rightarrow> s)"

definition belowFirst :: "string \<Rightarrow> bool" where
  "belowFirst path \<longleftrightarrow> dropWhile (\<lambda>c. c \<noteq> CHR ''/'') (tl path) \<noteq> []"

text \<open>The redirect of the mux: \<open>http.Redirect\<close> with the status that \<open>ServeMux\<close> of Go 1.26 uses for its own redirects.\<close>

definition movedTo :: "string \<Rightarrow> string \<Rightarrow> response" where
  "movedTo verb url =
     \<lparr>rspStatus = 307, rspHeaders = rspHeaders (httpRedirect verb url),
      rspBody = (if verb = ''GET'' then ''<a href='' @ [CHR 0x22] @ concat (map htmlEscapeByte (redirectTarget url)) @ [CHR 0x22] @
                   ''>Temporary Redirect</a>.'' @ [CHR 0x0A, CHR 0x0A] else [])\<rparr>"

text \<open>
  \<open>apiMux\<close>: \<open>path\<close> is the escaped path of the request, \<open>query\<close> its raw query. A path that is not clean is sent to its clean form, which is escaped once
  more, and \<open>/broker\<close> to \<open>/broker/\<close>.
\<close>

definition apiMux ::
  "(request \<Rightarrow> 'w \<Rightarrow> response option \<times> 'w) \<Rightarrow> (request \<Rightarrow> 'w \<Rightarrow> response option \<times> 'w) option \<Rightarrow> string \<Rightarrow> string \<Rightarrow> request \<Rightarrow> 'w \<Rightarrow>
     response option \<times> 'w" where
  "apiMux lifecycle brokerHandler path query r w =
     (let suffix = (if query = [] then [] else CHR ''?'' # query);
          clean = (if rqMethod r = ''CONNECT'' then path else cleanRequestPath path)
      in if brokerHandler \<noteq> None \<and> firstSegment clean = ''broker'' \<and> \<not> belowFirst clean then
           (Some (movedTo (rqMethod r) (escapePath (cleanRequestPath (rqPath r) @ ''/'') @ suffix)), w)
         else if clean \<noteq> path then (Some (movedTo (rqMethod r) (escapePath clean @ suffix)), w)
         else if firstSegment path = ''opensandbox'' then lifecycle r w
         else case brokerHandler of
                Some serve \<Rightarrow> if firstSegment path = ''broker'' then serve r w else (Some (httpError ''404 page not found'' 404), w)
              | None \<Rightarrow> (Some (httpError ''404 page not found'' 404), w))"

definition assignmentdAPI ::
  "'w authClient \<Rightarrow> authenticator \<Rightarrow> nat \<Rightarrow> ('sdk, 'w) handler \<Rightarrow> 'w broker option \<Rightarrow> string \<Rightarrow> string \<Rightarrow> request \<Rightarrow> 'w \<Rightarrow> response option \<times> 'w" where
  "assignmentdAPI client a fuel h b =
     apiMux (authenticatedLifecycle client a fuel h) (map_option brokerServeHTTP b)"

subsection \<open>Leadership\<close>

record election =
  elStarted :: bool
  elError :: "go_error option"
  elCancelled :: bool

text \<open>
  The callbacks and the return of the controller, with what the contexts say at that moment: \<open>ControllerReturned err alive\<close>
  whether the context of the leader is alive, \<open>StoppedLeading running\<close> whether the process still runs. Both sends are to a channel
  of one element, which keeps the first.
\<close>

datatype electionEvent = StartedLeading | ControllerReturned "go_error option" bool | StoppedLeading bool | NewLeader string

definition sendError :: "go_error \<Rightarrow> election \<Rightarrow> election" where
  "sendError e s = (case elError s of None \<Rightarrow> s\<lparr>elError := Some e\<rparr> | Some _ \<Rightarrow> s)"

definition lostLeadership :: go_error where
  "lostLeadership = ErrNew ''assignment controller lost leadership''"

fun electionStep :: "electionEvent \<Rightarrow> election \<Rightarrow> election" where
  "electionStep StartedLeading s = s\<lparr>elStarted := True\<rparr>"
| "electionStep (ControllerReturned err alive) s =
     (case err of Some e \<Rightarrow> if alive then (sendError e s)\<lparr>elCancelled := True\<rparr> else s | None \<Rightarrow> s)"
| "electionStep (StoppedLeading running) s = (if elStarted s \<and> running then sendError lostLeadership s else s)"
| "electionStep (NewLeader identity) s = s"

definition newElection :: election where
  "newElection = \<lparr>elStarted = False, elError = None, elCancelled = False\<rparr>"

definition leaderIdentity :: "environ \<Rightarrow> (go_error + string) \<Rightarrow> go_error + string" where
  "leaderIdentity env hostname =
     (if env ''POD_UID'' \<noteq> [] then Inr (env ''POD_UID'')
      else case hostname of Inl e \<Rightarrow> Inl (Errorf ''determine leader identity'' e) | Inr name \<Rightarrow> Inr name)"

text \<open>
  \<open>runAssignmentController\<close>: the result of the controller without an election, else the error that the callbacks left. \<open>configured\<close> is
  the error of making the lock and the elector.
\<close>

definition runAssignmentController ::
  "environ \<Rightarrow> (go_error + string) \<Rightarrow> bool \<Rightarrow> go_error option \<Rightarrow> go_error option \<Rightarrow> electionEvent list \<Rightarrow> go_error option" where
  "runAssignmentController env hostname leaderElect controllerResult configured events =
     (if \<not> leaderElect then controllerResult
      else case leaderIdentity env hostname of
             Inl e \<Rightarrow> Some e
           | Inr identity \<Rightarrow>
               (case configured of
                  Some e \<Rightarrow> Some e
                | None \<Rightarrow> elError (foldl (\<lambda>s e. electionStep e s) newElection events)))"

subsection \<open>A process that starts is configured\<close>

lemma envOr_nonempty: "fallback \<noteq> [] \<Longrightarrow> envOr env key fallback \<noteq> []"
  by (simp add: envOr_def)

lemma envPositiveDuration_pos: "envPositiveDuration scaled env key fallback = Inr d \<Longrightarrow> 0 < fallback \<Longrightarrow> 0 < d"
  by (auto simp: envPositiveDuration_def split: if_splits option.splits)

lemma envPositiveInt_pos: "envPositiveInt env key fallback = Inr n \<Longrightarrow> 0 < fallback \<Longrightarrow> 0 < n"
  by (auto simp: envPositiveInt_def split: if_splits option.splits)

lemma loadSettings_Inr:
  assumes "loadSettings scaled env = Inr s"
  shows "stAssignmentNamespace s \<noteq> []" "stWorkloadNamespace s \<noteq> []" "0 < stAuditRetention s" "0 < stAuditQueueSize s"
    "stIdentityMode s = ''projected-sidecar'' \<or> stIdentityMode s = ''external-mediator''"
    "urlScheme (stOpenSandboxURL s) \<noteq> []" "urlHost (stOpenSandboxURL s) \<noteq> []"
  using assms envPositiveDuration_pos [of scaled env "''ASSIGNMENTD_EGRESS_EVENT_RETENTION''" "24 * 3600 * second"]
    envPositiveInt_pos [of env "''ASSIGNMENTD_AUDIT_QUEUE_SIZE''" 1024]
  by (auto simp: loadSettings_def auditSettings_def Let_def flow_simps second_def envOr_nonempty split: option.splits if_splits)

lemma lifecycleHandler_Some:
  assumes "stAssignmentNamespace s \<noteq> []"
  shows "\<exists>h'. lifecycleHandler fuel s store admission templates h = Some h' \<and> hStore h' = kubernetesStore store \<and>
    hNamespace h' = stAssignmentNamespace s \<and> hCallerAuthorizer h' = Some AuthorizeTenant \<and> hAdmission h' \<noteq> None \<and>
    hRequireIdempotency h' \<and> hPrefix h' = ''/opensandbox'' \<and> 0 < hTransitionTimeout h' \<and> 0 < hPendingOperationTTL h'"
  using assms by (simp add: lifecycleHandler_def NewHandler_def second_def trimSuffix_def hasSuffix_def)

text \<open>
  settings that load are enough to start. Whatever the environment, when the settings are accepted the constructors that the
  process calls with them do not panic or fail: those of the controller, the audit sink, the caller authenticator, the template
  resolver and the lifecycle handler. The handler they make authorizes its callers, admits by policy, insists on idempotency keys
  and has positive time limits; the controller runs in one of the two identity modes.
\<close>

theorem settings_start:
  assumes "loadSettings scaled env = Inr s"
  shows "newController False False (stAssignmentNamespace s) (stWorkloadNamespace s) [] (stIdentityMode s) second \<noteq> None \<and>
    (\<exists>sink. NewKubernetesAuditSink False (stAssignmentNamespace s) (stAuditQueueSize s) (stAuditRetention s) = Inr sink) \<and>
    newAuthenticator False False (stAssignmentNamespace s) lifecycleCallerAudience =
      Inr \<lparr>authNamespace = stAssignmentNamespace s, authAudience = ''aks-sandbox-lifecycle''\<rparr> \<and>
    newTemplateResolver False (stAssignmentNamespace s) = Some (stAssignmentNamespace s) \<and>
    (\<exists>h'. lifecycleHandler fuel s store admission templates h = Some h' \<and> hCallerAuthorizer h' = Some AuthorizeTenant \<and>
       hAdmission h' \<noteq> None \<and> hRequireIdempotency h' \<and> 0 < hTransitionTimeout h' \<and> 0 < hPendingOperationTTL h')"
proof -
  note s = loadSettings_Inr [OF assms]
  have "newController False False (stAssignmentNamespace s) (stWorkloadNamespace s) [] (stIdentityMode s) second \<noteq> None"
    using s(1,2,5) by (auto simp: newController_def parseIdentityMode_def)
  moreover have "\<exists>sink. NewKubernetesAuditSink False (stAssignmentNamespace s) (stAuditQueueSize s) (stAuditRetention s) = Inr sink"
    using s(1,3,4) by (simp add: NewKubernetesAuditSink_def flow_simps Let_def)
  ultimately show ?thesis using s(1) lifecycleHandler_Some [OF s(1), of fuel store admission templates h]
    by (auto simp: newAuthenticator_def newTemplateResolver_def lifecycleCallerAudience_def)
qed

text \<open>An empty environment, and a cluster behind the process with one caller and no assignment.\<close>

definition aeSettings :: settings where
  "aeSettings = \<lparr>stGRPCAddress = '':9001'', stAPIAddress = '':8080'', stHealthAddress = '':8081'',
     stAssignmentNamespace = ''aks-sandbox-system'', stWorkloadNamespace = ''opensandbox'', stIdentityMode = ''projected-sidecar'',
     stOpenSandboxURL = the (urlParse ''http://opensandbox-server.opensandbox-system.svc.cluster.local''), stAPIKey = [],
     stAuditRetention = 24 * 3600 * second, stAuditQueueSize = 1024\<rparr>"

lemma ae_loadSettings: "loadSettings (\<lambda>_ _ _. 0) (\<lambda>_. []) = Inr aeSettings"
proof -
  have "urlParse ''http://opensandbox-server.opensandbox-system.svc.cluster.local'' \<noteq> None \<and>
      urlScheme (the (urlParse ''http://opensandbox-server.opensandbox-system.svc.cluster.local'')) = ''http'' \<and>
      urlHost (the (urlParse ''http://opensandbox-server.opensandbox-system.svc.cluster.local'')) \<noteq> []"
    by code_simp
  then obtain u where "urlParse ''http://opensandbox-server.opensandbox-system.svc.cluster.local'' = Some u"
      "urlScheme u \<noteq> []" "urlHost u \<noteq> []"
    by auto
  then show ?thesis
    by (simp add: loadSettings_def auditSettings_def envOr_def envPositiveDuration_def envPositiveInt_def aeSettings_def guardf_def)
qed

definition aeAuth :: "storeWorld authClient" where
  "aeAuth = \<lparr>acTokenReview = (\<lambda>token audiences w. (Inr \<lparr>trAuthenticated = True, trError = [], trAudiences = audiences,
       trUsername = ''system:serviceaccount:tools:'' @ token, trExtra = (\<lambda>_. [])\<rparr>, w)),
     acListBindings = (\<lambda>_. okw [caBinding ''runner'', caBinding ''other''])\<rparr>"

definition aeAdmission :: "(nat, storeWorld) admissionClient" where
  "aeAdmission = \<lparr>adAssignmentNamespace = ''aks-sandbox-system'', adWorkloadNamespace = ''opensandbox'', adHasKube = True,
     adGetBundle = (\<lambda>_. okw adBundle), adListPolicies = okw [adBundle], adListBundles = okw [adBundle], adListAssignments = okw [],
     adGetLease = (\<lambda>_ w. (Inl (ApiStatus ReasonNotFound), w)), adCreateLease = okw, adUpdateLease = okw, adDeleteLease = (\<lambda>_ _. okw ()),
     adNow = (\<lambda>w. (0, w)), adNewUUID = (\<lambda>w. (''a'', w)), adWait = (\<lambda>w. (None, w)), adToPolicy = (\<lambda>_. Inr adPolicy),
     adParseQuantity = (\<lambda>s. Inr (length s)), adSign = int, adCmp = (\<lambda>a b. int a - int b)\<rparr>"

definition aeTemplates :: "storeWorld templateClient" where
  "aeTemplates = \<lparr>tcGetTemplate = (\<lambda>_ _ w. (Inl (ApiStatus ReasonNotFound), w)), tcGetBundle = (\<lambda>_ _. okw adBundle),
     tcToTemplate = (\<lambda>_. Inl wrongType)\<rparr>"

definition aeTransports :: "(unit, storeWorld) handler" where
  "aeTransports = \<lparr>hStore = kubernetesStore stClient, hPrefix = [], hUpstreamPath = [], hAPIKey = [], hNamespace = [],
     hTransitionTimeout = 0, hAdmission = None, hTemplates = (\<lambda>_. okw exTemplate), hCallerAuthorizer = None,
     hRequireIdempotency = False, hPendingOperationTTL = 0, hDo = (\<lambda>_. okw exAnswer), hRoundTrip = (\<lambda>_. okw exAnswer),
     hForwardHeaders = (\<lambda>h. h), hNow = (\<lambda>w. (0, w)), hPoll = (\<lambda>_ w. (None, w)), hCodec = exCodec\<rparr>"

theorem settings_start_witness:
  "newController False False ''aks-sandbox-system'' ''opensandbox'' [] ''projected-sidecar'' second \<noteq> None \<and>
    (\<exists>sink. NewKubernetesAuditSink False ''aks-sandbox-system'' 1024 (24 * 3600 * second) = Inr sink) \<and>
    (\<exists>h'. lifecycleHandler 1 aeSettings stClient aeAdmission aeTemplates aeTransports = Some h' \<and>
       hCallerAuthorizer h' = Some AuthorizeTenant \<and> hAdmission h' \<noteq> None)"
  using settings_start [OF ae_loadSettings, of 1 stClient aeAdmission aeTemplates aeTransports] by (auto simp: aeSettings_def)

subsection \<open>From the caller's token to the tenant of the sandbox\<close>

lemma authenticate_Inl:
  "authenticate client a r w = (Inl refused, w') \<Longrightarrow> rspStatus refused \<in> {401, 403, 503}"
  by (auto simp: authenticate_def flow_simps split: option.splits)

lemma authenticatedLifecycle_sandbox:
  fixes h :: "('sdk, 'w) handler"
  assumes "authenticatedLifecycle client a fuel h r w = (answer, w')" "hCallerAuthorizer h = Some AuthorizeTenant"
    "lifecyclePath h r = Some p" "sandboxOperation p = Some (sandboxID, action)"
  shows "(\<exists>refused. answer = Some refused \<and> rspStatus refused \<in> {401, 403, 503} \<and> authenticate client a r w = (Inl refused, w')) \<or>
    (\<exists>tenants w1. authenticate client a r w = (Inr tenants, w1) \<and>
       ((\<exists>refused found. answer = Some refused \<and> rspStatus refused \<in> {403, 404, 409, 500} \<and>
           asGetBySandboxID (hStore h) (hNamespace h) sandboxID w1 = (found, w')) \<or>
        (\<exists>found w2. asGetBySandboxID (hStore h) (hNamespace h) sandboxID w1 = (Inr found, w2) \<and> aLogicalTenant found \<in> set tenants)))"
proof (cases "authenticate client a r w")
  case (Pair s w1)
  show ?thesis
  proof (cases s)
    case (Inl refused)
    with Pair assms(1) authenticate_Inl [of client a r w refused w1] show ?thesis by (auto simp: authenticatedLifecycle_def)
  next
    case (Inr tenants)
    let ?r = "withScopes r tenants"
    have path: "lifecyclePath h ?r = Some p" using assms(3) by (simp add: lifecyclePath_def withScopes_def)
    obtain k where "ServeHTTP fuel h ?r = finishw (bindw (authorizedAssignment h ?r sandboxID) k)"
      using serve_authorizes_first [OF assms(2) path assms(4)] by blast
    moreover have "ServeHTTP fuel h ?r w1 = (answer, w')" using assms(1) Pair Inr by (simp add: authenticatedLifecycle_def)
    ultimately have run: "finishw (bindw (authorizedAssignment h ?r sandboxID) k) w1 = (answer, w')" by simp
    have "scopeOf ?r = set tenants" by (simp add: scopeOf_def withScopes_def)
    with authorized_first [OF assms(2) run] Pair Inr show ?thesis by auto
  qed
qed

lemma apiMux_opensandbox:
  assumes "apiMux lifecycle brokerHandler path query r w = (answer, w')" "firstSegment path = ''opensandbox''"
  shows "(\<exists>url. answer = Some (movedTo (rqMethod r) url) \<and> w' = w) \<or> lifecycle r w = (answer, w')"
  using assms by (auto simp: apiMux_def Let_def split: if_splits)

text \<open>
  C5: a caller of the process reaches only sandboxes of its own tenants. With the settings of the process, a request below
  \<open>/opensandbox\<close> for one sandbox is redirected to the clean form of its path, or refused with 401, 403 or 503 by the authentication,
  or the API server confirmed its bearer token for the audience of the lifecycle API, the token belongs to a service account and
  exactly one binding names that account. Then it is refused after nothing but the lookup in the store, or the assignment found
  belongs to one of the tenants of that binding.
\<close>

theorem lifecycle_caller_isolated:
  fixes h :: "('sdk, 'w) handler" and transports :: "('sdk, 'w) handler"
  assumes "loadSettings scaled env = Inr s" "newAuthenticator False False (stAssignmentNamespace s) lifecycleCallerAudience = Inr a"
    "lifecycleHandler admissionFuel s store admission templates transports = Some h" "firstSegment path = ''opensandbox''"
    "lifecyclePath h r = Some p" "sandboxOperation p = Some (sandboxID, action)"
    "assignmentdAPI client a fuel h b path query r w = (answer, w')"
  shows "(\<exists>url. answer = Some (movedTo (rqMethod r) url) \<and> w' = w) \<or>
    (\<exists>refused. answer = Some refused \<and> rspStatus refused \<in> {401, 403, 503} \<and> authenticate client a r w = (Inl refused, w')) \<or>
    (\<exists>token review namespace name items item w0 w1.
       bearerToken (headerGet (rqHeaders r) ''Authorization'') = Some token \<and>
       acTokenReview client token [''aks-sandbox-lifecycle''] w = (Inr review, w0) \<and> trAuthenticated review \<and>
       serviceAccountIdentity (trUsername review) = Some (namespace, name) \<and>
       acListBindings client (stAssignmentNamespace s) w0 = (Inr items, w1) \<and> filter (bindingMatches namespace name) items = [item] \<and>
       ((\<exists>refused found. answer = Some refused \<and> rspStatus refused \<in> {403, 404, 409, 500} \<and>
           GetBySandboxID store (stAssignmentNamespace s) sandboxID w1 = (found, w')) \<or>
        (\<exists>found w2. GetBySandboxID store (stAssignmentNamespace s) sandboxID w1 = (Inr found, w2) \<and>
           aLogicalTenant found \<in> set (bindingTenants item))))"
proof -
  have a: "authNamespace a = stAssignmentNamespace s" "authAudience a = ''aks-sandbox-lifecycle''"
    using assms(2) by (auto simp: newAuthenticator_def lifecycleCallerAudience_def split: if_splits)
  have h: "hCallerAuthorizer h = Some AuthorizeTenant" "asGetBySandboxID (hStore h) = GetBySandboxID store"
    "hNamespace h = stAssignmentNamespace s"
    using assms(3) lifecycleHandler_Some [OF loadSettings_Inr(1) [OF assms(1)], of admissionFuel store admission templates transports]
    by (auto simp: kubernetesStore_def)
  from apiMux_opensandbox [OF assms(7) [unfolded assignmentdAPI_def] assms(4)] show ?thesis
  proof
    assume "authenticatedLifecycle client a fuel h r w = (answer, w')"
    from authenticatedLifecycle_sandbox [OF this h(1) assms(5,6)] show ?thesis unfolding h(2,3)
    proof
      assume "\<exists>tenants w1. authenticate client a r w = (Inr tenants, w1) \<and>
       ((\<exists>refused found. answer = Some refused \<and> rspStatus refused \<in> {403, 404, 409, 500} \<and>
           GetBySandboxID store (stAssignmentNamespace s) sandboxID w1 = (found, w')) \<or>
        (\<exists>found w2. GetBySandboxID store (stAssignmentNamespace s) sandboxID w1 = (Inr found, w2) \<and> aLogicalTenant found \<in> set tenants))"
      then obtain tenants w1 where run: "authenticate client a r w = (Inr tenants, w1)"
        and rest: "(\<exists>refused found. answer = Some refused \<and> rspStatus refused \<in> {403, 404, 409, 500} \<and>
            GetBySandboxID store (stAssignmentNamespace s) sandboxID w1 = (found, w')) \<or>
          (\<exists>found w2. GetBySandboxID store (stAssignmentNamespace s) sandboxID w1 = (Inr found, w2) \<and> aLogicalTenant found \<in> set tenants)"
        by blast
      show ?thesis using authenticate_Inr [OF run] rest unfolding a by blast
    qed blast
  qed blast
qed

theorem lifecycle_caller_isolated_witness:
  "\<exists>h answer w'. lifecycleHandler 1 aeSettings stClient aeAdmission aeTemplates aeTransports = Some h \<and>
     assignmentdAPI aeAuth \<lparr>authNamespace = ''aks-sandbox-system'', authAudience = ''aks-sandbox-lifecycle''\<rparr> 1 h None
       ''/opensandbox/sandboxes/sandbox'' []
       (caRequest\<lparr>rqPath := ''/opensandbox/sandboxes/sandbox''\<rparr>) (None, 0) = (answer, w') \<and>
     (\<exists>refused. answer = Some refused \<and> rspStatus refused \<in> {307, 401, 403, 404, 409, 500, 503})"
proof -
  let ?a = "\<lparr>authNamespace = ''aks-sandbox-system'', authAudience = ''aks-sandbox-lifecycle''\<rparr>"
  let ?r = "caRequest\<lparr>rqPath := ''/opensandbox/sandboxes/sandbox''\<rparr>"
  obtain h where h: "lifecycleHandler 1 aeSettings stClient aeAdmission aeTemplates aeTransports = Some h" "hPrefix h = ''/opensandbox''"
    using lifecycleHandler_Some [OF loadSettings_Inr(1) [OF ae_loadSettings], of 1 stClient aeAdmission aeTemplates aeTransports] by blast
  have a: "newAuthenticator False False (stAssignmentNamespace aeSettings) lifecycleCallerAudience = Inr ?a"
    by (simp add: newAuthenticator_def lifecycleCallerAudience_def aeSettings_def)
  have first: "firstSegment ''/opensandbox/sandboxes/sandbox'' = ''opensandbox''" by code_simp
  have path: "lifecyclePath h ?r = Some ''/sandboxes/sandbox''"
    using h(2) by (simp add: lifecyclePath_def cutPrefix_def hasPrefix_def)
  have op: "sandboxOperation ''/sandboxes/sandbox'' = Some (''sandbox'', [])" by code_simp
  obtain answer w' where run: "assignmentdAPI aeAuth ?a 1 h None ''/opensandbox/sandboxes/sandbox'' [] ?r (None, 0) = (answer, w')"
    by (cases "assignmentdAPI aeAuth ?a 1 h None ''/opensandbox/sandboxes/sandbox'' [] ?r (None, 0)")
  have "fst (GetBySandboxID stClient (stAssignmentNamespace aeSettings) ''sandbox'' w) \<noteq> Inr found" if "fst w = None" for w found
    using that by (simp add: GetBySandboxID_def stClient_def bindw_def guardw_def exitw_def)
  moreover have "w1 = (None, 0)" if "acTokenReview aeAuth token auds (None, 0) = (Inr review, w0)"
      "acListBindings aeAuth ns w0 = (Inr items, w1)" for token auds review w0 ns items w1
    using that by (auto simp: aeAuth_def)
  ultimately have "\<exists>refused. answer = Some refused \<and> rspStatus refused \<in> {307, 401, 403, 404, 409, 500, 503}"
    using lifecycle_caller_isolated [OF ae_loadSettings a h(1) first path op run]
    by (elim disjE exE conjE; simp add: movedTo_def) (metis fst_conv)+
  with h(1) run show ?thesis by blast
qed

subsection \<open>What becomes of an election\<close>

abbreviation electionRun :: "electionEvent list \<Rightarrow> election \<Rightarrow> election" where
  "electionRun events s \<equiv> foldl (\<lambda>s e. electionStep e s) s events"

lemma sendError_keeps: "elError s = Some e \<Longrightarrow> sendError e' s = s"
  by (simp add: sendError_def)

lemma electionStep_keeps_error: "elError s = Some e \<Longrightarrow> elError (electionStep ev s) = Some e"
  by (cases ev) (auto simp: sendError_keeps split: option.splits)

lemma electionRun_keeps_error: "elError s = Some e \<Longrightarrow> elError (electionRun events s) = Some e"
  by (induction events arbitrary: s) (auto simp: electionStep_keeps_error)

lemma electionStep_keeps_started: "elStarted s \<Longrightarrow> elStarted (electionStep ev s)"
  by (cases ev) (auto simp: sendError_def split: option.splits)

lemma electionRun_keeps_started: "elStarted s \<Longrightarrow> elStarted (electionRun events s)"
  by (induction events arbitrary: s) (auto simp: electionStep_keeps_started)

lemma electionRun_started: "StartedLeading \<in> set events \<Longrightarrow> elStarted (electionRun events s)"
  by (induction events arbitrary: s) (auto simp: electionRun_keeps_started)

lemma electionStep_error_source:
  assumes "elError (electionStep ev s) = Some e"
  shows "elError s = Some e \<or> ev = ControllerReturned (Some e) True \<or> (e = lostLeadership \<and> ev = StoppedLeading True \<and> elStarted s)"
  using assms by (cases ev) (auto simp: sendError_def split: option.splits if_splits)

lemma electionRun_error_source:
  assumes "elError (electionRun events s) = Some e"
  shows "elError s = Some e \<or> ControllerReturned (Some e) True \<in> set events \<or> (e = lostLeadership \<and> StoppedLeading True \<in> set events)"
  using assms
proof (induction events arbitrary: s)
  case (Cons ev events)
  then have "elError (electionStep ev s) = Some e \<or> ControllerReturned (Some e) True \<in> set events \<or>
      (e = lostLeadership \<and> StoppedLeading True \<in> set events)"
    by simp
  with electionStep_error_source [of ev s e] show ?case by auto
qed simp

text \<open>
  a replica that loses the lease ends. With leader election, if the callback for the start of leadership ran and leadership
  then stops while the process still runs, the run of the controller returns an error, whatever else the elector calls before
  and after; \<open>run\<close> ends the process on it. The error is that leadership was lost,
  unless the controller itself failed before. Any error that is returned has one of these two causes.
\<close>

theorem lost_leadership_ends:
  assumes "leaderIdentity env hostname = Inr identity" "StartedLeading \<in> set pre" "events = pre @ StoppedLeading True # post"
  shows "\<exists>e. runAssignmentController env hostname True result None events = Some e \<and>
    (e = lostLeadership \<or> ControllerReturned (Some e) True \<in> set pre) \<and>
    ((\<forall>e'. ControllerReturned (Some e') True \<notin> set pre) \<longrightarrow> e = lostLeadership)"
proof -
  let ?s = "electionRun pre newElection"
  have "elError (electionStep (StoppedLeading True) ?s) = Some (case elError ?s of None \<Rightarrow> lostLeadership | Some e \<Rightarrow> e)"
    using electionRun_started [OF assms(2), of newElection] by (simp add: sendError_def split: option.splits)
  then have "runAssignmentController env hostname True result None events = Some (case elError ?s of None \<Rightarrow> lostLeadership | Some e \<Rightarrow> e)"
    using assms(1,3) electionRun_keeps_error by (simp add: runAssignmentController_def)
  moreover have "e = lostLeadership \<or> ControllerReturned (Some e) True \<in> set pre" if "elError ?s = Some e" for e
    using electionRun_error_source [OF that] by (auto simp: newElection_def)
  ultimately show ?thesis by (cases "elError ?s") auto
qed

theorem lost_leadership_ends_witness:
  "runAssignmentController (\<lambda>_. ''pod-1'') (Inr ''host'') True None None
     [NewLeader ''pod-2'', NewLeader ''pod-1'', StartedLeading, StoppedLeading True, ControllerReturned (Some wrongType) False] =
     Some lostLeadership"
  using lost_leadership_ends [of "\<lambda>_. ''pod-1''" "Inr ''host''" "''pod-1''" "[NewLeader ''pod-2'', NewLeader ''pod-1'', StartedLeading]"
      _ "[ControllerReturned (Some wrongType) False]" None]
  by (auto simp: leaderIdentity_def)

end
