(* ===== verification/Server.thy ===== *)
theory Server
  imports Checker
begin

section \<open>The external authorization server\<close>

text \<open>
  \<open>internal/assignment/authz/server.go\<close>: the gRPC method that Envoy or Agentgateway calls before it
  forwards a request. A protobuf message that may be nil is an option. The headers of a request are
  an association list in the order in which Go happens to iterate over the map, so every theorem
  holds for every order. What the server logs is part of its result.
\<close>

definition BackendContextKey :: string where "BackendContextKey = ''backend''"
definition IdentityHeader :: string where "IdentityHeader = ''x-aks-sandbox-identity''"

record httpAttributes =
  haMethod :: string
  haHost :: string
  haPath :: string
  haHeaders :: "(string \<times> string) list"

record attributeContext =
  atContextExtensions :: strmap
  atHttp :: "httpAttributes option"
  atSourceSocket :: "string option"

text \<open>A check request: \<open>None\<close> for a nil request or nil attributes.\<close>

type_synonym checkRequest = "attributeContext option"

definition headerValue :: "(string \<times> string) list \<Rightarrow> string \<Rightarrow> string" where
  "headerValue headers wanted =
     (case filter (\<lambda>h. equalFold (fst h) wanted) headers of [] \<Rightarrow> [] | h # _ \<Rightarrow> snd h)"

definition headerStep :: "strmap \<Rightarrow> string \<times> string \<Rightarrow> strmap" where
  "headerStep m h =
     (let lower = toLower (fst h)
      in if lower = IdentityHeader \<or> hasPrefix lower '':'' then m else m(lower \<mapsto> snd h))"

definition policyHeaders :: "(string \<times> string) list \<Rightarrow> strmap" where
  "policyHeaders headers = foldl headerStep Map.empty headers"

definition normalize :: "checkRequest \<Rightarrow> go_error + CheckInput" where
  "normalize req =
     (case req of
        None \<Rightarrow> Inl (ErrNew ''missing attribute context'')
      | Some attrs \<Rightarrow>
          (let backend = trimSpace (getS (atContextExtensions attrs) BackendContextKey) in
           seqf (guardf (backend = []) (ErrNew ''missing backend context'')) (\<lambda>_.
           case atHttp attrs of
             None \<Rightarrow> Inl (ErrNew ''missing HTTP request attributes'')
           | Some http \<Rightarrow>
               (let identity = headerValue (haHeaders http) IdentityHeader in
                seqf (guardf (haMethod http = [] \<or> haPath http = []) (ErrNew ''missing HTTP method or path'')) (\<lambda>_.
                seqf (guardf (trimSpace identity = []) (ErrNew ''missing sandbox identity'')) (\<lambda>_.
                case NormalizeTarget backend (haMethod http) (haHost http) (haPath http) of
                  Inl e \<Rightarrow> Inl (Errorf ''invalid authorization target'' e)
                | Inr target \<Rightarrow>
                    Inr \<lparr>ciBackend = tgBackend target, ciIdentityToken = identity, ciMethod = tgMethod target,
                         ciHost = tgHost target, ciPath = tgPath target, ciHeaders = policyHeaders (haHeaders http),
                         ciSourceAddress = optS (atSourceSocket attrs), ciDeriveSourceFromIdentity = False\<rparr>))))))"

subsection \<open>Responses and logs\<close>

record checkResponse =
  rpCode :: int
  rpHeadersToRemove :: "string list"
  rpHttpStatus :: "int option"
  rpBody :: string

definition allowedResponse :: checkResponse where
  "allowedResponse = \<lparr>rpCode = 0, rpHeadersToRemove = [IdentityHeader], rpHttpStatus = None, rpBody = []\<rparr>"

definition deniedResponse :: checkResponse where
  "deniedResponse = \<lparr>rpCode = 7, rpHeadersToRemove = [], rpHttpStatus = Some 403, rpBody = ''Forbidden''\<rparr>"

datatype logValue = LogText string | LogBool bool | LogSource SandboxEgressDecisionSource | LogError go_error

fun firstNonEmpty :: "string list \<Rightarrow> string" where
  "firstNonEmpty [] = []"
| "firstNonEmpty (v # vs) = (if v \<noteq> [] then v else firstNonEmpty vs)"

definition decisionLogAttributes :: "CheckInput \<Rightarrow> Decision \<Rightarrow> (string \<times> logValue) list" where
  "decisionLogAttributes input d =
     (let source = (if dSource d = SourceNone then DecisionSourceDeny else dSource d)
      in [(''assignment_name'', LogText (dAssignmentName d)), (''assignment_uid'', LogText (dAssignmentUID d)),
          (''sandbox_id'', LogText (dSandboxID d)), (''pod_uid'', LogText (dPodUID d)),
          (''capability_bundle'', LogText (dCapabilityBundleName d)),
          (''capability_bundle_revision'', LogText (dCapabilityBundleRevision d)),
          (''logical_tenant'', LogText (dLogicalTenant d)), (''team'', LogText (dTeam d)),
          (''permission_level'', LogText (dPermissionLevel d)),
          (''backend'', LogText (firstNonEmpty [dBackend d, ciBackend input])),
          (''method'', LogText (firstNonEmpty [dMethod d, ciMethod input])),
          (''host'', LogText (firstNonEmpty [dHost d, ciHost input])),
          (''path'', LogText (firstNonEmpty [dPath d, ciPath input])),
          (''decision_source'', LogSource source), (''access_request'', LogText (dAccessRequestName d)),
          (''allowed'', LogBool (dAllow d)), (''reason'', LogText (dReason d))])"

type_synonym logLine = "string \<times> (string \<times> logValue) list"

definition serverCheck ::
  "(CheckInput \<Rightarrow> 's \<Rightarrow> (Decision \<times> go_error option) \<times> 's) \<Rightarrow> checkRequest \<Rightarrow> 's \<Rightarrow>
   checkResponse \<times> logLine \<times> 's" where
  "serverCheck checker req s =
     (case normalize req of
        Inl e \<Rightarrow> (deniedResponse, (''rejecting malformed authorization request'', [(''error'', LogError e)]), s)
      | Inr input \<Rightarrow>
          (case checker input s of
             ((d, Some e), s') \<Rightarrow>
               (deniedResponse,
                (''assignment authorization failed'', decisionLogAttributes input d @ [(''error'', LogError e)]), s')
           | ((d, None), s') \<Rightarrow>
               if \<not> dAllow d then
                 (deniedResponse, (''assignment authorization denied'', decisionLogAttributes input d), s')
               else (allowedResponse, (''assignment authorization allowed'', decisionLogAttributes input d), s')))"

subsection \<open>What the policy sees\<close>

lemma headerStep_Some:
  assumes "headerStep m h k = Some v"
  shows "m k = Some v \<or> (k \<noteq> IdentityHeader \<and> \<not> hasPrefix k '':'' \<and> v = snd h \<and> k = toLower (fst h))"
  using assms by (auto simp: headerStep_def Let_def split: if_splits)

lemma policyHeaders_fold:
  "foldl headerStep m0 headers k = Some v \<Longrightarrow>
   m0 k = Some v \<or> (k \<noteq> IdentityHeader \<and> \<not> hasPrefix k '':'' \<and> (\<exists>name. (name, v) \<in> set headers \<and> k = toLower name))"
proof (induction headers arbitrary: m0)
  case Nil
  then show ?case by simp
next
  case (Cons h headers)
  from Cons.IH [of "headerStep m0 h"] Cons.prems headerStep_Some [of m0 h k v] show ?case
    by (cases h) auto
qed

lemma policyHeaders_Some:
  assumes "policyHeaders headers k = Some v"
  shows "k \<noteq> IdentityHeader" "\<not> hasPrefix k '':''" "\<exists>name. (name, v) \<in> set headers \<and> k = toLower name"
  using policyHeaders_fold [of Map.empty headers k v] assms by (auto simp: policyHeaders_def)

lemma normalize_Inr:
  assumes "normalize req = Inr input"
  obtains attrs http where "req = Some attrs" "atHttp attrs = Some http"
    "NormalizeTarget (trimSpace (getS (atContextExtensions attrs) BackendContextKey)) (haMethod http) (haHost http) (haPath http) =
       Inr \<lparr>tgBackend = ciBackend input, tgMethod = ciMethod input, tgHost = ciHost input, tgPath = ciPath input\<rparr>"
    "ciIdentityToken input = headerValue (haHeaders http) IdentityHeader" "trimSpace (ciIdentityToken input) \<noteq> []"
    "ciHeaders input = policyHeaders (haHeaders http)" "\<not> ciDeriveSourceFromIdentity input"
  using assms by (auto simp: normalize_def Let_def flow_simps)

text \<open>
  a policy expression is evaluated on a canonical target and never sees the identity header.
  When a request is accepted for checking, its target is the canonical form of what the gateway
  sent, no header named like the identity header or like an HTTP/2 pseudo header is passed on,
  every header passed on is one of the request's, and the source address is the connection's: it
  is never derived from the identity.
\<close>

theorem normalize_input_safe:
  assumes "normalize req = Inr input"
  shows "ciHeaders input IdentityHeader = None \<and> (\<forall>k. hasPrefix k '':'' \<longrightarrow> ciHeaders input k = None) \<and>
    \<not> ciDeriveSourceFromIdentity input \<and> trimSpace (ciIdentityToken input) \<noteq> [] \<and>
    (\<exists>attrs http. req = Some attrs \<and> atHttp attrs = Some http \<and>
       NormalizeTarget (trimSpace (getS (atContextExtensions attrs) BackendContextKey)) (haMethod http) (haHost http) (haPath http) =
         Inr \<lparr>tgBackend = ciBackend input, tgMethod = ciMethod input, tgHost = ciHost input, tgPath = ciPath input\<rparr> \<and>
       (\<forall>k v. ciHeaders input k = Some v \<longrightarrow> (\<exists>name. (name, v) \<in> set (haHeaders http) \<and> k = toLower name)))"
proof -
  obtain attrs http where n: "req = Some attrs" "atHttp attrs = Some http"
    "NormalizeTarget (trimSpace (getS (atContextExtensions attrs) BackendContextKey)) (haMethod http) (haHost http) (haPath http) =
       Inr \<lparr>tgBackend = ciBackend input, tgMethod = ciMethod input, tgHost = ciHost input, tgPath = ciPath input\<rparr>"
    and tok: "trimSpace (ciIdentityToken input) \<noteq> []"
    and hdrs: "ciHeaders input = policyHeaders (haHeaders http)" and src: "\<not> ciDeriveSourceFromIdentity input"
    using assms by (rule normalize_Inr)
  have "ciHeaders input IdentityHeader = None" "\<forall>k. hasPrefix k '':'' \<longrightarrow> ciHeaders input k = None"
    "\<forall>k v. ciHeaders input k = Some v \<longrightarrow> (\<exists>name. (name, v) \<in> set (haHeaders http) \<and> k = toLower name)"
    unfolding hdrs using policyHeaders_Some [of "haHeaders http"] by (metis not_Some_eq)+
  with n tok src show ?thesis by blast
qed

definition exAttributes :: attributeContext where
  "exAttributes = \<lparr>atContextExtensions = [''backend'' \<mapsto> ''web''],
     atHttp = Some \<lparr>haMethod = ''GET'', haHost = ''Example.com'', haPath = ''/'',
       haHeaders = [(''X-AKS-Sandbox-Identity'', ''token'')]\<rparr>,
     atSourceSocket = Some ''10.0.0.7''\<rparr>"

lemma exNormalize: "normalize (Some exAttributes) = Inr exInput"
proof -
  have t: "NormalizeTarget ''web'' ''GET'' ''Example.com'' ''/'' =
      Inr \<lparr>tgBackend = ''web'', tgMethod = ''GET'', tgHost = ''example.com'', tgPath = ''/''\<rparr>"
    by code_simp
  have ident: "headerValue [(''X-AKS-Sandbox-Identity'', ''token'')] IdentityHeader = ''token''"
    and lower: "toLower ''X-AKS-Sandbox-Identity'' = IdentityHeader"
    and trims: "trimSpace ''web'' = ''web''" "trimSpace ''token'' = ''token''"
    by code_simp+
  show ?thesis
    by (simp add: normalize_def exAttributes_def exInput_def BackendContextKey_def t ident trims lower getS_def
        policyHeaders_def headerStep_def Let_def del: toLower.simps)
qed

theorem normalize_input_safe_witness:
  "normalize (Some exAttributes) = Inr exInput \<and> ciHeaders exInput IdentityHeader = None"
  using normalize_input_safe [OF exNormalize] exNormalize by blast

text \<open>
  the identity can still reach a policy under another spelling. The header that carries the
  token is found by case folding, the headers to hide by lower-casing; the two differ on the long
  s (U+017F), which folds to s but is its own lower case. A request whose identity header is
  spelled with it is accepted, and its token is visible to the policy expression.
\<close>

theorem identity_header_fold_leak:
  "let spelled = ''x-ak'' @ [CHR 0xC5, CHR 0xBF] @ ''-sandbox-identity'' in
   headerValue [(spelled, token)] IdentityHeader = token \<and> policyHeaders [(spelled, token)] spelled = Some token"
proof -
  let ?spelled = "''x-ak'' @ [CHR 0xC5, CHR 0xBF] @ ''-sandbox-identity''"
  have "equalFold ?spelled IdentityHeader" "toLower ?spelled = ?spelled" "?spelled \<noteq> IdentityHeader" "\<not> hasPrefix ?spelled '':''"
    by code_simp+
  then show ?thesis by (simp add: Let_def headerValue_def policyHeaders_def headerStep_def)
qed

subsection \<open>Answers\<close>

context authorization_checker
begin

lemma server_allows:
  assumes "serverCheck Check req s = (response, line, s')" "rpCode response = 0"
  shows "\<exists>input d. normalize req = Inr input \<and> Check input s = ((d, None), s') \<and> dAllow d \<and> Justified s input d \<and>
    response = allowedResponse"
proof (cases "normalize req")
  case (Inl e)
  then show ?thesis using assms by (auto simp: serverCheck_def deniedResponse_def)
next
  case (Inr input)
  obtain d err s1 where run: "Check input s = ((d, err), s1)" by (metis prod.exhaust)
  have "err = None" "dAllow d" "s1 = s'" "response = allowedResponse"
    using assms Inr run by (auto simp: serverCheck_def deniedResponse_def split: option.splits if_splits)
  then show ?thesis using Inr run justified by blast
qed

lemma server_denies:
  assumes "serverCheck Check req s = (response, line, s')" "rpCode response \<noteq> 0"
  shows "response = deniedResponse"
proof (cases "normalize req")
  case (Inr input)
  obtain d err s1 where run: "Check input s = ((d, err), s1)" by (metis prod.exhaust)
  then show ?thesis
    using assms Inr by (auto simp: serverCheck_def allowedResponse_def split: option.splits if_splits)
qed (use assms in \<open>simp add: serverCheck_def\<close>)

end

text \<open>
  C2: the gateway forwards only what the checker justified. The answer is OK exactly when the
  request normalizes and the checker allows it without an error; then every check of the
  authorization holds for that input and the gateway is told to remove the identity header. Any
  other answer is the same 403, whether the request was malformed, denied or failed.
\<close>

theorem server_ok_iff:
  assumes "serverCheck (checkOp env clk) req s = (response, line, s')"
  shows "(rpCode response = 0 \<longleftrightarrow>
      (\<exists>input d. normalize req = Inr input \<and> checkOp env clk input s = ((d, None), s') \<and> dAllow d)) \<and>
    (rpCode response = 0 \<longrightarrow> IdentityHeader \<in> set (rpHeadersToRemove response) \<and>
      (\<exists>input d. normalize req = Inr input \<and> authorised env clk input (fst s) (snd s) d)) \<and>
    (rpCode response \<noteq> 0 \<longrightarrow> response = deniedResponse)"
proof -
  have "rpCode response = 0" if "normalize req = Inr input" "checkOp env clk input s = ((d, None), s')" "dAllow d" for input d
    using assms that by (auto simp: serverCheck_def allowedResponse_def)
  moreover have "\<exists>input d. normalize req = Inr input \<and> checkOp env clk input s = ((d, None), s') \<and> dAllow d \<and>
      authorised env clk input (fst s) (snd s) d \<and> response = allowedResponse" if "rpCode response = 0"
    using kubernetes_checker.server_allows [OF assms that] by (auto simp: authorisedIn_def)
  moreover have "response = deniedResponse" if "rpCode response \<noteq> 0"
    using kubernetes_checker.server_denies [OF assms that] .
  ultimately show ?thesis by (auto simp: allowedResponse_def)
qed

theorem server_ok_iff_witness:
  "\<exists>response line s'. serverCheck (checkOp exEnv exClocks) (Some exAttributes) (exState, ()) = (response, line, s') \<and>
     rpCode response = 0 \<and> IdentityHeader \<in> set (rpHeadersToRemove response)"
proof -
  obtain st' where run: "checkOp exEnv exClocks exInput (exState, ()) = ((exDecision, None), st', ())"
    using exCheck by (auto simp: checkOp_def)
  have allow: "dAllow exDecision" by (simp add: exDecision_def allowedByBundle_def)
  then have srv: "serverCheck (checkOp exEnv exClocks) (Some exAttributes) (exState, ()) =
      (allowedResponse, (''assignment authorization allowed'', decisionLogAttributes exInput exDecision), (st', ()))"
    by (simp add: serverCheck_def exNormalize run)
  from server_ok_iff [OF srv] srv exNormalize run allow show ?thesis by auto
qed

end
