(* ===== verification/EgressProbe.thy ===== *)
theory EgressProbe
  imports Server ConsoleSetup
begin

section \<open>The egress probe\<close>

text \<open>
  \<open>cmd/egress-probe/main.go\<close>: a command that asks the authorization server, in the name of the Pod of an assignment, whether an
  egress request would be allowed. The calls of the cluster and of the authorization server are the fields of \<open>probeClient\<close>; loading
  the configuration of the cluster and connecting are not modelled. The printed lines are the record \<open>probeReport\<close>, with the target as
  the parsed URL.
\<close>

subsection \<open>Options\<close>

record probeOptions =
  poKubeconfig :: string
  poNamespace :: string
  poWorkloads :: string
  poAssignment :: string
  poAddress :: string
  poBackend :: string
  poMethod :: string
  poTarget :: string

definition probeFlags :: "string list" where
  "probeFlags = [''kubeconfig'', ''namespace'', ''workload-namespace'', ''assignment'', ''address'', ''backend'', ''method'', ''target'']"

text \<open>\<open>home\<close> is \<open>clientcmd.RecommendedHomeFile\<close>. All flags are texts.\<close>

definition parseProbeOptions :: "environ \<Rightarrow> string \<Rightarrow> string list \<Rightarrow> go_error + probeOptions" where
  "parseProbeOptions env home args =
     (case parseFlags (\<lambda>_ _ _. 0) (\<lambda>name. if name \<in> set probeFlags then Some StringFlag else None) args of
        Inl e \<Rightarrow> Inl (flagFailure e)
      | Inr (sets, rest) \<Rightarrow>
          let opts = \<lparr>poKubeconfig = flagText sets ''kubeconfig'' (envOr env ''KUBECONFIG'' home),
                      poNamespace = flagText sets ''namespace'' ''aks-sandbox-system'',
                      poWorkloads = flagText sets ''workload-namespace'' ''opensandbox'',
                      poAssignment = flagText sets ''assignment'' [], poAddress = flagText sets ''address'' ''127.0.0.1:19001'',
                      poBackend = flagText sets ''backend'' ''external-web'', poMethod = flagText sets ''method'' ''GET'',
                      poTarget = flagText sets ''target'' []\<rparr>
          in if rest \<noteq> [] then Inl (ErrNew (''unexpected positional arguments: ['' @ joinWith '' '' rest @ '']''))
             else if trimSpace (poAssignment opts) = [] \<or> trimSpace (poTarget opts) = []
             then Inl (ErrNew ''--assignment and --target are required'')
             else Inr opts)"

fun unstructuredString :: "json \<Rightarrow> string list \<Rightarrow> string \<times> bool" where
  "unstructuredString current (field # rest) =
     (case current of
        JObj kvs \<Rightarrow> (case map_of kvs field of None \<Rightarrow> ([], False) | Some v \<Rightarrow> unstructuredString v rest)
      | _ \<Rightarrow> ([], False))"
| "unstructuredString current [] = (case current of JStr s \<Rightarrow> (s, True) | _ \<Rightarrow> ([], False))"

subsection \<open>The check\<close>

record boundTokenRequest =
  btAudiences :: "string list"
  btExpirationSeconds :: int
  btKind :: string
  btAPIVersion :: string
  btName :: string
  btUID :: string

record 'w probeClient =
  pcGetAssignment :: "string \<Rightarrow> string \<Rightarrow> ('w, unstructured) call"
  pcGetPod :: "string \<Rightarrow> string \<Rightarrow> ('w, pod) call"
  pcCreateToken :: "string \<Rightarrow> string \<Rightarrow> boundTokenRequest \<Rightarrow> ('w, string) call"
  pcCheck :: "checkRequest \<Rightarrow> ('w, int) call"

record probeReport =
  prAssignment :: string
  prSandbox :: string
  prPod :: string
  prMethod :: string
  prTarget :: url
  prBackend :: string
  prAllowed :: bool

definition boundToken :: "pod \<Rightarrow> boundTokenRequest" where
  "boundToken p = \<lparr>btAudiences = [''aks-sandbox-capability-gateway''], btExpirationSeconds = 600, btKind = ''Pod'',
     btAPIVersion = ''v1'', btName = metaName p, btUID = metaUID p\<rparr>"

definition probePath :: "url \<Rightarrow> string" where
  "probePath target =
     (let path = (if EscapedPath target = [] then ''/'' else EscapedPath target)
      in if urlRawQuery target \<noteq> [] then path @ ''?'' @ urlRawQuery target else path)"

definition probeRequest :: "probeOptions \<Rightarrow> url \<Rightarrow> string \<Rightarrow> string \<Rightarrow> checkRequest" where
  "probeRequest opts target podIPAddress token =
     Some \<lparr>atContextExtensions = [BackendContextKey \<mapsto> poBackend opts],
           atHttp = Some \<lparr>haMethod = toUpper (poMethod opts), haHost = urlHost target, haPath = probePath target,
                          haHeaders = [(IdentityHeader, token)]\<rparr>,
           atSourceSocket = Some podIPAddress\<rparr>"

definition probeTarget :: "probeOptions \<Rightarrow> go_error + url" where
  "probeTarget opts =
     (case urlParse (poTarget opts) of
        None \<Rightarrow> Inl (ErrNew ''--target must be an absolute URL'')
      | Some u \<Rightarrow> if urlScheme u = [] \<or> urlHost u = [] then Inl (ErrNew ''--target must be an absolute URL'') else Inr u)"

text \<open>\<open>run\<close> after the options: what it prints, if it comes to that, and its error. Code 0 is \<open>OK\<close>, code 7 \<open>PermissionDenied\<close>.\<close>

definition probePod :: "'w probeClient \<Rightarrow> probeOptions \<Rightarrow> unstructured \<Rightarrow> (go_error, 'w, pod) step" where
  "probePod client opts object =
     (let podName = fst (unstructuredString (uStatus object) [''podRef'', ''name'']);
          podUID = fst (unstructuredString (uStatus object) [''podRef'', ''uid''])
      in bindw (guardw (podName = [] \<or> podUID = []) (ErrNew ''assignment is not ready: status.podRef is empty'')) (\<lambda>_.
         bindw (tryw (pcGetPod client (poWorkloads opts) podName) (Errorf ''get sandbox pod'')) (\<lambda>p.
         bindw (guardw (metaUID p \<noteq> podUID \<or> podIP p = []) (ErrNew ''assignment pod identity is stale or incomplete'')) (\<lambda>_.
           retw p))))"

definition runProbe :: "'w probeClient \<Rightarrow> probeOptions \<Rightarrow> (go_error, 'w, probeReport \<times> go_error option) step" where
  "runProbe client opts =
     bindw (liftf (probeTarget opts)) (\<lambda>target.
     bindw (tryw (pcGetAssignment client (poNamespace opts) (poAssignment opts)) (Errorf ''get assignment'')) (\<lambda>object.
     bindw (probePod client opts object) (\<lambda>p.
     bindw (tryw (pcCreateToken client (poWorkloads opts) (podServiceAccountName p) (boundToken p))
              (Errorf ''create bound identity token'')) (\<lambda>token.
     bindw (tryw (pcCheck client (probeRequest opts target (podIP p) token)) (Errorf ''check egress authorization'')) (\<lambda>code.
       retw (\<lparr>prAssignment = metaName object, prSandbox = getS (metaAnnotations object) SandboxIDAnnotation, prPod = metaName p,
              prMethod = toUpper (poMethod opts), prTarget = target, prBackend = poBackend opts, prAllowed = (code = 0)\<rparr>,
             if code \<noteq> 0 \<and> code \<noteq> 7 then Some (ErrNew (''unexpected authorization status code '' @ showInt code)) else None))))))"

subsection \<open>What a report means\<close>

text \<open>The connection delivers the request to the server of \<open>Server\<close> and brings its code back.\<close>

definition delivered ::
  "(CheckInput \<Rightarrow> 's \<Rightarrow> (Decision \<times> go_error option) \<times> 's) \<Rightarrow> checkRequest \<Rightarrow> ('s, int) call" where
  "delivered checker req s = (case serverCheck checker req s of (response, _, s') \<Rightarrow> (Inr (rpCode response), s'))"

lemma unstructuredString_strAt: "fst (unstructuredString j fs) = strAt j fs"
  by (induction j fs rule: unstructuredString.induct) (auto simp: strAt_eq split: json.splits option.splits)

declare unstructuredString.simps [simp del]

lemma equalFold_identity: "equalFold IdentityHeader IdentityHeader"
  by code_simp

lemma toLower_identity: "toLower IdentityHeader = IdentityHeader"
  by code_simp

lemma probe_normalizes:
  assumes "normalize (probeRequest opts target ip token) = Inr input"
  shows "ciSourceAddress input = ip" "ciIdentityToken input = token" "\<not> ciDeriveSourceFromIdentity input" "ciHeaders input = Map.empty"
    "NormalizeTarget (trimSpace (poBackend opts)) (toUpper (poMethod opts)) (urlHost target) (probePath target) =
       Inr \<lparr>tgBackend = ciBackend input, tgMethod = ciMethod input, tgHost = ciHost input, tgPath = ciPath input\<rparr>"
  using assms
  by (auto simp: normalize_def probeRequest_def Let_def flow_simps headerValue_def equalFold_identity policyHeaders_def headerStep_def
      toLower_identity getS_def optS_def)

lemma serverCheck_code:
  assumes "serverCheck checker req s = (response, line, s')"
  shows "rpCode response = 0 \<longleftrightarrow> (\<exists>input d. normalize req = Inr input \<and> checker input s = ((d, None), s') \<and> dAllow d)"
    "rpCode response = 0 \<or> rpCode response = 7"
  using assms
  by (auto simp: serverCheck_def allowedResponse_def deniedResponse_def split: sum.splits prod.splits option.splits if_splits)

lemma probePod_Inr:
  assumes "probePod client opts object w = (Inr p, w')"
  shows "pcGetPod client (poWorkloads opts) (strAt (uStatus object) [''podRef'', ''name'']) w = (Inr p, w') \<and>
    metaUID p = strAt (uStatus object) [''podRef'', ''uid''] \<and> metaUID p \<noteq> [] \<and> podIP p \<noteq> []"
  using assms by (auto simp: probePod_def Let_def flow_simps unstructuredString_strAt)

lemma runProbe_Inr:
  assumes "runProbe client opts w = (Inr (report, err), w')"
  obtains target object p token code w1 w2 w3 where "probeTarget opts = Inr target"
    "pcGetAssignment client (poNamespace opts) (poAssignment opts) w = (Inr object, w1)"
    "pcGetPod client (poWorkloads opts) (strAt (uStatus object) [''podRef'', ''name'']) w1 = (Inr p, w2)"
    "metaUID p = strAt (uStatus object) [''podRef'', ''uid'']" "metaUID p \<noteq> []" "podIP p \<noteq> []"
    "pcCreateToken client (poWorkloads opts) (podServiceAccountName p) (boundToken p) w2 = (Inr token, w3)"
    "pcCheck client (probeRequest opts target (podIP p) token) w3 = (Inr code, w')" "prAllowed report \<longleftrightarrow> code = 0"
    "err \<noteq> None \<longleftrightarrow> code \<noteq> 0 \<and> code \<noteq> 7" "prPod report = metaName p" "prTarget report = target"
proof -
  from assms obtain target object p token code w1 w2 w3 where run: "probeTarget opts = Inr target"
      "pcGetAssignment client (poNamespace opts) (poAssignment opts) w = (Inr object, w1)"
      "probePod client opts object w1 = (Inr p, w2)"
      "pcCreateToken client (poWorkloads opts) (podServiceAccountName p) (boundToken p) w2 = (Inr token, w3)"
      "pcCheck client (probeRequest opts target (podIP p) token) w3 = (Inr code, w')"
    and printed: "prAllowed report \<longleftrightarrow> code = 0" "err \<noteq> None \<longleftrightarrow> code \<noteq> 0 \<and> code \<noteq> 7" "prPod report = metaName p" "prTarget report = target"
    by (auto simp: runProbe_def flow_simps liftf_def split: if_splits)
  show thesis using that [OF run(1,2) _ _ _ _ run(4,5) printed] probePod_Inr [OF run(3)] by auto
qed

text \<open>
  C30: the probe reports the decision for the Pod of the assignment. When its request is delivered to the authorization server
  and the probe comes to print a report, it exits without an error, and the report says that egress is allowed exactly if the checker
  allows, without an error, the request as the server normalizes it. That request carries the address of the Pod that the
  status of the assignment names, with the UID it records, and a token bound to that Pod and to the audience of the gateway;
  its backend, method, host and path are the canonical forms of the options, and the policy sees no other header.
\<close>

theorem probe_reports_decision:
  fixes client :: "'s probeClient"
  assumes "runProbe (client\<lparr>pcCheck := delivered checker\<rparr>) opts w = (Inr (report, err), w')"
  shows "err = None \<and>
    (\<exists>object p token w1 w2 w3.
       pcGetAssignment client (poNamespace opts) (poAssignment opts) w = (Inr object, w1) \<and>
       pcGetPod client (poWorkloads opts) (strAt (uStatus object) [''podRef'', ''name'']) w1 = (Inr p, w2) \<and>
       metaUID p = strAt (uStatus object) [''podRef'', ''uid''] \<and>
       pcCreateToken client (poWorkloads opts) (podServiceAccountName p) (boundToken p) w2 = (Inr token, w3) \<and>
       btUID (boundToken p) = metaUID p \<and>
       (prAllowed report \<longleftrightarrow>
          (\<exists>input d. normalize (probeRequest opts (prTarget report) (podIP p) token) = Inr input \<and>
             ciSourceAddress input = podIP p \<and> ciIdentityToken input = token \<and> \<not> ciDeriveSourceFromIdentity input \<and>
             ciHeaders input = Map.empty \<and>
             NormalizeTarget (trimSpace (poBackend opts)) (toUpper (poMethod opts)) (urlHost (prTarget report)) (probePath (prTarget report)) =
               Inr \<lparr>tgBackend = ciBackend input, tgMethod = ciMethod input, tgHost = ciHost input, tgPath = ciPath input\<rparr> \<and>
             checker input w3 = ((d, None), w') \<and> dAllow d)))"
proof -
  obtain target object p token code w1 w2 w3 where run:
    "pcGetAssignment client (poNamespace opts) (poAssignment opts) w = (Inr object, w1)"
    "pcGetPod client (poWorkloads opts) (strAt (uStatus object) [''podRef'', ''name'']) w1 = (Inr p, w2)"
    "metaUID p = strAt (uStatus object) [''podRef'', ''uid'']"
    "pcCreateToken client (poWorkloads opts) (podServiceAccountName p) (boundToken p) w2 = (Inr token, w3)"
    and sent: "delivered checker (probeRequest opts target (podIP p) token) w3 = (Inr code, w')"
    and report: "prAllowed report \<longleftrightarrow> code = 0" "err \<noteq> None \<longleftrightarrow> code \<noteq> 0 \<and> code \<noteq> 7" "prTarget report = target"
    using runProbe_Inr [OF assms] by simp metis
  obtain response line where srv: "serverCheck checker (probeRequest opts target (podIP p) token) w3 = (response, line, w')"
    and code: "code = rpCode response"
    using sent by (auto simp: delivered_def split: prod.splits)
  have "err = None" using serverCheck_code(2) [OF srv] report(2) code by auto
  moreover have "btUID (boundToken p) = metaUID p" by (simp add: boundToken_def)
  moreover have "prAllowed report \<longleftrightarrow>
      (\<exists>input d. normalize (probeRequest opts target (podIP p) token) = Inr input \<and> checker input w3 = ((d, None), w') \<and> dAllow d)"
    using serverCheck_code(1) [OF srv] report(1) code by simp
  ultimately show ?thesis using run probe_normalizes [of opts target "podIP p" token] report(3) by blast
qed

text \<open>A probe for the Pod of the example of the checker.\<close>

definition epOptions :: probeOptions where
  "epOptions = \<lparr>poKubeconfig = ''config'', poNamespace = ''assignments'', poWorkloads = ''sandboxes'', poAssignment = ''task-1'',
     poAddress = ''127.0.0.1:19001'', poBackend = ''web'', poMethod = ''get'', poTarget = ''http://Example.com''\<rparr>"

definition epTarget :: url where
  "epTarget = emptyUrl\<lparr>urlScheme := ''http'', urlHost := ''Example.com''\<rparr>"

definition epAssignment :: unstructured where
  "epAssignment = exAssignment\<lparr>uStatus := JObj [(''podRef'', JObj [(''name'', JStr ''sandbox-0''), (''uid'', JStr ''pod-1'')])]\<rparr>"

definition epClient :: "(string checkerState \<times> unit) probeClient" where
  "epClient = \<lparr>pcGetAssignment = (\<lambda>_ _. okw epAssignment), pcGetPod = (\<lambda>_ _. okw exPod), pcCreateToken = (\<lambda>_ _ _. okw ''token''),
     pcCheck = (\<lambda>_. okw 13)\<rparr>"

lemma ep_options:
  "parseProbeOptions (\<lambda>_. []) ''config'' [''--assignment'', ''task-1'', ''-namespace=assignments'', ''-workload-namespace'', ''sandboxes'',
     ''-backend'', ''web'', ''-method=get'', ''--target=http://Example.com''] = Inr epOptions"
  by code_simp

lemma ep_target: "probeTarget epOptions = Inr epTarget"
  by code_simp

lemma ep_normalize: "normalize (probeRequest epOptions epTarget ''10.0.0.7'' ''token'') = Inr exInput"
proof -
  have t: "NormalizeTarget ''web'' ''GET'' ''Example.com'' ''/'' =
      Inr \<lparr>tgBackend = ''web'', tgMethod = ''GET'', tgHost = ''example.com'', tgPath = ''/''\<rparr>"
    by code_simp
  have "probePath epTarget = ''/''" "toUpper ''get'' = ''GET''" "trimSpace ''web'' = ''web''" "trimSpace ''token'' = ''token''"
    by code_simp+
  then show ?thesis
    by (simp add: normalize_def probeRequest_def epOptions_def epTarget_def exInput_def BackendContextKey_def t getS_def headerValue_def
        equalFold_identity toLower_identity policyHeaders_def headerStep_def Let_def optS_def del: toLower.simps toUpper.simps)
qed

theorem probe_reports_decision_witness:
  "\<exists>report w'. runProbe (epClient\<lparr>pcCheck := delivered (checkOp exEnv exClocks)\<rparr>) epOptions (exState, ()) = (Inr (report, None), w') \<and>
     prAllowed report"
proof -
  obtain st' where run: "checkOp exEnv exClocks exInput (exState, ()) = ((exDecision, None), st', ())"
    using exCheck by (auto simp: checkOp_def)
  have allow: "dAllow exDecision" by (simp add: exDecision_def allowedByBundle_def)
  have ids: "metaUID exPod = ''pod-1''" "podIP exPod = ''10.0.0.7''" by (simp_all add: exPod_def)
  have pod: "probePod (epClient\<lparr>pcCheck := delivered (checkOp exEnv exClocks)\<rparr>) epOptions epAssignment w = (Inr exPod, w)" for w
    using ids by (simp add: probePod_def epClient_def epAssignment_def unstructuredString_strAt strAt_eq Let_def bindw_def tryw_def guardw_def)
  have "delivered (checkOp exEnv exClocks) (probeRequest epOptions epTarget (podIP exPod) ''token'') (exState, ()) = (Inr 0, st', ())"
    using run allow ep_normalize by (simp add: delivered_def serverCheck_def ids allowedResponse_def)
  then obtain report err where ran: "runProbe (epClient\<lparr>pcCheck := delivered (checkOp exEnv exClocks)\<rparr>) epOptions (exState, ()) =
      (Inr (report, err), st', ())" and ok: "prAllowed report"
    by (simp add: runProbe_def liftf_def ep_target epClient_def pod [unfolded epClient_def, simplified] bindw_def tryw_def)
  from probe_reports_decision [OF ran] ran ok show ?thesis by blast
qed

end
