(* ===== verification/Spec2Isabelle.thy ===== *)
theory Spec2Isabelle
  imports Caches Doctor Assignmentd EgressProbe
begin

text \<open>
  \<^bold>\<open>The program.\<close> The repository governs sandboxes of OpenSandbox on AKS. A caller of the lifecycle
  API asks for a sandbox by naming a template; the governance decides with which image, limits and
  network capabilities it runs, which egress it may make, and which short-lived credentials it may
  hold. Its parts, under \<open>src/\<close>, and the theories that model them:

  \<^item> \<open>api/assignment/v1alpha1/types.go\<close>, \<open>internal/assignment/types.go\<close>: the custom resources and the
    shared records, in \<open>Objects\<close> (those of credentials in \<open>BrokerKube\<close>).
  \<^item> \<open>internal/assignment/governance\<close>: canonical egress targets, access requests, revisions of
    policies, simulation of a policy change, in \<open>Governance\<close>.
  \<^item> \<open>internal/assignment/authz\<close>: \<open>server.go\<close> answers the gateway (\<open>Server\<close>), \<open>checker.go\<close> decides
    (\<open>Checker\<close>, its indexes and counters in \<open>Caches\<close>, the shared records in \<open>AuthzTypes\<close>), \<open>audit.go\<close> records (\<open>AuditSink\<close>).
  \<^item> \<open>internal/assignment/controller\<close>: binds an assignment to its workload and Pod and publishes its
    status (\<open>Controller\<close>).
  \<^item> \<open>internal/assignment/opensandboxapi\<close>: the lifecycle facade before the OpenSandbox server
    (\<open>Handler\<close>) and the resolution of templates (\<open>Template\<close>); \<open>callerauth\<close> authenticates its callers
    (\<open>Callerauth\<close>), \<open>admission\<close> keeps the budget of a tenant (\<open>Admission\<close>), \<open>store/kubernetes\<close> keeps
    the assignments (\<open>Store\<close>).
  \<^item> \<open>internal/assignment/credentialbroker\<close>: issues, verifies and revokes credentials (\<open>Broker\<close>), on
    Kubernetes (\<open>BrokerKube\<close>).
  \<^item> \<open>cmd/aks-sandbox-dashboard\<close>: the web console. \<open>auth.go\<close> and \<open>mise.go\<close> sign users in and keep their
    sessions (\<open>Session\<close>); \<open>requester_authorization.go\<close> and \<open>principals.go\<close> guard the embedded
    dashboard and its client by tenant (\<open>Requester\<close>); \<open>governance.go\<close> takes and decides requests for
    access (\<open>Dashboard\<close>) and shows the pages (\<open>DashboardPages\<close>); \<open>capabilities.go\<close>, \<open>templates.go\<close> and
    \<open>tenants.go\<close> create bundles, templates and tenant policies (\<open>DashboardAdmin\<close>); \<open>config.go\<close>, \<open>dev_auth.go\<close>,
    \<open>capability_transport.go\<close> and \<open>main.go\<close> set it up: flags, the choice of the authenticator, the transport to
    the facade (\<open>ConsoleSetup\<close>).
  \<^item> \<open>cmd/assignmentd\<close>: the process that holds facade, checker, broker and controller; its settings, the
    routes of its API address and its leader election (\<open>Assignmentd\<close>).
  \<^item> \<open>internal/doctor\<close> with \<open>cmd/sandbox-doctor\<close> examines a cluster (\<open>Doctor\<close>); \<open>cmd/egress-probe\<close> asks the
    authorization server in the name of a sandbox (\<open>EgressProbe\<close>).
  \<^item> \<open>harness/server.py\<close>, in Python, runs the commands of an agent in a sandbox; of it \<open>DashboardAdmin\<close> has the two functions that
    apply the command policy which the console writes into a bundle.

  They interact through the custom resources. The facade asks the caller authorizer, the template resolver and
  the admission, creates an assignment in the store and forwards the shaped request to the upstream
  server; the controller finds workload and Pod and publishes Ready; the checker accepts egress of a
  Pod only through its ready assignment and its resolved bundle; the broker issues a credential on
  a decision of the checker and accepts it only while assignment and Pod are unchanged. The console writes
  the bundles, templates and policies that the other parts read, and the approvals that the checker honours.

  \<^bold>\<open>How the code is modelled.\<close> A struct is a record with the fields of the source, a method a function
  of the same name (with a prefix or a capital where two files share a name) that takes the struct and
  the world. Go errors are values; early returns are chains of steps, \<open>Prelude\<close>. Calls to the API
  server, to the upstream server and to the token review are parameters, the fields of a client
  record of each theory, on a world that the model does not look into; so other writers and failures
  at any call are included. Reads of the clock are arguments or calls. Code that is not in the repository
  is a parameter as well: CEL, the JWT library, the codec of the OpenSandbox SDK, \<open>uuid\<close>, the
  converters of \<open>apimachinery\<close>; where a theorem needs documented behaviour of it, this is a named hypothesis such as
  \<open>jwtReadsBack\<close>, \<open>retriesConflicts\<close>, \<open>keepsExtensions\<close> or \<open>servesRevocations\<close>, with an instance in the witness. The standard library is
  modelled: bytes, UTF-8 and case (\<open>GoStrings\<close>), JSON and SHA-256 (\<open>GoEncoding\<close>, \<open>GoJson\<close>), addresses
  (\<open>GoNet\<close>), timestamps and the calendar (\<open>GoTime\<close>, \<open>GoCalendar\<close>), headers and requests (\<open>GoHttp\<close>),
  paths, URLs and quoted patterns (\<open>GoUrl\<close>, \<open>GoUri\<close>), cookies, forms and redirects (\<open>GoWeb\<close>), command lines and durations (\<open>GoFlag\<close>). Integers are words where the code relies on their width: the counters of the
  checker and of the audit sink, the tally of active sandboxes, the lifetime of a credential, the minutes of a form. The texts that \<open>html/template\<close>
  makes of the data of a page are parameters; the theorems speak of the data.

  \<^bold>\<open>Interfaces.\<close> The Go interfaces are locales, interpreted on the model of their Kubernetes
  implementation: \<open>authorization_checker\<close> (\<open>Checker\<close>), \<open>assignment_store\<close> (\<open>Store\<close>), \<open>caller_authorizer\<close>
  (\<open>Callerauth\<close>), \<open>template_resolver\<close> (\<open>Template\<close>), \<open>credential_backends\<close> (\<open>BrokerKube\<close>). The contract of the
  session store of the console is the locale \<open>session_store\<close> (\<open>Session\<close>).

  \<^bold>\<open>What is shown.\<close>
  \<^item> Egress: an allow is justified by fresh caches, a reviewed identity, the one live Pod, its ready
    assignment, the resolved bundle, a rule or a valid approval, and a durable audit record; a rule
    that holds is honoured; Pod and assignment are unique in the whole cache; caches change no decision and keep no review beyond its token; the gateway
    forwards exactly what the checker allowed.
  \<^item> Lifecycle: Ready is published only on observed facts, a settled status is left alone, finalizers are removed only when
    the sandbox is gone; a caller touches sandboxes of its own tenants only, except on paths that
    match no operation; the upstream server creates only what the template shaped, within the budget,
    once per idempotency key; pause and resume are fenced; responses hide the assignment.
  \<^item> Credentials: issued exactly on an allow, for the target that was checked, for one to fifteen minutes; accepted only
    with a known key, unrevoked, for the live sandbox; readable until they expire; revocations
    implement a map of live revocations.
  \<^item> Console: sessions stand for validated tokens and implement a map of live sessions; nothing but the public
    paths is served without one; access is requested only for a denied target of an own tenant and approved
    only by an administrator of it, within request and budget; bundles say what the lines of the form say, and the
    harness runs exactly their commands; a template resolves to what its form said; policies stay in their limits; each table of the pages holds the rows of the tenants of the reader and no others. A console that
    starts is bound to a loopback address or asks for sessions, and creates sandboxes from its configured template only.
  \<^item> The process and its tools: settings that load are enough for every constructor; from the bearer token of a caller to
    the tenant of the sandbox every step is checked; a replica that loses the lease ends with an error. The doctor
    reports ready exactly when its contract holds, the probe reports what the checker decides for the Pod.
  \<^item> Across components, in this theory: the readers of a status agree on Ready, what the controller
    published as ready the checker accepts as long as its caches hold the same bundle, what the checker allowed the validator of the broker confirms, what the
    console approves the checker honours until it ends, and a page of a sandbox needs a session of somebody who may use it.

  \<^bold>\<open>Bounds and fuel.\<close> Two loops wait for another party: the tenant lease in \<open>Admission\<close> and \<open>waitReady\<close> in
  \<open>Handler\<close>. They run on fuel; with a deadline on the context enough fuel gives a result, which is proved
  there. The JSON reader takes one more unit of fuel than the text has bytes, which \<open>GoJson\<close> explains. All other
  functions terminate by structure or by a measure.

  \<^bold>\<open>Not modelled.\<close> Opening listeners, making clients, starting informers, tickers and shutdown, which only call
  libraries; the elector of \<open>client-go\<close>, of which the model has the callbacks in every order; log lines; the texts of the HTML pages and of the browser script; the floating point product in \<open>time.ParseDuration\<close>, a parameter of
  \<open>GoFlag\<close>; generated deep copies, since the records of the model are values; manifests, scripts and the rest of the Python harness. The
  mutexes leave no trace in a model of one call at a time: \<open>createMu\<close> of the facade and the locks of the
  caches serialize what is a single step here. A verb \<open>%q\<close> in an error text is rendered as a JSON
  string, which agrees on the names that Kubernetes accepts. \<open>slices.SortFunc\<close> may order equal
  elements in any way; the model keeps their order. The treatment of hop headers by
  \<open>httputil.ReverseProxy\<close> is a parameter of \<open>Handler\<close>.
\<close>

section \<open>The components together\<close>

subsection \<open>The status of an assignment\<close>

text \<open>
  The controller publishes a status; the checker, the store behind the lifecycle facade and the
  validator of the credential broker each read it with code of their own.
\<close>

definition published :: "unstructured \<Rightarrow> json option \<Rightarrow> json option \<Rightarrow> json option \<Rightarrow> json list \<Rightarrow> unstructured" where
  "published object resolved workloadRef podRef conditions =
     object\<lparr>uStatus := newStatus resolved workloadRef podRef conditions\<rparr>"

lemma readyCondition_raw:
  "isObject raw \<and> readyCondition \<lparr>cdType = stringField raw ''type'', cdStatus = stringField raw ''status'',
      cdReason = stringField raw ''reason'', cdMessage = stringField raw ''message''\<rparr> \<longleftrightarrow>
   jsonGet raw ''type'' = Some (JStr ''Ready'') \<and> jsonGet raw ''status'' = Some (JStr ''True'')"
  by (cases raw) (auto simp: readyCondition_def stringField_def jsonGet_def split: option.splits json.splits)

lemma convertConditions_ready: "list_ex readyCondition (convertConditions raws) \<longleftrightarrow> readyIn raws"
proof -
  have "list_ex readyCondition (convertConditions raws) \<longleftrightarrow>
      (\<exists>raw \<in> set raws. isObject raw \<and> readyCondition \<lparr>cdType = stringField raw ''type'', cdStatus = stringField raw ''status'',
         cdReason = stringField raw ''reason'', cdMessage = stringField raw ''message''\<rparr>)"
    by (auto simp: convertConditions_def list_ex_iff)
  then show ?thesis by (simp only: readyCondition_raw readyIn_def list_ex_iff)
qed

lemma convert_ready:
  assumes "convert object = Inr a"
  shows "aReady a \<longleftrightarrow> readyIn (sliceAt (uStatus object) [''conditions''])"
proof -
  obtain v where slice: "nestedSlice (uStatus object) [''conditions''] = Inr v"
    and conditions: "aConditions a = convertConditions (case v of None \<Rightarrow> [] | Some raws \<Rightarrow> raws)"
    using assms by (auto simp: convert_def flow_simps Let_def)
  have "sliceAt (uStatus object) [''conditions''] = (case v of None \<Rightarrow> [] | Some raws \<Rightarrow> raws)"
    using slice by (simp add: sliceAt_def valueOr_def split: option.splits)
  then show ?thesis using convert_fields(2) [OF assms] conditions by (simp add: convertConditions_ready)
qed

lemma published_conditions: "sliceAt (uStatus (published object resolved wr pr conditions)) [''conditions''] = conditions"
  by (simp add: published_def newStatus_def sliceAt_eq)

lemma published_ready:
  "conditionTrue (published object resolved wr pr conditions) ''Ready'' \<longleftrightarrow> readyIn conditions"
  "grantConditionTrue (published object resolved wr pr conditions) ''Ready'' \<longleftrightarrow> readyIn conditions"
  by (simp_all add: conditionTrue_def grantConditionTrue_def published_conditions readyIn_def)

text \<open>
  C36: all readers agree on Ready. Whatever conditions the controller publishes, the checker, the validator of
  the broker and the view of the store take the assignment for ready exactly when the controller
  published it as ready; and a pass publishes it as ready exactly when its outcome claims so.
\<close>

theorem readers_agree_on_ready:
  "(conditionTrue (published object resolved wr pr conditions) ''Ready'' \<longleftrightarrow> claimsReady (WriteStatus resolved wr pr conditions)) \<and>
   (grantConditionTrue (published object resolved wr pr conditions) ''Ready'' \<longleftrightarrow> claimsReady (WriteStatus resolved wr pr conditions)) \<and>
   (\<forall>a. convert (published object resolved wr pr conditions) = Inr a \<longrightarrow>
      (aReady a \<longleftrightarrow> claimsReady (WriteStatus resolved wr pr conditions)))"
  using convert_ready by (auto simp: published_ready published_conditions)

lemma published_fields:
  assumes "object' = published object (Some (resolvedReference b)) (Some (workloadReference workload)) (Some (podReference p)) conditions"
  shows "strAt (uStatus object') [''podRef'', ''uid''] = metaUID p" "resolvedName object' = metaName b"
    "resolvedUID object' = metaUID b" "resolvedRevision object' = policyRevision b"
    "metaDeletionTimestamp object' = metaDeletionTimestamp object" "metaAnnotations object' = metaAnnotations object"
    "uSpec object' = uSpec object"
  by (simp_all add: assms published_def newStatus_def strAt_eq podReference_def resolvedReference_def resolvedName_def resolvedUID_def
      resolvedRevision_def)

text \<open>
  What the client of the controller does with names: an object is read under its name, and the typed
  assignment has the bundle name of the object.
\<close>

definition namesKept :: "('ast, 'prg, 'w) kubeClient \<Rightarrow> bool" where
  "namesKept client \<longleftrightarrow>
     (\<forall>name w b w'. kcGetBundle client name w = (Inr b, w') \<longrightarrow> metaName b = name) \<and>
     (\<forall>object typed. kcToAssignment client object = Inr typed \<longrightarrow>
        cbrName (saCapabilityBundleRef (sasSpec typed)) = strAt (uSpec object) [''capabilityBundleRef'', ''name''])"

text \<open>
  C28: what the controller publishes as ready the checker accepts, as far as its caches still bear it out. Let a pass of the controller end in a Ready
  status. Take any checker whose cache holds, as the one assignment of the Pod that the controller accepted, a version of the assignment with that status and the same spec,
  whatever else of it has changed. Then it finds the assignment ready for this Pod exactly when this version is neither being deleted nor paused. And of any bundle that its cache holds under
  the name of the bundle that the controller validated, it resolves the assignment to this bundle exactly when it is not being deleted and has the UID and the content, by its
  revision, that the controller validated.
\<close>

theorem ready_is_accepted_by_checker:
  assumes pass: "finishw (reconcileDecide client config object clock) w = (WriteStatus resolved wr pr conditions, w')"
    and ready: "readyIn conditions"
    and names: "namesKept client" "strAt (uSpec object) [''capabilityBundleRef'', ''name''] \<noteq> []"
  shows "\<exists>typed b typedBundle workload p. bundleValid client w typed b typedBundle \<and>
    podAccepted client w config object workload typedBundle p \<and> resolved = Some (resolvedReference b) \<and> pr = Some (podReference p) \<and>
    (\<forall>(env :: ('ast, 'prg, 'v) checkerEnv) object'.
       ceAssignmentsByIndex env (metaUID p) = Inr [object'] \<and> uStatus object' = newStatus resolved wr pr conditions \<and> uSpec object' = uSpec object \<longrightarrow>
       (readyAssignment env (metaUID p) = Inr object' \<longleftrightarrow>
          metaDeletionTimestamp object' = None \<and> getS (metaAnnotations object') PausedAnnotation \<noteq> ''true'') \<and>
       (\<forall>b'. ceBundleByKey env (ceAssignmentNamespace env @ ''/'' @ metaName b) = Inr (Some b') \<longrightarrow>
          (resolvedBundle env object' = Inr b' \<longleftrightarrow>
             metaDeletionTimestamp b' = None \<and> metaUID b' = metaUID b \<and> PolicyRevision (specMap (uSpec b')) = PolicyRevision (specMap (uSpec b)))))"
proof -
  have "claimsReady (WriteStatus resolved wr pr conditions)" using ready by simp
  from reconcile_ready [OF pass this] obtain typed b typedBundle workload p where
    meta: "kcToAssignment client object = Inr typed"
    and valid: "bundleValid client w typed b typedBundle" "podAccepted client w config object workload typedBundle p"
    and out: "resolved = Some (resolvedReference b)" "wr = Some (workloadReference workload)" "pr = Some (podReference p)"
    by auto
  have ref: "strAt (uSpec object) [''capabilityBundleRef'', ''name''] = cbrName (saCapabilityBundleRef (sasSpec typed))"
    using names(1) meta by (simp add: namesKept_def)
  have "returns client w (kcGetBundle client (cbrName (saCapabilityBundleRef (sasSpec typed)))) b"
    using valid(1) by (simp add: bundleValid_def)
  then have "metaName b = cbrName (saCapabilityBundleRef (sasSpec typed))"
    using names(1) by (auto simp: namesKept_def observes_def)
  with ref have name: "strAt (uSpec object) [''capabilityBundleRef'', ''name''] = metaName b" by simp
  have accepted: "(readyAssignment env (metaUID p) = Inr object' \<longleftrightarrow>
        metaDeletionTimestamp object' = None \<and> getS (metaAnnotations object') PausedAnnotation \<noteq> ''true'') \<and>
      (\<forall>b'. ceBundleByKey env (ceAssignmentNamespace env @ ''/'' @ metaName b) = Inr (Some b') \<longrightarrow>
        (resolvedBundle env object' = Inr b' \<longleftrightarrow>
           metaDeletionTimestamp b' = None \<and> metaUID b' = metaUID b \<and> PolicyRevision (specMap (uSpec b')) = PolicyRevision (specMap (uSpec b))))"
    if cached: "ceAssignmentsByIndex env (metaUID p) = Inr [object']" "uStatus object' = newStatus resolved wr pr conditions" "uSpec object' = uSpec object"
    for env :: "('ast, 'prg, 'v) checkerEnv" and object'
  proof -
    have "published object' resolved wr pr conditions = object'" using cached(2) by (simp add: published_def)
    then have same: "object' = published object' (Some (resolvedReference b)) (Some (workloadReference workload)) (Some (podReference p)) conditions"
      by (simp add: out)
    note fields = published_fields [OF same]
    have "conditionTrue object' ''Ready''" using ready by (subst same) (simp add: published_ready)
    then show ?thesis
      unfolding readyAssignment_Inr resolvedBundle_Inr assignmentReady_def bundleResolved_def
      using cached names(2) name fields(1-4) by (auto simp: checkerPolicyRevision_def policyRevision_def)
  qed
  show ?thesis
    by (rule exI [of _ typed], rule exI [of _ b], rule exI [of _ typedBundle], rule exI [of _ workload], rule exI [of _ p])
      (use valid out accepted in blast)
qed

theorem readers_agree_on_ready_witness:
  "\<exists>a. convert (published (ctlAssignment [] JNull) None None None (readyConditions (ctlAssignment [] JNull) (\<lambda>_. 0) True ExternalMediatorIdentity)) = Inr a \<and>
     aReady a"
proof -
  let ?object = "published (ctlAssignment [] JNull) None None None (readyConditions (ctlAssignment [] JNull) (\<lambda>_. 0) True ExternalMediatorIdentity)"
  obtain a where a: "convert ?object = Inr a"
    by (auto simp: convert_def published_def newStatus_def nestedString_def nestedSlice_def ctlAssignment_def Let_def seqf_def)
  from readers_agree_on_ready a have "aReady a" by (auto simp: ready_ready)
  with a show ?thesis by blast
qed

text \<open>The example cluster of the controller, seen by a checker whose caches hold later versions of the assignment and of a bundle.\<close>

definition syncEnv :: "unstructured \<Rightarrow> unstructured \<Rightarrow> (string, string, unit) checkerEnv" where
  "syncEnv object b = exEnv\<lparr>ceAssignmentsByIndex := (\<lambda>_. Inr [object]), ceBundleByKey := (\<lambda>_. Inr (Some b))\<rparr>"

definition syncClient :: "(string, string, nat) kubeClient" where
  "syncClient = (ctlClient True)\<lparr>
     kcGetBundle := (\<lambda>name. if name = ''tools'' then okw ctlBundle else missing),
     kcToAssignment := (\<lambda>object. if object = ctlAssignment [assignmentFinalizer] JNull then Inr ctlTyped else Inl wrongType)\<rparr>"

lemma syncClient_run:
  "reconcileDecide syncClient ctlConfig (ctlAssignment [assignmentFinalizer] JNull) (\<lambda>_. 0) w = (Inr ctlOutcome, w)"
proof -
  let ?object = "ctlAssignment [assignmentFinalizer] JNull"
  have pods: "bindPod syncClient = bindPod (ctlClient True)" "bindWorkload syncClient = bindWorkload (ctlClient True)"
    "checkPod syncClient = checkPod (ctlClient True)" "resolveTemplate syncClient = resolveTemplate (ctlClient True)"
    by (simp_all add: fun_eq_iff syncClient_def bindPod_def bindWorkload_def checkPod_def resolveTemplate_def matchingPods_def
        matchingWorkloads_def allocatedPoolPods_def Let_def cong: if_cong)
  have resolved: "resolveBundle syncClient object clock ctlTyped None v = (Inr (ctlBundle, ctlTypedBundle), v)" for object clock v
    using ctl_resolve_stage(2) [of True object clock v] by (simp add: resolveBundle_def syncClient_def Let_def ctlTyped_def ctlClient_def)
  have "kcToAssignment syncClient ?object = Inr ctlTyped" by (simp add: syncClient_def)
  moreover have "metaDeletionTimestamp ?object = None" "metaFinalizers ?object = [assignmentFinalizer]"
    "getS (metaAnnotations ?object) PausedAnnotation \<noteq> ''true''"
    "identityRequired ctlTypedBundle" "ccEgressIdentityMode ctlConfig = ExternalMediatorIdentity"
    by (simp_all add: ctl_defs annotation_defs getS_def identityRequired_def)
  ultimately show ?thesis
    by (simp add: reconcileDecide_def Let_def pods resolved ctl_pod_stage ctl_workload_stage ctl_resolve_stage ctlOutcome_def
        bindw_def guardw_def)
qed

theorem ready_is_accepted_by_checker_witness:
  "\<exists>object b. metaResourceVersion object = ''8'' \<and> metaResourceVersion b = ''9'' \<and>
     readyAssignment (syncEnv object b) (metaUID ctlPod) = Inr object \<and> resolvedBundle (syncEnv object b) object = Inr b \<and>
     resolvedBundle (syncEnv object (b\<lparr>metaUID := ''other''\<rparr>)) object \<noteq> Inr (b\<lparr>metaUID := ''other''\<rparr>)"
proof -
  let ?object = "ctlAssignment [assignmentFinalizer] JNull"
  let ?conditions = "readyConditions ?object (\<lambda>_. 0) True ExternalMediatorIdentity"
  let ?published = "published ?object (Some (resolvedReference ctlBundle)) (Some (workloadReference ctlWorkload))
      (Some (podReference ctlPod)) ?conditions"
  let ?cached = "?published\<lparr>metaResourceVersion := ''8''\<rparr>" and ?b = "ctlBundle\<lparr>metaResourceVersion := ''9''\<rparr>"
  have run: "finishw (reconcileDecide syncClient ctlConfig ?object (\<lambda>_. 0)) 0 =
      (WriteStatus (Some (resolvedReference ctlBundle)) (Some (workloadReference ctlWorkload)) (Some (podReference ctlPod)) ?conditions, 0)"
    by (simp add: finishw_def syncClient_run ctlOutcome_def)
  have names: "namesKept syncClient" "strAt (uSpec ?object) [''capabilityBundleRef'', ''name''] \<noteq> []"
    by (auto simp: namesKept_def syncClient_def missing_def ctlBundle_def ctlTyped_def ctlAssignment_def strAt_eq split: if_splits)
  from ready_is_accepted_by_checker [OF run ready_ready names, where 'ast = string and 'prg = string and 'v = unit]
  obtain b p where same: "Some (resolvedReference ctlBundle) = Some (resolvedReference b)" "Some (podReference ctlPod) = Some (podReference p)"
    and accepts: "\<forall>(env :: (string, string, unit) checkerEnv) object'.
       ceAssignmentsByIndex env (metaUID p) = Inr [object'] \<and>
       uStatus object' = newStatus (Some (resolvedReference ctlBundle)) (Some (workloadReference ctlWorkload)) (Some (podReference ctlPod)) ?conditions \<and>
       uSpec object' = uSpec ?object \<longrightarrow>
       (readyAssignment env (metaUID p) = Inr object' \<longleftrightarrow>
          metaDeletionTimestamp object' = None \<and> getS (metaAnnotations object') PausedAnnotation \<noteq> ''true'') \<and>
       (\<forall>b'. ceBundleByKey env (ceAssignmentNamespace env @ ''/'' @ metaName b) = Inr (Some b') \<longrightarrow>
          (resolvedBundle env object' = Inr b' \<longleftrightarrow>
             metaDeletionTimestamp b' = None \<and> metaUID b' = metaUID b \<and> PolicyRevision (specMap (uSpec b')) = PolicyRevision (specMap (uSpec b))))"
    by (elim exE conjE)
  have ids: "metaUID b = metaUID ctlBundle" "PolicyRevision (specMap (uSpec b)) = PolicyRevision (specMap (uSpec ctlBundle))" "metaUID p = metaUID ctlPod"
    using same by (simp_all add: resolvedReference_def podReference_def policyRevision_def)
  have cached: "ceAssignmentsByIndex (syncEnv ?cached b') uid = Inr [?cached]" "ceBundleByKey (syncEnv ?cached b') key = Inr (Some b')"
    "uStatus ?cached = newStatus (Some (resolvedReference ctlBundle)) (Some (workloadReference ctlWorkload)) (Some (podReference ctlPod)) ?conditions"
    "uSpec ?cached = uSpec ?object" for uid key b'
    by (simp_all add: syncEnv_def published_def)
  have live: "metaDeletionTimestamp ?cached = None" "getS (metaAnnotations ?cached) PausedAnnotation \<noteq> ''true''"
    "metaDeletionTimestamp ctlBundle = None" "metaUID ctlBundle = ''bundle-1''"
    by (simp_all add: published_def ctl_defs annotation_defs getS_def)
  have "(readyAssignment (syncEnv ?cached b') (metaUID ctlPod) = Inr ?cached) \<and>
      (resolvedBundle (syncEnv ?cached b') ?cached = Inr b' \<longleftrightarrow> metaDeletionTimestamp b' = None \<and> metaUID b' = ''bundle-1'' \<and>
         PolicyRevision (specMap (uSpec b')) = PolicyRevision (specMap (uSpec ctlBundle)))" for b'
    using accepts [THEN spec, THEN spec, THEN mp, OF conjI [OF cached(1) conjI [OF cached(3,4)]], of b'] cached(2) [of b'] live
    unfolding ids by simp
  then show ?thesis by (intro exI [of _ ?cached] exI [of _ ?b]) (simp add: live)
qed

subsection \<open>Credentials on the Kubernetes checker\<close>

text \<open>
  The API server answers with the same assignment as the informer of the checker holds, and with
  its Pod, alive.
\<close>

definition liveCopies ::
  "('ast, 'prg, 'v) checkerEnv \<Rightarrow> 'w brokerClient \<Rightarrow> string \<Rightarrow> string \<Rightarrow> 'w \<Rightarrow> bool" where
  "liveCopies env client ans wns v \<longleftrightarrow>
     (\<forall>uid object. ceAssignmentsByIndex env uid = Inr [object] \<longrightarrow>
        (\<exists>v1 q v2. bkGetAssignment client ans (metaName object) v = (Inr object, v1) \<and>
           bkGetPod client (grantPodNamespace wns object) (strAt (uStatus object) [''podRef'', ''name'']) v1 = (Inr q, v2) \<and>
           metaUID q = strAt (uStatus object) [''podRef'', ''uid''] \<and> metaDeletionTimestamp q = None \<and> podPhase q \<noteq> ''Failed''))"

lemma authorised_fields:
  assumes "authorised env clk input st w d"
  obtains object where "ceAssignmentsByIndex env (dPodUID d) = Inr [object]" "metaDeletionTimestamp object = None"
    "getS (metaAnnotations object) PausedAnnotation \<noteq> ''true''" "conditionTrue object ''Ready''"
    "strAt (uStatus object) [''podRef'', ''uid''] = dPodUID d" "dAssignmentName d = metaName object" "dAssignmentUID d = metaUID object"
    "dSandboxID d = getS (metaAnnotations object) SandboxIDAnnotation" "dCapabilityBundleName d = resolvedName object"
    "dCapabilityBundleRevision d = resolvedRevision object"
  using assms unfolding authorised_def assignmentReady_def
  by (auto simp: allowedByBundle_def grantAllowed_def decisionFor_def)

text \<open>
  C31: a credential is issued on the same facts on which it is accepted. When the broker issues a
  credential with the decision of the Kubernetes checker, the checker had authorized the target for the
  identity that was presented; and as long as the API server answers with the assignment that the
  checker used and with its Pod alive, the validator confirms the binding of the credential.
\<close>

theorem issued_credential_validates:
  assumes run: "issuedRun b r s request target d now grantID token s'"
    and checker: "brCheck b = checkOp env clk" and live: "liveCopies env client ans wns v"
  shows "authorised env clk (issueInput request target) (fst s) (snd s) d \<and>
    (\<exists>v'. ValidateGrant client ans wns (grantClaims (brConfig b) request target d now grantID) v = (Inr (), v'))"
proof -
  obtain s1 where "checkOp env clk (issueInput request target) s = ((d, None), s1)" "dAllow d"
    using run checker by (auto simp: issuedRun_def)
  then have auth: "authorised env clk (issueInput request target) (fst s) (snd s) d"
    using kubernetes_checker.allow_cases(2) by (fastforce simp: authorisedIn_def)
  then obtain object where index: "ceAssignmentsByIndex env (dPodUID d) = Inr [object]"
    and facts: "metaDeletionTimestamp object = None" "getS (metaAnnotations object) PausedAnnotation \<noteq> ''true''"
      "conditionTrue object ''Ready''" "strAt (uStatus object) [''podRef'', ''uid''] = dPodUID d" "dAssignmentName d = metaName object"
      "dAssignmentUID d = metaUID object" "dSandboxID d = getS (metaAnnotations object) SandboxIDAnnotation"
      "dCapabilityBundleName d = resolvedName object" "dCapabilityBundleRevision d = resolvedRevision object"
    by (rule authorised_fields)
  obtain v1 q v2 where reads: "bkGetAssignment client ans (metaName object) v = (Inr object, v1)"
    "bkGetPod client (grantPodNamespace wns object) (strAt (uStatus object) [''podRef'', ''name'']) v1 = (Inr q, v2)"
    and pod: "metaUID q = dPodUID d" "metaDeletionTimestamp q = None" "podPhase q \<noteq> ''Failed''"
    using live index facts(4) unfolding liveCopies_def by metis
  have "grantConditionTrue object ''Ready''" using facts(3) by (simp add: grantConditionTrue_def conditionTrue_def)
  with facts reads pod have "ValidateGrant client ans wns (grantClaims (brConfig b) request target d now grantID) v = (Inr (), v2)"
    by (simp add: ValidateGrant_def grantClaims_def resolvedName_def resolvedRevision_def bindw_def guardw_def)
  with auth show ?thesis by blast
qed

text \<open>A broker on the example checker.\<close>

definition kxBody :: string where
  "kxBody = ''{'' @ bxQuote ''identityToken'' @ '':'' @ bxQuote ''token'' @ '','' @ bxQuote ''backend'' @ '':'' @ bxQuote ''web'' @ '','' @
     bxQuote ''method'' @ '':'' @ bxQuote ''GET'' @ '','' @ bxQuote ''host'' @ '':'' @ bxQuote ''example.com'' @ '','' @
     bxQuote ''path'' @ '':'' @ bxQuote ''/'' @ '','' @ bxQuote ''taskId'' @ '':'' @ bxQuote ''t'' @ '','' @ bxQuote ''ttlSeconds'' @ '':60}''"

definition kxHttp :: request where
  "kxHttp = bxHttp\<lparr>rqBody := Inr kxBody\<rparr>"

definition kxRequest :: issueRequest where
  "kxRequest = \<lparr>irIdentityToken = ''token'', irBackend = ''web'', irMethod = ''GET'', irHost = ''example.com'', irPath = ''/'',
     irTaskID = ''t'', irTTLSeconds = 60\<rparr>"

definition kxTarget :: Target where
  "kxTarget = \<lparr>tgBackend = ''web'', tgMethod = ''GET'', tgHost = ''example.com'', tgPath = ''/''\<rparr>"

definition kxInput :: CheckInput where
  "kxInput = exInput\<lparr>ciSourceAddress := [], ciDeriveSourceFromIdentity := True\<rparr>"

definition kxDecision :: Decision where
  "kxDecision = allowedByBundle (decisionFor kxInput ''pod-1'' exAssignment exBundle)"

definition kxBroker :: "(string checkerState \<times> unit) broker" where
  "kxBroker = \<lparr>brCheck = checkOp exEnv exClocks, brValidateGrant = (\<lambda>_. okw ()), brAudit = None, brRevoke = (\<lambda>_ w. (None, w)),
     brIsRevoked = (\<lambda>_. okw False), brConfig = bxConfig, brNow = (\<lambda>w. (101 * second, w)), brNewUUID = (\<lambda>w. (''grant'', w)),
     brJwt = \<lparr>jwtSign = (\<lambda>_ _ _. Inr ''signed''), jwtParse = (\<lambda>_ _ _ _. Inl (ErrNew ''unused''))\<rparr>, brLocalTime = marshalTime\<rparr>"

definition kxClient :: "unit brokerClient" where
  "kxClient = \<lparr>bkGetAssignment = (\<lambda>_ _. okw exAssignment), bkGetPod = (\<lambda>_ _. okw (rvPod\<lparr>metaUID := ''pod-1''\<rparr>)),
     bkRevocationObject = (\<lambda>_. Inl wrongType), bkCreateRevocation = (\<lambda>_ _. okw ()), bkGetRevocation = (\<lambda>_ _. missing),
     bkDeleteRevocation = (\<lambda>_ _. okw ()), bkEventObject = (\<lambda>_. Inl wrongType), bkCreateEvent = (\<lambda>_ _. okw ()), bkNow = (\<lambda>w. (0, w))\<rparr>"

lemma kxCheck: "\<exists>st'. check exEnv exClocks kxInput exState () = ((kxDecision, None), st', ())"
proof -
  obtain st1 where rv: "reviewToken exEnv (clkToken exClocks) (ciIdentityToken kxInput) exState () = (Inr exIdentity, st1, ())"
    using exReview_identity by (simp add: reviewToken_def Let_def exState_def exEnv_def callw_def)
  have fr: "fresh (clkFresh exClocks) exState"
    by (simp add: fresh_def exState_def exClocks_def timeSub_def second_def freshnessLimit_def)
  have pol: "policyAllows exEnv kxInput (effectiveSource kxInput exPod) exAssignment exBundle (csPrograms exState)"
    by (simp add: policyAllows_def allowExpression_def nestedString_def exBundle_def exBundleSpec_def kxInput_def exInput_def
        programFor_def compileProgram_def exEnv_def exCel_def exState_def)
  have audit: "ceAudit exEnv = Some (\<lambda>_ w. (Inr (), w))" by (simp add: exEnv_def)
  have "podMatches exEnv kxInput exIdentity exPod"
    by (simp add: podMatches_def ex_env_defs kxInput_def effectiveSource_def exPod_source sourceMatchesPod_def)
  moreover note objs = exObjects [unfolded bindObjects_Inr]
  moreover have "kxDecision = allowedByBundle (decisionFor kxInput (riPodUID exIdentity) exAssignment exBundle)"
    by (simp add: kxDecision_def exIdentity_def)
  ultimately show ?thesis
    using check_complete [OF fr rv _ _ _ _ pol audit, of "()"] by (auto simp: exAssignment_def)
qed

lemma kxRun: "\<exists>s'. issuedRun kxBroker kxHttp (exState, ()) kxRequest kxTarget kxDecision (101 * second) ''grant'' ''signed'' s'"
proof -
  have "parseValue (Suc (length kxBody)) 0 kxBody =
      Some (JObj [(''identityToken'', JStr ''token''), (''backend'', JStr ''web''), (''method'', JStr ''GET''),
        (''host'', JStr ''example.com''), (''path'', JStr ''/''), (''taskId'', JStr ''t''), (''ttlSeconds'', JInt 60)], [])"
    by code_simp
  moreover have "decodeIssueRequest (JObj [(''identityToken'', JStr ''token''), (''backend'', JStr ''web''), (''method'', JStr ''GET''),
        (''host'', JStr ''example.com''), (''path'', JStr ''/''), (''taskId'', JStr ''t''), (''ttlSeconds'', JInt 60)]) = Some kxRequest"
    by code_simp
  moreover have "length kxBody \<le> maxRequestBytes" by (simp add: kxBody_def bxQuote_def maxRequestBytes_def)
  ultimately have decoded: "decodeJSON kxHttp = Inr kxRequest"
    by (simp add: decodeJSON_def kxHttp_def bxHttp_def skipSpace_def not_less [symmetric])
  have "NormalizeTarget ''web'' ''GET'' ''example.com'' ''/'' = Inr kxTarget" "validTaskID ''t''" by code_simp+
  moreover have "requestTTL kxRequest = 60 * second" by (simp add: requestTTL_def kxRequest_def second_def)
  moreover have "issueInput kxRequest kxTarget = kxInput"
    by (simp add: issueInput_def kxRequest_def kxTarget_def kxInput_def exInput_def)
  moreover obtain st' where "check exEnv exClocks kxInput exState () = ((kxDecision, None), st', ())" using kxCheck by blast
  moreover have "dAllow kxDecision" by (simp add: kxDecision_def allowedByBundle_def)
  ultimately show ?thesis
    using decoded by (simp add: issuedRun_def kxBroker_def checkOp_def recorded_def minimumTTL_def maximumTTL_def second_def kxRequest_def)
qed

theorem issued_credential_validates_witness:
  "\<exists>v'. ValidateGrant kxClient ''assignments'' ''workloads''
     (grantClaims (brConfig kxBroker) kxRequest kxTarget kxDecision (101 * second) ''grant'') () = (Inr (), v')"
proof -
  obtain s' where run: "issuedRun kxBroker kxHttp (exState, ()) kxRequest kxTarget kxDecision (101 * second) ''grant'' ''signed'' s'"
    using kxRun by blast
  have checker: "brCheck kxBroker = checkOp exEnv exClocks" by (simp add: kxBroker_def)
  have "liveCopies exEnv kxClient ''assignments'' ''workloads'' ()"
    by (auto simp: liveCopies_def exEnv_def kxClient_def rvPod_def object_meta.extend_def emptyMeta_def exAssignment_def strAt_eq
        split: if_splits)
  from issued_credential_validates [OF run checker this] show ?thesis by blast
qed

subsection \<open>From the dashboard to the gateway\<close>

text \<open>
  An approval is written by the dashboard and honoured by the checker. Between the two the object is stored: \<open>metav1.Time\<close> keeps whole
  seconds.
\<close>

definition wholeSecond :: "time \<Rightarrow> time" where
  "wholeSecond t = t div second * second"

definition storedAs :: "SandboxAccessRequest \<Rightarrow> SandboxAccessRequestStatus \<Rightarrow> SandboxAccessRequest \<Rightarrow> bool" where
  "storedAs request status stored \<longleftrightarrow>
     sarSpec stored = sarSpec request \<and>
     sarStatus stored = status\<lparr>rtApprovedAt := map_option wholeSecond (rtApprovedAt status), rtExpiresAt := map_option wholeSecond (rtExpiresAt status)\<rparr>"

lemma wholeSecond_span:
  assumes "60 * second \<le> duration" and "duration \<le> n * second"
  shows "wholeSecond now < wholeSecond (now + duration)" "wholeSecond (now + duration) - wholeSecond now \<le> n * second"
proof -
  have pos: "0 < second" by (simp add: second_def)
  have "(now + 60 * second) div second \<le> (now + duration) div second" using assms(1) pos by (intro zdiv_mono1) auto
  moreover have "(now + 60 * second) div second = now div second + 60" using pos by (simp add: div_mult_self2)
  ultimately have "now div second < (now + duration) div second" by simp
  then show "wholeSecond now < wholeSecond (now + duration)" using pos by (simp add: wholeSecond_def)
  have "(now + duration) div second \<le> (now + n * second) div second" using assms(2) pos by (intro zdiv_mono1) auto
  also have "\<dots> = now div second + n" using pos by (simp add: div_mult_self2)
  finally have "((now + duration) div second - now div second) * second \<le> n * second" using pos by (intro mult_right_mono) auto
  then show "wholeSecond (now + duration) - wholeSecond now \<le> n * second" by (simp add: wholeSecond_def algebra_simps)
qed

lemma requested_range:
  "ValidateAccessRequestSpec u n spec = None \<Longrightarrow>
     MinimumRequestedDuration \<le> rsRequestedDurationSeconds spec * second \<and> rsRequestedDurationSeconds spec * second \<le> MaximumRequestedDuration"
  by (auto simp: ValidateAccessRequestSpec_def Let_def split: if_splits option.splits sum.splits)

text \<open>
  C22: an approval of the dashboard is what the gateway honours. Whatever the grounds of the approval, the request as stored counts, for a
  decision about its assignment, Pod, policy revision and exact target, as a grant by its name from the second of the
  approval to the second of its end, and as invalid before and after: no status that the dashboard writes is rejected by the
  checks of the checker on approver, reason, order and length of the interval.
\<close>

theorem approval_is_honoured:
  assumes grounds: "approvalGrounds c lib g r name w object request status w1" and stored: "storedAs request status stored"
    and match: "grantBound stored d" "grantTarget stored d"
  shows "\<exists>now duration. rtApprovedAt status = Some now \<and> rtExpiresAt status = Some (now + duration) \<and>
    60 * second \<le> duration \<and> duration \<le> rsRequestedDurationSeconds (sarSpec request) * second \<and>
    (\<forall>t. grantVerdict (glUuidOk lib) (glDnsErrors lib) d t stored =
       (if wholeSecond now \<le> t \<and> t < wholeSecond (now + duration) then GrantMatch (metaName stored) else GrantInvalid))"
proof -
  let ?n = "rsRequestedDurationSeconds (sarSpec request)"
  from grounds obtain identity duration reason now where g:
      "ValidateIdentity (glUuidOk lib) (adminIdentity identity) = None" "3 \<le> length (trimSpace reason)"
      "ValidateAccessRequestSpec (glUuidOk lib) (glDnsErrors lib) (sarSpec request) = None"
      "60 * second \<le> duration" "duration \<le> ?n * second"
      "status = \<lparr>rtState = SandboxAccessRequestApproved, rtApprover = Some (adminIdentity identity), rtDecisionReason = reason,
          rtApprovedAt = Some now, rtExpiresAt = Some (now + duration)\<rparr>"
    unfolding approvalGrounds_def decidedBy_def parseDuration_Inr MinimumRequestedDuration_def by blast
  note span = wholeSecond_span [OF g(4,5), of now]
  have range: "?n * second \<le> MaximumRequestedDuration" using requested_range [OF g(3)] by simp
  have sub: "timeSub (wholeSecond (now + duration)) (wholeSecond now) = wholeSecond (now + duration) - wholeSecond now"
    using span range by (simp add: timeSub_def MaximumRequestedDuration_def second_def)
  have reason: "trimSpace reason \<noteq> []" using g(2) by auto
  have spec: "sarSpec stored = sarSpec request" using stored by (simp add: storedAs_def)
  have "validApproval (glUuidOk lib) stored t \<longleftrightarrow> wholeSecond now \<le> t \<and> t < wholeSecond (now + duration)" for t
    using stored g(1) reason span range sub by (auto simp: validApproval_def storedAs_def g(6) not_less)
  then have "\<forall>t. grantVerdict (glUuidOk lib) (glDnsErrors lib) d t stored =
      (if wholeSecond now \<le> t \<and> t < wholeSecond (now + duration) then GrantMatch (metaName stored) else GrantInvalid)"
    using match g(3) by (simp add: grantVerdict_def spec)
  then show ?thesis using g(4,5,6) by (intro exI [of _ now] exI [of _ duration]) simp
qed

text \<open>The stack of handlers of the console (\<open>main.go\<close>): \<open>auth.Middleware(requesterAuthorizer.Middleware(app.Handler()))\<close>.\<close>

definition consoleHandler ::
  "'w authEnv \<Rightarrow> dashboardAuth \<Rightarrow> ('x, 'w authWorld) requesterLifecycleAuthorizer \<Rightarrow>
     (dashRequest \<Rightarrow> 'w authWorld \<Rightarrow> response \<times> 'w authWorld) \<Rightarrow> dashRequest \<Rightarrow> 'w authWorld \<Rightarrow> response \<times> 'w authWorld" where
  "consoleHandler env auth a app = sessionMiddleware env auth (requesterMiddleware a app)"

text \<open>
  C23: a page of a sandbox needs a session of somebody who may use the sandbox. Whatever the method, a request for a path of the console
  that names a sandbox is answered without the embedded dashboard, or it carries a cookie whose session is stored and has not ended, and the sandbox is granted
  to the identity of this session; the dashboard then sees this identity, whatever the request claimed.
\<close>

theorem console_sandbox_pages:
  assumes "serving env auth w" "\<not> publicPath auth (rqPath r)"
    and path: "relativePath a (rqPath r) = Some rel" "sandboxPathValue rel = Some sandboxID"
    and run: "consoleHandler env auth a app r w = (response, w')"
  shows "response = unauthenticated auth r \<or> rspStatus response \<in> {401, 403, 503} \<or>
    (\<exists>session w1 w2 w3. signedIn env auth r w session w1 \<and> sandboxGranted a (Some (dsIdentity session)) w1 sandboxID w2 \<and>
       app (inSession r session) w3 = (response, w'))"
proof (rule disjCI)
  assume refused: "\<not> (rspStatus response \<in> {401, 403, 503} \<or> (\<exists>session w1 w2 w3. signedIn env auth r w session w1 \<and>
       sandboxGranted a (Some (dsIdentity session)) w1 sandboxID w2 \<and> app (inSession r session) w3 = (response, w')))"
  have "\<not> (\<exists>session w1. signedIn env auth r w session w1 \<and> requesterMiddleware a app (inSession r session) w1 = (response, w'))"
  proof
    assume "\<exists>session w1. signedIn env auth r w session w1 \<and> requesterMiddleware a app (inSession r session) w1 = (response, w')"
    then obtain session w1 where s: "signedIn env auth r w session w1" "requesterMiddleware a app (inSession r session) w1 = (response, w')"
      by blast
    have "relativePath a (rqPath (inSession r session)) = Some rel" using path(1) by (simp add: inSession_def)
    from sandbox_page_guarded [OF this path(2) s(2)] show False
      using refused s(1) by (auto simp: inSession_def)
  qed
  then show "response = unauthenticated auth r"
    using sessionMiddleware_cases [OF assms(1,2) run [unfolded consoleHandler_def]] by blast
qed

lemma gx_approval:
  obtains object request status w where "approvalGrounds gxClient gxLib gxDashboard gxApprove ''access-1'' (1000 * second) object request status w"
proof -
  have "case prepareApproval gxClient gxLib gxDashboard gxApprove ''access-1'' (1000 * second) of (Inl _, _) \<Rightarrow> False | (Inr _, _) \<Rightarrow> True"
    by code_simp
  then obtain x w where run: "prepareApproval gxClient gxLib gxDashboard gxApprove ''access-1'' (1000 * second) = (Inr x, w)"
    by (auto split: prod.splits sum.splits)
  obtain object request status where "x = (object, request, status)" by (cases x)
  with run show thesis using prepareApproval_Inr that by metis
qed

theorem approval_is_honoured_witness:
  "\<exists>stored d now. grantVerdict (glUuidOk gxLib) (glDnsErrors gxLib) d (wholeSecond now) stored = GrantMatch (metaName stored)"
proof -
  obtain object request status w where g: "approvalGrounds gxClient gxLib gxDashboard gxApprove ''access-1'' (1000 * second) object request status w"
    by (rule gx_approval)
  let ?stored = "request\<lparr>sarStatus := status\<lparr>rtApprovedAt := map_option wholeSecond (rtApprovedAt status),
    rtExpiresAt := map_option wholeSecond (rtExpiresAt status)\<rparr>\<rparr>"
  let ?s = "sarSpec request"
  let ?d = "kxDecision\<lparr>dAssignmentUID := arUID (rsAssignmentRef ?s), dAssignmentName := arName (rsAssignmentRef ?s), dPodUID := rsPodUID ?s,
    dCapabilityBundleRevision := rsBasePolicyRevision ?s, dBackend := rsBackend ?s, dMethod := rsMethod ?s, dHost := rsHost ?s, dPath := rsPath ?s\<rparr>"
  have "rtState status = SandboxAccessRequestApproved" using g unfolding approvalGrounds_def by auto
  then have match: "grantBound ?stored ?d" "grantTarget ?stored ?d" by (simp_all add: grantBound_def grantTarget_def)
  have "storedAs request status ?stored" by (simp add: storedAs_def)
  from approval_is_honoured [OF g this match] obtain now duration where
      "60 * second \<le> duration" "\<forall>t. grantVerdict (glUuidOk gxLib) (glDnsErrors gxLib) ?d t ?stored =
       (if wholeSecond now \<le> t \<and> t < wholeSecond (now + duration) then GrantMatch (metaName ?stored) else GrantInvalid)"
    by blast
  moreover from this(1) have "wholeSecond now < wholeSecond (now + duration)"
    by (intro wholeSecond_span(1) [of _ "duration div second + 1"]) (auto simp: second_def)
  ultimately have "grantVerdict (glUuidOk gxLib) (glDnsErrors gxLib) ?d (wholeSecond now) ?stored = GrantMatch (metaName ?stored)" by simp
  then show ?thesis by blast
qed

definition cxPage :: dashRequest where
  "cxPage = sxRequest ''/osb/dashboard/sandboxes/sb1'' [(''Cookie'', [''osb_dashboard_session='' @ sxToken])]"

definition cxAuthorizer :: "(unit, int authWorld) requesterLifecycleAuthorizer" where
  "cxAuthorizer = rqxAuthorizer"

lemma cx_serving: "serving sxEnv sxAuth sxSignedIn"
proof -
  have "serving sxEnv sxAuth sxStart" unfolding sxStart_def by (rule serving.start)
  then show ?thesis using sx_signIn by (rule serving.signIn)
qed

lemma cx_path: "relativePath cxAuthorizer (rqPath cxPage) = Some ''/dashboard/sandboxes/sb1''" "sandboxPathValue ''/dashboard/sandboxes/sb1'' = Some ''sb1''"
  "\<not> publicPath sxAuth (rqPath cxPage)" "requestCookie (rqHeaders cxPage) sessionCookieName = Some sxToken"
  by code_simp+

lemma cx_authorized: "authorizeSandbox cxAuthorizer (Some sxIdentity) ''sb1'' w = (Inr (), w)"
proof -
  have "requesterTenants cxAuthorizer (Some sxIdentity) w = (Inr (Some [''blue'']), w)"
    by (simp add: requesterTenants_def authenticatedIdentityFromContext_def loadPrincipalScopes_def principalMatches_def
        bindw_def tryw_def caught_def cxAuthorizer_def sxIdentity_def rqx_simps)
  then show ?thesis
    by (simp add: authorizeSandbox_def sandboxAllowed_def sandboxLogicalTenant_def cxAuthorizer_def rqx_runs)
qed

lemma cx_run: "consoleHandler sxEnv sxAuth cxAuthorizer sxNext cxPage sxSignedIn = (\<lparr>rspStatus = 200, rspHeaders = [], rspBody = ''Alice''\<rparr>, sxSignedIn)"
proof -
  have session: "getSession sxEnv sxToken sxSignedIn = (Some sxSession, sxSignedIn)"
    unfolding getSession_Some by (simp add: sxSignedIn_def sxEnv_def sxStart_def sxSession_def second_def sx_token_set)
  have "requesterMiddleware cxAuthorizer sxNext (inSession cxPage sxSession) sxSignedIn = sxNext (inSession cxPage sxSession) sxSignedIn"
    using cx_path(1,2) cx_authorized
    by (simp add: requesterMiddleware_def authorizeRequest_def Let_def inSession_def sxSession_def isAggregateSandboxPath_def cxPage_def sxRequest_def)
  with session cx_path show ?thesis
    by (simp add: consoleHandler_def sessionMiddleware_def sxNext_def inSession_def sxSession_def sxIdentity_def)
qed

theorem console_sandbox_pages_witness:
  "\<exists>session w1 w2. signedIn sxEnv sxAuth cxPage sxSignedIn session w1 \<and> sandboxGranted cxAuthorizer (Some (dsIdentity session)) w1 ''sb1'' w2"
proof -
  have "rspStatus (unauthenticated sxAuth cxPage) \<noteq> 200" by (simp add: unauthenticated_def)
  then have "\<lparr>rspStatus = 200, rspHeaders = [], rspBody = ''Alice''\<rparr> \<noteq> unauthenticated sxAuth cxPage" by (metis response.select_convs(1))
  with console_sandbox_pages [OF cx_serving cx_path(3,1,2) cx_run] show ?thesis by auto
qed

end
